(* ===== verification/Prelude.thy ===== *)
theory Prelude
  imports Main "HOL-Library.Sublist"
begin

text \<open>
  Shared vocabulary of the development: the exceptions the TypeScript code throws, the dynamic
  JavaScript values that travel through fields declared \<open>any\<close>, the string and number
  primitives of the language (template literals, \<open>parseInt\<close>, \<open>BigInt\<close>,
  \<open>endsWith\<close>, \<open>split\<close>, \<open>toLowerCase\<close>), and the error monad
  \<open>exn + 'a\<close> of the pure functions that can throw. Generic list lemmas used by several
  components stand at the end.

  Strings are lists of 8-bit characters; the identifiers the gateway handles (NEAR account ids,
  hashes, decimal numbers) are ASCII, where these agree with JavaScript's UTF-16 strings.
\<close>

section \<open>Collections of facts\<close>

named_theorems run_simps \<open>how the combinators of effectful code run\<close>
named_theorems keeps_intros \<open>rules that bound the external calls a computation makes\<close>
named_theorems js_simps \<open>evaluation of the JavaScript primitives\<close>

section \<open>Exceptions\<close>

datatype exn =
    TypeError string
  | SyntaxError string
  | ThrownError string
  | HttpError nat string
  | Rejection string

fun exn_message :: "exn \<Rightarrow> string" where
  "exn_message (TypeError m) = m"
| "exn_message (SyntaxError m) = m"
| "exn_message (ThrownError m) = m"
| "exn_message (HttpError c m) = m"
| "exn_message (Rejection m) = m"

section \<open>JavaScript values\<close>

datatype jsval =
    JUndef
  | JNull
  | JBool bool
  | JNum int
  | JNaN
  | JBig int
  | JStr string
  | JArr "jsval list"
  | JObj "(string \<times> jsval) list"

definition nullish :: "jsval \<Rightarrow> bool" where
  "nullish v \<longleftrightarrow> v = JUndef \<or> v = JNull"

fun truthy :: "jsval \<Rightarrow> bool" where
  "truthy JUndef = False"
| "truthy JNull = False"
| "truthy (JBool b) = b"
| "truthy (JNum n) = (n \<noteq> 0)"
| "truthy JNaN = False"
| "truthy (JBig n) = (n \<noteq> 0)"
| "truthy (JStr s) = (s \<noteq> [])"
| "truthy (JArr xs) = True"
| "truthy (JObj fs) = True"

text \<open>Reading a property of an object; a missing property is \<open>undefined\<close>.\<close>

definition obj_get :: "(string \<times> jsval) list \<Rightarrow> string \<Rightarrow> jsval" where
  "obj_get fs k = (case map_of fs k of None \<Rightarrow> JUndef | Some v \<Rightarrow> v)"

text \<open>\<open>v.k\<close>: a TypeError on \<open>undefined\<close> and \<open>null\<close>.\<close>

fun js_get :: "jsval \<Rightarrow> string \<Rightarrow> exn + jsval" where
  "js_get JUndef k = Inl (TypeError k)"
| "js_get JNull k = Inl (TypeError k)"
| "js_get (JObj fs) k = Inr (obj_get fs k)"
| "js_get _ k = Inr JUndef"

text \<open>\<open>v?.k\<close>.\<close>

fun js_get_opt :: "jsval \<Rightarrow> string \<Rightarrow> jsval" where
  "js_get_opt (JObj fs) k = obj_get fs k"
| "js_get_opt _ k = JUndef"

section \<open>Strings\<close>

definition starts_with :: "string \<Rightarrow> string \<Rightarrow> bool" where
  "starts_with s p \<longleftrightarrow> take (length p) s = p"

definition ends_with :: "string \<Rightarrow> string \<Rightarrow> bool" where
  "ends_with s p \<longleftrightarrow> length p \<le> length s \<and> drop (length s - length p) s = p"

fun index_of :: "string \<Rightarrow> string \<Rightarrow> int" where
  "index_of s p =
     (if starts_with s p then 0
      else case s of [] \<Rightarrow> - 1
                   | _ # t \<Rightarrow> (let i = index_of t p in if i = - 1 then - 1 else 1 + i))"

declare index_of.simps [simp del]

definition str_includes :: "string \<Rightarrow> string \<Rightarrow> bool" where
  "str_includes s p \<longleftrightarrow> index_of s p \<noteq> - 1"

definition char_lower :: "char \<Rightarrow> char" where
  "char_lower c =
     (let n = (of_char c :: nat) in if 65 \<le> n \<and> n \<le> 90 then char_of (n + 32) else c)"

definition to_lower :: "string \<Rightarrow> string" where
  "to_lower s = map char_lower s"

fun split_on :: "char \<Rightarrow> string \<Rightarrow> string list" where
  "split_on c [] = [[]]"
| "split_on c (x # xs) =
     (if x = c then [] # split_on c xs
      else case split_on c xs of [] \<Rightarrow> [[x]] | w # ws \<Rightarrow> (x # w) # ws)"

fun join_with :: "string \<Rightarrow> string list \<Rightarrow> string" where
  "join_with sep [] = []"
| "join_with sep [w] = w"
| "join_with sep (w # v # ws) = w @ sep @ join_with sep (v # ws)"

lemma starts_with_iff: "starts_with s p \<longleftrightarrow> (\<exists>t. s = p @ t)"
  unfolding starts_with_def by (metis append_eq_conv_conj append_take_drop_id)

lemma ends_with_iff: "ends_with s p \<longleftrightarrow> (\<exists>t. s = t @ p)"
proof
  assume "ends_with s p"
  then have "s = take (length s - length p) s @ p"
    unfolding ends_with_def by (metis append_take_drop_id)
  then show "\<exists>t. s = t @ p" by blast
qed (auto simp: ends_with_def)

lemma ends_with_Nil [simp]: "ends_with s []"
  by (simp add: ends_with_def)

lemma ends_with_append [simp]: "ends_with (t @ p) p"
  by (auto simp: ends_with_iff)

lemma starts_with_append [simp]: "starts_with (p @ t) p"
  by (auto simp: starts_with_iff)

lemma split_on_not_Nil [simp]: "split_on c s \<noteq> []"
  by (induction s) (auto split: list.splits)

lemma split_on_no_sep: "c \<notin> set s \<Longrightarrow> split_on c s = [s]"
  by (induction s) auto

lemma split_on_append: "split_on c (s @ c # t) = split_on c s @ split_on c t"
proof (induction s)
  case Nil
  show ?case by simp
next
  case (Cons x s)
  show ?case
  proof (cases "split_on c s")
    case Nil
    then show ?thesis by simp
  next
    case (Cons w ws)
    with Cons.IH show ?thesis by auto
  qed
qed

lemma last_split_on_append: "c \<notin> set t \<Longrightarrow> last (split_on c (s @ c # t)) = t"
  by (simp add: split_on_append split_on_no_sep)

section \<open>Numbers and their text\<close>

definition digit_char :: "nat \<Rightarrow> char" where
  "digit_char d = char_of (48 + d)"

definition is_digit :: "char \<Rightarrow> bool" where
  "is_digit c \<longleftrightarrow> 48 \<le> (of_char c :: nat) \<and> (of_char c :: nat) \<le> 57"

definition digit_val :: "char \<Rightarrow> nat" where
  "digit_val c = (of_char c :: nat) - 48"

definition is_space :: "char \<Rightarrow> bool" where
  "is_space c \<longleftrightarrow> (of_char c :: nat) \<in> {9, 10, 11, 12, 13, 32}"

fun nat_str :: "nat \<Rightarrow> string" where
  "nat_str n =
     (if n < 10 then [digit_char n] else nat_str (n div 10) @ [digit_char (n mod 10)])"

declare nat_str.simps [simp del]

definition int_str :: "int \<Rightarrow> string" where
  "int_str i = (if i < 0 then CHR ''-'' # nat_str (nat (- i)) else nat_str (nat i))"

definition dec_val :: "string \<Rightarrow> nat" where
  "dec_val s = foldl (\<lambda>a c. 10 * a + digit_val c) 0 s"

lemma is_digit_digit_char [simp]: "d < 10 \<Longrightarrow> is_digit (digit_char d)"
  by (simp add: is_digit_def digit_char_def)

lemma digit_val_digit_char [simp]: "d < 10 \<Longrightarrow> digit_val (digit_char d) = d"
  by (simp add: digit_val_def digit_char_def)

lemma nat_str_not_Nil [simp]: "nat_str n \<noteq> []"
  by (subst nat_str.simps) simp

lemma nat_str_digits: "c \<in> set (nat_str n) \<Longrightarrow> is_digit c"
proof (induction n arbitrary: c rule: nat_str.induct)
  case (1 n)
  then show ?case
    by (cases "n < 10") (auto simp: nat_str.simps [of n])
qed

lemma dec_val_append: "dec_val (s @ [c]) = 10 * dec_val s + digit_val c"
  by (simp add: dec_val_def)

lemma dec_val_nat_str [simp]: "dec_val (nat_str n) = n"
proof (induction n rule: nat_str.induct)
  case (1 n)
  show ?case
  proof (cases "n < 10")
    case True
    then show ?thesis by (subst nat_str.simps) (simp add: dec_val_def)
  next
    case False
    then have "dec_val (nat_str n) = 10 * (n div 10) + n mod 10"
      using 1 by (subst nat_str.simps) (simp add: dec_val_append)
    then show ?thesis by presburger
  qed
qed

lemma nat_str_inject [simp]: "nat_str m = nat_str n \<longleftrightarrow> m = n"
  by (metis dec_val_nat_str)

lemma minus_not_digit [simp]: "\<not> is_digit CHR ''-''"
  by (simp add: is_digit_def)

lemma minus_notin_nat_str [simp]: "CHR ''-'' \<notin> set (nat_str n)"
  using nat_str_digits by fastforce

text \<open>
  \<open>parseInt(s)\<close>: leading white space and a sign are skipped, \<open>0x\<close> switches to base 16,
  the longest run of digits is read and what follows is ignored; \<open>None\<close> is \<open>NaN\<close>.
\<close>

definition is_hex :: "char \<Rightarrow> bool" where
  "is_hex c \<longleftrightarrow> is_digit c \<or> (let n = (of_char (char_lower c) :: nat) in 97 \<le> n \<and> n \<le> 102)"

definition hex_digit_val :: "char \<Rightarrow> nat" where
  "hex_digit_val c = (if is_digit c then digit_val c else (of_char (char_lower c) :: nat) - 87)"

definition hex_val :: "string \<Rightarrow> nat" where
  "hex_val s = foldl (\<lambda>a c. 16 * a + hex_digit_val c) 0 s"

definition parse_unsigned :: "string \<Rightarrow> nat option" where
  "parse_unsigned s =
     (if starts_with s ''0x'' \<or> starts_with s ''0X'' then
        (let ds = takeWhile is_hex (drop 2 s) in if ds = [] then None else Some (hex_val ds))
      else
        (let ds = takeWhile is_digit s in if ds = [] then None else Some (dec_val ds)))"

definition parse_int :: "string \<Rightarrow> int option" where
  "parse_int s =
     (case dropWhile is_space s of
        [] \<Rightarrow> None
      | c # t \<Rightarrow>
          if c = CHR ''-'' then map_option (\<lambda>n. - int n) (parse_unsigned t)
          else if c = CHR ''+'' then map_option int (parse_unsigned t)
          else map_option int (parse_unsigned (c # t)))"

lemma takeWhile_digits_nat_str: "takeWhile is_digit (nat_str n) = nat_str n"
  by (simp add: takeWhile_eq_all_conv nat_str_digits)

lemma nat_str_not_hex: "\<not> starts_with (nat_str n) ''0x'' \<and> \<not> starts_with (nat_str n) ''0X''"
proof -
  have "\<not> is_digit CHR ''x''" "\<not> is_digit CHR ''X''" by (simp_all add: is_digit_def)
  then show ?thesis
    using nat_str_digits [of _ n] by (auto simp: starts_with_iff)
qed

lemma parse_unsigned_nat_str [simp]: "parse_unsigned (nat_str n) = Some n"
  using nat_str_not_hex [of n]
  by (simp add: parse_unsigned_def takeWhile_digits_nat_str Let_def)

lemma digit_not_space: "is_digit c \<Longrightarrow> \<not> is_space c"
  by (auto simp: is_digit_def is_space_def)

lemma hd_nat_str_digit: "is_digit (hd (nat_str n))"
  by (rule nat_str_digits [OF hd_in_set]) simp

lemma dropWhile_space_nat_str [simp]: "dropWhile is_space (nat_str n) = nat_str n"
proof -
  obtain c t where "nat_str n = c # t"
    by (cases "nat_str n") auto
  then show ?thesis
    using hd_nat_str_digit [of n] digit_not_space by simp
qed

lemma parse_int_nat_str [simp]: "parse_int (nat_str n) = Some (int n)"
proof -
  obtain c t where ct: "nat_str n = c # t"
    by (cases "nat_str n") auto
  then have "is_digit c" using hd_nat_str_digit [of n] by simp
  then have "c \<noteq> CHR ''-''" "c \<noteq> CHR ''+''" "\<not> is_space c"
    by (auto simp: is_digit_def is_space_def)
  then show ?thesis
    using ct by (simp add: parse_int_def parse_unsigned_nat_str [of n, unfolded ct])
qed

lemma parse_int_int_str [simp]: "parse_int (int_str i) = Some i"
proof (cases "i < 0")
  case True
  then show ?thesis by (simp add: int_str_def parse_int_def is_space_def)
next
  case False
  then show ?thesis by (simp add: int_str_def)
qed

text \<open>
  \<open>BigInt(s)\<close> on a string: surrounding white space is trimmed, the empty string is 0, an
  optional sign and decimal digits or an unsigned hexadecimal literal are read, and anything
  else is a SyntaxError.
\<close>

definition trim :: "string \<Rightarrow> string" where
  "trim s = rev (dropWhile is_space (rev (dropWhile is_space s)))"

definition big_digits :: "string \<Rightarrow> exn + int" where
  "big_digits ds =
     (if ds \<noteq> [] \<and> list_all is_digit ds then Inr (int (dec_val ds))
      else Inl (SyntaxError ''BigInt''))"

definition parse_bigint :: "string \<Rightarrow> exn + int" where
  "parse_bigint s =
     (case trim s of
        [] \<Rightarrow> Inr 0
      | c # t \<Rightarrow>
          if c = CHR ''-'' then map_sum id uminus (big_digits t)
          else if c = CHR ''+'' then big_digits t
          else if starts_with (c # t) ''0x'' \<or> starts_with (c # t) ''0X'' then
            (if drop 2 (c # t) \<noteq> [] \<and> list_all is_hex (drop 2 (c # t))
             then Inr (int (hex_val (drop 2 (c # t)))) else Inl (SyntaxError ''BigInt''))
          else big_digits (c # t))"

lemma trim_nat_str [simp]: "trim (nat_str n) = nat_str n"
proof -
  obtain c t where ct: "rev (nat_str n) = c # t"
    by (cases "rev (nat_str n)") auto
  then have "c \<in> set (nat_str n)"
    using set_rev [of "nat_str n"] by (metis list.set_intros(1))
  then have "\<not> is_space c" using digit_not_space nat_str_digits by blast
  then have "dropWhile is_space (rev (nat_str n)) = rev (nat_str n)"
    using ct by simp
  then show ?thesis by (simp add: trim_def)
qed

lemma big_digits_nat_str [simp]: "big_digits (nat_str n) = Inr (int n)"
  by (auto simp: big_digits_def list_all_iff nat_str_digits)

lemma parse_bigint_nat_str [simp]: "parse_bigint (nat_str n) = Inr (int n)"
proof -
  obtain c t where ct: "nat_str n = c # t"
    by (cases "nat_str n") auto
  then have "is_digit c" using hd_nat_str_digit [of n] by simp
  then have "c \<noteq> CHR ''-''" "c \<noteq> CHR ''+''" by (auto simp: is_digit_def)
  then show ?thesis
    using ct nat_str_not_hex [of n] big_digits_nat_str [of n] trim_nat_str [of n]
    by (simp add: parse_bigint_def del: trim_nat_str big_digits_nat_str)
qed

lemma trim_minus_nat_str: "trim (CHR ''-'' # nat_str n) = CHR ''-'' # nat_str n"
proof -
  obtain c t where ct: "rev (nat_str n) = c # t"
    by (cases "rev (nat_str n)") auto
  then have "c \<in> set (nat_str n)"
    using set_rev [of "nat_str n"] by (metis list.set_intros(1))
  then have "\<not> is_space c" using digit_not_space nat_str_digits by blast
  moreover have "\<not> is_space CHR ''-''" by (simp add: is_space_def)
  moreover have "rev t @ [c] = nat_str n"
    using ct by (metis rev_rev_ident rev.simps(2))
  ultimately show ?thesis by (auto simp: trim_def ct)
qed

lemma parse_bigint_int_str [simp]: "parse_bigint (int_str i) = Inr i"
proof (cases "i < 0")
  case True
  then show ?thesis
    by (simp add: int_str_def parse_bigint_def trim_minus_nat_str)
next
  case False
  then show ?thesis by (simp add: int_str_def)
qed

text \<open>\<open>String(v)\<close> and \<open>${v}\<close>.\<close>

fun js_str :: "jsval \<Rightarrow> string" where
  "js_str JUndef = ''undefined''"
| "js_str JNull = ''null''"
| "js_str (JBool b) = (if b then ''true'' else ''false'')"
| "js_str (JNum n) = int_str n"
| "js_str JNaN = ''NaN''"
| "js_str (JBig n) = int_str n"
| "js_str (JStr s) = s"
| "js_str (JArr xs) = join_with '','' (map (\<lambda>x. if nullish x then [] else js_str x) xs)"
| "js_str (JObj fs) = ''[object Object]''"

text \<open>
  \<open>Number(v)\<close> on integers; a text with a fraction or an exponent, and an array, are outside
  the model's numbers and count as \<open>NaN\<close> here.
\<close>

fun js_Number :: "jsval \<Rightarrow> jsval" where
  "js_Number JNull = JNum 0"
| "js_Number (JBool b) = JNum (if b then 1 else 0)"
| "js_Number (JNum n) = JNum n"
| "js_Number (JBig n) = JNum n"
| "js_Number (JStr s) = (case parse_bigint s of Inl e \<Rightarrow> JNaN | Inr n \<Rightarrow> JNum n)"
| "js_Number _ = JNaN"

text \<open>\<open>a + b\<close> on numbers.\<close>

fun js_add :: "jsval \<Rightarrow> int \<Rightarrow> jsval" where
  "js_add (JNum m) n = JNum (m + n)"
| "js_add _ n = JNaN"

text \<open>The text of an optional string in a template literal.\<close>

definition opt_str :: "string option \<Rightarrow> string" where
  "opt_str s = (case s of None \<Rightarrow> ''undefined'' | Some t \<Rightarrow> t)"

definition js_of_opt :: "string option \<Rightarrow> jsval" where
  "js_of_opt s = (case s of None \<Rightarrow> JUndef | Some t \<Rightarrow> JStr t)"

lemma js_of_opt_simps [simp]: "js_of_opt None = JUndef" "js_of_opt (Some t) = JStr t"
  by (simp_all add: js_of_opt_def)

section \<open>Pure code that can throw\<close>

definition res_bind :: "exn + 'a \<Rightarrow> ('a \<Rightarrow> exn + 'b) \<Rightarrow> exn + 'b" where
  "res_bind r f = (case r of Inl e \<Rightarrow> Inl e | Inr x \<Rightarrow> f x)"

lemma res_bind_simps [simp]:
  "res_bind (Inl e) f = Inl e"
  "res_bind (Inr x) f = f x"
  by (simp_all add: res_bind_def)

lemma res_bind_Inr_iff:
  "res_bind r f = Inr y \<longleftrightarrow> (\<exists>x. r = Inr x \<and> f x = Inr y)"
  by (cases r) auto

fun map_res :: "('a \<Rightarrow> exn + 'b) \<Rightarrow> 'a list \<Rightarrow> exn + 'b list" where
  "map_res f [] = Inr []"
| "map_res f (x # xs) = res_bind (f x) (\<lambda>y. res_bind (map_res f xs) (\<lambda>ys. Inr (y # ys)))"

fun fold_res :: "('b \<Rightarrow> 'a \<Rightarrow> exn + 'b) \<Rightarrow> 'b \<Rightarrow> 'a list \<Rightarrow> exn + 'b" where
  "fold_res f acc [] = Inr acc"
| "fold_res f acc (x # xs) = res_bind (f acc x) (\<lambda>acc'. fold_res f acc' xs)"

lemma map_res_total: "(\<And>x. x \<in> set xs \<Longrightarrow> f x = Inr (g x)) \<Longrightarrow> map_res f xs = Inr (map g xs)"
  by (induction xs) auto

lemma map_res_Inr_length: "map_res f xs = Inr ys \<Longrightarrow> length ys = length xs"
  by (induction xs arbitrary: ys) (auto simp: res_bind_Inr_iff)

lemma map_res_Inr_nth: "map_res f xs = Inr ys \<Longrightarrow> i < length xs \<Longrightarrow> f (xs ! i) = Inr (ys ! i)"
  by (induction xs arbitrary: ys i) (auto simp: res_bind_Inr_iff nth_Cons split: nat.splits)

lemma map_res_Inr_set:
  "map_res f xs = Inr ys \<Longrightarrow> y \<in> set ys \<longleftrightarrow> (\<exists>x \<in> set xs. f x = Inr y)"
  by (induction xs arbitrary: ys) (auto simp: res_bind_Inr_iff)

lemma fold_res_snoc: "fold_res f s (xs @ [x]) = res_bind (fold_res f s xs) (\<lambda>s'. f s' x)"
proof (induction xs arbitrary: s)
  case Nil
  then show ?case by (cases "f s x") simp_all
next
  case (Cons y xs)
  then show ?case by (cases "f s y") simp_all
qed

definition opt_or :: "'a option \<Rightarrow> 'a option \<Rightarrow> 'a option" where
  "opt_or a b = (case a of None \<Rightarrow> b | Some _ \<Rightarrow> a)"

lemma opt_or_simps [simp]: "opt_or None b = b" "opt_or (Some x) b = Some x"
  by (simp_all add: opt_or_def)

section \<open>Lists\<close>

lemma find_Some_iff_first:
  "find P xs = Some x \<longleftrightarrow>
     (\<exists>i < length xs. P (xs ! i) \<and> x = xs ! i \<and> (\<forall>j < i. \<not> P (xs ! j)))"
  by (auto simp: find_Some_iff)

lemma find_rev_last:
  "find P (rev xs) = Some x \<Longrightarrow>
     \<exists>ys zs. xs = ys @ x # zs \<and> P x \<and> (\<forall>z \<in> set zs. \<not> P z)"
proof (induction xs rule: rev_induct)
  case Nil
  then show ?case by simp
next
  case (snoc y xs)
  show ?case
  proof (cases "P y")
    case True
    with snoc.prems have "xs @ [y] = xs @ x # []" "P x" by auto
    then show ?thesis by (metis empty_iff list.set(1))
  next
    case False
    with snoc.prems obtain ys zs where
      "xs = ys @ x # zs" "P x" "\<forall>z \<in> set zs. \<not> P z"
      using snoc.IH by auto
    with False have "xs @ [y] = ys @ x # (zs @ [y])" "\<forall>z \<in> set (zs @ [y]). \<not> P z"
      by auto
    with \<open>P x\<close> show ?thesis by blast
  qed
qed

text \<open>\<open>[...new Set(xs)]\<close>: the elements in order of first occurrence.\<close>

fun set_order :: "'a list \<Rightarrow> 'a list" where
  "set_order [] = []"
| "set_order (x # xs) = x # filter (\<lambda>y. y \<noteq> x) (set_order xs)"

lemma set_set_order [simp]: "set (set_order xs) = set xs"
  by (induction xs) auto

lemma distinct_set_order [simp]: "distinct (set_order xs)"
  by (induction xs) auto

lemma set_order_distinct_id: "distinct xs \<Longrightarrow> set_order xs = xs"
proof (induction xs)
  case (Cons x xs)
  then have "set_order xs = xs" "x \<notin> set xs" by auto
  then show ?case by (auto simp: filter_id_conv)
qed simp

end
