(* ===== verification/Effects.thy ===== *)
theory Effects
  imports Prelude
begin

text \<open>
  Effectful code. An asynchronous method of the services is a computation that is given the
  outside world and the list of the external calls made so far (newest last) and yields either an
  exception or a value, with the calls extended by the ones it made. The world is a record of
  oracles chosen per component: every awaited call of third-party code (a database driver, the
  NEAR RPC, a message broker) is one \<open>ask\<close>, whose answer is an arbitrary function of the world
  and of the calls made before, and may be a rejection. Nothing is assumed about the answers, so a
  theorem over all worlds holds for every behaviour of the code the repository only calls.

  \<open>keeps P m\<close> says that \<open>m\<close> only appends calls satisfying \<open>P\<close>; its rules
  compose along the combinators.
\<close>

type_synonym ('w, 'c, 'a) act = "'w \<Rightarrow> 'c list \<Rightarrow> (exn + 'a) \<times> 'c list"

section \<open>Combinators\<close>

definition ret :: "'a \<Rightarrow> ('w, 'c, 'a) act" where
  "ret x = (\<lambda>W tr. (Inr x, tr))"

definition throw :: "exn \<Rightarrow> ('w, 'c, 'a) act" where
  "throw e = (\<lambda>W tr. (Inl e, tr))"

definition bnd :: "('w, 'c, 'a) act \<Rightarrow> ('a \<Rightarrow> ('w, 'c, 'b) act) \<Rightarrow> ('w, 'c, 'b) act" where
  "bnd m f = (\<lambda>W tr. case m W tr of (r, tr') \<Rightarrow>
     (case r of Inl e \<Rightarrow> (Inl e, tr') | Inr x \<Rightarrow> f x W tr'))"

definition thn :: "('w, 'c, 'a) act \<Rightarrow> ('w, 'c, 'b) act \<Rightarrow> ('w, 'c, 'b) act" where
  "thn m k = bnd m (\<lambda>_. k)"

text \<open>\<open>try { m } catch (e) { h(e) }\<close>.\<close>

definition attempt :: "('w, 'c, 'a) act \<Rightarrow> (exn \<Rightarrow> ('w, 'c, 'a) act) \<Rightarrow> ('w, 'c, 'a) act" where
  "attempt m h = (\<lambda>W tr. case m W tr of (r, tr') \<Rightarrow>
     (case r of Inl e \<Rightarrow> h e W tr' | Inr x \<Rightarrow> (Inr x, tr')))"

text \<open>One awaited external call: it is recorded, and the world answers.\<close>

definition ask :: "'c \<Rightarrow> ('w \<Rightarrow> 'c list \<Rightarrow> exn + 'a) \<Rightarrow> ('w, 'c, 'a) act" where
  "ask c g = (\<lambda>W tr. (g W tr, tr @ [c]))"

text \<open>The same for an oracle that sees the calls up to and including this one.\<close>

definition call :: "'c \<Rightarrow> ('w \<Rightarrow> 'c list \<Rightarrow> exn + 'a) \<Rightarrow> ('w, 'c, 'a) act" where
  "call c g = ask c (\<lambda>W tr. g W (tr @ [c]))"

text \<open>A value read from the world without a call, such as the clock.\<close>

definition peek :: "('w \<Rightarrow> 'c list \<Rightarrow> 'a) \<Rightarrow> ('w, 'c, 'a) act" where
  "peek g = (\<lambda>W tr. (Inr (g W tr), tr))"

definition lift_res :: "exn + 'a \<Rightarrow> ('w, 'c, 'a) act" where
  "lift_res r = (\<lambda>W tr. (r, tr))"

definition when_act :: "bool \<Rightarrow> ('w, 'c, unit) act \<Rightarrow> ('w, 'c, unit) act" where
  "when_act b m = (if b then m else ret ())"

fun each_act :: "('a \<Rightarrow> ('w, 'c, unit) act) \<Rightarrow> 'a list \<Rightarrow> ('w, 'c, unit) act" where
  "each_act f [] = ret ()"
| "each_act f (x # xs) = thn (f x) (each_act f xs)"

text \<open>
  \<open>Promise.all(xs.map(f))\<close>, run one after the other: every computation runs, also after a
  rejection, and the first rejection in the order of the list is the result.
\<close>

fun all_act :: "('a \<Rightarrow> ('w, 'c, 'b) act) \<Rightarrow> 'a list \<Rightarrow> ('w, 'c, 'b list) act" where
  "all_act f [] = ret []"
| "all_act f (x # xs) = (\<lambda>W tr. case f x W tr of (r, t) \<Rightarrow> (case all_act f xs W t of (rs, t') \<Rightarrow>
     (res_bind r (\<lambda>y. res_bind rs (\<lambda>ys. Inr (y # ys))), t')))"

fun map_act :: "('a \<Rightarrow> ('w, 'c, 'b) act) \<Rightarrow> 'a list \<Rightarrow> ('w, 'c, 'b list) act" where
  "map_act f [] = ret []"
| "map_act f (x # xs) = bnd (f x) (\<lambda>y. bnd (map_act f xs) (\<lambda>ys. ret (y # ys)))"

fun fold_act :: "('b \<Rightarrow> 'a \<Rightarrow> ('w, 'c, 'b) act) \<Rightarrow> 'b \<Rightarrow> 'a list \<Rightarrow> ('w, 'c, 'b) act" where
  "fold_act f acc [] = ret acc"
| "fold_act f acc (x # xs) = bnd (f acc x) (\<lambda>acc'. fold_act f acc' xs)"

section \<open>Running\<close>

lemma run_ret [run_simps]: "ret x W tr = (Inr x, tr)"
  by (simp add: ret_def)

lemma run_throw [run_simps]: "throw e W tr = (Inl e, tr)"
  by (simp add: throw_def)

lemma run_bnd [run_simps]:
  "bnd m f W tr = (case m W tr of (r, tr') \<Rightarrow>
     (case r of Inl e \<Rightarrow> (Inl e, tr') | Inr x \<Rightarrow> f x W tr'))"
  by (simp add: bnd_def)

lemma run_thn [run_simps]:
  "thn m k W tr = (case m W tr of (r, tr') \<Rightarrow>
     (case r of Inl e \<Rightarrow> (Inl e, tr') | Inr x \<Rightarrow> k W tr'))"
  by (simp add: thn_def bnd_def)

lemma run_attempt [run_simps]:
  "attempt m h W tr = (case m W tr of (r, tr') \<Rightarrow>
     (case r of Inl e \<Rightarrow> h e W tr' | Inr x \<Rightarrow> (Inr x, tr')))"
  by (simp add: attempt_def)

lemma run_ask [run_simps]: "ask c g W tr = (g W tr, tr @ [c])"
  by (simp add: ask_def)

lemma run_call [run_simps]: "call c g W tr = (g W (tr @ [c]), tr @ [c])"
  by (simp add: call_def ask_def)

lemma run_peek [run_simps]: "peek g W tr = (Inr (g W tr), tr)"
  by (simp add: peek_def)

lemma run_lift_res [run_simps]: "lift_res r W tr = (r, tr)"
  by (simp add: lift_res_def)

lemma run_when_act [run_simps]: "when_act b m W tr = (if b then m W tr else (Inr (), tr))"
  by (simp add: when_act_def ret_def)

lemma bnd_Inr_iff:
  "bnd m f W tr = (Inr y, t) \<longleftrightarrow> (\<exists>x t'. m W tr = (Inr x, t') \<and> f x W t' = (Inr y, t))"
  by (auto simp: bnd_def split: prod.splits sum.splits)

lemma bnd_Inl_iff:
  "bnd m f W tr = (Inl e, t) \<longleftrightarrow>
     m W tr = (Inl e, t) \<or> (\<exists>x t'. m W tr = (Inr x, t') \<and> f x W t' = (Inl e, t))"
  by (auto simp: bnd_def split: prod.splits sum.splits)

lemma thn_Inr_iff:
  "thn m k W tr = (Inr y, t) \<longleftrightarrow> (\<exists>x t'. m W tr = (Inr x, t') \<and> k W t' = (Inr y, t))"
  by (simp add: thn_def bnd_Inr_iff)

lemma thn_Inl_iff:
  "thn m k W tr = (Inl e, t) \<longleftrightarrow>
     m W tr = (Inl e, t) \<or> (\<exists>x t'. m W tr = (Inr x, t') \<and> k W t' = (Inl e, t))"
  by (simp add: thn_def bnd_Inl_iff)

lemma attempt_Inr_iff:
  "attempt m h W tr = (Inr y, t) \<longleftrightarrow>
     m W tr = (Inr y, t) \<or> (\<exists>e t'. m W tr = (Inl e, t') \<and> h e W t' = (Inr y, t))"
  by (auto simp: attempt_def split: prod.splits sum.splits)

lemma ret_iff: "ret x W tr = (r, t) \<longleftrightarrow> r = Inr x \<and> t = tr"
  by (auto simp: ret_def)

lemma throw_iff: "throw e W tr = (r, t) \<longleftrightarrow> r = Inl e \<and> t = tr"
  by (auto simp: throw_def)

lemma ask_iff: "ask c g W tr = (r, t) \<longleftrightarrow> r = g W tr \<and> t = tr @ [c]"
  by (auto simp: ask_def)

lemma call_iff: "call c g W tr = (r, t) \<longleftrightarrow> r = g W (tr @ [c]) \<and> t = tr @ [c]"
  by (auto simp: call_def ask_def)

lemma peek_iff: "peek g W tr = (r, t) \<longleftrightarrow> r = Inr (g W tr) \<and> t = tr"
  by (auto simp: peek_def)

lemma lift_res_iff: "lift_res r W tr = (r', t) \<longleftrightarrow> r' = r \<and> t = tr"
  by (auto simp: lift_res_def)

lemma when_act_iff:
  "when_act b m W tr = (r, t) \<longleftrightarrow> (if b then m W tr = (r, t) else r = Inr () \<and> t = tr)"
  by (auto simp: when_act_def ret_def)

lemmas ok_iffs = bnd_Inr_iff thn_Inr_iff attempt_Inr_iff ret_iff throw_iff ask_iff call_iff peek_iff
  lift_res_iff when_act_iff

text \<open>The monad laws.\<close>

lemma bnd_ret_left [simp]: "bnd (ret x) f = f x"
  by (simp add: bnd_def ret_def fun_eq_iff)

lemma bnd_ret_right [simp]: "bnd m ret = m"
  by (auto simp: bnd_def ret_def fun_eq_iff split: prod.splits sum.splits)

lemma bnd_assoc: "bnd (bnd m f) g = bnd m (\<lambda>x. bnd (f x) g)"
  by (auto simp: bnd_def fun_eq_iff split: prod.splits sum.splits)

lemma bnd_throw [simp]: "bnd (throw e) f = throw e"
  by (simp add: bnd_def throw_def fun_eq_iff)

lemma attempt_ret [simp]: "attempt (ret x) h = ret x"
  by (simp add: attempt_def ret_def fun_eq_iff)

lemma attempt_throw [simp]: "attempt (throw e) h = h e"
  by (simp add: attempt_def throw_def fun_eq_iff)

section \<open>The calls a computation makes\<close>

definition keeps :: "('c \<Rightarrow> bool) \<Rightarrow> ('w, 'c, 'a) act \<Rightarrow> bool" where
  "keeps P m \<longleftrightarrow> (\<forall>W tr. \<exists>cs. snd (m W tr) = tr @ cs \<and> list_all P cs)"

lemma keepsE:
  assumes "keeps P m" and "m W tr = (r, t)"
  obtains cs where "t = tr @ cs" and "list_all P cs"
  using assms unfolding keeps_def by (metis snd_conv)

lemma keeps_ret [keeps_intros]: "keeps P (ret x)"
  by (simp add: keeps_def ret_def)

lemma keeps_throw [keeps_intros]: "keeps P (throw e)"
  by (simp add: keeps_def throw_def)

lemma keeps_lift_res [keeps_intros]: "keeps P (lift_res r)"
  by (simp add: keeps_def lift_res_def)

lemma keeps_ask: "P c \<Longrightarrow> keeps P (ask c g)"
  by (simp add: keeps_def ask_def)

lemma keeps_call: "P c \<Longrightarrow> keeps P (call c g)"
  unfolding call_def by (rule keeps_ask)

lemma keeps_peek [keeps_intros]: "keeps P (peek g)"
  by (simp add: keeps_def peek_def)

lemma keeps_bnd [keeps_intros]:
  assumes "keeps P m" and "\<And>x. keeps P (f x)"
  shows "keeps P (bnd m f)"
  unfolding keeps_def
proof (intro allI)
  fix W tr
  obtain r t where mt: "m W tr = (r, t)" by fastforce
  obtain cs where cs: "t = tr @ cs" "list_all P cs"
    using keepsE [OF assms(1) mt] .
  show "\<exists>cs. snd (bnd m f W tr) = tr @ cs \<and> list_all P cs"
  proof (cases r)
    case (Inl e)
    then show ?thesis using mt cs by (auto simp: bnd_def)
  next
    case (Inr x)
    obtain r' t' where ft: "f x W t = (r', t')" by fastforce
    obtain ds where "t' = t @ ds" "list_all P ds"
      using keepsE [OF assms(2) ft] .
    then show ?thesis using Inr mt ft cs by (auto simp: bnd_def)
  qed
qed

lemma keeps_thn [keeps_intros]: "keeps P m \<Longrightarrow> keeps P k \<Longrightarrow> keeps P (thn m k)"
  unfolding thn_def by (rule keeps_bnd)

lemma keeps_attempt [keeps_intros]:
  assumes "keeps P m" and "\<And>e. keeps P (h e)"
  shows "keeps P (attempt m h)"
  unfolding keeps_def
proof (intro allI)
  fix W tr
  obtain r t where mt: "m W tr = (r, t)" by fastforce
  obtain cs where cs: "t = tr @ cs" "list_all P cs"
    using keepsE [OF assms(1) mt] .
  show "\<exists>cs. snd (attempt m h W tr) = tr @ cs \<and> list_all P cs"
  proof (cases r)
    case (Inr e)
    then show ?thesis using mt cs by (auto simp: attempt_def)
  next
    case (Inl x)
    obtain r' t' where ft: "h x W t = (r', t')" by fastforce
    obtain ds where "t' = t @ ds" "list_all P ds"
      using keepsE [OF assms(2) ft] .
    then show ?thesis using Inl mt ft cs by (auto simp: attempt_def)
  qed
qed

lemma keeps_when_act [keeps_intros]: "(b \<Longrightarrow> keeps P m) \<Longrightarrow> keeps P (when_act b m)"
  by (simp add: when_act_def keeps_ret)

lemma keeps_each_act [keeps_intros]:
  "(\<And>x. x \<in> set xs \<Longrightarrow> keeps P (f x)) \<Longrightarrow> keeps P (each_act f xs)"
  by (induction xs) (auto intro!: keeps_intros)

lemma keeps_map_act [keeps_intros]:
  "(\<And>x. x \<in> set xs \<Longrightarrow> keeps P (f x)) \<Longrightarrow> keeps P (map_act f xs)"
  by (induction xs) (auto intro!: keeps_intros)

lemma keeps_all_act [keeps_intros]:
  assumes "\<And>x. x \<in> set xs \<Longrightarrow> keeps P (f x)"
  shows "keeps P (all_act f xs)"
  using assms
proof (induction xs)
  case Nil
  then show ?case by (simp add: keeps_ret)
next
  case (Cons x xs)
  show ?case
    unfolding keeps_def
  proof (intro allI)
    fix W tr
    obtain r t where ft: "f x W tr = (r, t)" by fastforce
    obtain cs where cs: "t = tr @ cs" "list_all P cs"
      using keepsE [OF Cons.prems [of x] ft] by auto
    obtain rs t' where at: "all_act f xs W t = (rs, t')" by fastforce
    obtain ds where ds: "t' = t @ ds" "list_all P ds"
      using keepsE [OF Cons.IH at] Cons.prems by auto
    show "\<exists>cs. snd (all_act f (x # xs) W tr) = tr @ cs \<and> list_all P cs"
      using ft at cs ds by simp
  qed
qed

lemma keeps_fold_act [keeps_intros]:
  "(\<And>a x. keeps P (f a x)) \<Longrightarrow> keeps P (fold_act f acc xs)"
  by (induction xs arbitrary: acc) (auto intro!: keeps_intros)

lemma keeps_if [keeps_intros]:
  "(b \<Longrightarrow> keeps P m) \<Longrightarrow> (\<not> b \<Longrightarrow> keeps P k) \<Longrightarrow> keeps P (if b then m else k)"
  by simp

lemma keeps_case_option [keeps_intros]:
  "keeps P m \<Longrightarrow> (\<And>x. keeps P (f x)) \<Longrightarrow> keeps P (case v of None \<Rightarrow> m | Some x \<Rightarrow> f x)"
  by (simp split: option.split)

lemma keeps_mono: "keeps P m \<Longrightarrow> (\<And>c. P c \<Longrightarrow> Q c) \<Longrightarrow> keeps Q m"
  unfolding keeps_def using list.pred_mono_strong by metis

text \<open>Every computation built from the combinators only appends to the calls.\<close>

lemma keeps_prefix: "keeps P m \<Longrightarrow> m W tr = (r, t) \<Longrightarrow> \<exists>cs. t = tr @ cs"
  by (elim keepsE) auto

text \<open>The loop runs its body on the elements in order and stops at the first exception.\<close>

lemma each_act_Inr_append:
  "each_act f (xs @ ys) = thn (each_act f xs) (each_act f ys)"
  by (induction xs)
    (auto simp: fun_eq_iff thn_def bnd_def ret_def split: prod.splits sum.splits)

lemma fold_act_append:
  "fold_act f acc (xs @ ys) = bnd (fold_act f acc xs) (\<lambda>acc'. fold_act f acc' ys)"
  by (induction xs arbitrary: acc) (simp_all add: bnd_assoc)

lemma map_act_Inr_length:
  "map_act f xs W tr = (Inr ys, t) \<Longrightarrow> length ys = length xs"
  by (induction xs arbitrary: ys tr) (auto simp: ok_iffs)

end
