(* ===== verification/Domain.thy ===== *)
theory Domain
  imports Complex_Main Prelude
begin

text \<open>
  The data the services exchange: the enumerations of \<open>libs/proposal/src/types\<close> and
  \<open>libs/dao/src/types\<close>, the contract data of \<open>libs/near-api\<close>, and the entities of
  the DAO, proposal, bounty and token modules. A field the code reads from partial objects (an
  entity of the relational store, a partial DynamoDB item or a DTO) is an option, with
  \<open>None\<close> for an absent value; records extend each other where the classes do.
\<close>

section \<open>Enumerations\<close>

datatype proposal_type =
    ChangeConfig | ChangePolicy | AddMemberToRole | RemoveMemberFromRole | FunctionCall
  | UpgradeSelf | UpgradeRemote | Transfer | SetStakingContract | AddBounty | BountyDone | Vote

datatype proposal_policy_label =
    PL_Config | PL_Policy | PL_AddMemberToRole | PL_RemoveMemberFromRole | PL_Call
  | PL_UpgradeSelf | PL_UpgradeRemote | PL_Transfer | PL_SetVoteToken | PL_AddBounty
  | PL_BountyDone | PL_Vote

fun policy_label_str :: "proposal_policy_label \<Rightarrow> string" where
  "policy_label_str PL_Config = ''config''"
| "policy_label_str PL_Policy = ''policy''"
| "policy_label_str PL_AddMemberToRole = ''add_member_to_role''"
| "policy_label_str PL_RemoveMemberFromRole = ''remove_member_from_role''"
| "policy_label_str PL_Call = ''call''"
| "policy_label_str PL_UpgradeSelf = ''upgrade_self''"
| "policy_label_str PL_UpgradeRemote = ''upgrade_remote''"
| "policy_label_str PL_Transfer = ''transfer''"
| "policy_label_str PL_SetVoteToken = ''set_vote_token''"
| "policy_label_str PL_AddBounty = ''add_bounty''"
| "policy_label_str PL_BountyDone = ''bounty_done''"
| "policy_label_str PL_Vote = ''vote''"

fun ProposalTypeToPolicyLabel :: "proposal_type \<Rightarrow> proposal_policy_label" where
  "ProposalTypeToPolicyLabel ChangeConfig = PL_Config"
| "ProposalTypeToPolicyLabel ChangePolicy = PL_Policy"
| "ProposalTypeToPolicyLabel AddMemberToRole = PL_AddMemberToRole"
| "ProposalTypeToPolicyLabel RemoveMemberFromRole = PL_RemoveMemberFromRole"
| "ProposalTypeToPolicyLabel FunctionCall = PL_Call"
| "ProposalTypeToPolicyLabel UpgradeSelf = PL_UpgradeSelf"
| "ProposalTypeToPolicyLabel UpgradeRemote = PL_UpgradeRemote"
| "ProposalTypeToPolicyLabel Transfer = PL_Transfer"
| "ProposalTypeToPolicyLabel SetStakingContract = PL_SetVoteToken"
| "ProposalTypeToPolicyLabel AddBounty = PL_AddBounty"
| "ProposalTypeToPolicyLabel BountyDone = PL_BountyDone"
| "ProposalTypeToPolicyLabel Vote = PL_Vote"

datatype proposal_status =
    InProgress | Approved | Rejected | Removed | Expired | Moved | Failed

datatype proposal_vote_status = VS_Active | VS_Expired

datatype action =
    AddProposal | RemoveProposal | VoteApprove | VoteReject | VoteRemove | Finalize | MoveToHub

fun action_str :: "action \<Rightarrow> string" where
  "action_str AddProposal = ''AddProposal''"
| "action_str RemoveProposal = ''RemoveProposal''"
| "action_str VoteApprove = ''VoteApprove''"
| "action_str VoteReject = ''VoteReject''"
| "action_str VoteRemove = ''VoteRemove''"
| "action_str Finalize = ''Finalize''"
| "action_str MoveToHub = ''MoveToHub''"

datatype dao_status = DS_Active | DS_Inactive | DS_Disabled

datatype dao_variant = Club | Foundation | Corporation | Cooperative | Custom

datatype role_kind_type = Everyone | Member | Group

datatype weight_kind = TokenWeight | RoleWeight

datatype weight_or_ratio_type = WRT_Weight | WRT_Ratio

datatype vote = V_Approve | V_Reject | V_Remove

record proposal_permissions =
  canApprove :: bool
  canReject :: bool
  canDelete :: bool
  isCouncil :: bool
  canAdd :: bool

section \<open>Contract data (libs/near-api)\<close>

record sputnik_dao_config =
  cfg_name :: string
  cfg_purpose :: string
  cfg_metadata :: string

datatype weight_or_ratio = WR_Weight string | WR_Ratio "int list"

record sputnik_vote_policy =
  svp_weight_kind :: string
  svp_quorum :: string
  svp_threshold :: weight_or_ratio

datatype sputnik_role_kind =
    SRK_Everyone | SRK_Member int | SRK_Group "string list" | SRK_Other

record sputnik_role =
  sr_name :: string
  sr_kind :: sputnik_role_kind
  sr_permissions :: "string list"
  sr_vote_policy :: "(string \<times> sputnik_vote_policy option) list"

record sputnik_policy_v2 =
  sp_roles :: "sputnik_role list"
  sp_default_vote_policy :: "sputnik_vote_policy option"
  sp_proposal_bond :: string
  sp_proposal_period :: string
  sp_bounty_bond :: string
  sp_bounty_forgiveness_period :: string

datatype sputnik_dao_policy = PolicyV1 "string list" | PolicyV2 sputnik_policy_v2

fun isSputnikDaoPolicyV2 :: "sputnik_dao_policy \<Rightarrow> bool" where
  "isSputnikDaoPolicyV2 (PolicyV1 council) = False"
| "isSputnikDaoPolicyV2 (PolicyV2 p) = True"

fun isSputnikDaoRoleKindGroup :: "sputnik_role_kind \<Rightarrow> bool" where
  "isSputnikDaoRoleKindGroup (SRK_Group g) = True"
| "isSputnikDaoRoleKindGroup _ = False"

fun isSputnikDaoRoleKindMember :: "sputnik_role_kind \<Rightarrow> bool" where
  "isSputnikDaoRoleKindMember (SRK_Member n) = True"
| "isSputnikDaoRoleKindMember _ = False"

fun isSputnikDaoRoleKindEveryone :: "sputnik_role_kind \<Rightarrow> bool" where
  "isSputnikDaoRoleKindEveryone SRK_Everyone = True"
| "isSputnikDaoRoleKindEveryone _ = False"

record action_call =
  ac_methodName :: string
  ac_args :: string
  ac_deposit :: string
  ac_gas :: int

record sputnik_bounty =
  sb_description :: string
  sb_token :: string
  sb_amount :: string
  sb_times :: int
  sb_max_deadline :: string

record sputnik_bounty_output = sputnik_bounty +
  sbo_id :: int

record sputnik_bounty_claim =
  sbc_bounty_id :: int
  sbc_start_time :: string
  sbc_deadline :: string
  sbc_completed :: bool

datatype sputnik_proposal_kind =
    SK_ChangeConfig sputnik_dao_config
  | SK_ChangePolicy jsval
  | SK_AddMemberToRole string string
  | SK_RemoveMemberFromRole string string
  | SK_FunctionCall string "action_call list"
  | SK_UpgradeSelf string
  | SK_UpgradeRemote string string string
  | SK_Transfer string string string "string option"
  | SK_SetStakingContract string
  | SK_AddBounty sputnik_bounty
  | SK_BountyDone int string
  | SK_Vote

record sputnik_proposal =
  spr_proposer :: string
  spr_description :: string
  spr_kind :: sputnik_proposal_kind
  spr_status :: proposal_status
  spr_vote_counts :: "(string \<times> int list) list"
  spr_votes :: "(string \<times> vote) list"
  spr_submission_time :: string

record sputnik_proposal_output = sputnik_proposal +
  spo_id :: int

section \<open>Entities and DTOs\<close>

text \<open>The base classes \<open>BaseEntity\<close> and \<open>TransactionEntity\<close>.\<close>

record base_entity =
  isArchived :: "bool option"
  createdAt :: "int option"
  updatedAt :: "int option"

record transaction_entity = base_entity +
  transactionHash :: "string option"
  updateTransactionHash :: "string option"
  createTimestamp :: "string option"
  updateTimestamp :: "string option"

record vote_policy =
  vp_weightKind :: weight_kind
  vp_quorum :: string
  vp_kind :: weight_or_ratio_type
  vp_weight :: "weight_or_ratio option"
  vp_ratio :: "weight_or_ratio option"

text \<open>
  A role's \<open>balance\<close> is \<open>None\<close> where the object has no such field (\<open>undefined\<close>) and
  \<open>Some None\<close> where the column is null; the two compare differently.
\<close>

record role =
  role_id :: "string option"
  role_name :: string
  role_kind :: role_kind_type
  role_balance :: "int option option"
  role_accountIds :: "string list option"
  role_permissions :: "string list"
  role_votePolicy :: "(string \<times> vote_policy option) list option"
  role_policyDaoId :: "string option"

record policy =
  pol_daoId :: "string option"
  pol_proposalBond :: "string option"
  pol_bountyBond :: "string option"
  pol_proposalPeriod :: "string option"
  pol_bountyForgivenessPeriod :: "string option"
  pol_defaultVotePolicy :: "vote_policy option"
  pol_roles :: "role list option"

record delegation =
  dlg_id :: string
  dlg_daoId :: string
  dlg_accountId :: string
  dlg_balance :: "string option"
  dlg_delegators :: "(string \<times> string) list option"

record dao_version =
  dv_hash :: string
  dv_version :: "int list"
  dv_commitId :: string
  dv_changelogUrl :: "string option"

text \<open>The relational back reference \<open>balances\<close> of a token is left out.\<close>

record token = transaction_entity +
  tok_id :: string
  tok_ownerId :: string
  tok_totalSupply :: string
  tok_decimals :: int
  tok_icon :: "string option"
  tok_name :: "string option"
  tok_reference :: "string option"
  tok_referenceHash :: "string option"
  tok_spec :: "string option"
  tok_symbol :: "string option"
  tok_price :: "string option"

record token_balance =
  tb_id :: string
  tb_tokenId :: string
  tb_accountId :: string
  tb_balance :: "string option"
  tb_token :: "token option"

text \<open>The token held by a DAO as its DynamoDB item lists it.\<close>

record token_balance_model =
  tbm_tokenId :: string
  tbm_accountId :: string
  tbm_balance :: "string option"
  tbm_id :: string
  tbm_ownerId :: string
  tbm_totalSupply :: string
  tbm_decimals :: int
  tbm_icon :: "string option"
  tbm_name :: "string option"
  tbm_reference :: "string option"
  tbm_referenceHash :: "string option"
  tbm_spec :: "string option"
  tbm_symbol :: "string option"
  tbm_price :: "string option"

text \<open>\<open>dao_tokens\<close> exists in the DynamoDB model only.\<close>

record dao = transaction_entity +
  dao_id :: string
  dao_config :: "sputnik_dao_config option"
  dao_metadata :: jsval
  dao_amount :: "string option"
  dao_totalSupply :: "string option"
  dao_lastBountyId :: "int option"
  dao_lastProposalId :: "int option"
  dao_stakingContract :: "string option"
  dao_numberOfAssociates :: "int option"
  dao_numberOfMembers :: "int option"
  dao_numberOfGroups :: "int option"
  dao_council :: "string list option"
  dao_accountIds :: "string list option"
  dao_councilSeats :: "int option"
  dao_policy :: "policy option"
  dao_link :: "string option"
  dao_description :: "string option"
  dao_createdBy :: "string option"
  dao_daoVersion :: "dao_version option"
  dao_status :: "dao_status option"
  dao_activeProposalCount :: "int option"
  dao_totalProposalCount :: "int option"
  dao_totalDaoFunds :: "rat option"
  dao_bountyCount :: "int option"
  dao_nftCount :: "int option"
  dao_delegations :: "delegation list option"
  dao_tokens :: "token_balance_model list option"

record bounty_claim = transaction_entity +
  bc_id :: string
  bc_bountyId :: "string option"
  bc_accountId :: string
  bc_startTime :: string
  bc_deadline :: string
  bc_endTime :: "string option"
  bc_completed :: bool

text \<open>
  \<open>bnt_proposalIndex\<close>, \<open>bnt_bountyDoneProposalIds\<close> and \<open>bnt_commentsCount\<close> exist in the
  DynamoDB model only, \<open>bnt_bountyDoneProposals\<close> (reduced to the proposals' ids and numbers) in the relational
  entity only.
\<close>

record bounty = transaction_entity +
  bnt_id :: string
  bnt_bountyId :: int
  bnt_proposalId :: string
  bnt_proposalIndex :: "int option"
  bnt_daoId :: "string option"
  bnt_description :: string
  bnt_token :: string
  bnt_amount :: string
  bnt_times :: int
  bnt_maxDeadline :: string
  bnt_numberOfClaims :: int
  bnt_bountyClaims :: "bounty_claim list option"
  bnt_bountyDoneProposals :: "(string \<times> int) list option"
  bnt_bountyDoneProposalIds :: "string list option"
  bnt_commentsCount :: "int option"

record bounty_context =
  bctx_id :: string
  bctx_daoId :: string
  bctx_transactionHash :: "string option"
  bctx_createTimestamp :: "string option"

text \<open>The tagged union \<open>ProposalKind\<close>.\<close>

datatype proposal_kind =
    K_ChangeConfig sputnik_dao_config
  | K_ChangePolicy jsval
  | K_AddMemberToRole string string
  | K_RemoveMemberFromRole string string
  | K_FunctionCall string "action_call list"
  | K_UpgradeSelf string
  | K_UpgradeRemote string string string
  | K_Transfer string string string "string option"
  | K_SetStakingContract string
  | K_AddBounty sputnik_bounty
  | K_BountyDone int string
  | K_Vote

fun kind_type :: "proposal_kind \<Rightarrow> proposal_type" where
  "kind_type (K_ChangeConfig c) = ChangeConfig"
| "kind_type (K_ChangePolicy p) = ChangePolicy"
| "kind_type (K_AddMemberToRole m r) = AddMemberToRole"
| "kind_type (K_RemoveMemberFromRole m r) = RemoveMemberFromRole"
| "kind_type (K_FunctionCall r acs) = FunctionCall"
| "kind_type (K_UpgradeSelf h) = UpgradeSelf"
| "kind_type (K_UpgradeRemote r m h) = UpgradeRemote"
| "kind_type (K_Transfer tk r a m) = Transfer"
| "kind_type (K_SetStakingContract s) = SetStakingContract"
| "kind_type (K_AddBounty b) = AddBounty"
| "kind_type (K_BountyDone b r) = BountyDone"
| "kind_type K_Vote = Vote"

record proposal_action =
  pa_id :: string
  pa_proposalId :: string
  pa_accountId :: string
  pa_action :: string
  pa_transactionHash :: string
  pa_timestamp :: string

record proposal = transaction_entity +
  prp_id :: string
  prp_proposalId :: int
  prp_daoId :: "string option"
  prp_proposer :: string
  prp_description :: string
  prp_status :: proposal_status
  prp_voteStatus :: "proposal_vote_status option"
  prp_kind :: "proposal_kind option"
  prp_type :: proposal_type
  prp_policyLabel :: "proposal_policy_label option"
  prp_submissionTime :: string
  prp_voteCounts :: "(string \<times> int list) list"
  prp_votes :: "(string \<times> vote) list"
  prp_failure :: jsval
  prp_actions :: "proposal_action list"
  prp_votePeriodEnd :: "string option"
  prp_bountyDoneId :: "string option"
  prp_bountyClaimId :: "string option"
  prp_commentsCount :: "int option"

text \<open>\<open>ProposalKindDto\<close> wraps a kind together with its type.\<close>

record proposal_kind_dto =
  pk_kind :: proposal_kind
  pk_type :: proposal_type

record proposal_dto = transaction_entity +
  pd_id :: string
  pd_proposalId :: int
  pd_daoId :: string
  pd_bountyDoneId :: "string option"
  pd_bountyClaimId :: "string option"
  pd_proposer :: string
  pd_description :: string
  pd_status :: proposal_status
  pd_submissionTime :: string
  pd_kind :: proposal_kind_dto
  pd_type :: proposal_type
  pd_policyLabel :: "proposal_policy_label option"
  pd_voteStatus :: "proposal_vote_status option"
  pd_voteCounts :: "(string \<times> int list) list"
  pd_votes :: "(string \<times> vote) list"
  pd_actions :: "proposal_action list"
  pd_votePeriodEnd :: "string option"
  pd_failure :: jsval

section \<open>Facts about the enumerations\<close>

lemma policy_label_str_inject [simp]: "policy_label_str a = policy_label_str b \<longleftrightarrow> a = b"
  by (cases a; cases b) simp_all

lemma ProposalTypeToPolicyLabel_inject [simp]:
  "ProposalTypeToPolicyLabel a = ProposalTypeToPolicyLabel b \<longleftrightarrow> a = b"
  by (cases a; cases b) simp_all

lemma action_str_inject [simp]: "action_str a = action_str b \<longleftrightarrow> a = b"
  by (cases a; cases b) simp_all

end
