(* ===== verification/Utils.thy ===== *)
theory Utils
  imports Domain
begin

text \<open>
  \<open>libs/utils/src/index.ts\<close>: the identifiers of the stored entities, base64, timestamps,
  pagination, chunking, de-duplication, proposal permissions, funds and the daily balances of a
  DAO's treasury.
\<close>

section \<open>Timestamps\<close>

definition getBlockTimestamp :: "int \<Rightarrow> string" where
  "getBlockTimestamp millis = int_str (millis * 1000000)"

text \<open>BigInt division truncates towards zero.\<close>

definition big_div :: "int \<Rightarrow> int \<Rightarrow> int" where
  "big_div a b = sgn a * sgn b * (\<bar>a\<bar> div \<bar>b\<bar>)"

definition parseBlockTimestamp :: "string \<Rightarrow> exn + int" where
  "parseBlockTimestamp blockTimestamp =
     res_bind (parse_bigint blockTimestamp) (\<lambda>t. Inr (big_div t 1000000))"

text \<open>
  \<open>timestamp\<close> is a number of nanoseconds; the divisions of the source are exact here, without
  the rounding of doubles. The regular expression removes the last comma and the blanks after it.
\<close>

definition plural :: "nat \<Rightarrow> string \<Rightarrow> string \<Rightarrow> string" where
  "plural n one many = (if n > 0 then nat_str n @ (if n = 1 then one else many) else [])"

definition strip_trailing_comma :: "string \<Rightarrow> string" where
  "strip_trailing_comma s =
     (case dropWhile is_space (rev s) of
        [] \<Rightarrow> s
      | c # t \<Rightarrow> if c = CHR '','' then rev t else s)"

definition formatTimestamp :: "nat \<Rightarrow> string" where
  "formatTimestamp timestamp =
     (let seconds = timestamp div 1000000000;
          d = seconds div (3600 * 24);
          h = (seconds mod (3600 * 24)) div 3600;
          m = (seconds mod 3600) div 60;
          s = seconds mod 60;
          dDisplay = plural d '' day, '' '' days, '';
          hDisplay = plural h '' hour, '' '' hours, '';
          mDisplay = plural m '' minute, '' '' minutes, '';
          sDisplay = plural s '' second'' '' seconds''
      in strip_trailing_comma (dDisplay @ hDisplay @ mDisplay @ sDisplay))"

section \<open>Identifiers\<close>

text \<open>
  Proposal and bounty numbers reach the builders from contract answers and from the
  \<open>any\<close>-typed call arguments, so they are dynamic values put into the template literal.
\<close>

definition buildProposalId :: "string \<Rightarrow> jsval \<Rightarrow> string" where
  "buildProposalId daoId proposalId = daoId @ ''-'' @ js_str proposalId"

definition buildProposalActionId :: "string \<Rightarrow> string \<Rightarrow> string \<Rightarrow> string" where
  "buildProposalActionId proposalId accountId act = proposalId @ ''-'' @ accountId @ ''-'' @ act"

definition buildDaoId :: "string \<Rightarrow> string \<Rightarrow> string" where
  "buildDaoId name contractName = name @ ''.'' @ contractName"

definition buildBountyId :: "string \<Rightarrow> jsval \<Rightarrow> string" where
  "buildBountyId daoId bountyId = daoId @ ''-'' @ js_str bountyId"

definition buildBountyDynamoId :: "int \<Rightarrow> string" where
  "buildBountyDynamoId proposalId = ''b-'' @ int_str proposalId"

definition buildBountyClaimId :: "string \<Rightarrow> int \<Rightarrow> string \<Rightarrow> string" where
  "buildBountyClaimId daoId bountyId startTime =
     daoId @ ''-'' @ int_str bountyId @ ''-'' @ startTime"

definition buildRoleId :: "string \<Rightarrow> string \<Rightarrow> string" where
  "buildRoleId daoId name = daoId @ ''-'' @ name"

definition buildSubscriptionId :: "string \<Rightarrow> string \<Rightarrow> string" where
  "buildSubscriptionId daoId accountId = daoId @ ''-'' @ accountId"

definition buildNotificationId :: "string \<Rightarrow> string \<Rightarrow> string" where
  "buildNotificationId type txHash = to_lower txHash @ ''-'' @ to_lower type"

definition buildAccountNotificationId :: "string \<Rightarrow> string \<Rightarrow> string" where
  "buildAccountNotificationId accountId notificationId = accountId @ ''-'' @ notificationId"

definition buildAccountNotificationSettingsId :: "string \<Rightarrow> string option \<Rightarrow> string" where
  "buildAccountNotificationSettingsId accountId daoId =
     accountId @ ''-'' @
       (case daoId of None \<Rightarrow> ''all'' | Some d \<Rightarrow> if d = [] then ''all'' else d)"

definition buildTokenBalanceId :: "string \<Rightarrow> string \<Rightarrow> string" where
  "buildTokenBalanceId tokenId accountId = tokenId @ ''-'' @ accountId"

definition buildNFTTokenId :: "string \<Rightarrow> string \<Rightarrow> string" where
  "buildNFTTokenId ownerId tokenId = ownerId @ ''-'' @ tokenId"

definition buildCommentReportId :: "int \<Rightarrow> string \<Rightarrow> string" where
  "buildCommentReportId commentId accountId = int_str commentId @ ''-'' @ to_lower accountId"

definition buildDaoStatsId :: "string \<Rightarrow> int \<Rightarrow> string" where
  "buildDaoStatsId daoId timestamp = daoId @ ''-'' @ int_str timestamp"

definition buildTemplateId :: "int \<Rightarrow> string \<Rightarrow> string" where
  "buildTemplateId now daoId = daoId @ ''-'' @ int_str now"

definition buildDelegationId :: "string \<Rightarrow> string \<Rightarrow> string" where
  "buildDelegationId daoId accountId = daoId @ ''-'' @ accountId"

definition buildLikeContractName :: "string \<Rightarrow> string" where
  "buildLikeContractName contractName = ''%.'' @ contractName"

text \<open>A text that ends in a minus sign and digits has only one such reading.\<close>

lemma dash_suffix_inject:
  assumes "CHR ''-'' \<notin> set s" and "CHR ''-'' \<notin> set t"
    and "d @ CHR ''-'' # s = e @ CHR ''-'' # t"
  shows "d = e \<and> s = t"
proof -
  have "last (split_on CHR ''-'' (d @ CHR ''-'' # s)) = s"
    using assms(1) by (rule last_split_on_append)
  moreover have "last (split_on CHR ''-'' (e @ CHR ''-'' # t)) = t"
    using assms(2) by (rule last_split_on_append)
  ultimately have "s = t" using assms(3) by simp
  with assms(3) show ?thesis by simp
qed

lemma buildProposalId_inject:
  assumes "0 \<le> m" and "0 \<le> n"
    and "buildProposalId d (JNum m) = buildProposalId e (JNum n)"
  shows "d = e \<and> m = n"
proof -
  have "d @ CHR ''-'' # nat_str (nat m) = e @ CHR ''-'' # nat_str (nat n)"
    using assms by (simp add: buildProposalId_def int_str_def)
  then have "d = e \<and> nat_str (nat m) = nat_str (nat n)"
    by (intro dash_suffix_inject) simp_all
  with assms(1,2) show ?thesis by (simp add: nat_eq_iff)
qed

section \<open>Base64\<close>

text \<open>
  \<open>Buffer.from(b, 'base64')\<close> reads the letters of the standard and of the URL alphabet,
  skips every other character, stops at the first padding character and drops an incomplete last
  group; the bytes are kept as they are (\<open>toString('utf-8')\<close> of valid UTF-8).
\<close>

definition b64_char :: "nat \<Rightarrow> char" where
  "b64_char v =
     (if v < 26 then char_of (65 + v)
      else if v < 52 then char_of (71 + v)
      else if v < 62 then char_of (v - 4)
      else if v = 62 then CHR ''+'' else CHR ''/'')"

definition b64_val :: "char \<Rightarrow> nat option" where
  "b64_val c =
     (let n = (of_char c :: nat) in
      if 65 \<le> n \<and> n \<le> 90 then Some (n - 65)
      else if 97 \<le> n \<and> n \<le> 122 then Some (n - 71)
      else if 48 \<le> n \<and> n \<le> 57 then Some (n + 4)
      else if n = 43 \<or> n = 45 then Some 62
      else if n = 47 \<or> n = 95 then Some 63
      else None)"

fun b64_groups :: "nat list \<Rightarrow> nat list" where
  "b64_groups (a # b # c # d # vs) =
     (a * 4 + b div 16) # ((b mod 16) * 16 + c div 4) # ((c mod 4) * 64 + d) # b64_groups vs"
| "b64_groups [a, b, c] = [a * 4 + b div 16, (b mod 16) * 16 + c div 4]"
| "b64_groups [a, b] = [a * 4 + b div 16]"
| "b64_groups _ = []"

definition decodeBase64 :: "string \<Rightarrow> string" where
  "decodeBase64 b =
     map char_of (b64_groups (map the (filter (\<lambda>v. v \<noteq> None)
       (map b64_val (takeWhile (\<lambda>c. c \<noteq> CHR ''='') b)))))"

fun b64_bytes :: "nat list \<Rightarrow> string" where
  "b64_bytes (x # y # z # bs) =
     b64_char (x div 4) # b64_char ((x mod 4) * 16 + y div 16)
       # b64_char ((y mod 16) * 4 + z div 64) # b64_char (z mod 64) # b64_bytes bs"
| "b64_bytes [x, y] =
     [b64_char (x div 4), b64_char ((x mod 4) * 16 + y div 16), b64_char ((y mod 16) * 4), CHR ''='']"
| "b64_bytes [x] = [b64_char (x div 4), b64_char ((x mod 4) * 16), CHR ''='', CHR ''='']"
| "b64_bytes [] = []"

definition encodeBase64 :: "string \<Rightarrow> string" where
  "encodeBase64 b = b64_bytes (map of_char b)"

text \<open>
  \<open>btoaJSON\<close> yields \<open>undefined\<close> when the text is not JSON; \<open>JSON.parse\<close> is the
  parameter \<open>json_parse\<close>.
\<close>

definition btoaJSON :: "(string \<Rightarrow> exn + jsval) \<Rightarrow> string \<Rightarrow> jsval" where
  "btoaJSON json_parse b =
     (case json_parse (decodeBase64 b) of Inl e \<Rightarrow> JUndef | Inr v \<Rightarrow> v)"

definition parseJSON :: "(string \<Rightarrow> exn + jsval) \<Rightarrow> string \<Rightarrow> jsval" where
  "parseJSON json_parse s = (case json_parse s of Inl e \<Rightarrow> JNull | Inr v \<Rightarrow> v)"

lemma b64_val_char [simp]: "v < 64 \<Longrightarrow> b64_val (b64_char v) = Some v"
  by (auto simp: b64_val_def b64_char_def Let_def)

lemma b64_char_not_pad [simp]: "v < 64 \<Longrightarrow> b64_char v \<noteq> CHR ''=''"
proof
  assume "v < 64" and "b64_char v = CHR ''=''"
  then have "b64_val CHR ''='' = Some v" using b64_val_char by metis
  then show False by (simp add: b64_val_def)
qed

lemma radix_div: "(b :: nat) < n \<Longrightarrow> (a * n + b) div n = a"
  by simp

lemma radix_mod: "(b :: nat) < n \<Longrightarrow> (a * n + b) mod n = b"
  by simp

lemma b64_first: "(y :: nat) < 256 \<Longrightarrow> x div 4 * 4 + ((x mod 4) * 16 + y div 16) div 16 = x"
  by (subst radix_div) simp_all

lemma b64_second:
  assumes "(y :: nat) < 256" and "(z :: nat) < 256"
  shows "(((x mod 4) * 16 + y div 16) mod 16) * 16 + ((y mod 16) * 4 + z div 64) div 4 = y"
proof -
  have "((x mod 4) * 16 + y div 16) mod 16 = y div 16"
    using assms(1) by (intro radix_mod) simp
  moreover have "((y mod 16) * 4 + z div 64) div 4 = y mod 16"
    using assms(2) by (intro radix_div) simp
  ultimately show ?thesis by simp
qed

lemma b64_third:
  assumes "(z :: nat) < 256"
  shows "(((y mod 16) * 4 + z div 64) mod 4) * 64 + z mod 64 = z"
proof -
  have "((y mod 16) * 4 + z div 64) mod 4 = z div 64"
    using assms by (intro radix_mod) simp
  then show ?thesis by simp
qed

lemma b64_ranges:
  assumes "(x :: nat) < 256" and "(y :: nat) < 256"
  shows "x div 4 < 64" and "(x mod 4) * 16 + y div 16 < 64" and "(x mod 16) * 4 + y div 64 < 64"
proof -
  show "x div 4 < 64" using assms by simp
  have "y div 16 < 16" "y div 64 < 4" "x mod 4 < 4" "x mod 16 < 16" using assms by simp_all
  then show "(x mod 4) * 16 + y div 16 < 64" "(x mod 16) * 4 + y div 64 < 64" by linarith+
qed

lemma b64_groups_bytes:
  "\<forall>x \<in> set bs. x < 256 \<Longrightarrow>
   b64_groups (map the (filter (\<lambda>v. v \<noteq> None)
       (map b64_val (takeWhile (\<lambda>c. c \<noteq> CHR ''='') (b64_bytes bs))))) = bs"
proof (induction bs rule: b64_bytes.induct)
  case (1 x y z bs)
  then have IH: "b64_groups (map the (filter (\<lambda>v. v \<noteq> None)
       (map b64_val (takeWhile (\<lambda>c. c \<noteq> CHR ''='') (b64_bytes bs))))) = bs"
    and "x < 256" "y < 256" "z < 256" by auto
  then have "x div 4 < 64" "(x mod 4) * 16 + y div 16 < 64" "(y mod 16) * 4 + z div 64 < 64"
    "z mod 64 < 64" using b64_ranges by simp_all
  then have "b64_groups (map the (filter (\<lambda>v. v \<noteq> None)
       (map b64_val (takeWhile (\<lambda>c. c \<noteq> CHR ''='') (b64_bytes (x # y # z # bs)))))) =
     (x div 4 * 4 + ((x mod 4) * 16 + y div 16) div 16)
       # ((((x mod 4) * 16 + y div 16) mod 16) * 16 + ((y mod 16) * 4 + z div 64) div 4)
       # ((((y mod 16) * 4 + z div 64) mod 4) * 64 + z mod 64) # bs"
    using IH by simp
  then show ?case
    by (simp only: b64_first [OF \<open>y < 256\<close>] b64_second [OF \<open>y < 256\<close> \<open>z < 256\<close>]
        b64_third [OF \<open>z < 256\<close>])
next
  case (2 x y)
  then have "x < 256" "y < 256" by auto
  then have "x div 4 < 64" "(x mod 4) * 16 + y div 16 < 64" "(y mod 16) * 4 < 64"
    using b64_ranges [of x y] b64_ranges [of y 0] by simp_all
  moreover note b64_first [OF \<open>y < 256\<close>, of x] b64_second [OF \<open>y < 256\<close>, of 0 x]
  ultimately show ?case by simp
next
  case (3 x)
  then have "x < 256" by auto
  then have "x div 4 < 64" "(x mod 4) * 16 < 64"
    using b64_ranges [of x 0] by simp_all
  moreover note b64_first [of 0 x]
  ultimately show ?case by simp
qed simp

lemma decode_encode_Base64: "decodeBase64 (encodeBase64 s) = s"
proof -
  have "\<forall>x \<in> set (map of_char s). x < (256 :: nat)"
    by auto
  then have "decodeBase64 (encodeBase64 s) = map char_of (map of_char s :: nat list)"
    unfolding decodeBase64_def encodeBase64_def by (simp only: b64_groups_bytes)
  then show ?thesis by (simp add: comp_def)
qed

section \<open>Amounts\<close>

definition calcProposalVotePeriodEnd :: "string \<Rightarrow> string \<Rightarrow> exn + string" where
  "calcProposalVotePeriodEnd submissionTime proposalPeriod =
     res_bind (parse_bigint submissionTime) (\<lambda>s.
     res_bind (parse_bigint proposalPeriod) (\<lambda>p.
     Inr (int_str (s + p))))"

text \<open>Both parameters default to \<open>'0'\<close> when they are \<open>undefined\<close>.\<close>

definition calculateClaimEndTime :: "string option \<Rightarrow> string option \<Rightarrow> exn + string" where
  "calculateClaimEndTime startTime deadline =
     res_bind (parse_bigint (case startTime of None \<Rightarrow> ''0'' | Some s \<Rightarrow> s)) (\<lambda>s.
     res_bind (parse_bigint (case deadline of None \<Rightarrow> ''0'' | Some d \<Rightarrow> d)) (\<lambda>d.
     Inr (int_str (s + d))))"

text \<open>
  \<open>price\<close> is the value of \<open>Number(price)\<close>, \<open>None\<close> for \<open>NaN\<close>; the product is
  exact, without the rounding of doubles.
\<close>

definition calculateFunds :: "string \<Rightarrow> rat option \<Rightarrow> nat \<Rightarrow> exn + rat" where
  "calculateFunds amount price decimals =
     res_bind (parse_bigint amount) (\<lambda>a.
       let val = big_div a (10 ^ decimals) in
       Inr (case price of
              None \<Rightarrow> 0
            | Some p \<Rightarrow> if val > 0 \<and> p > 0 then rat_of_int val * p else 0))"

record 'a base_response =
  resp_data :: "'a list"
  resp_page :: nat
  resp_pageCount :: nat
  resp_count :: nat
  resp_total :: nat

definition paginate :: "'a list \<Rightarrow> nat option \<Rightarrow> nat \<Rightarrow> nat \<Rightarrow> 'a base_response" where
  "paginate data limit offset totalCount =
     (let l = (case limit of None \<Rightarrow> 0 | Some n \<Rightarrow> n);
          page = (if l \<noteq> 0 then offset div l + 1 else 1);
          pageCount = (if l \<noteq> 0 \<and> totalCount \<noteq> 0 then (totalCount + l - 1) div l else 1)
      in \<lparr> resp_data = data, resp_page = page, resp_pageCount = pageCount,
           resp_count = length data, resp_total = totalCount \<rparr>)"

definition getChunkCount :: "nat \<Rightarrow> nat \<Rightarrow> nat" where
  "getChunkCount n chunkSize = (n - n mod chunkSize) div chunkSize + 1"

section \<open>Lists\<close>

text \<open>
  The loop of \<open>getChunks\<close> does not end for a chunk size of 0 on a non-empty array:
  \<open>None\<close> is "does not return".
\<close>

partial_function (option) chunk_loop ::
    "'a list \<Rightarrow> nat \<Rightarrow> nat \<Rightarrow> 'a list list \<Rightarrow> 'a list list option" where
  "chunk_loop arr chunkSize i chunks =
     (if i < length arr
      then chunk_loop arr chunkSize (i + chunkSize) (chunks @ [take chunkSize (drop i arr)])
      else Some chunks)"

definition getChunks :: "'a list \<Rightarrow> nat \<Rightarrow> 'a list list option" where
  "getChunks arr chunkSize = chunk_loop arr chunkSize 0 []"

function chunks_of :: "nat \<Rightarrow> 'a list \<Rightarrow> 'a list list" where
  "chunks_of n xs = (if xs = [] \<or> n = 0 then [] else take n xs # chunks_of n (drop n xs))"
  by pat_completeness auto
termination
  by (relation "measure (\<lambda>(n, xs). length xs)") (auto simp: neq_Nil_conv)

declare chunks_of.simps [simp del]

lemma chunks_of_Nil [simp]: "chunks_of n [] = []"
  by (simp add: chunks_of.simps)

lemma chunk_loop_chunks_of:
  "0 < n \<Longrightarrow> chunk_loop arr n i acc = Some (acc @ chunks_of n (drop i arr))"
proof (induction "length arr - i" arbitrary: i acc rule: less_induct)
  case less
  show ?case
  proof (cases "i < length arr")
    case False
    then show ?thesis by (simp add: chunk_loop.simps chunks_of.simps)
  next
    case True
    with less have "chunk_loop arr n (i + n) (acc @ [take n (drop i arr)]) =
        Some ((acc @ [take n (drop i arr)]) @ chunks_of n (drop (i + n) arr))"
      by simp
    with True less.prems show ?thesis
      by (simp add: chunk_loop.simps [of arr n i] chunks_of.simps [of n "drop i arr"] add.commute)
  qed
qed

lemma getChunks_Some: "0 < n \<Longrightarrow> getChunks xs n = Some (chunks_of n xs)"
  by (simp add: getChunks_def chunk_loop_chunks_of)

lemma concat_chunks_of [simp]: "0 < n \<Longrightarrow> concat (chunks_of n xs) = xs"
proof (induction n xs rule: chunks_of.induct)
  case (1 n xs)
  then show ?case by (cases "xs = []") (simp_all add: chunks_of.simps [of n xs])
qed

lemma chunks_of_bounds: "c \<in> set (chunks_of n xs) \<Longrightarrow> c \<noteq> [] \<and> length c \<le> n"
proof (induction n xs rule: chunks_of.induct)
  case (1 n xs)
  then show ?case by (auto simp: chunks_of.simps [of n xs] split: if_splits)
qed

definition findIndex :: "('a \<Rightarrow> bool) \<Rightarrow> 'a list \<Rightarrow> int" where
  "findIndex p xs =
     (let n = length (takeWhile (\<lambda>x. \<not> p x) xs) in if n < length xs then int n else - 1)"

definition arrayUniqueBy :: "'a list \<Rightarrow> ('a \<Rightarrow> 'k) \<Rightarrow> 'a list" where
  "arrayUniqueBy array key =
     map snd (filter (\<lambda>(index, item). int index = findIndex (\<lambda>t. key t = key item) array)
       (enumerate 0 array))"

fun unique_from :: "('a \<Rightarrow> 'k) \<Rightarrow> 'k set \<Rightarrow> 'a list \<Rightarrow> 'a list" where
  "unique_from key seen [] = []"
| "unique_from key seen (x # xs) =
     (if key x \<in> seen then unique_from key seen xs
      else x # unique_from key (insert (key x) seen) xs)"

lemma takeWhile_shorter: "y \<in> set xs \<Longrightarrow> \<not> P y \<Longrightarrow> length (takeWhile P xs) < length xs"
  by (induction xs) auto

lemma findIndex_append_Cons:
  "findIndex (\<lambda>t. key t = key x) (pre @ x # xs) = int (length pre) \<longleftrightarrow> key x \<notin> key ` set pre"
proof
  assume *: "findIndex (\<lambda>t. key t = key x) (pre @ x # xs) = int (length pre)"
  show "key x \<notin> key ` set pre"
  proof
    assume "key x \<in> key ` set pre"
    then obtain y where y: "y \<in> set pre" "key y = key x" by auto
    then have "takeWhile (\<lambda>t. key t \<noteq> key x) (pre @ x # xs) = takeWhile (\<lambda>t. key t \<noteq> key x) pre"
      using takeWhile_append1 [of y pre "\<lambda>t. key t \<noteq> key x"] by simp
    moreover have "length (takeWhile (\<lambda>t. key t \<noteq> key x) pre) < length pre"
      using y takeWhile_shorter [of y pre "\<lambda>t. key t \<noteq> key x"] by simp
    ultimately show False using * by (auto simp: findIndex_def Let_def split: if_splits)
  qed
next
  assume "key x \<notin> key ` set pre"
  then have "takeWhile (\<lambda>t. key t \<noteq> key x) (pre @ x # xs) = pre"
    by (subst takeWhile_append2) (auto simp: image_iff)
  then show "findIndex (\<lambda>t. key t = key x) (pre @ x # xs) = int (length pre)"
    by (simp add: findIndex_def)
qed

lemma arrayUniqueBy_aux:
  "map snd (filter (\<lambda>(index, item). int index = findIndex (\<lambda>t. key t = key item) (pre @ xs))
     (enumerate (length pre) xs)) = unique_from key (key ` set pre) xs"
proof (induction xs arbitrary: pre)
  case Nil
  then show ?case by simp
next
  case (Cons x xs)
  have "map snd (filter (\<lambda>(index, item). int index = findIndex (\<lambda>t. key t = key item)
          ((pre @ [x]) @ xs)) (enumerate (length (pre @ [x])) xs)) =
        unique_from key (key ` set (pre @ [x])) xs"
    by (rule Cons.IH)
  then have "map snd (filter (\<lambda>(index, item). int index = findIndex (\<lambda>t. key t = key item)
          (pre @ x # xs)) (enumerate (Suc (length pre)) xs)) =
        unique_from key (insert (key x) (key ` set pre)) xs"
    by simp
  moreover have "int (length pre) = findIndex (\<lambda>t. key t = key x) (pre @ x # xs) \<longleftrightarrow>
      key x \<notin> key ` set pre"
    using findIndex_append_Cons [of key x pre xs] by auto
  moreover have "key x \<in> key ` set pre \<Longrightarrow> insert (key x) (key ` set pre) = key ` set pre"
    by auto
  ultimately show ?case by auto
qed

lemma arrayUniqueBy_unique_from: "arrayUniqueBy xs key = unique_from key {} xs"
  using arrayUniqueBy_aux [of key "[]" xs] by (simp add: arrayUniqueBy_def)

lemma unique_from_keys: "key ` set (unique_from key seen xs) = key ` set xs - seen"
  by (induction xs arbitrary: seen) auto

lemma unique_from_distinct: "distinct (map key (unique_from key seen xs))"
proof (induction xs arbitrary: seen)
  case (Cons x xs)
  have "key x \<notin> key ` set (unique_from key (insert (key x) seen) xs)"
    by (simp add: unique_from_keys)
  with Cons show ?case by simp
qed simp

lemma unique_from_subseq: "subseq (unique_from key seen xs) xs"
  by (induction xs arbitrary: seen) auto

lemma unique_from_id:
  "distinct (map key xs) \<Longrightarrow> key ` set xs \<inter> seen = {} \<Longrightarrow> unique_from key seen xs = xs"
  by (induction xs arbitrary: seen) auto

text \<open>
  The contract the de-duplicated lists of the gateway share: the keys are distinct, no key is
  lost, what was distinct stays as it was and an element already present by its key is not added
  again. It is interpreted for bounty claims and proposal actions where those are built.
\<close>

locale unique_list =
  fixes key :: "'a \<Rightarrow> 'k" and uniq :: "'a list \<Rightarrow> 'a list"
  assumes uniq_distinct: "distinct (map key (uniq xs))"
    and uniq_keys: "key ` set (uniq xs) = key ` set xs"
    and uniq_subseq: "subseq (uniq xs) xs"
    and uniq_id: "distinct (map key xs) \<Longrightarrow> uniq xs = xs"
begin

lemma uniq_idem: "uniq (uniq xs) = uniq xs"
  by (intro uniq_id uniq_distinct)

lemma uniq_mem: "x \<in> set (uniq xs) \<Longrightarrow> x \<in> set xs"
  using list_emb_set [OF uniq_subseq] by auto

lemma uniq_length: "length (uniq xs) \<le> length xs"
  by (rule list_emb_length [OF uniq_subseq])

lemma uniq_key_unique:
  assumes "x \<in> set (uniq xs)" and "y \<in> set (uniq xs)" and "key x = key y"
  shows "x = y"
  using assms uniq_distinct [of xs] by (auto simp: distinct_map inj_on_def)

lemma uniq_has_key: "k \<in> key ` set xs \<longleftrightarrow> (\<exists>x \<in> set (uniq xs). key x = k)"
  using uniq_keys [of xs] by (metis (no_types, lifting) image_iff)

end

lemma unique_list_arrayUniqueBy: "unique_list key (\<lambda>xs. arrayUniqueBy xs key)"
proof unfold_locales
  fix xs :: "'a list"
  show "distinct (map key (arrayUniqueBy xs key))"
    by (simp add: arrayUniqueBy_unique_from unique_from_distinct)
  show "key ` set (arrayUniqueBy xs key) = key ` set xs"
    by (simp add: arrayUniqueBy_unique_from unique_from_keys)
  show "subseq (arrayUniqueBy xs key) xs"
    by (simp add: arrayUniqueBy_unique_from unique_from_subseq)
  show "distinct (map key xs) \<Longrightarrow> arrayUniqueBy xs key = xs"
    by (simp add: arrayUniqueBy_unique_from unique_from_id)
qed

lemma unique_from_append_seen:
  "unique_from key seen (xs @ [x]) =
     unique_from key seen xs @ (if key x \<in> seen \<union> key ` set xs then [] else [x])"
  by (induction xs arbitrary: seen) auto

lemma arrayUniqueBy_snoc:
  "arrayUniqueBy (xs @ [x]) key =
     arrayUniqueBy xs key @ (if key x \<in> key ` set xs then [] else [x])"
  by (simp add: arrayUniqueBy_unique_from unique_from_append_seen)

end
