(* ===== verification/Dynamo_Data.thy ===== *)
theory Dynamo_Data
  imports Utils
begin

text \<open>
  The values that go to and come from the DynamoDB table: \<open>deepFilter\<close> and \<open>deepMap\<close> of
  \<open>libs/utils/src/index.ts\<close>, \<open>normalizeData\<close> and \<open>denormalizeData\<close> of
  \<open>libs/dynamodb/src/dynamodb.service.ts\<close>, the entity types and the entity identifiers.

  An object is its list of entries; building or extending one keeps the place of a key that is
  already there. (JavaScript moves integer-like keys to the front; the order of the entries only
  matters where a theorem mentions it.)
\<close>

section \<open>Objects\<close>

fun obj_set :: "(string \<times> jsval) list \<Rightarrow> string \<Rightarrow> jsval \<Rightarrow> (string \<times> jsval) list" where
  "obj_set [] k v = [(k, v)]"
| "obj_set ((k', v') # fs) k v = (if k' = k then (k, v) # fs else (k', v') # obj_set fs k v)"

text \<open>\<open>{ ...fs, ...gs }\<close>\<close>

definition obj_spread ::
    "(string \<times> jsval) list \<Rightarrow> (string \<times> jsval) list \<Rightarrow> (string \<times> jsval) list" where
  "obj_spread fs gs = fold (\<lambda>(k, v) acc. obj_set acc k v) gs fs"

text \<open>What \<open>...v\<close> contributes to an object literal: nothing for a value that is no object.\<close>

fun spread_fields :: "jsval \<Rightarrow> (string \<times> jsval) list" where
  "spread_fields (JObj fs) = fs"
| "spread_fields (JArr xs) = map (\<lambda>(i, x). (nat_str i, x)) (enumerate 0 xs)"
| "spread_fields _ = []"

lemma map_of_obj_set [simp]: "map_of (obj_set fs k v) = (map_of fs)(k \<mapsto> v)"
  by (induction fs k v rule: obj_set.induct) auto

lemma obj_set_keys: "set (map fst (obj_set fs k v)) = insert k (set (map fst fs))"
  by (induction fs k v rule: obj_set.induct) auto

lemma distinct_obj_set: "distinct (map fst fs) \<Longrightarrow> distinct (map fst (obj_set fs k v))"
proof (induction fs k v rule: obj_set.induct)
  case (2 k' v' fs k v)
  then show ?case using obj_set_keys [of fs k v] by auto
qed simp

lemma obj_set_fresh: "k \<notin> set (map fst fs) \<Longrightarrow> obj_set fs k v = fs @ [(k, v)]"
  by (induction fs k v rule: obj_set.induct) auto

lemma obj_spread_Nil [simp]: "obj_spread fs [] = fs"
  by (simp add: obj_spread_def)

lemma obj_spread_Cons [simp]:
  "obj_spread fs ((k, v) # gs) = obj_spread (obj_set fs k v) gs"
  by (simp add: obj_spread_def)

lemma obj_spread_fresh:
  "distinct (map fst (fs @ gs)) \<Longrightarrow> obj_spread fs gs = fs @ gs"
proof (induction gs arbitrary: fs)
  case (Cons g gs)
  then show ?case by (cases g) (simp add: obj_set_fresh)
qed simp

lemma map_of_obj_spread:
  "distinct (map fst gs) \<Longrightarrow> map_of (obj_spread fs gs) = map_of fs ++ map_of gs"
proof (induction gs arbitrary: fs)
  case (Cons g gs)
  obtain k v where g: "g = (k, v)" by (cases g)
  with Cons.prems have "k \<notin> dom (map_of gs)" by (simp add: dom_map_of_conv_image_fst)
  then have "(map_of fs)(k \<mapsto> v) ++ map_of gs = map_of fs ++ (map_of gs)(k \<mapsto> v)"
    using map_add_upd_left [of k "map_of gs" "map_of fs" v] map_add_upd [of "map_of fs" "map_of gs" k v]
    by (simp only: not_False_eq_True True_implies_equals)
  moreover have "map_of (obj_spread (obj_set fs k v) gs) = map_of (obj_set fs k v) ++ map_of gs"
    using Cons by simp
  ultimately show ?case by (simp only: g obj_spread_Cons map_of_obj_set map_of.simps fst_conv snd_conv)
qed simp

section \<open>Deep filter and deep map\<close>

text \<open>The function gets the key too, which no caller reads.\<close>

fun deepFilter :: "(jsval \<Rightarrow> bool) \<Rightarrow> jsval \<Rightarrow> jsval" where
  "deepFilter f (JArr xs) = JArr (map (\<lambda>x. if f x then deepFilter f x else JBool False) xs)"
| "deepFilter f (JObj fs) =
     JObj (obj_spread [] (filter (\<lambda>(k, v). f v) fs))"
| "deepFilter f v = v"

text \<open>
  \<open>Object.fromEntries\<close> reads the elements 0 and 1 of each entry; the key becomes a string.
\<close>

fun entry_of :: "jsval \<Rightarrow> string \<times> jsval" where
  "entry_of (JArr (k # v # _)) = (js_str k, v)"
| "entry_of (JArr [k]) = (js_str k, JUndef)"
| "entry_of _ = (''undefined'', JUndef)"

fun deepMap :: "(jsval \<Rightarrow> jsval) \<Rightarrow> jsval \<Rightarrow> jsval" where
  "deepMap f (JArr xs) = JArr (map (\<lambda>x. f (deepMap f x)) xs)"
| "deepMap f (JObj fs) =
     JObj (obj_spread []
       (map (\<lambda>e. entry_of (f (JArr [JStr (fst e), deepMap f (snd e)]))) fs))"
| "deepMap f v = v"

section \<open>Normalising\<close>

definition EMPTY_KEY_PLACEHOLDER :: string where
  "EMPTY_KEY_PLACEHOLDER = ''__EMPTY_KEY__''"

text \<open>\<open>const [key, val] = value\<close>\<close>

fun destructure2 :: "jsval list \<Rightarrow> jsval \<times> jsval" where
  "destructure2 (k # v # _) = (k, v)"
| "destructure2 [k] = (k, JUndef)"
| "destructure2 [] = (JUndef, JUndef)"

fun normalize_value :: "jsval \<Rightarrow> jsval" where
  "normalize_value (JArr value) =
     (case destructure2 value of (key, val) \<Rightarrow>
        JArr [if key \<noteq> JStr [] then key else JStr EMPTY_KEY_PLACEHOLDER, val])"
| "normalize_value value = (if value \<noteq> JUndef then value else JNull)"

definition normalizeData :: "jsval \<Rightarrow> jsval" where
  "normalizeData data = deepFilter (\<lambda>value. value \<noteq> JUndef) (deepMap normalize_value data)"

fun denormalize_value :: "jsval \<Rightarrow> jsval" where
  "denormalize_value (JArr value) =
     (case destructure2 value of (key, val) \<Rightarrow>
        JArr [if key \<noteq> JStr EMPTY_KEY_PLACEHOLDER then key else JStr [], val])"
| "denormalize_value value = value"

definition denormalizeData :: "jsval \<Rightarrow> jsval" where
  "denormalizeData data = deepMap denormalize_value data"

section \<open>Round trip\<close>

text \<open>
  The values that survive: nothing undefined, no array directly inside an array, and objects whose
  keys are distinct and none of which is the placeholder.
\<close>

fun storable :: "jsval \<Rightarrow> bool" where
  "storable JUndef = False"
| "storable (JArr xs) = list_all (\<lambda>x. storable x \<and> (case x of JArr _ \<Rightarrow> False | _ \<Rightarrow> True)) xs"
| "storable (JObj fs) = (distinct (map fst fs) \<and> EMPTY_KEY_PLACEHOLDER \<notin> set (map fst fs)
     \<and> list_all (\<lambda>e. storable (snd e)) fs)"
| "storable v = True"

text \<open>
  The same without the condition on undefined parts: an undefined element of an array becomes null,
  wherever the array is, and an undefined property is left out of an object that stands outermost
  or in the outermost array; \<open>deepFilter\<close> does not go into objects, so others keep theirs.
\<close>

fun loadable :: "jsval \<Rightarrow> bool" where
  "loadable (JArr xs) = list_all (\<lambda>x. loadable x \<and> (case x of JArr _ \<Rightarrow> False | _ \<Rightarrow> True)) xs"
| "loadable (JObj fs) = (distinct (map fst fs) \<and> EMPTY_KEY_PLACEHOLDER \<notin> set (map fst fs)
     \<and> list_all (\<lambda>e. loadable (snd e)) fs)"
| "loadable v = True"

fun nulls :: "jsval \<Rightarrow> jsval" where
  "nulls (JArr xs) = JArr (map (\<lambda>x. if x = JUndef then JNull else nulls x) xs)"
| "nulls (JObj fs) = JObj (map (\<lambda>e. (fst e, nulls (snd e))) fs)"
| "nulls v = v"

fun trimmed :: "jsval \<Rightarrow> jsval" where
  "trimmed (JArr xs) = JArr (map trimmed xs)"
| "trimmed (JObj fs) = JObj (filter (\<lambda>e. snd e \<noteq> JUndef) fs)"
| "trimmed v = v"

definition store_key :: "string \<Rightarrow> string" where
  "store_key k = (if k = [] then EMPTY_KEY_PLACEHOLDER else k)"

definition load_key :: "string \<Rightarrow> string" where
  "load_key k = (if k = EMPTY_KEY_PLACEHOLDER then [] else k)"

lemma load_store_key [simp]: "k \<noteq> EMPTY_KEY_PLACEHOLDER \<Longrightarrow> load_key (store_key k) = k"
  by (auto simp: load_key_def store_key_def)

lemma store_key_inj: "inj_on store_key (- {EMPTY_KEY_PLACEHOLDER})"
  by (auto simp: inj_on_def store_key_def)

lemma normalize_entry:
  "entry_of (normalize_value (JArr [JStr k, v])) = (store_key k, v)"
  by (simp add: store_key_def)

lemma denormalize_entry:
  "entry_of (denormalize_value (JArr [JStr k, v])) = (load_key k, v)"
  by (simp add: load_key_def)

lemma deepMap_normalize_obj:
  "deepMap normalize_value (JObj fs) =
     JObj (obj_spread [] (map (\<lambda>e. (store_key (fst e), deepMap normalize_value (snd e))) fs))"
  unfolding deepMap.simps normalize_entry ..

lemma deepMap_denormalize_obj:
  "deepMap denormalize_value (JObj fs) =
     JObj (obj_spread [] (map (\<lambda>e. (load_key (fst e), deepMap denormalize_value (snd e))) fs))"
  unfolding deepMap.simps denormalize_entry ..

text \<open>The stored form of a storable value.\<close>

fun stored :: "jsval \<Rightarrow> jsval" where
  "stored (JArr xs) = JArr (map stored xs)"
| "stored (JObj fs) = JObj (map (\<lambda>e. (store_key (fst e), stored (snd e))) fs)"
| "stored v = v"

lemma stored_not_undef [simp]: "stored v = JUndef \<longleftrightarrow> v = JUndef"
  by (cases v) simp_all

lemma distinct_store_keys:
  assumes "distinct (map fst fs)" and "EMPTY_KEY_PLACEHOLDER \<notin> set (map fst fs)"
  shows "distinct (map (\<lambda>e. store_key (fst e)) fs)"
proof -
  have "inj_on store_key (set (map fst fs))"
    by (rule inj_on_subset [OF store_key_inj]) (use assms(2) in auto)
  then have "distinct (map store_key (map fst fs))"
    using assms(1) by (simp only: distinct_map)
  then show ?thesis by (simp add: comp_def)
qed

lemma nulls_not_undef [simp]: "nulls v = JUndef \<longleftrightarrow> v = JUndef"
  by (cases v) simp_all

lemma deepMap_normalize_stored: "loadable v \<Longrightarrow> deepMap normalize_value v = stored (nulls v)"
proof (induction v)
  case (JArr xs)
  have "normalize_value (deepMap normalize_value x) = stored (if x = JUndef then JNull else nulls x)"
    if "x \<in> set xs" for x
    using JArr.IH [OF that] JArr.prems that
    by (cases x) (auto simp: list_all_iff simp del: deepMap.simps)
  then show ?case by simp
next
  case (JObj fs)
  then have "map (\<lambda>e. (store_key (fst e), deepMap normalize_value (snd e))) fs =
      map (\<lambda>e. (store_key (fst e), stored (nulls (snd e)))) fs"
    by (auto simp: list_all_iff snds.simps)
  moreover have "distinct (map fst ([] @ map (\<lambda>e. (store_key (fst e), stored (nulls (snd e)))) fs))"
    using JObj.prems distinct_store_keys [of fs] by (simp add: comp_def)
  note obj_spread_fresh [OF this]
  ultimately show ?case
    by (simp only: deepMap_normalize_obj nulls.simps stored.simps append_Nil list.map_comp comp_def
        fst_conv snd_conv)
qed simp_all

text \<open>No array has an undefined element.\<close>

fun full_arrays :: "jsval \<Rightarrow> bool" where
  "full_arrays (JArr xs) = list_all (\<lambda>x. x \<noteq> JUndef \<and> full_arrays x) xs"
| "full_arrays (JObj fs) = list_all (\<lambda>e. full_arrays (snd e)) fs"
| "full_arrays v = True"

lemma full_arrays_nulls: "full_arrays (nulls v)"
  by (induction v) (auto simp: list_all_iff snds.simps)

lemma array_nulls:
  "(case nulls x of JArr _ \<Rightarrow> False | _ \<Rightarrow> True) = (case x of JArr _ \<Rightarrow> False | _ \<Rightarrow> True)"
  by (cases x) simp_all

lemma loadable_nulls: "loadable v \<Longrightarrow> loadable (nulls v)"
proof (induction v)
  case (JArr xs)
  have "loadable (nulls x) \<and> (case nulls x of JArr _ \<Rightarrow> False | _ \<Rightarrow> True)" if "x \<in> set xs" for x
    using JArr.IH [OF that] JArr.prems that array_nulls [of x] by (simp add: list_all_iff)
  then show ?case by (auto simp: list_all_iff)
next
  case (JObj fs)
  then show ?case by (auto simp: list_all_iff comp_def snds.simps)
qed simp_all

lemma array_trimmed:
  "(case trimmed x of JArr _ \<Rightarrow> False | _ \<Rightarrow> True) = (case x of JArr _ \<Rightarrow> False | _ \<Rightarrow> True)"
  by (cases x) simp_all

lemma loadable_trimmed: "loadable v \<Longrightarrow> loadable (trimmed v)"
proof (induction v)
  case (JArr xs)
  have "loadable (trimmed x) \<and> (case trimmed x of JArr _ \<Rightarrow> False | _ \<Rightarrow> True)" if "x \<in> set xs" for x
    using JArr.IH [OF that] JArr.prems that array_trimmed [of x] by (simp add: list_all_iff)
  then show ?case by (auto simp: list_all_iff)
next
  case (JObj fs)
  then have "distinct (map fst (filter (\<lambda>e. snd e \<noteq> JUndef) fs))" by (simp add: distinct_map_filter)
  with JObj.prems show ?case by (auto simp: list_all_iff)
qed simp_all

lemma deepFilter_stored:
  "loadable v \<Longrightarrow> full_arrays v \<Longrightarrow>
     deepFilter (\<lambda>value. value \<noteq> JUndef) (stored v) = stored (trimmed v)"
proof (induction v)
  case (JArr xs)
  have "x \<noteq> JUndef \<and> deepFilter (\<lambda>value. value \<noteq> JUndef) (stored x) = stored (trimmed x)"
    if "x \<in> set xs" for x
    using JArr.IH [OF that] JArr.prems that by (auto simp: list_all_iff)
  then show ?case by simp
next
  case (JObj fs)
  let ?gs = "map (\<lambda>e. (store_key (fst e), stored (snd e))) (filter (\<lambda>e. snd e \<noteq> JUndef) fs)"
  have eq: "filter (\<lambda>(k, v). v \<noteq> JUndef) (map (\<lambda>e. (store_key (fst e), stored (snd e))) fs) = ?gs"
    by (simp add: filter_map comp_def)
  have "distinct (map fst (filter (\<lambda>e. snd e \<noteq> JUndef) fs))"
    using JObj.prems(1) by (simp add: distinct_map_filter)
  then have "distinct (map fst ?gs)"
    using JObj.prems(1) distinct_store_keys [of "filter (\<lambda>e. snd e \<noteq> JUndef) fs"]
    by (auto simp: comp_def)
  then show ?case
    unfolding stored.simps deepFilter.simps trimmed.simps eq by (simp add: obj_spread_fresh)
qed simp_all

lemma normalizeData_loadable: "loadable v \<Longrightarrow> normalizeData v = stored (trimmed (nulls v))"
  by (simp add: normalizeData_def deepMap_normalize_stored deepFilter_stored loadable_nulls
      full_arrays_nulls)

lemma deepMap_denormalize_stored: "loadable v \<Longrightarrow> deepMap denormalize_value (stored v) = v"
proof (induction v)
  case (JArr xs)
  have "denormalize_value (deepMap denormalize_value (stored x)) = x" if "x \<in> set xs" for x
    using JArr.IH [OF that] JArr.prems that
    by (cases x) (auto simp: list_all_iff simp del: deepMap.simps)
  then show ?case by (simp add: map_idI)
next
  case (JObj fs)
  have "(load_key (store_key (fst e)), deepMap denormalize_value (stored (snd e))) = e"
    if "e \<in> set fs" for e
  proof -
    have "loadable (snd e)" using JObj.prems that by (auto simp: list_all_iff)
    moreover have "fst e \<in> set (map fst fs)" using that by simp
    then have "fst e \<noteq> EMPTY_KEY_PLACEHOLDER" using JObj.prems by (metis loadable.simps(2))
    ultimately have "loadable (snd e)" and "fst e \<noteq> EMPTY_KEY_PLACEHOLDER" by simp_all
    then show ?thesis using JObj.IH [OF that, of "snd e"] by (cases e) (simp add: snds.simps)
  qed
  then have "map (\<lambda>e. (load_key (store_key (fst e)), deepMap denormalize_value (stored (snd e)))) fs
      = fs"
    by (simp add: map_idI)
  then show ?case
    using JObj.prems
    by (simp add: deepMap_denormalize_obj comp_def obj_spread_fresh del: deepMap.simps)
qed simp_all

lemma storable_loadable: "storable v \<Longrightarrow> loadable v"
  by (induction v) (auto simp: list_all_iff snds.simps)

lemma storable_kept: "storable v \<Longrightarrow> nulls v = v \<and> trimmed v = v"
proof (induction v)
  case (JArr xs)
  have "x \<noteq> JUndef \<and> nulls x = x \<and> trimmed x = x" if "x \<in> set xs" for x
    using JArr.IH [OF that] JArr.prems that by (cases x) (auto simp: list_all_iff)
  then show ?case by (simp add: map_idI)
next
  case (JObj fs)
  have "snd e \<noteq> JUndef \<and> nulls (snd e) = snd e" if "e \<in> set fs" for e
    using JObj.IH [OF that, of "snd e"] JObj.prems that
    by (cases e; cases "snd e") (auto simp: list_all_iff snds.simps)
  then show ?case by (simp add: map_idI)
qed simp_all

lemma normalizeData_storable: "storable v \<Longrightarrow> normalizeData v = stored v"
  by (simp add: normalizeData_loadable storable_loadable storable_kept)

section \<open>Normalising twice\<close>

text \<open>Values that are already normalised are not changed by normalising them again.\<close>

fun normal :: "jsval \<Rightarrow> bool" where
  "normal JUndef = False"
| "normal (JArr xs) = list_all (\<lambda>x. normal x \<and> (case x of JArr _ \<Rightarrow> False | _ \<Rightarrow> True)) xs"
| "normal (JObj fs) = (distinct (map fst fs) \<and> list_all (\<lambda>e. fst e \<noteq> [] \<and> normal (snd e)) fs)"
| "normal v = True"

lemma normal_not_undef: "normal v \<Longrightarrow> v \<noteq> JUndef"
  by (cases v) simp_all

lemma deepMap_normal: "normal v \<Longrightarrow> deepMap normalize_value v = v"
proof (induction v)
  case (JArr xs)
  have "normalize_value (deepMap normalize_value x) = x" if "x \<in> set xs" for x
    using JArr.IH [OF that] JArr.prems that
    by (cases x) (auto simp: list_all_iff simp del: deepMap.simps)
  then show ?case by (simp add: map_idI)
next
  case (JObj fs)
  have "(store_key (fst e), deepMap normalize_value (snd e)) = e" if "e \<in> set fs" for e
    using JObj.IH [OF that, of "snd e"] JObj.prems that
    by (cases e) (auto simp: list_all_iff snds.simps store_key_def)
  then have "map (\<lambda>e. (store_key (fst e), deepMap normalize_value (snd e))) fs = fs"
    by (simp add: map_idI)
  then show ?case
    using JObj.prems by (simp add: deepMap_normalize_obj obj_spread_fresh del: deepMap.simps)
qed simp_all

lemma deepFilter_normal: "normal v \<Longrightarrow> deepFilter (\<lambda>value. value \<noteq> JUndef) v = v"
proof (induction v)
  case (JArr xs)
  have "(if x \<noteq> JUndef then deepFilter (\<lambda>value. value \<noteq> JUndef) x else JBool False) = x"
    if "x \<in> set xs" for x
    using JArr.IH [OF that] JArr.prems that normal_not_undef by (auto simp: list_all_iff)
  then show ?case by (simp add: map_idI)
next
  case (JObj fs)
  then have "filter (\<lambda>(k, v). v \<noteq> JUndef) fs = fs"
    by (auto simp: filter_id_conv list_all_iff dest: normal_not_undef)
  with JObj.prems show ?case by (simp add: obj_spread_fresh)
qed simp_all

lemma normalizeData_normal: "normal v \<Longrightarrow> normalizeData v = v"
  by (simp add: normalizeData_def deepMap_normal deepFilter_normal)

lemma normal_stored: "storable v \<Longrightarrow> normal (stored v)"
proof (induction v)
  case (JArr xs)
  have "normal (stored x) \<and> (case stored x of JArr _ \<Rightarrow> False | _ \<Rightarrow> True)" if "x \<in> set xs" for x
  proof
    show "normal (stored x)" using JArr.IH [OF that] JArr.prems that by (auto simp: list_all_iff)
    show "case stored x of JArr _ \<Rightarrow> False | _ \<Rightarrow> True"
      using JArr.prems that by (cases x) (auto simp: list_all_iff)
  qed
  then show ?case by (simp add: list_all_iff)
next
  case (JObj fs)
  have "store_key (fst e) \<noteq> [] \<and> normal (stored (snd e))" if "e \<in> set fs" for e
    using JObj.IH [OF that, of "snd e"] JObj.prems that
    by (cases e) (auto simp: list_all_iff snds.simps store_key_def EMPTY_KEY_PLACEHOLDER_def)
  with JObj.prems distinct_store_keys [of fs] show ?case
    by (simp add: list_all_iff comp_def)
qed simp_all

lemma distinct_obj_spread:
  "distinct (map fst fs) \<Longrightarrow> distinct (map fst (obj_spread fs gs))"
proof (induction gs arbitrary: fs)
  case (Cons g gs)
  then show ?case by (cases g) (simp add: distinct_obj_set)
qed simp

lemma list_all_obj_set: "list_all P fs \<Longrightarrow> P (k, v) \<Longrightarrow> list_all P (obj_set fs k v)"
  by (induction fs k v rule: obj_set.induct) auto

lemma list_all_obj_spread: "list_all P fs \<Longrightarrow> list_all P gs \<Longrightarrow> list_all P (obj_spread fs gs)"
proof (induction gs arbitrary: fs)
  case (Cons g gs)
  then show ?case by (cases g) (simp add: list_all_obj_set)
qed simp

lemma obj_spread_front:
  "a \<noteq> b \<Longrightarrow> \<exists>x' y' rest'. obj_spread ((a, x) # (b, y) # rest) gs = (a, x') # (b, y') # rest'"
proof (induction gs arbitrary: x y rest)
  case (Cons g gs)
  then show ?case by (cases g) (auto; blast)
qed simp

text \<open>Putting the same two fields in front again changes nothing.\<close>

lemma obj_spread_again:
  assumes "a \<noteq> b"
  shows "obj_spread [(a, p), (b, q)] (obj_spread [(a, x), (b, y)] gs) =
    obj_spread [(a, x), (b, y)] gs"
proof -
  obtain x' y' rest where r: "obj_spread [(a, x), (b, y)] gs = (a, x') # (b, y') # rest"
    using obj_spread_front [OF assms, of x y "[]" gs] by auto
  have "distinct (map fst (obj_spread [(a, x), (b, y)] gs))"
    by (rule distinct_obj_spread) (simp add: assms)
  then have "distinct (map fst ([(a, x'), (b, y')] @ rest))" by (simp add: r)
  then have "obj_spread [(a, x'), (b, y')] rest = (a, x') # (b, y') # rest"
    using obj_spread_fresh [of "[(a, x'), (b, y')]" rest] by simp
  then show ?thesis using assms by (simp add: r)
qed

section \<open>Properties\<close>



text \<open>
  What is lost: an array inside an array is cut after its second element, a one-element one
  gets \<open>false\<close> appended, and an undefined property survives inside a nested object, as
  \<open>deepFilter\<close> does not descend into objects.
\<close>

theorem normalizeData_nested:
  "normalizeData (JArr [JArr [JNum a, JNum b, JNum c]]) = JArr [JArr [JNum a, JNum b]]
   \<and> normalizeData (JArr [JArr [JNum a]]) = JArr [JArr [JNum a, JBool False]]
   \<and> normalizeData (JObj [(''k'', JUndef), (''o'', JObj [(''u'', JUndef)])]) =
       JObj [(''o'', JObj [(''u'', JUndef)])]"
  by (simp add: normalizeData_def)

end
