(* ===== verification/Dynamo_Service.thy ===== *)
theory Dynamo_Service
  imports Effects Dynamo_Data
begin

text \<open>
  \<open>libs/dynamodb/src/dynamodb.service.ts\<close>: every operation of \<open>DynamodbService\<close> on the AWS
  \<open>DocumentClient\<close>. The client is the world: each request is a call, its answer is arbitrary and
  may be a rejection, whose AWS error code is the text of \<open>Rejection\<close>. Items, keys and queries are
  dynamic values. The two loops that repeat until the table has taken everything, and the two
  generators, may run forever: \<open>None\<close> means that they do not return. The constructor and
  the debug messages are not modelled.
\<close>

section \<open>Entities\<close>

datatype dynamo_entity_type =
    E_Account | E_AccountNotification | E_AccountNotificationIds | E_AccountNotificationSettings
  | E_Bounty | E_BountyComment | E_BountyMapping | E_Dao | E_DaoFundsReceipt
  | E_DaoFundsTokenReceipt | E_DaoIds | E_DaoStats | E_DraftProposal | E_DraftProposalComment
  | E_Error | E_ErrorIds | E_HandledReceiptAction | E_Nft | E_Notification | E_Otp | E_Proposal
  | E_ProposalComment | E_ProposalTemplate | E_SharedProposalTemplate | E_Subscription
  | E_TokenBalance | E_TokenPrice

fun entity_type_str :: "dynamo_entity_type \<Rightarrow> string" where
  "entity_type_str E_Account = ''Account''"
| "entity_type_str E_AccountNotification = ''AccountNotification''"
| "entity_type_str E_AccountNotificationIds = ''AccountNotificationIds''"
| "entity_type_str E_AccountNotificationSettings = ''AccountNotificationSettings''"
| "entity_type_str E_Bounty = ''Bounty''"
| "entity_type_str E_BountyComment = ''BountyComment''"
| "entity_type_str E_BountyMapping = ''BountyMapping''"
| "entity_type_str E_Dao = ''Dao''"
| "entity_type_str E_DaoFundsReceipt = ''DaoFundsReceipt''"
| "entity_type_str E_DaoFundsTokenReceipt = ''DaoFundsTokenReceipt''"
| "entity_type_str E_DaoIds = ''DAO_IDS''"
| "entity_type_str E_DaoStats = ''DaoStats''"
| "entity_type_str E_DraftProposal = ''DraftProposal''"
| "entity_type_str E_DraftProposalComment = ''DraftProposalComment''"
| "entity_type_str E_Error = ''Error''"
| "entity_type_str E_ErrorIds = ''ERROR_IDS''"
| "entity_type_str E_HandledReceiptAction = ''HandledReceiptAction''"
| "entity_type_str E_Nft = ''Nft''"
| "entity_type_str E_Notification = ''Notification''"
| "entity_type_str E_Otp = ''Otp''"
| "entity_type_str E_Proposal = ''Proposal''"
| "entity_type_str E_ProposalComment = ''ProposalComment''"
| "entity_type_str E_ProposalTemplate = ''ProposalTemplate''"
| "entity_type_str E_SharedProposalTemplate = ''SharedProposalTemplate''"
| "entity_type_str E_Subscription = ''Subscription''"
| "entity_type_str E_TokenBalance = ''TokenBalance''"
| "entity_type_str E_TokenPrice = ''TokenPrice''"

definition buildEntityId :: "dynamo_entity_type \<Rightarrow> string \<Rightarrow> string" where
  "buildEntityId entityType i = entity_type_str entityType @ '':'' @ i"

section \<open>The client\<close>

datatype write_request = PutRequest jsval | DeleteRequest jsval

datatype dyn_call =
    C_batchWrite string "write_request list"
  | C_batchGet string "jsval list"
  | C_update string jsval string "(string \<times> jsval) list" "(string \<times> jsval) list" bool
  | C_get string jsval
  | C_query string "(string \<times> jsval) list"
  | C_put string jsval bool
  | C_delete string jsval bool

text \<open>The answer to a query; \<open>qo_rest\<close> holds \<open>LastEvaluatedKey\<close>, \<open>Count\<close> and the others.\<close>

record query_output =
  qo_Items :: "jsval list option"
  qo_rest :: "(string \<times> jsval) list"

text \<open>
  The oracles see the calls made so far, the current one last. \<open>dw_batchWrite\<close> answers
  \<open>UnprocessedItems?.[tableName]\<close>, \<open>dw_batchGet\<close> answers \<open>Responses?.[tableName]\<close> and
  \<open>UnprocessedKeys?.[tableName]?.Keys\<close>, \<open>dw_update\<close>, \<open>dw_get\<close> and \<open>dw_delete\<close> answer
  \<open>Attributes\<close>, \<open>Item\<close> and \<open>Attributes\<close>.
\<close>

record dyn_world =
  dw_now :: "dyn_call list \<Rightarrow> int"
  dw_batchWrite :: "dyn_call list \<Rightarrow> exn + write_request list option"
  dw_batchGet :: "dyn_call list \<Rightarrow> exn + (jsval list option \<times> jsval list option)"
  dw_update :: "dyn_call list \<Rightarrow> exn + jsval"
  dw_get :: "dyn_call list \<Rightarrow> exn + jsval"
  dw_query :: "dyn_call list \<Rightarrow> exn + query_output"
  dw_put :: "dyn_call list \<Rightarrow> exn + unit"
  dw_delete :: "dyn_call list \<Rightarrow> exn + jsval"

type_synonym 'a dyn_act = "(dyn_world, dyn_call, 'a) act"

text \<open>A loop that may not return: \<open>None\<close>.\<close>

type_synonym 'a dyn_loop = "dyn_world \<Rightarrow> dyn_call list \<Rightarrow> ((exn + 'a) \<times> dyn_call list) option"

definition key_of :: "jsval \<Rightarrow> jsval" where
  "key_of item = JObj [(''partitionId'', js_get_opt item ''partitionId''),
                       (''entityId'', js_get_opt item ''entityId'')]"

section \<open>Batches\<close>

definition BATCH_GET_LIMIT :: nat where
  "BATCH_GET_LIMIT = 100"

definition BATCH_WRITE_LIMIT :: nat where
  "BATCH_WRITE_LIMIT = 25"

text \<open>
  The loop of \<open>_batchPut\<close> and \<open>_batchDelete\<close>: \<open>mk\<close> builds the request of an item at a time
  and \<open>un\<close> reads the item of an unprocessed request.
\<close>

partial_function (option) batch_loop ::
    "(int \<Rightarrow> jsval \<Rightarrow> write_request) \<Rightarrow> (write_request \<Rightarrow> exn + jsval) \<Rightarrow> string \<Rightarrow> jsval list \<Rightarrow>
     dyn_world \<Rightarrow> dyn_call list \<Rightarrow> ((exn + int) \<times> dyn_call list) option" where
  "batch_loop mk un table items W tr =
     (if items = [] then Some (Inr 0, tr)
      else
        let tr' = tr @ [C_batchWrite table (map (mk (dw_now W tr)) items)] in
        case dw_batchWrite W tr' of
          Inl e \<Rightarrow> Some (Inl e, tr')
        | Inr unprocessed \<Rightarrow>
            (case unprocessed of
               None \<Rightarrow> Some (Inr (int (length items)), tr')
             | Some reqs \<Rightarrow>
                 if reqs = [] then Some (Inr (int (length items)), tr')
                 else (case map_res un reqs of
                     Inl e \<Rightarrow> Some (Inl e, tr')
                   | Inr rest \<Rightarrow>
                       Option.bind (batch_loop mk un table rest W tr') (\<lambda>(r, t).
                       Some (res_bind r (\<lambda>n. Inr (int (length items) - int (length rest) + n)), t)))))"

definition delete_request :: "int \<Rightarrow> jsval \<Rightarrow> write_request" where
  "delete_request timestamp item = DeleteRequest (key_of item)"

fun undelete :: "write_request \<Rightarrow> exn + jsval" where
  "undelete (DeleteRequest k) = Inr k"
| "undelete (PutRequest item) = Inl (TypeError ''Key'')"

definition batchDelete' :: "jsval list \<Rightarrow> string \<Rightarrow> int dyn_loop" where
  "batchDelete' items tableName = batch_loop delete_request undelete tableName items"

definition put_request :: "int \<Rightarrow> jsval \<Rightarrow> write_request" where
  "put_request timestamp item =
     PutRequest (JObj (obj_spread [(''createdAt'', JNum timestamp), (''updatedAt'', JNum timestamp)]
       (spread_fields (normalizeData item))))"

fun unput :: "write_request \<Rightarrow> exn + jsval" where
  "unput (PutRequest item) = Inr item"
| "unput (DeleteRequest k) = Inl (TypeError ''Item'')"

definition batchPut' :: "jsval list \<Rightarrow> string \<Rightarrow> int dyn_loop" where
  "batchPut' items tableName = batch_loop put_request unput tableName items"

text \<open>\<open>Promise.all\<close> over the chunks, run one after the other.\<close>

fun all_chunks :: "(jsval list \<Rightarrow> 'a dyn_loop) \<Rightarrow> jsval list list \<Rightarrow> 'a list dyn_loop" where
  "all_chunks f [] W tr = Some (Inr [], tr)"
| "all_chunks f (chunk # chunks) W tr =
     Option.bind (f chunk W tr) (\<lambda>(r, t).
     Option.bind (all_chunks f chunks W t) (\<lambda>(rs, t').
     Some (res_bind r (\<lambda>y. res_bind rs (\<lambda>ys. Inr (y # ys))), t')))"

definition batchDelete :: "jsval list \<Rightarrow> string \<Rightarrow> int dyn_loop" where
  "batchDelete items tableName W tr =
     (if items = [] then Some (Inr 0, tr)
      else Option.bind (getChunks items BATCH_WRITE_LIMIT) (\<lambda>chunks.
           Option.bind (all_chunks (\<lambda>chunk. batchDelete' chunk tableName) chunks W tr) (\<lambda>(r, t).
           Some (res_bind r (\<lambda>results. Inr (fold (+) results 0)), t))))"

definition batchPut :: "jsval list \<Rightarrow> string \<Rightarrow> int dyn_loop" where
  "batchPut items tableName W tr =
     (if items = [] then Some (Inr 0, tr)
      else Option.bind (getChunks items BATCH_WRITE_LIMIT) (\<lambda>chunks.
           Option.bind (all_chunks (\<lambda>chunk. batchPut' chunk tableName) chunks W tr) (\<lambda>(r, t).
           Some (res_bind r (\<lambda>results. Inr (fold (+) results 0)), t))))"

text \<open>The value of \<open>results.concat(...)\<close> is dropped, so the retried keys add nothing.\<close>

partial_function (option) batchGet' ::
    "jsval list \<Rightarrow> string \<Rightarrow> dyn_world \<Rightarrow> dyn_call list \<Rightarrow> ((exn + jsval list) \<times> dyn_call list) option"
  where
  "batchGet' keys tableName W tr =
     (if keys = [] then Some (Inr [], tr)
      else
        let tr' = tr @ [C_batchGet tableName (map key_of keys)] in
        case dw_batchGet W tr' of
          Inl e \<Rightarrow> Some (Inl e, tr')
        | Inr (responses, unprocessed) \<Rightarrow>
            (let results = (case responses of None \<Rightarrow> [] | Some items \<Rightarrow> items) in
             case unprocessed of
               None \<Rightarrow> Some (Inr results, tr')
             | Some ks \<Rightarrow>
                 if ks = [] then Some (Inr results, tr')
                 else Option.bind (batchGet' ks tableName W tr') (\<lambda>(r, t).
                      Some (res_bind r (\<lambda>more. Inr results), t))))"

definition batchGet :: "jsval list \<Rightarrow> string \<Rightarrow> jsval list dyn_loop" where
  "batchGet keys tableName W tr =
     (if keys = [] then Some (Inr [], tr)
      else Option.bind (getChunks keys BATCH_GET_LIMIT) (\<lambda>chunks.
           Option.bind (all_chunks (\<lambda>chunk. batchGet' chunk tableName) chunks W tr) (\<lambda>(r, t).
           Some (res_bind r (\<lambda>results. Inr (concat results)), t))))"

section \<open>Single items\<close>

definition item_keys :: "string set" where
  "item_keys = {''partitionId'', ''entityId'', ''entityType''}"

definition update_expression :: "string list \<Rightarrow> string" where
  "update_expression keys = ''SET '' @ join_with '', ''
     (map (\<lambda>(index, k). ''#field'' @ nat_str index @ '' = :value'' @ nat_str index)
        (enumerate 0 keys))"

definition attribute_names :: "string list \<Rightarrow> (string \<times> jsval) list" where
  "attribute_names keys = fold (\<lambda>(index, k) accumulator.
     obj_set accumulator (''#field'' @ nat_str index) (JStr k)) (enumerate 0 keys) []"

definition attribute_values :: "(string \<times> jsval) list \<Rightarrow> string list \<Rightarrow> (string \<times> jsval) list" where
  "attribute_values dataToUpdate keys = fold (\<lambda>(index, k) accumulator.
     obj_set accumulator ('':value'' @ nat_str index) (obj_get dataToUpdate k)) (enumerate 0 keys) []"

definition updateItem :: "jsval \<Rightarrow> bool \<Rightarrow> string \<Rightarrow> jsval dyn_act" where
  "updateItem data checkIfExists tableName =
     (let rest = filter (\<lambda>(k, v). k \<notin> item_keys) (spread_fields data) in
      bnd (peek dw_now) (\<lambda>now.
      let dataToUpdate = obj_spread [(''updatedAt'', JNum now)]
            (spread_fields (normalizeData (JObj rest)));
          keys = map fst dataToUpdate
      in bnd (call (C_update tableName (key_of data) (update_expression keys)
                 (attribute_names keys) (attribute_values dataToUpdate keys) checkIfExists)
               dw_update) (\<lambda>Attributes.
         ret (denormalizeData Attributes))))"

definition with_keys :: "jsval \<Rightarrow> string \<Rightarrow> dynamo_entity_type \<Rightarrow> string \<Rightarrow> jsval" where
  "with_keys data partitionId entityType i =
     JObj (obj_spread (spread_fields data)
       [(''partitionId'', JStr partitionId),
        (''entityType'', JStr (entity_type_str entityType)),
        (''entityId'', JStr (buildEntityId entityType i))])"

definition updateItemByType ::
    "string \<Rightarrow> dynamo_entity_type \<Rightarrow> string \<Rightarrow> jsval \<Rightarrow> bool \<Rightarrow> string \<Rightarrow> jsval dyn_act" where
  "updateItemByType partitionId entityType i data checkIfExists tableName =
     updateItem (with_keys data partitionId entityType i) checkIfExists tableName"

definition getItemById :: "string \<Rightarrow> string \<Rightarrow> bool \<Rightarrow> string \<Rightarrow> jsval dyn_act" where
  "getItemById partitionId entityId checkIfExists tableName =
     attempt
       (bnd (call (C_get tableName
               (JObj [(''partitionId'', JStr partitionId), (''entityId'', JStr entityId)])) dw_get)
          (\<lambda>Item. ret (denormalizeData Item)))
       (\<lambda>err. if checkIfExists then throw err else ret JUndef)"

definition getItemByType ::
    "string \<Rightarrow> dynamo_entity_type \<Rightarrow> string \<Rightarrow> bool \<Rightarrow> string \<Rightarrow> jsval dyn_act" where
  "getItemByType partitionId entityType i checkIfExists tableName =
     getItemById partitionId (buildEntityId entityType i) checkIfExists tableName"

definition putItem :: "jsval \<Rightarrow> bool \<Rightarrow> string \<Rightarrow> jsval dyn_act" where
  "putItem data checkIfExists tableName =
     bnd (peek dw_now) (\<lambda>timestamp.
     let dataToPut = JObj (obj_spread
           [(''createdAt'', JNum timestamp), (''updatedAt'', JNum timestamp)]
           (spread_fields (normalizeData data)))
     in thn (call (C_put tableName dataToPut checkIfExists) dw_put)
          (ret (denormalizeData dataToPut)))"

definition putItemByType ::
    "string \<Rightarrow> dynamo_entity_type \<Rightarrow> string \<Rightarrow> jsval \<Rightarrow> bool \<Rightarrow> string \<Rightarrow> jsval dyn_act" where
  "putItemByType partitionId entityType i data checkIfExists tableName =
     putItem (with_keys data partitionId entityType i) checkIfExists tableName"

definition conditional_check_failed :: exn where
  "conditional_check_failed = Rejection ''ConditionalCheckFailedException''"

definition saveItem :: "jsval \<Rightarrow> string \<Rightarrow> jsval dyn_act" where
  "saveItem data tableName =
     attempt (putItem data True tableName)
       (\<lambda>err. if err = conditional_check_failed then updateItem data True tableName
              else throw err)"

definition saveItemByType :: "string \<Rightarrow> dynamo_entity_type \<Rightarrow> string \<Rightarrow> jsval \<Rightarrow> string \<Rightarrow> jsval dyn_act"
  where
  "saveItemByType partitionId entityType i data tableName =
     saveItem (with_keys data partitionId entityType i) tableName"

text \<open>\<open>saveItem\<close> is called without the table: the item goes to the default table.\<close>

definition increment :: "string \<Rightarrow> jsval \<Rightarrow> string \<Rightarrow> int \<Rightarrow> string \<Rightarrow> jsval dyn_act" where
  "increment defaultTable data field val tableName =
     bnd (getItemById (js_str (js_get_opt data ''partitionId'')) (js_str (js_get_opt data ''entityId''))
            True tableName) (\<lambda>item.
     bnd (lift_res (js_get item field)) (\<lambda>old.
     saveItem (JObj (obj_set (spread_fields item) field
         (js_add (js_Number (if truthy old then old else JNum 0)) val))) defaultTable))"

definition decrement :: "string \<Rightarrow> jsval \<Rightarrow> string \<Rightarrow> int \<Rightarrow> string \<Rightarrow> jsval dyn_act" where
  "decrement defaultTable data field val tableName = increment defaultTable data field val tableName"

definition typed_key :: "string \<Rightarrow> dynamo_entity_type \<Rightarrow> string \<Rightarrow> jsval" where
  "typed_key partitionId entityType i =
     JObj [(''partitionId'', JStr partitionId), (''entityId'', JStr (buildEntityId entityType i)),
           (''entityType'', JStr (entity_type_str entityType))]"

definition incrementByType ::
    "string \<Rightarrow> string \<Rightarrow> dynamo_entity_type \<Rightarrow> string \<Rightarrow> string \<Rightarrow> int \<Rightarrow> string \<Rightarrow> jsval dyn_act" where
  "incrementByType defaultTable partitionId entityType i field val tableName =
     increment defaultTable (typed_key partitionId entityType i) field val tableName"

definition decrementByType ::
    "string \<Rightarrow> string \<Rightarrow> dynamo_entity_type \<Rightarrow> string \<Rightarrow> string \<Rightarrow> int \<Rightarrow> string \<Rightarrow> jsval dyn_act" where
  "decrementByType defaultTable partitionId entityType i field val tableName =
     incrementByType defaultTable partitionId entityType i field val tableName"

definition archiveItem :: "jsval \<Rightarrow> bool \<Rightarrow> string \<Rightarrow> jsval dyn_act" where
  "archiveItem data archived tableName =
     saveItem (JObj (obj_set (spread_fields data) ''isArchived'' (JBool archived))) tableName"

definition archiveItemByType ::
    "string \<Rightarrow> dynamo_entity_type \<Rightarrow> string \<Rightarrow> bool \<Rightarrow> string \<Rightarrow> jsval dyn_act" where
  "archiveItemByType partitionId entityType i archived tableName =
     archiveItem (typed_key partitionId entityType i) archived tableName"

definition deleteItem :: "jsval \<Rightarrow> bool \<Rightarrow> string \<Rightarrow> jsval dyn_act" where
  "deleteItem data checkIfExists tableName =
     call (C_delete tableName (key_of data) checkIfExists) dw_delete"

definition deleteItemByType ::
    "string \<Rightarrow> dynamo_entity_type \<Rightarrow> string \<Rightarrow> bool \<Rightarrow> string \<Rightarrow> jsval dyn_act" where
  "deleteItemByType partitionId entityType i checkIfExists tableName =
     deleteItem (typed_key partitionId entityType i) checkIfExists tableName"

section \<open>Queries\<close>

definition query :: "(string \<times> jsval) list \<Rightarrow> string \<Rightarrow> query_output dyn_act" where
  "query q tableName =
     bnd (call (C_query tableName q) dw_query) (\<lambda>out.
       case qo_Items out of
         None \<Rightarrow> throw (TypeError ''map'')
       | Some items \<Rightarrow> ret (out\<lparr>qo_Items := Some (map denormalizeData items)\<rparr>))"

definition query_by_type ::
    "string \<Rightarrow> dynamo_entity_type \<Rightarrow> (string \<times> jsval) list \<Rightarrow> string \<Rightarrow> (string \<times> jsval) list" where
  "query_by_type partitionId entityType q idPrefix =
     obj_set
       (obj_spread
         [(''KeyConditionExpression'',
           JStr ''partitionId = :partitionId and begins_with(entityId, :entityIdPrefix)'')] q)
       ''ExpressionAttributeValues''
       (JObj (obj_spread [('':partitionId'', JStr partitionId),
                          ('':entityIdPrefix'', JStr (buildEntityId entityType idPrefix))]
          (spread_fields (obj_get q ''ExpressionAttributeValues''))))"

definition queryByType ::
    "string \<Rightarrow> dynamo_entity_type \<Rightarrow> (string \<times> jsval) list \<Rightarrow> string \<Rightarrow> string \<Rightarrow> query_output dyn_act"
  where
  "queryByType partitionId entityType q idPrefix tableName =
     query (query_by_type partitionId entityType q idPrefix) tableName"

definition items_of :: "query_output \<Rightarrow> jsval list" where
  "items_of out = (case qo_Items out of None \<Rightarrow> [] | Some items \<Rightarrow> items)"

definition queryItems :: "(string \<times> jsval) list \<Rightarrow> string \<Rightarrow> jsval list dyn_act" where
  "queryItems q tableName = bnd (query q tableName) (\<lambda>out. ret (items_of out))"

definition queryItemsByType ::
    "string \<Rightarrow> dynamo_entity_type \<Rightarrow> (string \<times> jsval) list \<Rightarrow> string \<Rightarrow> string \<Rightarrow> jsval list dyn_act" where
  "queryItemsByType partitionId entityType q idPrefix tableName =
     bnd (queryByType partitionId entityType q idPrefix tableName) (\<lambda>out. ret (items_of out))"

definition last_key :: "query_output \<Rightarrow> jsval" where
  "last_key out = obj_get (qo_rest out) ''LastEvaluatedKey''"

text \<open>\<open>json_parse\<close> and \<open>json_str\<close> are \<open>JSON.parse\<close> and \<open>JSON.stringify\<close>.\<close>

definition serializeKey :: "(jsval \<Rightarrow> string) \<Rightarrow> jsval \<Rightarrow> string" where
  "serializeKey json_str k = encodeBase64 (json_str k)"

definition parseKey :: "(string \<Rightarrow> exn + jsval) \<Rightarrow> string \<Rightarrow> exn + jsval" where
  "parseKey json_parse data = json_parse (decodeBase64 data)"

definition start_key :: "(string \<Rightarrow> exn + jsval) \<Rightarrow> string option \<Rightarrow> exn + jsval" where
  "start_key json_parse nextToken =
     (case nextToken of None \<Rightarrow> Inr JUndef
      | Some t \<Rightarrow> if t = [] then Inr JUndef else parseKey json_parse t)"

definition page_query :: "nat \<Rightarrow> jsval \<Rightarrow> (string \<times> jsval) list \<Rightarrow> (string \<times> jsval) list" where
  "page_query limit start q =
     obj_spread [(''Limit'', JNum (int limit)), (''ExclusiveStartKey'', start)] q"

definition next_token :: "(jsval \<Rightarrow> string) \<Rightarrow> query_output \<Rightarrow> string option" where
  "next_token json_str out =
     (if truthy (last_key out) then Some (serializeKey json_str (last_key out)) else None)"

definition paginateItems ::
    "(string \<Rightarrow> exn + jsval) \<Rightarrow> (jsval \<Rightarrow> string) \<Rightarrow> (string \<times> jsval) list \<Rightarrow> nat \<Rightarrow> string option \<Rightarrow>
     string \<Rightarrow> (jsval list \<times> string option) dyn_act" where
  "paginateItems json_parse json_str q limit nextToken tableName =
     bnd (lift_res (start_key json_parse nextToken)) (\<lambda>start.
     bnd (query (page_query limit start q) tableName) (\<lambda>out.
     ret (items_of out, next_token json_str out)))"

definition paginateItemsByType ::
    "(string \<Rightarrow> exn + jsval) \<Rightarrow> (jsval \<Rightarrow> string) \<Rightarrow> string \<Rightarrow> dynamo_entity_type \<Rightarrow>
     (string \<times> jsval) list \<Rightarrow> nat \<Rightarrow> string option \<Rightarrow> string \<Rightarrow> string \<Rightarrow>
     (jsval list \<times> string option) dyn_act" where
  "paginateItemsByType json_parse json_str partitionId entityType q limit nextToken idPrefix tableName =
     bnd (lift_res (start_key json_parse nextToken)) (\<lambda>start.
     bnd (queryByType partitionId entityType (page_query limit start q) idPrefix tableName) (\<lambda>out.
     ret (items_of out, next_token json_str out)))"

text \<open>
  The generators, run to their end: the pages they yield, in order. \<open>paginateAllItemsByType\<close> passes
  the table in the place of the prefix when it continues, and so continues in the default table
  with the table's name as the prefix.
\<close>

partial_function (option) paginateAllItems ::
    "(string \<times> jsval) list \<Rightarrow> string \<Rightarrow> dyn_world \<Rightarrow> dyn_call list \<Rightarrow>
     ((exn + jsval list list) \<times> dyn_call list) option" where
  "paginateAllItems q tableName W tr =
     (case query q tableName W tr of (r, t) \<Rightarrow>
       (case r of
          Inl e \<Rightarrow> Some (Inl e, t)
        | Inr out \<Rightarrow>
            if truthy (last_key out) then
              Option.bind (paginateAllItems (obj_set q ''ExclusiveStartKey'' (last_key out))
                  tableName W t) (\<lambda>(rs, t').
              Some (res_bind rs (\<lambda>pages. Inr (items_of out # pages)), t'))
            else Some (Inr [items_of out], t)))"

partial_function (option) paginateAllItemsByType ::
    "string \<Rightarrow> string \<Rightarrow> dynamo_entity_type \<Rightarrow> (string \<times> jsval) list \<Rightarrow> string \<Rightarrow> string \<Rightarrow>
     dyn_world \<Rightarrow> dyn_call list \<Rightarrow> ((exn + jsval list list) \<times> dyn_call list) option" where
  "paginateAllItemsByType defaultTable partitionId entityType q idPrefix tableName W tr =
     (case queryByType partitionId entityType q idPrefix tableName W tr of (r, t) \<Rightarrow>
       (case r of
          Inl e \<Rightarrow> Some (Inl e, t)
        | Inr out \<Rightarrow>
            if truthy (last_key out) then
              Option.bind (paginateAllItemsByType defaultTable partitionId entityType
                  (obj_set q ''ExclusiveStartKey'' (last_key out)) tableName defaultTable W t)
                (\<lambda>(rs, t').
              Some (res_bind rs (\<lambda>pages. Inr (items_of out # pages)), t'))
            else Some (Inr [items_of out], t)))"

definition countItems :: "(string \<times> jsval) list \<Rightarrow> string \<Rightarrow> jsval dyn_act" where
  "countItems q tableName =
     bnd (query (obj_spread [(''Select'', JStr ''COUNT'')] q) tableName) (\<lambda>out.
     ret (obj_get (qo_rest out) ''Count''))"

definition countItemsByType ::
    "string \<Rightarrow> dynamo_entity_type \<Rightarrow> (string \<times> jsval) list \<Rightarrow> string \<Rightarrow> string \<Rightarrow> jsval dyn_act" where
  "countItemsByType partitionId entityType q idPrefix tableName =
     bnd (queryByType partitionId entityType (obj_spread [(''Select'', JStr ''COUNT'')] q) idPrefix
            tableName) (\<lambda>out.
     ret (obj_get (qo_rest out) ''Count''))"

section \<open>Batches are written completely\<close>

text \<open>
  The documented behaviour of \<open>batchWrite\<close>: what it does not process are requests it was given,
  and it processes at least one. Retrying can only end under this assumption.
\<close>

definition batch_progress :: "dyn_world \<Rightarrow> bool" where
  "batch_progress W \<longleftrightarrow> (\<forall>tr table reqs. reqs \<noteq> [] \<longrightarrow>
     (case dw_batchWrite W (tr @ [C_batchWrite table reqs]) of
        Inl e \<Rightarrow> False
      | Inr None \<Rightarrow> True
      | Inr (Some un) \<Rightarrow> set un \<subseteq> set reqs \<and> length un < length reqs))"

text \<open>A request was sent in some call and not handed back by it.\<close>

definition processed :: "dyn_world \<Rightarrow> dyn_call list \<Rightarrow> write_request \<Rightarrow> bool" where
  "processed W tr r \<longleftrightarrow> (\<exists>p table reqs s. tr = p @ C_batchWrite table reqs # s \<and> r \<in> set reqs \<and>
     (case dw_batchWrite W (p @ [C_batchWrite table reqs]) of
        Inl e \<Rightarrow> False | Inr None \<Rightarrow> True | Inr (Some un) \<Rightarrow> r \<notin> set un))"

fun small_batch :: "nat \<Rightarrow> dyn_call \<Rightarrow> bool" where
  "small_batch n (C_batchWrite table reqs) = (0 < length reqs \<and> length reqs \<le> n)"
| "small_batch n _ = False"

lemma small_batch_mono: "small_batch m c \<Longrightarrow> m \<le> n \<Longrightarrow> small_batch n c"
  by (cases c) auto

lemma processed_append: "processed W tr r \<Longrightarrow> processed W (tr @ s) r"
  unfolding processed_def by (metis append_Cons append_assoc)

lemma processed_last:
  assumes "r \<in> set reqs"
    and "case dw_batchWrite W (tr @ [C_batchWrite table reqs]) of
        Inl e \<Rightarrow> False | Inr None \<Rightarrow> True | Inr (Some un) \<Rightarrow> r \<notin> set un"
  shows "processed W (tr @ [C_batchWrite table reqs]) r"
  using assms unfolding processed_def by blast

text \<open>
  The contract of a batch writer: the item read from an unprocessed request is written again by the
  same request, whatever the time.
\<close>

locale batch_writer =
  fixes mk :: "int \<Rightarrow> jsval \<Rightarrow> write_request"
    and un :: "write_request \<Rightarrow> exn + jsval"
    and good :: "jsval \<Rightarrow> bool"
  assumes retry: "good x \<Longrightarrow> \<exists>y. un (mk t x) = Inr y \<and> good y \<and> (\<forall>t'. mk t' y = mk t x)"
begin

definition all_processed :: "dyn_world \<Rightarrow> dyn_call list \<Rightarrow> jsval list \<Rightarrow> bool" where
  "all_processed W tr items \<longleftrightarrow> (\<forall>x \<in> set items. \<exists>t. processed W tr (mk t x))"

lemma all_processed_append: "all_processed W tr items \<Longrightarrow> all_processed W (tr @ s) items"
  unfolding all_processed_def using processed_append by blast

lemma retried_items:
  assumes "list_all good items" and "set reqs \<subseteq> mk now ` set items"
  shows "\<exists>rest. map_res un reqs = Inr rest \<and> length rest = length reqs \<and> list_all good rest
     \<and> (\<forall>r \<in> set reqs. \<exists>y \<in> set rest. \<forall>t. mk t y = r)"
  using assms(2)
proof (induction reqs)
  case (Cons r reqs)
  then obtain x where "x \<in> set items" and r: "r = mk now x" by auto
  then have "good x" using assms(1) by (auto simp: list_all_iff)
  then obtain y where y: "un r = Inr y" "good y" "\<forall>t. mk t y = r"
    using retry [of x now] r by auto
  moreover obtain rest where "map_res un reqs = Inr rest" "length rest = length reqs"
      "list_all good rest" "\<forall>r \<in> set reqs. \<exists>y \<in> set rest. \<forall>t. mk t y = r"
    using Cons by auto
  ultimately show ?case by auto
qed simp

lemma batch_loop_complete:
  assumes "batch_progress W" and "list_all good items"
  shows "\<exists>cs. batch_loop mk un table items W tr = Some (Inr (int (length items)), tr @ cs)
     \<and> list_all (small_batch (length items)) cs \<and> all_processed W (tr @ cs) items"
  using assms(2)
proof (induction "length items" arbitrary: items tr rule: less_induct)
  case less
  show ?case
  proof (cases "items = []")
    case True
    then show ?thesis by (simp add: batch_loop.simps all_processed_def)
  next
    case False
    define now reqs c where "now = dw_now W tr" and "reqs = map (mk now) items"
      and "c = C_batchWrite table reqs"
    have small: "small_batch (length items) c" using False by (simp add: c_def reqs_def)
    have member: "mk now x \<in> set reqs" if "x \<in> set items" for x
      using that by (simp add: reqs_def)
    have "reqs \<noteq> []" and len: "length reqs = length items" using False by (simp_all add: reqs_def)
    with assms(1) have progress: "case dw_batchWrite W (tr @ [c]) of Inl e \<Rightarrow> False | Inr None \<Rightarrow> True
        | Inr (Some un) \<Rightarrow> set un \<subseteq> set reqs \<and> length un < length items"
      unfolding batch_progress_def c_def len [symmetric] by blast
    show ?thesis
    proof (cases "dw_batchWrite W (tr @ [c])")
      case (Inl e)
      with progress show ?thesis by simp
    next
      case (Inr unprocessed)
      show ?thesis
      proof (cases "unprocessed = None \<or> unprocessed = Some []")
        case True
        have "processed W (tr @ [c]) (mk now x)" if "x \<in> set items" for x
          using processed_last [OF member [OF that], of W tr table] True Inr
          by (auto simp: c_def)
        then have "all_processed W (tr @ [c]) items"
          by (auto simp: all_processed_def)
        with True Inr False small show ?thesis
          by (intro exI [of _ "[c]"])
            (auto simp: batch_loop.simps [of mk un table items] now_def reqs_def c_def Let_def)
      next
        case Some: False
        then obtain us where us: "unprocessed = Some us" "us \<noteq> []" by auto
        then have "set us \<subseteq> set reqs" "length us < length items" using progress Inr by auto
        then obtain rest where rest: "map_res un us = Inr rest" "length rest = length us"
            "list_all good rest" "\<forall>r \<in> set us. \<exists>y \<in> set rest. \<forall>t. mk t y = r"
          using retried_items [OF less.prems, of us now] by (auto simp: reqs_def)
        obtain cs where cs: "batch_loop mk un table rest W (tr @ [c]) =
              Some (Inr (int (length rest)), (tr @ [c]) @ cs)"
            "list_all (small_batch (length rest)) cs" "all_processed W ((tr @ [c]) @ cs) rest"
          using less.hyps [of rest "tr @ [c]"] rest \<open>length us < length items\<close> by auto
        have "\<exists>t. processed W (tr @ c # cs) (mk t x)" if "x \<in> set items" for x
        proof (cases "mk now x \<in> set us")
          case True
          then obtain y where y: "y \<in> set rest" "\<forall>t. mk t y = mk now x" using rest(4) by blast
          then obtain t where "processed W (tr @ c # cs) (mk t y)"
            using cs(3) by (auto simp: all_processed_def)
          then show ?thesis using y(2) by auto
        next
          case False
          then have "processed W (tr @ [c]) (mk now x)"
            using processed_last [OF member [OF that], of W tr table] Inr us by (auto simp: c_def)
          then show ?thesis using processed_append [of W "tr @ [c]" "mk now x" cs] by auto
        qed
        moreover have "list_all (small_batch (length items)) cs"
          using cs(2) rest(2) \<open>length us < length items\<close> small_batch_mono
          by (auto simp: list_all_iff)
        moreover have "batch_loop mk un table items W tr =
            Some (Inr (int (length items)), tr @ c # cs)"
          using False Inr us rest(1) cs(1)
          by (simp add: batch_loop.simps [of mk un table items] now_def reqs_def c_def Let_def)
        ultimately show ?thesis
          using small by (intro exI [of _ "c # cs"]) (auto simp: all_processed_def)
      qed
    qed
  qed
qed

lemma all_chunks_complete:
  assumes "batch_progress W" and "\<forall>c \<in> set chunks. list_all good c \<and> length c \<le> n"
  shows "\<exists>cs. all_chunks (\<lambda>chunk. batch_loop mk un table chunk) chunks W tr =
       Some (Inr (map (\<lambda>c. int (length c)) chunks), tr @ cs)
     \<and> list_all (small_batch n) cs \<and> all_processed W (tr @ cs) (concat chunks)"
  using assms(2)
proof (induction chunks arbitrary: tr)
  case Nil
  then show ?case by (simp add: all_processed_def)
next
  case (Cons c chunks)
  obtain cs where cs: "batch_loop mk un table c W tr = Some (Inr (int (length c)), tr @ cs)"
      "list_all (small_batch (length c)) cs" "all_processed W (tr @ cs) c"
    using batch_loop_complete [OF assms(1), of c table tr] Cons.prems by auto
  obtain ds where ds: "all_chunks (\<lambda>chunk. batch_loop mk un table chunk) chunks W (tr @ cs) =
       Some (Inr (map (\<lambda>c. int (length c)) chunks), (tr @ cs) @ ds)"
      "list_all (small_batch n) ds" "all_processed W ((tr @ cs) @ ds) (concat chunks)"
    using Cons.IH [of "tr @ cs"] Cons.prems by auto
  have "list_all (small_batch n) cs"
    using cs(2) Cons.prems small_batch_mono by (fastforce simp: list_all_iff)
  moreover have "all_processed W (tr @ cs @ ds) c"
    using all_processed_append [OF cs(3), of ds] by simp
  ultimately show ?case
    using cs(1) ds by (intro exI [of _ "cs @ ds"]) (auto simp: all_processed_def)
qed

end

lemma fold_plus_lengths:
  "fold (+) (map (\<lambda>c. int (length c)) chunks) n = n + int (length (concat chunks))"
  by (induction chunks arbitrary: n) auto

lemma write_chunks:
  assumes "items \<noteq> []"
  obtains chunks where "getChunks items BATCH_WRITE_LIMIT = Some chunks"
    and "concat chunks = items" and "\<forall>c \<in> set chunks. length c \<le> BATCH_WRITE_LIMIT"
  using getChunks_Some [of BATCH_WRITE_LIMIT items] chunks_of_bounds
    concat_chunks_of [of BATCH_WRITE_LIMIT items]
  by (force simp: BATCH_WRITE_LIMIT_def)

section \<open>The two batch writers\<close>

text \<open>An item whose normalised form is an object.\<close>

definition writable :: "jsval \<Rightarrow> bool" where
  "writable x \<longleftrightarrow> (\<exists>gs. normalizeData x = JObj gs \<and> normal (JObj gs))"

lemma writable_storable: "storable (JObj fs) \<Longrightarrow> writable (JObj fs)"
  using normal_stored [of "JObj fs"] normalizeData_storable [of "JObj fs"]
  by (auto simp: writable_def)

interpretation puts: batch_writer put_request unput writable
proof
  fix x t
  assume "writable x"
  then obtain gs where gs: "normalizeData x = JObj gs" "normal (JObj gs)"
    by (auto simp: writable_def)
  let ?s = "obj_spread [(''createdAt'', JNum t), (''updatedAt'', JNum t)] gs"
  have "distinct (map fst ?s)" by (rule distinct_obj_spread) simp
  moreover have "list_all (\<lambda>e. fst e \<noteq> [] \<and> normal (snd e)) ?s"
    using gs(2) by (intro list_all_obj_spread) simp_all
  ultimately have normal: "normal (JObj ?s)" by (simp only: normal.simps)
  then have same: "normalizeData (JObj ?s) = JObj ?s" by (rule normalizeData_normal)
  have "unput (put_request t x) = Inr (JObj ?s)" by (simp add: put_request_def gs)
  moreover have "writable (JObj ?s)" using normal same by (auto simp: writable_def)
  moreover have "put_request t' (JObj ?s) = put_request t x" for t'
    unfolding put_request_def same gs(1) spread_fields.simps
    by (subst obj_spread_again) simp_all
  ultimately show "\<exists>y. unput (put_request t x) = Inr y \<and> writable y
      \<and> (\<forall>t'. put_request t' y = put_request t x)" by blast
qed

interpretation deletes: batch_writer delete_request undelete "\<lambda>x. True"
  by unfold_locales (auto simp: delete_request_def key_of_def obj_get_def)

section \<open>Properties\<close>

text \<open>
  C26. Writing a batch. If the table keeps making progress, \<open>batchPut\<close> returns, reports every item
  as written, sends no request of more than 25 items, and every item's request was accepted in
  some call; an item that was not processed is sent again with the same content.
\<close>

theorem batchPut_complete:
  assumes "batch_progress W" and "list_all writable items"
  shows "\<exists>cs. batchPut items tableName W tr = Some (Inr (int (length items)), tr @ cs)
     \<and> list_all (small_batch BATCH_WRITE_LIMIT) cs
     \<and> (\<forall>x \<in> set items. \<exists>t. processed W (tr @ cs) (put_request t x))"
proof (cases "items = []")
  case True
  then show ?thesis by (simp add: batchPut_def)
next
  case False
  obtain chunks where chunks: "getChunks items BATCH_WRITE_LIMIT = Some chunks"
      "concat chunks = items" "\<forall>c \<in> set chunks. length c \<le> BATCH_WRITE_LIMIT"
    by (rule write_chunks [OF False])
  then have "\<forall>c \<in> set chunks. list_all writable c \<and> length c \<le> BATCH_WRITE_LIMIT"
    using assms(2) by (auto simp: list_all_iff)
  from puts.all_chunks_complete [OF assms(1) this, of tableName tr] chunks False show ?thesis
    by (auto simp: batchPut_def batchPut'_def puts.all_processed_def fold_plus_lengths)
qed

text \<open>Witness: a table that leaves the first request of every call for later.\<close>

definition slow_table :: dyn_world where
  "slow_table = \<lparr> dw_now = (\<lambda>tr. 7),
     dw_batchWrite = (\<lambda>tr. case last tr of
        C_batchWrite table reqs \<Rightarrow> Inr (Some (take (length reqs - 1) reqs)) | _ \<Rightarrow> Inr None),
     dw_batchGet = (\<lambda>tr. case last tr of
        C_batchGet table keys \<Rightarrow> Inr (Some (take 1 keys), Some (drop 1 keys)) | _ \<Rightarrow> Inr (None, None)),
     dw_update = (\<lambda>tr. Inr (JObj [])),
     dw_get = (\<lambda>tr. Inr JUndef),
     dw_query = (\<lambda>tr. Inr \<lparr> qo_Items = None, qo_rest = [(''Count'', JNum 2)] \<rparr>),
     dw_put = (\<lambda>tr. if length tr = 1 then Inl conditional_check_failed else Inr ()),
     dw_delete = (\<lambda>tr. Inr JUndef) \<rparr>"

lemma slow_table_progress: "batch_progress slow_table"
  by (auto simp: batch_progress_def slow_table_def dest: in_set_takeD)

theorem batchPut_complete_witness:
  "\<exists>cs. batchPut [JObj [(''a'', JNum 1)], JObj [(''b'', JNum 2)]] ''t'' slow_table [] =
       Some (Inr 2, cs)
     \<and> list_all (small_batch BATCH_WRITE_LIMIT) cs
     \<and> (\<forall>x \<in> {JObj [(''a'', JNum 1)], JObj [(''b'', JNum 2)]}.
          \<exists>t. processed slow_table cs (put_request t x))"
  using batchPut_complete [OF slow_table_progress,
      of "[JObj [(''a'', JNum 1)], JObj [(''b'', JNum 2)]]" "''t''" "[]"]
  by (simp add: writable_storable EMPTY_KEY_PLACEHOLDER_def)

text \<open>
  Deleting a batch returns, counts every item, sends at most 25 keys a call, and every key is
  deleted in some call, if the table keeps making progress.
\<close>

theorem batchDelete_complete:
  assumes "batch_progress W"
  shows "\<exists>cs. batchDelete items tableName W tr = Some (Inr (int (length items)), tr @ cs)
     \<and> list_all (small_batch BATCH_WRITE_LIMIT) cs
     \<and> (\<forall>x \<in> set items. processed W (tr @ cs) (DeleteRequest (key_of x)))"
proof (cases "items = []")
  case True
  then show ?thesis by (simp add: batchDelete_def)
next
  case False
  obtain chunks where chunks: "getChunks items BATCH_WRITE_LIMIT = Some chunks"
      "concat chunks = items" "\<forall>c \<in> set chunks. length c \<le> BATCH_WRITE_LIMIT"
    by (rule write_chunks [OF False])
  then have "\<forall>c \<in> set chunks. list_all (\<lambda>x. True) c \<and> length c \<le> BATCH_WRITE_LIMIT"
    by (auto simp: list_all_iff)
  from deletes.all_chunks_complete [OF assms(1) this, of tableName tr] chunks False show ?thesis
    by (auto simp: batchDelete_def batchDelete'_def deletes.all_processed_def fold_plus_lengths
        delete_request_def)
qed

theorem batchDelete_complete_witness:
  "\<exists>cs. batchDelete [JObj [(''partitionId'', JStr ''p'')]] ''t'' slow_table [] = Some (Inr 1, cs)
     \<and> list_all (small_batch BATCH_WRITE_LIMIT) cs
     \<and> processed slow_table cs
         (DeleteRequest (JObj [(''partitionId'', JStr ''p''), (''entityId'', JUndef)]))"
  using batchDelete_complete [OF slow_table_progress,
      of "[JObj [(''partitionId'', JStr ''p'')]]" "''t''" "[]"]
  by (simp add: key_of_def obj_get_def)

text \<open>
  A batch read returns, for each chunk, only what the first answer held: the items of the keys
  the table asks to be requested again are requested and then lost.
\<close>

theorem batchGet'_first_answer:
  assumes "batchGet' keys tableName W tr = Some (Inr items, tr')" and "keys \<noteq> []"
  shows "\<exists>responses unprocessed.
     dw_batchGet W (tr @ [C_batchGet tableName (map key_of keys)]) = Inr (responses, unprocessed)
     \<and> items = (case responses of None \<Rightarrow> [] | Some xs \<Rightarrow> xs)"
  using assms
  by (auto simp: batchGet'.simps [of keys] Let_def res_bind_Inr_iff bind_eq_Some_conv
      split: sum.splits option.splits if_splits)

theorem batchGet'_first_answer_witness:
  "\<exists>responses unprocessed items.
     dw_batchGet slow_table [C_batchGet ''t'' (map key_of [JStr ''a'', JStr ''b''])] =
       Inr (responses, unprocessed)
     \<and> items = (case responses of None \<Rightarrow> [] | Some xs \<Rightarrow> xs) \<and> length items = 1"
proof -
  have "batchGet' [JStr ''a'', JStr ''b''] ''t'' slow_table [] = Some (Inr [key_of (JStr ''a'')],
      [C_batchGet ''t'' [key_of (JStr ''a''), key_of (JStr ''b'')],
       C_batchGet ''t'' [key_of (key_of (JStr ''b''))]])"
    by (simp add: batchGet'.simps slow_table_def Let_def)
  from batchGet'_first_answer [OF this] show ?thesis
    by (simp add: slow_table_def)
qed

text \<open>The fields an update writes, and what its request means on a stored item.\<close>

definition update_fields :: "int \<Rightarrow> jsval \<Rightarrow> (string \<times> jsval) list" where
  "update_fields now data = obj_spread [(''updatedAt'', JNum now)]
     (spread_fields (normalizeData (JObj (filter (\<lambda>(k, v). k \<notin> item_keys) (spread_fields data)))))"

definition apply_update ::
    "(string \<times> jsval) list \<Rightarrow> (string \<times> jsval) list \<Rightarrow> (string \<times> jsval) list \<Rightarrow> (string \<times> jsval) list"
  where
  "apply_update item names vals =
     fold (\<lambda>i it. obj_set it (js_str (obj_get names (''#field'' @ nat_str i)))
                            (obj_get vals ('':value'' @ nat_str i)))
       [0..<length names] item"

definition indexed :: "string \<Rightarrow> (string \<times> 'b) list \<Rightarrow> (string \<Rightarrow> jsval) \<Rightarrow> (string \<times> jsval) list" where
  "indexed p fs val = map (\<lambda>i. (p @ nat_str i, val (fst (fs ! i)))) [0..<length fs]"

lemma indexed_distinct: "distinct (map fst (indexed p fs val))"
  by (simp add: indexed_def distinct_map inj_on_def)

lemma length_indexed [simp]: "length (indexed p fs val) = length fs"
  by (simp add: indexed_def)

lemma indexed_get:
  assumes "i < length fs"
  shows "obj_get (indexed p fs val) (p @ nat_str i) = val (fst (fs ! i))"
proof -
  have "(p @ nat_str i, val (fst (fs ! i))) \<in> set (indexed p fs val)"
    using assms by (auto simp: indexed_def)
  from map_of_is_SomeI [OF indexed_distinct this] show ?thesis by (simp add: obj_get_def)
qed

lemma fold_placeholders:
  "fold (\<lambda>(index, k) acc. obj_set acc (p @ nat_str index) (val k)) (enumerate n keys) acc =
     fold (\<lambda>(k, v) acc. obj_set acc k v)
       (map (\<lambda>i. (p @ nat_str (n + i), val (keys ! i))) [0..<length keys]) acc"
proof (induction keys arbitrary: n acc)
  case (Cons k keys)
  have "[0..<length (k # keys)] = 0 # map Suc [0..<length keys]"
    by (simp add: upt_conv_Cons map_Suc_upt del: upt_Suc)
  then show ?case using Cons [of "Suc n"] by (simp add: comp_def del: upt_Suc)
qed simp

lemma placeholders_indexed:
  "fold (\<lambda>(index, k) acc. obj_set acc (p @ nat_str index) (val k)) (enumerate 0 (map fst fs)) [] =
     indexed p fs val"
proof -
  have "map (\<lambda>i. (p @ nat_str (0 + i), val (map fst fs ! i))) [0..<length (map fst fs)] =
      indexed p fs val"
    by (auto simp: indexed_def)
  then show ?thesis
    using obj_spread_fresh [of "[]" "indexed p fs val"] indexed_distinct [of p fs val]
    by (simp only: fold_placeholders obj_spread_def append_Nil)
qed

lemma fold_obj_set_nth:
  "fold (\<lambda>i it. obj_set it (fst (fs ! i)) (g (fst (fs ! i)))) [0..<length fs] item =
     obj_spread item (map (\<lambda>e. (fst e, g (fst e))) fs)"
proof (induction fs arbitrary: item)
  case (Cons e fs)
  have "[0..<length (e # fs)] = 0 # map Suc [0..<length fs]"
    by (simp add: upt_conv_Cons map_Suc_upt del: upt_Suc)
  then show ?case using Cons by (simp add: fold_map comp_def del: upt_Suc)
qed simp

lemma apply_update_indexed:
  assumes "distinct (map fst fs)"
  shows "apply_update item (attribute_names (map fst fs)) (attribute_values fs (map fst fs)) =
     obj_spread item fs"
proof -
  have "map (\<lambda>e. (fst e, obj_get fs (fst e))) fs = fs"
    using assms by (intro map_idI) (auto simp: obj_get_def)
  moreover have "apply_update item (indexed ''#field'' fs JStr) (indexed '':value'' fs (obj_get fs)) =
      fold (\<lambda>i it. obj_set it (fst (fs ! i)) (obj_get fs (fst (fs ! i)))) [0..<length fs] item"
    unfolding apply_update_def
    by (rule fold_cong) (auto simp: indexed_get [where p = "''#field''"]
        indexed_get [where p = "'':value''"] simp del: append_Cons append_Nil)
  ultimately show ?thesis
    using fold_obj_set_nth [of fs "obj_get fs" item]
      placeholders_indexed [of "''#field''" JStr fs] placeholders_indexed [of "'':value''" "obj_get fs" fs]
    by (simp add: attribute_names_def attribute_values_def)
qed

lemma update_fields_distinct: "distinct (map fst (update_fields now data))"
  unfolding update_fields_def by (rule distinct_obj_spread) simp

text \<open>
  An update is one request on the item's key. Its placeholders are bound so that executing it
  writes exactly the normalised fields of the data, without the key and the entity type, over the
  stored item, and \<open>updatedAt\<close> when the data has none; nothing else of the item changes.
\<close>

theorem updateItem_request:
  "\<exists>expression names vals.
     snd (updateItem data chk tableName W tr) =
       tr @ [C_update tableName (key_of data) expression names vals chk]
     \<and> (\<forall>item. apply_update item names vals = obj_spread item (update_fields (dw_now W tr) data))"
proof -
  let ?fs = "update_fields (dw_now W tr) data"
  have "snd (updateItem data chk tableName W tr) = tr @ [C_update tableName (key_of data)
      (update_expression (map fst ?fs)) (attribute_names (map fst ?fs))
      (attribute_values ?fs (map fst ?fs)) chk]"
    by (simp add: updateItem_def run_simps update_fields_def Let_def split: sum.splits)
  then show ?thesis
    using apply_update_indexed [OF update_fields_distinct] by blast
qed

text \<open>
  Saving an item. A conditional put of a new item comes first; when the table reports that the
  item exists already, one conditional update follows, and every other rejection is passed on.
\<close>

theorem saveItem_put_then_update:
  "\<exists>item.
     (case dw_put W (tr @ [C_put tableName item True]) of
        Inr _ \<Rightarrow> saveItem data tableName W tr =
          (Inr (denormalizeData item), tr @ [C_put tableName item True])
      | Inl err \<Rightarrow>
          if err = conditional_check_failed
          then saveItem data tableName W tr =
            updateItem data True tableName W (tr @ [C_put tableName item True])
          else saveItem data tableName W tr = (Inl err, tr @ [C_put tableName item True]))"
  by (rule exI [of _ "JObj (obj_spread
        [(''createdAt'', JNum (dw_now W tr)), (''updatedAt'', JNum (dw_now W tr))]
        (spread_fields (normalizeData data)))"])
    (auto simp: saveItem_def putItem_def run_simps Let_def split: sum.splits)

text \<open>
  Counting: when the answer to a counting query has no items, as the table's answers to
  \<open>Select: 'COUNT'\<close> have none, \<open>countItems\<close> throws instead of returning the count.
\<close>

theorem countItems_no_items:
  assumes "dw_query W (tr @ [C_query tableName (obj_spread [(''Select'', JStr ''COUNT'')] q)]) = Inr out"
    and "qo_Items out = None"
  shows "fst (countItems q tableName W tr) = Inl (TypeError ''map'')"
  using assms by (simp add: countItems_def query_def run_simps)

theorem countItems_no_items_witness:
  "fst (countItems [] ''t'' slow_table []) = Inl (TypeError ''map'')"
  using countItems_no_items [of slow_table "[]" "''t''" "[]"
      "\<lparr> qo_Items = None, qo_rest = [(''Count'', JNum 2)] \<rparr>"]
  by (simp add: slow_table_def)

text \<open>The pages a table serves for a query, and the calls that read them.\<close>

inductive pages_served ::
    "dyn_world \<Rightarrow> string \<Rightarrow> (string \<times> jsval) list \<Rightarrow> dyn_call list \<Rightarrow> jsval list list \<Rightarrow>
     dyn_call list \<Rightarrow> bool" for W tableName where
  last_page: "dw_query W (tr @ [C_query tableName q]) = Inr out \<Longrightarrow> qo_Items out = Some items \<Longrightarrow>
     \<not> truthy (last_key out) \<Longrightarrow>
     pages_served W tableName q tr [map denormalizeData items] [C_query tableName q]"
| more_pages: "dw_query W (tr @ [C_query tableName q]) = Inr out \<Longrightarrow> qo_Items out = Some items \<Longrightarrow>
     truthy (last_key out) \<Longrightarrow>
     pages_served W tableName (obj_set q ''ExclusiveStartKey'' (last_key out))
       (tr @ [C_query tableName q]) pages cs \<Longrightarrow>
     pages_served W tableName q tr (map denormalizeData items # pages) (C_query tableName q # cs)"

inductive_cases pages_served_step: "pages_served W tableName q tr pages cs"

lemma last_key_update [simp]: "last_key (out\<lparr>qo_Items := items\<rparr>) = last_key out"
  by (simp add: last_key_def)

lemma pages_served_sound:
  "pages_served W tableName q tr pages cs \<Longrightarrow>
     paginateAllItems q tableName W tr = Some (Inr pages, tr @ cs)"
proof (induction rule: pages_served.induct)
  case (last_page tr q out items)
  then show ?case
    by (simp add: paginateAllItems.simps [of q] query_def run_simps items_of_def)
next
  case (more_pages tr q out items pages cs)
  then show ?case
    by (simp add: paginateAllItems.simps [of q] query_def run_simps items_of_def)
qed

lemma query_Inr_iff:
  "query q tableName W tr = (Inr out', t) \<longleftrightarrow> (\<exists>out items.
     dw_query W (tr @ [C_query tableName q]) = Inr out \<and> qo_Items out = Some items
     \<and> out' = out\<lparr>qo_Items := Some (map denormalizeData items)\<rparr> \<and> t = tr @ [C_query tableName q])"
  by (cases "dw_query W (tr @ [C_query tableName q])")
    (auto simp: query_def run_simps split: option.splits)

lemma pages_served_complete:
  "paginateAllItems q tableName W tr = Some res \<Longrightarrow>
     fst res = Inr pages \<Longrightarrow> \<exists>cs. snd res = tr @ cs \<and> pages_served W tableName q tr pages cs"
proof (induction q tableName W tr res arbitrary: pages rule: paginateAllItems.raw_induct [rotated, consumes 1, case_names 1])
  case (1 rec q tableName W tr res)
  obtain r t where r: "query q tableName W tr = (r, t)" by fastforce
  show ?case
  proof (cases r)
    case (Inl e)
    then show ?thesis using 1(2,3) r by auto
  next
    case (Inr out')
    then obtain out items where out: "dw_query W (tr @ [C_query tableName q]) = Inr out"
        "qo_Items out = Some items" "out' = out\<lparr>qo_Items := Some (map denormalizeData items)\<rparr>"
        "t = tr @ [C_query tableName q]"
      using r by (auto simp: query_Inr_iff)
    show ?thesis
    proof (cases "truthy (last_key out)")
      case False
      then have "res = (Inr [map denormalizeData items], t)"
        using 1(2) r Inr out by (simp add: items_of_def)
      then show ?thesis using 1(3) last_page [OF out(1,2) False] out(4) by auto
    next
      case True
      then obtain rs t' where rec: "rec (obj_set q ''ExclusiveStartKey'' (last_key out))
            tableName W t = Some (rs, t')"
          "res = (res_bind rs (\<lambda>pages. Inr (map denormalizeData items # pages)), t')"
        using 1(2) r Inr out by (auto simp: items_of_def bind_eq_Some_conv)
      then obtain ps where ps: "rs = Inr ps" "pages = map denormalizeData items # ps"
        using 1(3) by (auto simp: res_bind_Inr_iff)
      obtain cs where "t' = t @ cs" "pages_served W tableName
          (obj_set q ''ExclusiveStartKey'' (last_key out)) t ps cs"
        using 1(1) [OF rec(1), of ps] ps by auto
      then show ?thesis
        using more_pages [OF out(1,2) True] out(4) ps(2) rec(2) by auto
    qed
  qed
qed

text \<open>
  Reading all pages. \<open>paginateAllItems\<close> returns exactly when the table ends the chain of pages:
  it then yields the pages in order, each one asked for from the last key of the page before, and
  it makes no other call.
\<close>

theorem paginateAllItems_pages:
  "paginateAllItems q tableName W tr = Some (Inr pages, tr @ cs) \<longleftrightarrow>
     pages_served W tableName q tr pages cs"
  using pages_served_sound pages_served_complete [of q tableName W tr "(Inr pages, tr @ cs)" pages]
  by auto

text \<open>The calls after the first one ask the default table for entities named after a table.\<close>

fun later_page :: "string \<Rightarrow> string \<Rightarrow> dynamo_entity_type \<Rightarrow> string \<Rightarrow> dyn_call \<Rightarrow> bool" where
  "later_page defaultTable p entityType tableName (C_query t q) \<longleftrightarrow>
     t = defaultTable \<and> (\<exists>q' prefix. prefix \<in> {tableName, defaultTable}
        \<and> q = query_by_type p entityType q' prefix)"
| "later_page defaultTable p entityType tableName _ \<longleftrightarrow> False"

lemma query_call: "query q tableName W tr = (r, t) \<Longrightarrow> t = tr @ [C_query tableName q]"
  by (auto simp: query_def run_simps split: sum.splits option.splits)

lemma by_type_calls:
  "paginateAllItemsByType dt p et q pre tableName W tr = Some res \<Longrightarrow>
     \<exists>cs. snd res = tr @ C_query tableName (query_by_type p et q pre) # cs
       \<and> list_all (later_page dt p et tableName) cs"
proof (induction dt p et q pre tableName W tr res rule: paginateAllItemsByType.raw_induct [rotated, consumes 1, case_names 1])
  case (1 rec dt p et q pre tableName W tr res)
  obtain r t where r: "query (query_by_type p et q pre) tableName W tr = (r, t)" by fastforce
  have t: "t = tr @ [C_query tableName (query_by_type p et q pre)]" by (rule query_call [OF r])
  show ?case
  proof (cases "\<exists>out. r = Inr out \<and> truthy (last_key out)")
    case False
    then have "snd res = t"
      using 1(2) r by (auto simp: queryByType_def split: sum.splits)
    then show ?thesis using t by simp
  next
    case True
    then obtain out rs t' where out: "r = Inr out" "truthy (last_key out)"
      and rec: "rec dt p et (obj_set q ''ExclusiveStartKey'' (last_key out)) tableName dt W t =
            Some (rs, t')" "snd res = t'"
      using 1(2) r by (auto simp: queryByType_def bind_eq_Some_conv)
    obtain cs where cs: "t' = t @ C_query dt (query_by_type p et
          (obj_set q ''ExclusiveStartKey'' (last_key out)) tableName) # cs"
        "list_all (later_page dt p et dt) cs"
      using 1(1) [OF rec(1)] by auto
    have "later_page dt p et tableName c" if "later_page dt p et dt c" for c
      using that by (cases c) auto
    then have "list_all (later_page dt p et tableName) cs"
      using cs(2) by (auto simp: list_all_iff)
    then show ?thesis using cs(1) rec(2) t by (auto intro!: exI)
  qed
qed

text \<open>
  Reading all entities of a type loses the rest of a table. The first query uses the table
  and the prefix it was given; every later one goes to the default table and asks for entities
  whose identifiers begin with the name of a table.
\<close>

theorem paginateAllItemsByType_later_pages:
  assumes "paginateAllItemsByType defaultTable p entityType q idPrefix tableName W tr = Some (r, tr')"
  shows "\<exists>cs. tr' = tr @ C_query tableName (query_by_type p entityType q idPrefix) # cs
     \<and> list_all (later_page defaultTable p entityType tableName) cs"
  using by_type_calls [OF assms] by simp

text \<open>Witness: a table that has a second page.\<close>

definition two_pages :: dyn_world where
  "two_pages = slow_table\<lparr>dw_query := (\<lambda>tr. Inr
     (if length tr = 1
      then \<lparr> qo_Items = Some [JNum 1], qo_rest = [(''LastEvaluatedKey'', JStr ''k'')] \<rparr>
      else \<lparr> qo_Items = Some [], qo_rest = [] \<rparr>))\<rparr>"

theorem paginateAllItemsByType_later_pages_witness:
  "\<exists>c. [C_query ''t'' (query_by_type ''p'' E_Otp [] ''x''),
        C_query ''d'' (query_by_type ''p'' E_Otp [(''ExclusiveStartKey'', JStr ''k'')] ''t'')] =
       C_query ''t'' (query_by_type ''p'' E_Otp [] ''x'') # [c]
     \<and> later_page ''d'' ''p'' E_Otp ''t'' c"
proof -
  have "paginateAllItemsByType ''d'' ''p'' E_Otp [] ''x'' ''t'' two_pages [] =
      Some (Inr [[JNum 1], []], [C_query ''t'' (query_by_type ''p'' E_Otp [] ''x''),
        C_query ''d'' (query_by_type ''p'' E_Otp [(''ExclusiveStartKey'', JStr ''k'')] ''t'')])"
    by (simp add: paginateAllItemsByType.simps two_pages_def queryByType_def query_def run_simps
        last_key_def obj_get_def items_of_def denormalizeData_def)
  from paginateAllItemsByType_later_pages [OF this] show ?thesis by auto
qed

end
