(* ===== verification/World.thy ===== *)
theory World
  imports Dynamo_Service
begin

text \<open>
  What the gateway's services talk to. A \<open>call\<close> is one awaited request to third-party code: the
  NEAR RPC (\<open>libs/near-api\<close>, behind its retrying decorators), the relational repositories of
  TypeORM, the DynamoDB table (through the typed interface of \<open>DynamodbService\<close>, whose operations
  \<open>Dynamo_Service\<close> models), the feature flags, the cache, the search index and the message broker.
  The world answers each call from the history of the calls, the current one last; nothing is
  assumed about its answers.

  The transaction action and the handler results are here because calls carry them.
\<close>

section \<open>Transaction actions and results\<close>

text \<open>
  \<open>ta_status\<close> is the final execution status, \<open>undefined\<close> when the action does not have one;
  \<open>ta_kind\<close> is the name of the action kind.
\<close>

record transaction_action =
  ta_receiverId :: string
  ta_signerId :: string
  ta_txSignerId :: "string option"
  ta_predecessorId :: string
  ta_transactionHash :: string
  ta_blockHash :: string
  ta_kind :: string
  ta_methodName :: "string option"
  ta_args :: jsval
  ta_deposit :: "string option"
  ta_timestamp :: string
  ta_receiptId :: string
  ta_indexInReceipt :: nat
  ta_status :: jsval
  ta_receiptSuccessValue :: "string option"

datatype result_type =
    RT_DaoCreate | RT_ProposalCreate | RT_ProposalVote | RT_BountyClaim | RT_Delegate
  | RT_TokenUpdate | RT_NftUpdate | RT_Unknown

record contract_handler_result =
  hr_type :: result_type
  hr_metadata :: "(string \<times> jsval) list"

text \<open>
  What a handler returns: a result, \<open>undefined\<close>, or, when the table of handlers is indexed with the
  name of a method every object has, some other value.
\<close>

datatype handler_result = HR_Undefined | HR_Result contract_handler_result | HR_Other jsval

section \<open>What the NEAR RPC and the receipts stream deliver\<close>

text \<open>
  Actions and execution statuses are dynamic values (an object with one property, or a string).
  \<open>nr_receipt\<close> is \<open>receipt.receipt\<close>: \<open>None\<close> when it is missing, \<open>Some None\<close> when it has no
  \<open>Action\<close> (a data receipt), else the actions.
\<close>

record near_receipt =
  nr_receipt_id :: string
  nr_receiver_id :: string
  nr_predecessor_id :: string
  nr_receipt :: "jsval list option option"

record near_outcome =
  no_id :: string
  no_block_hash :: string
  no_status :: jsval

record near_tx_status =
  nts_hash :: string
  nts_signer_id :: string
  nts_actions :: "jsval list"
  nts_status :: jsval
  nts_receipts :: "near_receipt list"
  nts_receipts_outcome :: "near_outcome list"

record near_block =
  nb_hash :: string
  nb_timestamp_nanosec :: string

datatype action_kind =
    AK_CreateAccount | AK_DeployContract | AK_FunctionCall | AK_Transfer | AK_Stake | AK_AddKey
  | AK_DeleteKey | AK_DeleteAccount

record receipt_entry_action =
  rea_index_in_action_receipt :: nat
  rea_action_kind :: action_kind
  rea_args :: jsval
  rea_receipt_predecessor_account_id :: string
  rea_receipt_receiver_account_id :: string

text \<open>\<open>re_action\<close> is the signer and the actions of an action receipt, \<open>null\<close> for a data receipt.\<close>

record receipt_entry =
  re_receipt_id :: string
  re_included_in_block_hash :: string
  re_included_in_block_timestamp :: string
  re_predecessor_account_id :: string
  re_originated_from_transaction_hash :: string
  re_action :: "(string \<times> receipt_entry_action list) option"

text \<open>
  Entities of the NEAR indexer's database (\<open>libs/near-indexer/src/entities\<close>), reduced to the columns
  the services read; a relation that was not loaded or is missing is \<open>None\<close>.
\<close>

record indexer_action =
  ia_transactionHash :: string
  ia_indexInTransaction :: nat
  ia_actionKind :: "action_kind option"
  ia_args :: jsval

record indexer_transaction =
  itx_transactionHash :: string
  itx_includedInBlockHash :: string
  itx_signerAccountId :: string
  itx_blockTimestamp :: string
  itx_transactionAction :: "indexer_action option"

record indexer_receipt_action =
  ira_indexInActionReceipt :: nat
  ira_actionKind :: action_kind
  ira_args :: jsval
  ira_receiptPredecessorAccountId :: string
  ira_receiptReceiverAccountId :: string

record indexer_receipt =
  ir_receiptId :: string
  ir_includedInBlockTimestamp :: string
  ir_originatedFromTransaction :: "indexer_transaction option"
  ir_receiptActions :: "indexer_receipt_action list option"

record indexer_account =
  ict_accountId :: string
  ict_receipt :: "indexer_receipt option"

record indexer_block =
  ib_blockHash :: string
  ib_blockHeight :: string
  ib_blockTimestamp :: string

record nft_event =
  ne_tokenNewOwnerAccountId :: string
  ne_tokenOldOwnerAccountId :: string
  ne_emittedByContractAccountId :: string
  ne_emittedAtBlockTimestamp :: string

record token_update =
  tu_token :: string
  tu_account :: string
  tu_timestamp :: string

text \<open>The state of a transaction handler, and the statistics of a DAO on one day.\<close>

record handler_state =
  hs_lastBlockHash :: "string option"
  hs_lastBlockTimestamp :: "string option"

record dao_stats =
  ds_id :: string
  ds_daoId :: string
  ds_timestamp :: int
  ds_amount :: "string option"
  ds_totalDaoFunds :: "rat option"
  ds_totalProposalCount :: "int option"
  ds_activeProposalCount :: "int option"
  ds_bountyCount :: "int option"
  ds_nftCount :: "int option"

text \<open>What the daily balances read of a stored treasury receipt; \<open>fe_amount\<close> is its deposit or amount.\<close>

record funds_entry =
  fe_receiverId :: jsval
  fe_amount :: jsval
  fe_createTimestamp :: string

text \<open>
  Tracked errors: \<open>metadata\<close> is reduced to its \<open>receipt\<close>, and the only type of the code is
  \<open>IndexerProcessor\<close>.
\<close>

datatype error_status = ES_Open | ES_InProgress | ES_Resolved

record error_entity =
  ee_id :: string
  ee_reason :: string
  ee_status :: "error_status option"
  ee_timestamp :: "string option"
  ee_receipt :: "receipt_entry option"

section \<open>Documents of the search index\<close>

text \<open>
  A document has the fields of \<open>BaseOpensearchDto\<close>, the entity the other fields are copied from,
  and the documents it embeds. A proposal's document also has the fields of its kind.
\<close>

record base_doc =
  doc_id :: string
  doc_name :: jsval
  doc_description :: "string option"
  doc_accounts :: string

datatype search_doc =
    Doc_Dao base_doc dao
  | Doc_Proposal base_doc proposal "search_doc option" "(string \<times> jsval) list"
  | Doc_Bounty base_doc bounty proposal_status search_doc "int option"

text \<open>
  The relations a bounty is loaded with: the proposal and the comments count of its context, when
  it has one, and the proposers and voters of the proposals that complete it.
\<close>

record bounty_relations =
  br_context :: "(proposal option \<times> int option) option"
  br_doneProposals :: "(string \<times> string list) list option"

section \<open>Calls\<close>

datatype rpc_call =
    R_getConfig string "string option"
  | R_getPolicy string "string option"
  | R_getStakingContract string "string option"
  | R_delegationTotalSupply string "string option"
  | R_getLastProposalId string "string option"
  | R_getLastBountyId string "string option"
  | R_getProposals string int int "string option"
  | R_getProposal string jsval "string option"
  | R_getBounties string int int "string option"
  | R_getBounty string int "string option"
  | R_getBountyClaims string string "string option"
  | R_numberOfClaims string int "string option"
  | R_delegationBalanceOf string jsval "string option"
  | R_accountState string
  | R_stakingAccount string
  | R_stakingUser string "string option"
  | R_contractsMetadata
  | R_versionHash string
  | R_ftMetadata string "string option"
  | R_ftTotalSupply string "string option"
  | R_ftBalanceOf string string "string option"
  | R_nftTotalSupply string
  | R_nftMetadata string "string option"
  | R_nftTokensForOwner string string nat nat
  | R_txStatus string string
  | R_block string

text \<open>
  Calls of the relational repositories; the flag of \<open>S_findDao\<close> says that
  the delegations are loaded, the one of \<open>S_findBounty\<close> that the claims are.
  \<open>S_findEnabledDao\<close> leaves out the disabled DAOs.
\<close>

datatype sql_call =
    S_saveProposal proposal_dto
  | S_findProposal string
  | S_findProposalRelations string
  | S_deleteProposal string
  | S_countProposals string
  | S_countActiveProposals string
  | S_saveProposals "proposal_dto list"
  | S_updateProposals "proposal list"
  | S_updateProposalComments string int
  | S_findProposalsByDaoIds "string list" "proposal_vote_status option"
  | S_findExpiredProposalDaoIds int
  | S_updateExpiredProposals int
  | S_findRoles "string list"
  | S_saveBounty bounty
  | S_findBounty string bool
  | S_findBountyRelations string
  | S_countBounties string
  | S_saveBountyContext bounty_context
  | S_deleteBountyContext string
  | S_saveDao dao
  | S_findDao string bool
  | S_findEnabledDao string
  | S_findDaos "string list option"
  | S_findDaoIds
  | S_countRecentProposals string string
  | S_saveDaoVersion string "string option"
  | S_saveVersions "dao_version list"
  | S_findVersions
  | S_saveDelegation delegation
  | S_findDelegations string
  | S_findAccountDelegations string "string list"
  | S_findDelegation string
  | S_saveToken token
  | S_findNearToken
  | S_saveTokenBalance token_balance
  | S_findTokenBalances string
  | S_saveNfts "jsval list"
  | S_deleteNfts string string "jsval list"
  | S_countNfts string
  | S_saveHandlerState string string "string option" "string option"
  | S_saveError error_entity
  | S_findError string
  | S_findOpenErrors
  | S_updateErrorStatus string error_status
  | S_getHandlerState string
  | S_saveTransactions "indexer_transaction list"
  | S_saveTransaction indexer_transaction
  | S_lastTransaction
  | S_bountyClaimTransactions "string option"
  | S_findProposalIds string
  | S_saveBounties "bounty list"
  | S_saveBountyContexts "(string \<times> string) list"
  | S_findDaoBounties string
  | S_lastToken
  | S_lastNft
  | S_findTokens
  | S_saveTokens "token list"
  | S_saveDaoStats dao_stats
  | S_findDaoStats string int
  | S_listDaoStats string

text \<open>Queries of the NEAR indexer's database.\<close>

datatype indexer_call =
    N_blockByHash "string option"
  | N_blockByTimestamp "string option"
  | N_lastAccountChange
  | N_lastNearLakeBlock
  | N_accountChanges string "string option"
  | N_tokenUpdates string "string option"
  | N_nftEvents string "string option"
  | N_accounts string
  | N_transactions string "string option"
  | N_likelyTokens string
  | N_likelyNfts string

text \<open>The typed items of the table, and the calls of \<open>DynamodbService\<close> on them.\<close>

record dyn_key =
  dk_partitionId :: "string option"
  dk_entityId :: string

datatype dyn_model =
    M_Dao dao
  | M_DaoVersion "dao_version option"
  | M_DaoDelegations "delegation list" "string list" int
  | M_DaoIds "string list"
  | M_Proposal proposal
  | M_Bounty bounty
  | M_BountyContext "string option" "string option" int
  | M_BountyMapping "int option"
  | M_Handled "handler_result list"
  | M_FundsReceipt "(string \<times> jsval) list"
  | M_Error error_entity
  | M_ErrorStatus error_status
  | M_ErrorIds "string list"
  | M_DaoStats dao_stats

datatype dyn_request =
    D_save dyn_key dyn_model
  | D_get dyn_key
  | D_archive dyn_key bool
  | D_updateTokens dyn_key "token_balance_model list"
  | D_countProposals string
  | D_countActiveProposals string
  | D_countActiveBounties string
  | D_countNfts string
  | D_putNfts "jsval list"
  | D_queryNfts string dynamo_entity_type string "jsval list"
  | D_deleteNfts "jsval list"
  | D_updateErrorIds "string list"
  | D_allReceipts string
  | D_allTokenReceipts string string
  | D_allDaoStats string

datatype search_call =
    X_get string string
  | X_update string string search_doc
  | X_index string string search_doc
  | X_exists string string
  | X_delete string string

datatype event_payload =
    EV_DaoUpdate dao transaction_action
  | EV_ProposalUpdate proposal_dto transaction_action
  | EV_StoredProposalUpdate proposal transaction_action
  | EV_CloseDraft string jsval string

datatype event_client = EC_Notification | EC_Api | EC_Draft | EC_Aggregator

datatype call =
    Rpc rpc_call
  | Sql sql_call
  | Dyn dyn_request
  | Search search_call
  | CacheKeys "string option"
  | CacheDel "string list"
  | Emit event_client event_payload
  | Flag string
  | Timer nat string
  | RedisRead string int
  | RedisDel string string
  | BackOff string
  | Indexer indexer_call
  | HttpGet string

section \<open>Answers\<close>

record token_metadata =
  tm_spec :: "string option"
  tm_name :: "string option"
  tm_symbol :: "string option"
  tm_icon :: "string option"
  tm_reference :: "string option"
  tm_reference_hash :: "string option"
  tm_decimals :: int

text \<open>One oracle per type of answer.\<close>

record world =
  w_now :: "call list \<Rightarrow> int"
  w_ack :: "call list \<Rightarrow> exn + unit"
  w_flag :: "call list \<Rightarrow> exn + bool"
  w_str :: "call list \<Rightarrow> exn + string"
  w_num :: "call list \<Rightarrow> exn + int"
  w_json :: "call list \<Rightarrow> exn + jsval"
  w_strs :: "call list \<Rightarrow> exn + string list"
  w_config :: "call list \<Rightarrow> exn + sputnik_dao_config"
  w_policy :: "call list \<Rightarrow> exn + sputnik_dao_policy"
  w_proposals :: "call list \<Rightarrow> exn + sputnik_proposal_output list"
  w_rpcProposal :: "call list \<Rightarrow> exn + sputnik_proposal_output option"
  w_rpcBounty :: "call list \<Rightarrow> exn + sputnik_bounty_output"
  w_bounties :: "call list \<Rightarrow> exn + sputnik_bounty_output list"
  w_claims :: "call list \<Rightarrow> exn + sputnik_bounty_claim list"
  w_dao :: "call list \<Rightarrow> exn + dao option"
  w_proposal :: "call list \<Rightarrow> exn + proposal option"
  w_proposalRelations :: "call list \<Rightarrow> exn + (proposal \<times> dao option) option"
  w_bounty :: "call list \<Rightarrow> exn + bounty option"
  w_bountyRelations :: "call list \<Rightarrow> exn + (bounty \<times> bounty_relations) option"
  w_mapping :: "call list \<Rightarrow> exn + int option"
  w_ids :: "call list \<Rightarrow> exn + string list option"
  w_handled :: "call list \<Rightarrow> exn + handler_result list option"
  w_delegations :: "call list \<Rightarrow> exn + delegation list"
  w_storedProposals :: "call list \<Rightarrow> exn + proposal list"
  w_roles :: "call list \<Rightarrow> exn + role list"
  w_versions :: "call list \<Rightarrow> exn + dao_version list"
  w_metadata :: "call list \<Rightarrow> exn + token_metadata"
  w_token :: "call list \<Rightarrow> exn + token option"
  w_balances :: "call list \<Rightarrow> exn + token_balance list"
  w_daos :: "call list \<Rightarrow> exn + dao list"
  w_jsons :: "call list \<Rightarrow> exn + jsval list"
  w_found :: "call list \<Rightarrow> exn + bool"
  w_txStatus :: "call list \<Rightarrow> exn + near_tx_status"
  w_block :: "call list \<Rightarrow> exn + near_block"
  w_error :: "call list \<Rightarrow> exn + error_entity option"
  w_stream :: "call list \<Rightarrow> exn + (string \<times> string) list option"
  w_handlerState :: "call list \<Rightarrow> exn + handler_state option"
  w_indexerBlock :: "call list \<Rightarrow> exn + indexer_block option"
  w_timestamp :: "call list \<Rightarrow> exn + string option"
  w_transactions :: "call list \<Rightarrow> exn + indexer_transaction list"
  w_transaction :: "call list \<Rightarrow> exn + indexer_transaction option"
  w_receipts :: "call list \<Rightarrow> exn + indexer_receipt list"
  w_accounts :: "call list \<Rightarrow> exn + indexer_account list"
  w_tokenUpdates :: "call list \<Rightarrow> exn + token_update list"
  w_nftEvents :: "call list \<Rightarrow> exn + nft_event list"
  w_bountyList :: "call list \<Rightarrow> exn + bounty list"
  w_tokens :: "call list \<Rightarrow> exn + token list"
  w_daoStats :: "call list \<Rightarrow> exn + dao_stats option"
  w_daoStatsList :: "call list \<Rightarrow> exn + dao_stats list"
  w_funds :: "call list \<Rightarrow> exn + funds_entry list"

type_synonym 'a service = "(world, call, 'a) act"

text \<open>A claim with the account it was read for.\<close>

type_synonym account_claim = "sputnik_bounty_claim \<times> string"

text \<open>
  The configuration, and the third-party functions the services are given: \<open>JSON.parse\<close>,
  \<open>JSON.stringify\<close>, \<open>camelcaseKeys\<close> and \<open>PromisePool\<close>, which runs computations and returns their results in the
  order in which they finish. \<open>e_fuel\<close> bounds the one loop of the services that the world alone
  could keep running (\<open>getNfts\<close> in \<open>Token_Service\<close>, which states how much is enough).
  \<open>e_retryStatus\<close> and \<open>e_retryBlock\<close> are the decorator \<open>Retryable\<close> of the two NEAR requests.
  \<open>e_poolUnits\<close> is the pool of computations whose results are not used, and \<open>e_startOfDay\<close> is luxon's
  \<open>startOf('day')\<close> on a time in milliseconds, \<open>e_minusDay\<close> and \<open>e_minusYear\<close> its \<open>minus\<close> by a
  day and by a year. \<open>e_errorText\<close> and \<open>e_errorStack\<close> are \<open>String(error)\<close> and
  \<open>error.stack\<close>.
\<close>

record env =
  e_contractName :: string
  e_fuel :: nat
  e_json_parse :: "string \<Rightarrow> exn + jsval"
  e_json_stringify :: "jsval \<Rightarrow> string"
  e_camelcase :: "jsval \<Rightarrow> jsval"
  e_poolHandlers :: "handler_result service list \<Rightarrow> handler_result list service"
  e_poolBounties ::
    "(sputnik_bounty_output \<times> int) service list \<Rightarrow> (sputnik_bounty_output \<times> int) list service"
  e_poolClaims ::
    "account_claim list service list \<Rightarrow> account_claim list list service"
  e_poolUnits :: "unit service list \<Rightarrow> unit service"
  e_retryStatus :: "near_tx_status service \<Rightarrow> near_tx_status service"
  e_retryBlock :: "near_block service \<Rightarrow> near_block service"
  e_startOfDay :: "int \<Rightarrow> int"
  e_minusDay :: "int \<Rightarrow> int"
  e_minusYear :: "int \<Rightarrow> int"
  e_tokenApiUrl :: string
  e_nftWhitelistContracts :: "string list"
  e_errorText :: "exn \<Rightarrow> string"
  e_errorStack :: "exn \<Rightarrow> string"

text \<open>A pool that runs the computations one by one is one that the library's contract allows.\<close>

definition seq_pool :: "'a service list \<Rightarrow> 'a list service" where
  "seq_pool ms = map_act (\<lambda>m. m) ms"

text \<open>A decorator that tries \<open>n + 1\<close> times and fails like the last attempt.\<close>

fun retry_act :: "nat \<Rightarrow> 'a service \<Rightarrow> 'a service" where
  "retry_act 0 m = m"
| "retry_act (Suc n) m = attempt m (\<lambda>e. retry_act n m)"

text \<open>A call whose answer is only awaited.\<close>

definition do_call :: "call \<Rightarrow> unit service" where
  "do_call c = call c w_ack"

text \<open>
  A task or timer that is started and not awaited; whether it succeeds does not matter to the
  caller.
\<close>

definition start :: "call \<Rightarrow> unit service" where
  "start c = ask c (\<lambda>W tr. Inr ())"

definition entity_key :: "string option \<Rightarrow> dynamo_entity_type \<Rightarrow> string \<Rightarrow> dyn_key" where
  "entity_key partitionId entityType i =
     \<lparr> dk_partitionId = partitionId, dk_entityId = buildEntityId entityType i \<rparr>"

text \<open>
  A read of the table through \<open>getItemByType\<close>, which turns every rejection into \<open>undefined\<close>
  (\<open>checkIfExists\<close> is left at its default).
\<close>

definition dyn_get :: "(world \<Rightarrow> call list \<Rightarrow> exn + 'a option) \<Rightarrow> dyn_key \<Rightarrow> 'a option service" where
  "dyn_get sel k = attempt (call (Dyn (D_get k)) sel) (\<lambda>e. ret None)"

text \<open>Reading a property of an entity that may be \<open>undefined\<close>.\<close>

definition need :: "string \<Rightarrow> 'a option \<Rightarrow> 'a service" where
  "need p v = (case v of None \<Rightarrow> throw (TypeError p) | Some x \<Rightarrow> ret x)"

lemma run_do_call [run_simps]: "do_call c W tr = (w_ack W (tr @ [c]), tr @ [c])"
  by (simp add: do_call_def run_simps)

lemma run_start [run_simps]: "start c W tr = (Inr (), tr @ [c])"
  by (simp add: start_def run_simps)

lemma run_need [run_simps]:
  "need p v W tr = ((case v of None \<Rightarrow> Inl (TypeError p) | Some x \<Rightarrow> Inr x), tr)"
  by (simp add: need_def run_simps split: option.split)

lemma run_dyn_get [run_simps]:
  "dyn_get sel k W tr =
     (Inr (case sel W (tr @ [Dyn (D_get k)]) of Inl e \<Rightarrow> None | Inr v \<Rightarrow> v), tr @ [Dyn (D_get k)])"
  by (simp add: dyn_get_def run_simps split: sum.split)

lemma do_call_iff [simp]: "do_call c W tr = (r, t) \<longleftrightarrow> r = w_ack W (tr @ [c]) \<and> t = tr @ [c]"
  by (auto simp: do_call_def call_iff)

lemma need_iff: "need p v W tr = (Inr x, t) \<longleftrightarrow> v = Some x \<and> t = tr"
  by (auto simp: need_def ok_iffs split: option.splits)

lemma keeps_do_call: "P c \<Longrightarrow> keeps P (do_call c)"
  unfolding do_call_def by (rule keeps_call)

lemma keeps_start: "P c \<Longrightarrow> keeps P (start c)"
  unfolding start_def by (rule keeps_ask)

lemma keeps_need [keeps_intros]: "keeps P (need p v)"
  unfolding need_def by (intro keeps_intros)

lemma keeps_dyn_get: "P (Dyn (D_get k)) \<Longrightarrow> keeps P (dyn_get sel k)"
  unfolding dyn_get_def by (intro keeps_intros keeps_call)

section \<open>Writing to both stores\<close>

fun is_dyn :: "call \<Rightarrow> bool" where
  "is_dyn (Dyn c) = True"
| "is_dyn _ = False"

fun is_sql :: "call \<Rightarrow> bool" where
  "is_sql (Sql c) = True"
| "is_sql _ = False"

text \<open>
  The contract of the services that store an entity twice: the DynamoDB writes come first, the
  relational one is the last call and is made only if they all succeeded.
\<close>

locale dual_write =
  fixes save dyn :: "'a \<Rightarrow> unit service" and sql :: "'a \<Rightarrow> sql_call"
  assumes save_both: "save x = thn (dyn x) (do_call (Sql (sql x)))"
    and dyn_only: "keeps is_dyn (dyn x)"
begin

lemma save_cases:
  assumes "save x W tr = (r, t)"
  obtains (failed) e ds where "r = Inl e" and "t = tr @ ds" and "list_all is_dyn ds"
      and "dyn x W tr = (Inl e, t)"
  | (written) ds where "t = tr @ ds @ [Sql (sql x)]" and "list_all is_dyn ds"
      and "dyn x W tr = (Inr (), tr @ ds)" and "r = w_ack W t"
proof -
  obtain r' t' where d: "dyn x W tr = (r', t')" by fastforce
  obtain ds where ds: "t' = tr @ ds" "list_all is_dyn ds"
    using keepsE [OF dyn_only d] .
  show thesis
  proof (cases r')
    case (Inl e)
    then show thesis using assms d ds failed by (auto simp: save_both run_thn)
  next
    case (Inr u)
    then have "t = tr @ ds @ [Sql (sql x)]" "r = w_ack W t" "dyn x W tr = (Inr (), tr @ ds)"
      using assms d ds by (auto simp: save_both run_thn run_do_call)
    then show thesis using written ds(2) by blast
  qed
qed

lemma save_sql_last:
  assumes "save x W tr = (Inr u, t)"
  shows "\<exists>ds. t = tr @ ds @ [Sql (sql x)] \<and> list_all is_dyn ds \<and> dyn x W tr = (Inr (), tr @ ds)"
  using assms by (cases rule: save_cases) auto

lemma save_calls: "keeps (\<lambda>c. is_dyn c \<or> c = Sql (sql x)) (save x)"
  unfolding keeps_def
proof (intro allI)
  fix W tr
  obtain r t where s: "save x W tr = (r, t)" by fastforce
  then have snd: "snd (save x W tr) = t" by simp
  from s show "\<exists>cs. snd (save x W tr) = tr @ cs \<and> list_all (\<lambda>c. is_dyn c \<or> c = Sql (sql x)) cs"
    unfolding snd by (cases rule: save_cases) (auto simp: list_all_iff)
qed

end

section \<open>A world for the witnesses\<close>

text \<open>Every call succeeds, every list and every entity is missing, every flag is off.\<close>

definition sample_config :: sputnik_dao_config where
  "sample_config = \<lparr> cfg_name = ''dao'', cfg_purpose = ''test'', cfg_metadata = [] \<rparr>"

definition sample_policy :: sputnik_policy_v2 where
  "sample_policy = \<lparr> sp_roles =
       [\<lparr> sr_name = ''council'', sr_kind = SRK_Group [''alice.near'', ''bob.near''],
          sr_permissions = [''*:*''], sr_vote_policy = [] \<rparr>],
     sp_default_vote_policy = Some \<lparr> svp_weight_kind = ''RoleWeight'', svp_quorum = ''0'',
       svp_threshold = WR_Ratio [1, 2] \<rparr>,
     sp_proposal_bond = ''1'', sp_proposal_period = ''7'', sp_bounty_bond = ''1'',
     sp_bounty_forgiveness_period = ''1'' \<rparr>"

definition sample_bounty :: sputnik_bounty_output where
  "sample_bounty = \<lparr> sb_description = ''d'', sb_token = [], sb_amount = ''5'', sb_times = 1,
     sb_max_deadline = ''9'', sbo_id = 0 \<rparr>"

definition quiet_world :: world where
  "quiet_world =
     \<lparr> w_now = (\<lambda>tr. 0), w_ack = (\<lambda>tr. Inr ()), w_flag = (\<lambda>tr. Inr False),
       w_str = (\<lambda>tr. Inr ''0''), w_num = (\<lambda>tr. Inr 0), w_json = (\<lambda>tr. Inr JNull),
       w_strs = (\<lambda>tr. Inr []), w_config = (\<lambda>tr. Inr sample_config),
       w_policy = (\<lambda>tr. Inr (PolicyV2 sample_policy)), w_proposals = (\<lambda>tr. Inr []),
       w_rpcProposal = (\<lambda>tr. Inr None), w_rpcBounty = (\<lambda>tr. Inr sample_bounty),
       w_bounties = (\<lambda>tr. Inr []), w_claims = (\<lambda>tr. Inr []), w_dao = (\<lambda>tr. Inr None),
       w_proposal = (\<lambda>tr. Inr None), w_proposalRelations = (\<lambda>tr. Inr None),
       w_bounty = (\<lambda>tr. Inr None), w_bountyRelations = (\<lambda>tr. Inr None), w_mapping = (\<lambda>tr. Inr None),
       w_ids = (\<lambda>tr. Inr None), w_handled = (\<lambda>tr. Inr None), w_delegations = (\<lambda>tr. Inr []),
       w_storedProposals = (\<lambda>tr. Inr []), w_roles = (\<lambda>tr. Inr []), w_versions = (\<lambda>tr. Inr []),
       w_metadata = (\<lambda>tr. Inr \<lparr> tm_spec = None, tm_name = None, tm_symbol = None, tm_icon = None,
          tm_reference = None, tm_reference_hash = None, tm_decimals = 24 \<rparr>),
       w_token = (\<lambda>tr. Inr None), w_balances = (\<lambda>tr. Inr []), w_daos = (\<lambda>tr. Inr []),
       w_jsons = (\<lambda>tr. Inr []), w_found = (\<lambda>tr. Inr False),
       w_txStatus = (\<lambda>tr. Inl (Rejection ''tx'')), w_block = (\<lambda>tr. Inl (Rejection ''block'')),
       w_error = (\<lambda>tr. Inr None), w_stream = (\<lambda>tr. Inr None),
       w_handlerState = (\<lambda>tr. Inr None), w_indexerBlock = (\<lambda>tr. Inr None),
       w_timestamp = (\<lambda>tr. Inr None), w_transactions = (\<lambda>tr. Inr []),
       w_transaction = (\<lambda>tr. Inr None), w_receipts = (\<lambda>tr. Inr []), w_accounts = (\<lambda>tr. Inr []),
       w_tokenUpdates = (\<lambda>tr. Inr []), w_nftEvents = (\<lambda>tr. Inr []),
       w_bountyList = (\<lambda>tr. Inr []), w_tokens = (\<lambda>tr. Inr []), w_daoStats = (\<lambda>tr. Inr None),
       w_daoStatsList = (\<lambda>tr. Inr []), w_funds = (\<lambda>tr. Inr []) \<rparr>"

definition sample_env :: env where
  "sample_env = \<lparr> e_contractName = ''sputnik-dao.near'', e_fuel = 100,
     e_json_parse = (\<lambda>s. Inr JNull),
     e_json_stringify = (\<lambda>v. []), e_camelcase = (\<lambda>v. v), e_poolHandlers = seq_pool, e_poolBounties = seq_pool,
     e_poolClaims = seq_pool, e_poolUnits = (\<lambda>ms. each_act (\<lambda>m. m) ms),
     e_retryStatus = retry_act 4, e_retryBlock = retry_act 4,
     e_startOfDay = (\<lambda>t. t - t mod 86400000),
     e_minusDay = (\<lambda>t. t - 86400000), e_minusYear = (\<lambda>t. t - 31536000000), e_tokenApiUrl = [],
     e_nftWhitelistContracts = [], e_errorText = exn_message, e_errorStack = (\<lambda>e. []) \<rparr>"

lemmas sample_simps = quiet_world_def sample_env_def seq_pool_def

section \<open>Loops that read chunks\<close>

text \<open>The loop of the requests that read a list chunk by chunk.\<close>

lemma chunk_loop_iff:
  "fold_act (\<lambda>acc i. bnd (call (C i) sel) (\<lambda>chunk. ret (acc @ chunk))) acc is W tr = (Inr xs, t) \<longleftrightarrow>
     (\<exists>chunks. length chunks = length is
        \<and> (\<forall>k < length is. sel W (tr @ map C (take (Suc k) is)) = Inr (chunks ! k))
        \<and> xs = acc @ concat chunks \<and> t = tr @ map C is)"
proof (induction "is" arbitrary: acc tr)
  case Nil
  then show ?case by (auto simp: ok_iffs)
next
  case (Cons i "is")
  let ?rest = "\<lambda>c chunks. length chunks = length is
        \<and> (\<forall>k < length is. sel W ((tr @ [C i]) @ map C (take (Suc k) is)) = Inr (chunks ! k))
        \<and> xs = (acc @ c) @ concat chunks \<and> t = (tr @ [C i]) @ map C is"
  let ?body = "\<lambda>acc i. bnd (call (C i) sel) (\<lambda>chunk. ret (acc @ chunk))"
  have "fold_act ?body acc (i # is) W tr = (Inr xs, t) \<longleftrightarrow>
      (\<exists>c. sel W (tr @ [C i]) = Inr c \<and> fold_act ?body (acc @ c) is W (tr @ [C i]) = (Inr xs, t))"
    by (cases "sel W (tr @ [C i])") (simp_all add: run_simps)
  also have "\<dots> \<longleftrightarrow> (\<exists>c. sel W (tr @ [C i]) = Inr c \<and> (\<exists>chunks. ?rest c chunks))"
    unfolding Cons.IH ..
  also have "\<dots> \<longleftrightarrow> (\<exists>c chunks. sel W (tr @ [C i]) = Inr c \<and> ?rest c chunks)" by blast
  also have "\<dots> \<longleftrightarrow> (\<exists>chunks. length chunks = length (i # is)
        \<and> (\<forall>k < length (i # is). sel W (tr @ map C (take (Suc k) (i # is))) = Inr (chunks ! k))
        \<and> xs = acc @ concat chunks \<and> t = tr @ map C (i # is))"
    (is "?lhs \<longleftrightarrow> ?rhs")
  proof
    assume ?lhs
    then obtain c chunks where "sel W (tr @ [C i]) = Inr c" and "?rest c chunks" by blast
    then show ?rhs by (intro exI [of _ "c # chunks"]) (auto simp: less_Suc_eq_0_disj)
  next
    assume ?rhs
    then obtain chunks where ch: "length chunks = length (i # is)"
      "\<forall>k < length (i # is). sel W (tr @ map C (take (Suc k) (i # is))) = Inr (chunks ! k)"
      "xs = acc @ concat chunks" "t = tr @ map C (i # is)" by blast
    then obtain c chunks' where "chunks = c # chunks'" by (cases chunks) auto
    with ch have "sel W (tr @ [C i]) = Inr c \<and> ?rest c chunks'"
      by (auto dest: spec [of _ 0] spec [of _ "Suc _"])
    then show ?lhs by blast
  qed
  finally show ?case .
qed

end
