(* ===== verification/Casts_Dao.thy ===== *)
theory Casts_Dao
  imports Utils
begin

text \<open>
  \<open>libs/transaction-handler/src/types/{vote-policy,role,dao}.ts\<close>: how the policy and the
  configuration read from a DAO contract become the stored DAO.
\<close>

section \<open>Vote policies and roles\<close>

definition castVotePolicy :: "sputnik_vote_policy option \<Rightarrow> exn + vote_policy option" where
  "castVotePolicy policy =
     (case policy of
        None \<Rightarrow> Inr None
      | Some p \<Rightarrow>
          if svp_weight_kind p = ''RoleWeight'' then
            Inr (Some \<lparr> vp_weightKind = RoleWeight, vp_quorum = svp_quorum p, vp_kind = WRT_Ratio,
                        vp_weight = None, vp_ratio = Some (svp_threshold p) \<rparr>)
          else if svp_weight_kind p = ''TokenWeight'' then
            Inr (Some \<lparr> vp_weightKind = TokenWeight, vp_quorum = svp_quorum p, vp_kind = WRT_Weight,
                        vp_weight = Some (svp_threshold p), vp_ratio = None \<rparr>)
          else Inl (ThrownError ''Invalid vote policy''))"

definition castRolePermission :: "sputnik_role option \<Rightarrow> exn + role option" where
  "castRolePermission r =
     (case r of
        None \<Rightarrow> Inr None
      | Some rl \<Rightarrow>
          res_bind (map_res (\<lambda>(type, policy). res_bind (castVotePolicy policy) (\<lambda>vp. Inr (type, vp)))
              (sr_vote_policy rl)) (\<lambda>votePolicy.
          let base = \<lparr> role_id = None, role_name = sr_name rl, role_kind = Everyone,
                       role_balance = None, role_accountIds = None,
                       role_permissions = sr_permissions rl, role_votePolicy = Some votePolicy,
                       role_policyDaoId = None \<rparr>
          in if isSputnikDaoRoleKindEveryone (sr_kind rl) then Inr (Some base)
             else case sr_kind rl of
               SRK_Member balance \<Rightarrow>
                 Inr (Some (base\<lparr>role_kind := Member, role_balance := Some (Some balance)\<rparr>))
             | SRK_Group accounts \<Rightarrow>
                 Inr (Some (base\<lparr>role_kind := Group, role_accountIds := Some accounts\<rparr>))
             | _ \<Rightarrow> Inl (ThrownError ''Invalid role'')))"

section \<open>The policy of a DAO\<close>

record dao_policy_fields =
  dpf_council :: "string list"
  dpf_councilSeats :: int
  dpf_numberOfMembers :: int
  dpf_numberOfGroups :: int
  dpf_accountIds :: "string list"
  dpf_policy :: policy

definition cast_role :: "string \<Rightarrow> sputnik_role \<Rightarrow> exn + role" where
  "cast_role daoId r =
     res_bind (castRolePermission (Some r)) (\<lambda>rp.
       case rp of
         None \<Rightarrow> Inl (TypeError ''name'')
       | Some rl \<Rightarrow> Inr (rl\<lparr>role_id := Some (buildRoleId daoId (sr_name r)),
                             role_policyDaoId := Some daoId\<rparr>))"

definition group_accounts :: "role \<Rightarrow> string list" where
  "group_accounts r = (case role_accountIds r of None \<Rightarrow> [] | Some ids \<Rightarrow> ids)"

text \<open>\<open>delegationAccounts\<close> defaults to the empty list.\<close>

definition castDaoPolicy ::
    "string \<Rightarrow> sputnik_dao_policy \<Rightarrow> string list option \<Rightarrow> exn + dao_policy_fields" where
  "castDaoPolicy daoId daoPolicy delegationAccounts =
     (case daoPolicy of
        PolicyV1 council \<Rightarrow> Inl (ThrownError ''Invalid sputnik dao policy'')
      | PolicyV2 p \<Rightarrow>
          res_bind (map_res (cast_role daoId) (sp_roles p)) (\<lambda>roles.
          let groups = filter (\<lambda>r. role_kind r = Group) roles;
              council = concat (map group_accounts
                (filter (\<lambda>r. ''council'' = to_lower (role_name r)) groups));
              accountIds = filter (\<lambda>accountId. accountId \<noteq> [])
                (set_order (concat (map group_accounts groups) @
                  (case delegationAccounts of None \<Rightarrow> [] | Some das \<Rightarrow> das)))
          in res_bind (castVotePolicy (sp_default_vote_policy p)) (\<lambda>defaultVotePolicy.
             Inr \<lparr> dpf_council = council,
                   dpf_councilSeats = int (length council),
                   dpf_numberOfMembers = int (length accountIds),
                   dpf_numberOfGroups = int (length groups),
                   dpf_accountIds = accountIds,
                   dpf_policy =
                     \<lparr> pol_daoId = Some daoId,
                       pol_proposalBond = Some (sp_proposal_bond p),
                       pol_bountyBond = Some (sp_bounty_bond p),
                       pol_proposalPeriod = Some (sp_proposal_period p),
                       pol_bountyForgivenessPeriod = Some (sp_bounty_forgiveness_period p),
                       pol_defaultVotePolicy = defaultVotePolicy,
                       pol_roles = Some roles \<rparr> \<rparr>)))"

section \<open>DAO records\<close>

record dao_info =
  di_config :: sputnik_dao_config
  di_policy :: sputnik_dao_policy
  di_totalSupply :: string
  di_lastBountyId :: int
  di_lastProposalId :: int
  di_stakingContract :: string
  di_amount :: string

definition castCreateDao ::
    "(string \<Rightarrow> exn + jsval) \<Rightarrow> string \<Rightarrow> string \<Rightarrow> string \<Rightarrow> dao_info \<Rightarrow> string list option \<Rightarrow> string \<Rightarrow>
     exn + dao" where
  "castCreateDao json_parse signerId txHash daoId daoInfo delegationAccounts timestamp =
     res_bind (castDaoPolicy daoId (di_policy daoInfo) delegationAccounts) (\<lambda>p.
     Inr \<lparr> isArchived = None, createdAt = None, updatedAt = None,
           transactionHash = Some txHash, updateTransactionHash = Some txHash,
           createTimestamp = Some timestamp, updateTimestamp = Some timestamp,
           dao_id = daoId,
           dao_config = Some (di_config daoInfo),
           dao_metadata = btoaJSON json_parse (cfg_metadata (di_config daoInfo)),
           dao_amount = Some (di_amount daoInfo),
           dao_totalSupply = Some (di_totalSupply daoInfo),
           dao_lastBountyId = Some (di_lastBountyId daoInfo),
           dao_lastProposalId = Some (di_lastProposalId daoInfo),
           dao_stakingContract = Some (di_stakingContract daoInfo),
           dao_numberOfAssociates = Some 0,
           dao_numberOfMembers = Some (dpf_numberOfMembers p),
           dao_numberOfGroups = Some (dpf_numberOfGroups p),
           dao_council = Some (dpf_council p),
           dao_accountIds = Some (dpf_accountIds p),
           dao_councilSeats = Some (dpf_councilSeats p),
           dao_policy = Some (dpf_policy p),
           dao_link = Some [], dao_description = Some [],
           dao_createdBy = Some signerId,
           dao_daoVersion = None,
           dao_status = Some DS_Active,
           dao_activeProposalCount = None, dao_totalProposalCount = None,
           dao_totalDaoFunds = None, dao_bountyCount = None, dao_nftCount = None,
           dao_delegations = None, dao_tokens = None \<rparr>)"

text \<open>\<open>{ daoId, ...policy }\<close>: the policy's own \<open>daoId\<close> wins when it has one.\<close>

definition castDynamoDaoPolicy :: "string \<Rightarrow> policy option \<Rightarrow> policy" where
  "castDynamoDaoPolicy daoId pol =
     (case pol of
        None \<Rightarrow> \<lparr> pol_daoId = Some daoId, pol_proposalBond = None, pol_bountyBond = None,
                  pol_proposalPeriod = None, pol_bountyForgivenessPeriod = None,
                  pol_defaultVotePolicy = None, pol_roles = None \<rparr>
      | Some p \<Rightarrow> p\<lparr>pol_daoId := opt_or (pol_daoId p) (Some daoId)\<rparr>)"

definition castAddProposalDao :: "dao \<Rightarrow> int \<Rightarrow> string \<Rightarrow> string \<Rightarrow> dao" where
  "castAddProposalDao d lastProposalId txHash timestamp =
     \<lparr> isArchived = None, createdAt = None, updatedAt = None,
       transactionHash = transactionHash d, updateTransactionHash = Some txHash,
       createTimestamp = createTimestamp d, updateTimestamp = Some timestamp,
       dao_id = dao_id d,
       dao_config = dao_config d,
       dao_metadata = dao_metadata d,
       dao_amount = dao_amount d,
       dao_totalSupply = dao_totalSupply d,
       dao_lastBountyId = dao_lastBountyId d,
       dao_lastProposalId = Some lastProposalId,
       dao_stakingContract = dao_stakingContract d,
       dao_numberOfAssociates = dao_numberOfAssociates d,
       dao_numberOfMembers = dao_numberOfMembers d,
       dao_numberOfGroups = dao_numberOfGroups d,
       dao_council = dao_council d,
       dao_accountIds = dao_accountIds d,
       dao_councilSeats = dao_councilSeats d,
       dao_policy = Some (castDynamoDaoPolicy (dao_id d) (dao_policy d)),
       dao_link = dao_link d,
       dao_description = dao_description d,
       dao_createdBy = dao_createdBy d,
       dao_daoVersion = None,
       dao_status = dao_status d,
       dao_activeProposalCount = None, dao_totalProposalCount = None,
       dao_totalDaoFunds = None, dao_bountyCount = None, dao_nftCount = None,
       dao_delegations = None, dao_tokens = None \<rparr>"

record act_proposal_dao_args =
  apd_dao :: dao
  apd_transactionHash :: string
  apd_amount :: "string option"
  apd_config :: "sputnik_dao_config option"
  apd_policy :: "sputnik_dao_policy option"
  apd_lastBountyId :: "int option"
  apd_stakingContract :: "string option"
  apd_delegationAccounts :: "string list option"
  apd_timestamp :: string

definition castActProposalDao ::
    "(string \<Rightarrow> exn + jsval) \<Rightarrow> act_proposal_dao_args \<Rightarrow> exn + dao" where
  "castActProposalDao json_parse a =
     (let d = apd_dao a;
          base =
     \<lparr> isArchived = None, createdAt = None, updatedAt = None,
       transactionHash = transactionHash d, updateTransactionHash = Some (apd_transactionHash a),
       createTimestamp = createTimestamp d, updateTimestamp = Some (apd_timestamp a),
       dao_id = dao_id d,
       dao_config = opt_or (apd_config a) (dao_config d),
       dao_metadata = (case apd_config a of
           None \<Rightarrow> dao_metadata d | Some c \<Rightarrow> btoaJSON json_parse (cfg_metadata c)),
       dao_amount = opt_or (apd_amount a) (dao_amount d),
       dao_totalSupply = dao_totalSupply d,
       dao_lastBountyId = opt_or (apd_lastBountyId a) (dao_lastBountyId d),
       dao_lastProposalId = dao_lastProposalId d,
       dao_stakingContract = opt_or (apd_stakingContract a) (dao_stakingContract d),
       dao_numberOfAssociates = dao_numberOfAssociates d,
       dao_numberOfMembers = dao_numberOfMembers d,
       dao_numberOfGroups = dao_numberOfGroups d,
       dao_council = dao_council d,
       dao_accountIds = dao_accountIds d,
       dao_councilSeats = dao_councilSeats d,
       dao_policy = Some (castDynamoDaoPolicy (dao_id d) (dao_policy d)),
       dao_link = dao_link d,
       dao_description = dao_description d,
       dao_createdBy = dao_createdBy d,
       dao_daoVersion = None,
       dao_status = dao_status d,
       dao_activeProposalCount = None, dao_totalProposalCount = None,
       dao_totalDaoFunds = None, dao_bountyCount = None, dao_nftCount = None,
       dao_delegations = None, dao_tokens = None \<rparr>
      in case apd_policy a of
           None \<Rightarrow> Inr base
         | Some pol \<Rightarrow>
             res_bind (castDaoPolicy (dao_id d) pol (apd_delegationAccounts a)) (\<lambda>p.
             Inr (base\<lparr>dao_council := Some (dpf_council p),
                       dao_councilSeats := Some (dpf_councilSeats p),
                       dao_numberOfMembers := Some (dpf_numberOfMembers p),
                       dao_numberOfGroups := Some (dpf_numberOfGroups p),
                       dao_accountIds := Some (dpf_accountIds p),
                       dao_policy := Some (dpf_policy p)\<rparr>)))"

section \<open>When the casts succeed\<close>

definition valid_vote_policy :: "sputnik_vote_policy option \<Rightarrow> bool" where
  "valid_vote_policy policy \<longleftrightarrow>
     (case policy of None \<Rightarrow> True
      | Some p \<Rightarrow> svp_weight_kind p = ''RoleWeight'' \<or> svp_weight_kind p = ''TokenWeight'')"

definition valid_role :: "sputnik_role \<Rightarrow> bool" where
  "valid_role r \<longleftrightarrow> sr_kind r \<noteq> SRK_Other \<and>
     (\<forall>(type, policy) \<in> set (sr_vote_policy r). valid_vote_policy policy)"

definition valid_policy :: "sputnik_dao_policy \<Rightarrow> bool" where
  "valid_policy pol \<longleftrightarrow>
     (case pol of PolicyV1 c \<Rightarrow> False
      | PolicyV2 p \<Rightarrow> (\<forall>r \<in> set (sp_roles p). valid_role r)
          \<and> valid_vote_policy (sp_default_vote_policy p))"

lemma map_res_Inr_iff: "(\<exists>ys. map_res f xs = Inr ys) \<longleftrightarrow> (\<forall>x \<in> set xs. \<exists>y. f x = Inr y)"
proof (induction xs)
  case Nil
  then show ?case by simp
next
  case (Cons x xs)
  have "(\<exists>ys. map_res f (x # xs) = Inr ys) \<longleftrightarrow>
      (\<exists>y. f x = Inr y) \<and> (\<exists>ys. map_res f xs = Inr ys)"
    by (auto simp: res_bind_Inr_iff)
  with Cons show ?case by simp
qed

lemma castVotePolicy_ok: "(\<exists>v. castVotePolicy policy = Inr v) \<longleftrightarrow> valid_vote_policy policy"
  by (auto simp: castVotePolicy_def valid_vote_policy_def split: option.splits)

lemma castRolePermission_ok: "(\<exists>v. castRolePermission (Some r) = Inr v) \<longleftrightarrow> valid_role r"
proof -
  let ?f = "\<lambda>x. res_bind (castVotePolicy (snd x)) (\<lambda>vp. Inr (fst x, vp))"
  have "(\<exists>v. castRolePermission (Some r) = Inr v) \<longleftrightarrow>
      sr_kind r \<noteq> SRK_Other \<and> (\<exists>vps. map_res ?f (sr_vote_policy r) = Inr vps)"
    by (cases "sr_kind r")
      (auto simp: castRolePermission_def res_bind_Inr_iff Let_def case_prod_unfold)
  moreover have step: "(\<exists>y. ?f x = Inr y) \<longleftrightarrow> valid_vote_policy (snd x)" for x
    by (auto simp: res_bind_Inr_iff castVotePolicy_ok [symmetric])
  ultimately show ?thesis
    by (simp only: valid_role_def map_res_Inr_iff step case_prod_unfold)
qed

lemma castRolePermission_not_null: "castRolePermission (Some r) \<noteq> Inr None"
  by (auto simp: castRolePermission_def res_bind_Inr_iff Let_def
      split: sputnik_role_kind.splits if_splits)

lemma cast_role_ok: "(\<exists>v. cast_role daoId r = Inr v) \<longleftrightarrow> valid_role r"
proof (cases "castRolePermission (Some r)")
  case (Inl e)
  then have "\<not> valid_role r" using castRolePermission_ok [of r] by simp
  then show ?thesis using Inl by (simp add: cast_role_def)
next
  case (Inr v)
  moreover obtain rl where "v = Some rl"
    using Inr castRolePermission_not_null [of r] by (cases v) auto
  moreover have "valid_role r" using Inr castRolePermission_ok [of r] by blast
  ultimately show ?thesis by (simp add: cast_role_def)
qed

lemma castDaoPolicy_ok: "(\<exists>p. castDaoPolicy daoId pol das = Inr p) \<longleftrightarrow> valid_policy pol"
proof (cases pol)
  case (PolicyV1 c)
  then show ?thesis by (simp add: castDaoPolicy_def valid_policy_def)
next
  case (PolicyV2 p)
  have "(\<exists>q. castDaoPolicy daoId pol das = Inr q) \<longleftrightarrow>
      (\<exists>rs. map_res (cast_role daoId) (sp_roles p) = Inr rs)
      \<and> (\<exists>v. castVotePolicy (sp_default_vote_policy p) = Inr v)"
    by (auto simp: castDaoPolicy_def PolicyV2 res_bind_Inr_iff Let_def)
  then show ?thesis
    by (simp add: PolicyV2 valid_policy_def map_res_Inr_iff cast_role_ok castVotePolicy_ok)
qed

section \<open>What the casts produce\<close>

lemma cast_role_fields:
  assumes "cast_role daoId r = Inr rl"
  shows "role_name rl = sr_name r" and "role_permissions rl = sr_permissions r"
    and "role_id rl = Some (buildRoleId daoId (sr_name r))"
    and "role_kind rl = Group \<longleftrightarrow> isSputnikDaoRoleKindGroup (sr_kind r)"
    and "sr_kind r = SRK_Group accounts \<Longrightarrow> role_accountIds rl = Some accounts"
  using assms
  by (cases "sr_kind r"; auto simp: cast_role_def castRolePermission_def res_bind_Inr_iff Let_def
      split: option.splits if_splits)+

definition policy_group_accounts :: "sputnik_policy_v2 \<Rightarrow> string set" where
  "policy_group_accounts p =
     {a. \<exists>r \<in> set (sp_roles p). \<exists>accounts. sr_kind r = SRK_Group accounts \<and> a \<in> set accounts}"

lemma group_accounts_of_roles:
  assumes "map_res (cast_role daoId) rs = Inr rls"
  shows "(\<exists>rl \<in> set rls. role_kind rl = Group \<and> a \<in> set (group_accounts rl)) \<longleftrightarrow>
     (\<exists>r \<in> set rs. \<exists>accounts. sr_kind r = SRK_Group accounts \<and> a \<in> set accounts)"
proof -
  have step: "role_kind rl = Group \<and> a \<in> set (group_accounts rl) \<longleftrightarrow>
      (\<exists>accounts. sr_kind r = SRK_Group accounts \<and> a \<in> set accounts)"
    if "cast_role daoId r = Inr rl" for r rl
    using cast_role_fields [OF that]
    by (cases "sr_kind r") (auto simp: group_accounts_def)
  have "\<forall>r \<in> set rs. \<exists>rl. cast_role daoId r = Inr rl"
    using map_res_Inr_iff [of "cast_role daoId" rs] assms by blast
  then show ?thesis
    using map_res_Inr_set [OF assms] step by meson
qed

definition members_consistent :: "dao \<Rightarrow> bool" where
  "members_consistent d \<longleftrightarrow>
     (case (dao_council d, dao_accountIds d) of
        (Some council, Some accountIds) \<Rightarrow>
          dao_councilSeats d = Some (int (length council))
          \<and> dao_numberOfMembers d = Some (int (length accountIds))
          \<and> distinct accountIds \<and> [] \<notin> set accountIds
      | _ \<Rightarrow> False)"

lemma castDaoPolicy_fields:
  assumes "castDaoPolicy daoId pol das = Inr p"
  shows "dpf_councilSeats p = int (length (dpf_council p))"
    and "dpf_numberOfMembers p = int (length (dpf_accountIds p))"
    and "distinct (dpf_accountIds p)" and "[] \<notin> set (dpf_accountIds p)"
  using assms
  by (auto simp: castDaoPolicy_def res_bind_Inr_iff Let_def split: sputnik_dao_policy.splits)

lemma castDaoPolicy_accounts:
  assumes "castDaoPolicy daoId (PolicyV2 p) das = Inr q"
  shows "set (dpf_accountIds q) =
     (policy_group_accounts p \<union> (case das of None \<Rightarrow> {} | Some xs \<Rightarrow> set xs)) - {[]}"
proof -
  obtain roles where roles: "map_res (cast_role daoId) (sp_roles p) = Inr roles"
    and ids: "dpf_accountIds q = filter (\<lambda>accountId. accountId \<noteq> [])
       (set_order (concat (map group_accounts (filter (\<lambda>r. role_kind r = Group) roles)) @
         (case das of None \<Rightarrow> [] | Some das \<Rightarrow> das)))"
    using assms by (auto simp: castDaoPolicy_def res_bind_Inr_iff Let_def)
  have "a \<in> set (concat (map group_accounts (filter (\<lambda>r. role_kind r = Group) roles))) \<longleftrightarrow>
      a \<in> policy_group_accounts p" for a
    using group_accounts_of_roles [OF roles, of a] by (auto simp: policy_group_accounts_def)
  then have "set (concat (map group_accounts (filter (\<lambda>r. role_kind r = Group) roles))) =
      policy_group_accounts p" by blast
  then show ?thesis
    unfolding ids set_filter set_set_order set_append by (auto split: option.splits)
qed

text \<open>The accounts a role of the contract lists: those of a group, none otherwise.\<close>

definition listed_accounts :: "sputnik_role \<Rightarrow> string list" where
  "listed_accounts r = (case sr_kind r of SRK_Group accounts \<Rightarrow> accounts | _ \<Rightarrow> [])"

lemma council_of_roles:
  "map_res (cast_role daoId) rs = Inr rls \<Longrightarrow>
     concat (map group_accounts (filter (\<lambda>r. ''council'' = to_lower (role_name r))
       (filter (\<lambda>r. role_kind r = Group) rls))) =
     [a. r \<leftarrow> rs, to_lower (sr_name r) = ''council'', a \<leftarrow> listed_accounts r]
     \<and> length (filter (\<lambda>r. role_kind r = Group) rls) =
     length [r. r \<leftarrow> rs, \<exists>accounts. sr_kind r = SRK_Group accounts]"
proof (induction rs arbitrary: rls)
  case Nil
  then show ?case by simp
next
  case (Cons r rs)
  then obtain rl rest where rl: "cast_role daoId r = Inr rl"
    and rest: "map_res (cast_role daoId) rs = Inr rest" and rls: "rls = rl # rest"
    by (auto simp: res_bind_Inr_iff)
  show ?case
    using Cons.IH [OF rest] cast_role_fields [OF rl] unfolding rls
    by (cases "sr_kind r") (auto simp: listed_accounts_def group_accounts_def)
qed

lemma castDaoPolicy_council:
  assumes "castDaoPolicy daoId (PolicyV2 p) das = Inr q"
  shows "dpf_council q =
      [a. r \<leftarrow> sp_roles p, to_lower (sr_name r) = ''council'', a \<leftarrow> listed_accounts r]"
    and "dpf_numberOfGroups q =
      int (length [r. r \<leftarrow> sp_roles p, \<exists>accounts. sr_kind r = SRK_Group accounts])"
  using assms council_of_roles [of daoId "sp_roles p"]
  by (auto simp: castDaoPolicy_def res_bind_Inr_iff Let_def)

lemma castCreateDao_consistent:
  "castCreateDao jp s h i info das t = Inr d \<Longrightarrow> members_consistent d"
  by (auto simp: castCreateDao_def res_bind_Inr_iff members_consistent_def
      dest: castDaoPolicy_fields)

lemma castAddProposalDao_consistent:
  "members_consistent d \<Longrightarrow> members_consistent (castAddProposalDao d n h t)"
  by (auto simp: castAddProposalDao_def members_consistent_def split: option.splits)

lemma castActProposalDao_consistent:
  "members_consistent (apd_dao a) \<Longrightarrow> castActProposalDao jp a = Inr d \<Longrightarrow> members_consistent d"
  by (auto simp: castActProposalDao_def Let_def res_bind_Inr_iff members_consistent_def
      split: option.splits dest: castDaoPolicy_fields)

section \<open>Properties\<close>

text \<open>
  C6. \<open>castDaoPolicy\<close> returns exactly when the policy is a version 2 policy whose roles have
  a known kind and whose vote policies have a known weight kind. Then the DAO's council is the list
  of the accounts of the group roles called council (in any case), in the order of the roles; the
  account list is the set of the accounts of all its group roles and of the delegation accounts,
  without empty names and without repetition; the number of groups is the number of the group
  roles, and the other counters are the lengths of the lists they count.
\<close>

theorem castDaoPolicy_spec:
  "(case castDaoPolicy daoId pol das of
      Inl e \<Rightarrow> \<not> valid_policy pol
    | Inr q \<Rightarrow> valid_policy pol \<and>
        (case pol of PolicyV1 c \<Rightarrow> False | PolicyV2 p \<Rightarrow>
          set (dpf_accountIds q) =
            (policy_group_accounts p \<union> (case das of None \<Rightarrow> {} | Some xs \<Rightarrow> set xs)) - {[]}
          \<and> distinct (dpf_accountIds q)
          \<and> dpf_council q =
              [a. r \<leftarrow> sp_roles p, to_lower (sr_name r) = ''council'', a \<leftarrow> listed_accounts r]
          \<and> dpf_numberOfGroups q =
              int (length [r. r \<leftarrow> sp_roles p, \<exists>accounts. sr_kind r = SRK_Group accounts])
          \<and> dpf_numberOfMembers q = int (length (dpf_accountIds q))
          \<and> dpf_councilSeats q = int (length (dpf_council q))))"
proof (cases "castDaoPolicy daoId pol das")
  case (Inl e)
  then show ?thesis using castDaoPolicy_ok [of daoId pol das] by simp
next
  case (Inr q)
  then have "valid_policy pol" using castDaoPolicy_ok by blast
  then show ?thesis
    using Inr castDaoPolicy_fields [OF Inr] castDaoPolicy_accounts [of daoId _ das q]
      castDaoPolicy_council [of daoId _ das q]
    by (cases pol) (simp_all add: valid_policy_def)
qed

text \<open>
  C7. The DAO built from an approved policy change, from any other vote and from a new proposal
  stays consistent: the member and council counters equal the lengths of the stored lists, and the
  account list has no repeated and no empty name. A newly created DAO is consistent from the start.
\<close>

theorem dao_members_invariant:
  assumes "castCreateDao json_parse signerId txHash daoId daoInfo das ts = Inr d0"
    and "members_consistent d" and "apd_dao a = d"
  shows "members_consistent d0
    \<and> members_consistent (castAddProposalDao d lastProposalId txHash2 ts2)
    \<and> (case castActProposalDao json_parse a of Inr d' \<Rightarrow> members_consistent d' | Inl e \<Rightarrow> True)"
  using assms castCreateDao_consistent castAddProposalDao_consistent
    castActProposalDao_consistent [of a json_parse]
  by (auto split: sum.split)

definition sample_policy :: sputnik_dao_policy where
  "sample_policy = PolicyV2
     \<lparr> sp_roles =
         [\<lparr> sr_name = ''Council'', sr_kind = SRK_Group [''a.near'', ''b.near''],
            sr_permissions = [''*:*''], sr_vote_policy = [] \<rparr>,
          \<lparr> sr_name = ''team'', sr_kind = SRK_Group [''b.near'', ''c.near''],
            sr_permissions = [], sr_vote_policy = [] \<rparr>],
       sp_default_vote_policy = None, sp_proposal_bond = ''1'', sp_proposal_period = ''100'',
       sp_bounty_bond = ''1'', sp_bounty_forgiveness_period = ''100'' \<rparr>"

definition sample_info :: dao_info where
  "sample_info =
     \<lparr> di_config = \<lparr> cfg_name = ''d'', cfg_purpose = ''p'', cfg_metadata = [] \<rparr>,
       di_policy = sample_policy, di_totalSupply = ''0'', di_lastBountyId = 0,
       di_lastProposalId = 0, di_stakingContract = [], di_amount = ''10'' \<rparr>"

definition no_json :: "string \<Rightarrow> exn + jsval" where
  "no_json s = Inl (SyntaxError ''JSON'')"

lemma sample_create: "\<exists>d. castCreateDao no_json ''s'' ''h'' ''d.dao'' sample_info None ''1'' = Inr d"
proof -
  have "valid_policy (di_policy sample_info)"
    by (simp add: sample_info_def sample_policy_def valid_policy_def valid_role_def
        valid_vote_policy_def)
  then obtain p where "castDaoPolicy ''d.dao'' (di_policy sample_info) None = Inr p"
    using castDaoPolicy_ok by blast
  then show ?thesis by (simp add: castCreateDao_def)
qed

theorem dao_members_invariant_witness:
  "\<exists>d0. castCreateDao no_json ''s'' ''h'' ''d.dao'' sample_info None ''1'' = Inr d0
     \<and> members_consistent d0 \<and> members_consistent (castAddProposalDao d0 7 ''h2'' ''2'')"
proof -
  obtain d0 where d0: "castCreateDao no_json ''s'' ''h'' ''d.dao'' sample_info None ''1'' = Inr d0"
    using sample_create by blast
  then have "members_consistent d0" by (rule castCreateDao_consistent)
  let ?a = "\<lparr> apd_dao = d0, apd_transactionHash = ''h3'', apd_amount = None, apd_config = None,
     apd_policy = None, apd_lastBountyId = None, apd_stakingContract = None,
     apd_delegationAccounts = None, apd_timestamp = ''3'' \<rparr>"
  have "apd_dao ?a = d0" by simp
  from dao_members_invariant [OF d0 \<open>members_consistent d0\<close> this, of 7 "''h2''" "''2''"] d0
  show ?thesis by blast
qed

end
