(* ===== verification/Casts_Proposal.thy ===== *)
theory Casts_Proposal
  imports Utils
begin

text \<open>
  \<open>libs/proposal/src/dto/{proposal,proposal-action}.dto.ts\<close> and
  \<open>libs/transaction-handler/src/types/proposal.ts\<close>: how a proposal read from a DAO contract
  becomes the stored proposal, when it is added and when somebody acts on it, and how two proposal
  kinds are compared.
\<close>

section \<open>Proposal kinds\<close>

text \<open>
  The argument of \<open>castProposalKind\<close>: nothing, a stored kind (it has a \<open>type\<close> of its own)
  or the contract's kind. \<open>camelcaseKeys\<close> is third-party code; it renames the keys of the policy
  in a \<open>ChangePolicy\<close>, whose value is dynamic, and is a parameter here. For the other kinds the
  renamed keys are the fields of the constructors.
\<close>

datatype kind_input = KI_Null | KI_Kind proposal_kind | KI_Sputnik sputnik_proposal_kind

fun camelcase_kind :: "(jsval \<Rightarrow> jsval) \<Rightarrow> sputnik_proposal_kind \<Rightarrow> proposal_kind" where
  "camelcase_kind cc (SK_ChangeConfig config) = K_ChangeConfig config"
| "camelcase_kind cc (SK_ChangePolicy pol) = K_ChangePolicy (cc pol)"
| "camelcase_kind cc (SK_AddMemberToRole memberId rl) = K_AddMemberToRole memberId rl"
| "camelcase_kind cc (SK_RemoveMemberFromRole memberId rl) = K_RemoveMemberFromRole memberId rl"
| "camelcase_kind cc (SK_FunctionCall receiverId actions) = K_FunctionCall receiverId actions"
| "camelcase_kind cc (SK_UpgradeSelf hash) = K_UpgradeSelf hash"
| "camelcase_kind cc (SK_UpgradeRemote receiverId methodName hash) =
     K_UpgradeRemote receiverId methodName hash"
| "camelcase_kind cc (SK_Transfer tokenId receiverId amount msg) =
     K_Transfer tokenId receiverId amount msg"
| "camelcase_kind cc (SK_SetStakingContract stakingId) = K_SetStakingContract stakingId"
| "camelcase_kind cc (SK_AddBounty bnt) = K_AddBounty bnt"
| "camelcase_kind cc (SK_BountyDone bountyId receiverId) = K_BountyDone bountyId receiverId"
| "camelcase_kind cc SK_Vote = K_Vote"

definition new_ProposalKindDto :: "proposal_kind \<Rightarrow> proposal_kind_dto" where
  "new_ProposalKindDto kind = \<lparr> pk_kind = kind, pk_type = kind_type kind \<rparr>"

fun castProposalKind :: "(jsval \<Rightarrow> jsval) \<Rightarrow> kind_input \<Rightarrow> proposal_kind_dto option" where
  "castProposalKind cc KI_Null = None"
| "castProposalKind cc (KI_Kind kind) = Some (new_ProposalKindDto kind)"
| "castProposalKind cc (KI_Sputnik kind) =
     (if kind = SK_Vote then Some (new_ProposalKindDto K_Vote)
      else Some (new_ProposalKindDto (camelcase_kind cc kind)))"

section \<open>Comparing kinds\<close>

text \<open>
  \<open>===\<close> on dynamic values: two arrays or two objects are different references, and
  \<open>NaN\<close> equals nothing. A missing
  element or property is \<open>undefined\<close>.
\<close>

fun strict_eq :: "jsval \<Rightarrow> jsval \<Rightarrow> bool" where
  "strict_eq (JArr xs) _ = False"
| "strict_eq (JObj fs) _ = False"
| "strict_eq JNaN _ = False"
| "strict_eq v w = (v = w)"

definition action_matches :: "action_call \<Rightarrow> action_call option \<Rightarrow> bool" where
  "action_matches this other =
     (case other of
        None \<Rightarrow> False
      | Some o1 \<Rightarrow> ac_methodName this = ac_methodName o1 \<and> ac_args this = ac_args o1
          \<and> ac_deposit this = ac_deposit o1 \<and> ac_gas this = ac_gas o1)"

definition nth_opt :: "'a list \<Rightarrow> nat \<Rightarrow> 'a option" where
  "nth_opt xs i = (if i < length xs then Some (xs ! i) else None)"

definition policies_equal :: "jsval \<Rightarrow> jsval \<Rightarrow> exn + bool" where
  "policies_equal thisPolicy pol =
     (case pol of
        JArr ps \<Rightarrow>
          (case thisPolicy of
             JUndef \<Rightarrow> Inl (TypeError ''length'')
           | JNull \<Rightarrow> Inl (TypeError ''length'')
           | JArr ts \<Rightarrow> Inr (length ts = length ps \<and>
               list_all (\<lambda>(i, v). strict_eq v (case nth_opt ps i of None \<Rightarrow> JUndef | Some p \<Rightarrow> p))
                 (enumerate 0 ts))
           | _ \<Rightarrow> Inr False)
      | _ \<Rightarrow>
          let other = (if truthy pol then pol else JObj []) in
          res_bind (js_get thisPolicy ''bountyBond'') (\<lambda>thisBountyBond.
          res_bind (js_get thisPolicy ''bountyForgivenessPeriod'') (\<lambda>thisForgiveness.
          res_bind (js_get thisPolicy ''proposalBond'') (\<lambda>thisProposalBond.
          res_bind (js_get thisPolicy ''proposalPeriod'') (\<lambda>thisProposalPeriod.
          Inr (strict_eq thisBountyBond (js_get_opt other ''bountyBond'')
             \<and> strict_eq thisForgiveness (js_get_opt other ''bountyForgivenessPeriod'')
             \<and> strict_eq thisProposalBond (js_get_opt other ''proposalBond'')
             \<and> strict_eq thisProposalPeriod (js_get_opt other ''proposalPeriod'')))))))"

fun kinds_equal :: "proposal_kind \<Rightarrow> proposal_kind option \<Rightarrow> exn + bool" where
  "kinds_equal (K_ChangeConfig this) kind = (case kind of
     Some (K_ChangeConfig config) \<Rightarrow>
       Inr (cfg_metadata this = cfg_metadata config \<and> cfg_name this = cfg_name config
          \<and> cfg_purpose this = cfg_purpose config)
   | _ \<Rightarrow> Inr False)"
| "kinds_equal (K_FunctionCall thisReceiverId thisActions) kind = (case kind of
     Some (K_FunctionCall receiverId actions) \<Rightarrow>
       (let actionsEqLength = filter (\<lambda>(i, this). action_matches this (nth_opt actions i))
              (enumerate 0 thisActions)
        in Inr (thisReceiverId = receiverId \<and> length actions = length actionsEqLength))
   | _ \<Rightarrow> Inr False)"
| "kinds_equal (K_ChangePolicy thisPolicy) kind = (case kind of
     Some (K_ChangePolicy pol) \<Rightarrow> policies_equal thisPolicy pol
   | _ \<Rightarrow> Inr False)"
| "kinds_equal (K_AddMemberToRole thisMemberId thisRole) kind = (case kind of
     Some (K_AddMemberToRole memberId rl) \<Rightarrow> Inr (thisMemberId = memberId \<and> thisRole = rl)
   | _ \<Rightarrow> Inr False)"
| "kinds_equal (K_RemoveMemberFromRole thisMemberId thisRole) kind = (case kind of
     Some (K_RemoveMemberFromRole memberId rl) \<Rightarrow> Inr (thisMemberId = memberId \<and> thisRole = rl)
   | _ \<Rightarrow> Inr False)"
| "kinds_equal (K_UpgradeSelf thisHash) kind = (case kind of
     Some (K_UpgradeSelf hash) \<Rightarrow> Inr (thisHash = hash)
   | _ \<Rightarrow> Inr False)"
| "kinds_equal (K_UpgradeRemote thisReceiverId thisMethodName thisHash) kind = (case kind of
     Some (K_UpgradeRemote receiverId methodName hash) \<Rightarrow>
       Inr (thisHash = hash \<and> thisMethodName = methodName \<and> thisReceiverId = receiverId)
   | _ \<Rightarrow> Inr False)"
| "kinds_equal (K_Transfer thisTokenId thisReceiverId thisAmount thisMsg) kind = (case kind of
     Some (K_Transfer tokenId receiverId amount msg) \<Rightarrow>
       Inr (thisAmount = amount \<and> thisMsg = msg \<and> thisReceiverId = receiverId
          \<and> thisTokenId = tokenId)
   | _ \<Rightarrow> Inr False)"
| "kinds_equal (K_SetStakingContract thisStakingId) kind = (case kind of
     Some (K_SetStakingContract stakingId) \<Rightarrow> Inr (thisStakingId = stakingId)
   | _ \<Rightarrow> Inr False)"
| "kinds_equal (K_AddBounty this) kind = (case kind of
     Some (K_AddBounty bnt) \<Rightarrow>
       Inr (sb_amount this = sb_amount bnt \<and> sb_description this = sb_description bnt
          \<and> sb_max_deadline this = sb_max_deadline bnt \<and> sb_times this = sb_times bnt
          \<and> sb_token this = sb_token bnt)
   | _ \<Rightarrow> Inr False)"
| "kinds_equal (K_BountyDone thisBountyId thisReceiverId) kind = (case kind of
     Some (K_BountyDone bountyId receiverId) \<Rightarrow>
       Inr (thisBountyId = bountyId \<and> thisReceiverId = receiverId)
   | _ \<Rightarrow> Inr False)"
| "kinds_equal K_Vote kind = Inr True"

definition equals :: "proposal_kind_dto \<Rightarrow> proposal_kind_dto option \<Rightarrow> exn + bool" where
  "equals this kindWrapper = kinds_equal (pk_kind this) (map_option pk_kind kindWrapper)"

section \<open>Actions on proposals\<close>

text \<open>An action is the text the call's arguments name; the contract accepts those of \<open>action_str\<close>.\<close>

record transaction_context =
  tc_accountId :: string
  tc_transactionHash :: string
  tc_blockTimestamp :: string

definition buildProposalAction :: "string \<Rightarrow> transaction_context \<Rightarrow> string \<Rightarrow> proposal_action" where
  "buildProposalAction proposalId ctx act =
     \<lparr> pa_id = buildProposalActionId proposalId (tc_accountId ctx) act,
       pa_proposalId = proposalId,
       pa_accountId = tc_accountId ctx,
       pa_action = act,
       pa_transactionHash = tc_transactionHash ctx,
       pa_timestamp = tc_blockTimestamp ctx \<rparr>"

interpretation actions: unique_list pa_id "\<lambda>xs. arrayUniqueBy xs pa_id"
  by (rule unique_list_arrayUniqueBy)

section \<open>Proposals\<close>

definition policy_period :: "dao \<Rightarrow> exn + string" where
  "policy_period d =
     (case dao_policy d of
        None \<Rightarrow> Inl (TypeError ''proposalPeriod'')
      | Some p \<Rightarrow> (case pol_proposalPeriod p of
            None \<Rightarrow> Inl (TypeError ''BigInt'') | Some period \<Rightarrow> Inr period))"

definition castCreateProposal ::
    "(jsval \<Rightarrow> jsval) \<Rightarrow> string \<Rightarrow> string \<Rightarrow> sputnik_proposal_output \<Rightarrow> dao \<Rightarrow> string \<Rightarrow>
     exn + proposal_dto" where
  "castCreateProposal cc txHash signerId p d timestamp =
     (case castProposalKind cc (KI_Sputnik (spr_kind p)) of
        None \<Rightarrow> Inl (TypeError ''kind'')
      | Some kind \<Rightarrow>
          let id = buildProposalId (dao_id d) (JNum (spo_id p)) in
          res_bind (policy_period d) (\<lambda>period.
          res_bind (calcProposalVotePeriodEnd (spr_submission_time p) period) (\<lambda>votePeriodEnd.
          Inr \<lparr> isArchived = None, createdAt = None, updatedAt = None,
                transactionHash = Some txHash, updateTransactionHash = None,
                createTimestamp = Some timestamp, updateTimestamp = None,
                pd_id = id,
                pd_proposalId = spo_id p,
                pd_daoId = dao_id d,
                pd_bountyDoneId =
                  (case pk_kind kind of
                     K_BountyDone bountyId receiverId \<Rightarrow>
                       Some (buildBountyId (dao_id d) (JNum bountyId))
                   | _ \<Rightarrow> None),
                pd_bountyClaimId = None,
                pd_proposer = signerId,
                pd_description = spr_description p,
                pd_status = InProgress,
                pd_submissionTime = spr_submission_time p,
                pd_kind = kind,
                pd_type = kind_type (pk_kind kind),
                pd_policyLabel = Some (ProposalTypeToPolicyLabel (kind_type (pk_kind kind))),
                pd_voteStatus = Some VS_Active,
                pd_voteCounts = [],
                pd_votes = [],
                pd_actions =
                  [buildProposalAction id
                     \<lparr> tc_accountId = signerId, tc_transactionHash = txHash,
                       tc_blockTimestamp = timestamp \<rparr> (action_str AddProposal)],
                pd_votePeriodEnd = Some votePeriodEnd,
                pd_failure = JUndef \<rparr>)))"

definition castActProposal ::
    "(jsval \<Rightarrow> jsval) \<Rightarrow> string \<Rightarrow> string \<Rightarrow> string \<Rightarrow> proposal \<Rightarrow> sputnik_proposal_output \<Rightarrow>
     string \<Rightarrow> string \<Rightarrow> exn + proposal_dto" where
  "castActProposal cc txHash daoId signerId p proposalData timestamp act =
     (case castProposalKind cc (KI_Sputnik (spr_kind proposalData)) of
        None \<Rightarrow> Inl (TypeError ''type'')
      | Some kind \<Rightarrow>
          Inr \<lparr> isArchived = None, createdAt = None, updatedAt = None,
                transactionHash = transactionHash p, updateTransactionHash = Some txHash,
                createTimestamp = createTimestamp p, updateTimestamp = Some timestamp,
                pd_id = prp_id p,
                pd_proposalId = spo_id proposalData,
                pd_daoId = daoId,
                pd_bountyDoneId = None,
                pd_bountyClaimId = None,
                pd_proposer = spr_proposer proposalData,
                pd_description = spr_description proposalData,
                pd_status = spr_status proposalData,
                pd_submissionTime = spr_submission_time proposalData,
                pd_kind = kind,
                pd_type = pk_type kind,
                pd_policyLabel = Some (ProposalTypeToPolicyLabel (kind_type (pk_kind kind))),
                pd_voteStatus = prp_voteStatus p,
                pd_voteCounts = spr_vote_counts proposalData,
                pd_votes = spr_votes proposalData,
                pd_actions = arrayUniqueBy
                  (prp_actions p @
                   [buildProposalAction (prp_id p)
                      \<lparr> tc_accountId = signerId, tc_transactionHash = txHash,
                        tc_blockTimestamp = timestamp \<rparr> act]) pa_id,
                pd_votePeriodEnd = prp_votePeriodEnd p,
                pd_failure = JUndef \<rparr>)"

section \<open>What comparing decides\<close>

lemma enumerate_matches_le:
  "length (filter (\<lambda>(i, this). action_matches this (nth_opt ys i)) (enumerate n xs))
     \<le> length (drop n ys)"
proof (induction xs arbitrary: n)
  case Nil
  then show ?case by simp
next
  case (Cons x xs)
  show ?case
    using Cons [of "Suc n"] by (cases "n < length ys") (auto simp: action_matches_def nth_opt_def)
qed

lemma action_matches_Some [simp]: "action_matches x (Some y) \<longleftrightarrow> x = y"
  by (auto simp: action_matches_def)

lemma enumerate_matches_prefix:
  "length (filter (\<lambda>(i, this). action_matches this (nth_opt ys i)) (enumerate n xs))
     = length (drop n ys) \<longleftrightarrow> prefix (drop n ys) xs"
proof (induction xs arbitrary: n)
  case Nil
  then show ?case by auto
next
  case (Cons x xs)
  show ?case
  proof (cases "n < length ys")
    case False
    then show ?thesis
      using enumerate_matches_le [of ys "Suc n" xs]
      by (simp add: nth_opt_def action_matches_def)
  next
    case True
    then have d: "drop n ys = ys ! n # drop (Suc n) ys" by (simp add: Cons_nth_drop_Suc)
    show ?thesis
      using Cons [of "Suc n"] enumerate_matches_le [of ys "Suc n" xs] True
      by (auto simp: d nth_opt_def)
  qed
qed

text \<open>
  What \<open>equals\<close> decides outside \<open>ChangePolicy\<close>: a vote equals everything, a function call equals
  one of the same receiver whose actions are a prefix of its own, and other kinds are equal when
  they are the same.
\<close>

definition kind_matches :: "proposal_kind \<Rightarrow> proposal_kind option \<Rightarrow> bool" where
  "kind_matches this other \<longleftrightarrow>
     (case this of
        K_Vote \<Rightarrow> True
      | K_FunctionCall r acs \<Rightarrow> (\<exists>bcs. other = Some (K_FunctionCall r bcs) \<and> prefix bcs acs)
      | _ \<Rightarrow> other = Some this)"

lemma kinds_equal_function_call:
  "kinds_equal (K_FunctionCall r acs) (Some (K_FunctionCall s bcs)) =
     Inr (r = s \<and> prefix bcs acs)"
  using enumerate_matches_prefix [of bcs 0 acs] by (auto simp: Let_def)

lemma kinds_equal_matches:
  assumes "kind_type this \<noteq> ChangePolicy"
  shows "kinds_equal this other = Inr (kind_matches this other)"
proof (cases this)
  case (K_FunctionCall r acs)
  then show ?thesis
    using kinds_equal_function_call
    by (cases other) (auto simp: kind_matches_def split: proposal_kind.splits)
qed (use assms in \<open>auto simp: kind_matches_def split: option.splits proposal_kind.splits\<close>)

section \<open>Properties\<close>

text \<open>
  C25. \<open>ProposalKindDto.equals\<close>. A vote is equal to every kind (and to none at all); a function
  call is equal to a call of the same receiver whose actions are a prefix of its own, so extra
  actions on the left go unnoticed; a policy change is compared by \<open>policies_equal\<close>; every other
  kind is equal exactly to itself.
\<close>

theorem equals_spec:
  "equals this other =
     (case (pk_kind this, map_option pk_kind other) of
        (K_ChangePolicy p, Some (K_ChangePolicy q)) \<Rightarrow> policies_equal p q
      | (K_ChangePolicy p, _) \<Rightarrow> Inr False
      | (k, k') \<Rightarrow> Inr (kind_matches k k'))"
proof (cases "kind_type (pk_kind this) = ChangePolicy")
  case True
  then obtain p where p: "pk_kind this = K_ChangePolicy p" by (cases "pk_kind this") simp_all
  show ?thesis
  proof (cases "map_option pk_kind other")
    case None
    then show ?thesis by (simp add: equals_def p)
  next
    case (Some k)
    then show ?thesis by (cases k) (simp_all add: equals_def p)
  qed
next
  case False
  then show ?thesis
    by (cases "pk_kind this") (simp_all add: equals_def kinds_equal_matches del: kinds_equal.simps)
qed

text \<open>The comparison is not symmetric: a call with one more action is not noticed on the left.\<close>

lemma equals_not_symmetric:
  defines "c \<equiv> \<lparr> ac_methodName = ''f'', ac_args = [], ac_deposit = ''0'', ac_gas = 1 \<rparr>"
  defines "long \<equiv> new_ProposalKindDto (K_FunctionCall ''r'' [c, c])"
    and "short \<equiv> new_ProposalKindDto (K_FunctionCall ''r'' [c])"
  shows "equals long (Some short) = Inr True" and "equals short (Some long) = Inr False"
  by (simp_all add: equals_def long_def short_def new_ProposalKindDto_def
      kinds_equal_function_call del: kinds_equal.simps)

text \<open>
  The fields of a stored proposal that depend on each other: the type and the policy label come
  from the kind, no two actions have the same id and each action's id is built from the proposal,
  the account and the action.
\<close>

definition proposal_dto_consistent :: "proposal_dto \<Rightarrow> bool" where
  "proposal_dto_consistent q \<longleftrightarrow>
     pd_type q = kind_type (pk_kind (pd_kind q)) \<and> pk_type (pd_kind q) = pd_type q
     \<and> pd_policyLabel q = Some (ProposalTypeToPolicyLabel (pd_type q))
     \<and> distinct (map pa_id (pd_actions q))
     \<and> list_all (\<lambda>a. pa_id a = buildProposalActionId (pd_id q) (pa_accountId a) (pa_action a))
         (pd_actions q)"

lemma castProposalKind_sputnik:
  "castProposalKind cc (KI_Sputnik k) = Some (new_ProposalKindDto (camelcase_kind cc k))"
  by simp

text \<open>
  \<open>castCreateProposal\<close> succeeds exactly when the DAO's proposal period and the submission time
  are readable numbers; the new proposal is then consistent, in progress, without votes, ends one
  proposal period after its submission, refers to a bounty exactly when its kind is a finished
  bounty, and has the proposer's \<open>AddProposal\<close> as its only action.
\<close>

theorem castCreateProposal_spec:
  "(case castCreateProposal cc txHash signerId p d timestamp of
      Inl e \<Rightarrow> (case (policy_period d, parse_bigint (spr_submission_time p)) of
          (Inr period, Inr start) \<Rightarrow> \<exists>e. parse_bigint period = Inl e | _ \<Rightarrow> True)
    | Inr q \<Rightarrow> proposal_dto_consistent q \<and> pd_status q = InProgress \<and> pd_votes q = []
        \<and> pd_id q = buildProposalId (dao_id d) (JNum (spo_id p))
        \<and> (\<exists>start period. parse_bigint (spr_submission_time p) = Inr start
             \<and> res_bind (policy_period d) parse_bigint = Inr period
             \<and> pd_votePeriodEnd q = Some (int_str (start + period)))
        \<and> pd_bountyDoneId q = (case spr_kind p of
             SK_BountyDone b r \<Rightarrow> Some (buildBountyId (dao_id d) (JNum b)) | _ \<Rightarrow> None)
        \<and> map pa_id (pd_actions q) =
             [buildProposalActionId (pd_id q) signerId ''AddProposal''])"
proof -
  have bnt: "(case camelcase_kind cc k of
        K_BountyDone bountyId receiverId \<Rightarrow> Some (buildBountyId i (JNum bountyId)) | _ \<Rightarrow> None) =
      (case k of SK_BountyDone b r \<Rightarrow> Some (buildBountyId i (JNum b)) | _ \<Rightarrow> None)" for k i
    by (cases k) simp_all
  show ?thesis
  proof (cases "policy_period d")
    case (Inl e)
    then show ?thesis
      by (simp add: castCreateProposal_def castProposalKind_sputnik Let_def
          del: castProposalKind.simps)
  next
    case (Inr period)
    then show ?thesis
      by (cases "parse_bigint (spr_submission_time p)"; cases "parse_bigint period")
        (simp_all add: castCreateProposal_def castProposalKind_sputnik Let_def
          calcProposalVotePeriodEnd_def proposal_dto_consistent_def new_ProposalKindDto_def
          buildProposalAction_def bnt del: castProposalKind.simps)
  qed
qed

text \<open>
  C24. \<open>castActProposal\<close> records an action once: it never fails, the ids of the actions are distinct
  and are the old ones with the new one added, the actions stored before stay in front, and acting
  again in the same way, whatever the later transaction, leaves the actions as they are.
\<close>

theorem castActProposal_actions:
  "\<exists>q. castActProposal cc txHash daoId signerId p proposalData timestamp act = Inr q
     \<and> distinct (map pa_id (pd_actions q))
     \<and> pa_id ` set (pd_actions q) =
         insert (buildProposalActionId (prp_id p) signerId act)
           (pa_id ` set (prp_actions p))
     \<and> prefix (arrayUniqueBy (prp_actions p) pa_id) (pd_actions q)
     \<and> (\<exists>q'. castActProposal cc txHash' daoId signerId (p\<lparr>prp_actions := pd_actions q\<rparr>)
               proposalData' timestamp' act = Inr q' \<and> pd_actions q' = pd_actions q)"
proof -
  let ?a = "\<lambda>h t. buildProposalAction (prp_id p)
      \<lparr> tc_accountId = signerId, tc_transactionHash = h, tc_blockTimestamp = t \<rparr> act"
  let ?q = "arrayUniqueBy (prp_actions p @ [?a txHash timestamp]) pa_id"
  have "?a txHash timestamp \<in> set (prp_actions p @ [?a txHash timestamp])" by simp
  then have "pa_id (?a txHash timestamp) \<in> pa_id ` set ?q"
    using actions.uniq_keys by blast
  then have "pa_id (?a txHash' timestamp') \<in> pa_id ` set ?q"
    by (simp add: buildProposalAction_def)
  then have "arrayUniqueBy (?q @ [?a txHash' timestamp']) pa_id = ?q"
    by (simp only: arrayUniqueBy_snoc [of ?q] actions.uniq_idem if_True append_Nil2)
  moreover have "pa_id ` set ?q = insert (pa_id (?a txHash timestamp)) (pa_id ` set (prp_actions p))"
    using actions.uniq_keys [of "prp_actions p @ [?a txHash timestamp]"] by simp
  moreover have "prefix (arrayUniqueBy (prp_actions p) pa_id) ?q"
    by (simp add: arrayUniqueBy_snoc)
  ultimately show ?thesis
    using actions.uniq_distinct
    by (simp add: castActProposal_def castProposalKind_sputnik buildProposalAction_def
        del: castProposalKind.simps)
qed

end
