(* ===== verification/Sputnik_Service.thy ===== *)
theory Sputnik_Service
  imports World Casts_Dao Casts_Proposal
begin

text \<open>
  \<open>libs/sputnikdao/src/sputnik.service.ts\<close> and the account state of
  \<open>libs/near-api/src/near-api.service.ts\<close>: what the gateway reads from a DAO contract.
\<close>

section \<open>Reading a DAO\<close>

definition getAccountState :: "string \<Rightarrow> string service" where
  "getAccountState accountId = call (Rpc (R_accountState accountId)) w_str"

definition getAccountAmount :: "string \<Rightarrow> string service" where
  "getAccountAmount accountId = getAccountState accountId"

definition getDaoInfo :: "string \<Rightarrow> string option \<Rightarrow> dao_info service" where
  "getDaoInfo daoId blockId =
     bnd (call (Rpc (R_getConfig daoId blockId)) w_config) (\<lambda>config.
     bnd (call (Rpc (R_getPolicy daoId blockId)) w_policy) (\<lambda>pol.
     bnd (call (Rpc (R_getStakingContract daoId blockId)) w_str) (\<lambda>stakingContract.
     bnd (call (Rpc (R_delegationTotalSupply daoId blockId)) w_str) (\<lambda>totalSupply.
     bnd (call (Rpc (R_getLastProposalId daoId blockId)) w_num) (\<lambda>lastProposalId.
     bnd (call (Rpc (R_getLastBountyId daoId blockId)) w_num) (\<lambda>lastBountyId.
     bnd (getAccountAmount daoId) (\<lambda>amount.
     ret \<lparr> di_config = config, di_policy = pol, di_totalSupply = totalSupply,
           di_lastBountyId = lastBountyId, di_lastProposalId = lastProposalId,
           di_stakingContract = stakingContract, di_amount = amount \<rparr>)))))))"

definition PROPOSAL_REQUEST_CHUNK_SIZE :: int where
  "PROPOSAL_REQUEST_CHUNK_SIZE = 50"

definition BOUNTY_REQUEST_CHUNK_SIZE :: int where
  "BOUNTY_REQUEST_CHUNK_SIZE = 50"

definition chunk_count :: "int \<Rightarrow> int \<Rightarrow> int" where
  "chunk_count lastId chunkSize = (lastId - lastId mod chunkSize) div chunkSize + 1"

definition getProposalsByDaoId ::
    "string \<Rightarrow> int \<Rightarrow> string option \<Rightarrow> sputnik_proposal_output list service" where
  "getProposalsByDaoId daoId lastProposalId blockId =
     (let chunkSize = PROPOSAL_REQUEST_CHUNK_SIZE in
      fold_act (\<lambda>proposals i.
          bnd (call (Rpc (R_getProposals daoId (chunkSize * int i) chunkSize blockId)) w_proposals)
            (\<lambda>proposalsChunk. ret (proposals @ proposalsChunk)))
        [] [0..<nat (chunk_count lastProposalId chunkSize)])"

definition getProposal ::
    "string \<Rightarrow> jsval \<Rightarrow> string option \<Rightarrow> sputnik_proposal_output option service" where
  "getProposal daoId proposalId blockId =
     attempt (call (Rpc (R_getProposal daoId proposalId blockId)) w_rpcProposal)
       (\<lambda>err. if str_includes (exn_message err) ''ERR_NO_PROPOSAL'' then ret None else throw err)"

section \<open>Bounties\<close>

definition getBountyNumberOfClaims :: "string \<Rightarrow> int \<Rightarrow> string option \<Rightarrow> int service" where
  "getBountyNumberOfClaims daoId bountyId blockId =
     call (Rpc (R_numberOfClaims daoId bountyId blockId)) w_num"

definition getBountiesByDaoId ::
    "env \<Rightarrow> string \<Rightarrow> int \<Rightarrow> string option \<Rightarrow>
     (sputnik_bounty_output \<times> int) list service" where
  "getBountiesByDaoId E daoId lastBountyId blockId =
     (let chunkSize = BOUNTY_REQUEST_CHUNK_SIZE in
      bnd (fold_act (\<lambda>bounties i.
             bnd (call (Rpc (R_getBounties daoId (chunkSize * int i) chunkSize blockId)) w_bounties)
               (\<lambda>bountiesChunk. ret (bounties @ bountiesChunk)))
           [] [0..<nat (chunk_count lastBountyId chunkSize)]) (\<lambda>bounties.
      e_poolBounties E (map (\<lambda>b.
          bnd (getBountyNumberOfClaims daoId (sbo_id b) blockId) (\<lambda>numberOfClaims.
          ret (b, numberOfClaims))) bounties)))"

definition getAccountBountyClaims ::
    "string \<Rightarrow> string \<Rightarrow> string option \<Rightarrow> account_claim list service" where
  "getAccountBountyClaims daoId accountId blockId =
     bnd (call (Rpc (R_getBountyClaims daoId accountId blockId)) w_claims) (\<lambda>bountyClaims.
     ret (map (\<lambda>claim. (claim, accountId)) bountyClaims))"

definition getBountyClaims ::
    "env \<Rightarrow> string \<Rightarrow> string list \<Rightarrow> string option \<Rightarrow> account_claim list service" where
  "getBountyClaims E daoId accountIds blockId =
     bnd (e_poolClaims E (map (\<lambda>accountId. getAccountBountyClaims daoId accountId blockId) accountIds))
       (\<lambda>claims. ret (concat claims))"

definition compareBounties :: "sputnik_bounty_output \<Rightarrow> sputnik_bounty \<Rightarrow> bool" where
  "compareBounties bounty1 bounty2 \<longleftrightarrow>
     sb_description bounty1 = sb_description bounty2 \<and> sb_token bounty1 = sb_token bounty2
     \<and> sb_amount bounty1 = sb_amount bounty2 \<and> sb_times bounty1 = sb_times bounty2
     \<and> sb_max_deadline bounty1 = sb_max_deadline bounty2"

definition findLastBounty ::
    "env \<Rightarrow> string \<Rightarrow> int \<Rightarrow> sputnik_bounty \<Rightarrow> string option \<Rightarrow>
     (sputnik_bounty_output \<times> int) option service" where
  "findLastBounty E daoId lastBountyId bountyData blockId =
     bnd (getBountiesByDaoId E daoId lastBountyId blockId) (\<lambda>bounties.
     ret (find (\<lambda>b. compareBounties (fst b) bountyData) (rev bounties)))"

section \<open>Comparing proposals\<close>

definition compareProposalKinds ::
    "(jsval \<Rightarrow> jsval) \<Rightarrow> kind_input \<Rightarrow> kind_input \<Rightarrow> exn + bool" where
  "compareProposalKinds cc kind1 kind2 =
     (case castProposalKind cc kind1 of
        None \<Rightarrow> Inl (TypeError ''equals'')
      | Some kindDto1 \<Rightarrow> equals kindDto1 (castProposalKind cc kind2))"

definition compareProposals ::
    "(jsval \<Rightarrow> jsval) \<Rightarrow> sputnik_proposal \<Rightarrow> string \<Rightarrow> string \<Rightarrow> kind_input \<Rightarrow> exn + bool" where
  "compareProposals cc proposal1 description2 proposer2 kind2 =
     res_bind (compareProposalKinds cc (KI_Sputnik (spr_kind proposal1)) kind2) (\<lambda>hasSameKind.
     Inr (spr_description proposal1 = description2 \<and> spr_proposer proposal1 = proposer2
        \<and> hasSameKind))"

section \<open>Chunks\<close>

lemma quotient_bounds:
  assumes "0 < (n :: int)"
  shows "n * (x div n) \<le> x" and "x < n * (x div n) + n"
proof -
  have "m * q \<le> y \<and> y < m * q + m" if "m * q + r = y" "0 \<le> r" "r < m" for m q r y :: int
    using that by linarith
  from this [OF mult_div_mod_eq [of n x]] assms
  show "n * (x div n) \<le> x" and "x < n * (x div n) + n" by simp_all
qed

lemma chunk_count_eq: "0 < n \<Longrightarrow> chunk_count lastId n = lastId div n + 1"
  by (simp add: chunk_count_def minus_mod_eq_mult_div)

lemma chunk_start:
  assumes "0 < n" and "int i < chunk_count lastId n"
  shows "n * int i \<le> lastId"
proof -
  have "n * int i \<le> n * (lastId div n)"
    using assms by (intro mult_left_mono) (simp_all add: chunk_count_eq)
  also have "\<dots> \<le> lastId" using quotient_bounds(1) assms(1) .
  finally show ?thesis .
qed

lemma chunk_of_id:
  assumes "0 \<le> lastId" and "0 < n" and "0 \<le> k" and "k \<le> lastId"
  shows "\<exists>i < nat (chunk_count lastId n). n * int i \<le> k \<and> k < n * int i + n"
proof (intro exI conjI)
  have nonneg: "0 \<le> k div n" using assms by (simp add: pos_imp_zdiv_nonneg_iff)
  have "k div n \<le> lastId div n" using assms by (simp add: zdiv_mono1)
  then show "nat (k div n) < nat (chunk_count lastId n)"
    using nonneg assms(2) by (simp add: chunk_count_eq)
  show "n * int (nat (k div n)) \<le> k" "k < n * int (nat (k div n)) + n"
    using quotient_bounds [OF assms(2), of k] nonneg by simp_all
qed

section \<open>Properties\<close>

text \<open>
  Reading all proposals of a DAO. When \<open>getProposalsByDaoId\<close> returns, it has asked for
  consecutive chunks of 50 from index 0 on and nothing else, no chunk starts after the last
  proposal, every index up to the last proposal lies in one of them, and the result is the chunks'
  answers one after the other.
\<close>

theorem getProposalsByDaoId_covers:
  assumes "0 \<le> lastProposalId"
    and "getProposalsByDaoId daoId lastProposalId blockId W tr = (Inr proposals, t)"
  shows "\<exists>n chunks.
      t = tr @ map (\<lambda>i. Rpc (R_getProposals daoId (50 * int i) 50 blockId)) [0..<n]
    \<and> proposals = concat chunks \<and> length chunks = n
    \<and> (\<forall>k < n. w_proposals W (take (length tr + Suc k) t) = Inr (chunks ! k))
    \<and> (\<forall>i < n. 50 * int i \<le> lastProposalId)
    \<and> (\<forall>k \<in> {0..lastProposalId}. \<exists>i < n. 50 * int i \<le> k \<and> k < 50 * int i + 50)"
proof -
  define n where "n = nat (chunk_count lastProposalId 50)"
  let ?C = "\<lambda>i. Rpc (R_getProposals daoId (50 * int i) 50 blockId)"
  obtain chunks where chunks: "length chunks = n"
      "\<forall>k < n. w_proposals W (tr @ map ?C (take (Suc k) [0..<n])) = Inr (chunks ! k)"
      "proposals = concat chunks" and t: "t = tr @ map ?C [0..<n]"
    using assms(2)
    by (auto simp: getProposalsByDaoId_def PROPOSAL_REQUEST_CHUNK_SIZE_def chunk_loop_iff n_def)
  have "take (length tr + Suc k) t = tr @ map ?C (take (Suc k) [0..<n])" if "k < n" for k
    by (simp add: t take_map)
  moreover have "50 * int i \<le> lastProposalId" if "i < n" for i
    using chunk_start [of 50 i lastProposalId] that by (simp add: n_def)
  ultimately show ?thesis
    using chunks t chunk_of_id [OF assms(1), of 50] unfolding n_def by (intro exI [of _ n] exI [of _ chunks])
      (auto simp: n_def)
qed

theorem getProposalsByDaoId_covers_witness:
  "\<exists>n. 50 * int n \<le> 120 + 50
     \<and> snd (getProposalsByDaoId ''d'' 120 (Some ''b'') quiet_world []) =
         map (\<lambda>i. Rpc (R_getProposals ''d'' (50 * int i) 50 (Some ''b''))) [0..<n]"
proof -
  have run: "getProposalsByDaoId ''d'' 120 (Some ''b'') quiet_world [] =
      (Inr [], map (\<lambda>i. Rpc (R_getProposals ''d'' (50 * int i) 50 (Some ''b''))) [0..<3])"
    by (simp add: getProposalsByDaoId_def PROPOSAL_REQUEST_CHUNK_SIZE_def chunk_count_def
        run_simps quiet_world_def upt_rec)
  from getProposalsByDaoId_covers [OF _ this] show ?thesis
    unfolding run by (intro exI [of _ 3]) simp
qed

lemma seq_pool_claims:
  "map_act (\<lambda>m. m) (map (\<lambda>b. bnd (getBountyNumberOfClaims daoId (sbo_id b) blockId) (\<lambda>n. ret (b, n)))
      bs) W tr = (Inr rs, t) \<Longrightarrow>
     map fst rs = bs \<and> (\<exists>cs. t = tr @ cs)"
proof (induction bs arbitrary: rs tr)
  case Nil
  then show ?case by (auto simp: ok_iffs)
next
  case (Cons b bs)
  then obtain n rs' t' where "rs = (b, n) # rs'" and "t' = tr @ [Rpc (R_numberOfClaims daoId (sbo_id b) blockId)]"
    and rest: "map_act (\<lambda>m. m) (map (\<lambda>b. bnd (getBountyNumberOfClaims daoId (sbo_id b) blockId)
        (\<lambda>n. ret (b, n))) bs) W t' = (Inr rs', t)"
    by (auto simp: ok_iffs getBountyNumberOfClaims_def)
  with Cons.IH [OF rest] show ?case by auto
qed

text \<open>
  Finding the bounty an approved proposal created. With a pool that keeps the order,
  \<open>findLastBounty\<close> reads all chunks of the DAO's bounties and returns the last of them, in the
  order of the contract, whose description, token, amount, times and deadline are those of the
  proposal, and nothing only if there is none.
\<close>

theorem findLastBounty_last:
  assumes "e_poolBounties E = seq_pool"
    and "findLastBounty E daoId lastBountyId bountyData blockId W tr = (Inr found, t)"
  shows "\<exists>chunks. length chunks = nat (chunk_count lastBountyId 50)
    \<and> (\<forall>k < length chunks. w_bounties W (take (length tr + Suc k) t) = Inr (chunks ! k))
    \<and> (case found of
         None \<Rightarrow> \<forall>b \<in> set (concat chunks). \<not> compareBounties b bountyData
       | Some (b, n) \<Rightarrow> \<exists>before after. concat chunks = before @ b # after
           \<and> compareBounties b bountyData \<and> (\<forall>b' \<in> set after. \<not> compareBounties b' bountyData))"
proof -
  define n where "n = nat (chunk_count lastBountyId 50)"
  let ?C = "\<lambda>i. Rpc (R_getBounties daoId (50 * int i) 50 blockId)"
  obtain rs chunks where chunks: "length chunks = n"
      "\<forall>k < n. w_bounties W (tr @ map ?C (take (Suc k) [0..<n])) = Inr (chunks ! k)"
    and pool: "map_act (\<lambda>m. m) (map (\<lambda>b. bnd (getBountyNumberOfClaims daoId (sbo_id b) blockId)
        (\<lambda>n. ret (b, n))) (concat chunks)) W (tr @ map ?C [0..<n]) = (Inr rs, t)"
    and found: "found = find (\<lambda>b. compareBounties (fst b) bountyData) (rev rs)"
    using assms
    by (auto simp: findLastBounty_def getBountiesByDaoId_def BOUNTY_REQUEST_CHUNK_SIZE_def
        seq_pool_def bnd_Inr_iff chunk_loop_iff ret_iff n_def)
  obtain cs where rs: "map fst rs = concat chunks" and t: "t = (tr @ map ?C [0..<n]) @ cs"
    using seq_pool_claims [OF pool] by auto
  have answers: "take (length tr + Suc k) t = tr @ map ?C (take (Suc k) [0..<n])" if "k < n" for k
    using that by (simp add: t take_map)
  have "case found of
         None \<Rightarrow> \<forall>b \<in> set (concat chunks). \<not> compareBounties b bountyData
       | Some (b, n) \<Rightarrow> \<exists>before after. concat chunks = before @ b # after
           \<and> compareBounties b bountyData \<and> (\<forall>b' \<in> set after. \<not> compareBounties b' bountyData)"
  proof (cases found)
    case None
    then have "\<forall>b \<in> set (map fst rs). \<not> compareBounties b bountyData"
      by (auto simp: found find_None_iff)
    then show ?thesis unfolding rs using None by simp
  next
    case (Some bn)
    obtain b n where bn: "bn = (b, n)" by (cases bn)
    obtain xs ys where "rs = xs @ (b, n) # ys" "compareBounties b bountyData"
        "\<forall>y \<in> set ys. \<not> compareBounties (fst y) bountyData"
      using find_rev_last [of "\<lambda>b. compareBounties (fst b) bountyData" rs bn] Some found bn by auto
    then have "concat chunks = map fst xs @ b # map fst ys
        \<and> (\<forall>b' \<in> set (map fst ys). \<not> compareBounties b' bountyData)"
      unfolding rs [symmetric] by auto
    then have "\<exists>before after. concat chunks = before @ b # after
        \<and> compareBounties b bountyData \<and> (\<forall>b' \<in> set after. \<not> compareBounties b' bountyData)"
      using \<open>compareBounties b bountyData\<close> by blast
    then show ?thesis using Some bn by simp
  qed
  then show ?thesis using chunks answers by (auto simp: n_def)
qed

theorem findLastBounty_last_witness:
  "\<exists>chunks before after. length chunks = 1 \<and> concat chunks = before @ sample_bounty\<lparr>sbo_id := 1\<rparr> # after
     \<and> (\<forall>b \<in> set after. \<not> compareBounties b (sputnik_bounty.truncate sample_bounty))"
proof -
  let ?W = "quiet_world\<lparr>w_bounties := \<lambda>tr. Inr
      [sample_bounty, sample_bounty\<lparr>sbo_id := 1\<rparr>, sample_bounty\<lparr>sb_times := 2\<rparr>]\<rparr>"
  have "findLastBounty sample_env ''d'' 2 (sputnik_bounty.truncate sample_bounty) (Some ''b'') ?W [] =
      (Inr (Some (sample_bounty\<lparr>sbo_id := 1\<rparr>, 0)),
       [Rpc (R_getBounties ''d'' 0 50 (Some ''b'')), Rpc (R_numberOfClaims ''d'' 0 (Some ''b'')),
        Rpc (R_numberOfClaims ''d'' 1 (Some ''b'')), Rpc (R_numberOfClaims ''d'' 0 (Some ''b''))])"
    by (simp add: findLastBounty_def getBountiesByDaoId_def BOUNTY_REQUEST_CHUNK_SIZE_def
        chunk_count_def getBountyNumberOfClaims_def run_simps sample_simps sample_bounty_def
        compareBounties_def sputnik_bounty.defs)
  from findLastBounty_last [OF _ this] show ?thesis
    by (auto simp: sample_env_def chunk_count_def)
qed

end
