(* ===== verification/Casts_Bounty.thy ===== *)
theory Casts_Bounty
  imports Utils
begin

text \<open>
  \<open>libs/transaction-handler/src/types/bounty.ts\<close>: the stored bounty and its claims as a proposal
  is approved, a bounty is claimed, given up or done. A bounty or a claim of the relational store
  and one of the DynamoDB table are the same record, with the fields of the other side absent.
\<close>

section \<open>Claims\<close>

definition cast_claim :: "string \<Rightarrow> string \<Rightarrow> sputnik_bounty_claim \<Rightarrow> exn + bounty_claim" where
  "cast_claim daoId accountId claim =
     res_bind (calculateClaimEndTime (Some (sbc_start_time claim)) (Some (sbc_deadline claim)))
       (\<lambda>endTime.
     Inr \<lparr> isArchived = None, createdAt = None, updatedAt = None,
           transactionHash = None, updateTransactionHash = None,
           createTimestamp = None, updateTimestamp = None,
           bc_id = buildBountyClaimId daoId (sbc_bounty_id claim) (sbc_start_time claim),
           bc_bountyId = Some (buildBountyId daoId (JNum (sbc_bounty_id claim))),
           bc_accountId = accountId,
           bc_startTime = sbc_start_time claim,
           bc_deadline = sbc_deadline claim,
           bc_endTime = Some endTime,
           bc_completed = sbc_completed claim \<rparr>)"

definition castBountyClaims ::
    "string \<Rightarrow> string \<Rightarrow> int \<Rightarrow> sputnik_bounty_claim list \<Rightarrow> exn + bounty_claim list" where
  "castBountyClaims daoId accountId bountyId bountyClaims =
     map_res (cast_claim daoId accountId)
       (filter (\<lambda>claim. bountyId = sbc_bounty_id claim) bountyClaims)"

definition castBountyClaim :: "string \<Rightarrow> bounty_claim \<Rightarrow> bounty_claim" where
  "castBountyClaim bountyId bountyClaim = bountyClaim\<lparr>bc_bountyId := Some bountyId\<rparr>"

definition parseProposalIndex :: "string \<Rightarrow> exn + int" where
  "parseProposalIndex proposalId =
     (case parse_int (last (split_on CHR ''-'' proposalId)) of
        None \<Rightarrow> Inl (ThrownError (''Invalid proposal ID format: '' @ proposalId))
      | Some proposalIndex \<Rightarrow> Inr proposalIndex)"

interpretation claims: unique_list bc_id "\<lambda>xs. arrayUniqueBy xs bc_id"
  by (rule unique_list_arrayUniqueBy)

section \<open>Bounties\<close>

definition or_daoId :: "string option \<Rightarrow> string \<Rightarrow> string" where
  "or_daoId own daoId = (case own of None \<Rightarrow> daoId | Some i \<Rightarrow> if i = [] then daoId else i)"

definition castAddBounty ::
    "dao \<Rightarrow> proposal_dto \<Rightarrow> sputnik_bounty \<Rightarrow> int \<Rightarrow> string \<Rightarrow> string \<Rightarrow> bounty" where
  "castAddBounty d p bountyData bountyId txHash timestamp =
     \<lparr> isArchived = None, createdAt = None, updatedAt = None,
       transactionHash = Some txHash, updateTransactionHash = Some txHash,
       createTimestamp = Some timestamp, updateTimestamp = Some timestamp,
       bnt_id = buildBountyId (dao_id d) (JNum bountyId),
       bnt_bountyId = bountyId,
       bnt_proposalId = pd_id p,
       bnt_proposalIndex = Some (pd_proposalId p),
       bnt_daoId = Some (dao_id d),
       bnt_description = sb_description bountyData,
       bnt_token = sb_token bountyData,
       bnt_amount = sb_amount bountyData,
       bnt_times = sb_times bountyData,
       bnt_maxDeadline = sb_max_deadline bountyData,
       bnt_numberOfClaims = 0,
       bnt_bountyClaims = Some [],
       bnt_bountyDoneProposals = None,
       bnt_bountyDoneProposalIds = None,
       bnt_commentsCount = None \<rparr>"

text \<open>The claims stored with the bounty, followed by the account's claims on the contract.\<close>

definition merged_claims ::
    "bounty \<Rightarrow> string \<Rightarrow> string \<Rightarrow> sputnik_bounty_claim list \<Rightarrow> exn + bounty_claim list" where
  "merged_claims b daoId accountId bountyClaims =
     res_bind (castBountyClaims daoId accountId (bnt_bountyId b) bountyClaims) (\<lambda>own.
     Inr (map (castBountyClaim (bnt_id b))
            (case bnt_bountyClaims b of None \<Rightarrow> [] | Some cs \<Rightarrow> cs) @ own))"

definition castClaimBounty ::
    "bounty \<Rightarrow> string \<Rightarrow> string \<Rightarrow> string \<Rightarrow> sputnik_bounty_claim list \<Rightarrow> int \<Rightarrow>
     bounty_claim option \<Rightarrow> string \<Rightarrow> exn + bounty" where
  "castClaimBounty b accountId daoId txHash bountyClaims numberOfClaims removedClaim timestamp =
     res_bind (merged_claims b daoId accountId bountyClaims) (\<lambda>bountyClaimDtos.
     let filteredClaims =
           (case removedClaim of
              None \<Rightarrow> bountyClaimDtos
            | Some rc \<Rightarrow> filter (\<lambda>claim. bc_id claim \<noteq> bc_id rc) bountyClaimDtos)
     in res_bind (case bnt_proposalIndex b of
            Some i \<Rightarrow> Inr i | None \<Rightarrow> parseProposalIndex (bnt_proposalId b)) (\<lambda>proposalIndex.
     Inr \<lparr> isArchived = None, createdAt = None, updatedAt = None,
           transactionHash = transactionHash b, updateTransactionHash = Some txHash,
           createTimestamp = createTimestamp b, updateTimestamp = Some timestamp,
           bnt_id = bnt_id b,
           bnt_bountyId = bnt_bountyId b,
           bnt_proposalId = bnt_proposalId b,
           bnt_proposalIndex = Some proposalIndex,
           bnt_daoId = Some (or_daoId (bnt_daoId b) daoId),
           bnt_description = bnt_description b,
           bnt_token = bnt_token b,
           bnt_amount = bnt_amount b,
           bnt_times = bnt_times b,
           bnt_maxDeadline = bnt_maxDeadline b,
           bnt_numberOfClaims = numberOfClaims,
           bnt_bountyClaims = Some (arrayUniqueBy filteredClaims bc_id),
           bnt_bountyDoneProposals = None,
           bnt_bountyDoneProposalIds = None,
       bnt_commentsCount = None \<rparr>))"

definition castDoneBounty ::
    "dao \<Rightarrow> string \<Rightarrow> bounty \<Rightarrow> sputnik_bounty_output \<Rightarrow> int \<Rightarrow> sputnik_bounty_claim list \<Rightarrow>
     string \<Rightarrow> string \<Rightarrow> exn + bounty" where
  "castDoneBounty d accountId b bountyData numberOfClaims bountyClaims txHash timestamp =
     res_bind (merged_claims b (dao_id d) accountId bountyClaims) (\<lambda>bountyClaimDtos.
     res_bind (parseProposalIndex (bnt_proposalId b)) (\<lambda>proposalIndex.
     Inr \<lparr> isArchived = None, createdAt = None, updatedAt = None,
           transactionHash = transactionHash b, updateTransactionHash = Some txHash,
           createTimestamp = createTimestamp b, updateTimestamp = Some timestamp,
           bnt_id = bnt_id b,
           bnt_bountyId = bnt_bountyId b,
           bnt_proposalId = bnt_proposalId b,
           bnt_proposalIndex = Some proposalIndex,
           bnt_daoId = Some (or_daoId (bnt_daoId b) (dao_id d)),
           bnt_description = bnt_description b,
           bnt_token = bnt_token b,
           bnt_amount = bnt_amount b,
           bnt_times = sb_times bountyData,
           bnt_maxDeadline = bnt_maxDeadline b,
           bnt_numberOfClaims = numberOfClaims,
           bnt_bountyClaims = Some (arrayUniqueBy bountyClaimDtos bc_id),
           bnt_bountyDoneProposals = None,
           bnt_bountyDoneProposalIds =
             (case bnt_bountyDoneProposals b of
                Some items \<Rightarrow> Some (map (\<lambda>(id, proposalId). int_str proposalId) items)
              | None \<Rightarrow> bnt_bountyDoneProposalIds b),
           bnt_commentsCount = None \<rparr>))"

section \<open>Facts\<close>

text \<open>A contract claim can be cast when its start time and its deadline are readable numbers.\<close>

definition readable :: "string \<Rightarrow> bool" where
  "readable s \<longleftrightarrow> (case parse_bigint s of Inl e \<Rightarrow> False | Inr n \<Rightarrow> True)"

lemma cast_claim_cases:
  "(case cast_claim daoId accountId c of
      Inl e \<Rightarrow> \<not> (readable (sbc_start_time c) \<and> readable (sbc_deadline c))
    | Inr r \<Rightarrow> readable (sbc_start_time c) \<and> readable (sbc_deadline c)
        \<and> bc_id r = buildBountyClaimId daoId (sbc_bounty_id c) (sbc_start_time c)
        \<and> bc_accountId r = accountId)"
  by (cases "parse_bigint (sbc_start_time c)"; cases "parse_bigint (sbc_deadline c)")
    (simp_all add: cast_claim_def calculateClaimEndTime_def readable_def)

lemma cast_claim_Inr:
  "cast_claim daoId accountId c = Inr r \<Longrightarrow>
     bc_id r = buildBountyClaimId daoId (sbc_bounty_id c) (sbc_start_time c)"
  using cast_claim_cases [where daoId = daoId and accountId = accountId and c = c] by simp

lemma castBountyClaims_ids:
  assumes "castBountyClaims daoId accountId n cs = Inr rs"
  shows "bc_id ` set rs =
    (\<lambda>c. buildBountyClaimId daoId n (sbc_start_time c)) ` {c \<in> set cs. sbc_bounty_id c = n}"
proof -
  have *: "map_res (cast_claim daoId accountId) xs = Inr rs \<Longrightarrow>
      bc_id ` set rs =
        (\<lambda>c. buildBountyClaimId daoId (sbc_bounty_id c) (sbc_start_time c)) ` set xs" for xs rs
  proof (induction xs arbitrary: rs)
    case (Cons x xs)
    then obtain r rs' where "cast_claim daoId accountId x = Inr r" "rs = r # rs'"
      "map_res (cast_claim daoId accountId) xs = Inr rs'"
      by (auto simp: res_bind_Inr_iff)
    with Cons.IH show ?case by (simp add: cast_claim_Inr)
  qed simp
  have "bc_id ` set rs = (\<lambda>c. buildBountyClaimId daoId (sbc_bounty_id c) (sbc_start_time c)) `
      set (filter (\<lambda>claim. n = sbc_bounty_id claim) cs)"
    using assms unfolding castBountyClaims_def by (rule *)
  then show ?thesis by (auto simp: image_iff)
qed

lemma castBountyClaim_id [simp]: "bc_id (castBountyClaim i c) = bc_id c"
  by (simp add: castBountyClaim_def)

definition stored_claim_ids :: "bounty \<Rightarrow> string set" where
  "stored_claim_ids b = bc_id ` set (case bnt_bountyClaims b of None \<Rightarrow> [] | Some cs \<Rightarrow> cs)"

definition contract_claim_ids :: "string \<Rightarrow> int \<Rightarrow> sputnik_bounty_claim list \<Rightarrow> string set" where
  "contract_claim_ids daoId n cs =
     (\<lambda>c. buildBountyClaimId daoId n (sbc_start_time c)) ` {c \<in> set cs. sbc_bounty_id c = n}"

lemma merged_claims_ids:
  assumes "merged_claims b daoId accountId cs = Inr rs"
  shows "bc_id ` set rs = stored_claim_ids b \<union> contract_claim_ids daoId (bnt_bountyId b) cs"
proof -
  obtain own where "castBountyClaims daoId accountId (bnt_bountyId b) cs = Inr own"
    and "rs = map (castBountyClaim (bnt_id b))
       (case bnt_bountyClaims b of None \<Rightarrow> [] | Some cs \<Rightarrow> cs) @ own"
    using assms by (auto simp: merged_claims_def res_bind_Inr_iff)
  then show ?thesis
    by (simp add: castBountyClaims_ids image_Un image_image stored_claim_ids_def
        contract_claim_ids_def)
qed

text \<open>When the claims of an account and the number of the proposal can be read.\<close>

definition claims_readable :: "int \<Rightarrow> sputnik_bounty_claim list \<Rightarrow> bool" where
  "claims_readable n cs \<longleftrightarrow>
     list_all (\<lambda>c. readable (sbc_start_time c) \<and> readable (sbc_deadline c))
       (filter (\<lambda>c. n = sbc_bounty_id c) cs)"

lemma map_res_cast_claim_ok:
  "(\<exists>rs. map_res (cast_claim daoId accountId) xs = Inr rs) \<longleftrightarrow>
     list_all (\<lambda>c. readable (sbc_start_time c) \<and> readable (sbc_deadline c)) xs"
proof (induction xs)
  case (Cons c cs)
  show ?case
  proof (cases "cast_claim daoId accountId c")
    case (Inl e)
    then show ?thesis
      using cast_claim_cases [where daoId = daoId and accountId = accountId and c = c] by auto
  next
    case (Inr r)
    then show ?thesis
      using cast_claim_cases [where daoId = daoId and accountId = accountId and c = c] Cons
      by (auto simp: res_bind_Inr_iff)
  qed
qed simp

lemma merged_claims_ok:
  "(\<exists>rs. merged_claims b daoId accountId cs = Inr rs) \<longleftrightarrow> claims_readable (bnt_bountyId b) cs"
  unfolding claims_readable_def map_res_cast_claim_ok [of daoId accountId, symmetric]
  by (auto simp: merged_claims_def castBountyClaims_def res_bind_Inr_iff)

definition known_index :: "bounty \<Rightarrow> bool" where
  "known_index b \<longleftrightarrow> bnt_proposalIndex b \<noteq> None
     \<or> parse_int (last (split_on CHR ''-'' (bnt_proposalId b))) \<noteq> None"

definition same_terms :: "bounty \<Rightarrow> bounty \<Rightarrow> bool" where
  "same_terms r b \<longleftrightarrow> bnt_id r = bnt_id b \<and> bnt_bountyId r = bnt_bountyId b
     \<and> bnt_proposalId r = bnt_proposalId b \<and> bnt_description r = bnt_description b
     \<and> bnt_token r = bnt_token b \<and> bnt_amount r = bnt_amount b
     \<and> bnt_maxDeadline r = bnt_maxDeadline b \<and> transactionHash r = transactionHash b
     \<and> createTimestamp r = createTimestamp b"

section \<open>Properties\<close>

text \<open>
  The number of a proposal can be read back from its identifier, whatever the DAO's name is.
\<close>

theorem parseProposalIndex_build:
  "parseProposalIndex (buildProposalId daoId (JNum (int n))) = Inr (int n)"
  by (simp add: parseProposalIndex_def buildProposalId_def int_str_def last_split_on_append)

text \<open>
  C17. Claiming and giving up a bounty. \<open>castClaimBounty\<close> throws only when a time of the account's
  claims on this bounty is not a number or the proposal's number is unknown. Otherwise the stored
  claims have distinct ids, which are those of the claims already stored and of the account's
  claims on this bounty, without the claim given up; the bounty keeps its id, its terms, its
  availability and its proposal, and the counter is the number read from the contract.
\<close>

theorem castClaimBounty_claims:
  "(case castClaimBounty b accountId daoId txHash bountyClaims n removedClaim ts of
      Inl e \<Rightarrow> \<not> (claims_readable (bnt_bountyId b) bountyClaims \<and> known_index b)
    | Inr r \<Rightarrow> claims_readable (bnt_bountyId b) bountyClaims \<and> known_index b
        \<and> distinct (map bc_id (the (bnt_bountyClaims r)))
        \<and> stored_claim_ids r =
            (stored_claim_ids b \<union> contract_claim_ids daoId (bnt_bountyId b) bountyClaims)
              - bc_id ` set_option removedClaim
        \<and> same_terms r b \<and> bnt_times r = bnt_times b \<and> bnt_numberOfClaims r = n)"
proof (cases "merged_claims b daoId accountId bountyClaims")
  case (Inl e)
  then have "\<not> claims_readable (bnt_bountyId b) bountyClaims"
    using merged_claims_ok [of b daoId accountId bountyClaims] by simp
  with Inl show ?thesis by (simp add: castClaimBounty_def)
next
  case (Inr ms)
  then have ok: "claims_readable (bnt_bountyId b) bountyClaims"
    using merged_claims_ok by blast
  let ?fs = "case removedClaim of None \<Rightarrow> ms
       | Some rc \<Rightarrow> filter (\<lambda>claim. bc_id claim \<noteq> bc_id rc) ms"
  have "bc_id ` set (arrayUniqueBy ?fs bc_id) =
      (stored_claim_ids b \<union> contract_claim_ids daoId (bnt_bountyId b) bountyClaims)
        - bc_id ` set_option removedClaim"
    unfolding merged_claims_ids [OF Inr, symmetric] claims.uniq_keys
    by (cases removedClaim) auto
  with ok Inr show ?thesis
    by (cases "bnt_proposalIndex b";
        cases "parse_int (last (split_on CHR ''-'' (bnt_proposalId b)))")
      (simp_all add: castClaimBounty_def parseProposalIndex_def known_index_def same_terms_def
        Let_def claims.uniq_distinct stored_claim_ids_def [of "_ :: bounty"])
qed

text \<open>
  A done bounty keeps its id, its terms and its proposal and takes the number of remaining
  times and of claims from the contract; the stored claims and the account's claims on it are
  merged without repetition. \<open>castDoneBounty\<close> throws exactly when a claim's time or the
  number in the proposal's identifier cannot be read.
\<close>

theorem castDoneBounty_claims:
  "(case castDoneBounty d accountId b bountyData n bountyClaims txHash ts of
      Inl e \<Rightarrow> \<not> (claims_readable (bnt_bountyId b) bountyClaims
          \<and> known_index (b\<lparr>bnt_proposalIndex := None\<rparr>))
    | Inr r \<Rightarrow> claims_readable (bnt_bountyId b) bountyClaims
        \<and> distinct (map bc_id (the (bnt_bountyClaims r)))
        \<and> stored_claim_ids r =
            stored_claim_ids b \<union> contract_claim_ids (dao_id d) (bnt_bountyId b) bountyClaims
        \<and> same_terms r b \<and> bnt_times r = sb_times bountyData \<and> bnt_numberOfClaims r = n)"
proof (cases "merged_claims b (dao_id d) accountId bountyClaims")
  case (Inl e)
  then have "\<not> claims_readable (bnt_bountyId b) bountyClaims"
    using merged_claims_ok [of b "dao_id d" accountId bountyClaims] by simp
  with Inl show ?thesis by (simp add: castDoneBounty_def)
next
  case (Inr ms)
  then have ok: "claims_readable (bnt_bountyId b) bountyClaims"
    using merged_claims_ok by blast
  have "bc_id ` set (arrayUniqueBy ms bc_id) =
      stored_claim_ids b \<union> contract_claim_ids (dao_id d) (bnt_bountyId b) bountyClaims"
    unfolding merged_claims_ids [OF Inr, symmetric] claims.uniq_keys ..
  with ok Inr show ?thesis
    by (cases "parse_int (last (split_on CHR ''-'' (bnt_proposalId b)))")
      (simp_all add: castDoneBounty_def parseProposalIndex_def known_index_def same_terms_def
        Let_def claims.uniq_distinct stored_claim_ids_def [of "_ :: bounty"])
qed

end
