(* ===== verification/Bounty_Service.thy ===== *)
theory Bounty_Service
  imports World Casts_Bounty
begin

text \<open>
  The services of \<open>libs/bounty/src\<close> (\<open>BountyService\<close>, \<open>BountyDynamoService\<close>,
  \<open>BountyContextService\<close>) and the DynamoDB models of bounties
  (\<open>libs/dynamodb/src/models/bounty.model.ts\<close>). Every write goes to the table and to the
  relational database; the feature flag chooses the side that is read.
\<close>

section \<open>Models\<close>

definition opt_int_str :: "int option \<Rightarrow> string" where
  "opt_int_str i = (case i of None \<Rightarrow> ''undefined'' | Some n \<Rightarrow> int_str n)"

definition mapBountyClaimToBountyClaimModel :: "bounty_claim \<Rightarrow> bounty_claim" where
  "mapBountyClaimToBountyClaimModel bountyClaim =
     \<lparr> isArchived = None, createdAt = None, updatedAt = None,
       transactionHash = None, updateTransactionHash = None,
       createTimestamp = None, updateTimestamp = None,
       bc_id = bc_id bountyClaim,
       bc_bountyId = None,
       bc_accountId = bc_accountId bountyClaim,
       bc_startTime = bc_startTime bountyClaim,
       bc_deadline = bc_deadline bountyClaim,
       bc_endTime = bc_endTime bountyClaim,
       bc_completed = bc_completed bountyClaim \<rparr>"

definition mapBountyDtoToBountyModel :: "int \<Rightarrow> bounty \<Rightarrow> dyn_key \<times> bounty" where
  "mapBountyDtoToBountyModel now b =
     (entity_key (bnt_daoId b) E_Bounty (opt_int_str (bnt_proposalIndex b)),
      \<lparr> isArchived = Some False, createdAt = Some now, updatedAt = Some now,
        transactionHash = transactionHash b, updateTransactionHash = updateTransactionHash b,
        createTimestamp = createTimestamp b, updateTimestamp = updateTimestamp b,
        bnt_id = bnt_id b,
        bnt_bountyId = bnt_bountyId b,
        bnt_proposalId = bnt_proposalId b,
        bnt_proposalIndex = bnt_proposalIndex b,
        bnt_daoId = bnt_daoId b,
        bnt_description = bnt_description b,
        bnt_token = bnt_token b,
        bnt_amount = bnt_amount b,
        bnt_times = bnt_times b,
        bnt_maxDeadline = bnt_maxDeadline b,
        bnt_numberOfClaims = bnt_numberOfClaims b,
        bnt_bountyClaims = Some (case bnt_bountyClaims b of None \<Rightarrow> []
          | Some cs \<Rightarrow> map mapBountyClaimToBountyClaimModel cs),
        bnt_bountyDoneProposals = None,
        bnt_bountyDoneProposalIds = bnt_bountyDoneProposalIds b,
        bnt_commentsCount = Some 0 \<rparr>)"

text \<open>\<open>bountyDoneProposals\<close> lists the ids of the proposals; the comments are those of the context.\<close>

definition mapBountyToBountyModel :: "bounty \<Rightarrow> int \<Rightarrow> int option \<Rightarrow> dyn_key \<times> bounty" where
  "mapBountyToBountyModel b proposalIndex contextCommentsCount =
     (entity_key (bnt_daoId b) E_Bounty (int_str proposalIndex),
      \<lparr> isArchived = isArchived b, createdAt = createdAt b, updatedAt = updatedAt b,
        transactionHash = transactionHash b, updateTransactionHash = updateTransactionHash b,
        createTimestamp = createTimestamp b, updateTimestamp = updateTimestamp b,
        bnt_id = bnt_id b,
        bnt_bountyId = bnt_bountyId b,
        bnt_proposalId = bnt_proposalId b,
        bnt_proposalIndex = Some proposalIndex,
        bnt_daoId = bnt_daoId b,
        bnt_description = bnt_description b,
        bnt_token = bnt_token b,
        bnt_amount = bnt_amount b,
        bnt_times = bnt_times b,
        bnt_maxDeadline = bnt_maxDeadline b,
        bnt_numberOfClaims = bnt_numberOfClaims b,
        bnt_bountyClaims = Some (case bnt_bountyClaims b of None \<Rightarrow> []
          | Some cs \<Rightarrow> map mapBountyClaimToBountyClaimModel cs),
        bnt_bountyDoneProposals = None,
        bnt_bountyDoneProposalIds = Some (case bnt_bountyDoneProposals b of None \<Rightarrow> []
          | Some ps \<Rightarrow> map fst ps),
        bnt_commentsCount = contextCommentsCount \<rparr>)"

section \<open>The DynamoDB side\<close>

definition saveBounty :: "bounty \<Rightarrow> unit service" where
  "saveBounty bountyDto =
     bnd (peek w_now) (\<lambda>now. case mapBountyDtoToBountyModel now bountyDto of (k, m) \<Rightarrow>
       do_call (Dyn (D_save k (M_Bounty m))))"

definition saveBountyContext :: "bounty_context \<Rightarrow> int \<Rightarrow> unit service" where
  "saveBountyContext bountyContext proposalIndex =
     do_call (Dyn (D_save (entity_key (Some (bctx_daoId bountyContext)) E_Bounty (int_str proposalIndex))
       (M_BountyContext (bctx_transactionHash bountyContext) (bctx_createTimestamp bountyContext)
          proposalIndex)))"

definition saveBountyMapping :: "string option \<Rightarrow> int \<Rightarrow> int option \<Rightarrow> unit service" where
  "saveBountyMapping partitionId bountyId bountyProposalId =
     do_call (Dyn (D_save (entity_key partitionId E_BountyMapping (int_str bountyId))
       (M_BountyMapping bountyProposalId)))"

definition archiveBounty :: "string \<Rightarrow> jsval \<Rightarrow> bool \<Rightarrow> unit service" where
  "archiveBounty daoId proposalId archived =
     do_call (Dyn (D_archive (entity_key (Some daoId) E_Bounty (js_str proposalId)) archived))"

text \<open>The bounty together with the key it is stored under.\<close>

definition keyed_bounty :: "string \<Rightarrow> string \<Rightarrow> (dyn_key \<times> bounty) option service" where
  "keyed_bounty daoId bountyId =
     bnd (dyn_get w_mapping (entity_key (Some daoId) E_BountyMapping bountyId)) (\<lambda>bountyMapping.
       case bountyMapping of
         None \<Rightarrow> ret None
       | Some bountyProposalId \<Rightarrow>
           let k = entity_key (Some daoId) E_Bounty (int_str bountyProposalId)
           in bnd (dyn_get w_bounty k) (\<lambda>b. ret (map_option (Pair k) b)))"

definition getByBountyId :: "string \<Rightarrow> string \<Rightarrow> bounty option service" where
  "getByBountyId daoId bountyId =
     bnd (keyed_bounty daoId bountyId) (\<lambda>kb. ret (map_option snd kb))"

definition addBountyDoneProposalId :: "string \<Rightarrow> string \<Rightarrow> string \<Rightarrow> unit service" where
  "addBountyDoneProposalId daoId bountyId proposalId =
     bnd (keyed_bounty daoId bountyId) (\<lambda>kb.
       case kb of
         None \<Rightarrow> throw (ThrownError (''No bounty found by daoId: '' @ daoId @
                    '' and bountyId: '' @ bountyId))
       | Some (k, b) \<Rightarrow>
           let ids = (case bnt_bountyDoneProposalIds b of None \<Rightarrow> [] | Some ids \<Rightarrow> ids) in
           if proposalId \<in> set ids then ret ()
           else do_call (Dyn (D_save k
                  (M_Bounty (b\<lparr>bnt_bountyDoneProposalIds := Some (ids @ [proposalId])\<rparr>)))))"

section \<open>BountyService\<close>

definition useDynamoDB :: "string \<Rightarrow> bool service" where
  "useDynamoDB flag = call (Flag flag) w_flag"

definition bounty_findById :: "string \<Rightarrow> jsval \<Rightarrow> bool \<Rightarrow> bounty option service" where
  "bounty_findById daoId bountyId relations =
     bnd (useDynamoDB ''bounty-dynamo'') (\<lambda>dynamo.
       if dynamo then getByBountyId daoId (js_str bountyId)
       else call (Sql (S_findBounty (buildBountyId daoId bountyId) relations)) w_bounty)"

text \<open>\<open>findOne\<close> of the repository, with the relations the search index needs.\<close>

definition bounty_findOne :: "string \<Rightarrow> (bounty \<times> bounty_relations) option service" where
  "bounty_findOne i = call (Sql (S_findBountyRelations i)) w_bountyRelations"

definition bounty_create :: "bounty \<Rightarrow> unit service" where
  "bounty_create bountyDto =
     thn (saveBounty bountyDto)
    (thn (saveBountyMapping (bnt_daoId bountyDto) (bnt_bountyId bountyDto)
            (bnt_proposalIndex bountyDto))
         (do_call (Sql (S_saveBounty bountyDto))))"

definition getDaoActiveBountiesCount :: "string \<Rightarrow> bool \<Rightarrow> int service" where
  "getDaoActiveBountiesCount daoId allowDynamo =
     bnd (if allowDynamo then useDynamoDB ''bounty-dynamo'' else ret False) (\<lambda>dynamo.
       if dynamo then call (Dyn (D_countActiveBounties daoId)) w_num
       else call (Sql (S_countBounties daoId)) w_num)"

text \<open>
  The reduction keeps the last claim so far; its start time has been read before, so reading it
  again cannot fail.
\<close>

definition later_claim ::
    "int \<Rightarrow> string \<Rightarrow> bounty_claim option \<Rightarrow> bounty_claim \<Rightarrow> exn + bounty_claim option" where
  "later_claim untilTimestamp accountId lastClaim currentClaim =
     res_bind (parse_bigint (bc_startTime currentClaim)) (\<lambda>currentClaimTimestamp.
     res_bind (case lastClaim of None \<Rightarrow> Inr 0 | Some c \<Rightarrow> parse_bigint (bc_startTime c))
       (\<lambda>lastClaimTimestamp.
     Inr (if bc_accountId currentClaim = accountId \<and> currentClaimTimestamp < untilTimestamp
             \<and> currentClaimTimestamp > lastClaimTimestamp
          then Some currentClaim else lastClaim)))"

definition findLastClaim ::
    "bounty_claim list \<Rightarrow> string \<Rightarrow> string \<Rightarrow> exn + bounty_claim option" where
  "findLastClaim claims accountId untilTimestamp =
     res_bind (parse_bigint untilTimestamp) (\<lambda>untilTimestampBigInt.
     fold_res (later_claim untilTimestampBigInt accountId) None claims)"

text \<open>Both branches read the bounty the same way, with or without the relations.\<close>

definition getLastBountyClaim ::
    "string \<Rightarrow> int \<Rightarrow> string \<Rightarrow> string \<Rightarrow> bounty_claim option service" where
  "getLastBountyClaim daoId bountyId accountId untilTimestamp =
     bnd (useDynamoDB ''bounty-dynamo'') (\<lambda>dynamo.
     bnd (bounty_findById daoId (JNum bountyId) (\<not> dynamo)) (\<lambda>b.
     lift_res (findLastClaim
       (case b of None \<Rightarrow> []
        | Some b \<Rightarrow> (case bnt_bountyClaims b of None \<Rightarrow> [] | Some cs \<Rightarrow> cs))
       accountId untilTimestamp)))"

section \<open>BountyContextService\<close>

definition bountyContext_create :: "bounty_context \<Rightarrow> int \<Rightarrow> string service" where
  "bountyContext_create bountyContextDto proposalIndex =
     thn (saveBountyContext bountyContextDto proposalIndex)
    (thn (do_call (Sql (S_saveBountyContext bountyContextDto)))
         (ret (bctx_id bountyContextDto)))"

definition bountyContext_remove :: "string \<Rightarrow> jsval \<Rightarrow> unit service" where
  "bountyContext_remove daoId proposalId =
     thn (archiveBounty daoId proposalId True)
         (do_call (Sql (S_deleteBountyContext (buildProposalId daoId proposalId))))"

section \<open>Facts\<close>

lemma keeps_saveBounty: "keeps is_dyn (saveBounty b)"
  unfolding saveBounty_def mapBountyDtoToBountyModel_def prod.case
  by (intro keeps_intros keeps_do_call) simp

interpretation bounties: dual_write bounty_create
  "\<lambda>b. thn (saveBounty b) (saveBountyMapping (bnt_daoId b) (bnt_bountyId b) (bnt_proposalIndex b))"
  S_saveBounty
proof
  show "bounty_create b = thn (thn (saveBounty b)
      (saveBountyMapping (bnt_daoId b) (bnt_bountyId b) (bnt_proposalIndex b)))
      (do_call (Sql (S_saveBounty b)))" for b
    by (simp add: bounty_create_def thn_def bnd_assoc)
  show "keeps is_dyn (thn (saveBounty b)
      (saveBountyMapping (bnt_daoId b) (bnt_bountyId b) (bnt_proposalIndex b)))" for b
    unfolding saveBountyMapping_def by (intro keeps_intros keeps_do_call keeps_saveBounty) simp
qed

text \<open>The claim the reduction looks for.\<close>

definition start_time :: "bounty_claim \<Rightarrow> int" where
  "start_time c = (case parse_bigint (bc_startTime c) of Inl e \<Rightarrow> 0 | Inr n \<Rightarrow> n)"

definition eligible :: "int \<Rightarrow> string \<Rightarrow> bounty_claim \<Rightarrow> bool" where
  "eligible until accountId c \<longleftrightarrow>
     bc_accountId c = accountId \<and> 0 < start_time c \<and> start_time c < until"

definition is_last_claim :: "int \<Rightarrow> string \<Rightarrow> bounty_claim list \<Rightarrow> bounty_claim option \<Rightarrow> bool" where
  "is_last_claim until accountId cs found \<longleftrightarrow>
     (case found of
        None \<Rightarrow> \<forall>c \<in> set cs. \<not> eligible until accountId c
      | Some c \<Rightarrow> c \<in> set cs \<and> eligible until accountId c
          \<and> (\<forall>d \<in> set cs. eligible until accountId d \<longrightarrow> start_time d \<le> start_time c))"

lemma readable_start: "readable (bc_startTime c) \<Longrightarrow> parse_bigint (bc_startTime c) = Inr (start_time c)"
  by (auto simp: readable_def start_time_def split: sum.splits)

lemma later_claim_unreadable:
  "\<not> readable (bc_startTime c) \<Longrightarrow> \<exists>e. later_claim u a acc c = Inl e"
  by (auto simp: later_claim_def readable_def split: sum.splits)

lemma later_claim_readable:
  assumes "readable (bc_startTime c)" and "pred_option (\<lambda>d. readable (bc_startTime d)) acc"
  shows "later_claim u a acc c = Inr (if bc_accountId c = a \<and> start_time c < u
     \<and> (case acc of None \<Rightarrow> 0 | Some d \<Rightarrow> start_time d) < start_time c then Some c else acc)"
  using assms by (cases acc) (simp_all add: later_claim_def readable_start)

lemma fold_later_claim:
  "(case fold_res (later_claim u a) None cs of
      Inl e \<Rightarrow> \<not> list_all (\<lambda>c. readable (bc_startTime c)) cs
    | Inr found \<Rightarrow> list_all (\<lambda>c. readable (bc_startTime c)) cs \<and> is_last_claim u a cs found)"
proof (induction cs rule: rev_induct)
  case Nil
  then show ?case by (simp add: is_last_claim_def)
next
  case (snoc c cs)
  show ?case
  proof (cases "fold_res (later_claim u a) None cs")
    case (Inl e)
    with snoc show ?thesis by (simp add: fold_res_snoc)
  next
    case (Inr found)
    with snoc have cs: "list_all (\<lambda>c. readable (bc_startTime c)) cs" "is_last_claim u a cs found"
      by simp_all
    have step: "fold_res (later_claim u a) None (cs @ [c]) = later_claim u a found c"
      by (simp add: fold_res_snoc Inr)
    show ?thesis
    proof (cases "readable (bc_startTime c)")
      case False
      then show ?thesis unfolding step using later_claim_unreadable [of c u a found] by auto
    next
      case True
      have "pred_option (\<lambda>d. readable (bc_startTime d)) found"
        using cs by (cases found) (auto simp: is_last_claim_def list_all_iff)
      note later = later_claim_readable [OF True this, of u a]
      show ?thesis
        unfolding step later using cs True
        by (cases found) (auto simp: is_last_claim_def eligible_def)
    qed
  qed
qed

section \<open>Properties\<close>

text \<open>
  \<open>findLastClaim\<close> throws exactly when the bound or the start time of some claim, of whatever
  account, is not a number. Otherwise it finds a claim of the account that started before the bound
  and after time 0, none of which started later, and nothing only if there is no such claim.
\<close>

theorem findLastClaim_latest:
  "(case findLastClaim claims accountId untilTimestamp of
      Inl e \<Rightarrow> \<not> (readable untilTimestamp \<and> list_all (\<lambda>c. readable (bc_startTime c)) claims)
    | Inr found \<Rightarrow> list_all (\<lambda>c. readable (bc_startTime c)) claims
        \<and> (\<exists>until. parse_bigint untilTimestamp = Inr until
             \<and> is_last_claim until accountId claims found))"
proof (cases "parse_bigint untilTimestamp")
  case (Inl e)
  then show ?thesis by (simp add: findLastClaim_def readable_def)
next
  case (Inr u)
  then show ?thesis
    using fold_later_claim [where u = u and a = accountId and cs = claims]
    by (cases "fold_res (later_claim u accountId) None claims") (simp_all add: findLastClaim_def)
qed

text \<open>
  A proposal is added to the proposals that finish a bounty at most once: when the bounty is
  found, \<open>addBountyDoneProposalId\<close> writes nothing if the id is already listed, and otherwise writes
  the bounty back under its key with the id appended; when it is not found, it throws and writes
  nothing.
\<close>

theorem addBountyDoneProposalId_once:
  "(case keyed_bounty daoId bountyId W tr of (Inl e, t) \<Rightarrow> False
    | (Inr found, t) \<Rightarrow>
       (case found of
          None \<Rightarrow> snd (addBountyDoneProposalId daoId bountyId proposalId W tr) = t
            \<and> fst (addBountyDoneProposalId daoId bountyId proposalId W tr) =
                Inl (ThrownError (''No bounty found by daoId: '' @ daoId @ '' and bountyId: '' @ bountyId))
        | Some (k, b) \<Rightarrow>
            let ids = (case bnt_bountyDoneProposalIds b of None \<Rightarrow> [] | Some ids \<Rightarrow> ids);
                written = (if proposalId \<in> set ids then []
                  else [Dyn (D_save k
                    (M_Bounty (b\<lparr>bnt_bountyDoneProposalIds := Some (ids @ [proposalId])\<rparr>)))])
            in snd (addBountyDoneProposalId daoId bountyId proposalId W tr) = t @ written))"
proof -
  obtain r t where kb: "keyed_bounty daoId bountyId W tr = (r, t)" by fastforce
  have "\<exists>found. r = Inr found"
    using kb by (auto simp: keyed_bounty_def run_simps Let_def split: option.splits sum.splits)
  then obtain found where "r = Inr found" ..
  with kb show ?thesis
    by (auto simp: addBountyDoneProposalId_def run_simps Let_def split: option.splits sum.splits)
qed

end
