(* ===== verification/Permissions.thy ===== *)
theory Permissions
  imports Utils
begin

text \<open>
  What an account may do with a proposal: \<open>getAccountPermissions\<close> and
  \<open>checkPermissions\<close> of \<open>libs/utils\<close>, which
  \<open>ProposalService.populateProposalPermissions\<close> applies to every proposal it returns.
\<close>

definition PROPOSAL_DESC_SEPARATOR :: string where
  "PROPOSAL_DESC_SEPARATOR = ''$$$$''"

definition filterProposalDesc :: "string option \<Rightarrow> string" where
  "filterProposalDesc description =
     (let d = (case description of None \<Rightarrow> [] | Some s \<Rightarrow> s);
          separationIndex = index_of d PROPOSAL_DESC_SEPARATOR
      in if separationIndex \<noteq> - 1 then take (nat separationIndex) d else d)"

definition stringToBoolean :: "string option \<Rightarrow> bool option" where
  "stringToBoolean val = map_option (\<lambda>s. s = ''true'') val"

definition checkPermissions ::
    "proposal_type option \<Rightarrow> string \<Rightarrow> string list \<Rightarrow> bool" where
  "checkPermissions type permission permissions =
     (let policyLabel = (case type of None \<Rightarrow> ''undefined''
                         | Some t \<Rightarrow> policy_label_str (ProposalTypeToPolicyLabel t))
      in ''*:*'' \<in> set permissions
         \<or> (''*:'' @ permission) \<in> set permissions
         \<or> (policyLabel @ '':'' @ permission) \<in> set permissions)"

text \<open>
  The condition of the \<open>reduce\<close>: a comparison with \<open>undefined\<close> is false, and \<open>null\<close>
  compares as 0.
\<close>

definition role_applies :: "string \<Rightarrow> int option \<Rightarrow> role \<Rightarrow> exn + bool" where
  "role_applies accountId accountBalance r =
     (case role_kind r of
        Everyone \<Rightarrow> Inr True
      | Group \<Rightarrow>
          (case role_accountIds r of
             None \<Rightarrow> Inl (TypeError ''includes'')
           | Some ids \<Rightarrow> Inr (accountId \<in> set ids))
      | Member \<Rightarrow>
          (case (accountBalance, role_balance r) of
             (Some a, Some b) \<Rightarrow> Inr (a \<ge> (case b of None \<Rightarrow> 0 | Some n \<Rightarrow> n))
           | _ \<Rightarrow> Inr False))"

definition collect_permissions ::
    "string \<Rightarrow> int option \<Rightarrow> role list \<Rightarrow> exn + string list" where
  "collect_permissions accountId accountBalance roles =
     fold_res (\<lambda>acc r. res_bind (role_applies accountId accountBalance r)
       (\<lambda>b. Inr (if b then acc @ role_permissions r else acc))) [] roles"

definition no_permissions :: proposal_permissions where
  "no_permissions = \<lparr> canApprove = False, canReject = False, canDelete = False,
     isCouncil = False, canAdd = False \<rparr>"

definition getAccountPermissions ::
    "role list \<Rightarrow> proposal_type option \<Rightarrow> string option \<Rightarrow> int option \<Rightarrow>
     exn + proposal_permissions" where
  "getAccountPermissions roles type accountId accountBalance =
     (case accountId of
        None \<Rightarrow> Inr no_permissions
      | Some acc \<Rightarrow>
          if acc = [] then Inr no_permissions
          else
            let council = find (\<lambda>r. to_lower (role_name r) = ''council'') roles
            in res_bind (collect_permissions acc accountBalance roles) (\<lambda>permissions.
               Inr \<lparr> canApprove = checkPermissions type ''VoteApprove'' permissions,
                     canReject = checkPermissions type ''VoteReject'' permissions,
                     canDelete = checkPermissions type ''VoteRemove'' permissions,
                     isCouncil = (case Option.bind council role_accountIds of
                                    None \<Rightarrow> False | Some ids \<Rightarrow> acc \<in> set ids),
                     canAdd = checkPermissions type ''AddProposal'' permissions \<rparr>))"

section \<open>Lemmas\<close>

lemma fold_collect:
  assumes "fold_res (\<lambda>acc r. res_bind (role_applies a bal r)
       (\<lambda>b. Inr (if b then acc @ role_permissions r else acc))) acc0 roles = Inr ps"
  shows "set ps = set acc0 \<union>
     {p. \<exists>r \<in> set roles. role_applies a bal r = Inr True \<and> p \<in> set (role_permissions r)}"
  using assms
proof (induction roles arbitrary: acc0)
  case Nil
  then show ?case by simp
next
  case (Cons r rs)
  then obtain b where b: "role_applies a bal r = Inr b"
    and rest: "fold_res (\<lambda>acc r. res_bind (role_applies a bal r)
       (\<lambda>b. Inr (if b then acc @ role_permissions r else acc)))
       (if b then acc0 @ role_permissions r else acc0) rs = Inr ps"
    by (auto simp: res_bind_Inr_iff)
  from Cons.IH [OF rest] show ?case by (cases b) (auto simp: b)
qed

lemma collect_permissions_set:
  "collect_permissions a bal roles = Inr ps \<Longrightarrow>
     set ps = {p. \<exists>r \<in> set roles. role_applies a bal r = Inr True \<and> p \<in> set (role_permissions r)}"
  unfolding collect_permissions_def using fold_collect [of a bal "[]" roles ps] by simp

text \<open>The permission texts that grant an action on a proposal of a given type.\<close>

definition grants :: "proposal_type option \<Rightarrow> string \<Rightarrow> string \<Rightarrow> bool" where
  "grants type permission p \<longleftrightarrow>
     p = ''*:*'' \<or> p = ''*:'' @ permission \<or>
     p = (case type of None \<Rightarrow> ''undefined''
          | Some t \<Rightarrow> policy_label_str (ProposalTypeToPolicyLabel t)) @ '':'' @ permission"

lemma checkPermissions_grants:
  "checkPermissions type permission ps \<longleftrightarrow> (\<exists>p \<in> set ps. grants type permission p)"
  by (auto simp: checkPermissions_def grants_def Let_def)

text \<open>
  A role is for an account when it is for everyone, when it is a group that lists the account, or
  when it is a member role whose balance the account's balance reaches; a member role whose balance
  is null is for every balance from 0 on, and one without a balance, like any member role when the
  balance of the account is not known, is for nobody.
\<close>

definition role_is_for :: "role \<Rightarrow> string \<Rightarrow> int option \<Rightarrow> bool" where
  "role_is_for r a bal \<longleftrightarrow>
     role_kind r = Everyone
     \<or> (role_kind r = Group \<and> (\<exists>ids. role_accountIds r = Some ids \<and> a \<in> set ids))
     \<or> (role_kind r = Member \<and> (\<exists>mine. bal = Some mine
         \<and> ((\<exists>needed. role_balance r = Some (Some needed) \<and> needed \<le> mine)
             \<or> role_balance r = Some None \<and> 0 \<le> mine)))"

definition holds_permission ::
    "role list \<Rightarrow> string \<Rightarrow> int option \<Rightarrow> proposal_type option \<Rightarrow> string \<Rightarrow> bool" where
  "holds_permission roles a bal type permission \<longleftrightarrow>
     (\<exists>r \<in> set roles. role_is_for r a bal \<and>
        (\<exists>p \<in> set (role_permissions r). grants type permission p))"

lemma role_applies_iff: "role_applies a bal r = Inr True \<longleftrightarrow> role_is_for r a bal"
  by (auto simp: role_applies_def role_is_for_def split: role_kind_type.splits option.splits)

lemma checkPermissions_collect:
  "collect_permissions a bal roles = Inr ps \<Longrightarrow>
     checkPermissions type permission ps \<longleftrightarrow> holds_permission roles a bal type permission"
  unfolding checkPermissions_grants holds_permission_def role_applies_iff [symmetric]
  using collect_permissions_set [of a bal roles ps] by auto

lemma fold_collect_total:
  "(\<forall>r \<in> set roles. role_kind r = Group \<longrightarrow> role_accountIds r \<noteq> None) \<Longrightarrow>
   \<exists>ps. fold_res (\<lambda>acc r. res_bind (role_applies a bal r)
       (\<lambda>b. Inr (if b then acc @ role_permissions r else acc))) acc0 roles = Inr ps"
proof (induction roles arbitrary: acc0)
  case (Cons r rs)
  then have "\<exists>b. role_applies a bal r = Inr b"
    by (auto simp: role_applies_def split: role_kind_type.splits option.splits prod.splits)
  with Cons show ?case by auto
qed simp

lemma collect_permissions_total:
  "(\<forall>r \<in> set roles. role_kind r = Group \<longrightarrow> role_accountIds r \<noteq> None) \<Longrightarrow>
   \<exists>ps. collect_permissions a bal roles = Inr ps"
  unfolding collect_permissions_def by (rule fold_collect_total)

text \<open>The first role called council, in any case, lists the account.\<close>

definition listed_by_council :: "role list \<Rightarrow> string \<Rightarrow> bool" where
  "listed_by_council roles a \<longleftrightarrow>
     (\<exists>i < length roles. to_lower (role_name (roles ! i)) = ''council''
        \<and> (\<forall>j < i. to_lower (role_name (roles ! j)) \<noteq> ''council'')
        \<and> (\<exists>ids. role_accountIds (roles ! i) = Some ids \<and> a \<in> set ids))"

lemma find_council:
  "(case Option.bind (find (\<lambda>r. to_lower (role_name r) = ''council'') roles) role_accountIds of
      None \<Rightarrow> False | Some ids \<Rightarrow> a \<in> set ids) \<longleftrightarrow> listed_by_council roles a"
proof -
  let ?P = "\<lambda>r. to_lower (role_name r) = ''council''"
  have "listed_by_council roles a \<longleftrightarrow>
      (\<exists>r ids. find ?P roles = Some r \<and> role_accountIds r = Some ids \<and> a \<in> set ids)"
    unfolding listed_by_council_def find_Some_iff by blast
  then show ?thesis by (auto split: option.splits bind_splits)
qed

section \<open>Properties\<close>

text \<open>
  C8. For an account that is given, and roles whose groups list their accounts,
  \<open>getAccountPermissions\<close> returns, and each permission it reports is held exactly when some
  role that is for the account (for everyone, a group listing it, or a member role whose balance
  its balance reaches) carries a permission text granting the action on proposals of this type (by
  name, for all actions, or for all types); the account is of the council exactly when the first
  role called council, in any case, lists it.
\<close>

theorem getAccountPermissions_sound_complete:
  assumes "a \<noteq> []"
    and "\<forall>r \<in> set roles. role_kind r = Group \<longrightarrow> role_accountIds r \<noteq> None"
  shows "\<exists>p. getAccountPermissions roles type (Some a) bal = Inr p
     \<and> canApprove p = holds_permission roles a bal type ''VoteApprove''
     \<and> canReject p = holds_permission roles a bal type ''VoteReject''
     \<and> canDelete p = holds_permission roles a bal type ''VoteRemove''
     \<and> canAdd p = holds_permission roles a bal type ''AddProposal''
     \<and> isCouncil p = listed_by_council roles a"
proof -
  obtain ps where "collect_permissions a bal roles = Inr ps"
    using collect_permissions_total [OF assms(2)] by blast
  then show ?thesis
    using assms(1) by (simp add: getAccountPermissions_def checkPermissions_collect find_council Let_def)
qed

definition sample_roles :: "role list" where
  "sample_roles =
     [\<lparr> role_id = None, role_name = ''all'', role_kind = Everyone, role_balance = None,
        role_accountIds = None, role_permissions = [''*:AddProposal''], role_votePolicy = None,
        role_policyDaoId = None \<rparr>,
      \<lparr> role_id = None, role_name = ''Council'', role_kind = Group, role_balance = Some None,
        role_accountIds = Some [''a.near''], role_permissions = [''transfer:VoteApprove''],
        role_votePolicy = None, role_policyDaoId = None \<rparr>,
      \<lparr> role_id = None, role_name = ''holders'', role_kind = Member,
        role_balance = Some (Some 10), role_accountIds = None,
        role_permissions = [''*:VoteReject''], role_votePolicy = None, role_policyDaoId = None \<rparr>]"

theorem getAccountPermissions_sound_complete_witness:
  "\<exists>p q. getAccountPermissions sample_roles (Some Transfer) (Some ''a.near'') (Some 10) = Inr p
     \<and> canApprove p \<and> canReject p \<and> canAdd p \<and> \<not> canDelete p
     \<and> getAccountPermissions sample_roles (Some Transfer) (Some ''b.near'') (Some 9) = Inr q
     \<and> \<not> canApprove q \<and> \<not> canReject q \<and> canAdd q \<and> \<not> isCouncil q"
proof -
  have ok: "\<forall>r \<in> set sample_roles. role_kind r = Group \<longrightarrow> role_accountIds r \<noteq> None"
    by (simp add: sample_roles_def)
  have holds: "holds_permission sample_roles ''a.near'' (Some 10) (Some Transfer) ''VoteApprove''"
    "holds_permission sample_roles ''a.near'' (Some 10) (Some Transfer) ''VoteReject''"
    "holds_permission sample_roles ''a.near'' (Some 10) (Some Transfer) ''AddProposal''"
    "\<not> holds_permission sample_roles ''a.near'' (Some 10) (Some Transfer) ''VoteRemove''"
    "\<not> holds_permission sample_roles ''b.near'' (Some 9) (Some Transfer) ''VoteApprove''"
    "\<not> holds_permission sample_roles ''b.near'' (Some 9) (Some Transfer) ''VoteReject''"
    "holds_permission sample_roles ''b.near'' (Some 9) (Some Transfer) ''AddProposal''"
    "\<not> listed_by_council sample_roles ''b.near''"
    by (simp_all add: holds_permission_def role_is_for_def sample_roles_def grants_def
        flip: find_council)
  then show ?thesis
    using getAccountPermissions_sound_complete [OF _ ok, of "''a.near''" "Some Transfer" "Some 10"]
      getAccountPermissions_sound_complete [OF _ ok, of "''b.near''" "Some Transfer" "Some 9"]
    by auto
qed

end
