(* ===== verification/Proposal_Service.thy ===== *)
theory Proposal_Service
  imports World Permissions Casts_Proposal Bounty_Service
begin

text \<open>
  \<open>ProposalService\<close> and \<open>ProposalDynamoService\<close> of \<open>libs/proposal/src\<close> and the DynamoDB
  models of proposals (\<open>libs/dynamodb/src/models/proposal.model.ts\<close>). The queries that only build
  SQL for the API's lists and searches are not modelled.
\<close>

section \<open>Models\<close>

definition mapProposalActionToProposalActionModel :: "proposal_action \<Rightarrow> proposal_action" where
  "mapProposalActionToProposalActionModel a =
     \<lparr> pa_id = pa_id a, pa_proposalId = pa_proposalId a, pa_accountId = pa_accountId a,
       pa_action = pa_action a, pa_transactionHash = pa_transactionHash a,
       pa_timestamp = pa_timestamp a \<rparr>"

text \<open>The model has no DAO: it is stored under the DAO's partition.\<close>

definition mapProposalDtoToProposalModel :: "int \<Rightarrow> proposal_dto \<Rightarrow> dyn_key \<times> proposal" where
  "mapProposalDtoToProposalModel now p =
     (entity_key (Some (pd_daoId p)) E_Proposal (int_str (pd_proposalId p)),
      \<lparr> isArchived = Some False, createdAt = Some now, updatedAt = Some now,
        transactionHash = transactionHash p, updateTransactionHash = updateTransactionHash p,
        createTimestamp = createTimestamp p, updateTimestamp = updateTimestamp p,
        prp_id = pd_id p,
        prp_proposalId = pd_proposalId p,
        prp_daoId = None,
        prp_proposer = pd_proposer p,
        prp_description = pd_description p,
        prp_status = pd_status p,
        prp_voteStatus = Some VS_Active,
        prp_kind = Some (pk_kind (pd_kind p)),
        prp_type = pd_type p,
        prp_policyLabel = pd_policyLabel p,
        prp_submissionTime = pd_submissionTime p,
        prp_voteCounts = pd_voteCounts p,
        prp_votes = pd_votes p,
        prp_failure = pd_failure p,
        prp_actions = map mapProposalActionToProposalActionModel (pd_actions p),
        prp_votePeriodEnd = pd_votePeriodEnd p,
        prp_bountyDoneId = pd_bountyDoneId p,
        prp_bountyClaimId = pd_bountyClaimId p,
        prp_commentsCount = Some 0 \<rparr>)"

definition mapProposalToProposalModel :: "proposal \<Rightarrow> dyn_key \<times> proposal" where
  "mapProposalToProposalModel p =
     (entity_key (prp_daoId p) E_Proposal (int_str (prp_proposalId p)),
      \<lparr> isArchived = Some (isArchived p = Some True), createdAt = createdAt p,
        updatedAt = updatedAt p,
        transactionHash = transactionHash p, updateTransactionHash = updateTransactionHash p,
        createTimestamp = createTimestamp p, updateTimestamp = updateTimestamp p,
        prp_id = prp_id p,
        prp_proposalId = prp_proposalId p,
        prp_daoId = None,
        prp_proposer = prp_proposer p,
        prp_description = prp_description p,
        prp_status = prp_status p,
        prp_voteStatus = prp_voteStatus p,
        prp_kind = prp_kind p,
        prp_type = prp_type p,
        prp_policyLabel = prp_policyLabel p,
        prp_submissionTime = prp_submissionTime p,
        prp_voteCounts = prp_voteCounts p,
        prp_votes = prp_votes p,
        prp_failure = prp_failure p,
        prp_actions = map mapProposalActionToProposalActionModel (prp_actions p),
        prp_votePeriodEnd = prp_votePeriodEnd p,
        prp_bountyDoneId = prp_bountyDoneId p,
        prp_bountyClaimId = prp_bountyClaimId p,
        prp_commentsCount = prp_commentsCount p \<rparr>)"

section \<open>The DynamoDB side\<close>

definition saveProposalDto :: "proposal_dto \<Rightarrow> unit service" where
  "saveProposalDto p =
     bnd (peek w_now) (\<lambda>now. case mapProposalDtoToProposalModel now p of (k, m) \<Rightarrow>
       do_call (Dyn (D_save k (M_Proposal m))))"

definition saveProposal :: "proposal \<Rightarrow> unit service" where
  "saveProposal p =
     (case mapProposalToProposalModel p of (k, m) \<Rightarrow> do_call (Dyn (D_save k (M_Proposal m))))"

definition proposalDynamo_get :: "string \<Rightarrow> string \<Rightarrow> proposal option service" where
  "proposalDynamo_get daoId proposalId =
     dyn_get w_proposal (entity_key (Some daoId) E_Proposal proposalId)"

definition proposalDynamo_archive :: "string \<Rightarrow> string \<Rightarrow> bool \<Rightarrow> unit service" where
  "proposalDynamo_archive daoId proposalId archived =
     do_call (Dyn (D_archive (entity_key (Some daoId) E_Proposal proposalId) archived))"

section \<open>ProposalService\<close>

text \<open>The number comes from the arguments of a call, so it is a dynamic value.\<close>

definition proposal_findById :: "string \<Rightarrow> jsval \<Rightarrow> proposal option service" where
  "proposal_findById daoId proposalId =
     bnd (useDynamoDB ''proposal-dynamo'') (\<lambda>dynamo.
       if dynamo then proposalDynamo_get daoId (js_str proposalId)
       else call (Sql (S_findProposal (buildProposalId daoId proposalId))) w_proposal)"

definition proposal_findOne :: "string \<Rightarrow> (proposal \<times> dao option) option service" where
  "proposal_findOne i = call (Sql (S_findProposalRelations i)) w_proposalRelations"

definition proposal_create :: "proposal_dto \<Rightarrow> unit service" where
  "proposal_create p = thn (saveProposalDto p) (do_call (Sql (S_saveProposal p)))"

definition proposal_createMultiple :: "proposal_dto list \<Rightarrow> unit service" where
  "proposal_createMultiple ps = do_call (Sql (S_saveProposals ps))"

definition proposal_updateMultiple :: "proposal list \<Rightarrow> unit service" where
  "proposal_updateMultiple ps = do_call (Sql (S_updateProposals ps))"

definition proposal_updateCommentsCount :: "string \<Rightarrow> int \<Rightarrow> unit service" where
  "proposal_updateCommentsCount i commentsCount =
     do_call (Sql (S_updateProposalComments i commentsCount))"

definition proposal_remove :: "string \<Rightarrow> jsval \<Rightarrow> unit service" where
  "proposal_remove daoId proposalId =
     thn (proposalDynamo_archive daoId (js_str proposalId) True)
         (do_call (Sql (S_deleteProposal (buildProposalId daoId proposalId))))"

definition proposal_removeMultiple :: "string list \<Rightarrow> unit service" where
  "proposal_removeMultiple proposalIds =
     thn (all_act (\<lambda>i. do_call (Sql (S_deleteProposal i))) proposalIds) (ret ())"

definition getDaoProposalCount :: "string \<Rightarrow> int service" where
  "getDaoProposalCount daoId =
     bnd (useDynamoDB ''proposal-dynamo'') (\<lambda>dynamo.
       if dynamo then call (Dyn (D_countProposals daoId)) w_num
       else call (Sql (S_countProposals daoId)) w_num)"

definition getDaoActiveProposalCount :: "string \<Rightarrow> int service" where
  "getDaoActiveProposalCount daoId =
     bnd (useDynamoDB ''proposal-dynamo'') (\<lambda>dynamo.
       if dynamo then call (Dyn (D_countActiveProposals daoId)) w_num
       else call (Sql (S_countActiveProposals daoId)) w_num)"

definition findProposalsByDaoIds ::
    "string list \<Rightarrow> proposal_vote_status option \<Rightarrow> proposal list service" where
  "findProposalsByDaoIds daoIds voteStatus =
     call (Sql (S_findProposalsByDaoIds daoIds voteStatus)) w_storedProposals"

text \<open>The clock is in milliseconds, the stored times are in nanoseconds.\<close>

definition getExpiredProposalDaoIds :: "string list service" where
  "getExpiredProposalDaoIds =
     bnd (peek w_now) (\<lambda>now. call (Sql (S_findExpiredProposalDaoIds (now * 1000 * 1000))) w_strs)"

definition updateExpiredProposals :: "unit service" where
  "updateExpiredProposals =
     bnd (peek w_now) (\<lambda>now. do_call (Sql (S_updateExpiredProposals (now * 1000 * 1000))))"

section \<open>Permissions of a list of proposals\<close>

definition populateProposalPermissions ::
    "proposal \<Rightarrow> role list \<Rightarrow> string option \<Rightarrow> string option \<Rightarrow>
     exn + proposal \<times> proposal_permissions" where
  "populateProposalPermissions p roles accountId accountBalance =
     res_bind (parse_bigint (case accountBalance of None \<Rightarrow> ''0'' | Some b \<Rightarrow> b)) (\<lambda>balance.
     res_bind (getAccountPermissions roles (map_option kind_type (prp_kind p)) accountId (Some balance))
       (\<lambda>permissions. Inr (p, permissions)))"

definition feed_permissions ::
    "role list \<Rightarrow> delegation list \<Rightarrow> string option \<Rightarrow> proposal \<Rightarrow> exn + proposal \<times> proposal_permissions"
  where
  "feed_permissions daoRoles accountDelegations permissionsAccountId p =
     populateProposalPermissions p (filter (\<lambda>r. role_policyDaoId r = prp_daoId p) daoRoles)
       permissionsAccountId
       (Option.bind (find (\<lambda>d. Some (dlg_daoId d) = prp_daoId p) accountDelegations) dlg_balance)"

definition is_given :: "string option \<Rightarrow> bool" where
  "is_given s \<longleftrightarrow> (case s of None \<Rightarrow> False | Some t \<Rightarrow> t \<noteq> [])"

definition mapProposalFeed ::
    "proposal list \<Rightarrow> string option \<Rightarrow> (proposal \<times> proposal_permissions) list service" where
  "mapProposalFeed proposals permissionsAccountId =
     (if proposals = [] then ret []
      else
        let daoIds = set_order (map (opt_str \<circ> prp_daoId) proposals) in
        bnd (call (Sql (S_findRoles daoIds)) w_roles) (\<lambda>daoRoles.
        bnd (if is_given permissionsAccountId
             then call (Sql (S_findAccountDelegations (opt_str permissionsAccountId) daoIds)) w_delegations
             else ret []) (\<lambda>accountDelegations.
        lift_res (map_res (feed_permissions daoRoles accountDelegations permissionsAccountId)
          proposals))))"

section \<open>Facts\<close>

interpretation proposals: dual_write proposal_create saveProposalDto S_saveProposal
proof
  show "keeps is_dyn (saveProposalDto p)" for p
    unfolding saveProposalDto_def mapProposalDtoToProposalModel_def prod.case
    by (intro keeps_intros keeps_do_call) simp
qed (simp add: proposal_create_def)

lemma mapProposalDto_key:
  "fst (mapProposalDtoToProposalModel now p) =
     entity_key (Some (pd_daoId p)) E_Proposal (int_str (pd_proposalId p))"
  by (simp add: mapProposalDtoToProposalModel_def)

section \<open>Properties\<close>

text \<open>
  Saving a proposal writes both stores. When \<open>create\<close> succeeds, the last call stores the
  proposal in the database and the one before it put it into the table under the key of its DAO and
  its number; there its comments count is 0 and its vote is active again, whatever they were.
\<close>

theorem proposal_create_both:
  assumes "proposal_create p W tr = (Inr u, t)"
  shows "\<exists>m. t = tr @ [Dyn (D_save (entity_key (Some (pd_daoId p)) E_Proposal
             (int_str (pd_proposalId p))) (M_Proposal m)), Sql (S_saveProposal p)]
     \<and> prp_id m = pd_id p \<and> prp_status m = pd_status p \<and> prp_votes m = pd_votes p
     \<and> map pa_id (prp_actions m) = map pa_id (pd_actions p)
     \<and> prp_commentsCount m = Some 0 \<and> prp_voteStatus m = Some VS_Active"
proof -
  obtain ds where t: "t = tr @ ds @ [Sql (S_saveProposal p)]"
    and d: "saveProposalDto p W tr = (Inr (), tr @ ds)"
    using proposals.save_sql_last [OF assms] by auto
  obtain k m where km: "mapProposalDtoToProposalModel (w_now W tr) p = (k, m)" by fastforce
  with d have "ds = [Dyn (D_save k (M_Proposal m))]"
    by (simp add: saveProposalDto_def run_simps)
  moreover have "k = entity_key (Some (pd_daoId p)) E_Proposal (int_str (pd_proposalId p))"
    using mapProposalDto_key [of "w_now W tr" p] km by simp
  moreover have "prp_id m = pd_id p \<and> prp_status m = pd_status p \<and> prp_votes m = pd_votes p
      \<and> map pa_id (prp_actions m) = map pa_id (pd_actions p)
      \<and> prp_commentsCount m = Some 0 \<and> prp_voteStatus m = Some VS_Active"
    using km by (auto simp: mapProposalDtoToProposalModel_def
        mapProposalActionToProposalActionModel_def)
  ultimately show ?thesis using t by auto
qed

definition sample_proposal :: proposal_dto where
  "sample_proposal =
     \<lparr> isArchived = None, createdAt = None, updatedAt = None, transactionHash = Some ''h'',
       updateTransactionHash = None, createTimestamp = Some ''1'', updateTimestamp = None,
       pd_id = ''d-7'', pd_proposalId = 7, pd_daoId = ''d'', pd_bountyDoneId = None,
       pd_bountyClaimId = None, pd_proposer = ''a'', pd_description = ''x'', pd_status = Approved,
       pd_submissionTime = ''1'', pd_kind = new_ProposalKindDto K_Vote, pd_type = Vote,
       pd_policyLabel = Some PL_Vote, pd_voteStatus = Some VS_Expired, pd_voteCounts = [],
       pd_votes = [], pd_actions = [], pd_votePeriodEnd = Some ''9'', pd_failure = JUndef \<rparr>"

theorem proposal_create_both_witness:
  "\<exists>m. snd (proposal_create sample_proposal quiet_world []) =
       [Dyn (D_save (entity_key (Some ''d'') E_Proposal (int_str 7)) (M_Proposal m)),
        Sql (S_saveProposal sample_proposal)]
     \<and> prp_voteStatus m = Some VS_Active"
proof -
  have "proposal_create sample_proposal quiet_world [] =
      (Inr (), snd (proposal_create sample_proposal quiet_world []))"
    by (simp add: proposal_create_def saveProposalDto_def run_simps quiet_world_def
        mapProposalDtoToProposalModel_def)
  from proposal_create_both [OF this] show ?thesis
    by (auto simp: sample_proposal_def)
qed

end
