(* ===== verification/Keyed_Lists.thy ===== *)
theory Keyed_Lists
  imports Prelude
begin

text \<open>
  The interface of the lists the services keep inside an entity and update by key (the tokens and
  the delegations of a DAO): an element takes the place of the first one with its key, or is
  appended. What a client may rely on is proved here once.
\<close>

locale keyed_list =
  fixes key :: "'a \<Rightarrow> 'k" and put :: "'a \<Rightarrow> 'a list \<Rightarrow> 'a list"
  assumes put_new: "key x \<notin> key ` set xs \<Longrightarrow> put x xs = xs @ [x]"
    and put_old: "key y = key x \<Longrightarrow> key x \<notin> key ` set ys
      \<Longrightarrow> \<exists>y'. put x (ys @ y # zs) = ys @ y' # zs \<and> key y' = key x"
begin

lemma put_cases:
  obtains (new) "key x \<notin> key ` set xs" and "put x xs = xs @ [x]"
  | (old) ys y zs y' where "xs = ys @ y # zs" and "key y = key x" and "key x \<notin> key ` set ys"
      and "put x xs = ys @ y' # zs" and "key y' = key x"
proof (cases "key x \<in> key ` set xs")
  case False
  then show thesis using put_new new by blast
next
  case True
  then have "\<exists>y \<in> set xs. key y = key x" by force
  then obtain ys y zs where *: "xs = ys @ y # zs" "key y = key x" "\<forall>z \<in> set ys. key z \<noteq> key x"
    using split_list_first_prop [of xs "\<lambda>z. key z = key x"] by metis
  then have "key x \<notin> key ` set ys" by force
  with put_old [OF *(2) this, of zs] * show thesis using old by blast
qed

lemma map_key_put:
  "map key (put x xs) = (if key x \<in> key ` set xs then map key xs else map key xs @ [key x])"
  by (cases rule: put_cases [where x = x and xs = xs]) auto

lemma distinct_put: "distinct (map key (put x xs)) \<longleftrightarrow> distinct (map key xs)"
  by (simp add: map_key_put)

lemma keys_put: "key ` set (put x xs) = insert (key x) (key ` set xs)"
proof -
  have "key ` set (put x xs) = set (map key (put x xs))" by simp
  also have "\<dots> = insert (key x) (key ` set xs)"
    unfolding map_key_put by auto
  finally show ?thesis .
qed

lemma put_other: "key z \<noteq> key x \<Longrightarrow> z \<in> set (put x xs) \<longleftrightarrow> z \<in> set xs"
  by (cases rule: put_cases [where x = x and xs = xs]) auto

lemma filter_put:
  "filter (\<lambda>z. key z \<noteq> key x) (put x xs) = filter (\<lambda>z. key z \<noteq> key x) xs"
  by (cases rule: put_cases [where x = x and xs = xs]) auto

lemma length_put:
  "length (put x xs) = (if key x \<in> key ` set xs then length xs else Suc (length xs))"
  using arg_cong [OF map_key_put, of length] by (auto split: if_splits)

end

end
