(* ===== verification/Token_Service.thy ===== *)
theory Token_Service
  imports Keyed_Lists Bounty_Service
begin

text \<open>
  \<open>libs/token/src\<close>: the fungible tokens of a DAO (\<open>TokenService\<close>) and its NFTs
  (\<open>NFTTokenService\<close>, \<open>NFTTokenDynamoService\<close>), with the casts of \<open>libs/token/src/types\<close> and
  the DynamoDB models they are stored as.
\<close>

section \<open>Casts\<close>

definition no_entity :: transaction_entity where
  "no_entity = \<lparr> isArchived = None, createdAt = None, updatedAt = None, transactionHash = None,
     updateTransactionHash = None, createTimestamp = None, updateTimestamp = None \<rparr>"

definition castToken :: "string \<Rightarrow> token_metadata \<Rightarrow> string \<Rightarrow> string option \<Rightarrow> token" where
  "castToken tokenId metadata totalSupply timestamp =
     transaction_entity.extend (no_entity\<lparr>updateTimestamp := timestamp\<rparr>)
       \<lparr> tok_id = tokenId, tok_ownerId = [], tok_totalSupply = totalSupply,
         tok_decimals = tm_decimals metadata, tok_icon = tm_icon metadata,
         tok_name = tm_name metadata, tok_reference = tm_reference metadata,
         tok_referenceHash = tm_reference_hash metadata, tok_spec = tm_spec metadata,
         tok_symbol = tm_symbol metadata, tok_price = None \<rparr>"

definition yoktoNear :: int where
  "yoktoNear = 10 ^ 24"

definition castNearToken :: "string option \<Rightarrow> token" where
  "castNearToken price =
     transaction_entity.extend no_entity
       \<lparr> tok_id = ''NEAR'', tok_ownerId = [], tok_totalSupply = [],
         tok_decimals = int (length (int_str yoktoNear)) - 1, tok_icon = None, tok_name = None,
         tok_reference = None, tok_referenceHash = None, tok_spec = None,
         tok_symbol = Some ''NEAR'', tok_price = price \<rparr>"

definition castTokenBalance :: "string \<Rightarrow> string \<Rightarrow> string \<Rightarrow> token_balance" where
  "castTokenBalance tokenId accountId balance =
     \<lparr> tb_id = buildTokenBalanceId tokenId accountId, tb_tokenId = tokenId,
       tb_accountId = accountId, tb_balance = Some balance, tb_token = None \<rparr>"

definition mapTokenBalanceToTokenBalanceModel :: "token_balance \<Rightarrow> exn + token_balance_model" where
  "mapTokenBalanceToTokenBalanceModel b =
     (case tb_token b of
        None \<Rightarrow> Inl (TypeError ''id'')
      | Some t \<Rightarrow> Inr
          \<lparr> tbm_tokenId = tb_tokenId b, tbm_accountId = tb_accountId b, tbm_balance = tb_balance b,
            tbm_id = tok_id t, tbm_ownerId = tok_ownerId t, tbm_totalSupply = tok_totalSupply t,
            tbm_decimals = tok_decimals t, tbm_icon = tok_icon t, tbm_name = tok_name t,
            tbm_reference = tok_reference t, tbm_referenceHash = tok_referenceHash t,
            tbm_spec = tok_spec t, tbm_symbol = tok_symbol t, tbm_price = tok_price t \<rparr>)"

section \<open>TokenService\<close>

definition token_create :: "token \<Rightarrow> unit service" where
  "token_create tokenDto = do_call (Sql (S_saveToken tokenDto))"

definition loadTokenById ::
    "string \<Rightarrow> string option \<Rightarrow> string option \<Rightarrow> (token_metadata \<times> string) service" where
  "loadTokenById tokenId timestamp blockId =
     bnd (call (Rpc (R_ftMetadata tokenId blockId)) w_metadata) (\<lambda>metadata.
     bnd (call (Rpc (R_ftTotalSupply tokenId blockId)) w_str) (\<lambda>totalSupply.
     thn (token_create (castToken tokenId metadata totalSupply timestamp))
         (ret (metadata, totalSupply))))"

text \<open>The token takes the place of the first one with its id, or comes last.\<close>

fun put_token :: "token_balance_model \<Rightarrow> token_balance_model list \<Rightarrow> token_balance_model list" where
  "put_token updatedToken [] = [updatedToken]"
| "put_token updatedToken (t # tokens) =
     (if tbm_tokenId t = tbm_tokenId updatedToken then updatedToken # tokens
      else t # put_token updatedToken tokens)"

definition saveTokenBalanceToDao :: "token_balance \<Rightarrow> unit service" where
  "saveTokenBalanceToDao tokenBalance =
     (let key = entity_key (Some (tb_accountId tokenBalance)) E_Dao (tb_accountId tokenBalance) in
      bnd (lift_res (mapTokenBalanceToTokenBalanceModel tokenBalance)) (\<lambda>updatedToken.
      bnd (dyn_get w_dao key) (\<lambda>d.
      bnd (need ''tokens'' d) (\<lambda>d.
      let tokens = (case dao_tokens d of None \<Rightarrow> [] | Some ts \<Rightarrow> ts) in
      do_call (Dyn (D_updateTokens key (put_token updatedToken tokens)))))))"

definition saveNearBalanceToDao :: "string \<Rightarrow> string option \<Rightarrow> unit service" where
  "saveNearBalanceToDao daoId balance =
     (let t = castNearToken None in
      saveTokenBalanceToDao \<lparr> tb_id = tok_id t, tb_tokenId = tok_id t, tb_accountId = daoId,
        tb_balance = balance, tb_token = Some t \<rparr>)"

definition loadBalanceById ::
    "string \<Rightarrow> string \<Rightarrow> string option \<Rightarrow> string option \<Rightarrow>
     (token_metadata \<times> string \<times> string) service" where
  "loadBalanceById tokenId accountId timestamp blockId =
     bnd (call (Rpc (R_ftMetadata tokenId blockId)) w_metadata) (\<lambda>metadata.
     bnd (call (Rpc (R_ftTotalSupply tokenId blockId)) w_str) (\<lambda>totalSupply.
     bnd (call (Rpc (R_ftBalanceOf tokenId accountId blockId)) w_str) (\<lambda>balance.
     let tok = castToken tokenId metadata totalSupply timestamp;
         tokenBalance = castTokenBalance tokenId accountId balance in
     thn (saveTokenBalanceToDao (tokenBalance\<lparr>tb_token := Some tok\<rparr>))
    (thn (do_call (Sql (S_saveTokenBalance tokenBalance)))
         (ret (metadata, totalSupply, balance))))))"

definition getNearToken :: "token option service" where
  "getNearToken =
     bnd (useDynamoDB ''token-dynamo'') (\<lambda>dynamo.
       if dynamo then dyn_get w_token (entity_key (Some ''NEAR'') E_TokenPrice ''NEAR'')
       else call (Sql S_findNearToken) w_token)"

text \<open>What \<open>tokenBalancesByAccount\<close> lists: balances of either store.\<close>

datatype account_balance = AB_Sql token_balance | AB_Dyn token_balance_model

definition tokenBalancesByAccount :: "string \<Rightarrow> account_balance list service" where
  "tokenBalancesByAccount accountId =
     bnd (useDynamoDB ''token-dynamo'') (\<lambda>dynamo.
       if dynamo then
         bnd (dyn_get w_dao (entity_key (Some accountId) E_Dao accountId)) (\<lambda>d.
         ret (map AB_Dyn (case d of None \<Rightarrow> []
           | Some d \<Rightarrow> (case dao_tokens d of None \<Rightarrow> [] | Some ts \<Rightarrow> ts))))
       else
         bnd (call (Sql (S_findTokenBalances accountId)) w_balances) (\<lambda>bs. ret (map AB_Sql bs)))"

section \<open>NFTs\<close>

text \<open>NFTs, their contracts' metadata and the DTOs are dynamic values.\<close>

definition js_or :: "jsval \<Rightarrow> jsval \<Rightarrow> jsval" where
  "js_or a b = (if truthy a then a else b)"

fun owner_id :: "jsval \<Rightarrow> jsval" where
  "owner_id (JObj fs) = obj_get fs ''Account''"
| "owner_id (JArr xs) = JUndef"
| "owner_id v = v"

definition date_text :: "jsval \<Rightarrow> jsval" where
  "date_text v = (if truthy v then JStr (js_str v) else JNull)"

definition castNFT ::
    "string \<Rightarrow> string \<Rightarrow> jsval \<Rightarrow> jsval \<Rightarrow> string option \<Rightarrow> exn + jsval" where
  "castNFT nftContractId accountId contractMetadata nft timestamp =
     res_bind (js_get nft ''id'') (\<lambda>nftId.
     let nf = js_get_opt nft;
         tokenId = js_or nftId (js_or (nf ''token_id'') (JStr ''0''));
         i = buildNFTTokenId nftContractId (js_str tokenId);
         metadata = nf ''metadata'' in
     res_bind (js_get metadata ''title'') (\<lambda>title.
     res_bind (js_get contractMetadata ''name'') (\<lambda>name.
     let md = js_get_opt metadata; cm = js_get_opt contractMetadata in
     Inr (JObj
       [(''id'', JStr i), (''tokenId'', tokenId), (''accountId'', JStr accountId),
        (''ownerId'', owner_id (nf ''owner_id'')), (''minter'', nf ''minter''),
        (''contractId'', JStr nftContractId),
        (''metadata'', JObj
          [(''tokenId'', JStr i), (''title'', title), (''description'', md ''description''),
           (''media'', md ''media''), (''mediaHash'', md ''media_hash''),
           (''copies'', md ''copies''), (''issuedAt'', date_text (md ''issued_at'')),
           (''expiresAt'', date_text (md ''expires_at'')),
           (''startsAt'', date_text (md ''starts_at'')),
           (''updatedAt'', date_text (md ''updated_at'')), (''extra'', md ''extra''),
           (''reference'', md ''reference''), (''referenceHash'', md ''reference_hash''),
           (''approvedAccountIds'', nf ''approved_account_ids'')]),
        (''contract'', JObj
          [(''id'', JStr nftContractId), (''name'', name), (''spec'', cm ''spec''),
           (''symbol'', cm ''symbol''), (''icon'', cm ''icon''), (''baseUri'', cm ''base_uri''),
           (''reference'', cm ''reference''), (''referenceHash'', cm ''reference_hash'')]),
        (''updateTimestamp'', js_of_opt timestamp)]))))"

text \<open>Copying the named properties of an object.\<close>

definition pick :: "string list \<Rightarrow> jsval \<Rightarrow> (string \<times> jsval) list" where
  "pick ks v = map (\<lambda>k. (k, js_get_opt v k)) ks"

definition mapNftContractToNftContractModel :: "jsval \<Rightarrow> exn + jsval" where
  "mapNftContractToNftContractModel contract =
     res_bind (js_get contract ''id'') (\<lambda>_.
     Inr (JObj (pick [''id'', ''spec'', ''name'', ''symbol'', ''icon'', ''baseUri'', ''reference'',
       ''referenceHash''] contract)))"

definition mapNftMetadataToNftMetadataModel :: "jsval \<Rightarrow> exn + jsval" where
  "mapNftMetadataToNftMetadataModel metadata =
     res_bind (js_get metadata ''tokenId'') (\<lambda>_.
     Inr (JObj (pick [''tokenId'', ''copies'', ''description'', ''expiresAt'', ''extra'',
       ''issuedAt'', ''media'', ''mediaHash'', ''reference'', ''referenceHash'', ''startsAt'',
       ''title'', ''updatedAt'', ''approvedAccountIds''] metadata)))"

definition mapNftTokenDtoToNftModel :: "int \<Rightarrow> jsval \<Rightarrow> exn + jsval" where
  "mapNftTokenDtoToNftModel now nft =
     res_bind (mapNftContractToNftContractModel (js_get_opt nft ''contract'')) (\<lambda>contract.
     res_bind (mapNftMetadataToNftMetadataModel (js_get_opt nft ''metadata'')) (\<lambda>metadata.
     Inr (JObj
       ([(''partitionId'', js_get_opt nft ''accountId''),
         (''entityId'', JStr (buildEntityId E_Nft (js_str (js_get_opt nft ''id'')))),
         (''entityType'', JStr (entity_type_str E_Nft)), (''isArchived'', JBool False),
         (''createdAt'', JNum now), (''updatedAt'', JNum now)]
        @ pick [''id'', ''ownerId'', ''tokenId'', ''accountId'', ''minter'', ''contractId''] nft
        @ [(''contract'', contract), (''metadata'', metadata)]))))"

section \<open>NFTTokenService\<close>

definition nft_createMultiple :: "jsval list \<Rightarrow> unit service" where
  "nft_createMultiple nftDtos =
     bnd (peek w_now) (\<lambda>now.
     bnd (lift_res (map_res (mapNftTokenDtoToNftModel now) nftDtos)) (\<lambda>models.
     thn (do_call (Dyn (D_putNfts models)))
         (do_call (Sql (S_saveNfts nftDtos)))))"

text \<open>
  The query for the items to delete goes through \<open>NFTTokenDynamoService.query\<close>, which asks for
  items of the type \<open>DaoStats\<close>.
\<close>

definition purge :: "string \<Rightarrow> string \<Rightarrow> jsval list \<Rightarrow> unit service" where
  "purge accountId contractId tokenIds =
     bnd (call (Dyn (D_queryNfts accountId E_DaoStats contractId tokenIds)) w_jsons)
       (\<lambda>nftsToDelete.
     thn (do_call (Dyn (D_deleteNfts nftsToDelete)))
         (do_call (Sql (S_deleteNfts accountId contractId tokenIds))))"

definition getAccountTokenCount :: "string \<Rightarrow> bool \<Rightarrow> int service" where
  "getAccountTokenCount accountId allowDynamo =
     bnd (if allowDynamo then useDynamoDB ''nft-token-dynamo'' else ret False) (\<lambda>dynamo.
       if dynamo then call (Dyn (D_countNfts accountId)) w_num
       else call (Sql (S_countNfts accountId)) w_num)"

definition NFT_CHUNK_SIZE :: nat where
  "NFT_CHUNK_SIZE = 50"

text \<open>
  The loop of \<open>getNfts\<close>: a rejected request ends it with what has been read, and so does a chunk
  that is not full. With no fuel left it throws.
\<close>

fun nft_chunks :: "nat \<Rightarrow> string \<Rightarrow> string \<Rightarrow> nat \<Rightarrow> jsval list \<Rightarrow> jsval list service" where
  "nft_chunks 0 nftContractId accountId fromIndex nfts = throw (ThrownError ''fuel'')"
| "nft_chunks (Suc n) nftContractId accountId fromIndex nfts =
     bnd (attempt
            (bnd (call (Rpc (R_nftTokensForOwner nftContractId accountId fromIndex NFT_CHUNK_SIZE))
                    w_jsons) (\<lambda>chunk. ret (Some chunk)))
            (\<lambda>err. ret None)) (\<lambda>r.
     case r of
       None \<Rightarrow> ret nfts
     | Some chunk \<Rightarrow>
         if length chunk = NFT_CHUNK_SIZE
         then nft_chunks n nftContractId accountId (fromIndex + NFT_CHUNK_SIZE) (nfts @ chunk)
         else ret (nfts @ chunk))"

definition getNfts :: "env \<Rightarrow> string \<Rightarrow> string \<Rightarrow> jsval list service" where
  "getNfts E nftContractId accountId = nft_chunks (e_fuel E) nftContractId accountId 0 []"

definition loadNFT ::
    "env \<Rightarrow> string \<Rightarrow> string \<Rightarrow> string option \<Rightarrow> string option \<Rightarrow>
     (jsval \<times> jsval list) service" where
  "loadNFT E nftContractId accountId timestamp blockId =
     bnd (call (Rpc (R_nftMetadata nftContractId blockId)) w_json) (\<lambda>metadata.
     bnd (getNfts E nftContractId accountId) (\<lambda>nfts.
     bnd (lift_res (map_res (\<lambda>nft. castNFT nftContractId accountId metadata nft timestamp) nfts))
       (\<lambda>tokenDtos.
     let tokenIds = map (\<lambda>d. js_get_opt d ''id'') tokenDtos in
     thn (nft_createMultiple tokenDtos)
    (thn (purge accountId nftContractId tokenIds)
         (ret (metadata, nfts))))))"


section \<open>The tokens of a DAO\<close>

interpretation tokens: keyed_list tbm_tokenId put_token
proof
  show "put_token x xs = xs @ [x]" if "tbm_tokenId x \<notin> tbm_tokenId ` set xs" for x xs
    using that by (induction xs) auto
  show "\<exists>y'. put_token x (ys @ y # zs) = ys @ y' # zs \<and> tbm_tokenId y' = tbm_tokenId x"
    if "tbm_tokenId y = tbm_tokenId x" "tbm_tokenId x \<notin> tbm_tokenId ` set ys" for x y ys zs
    using that by (induction ys) auto
qed

lemma put_token_mem: "x \<in> set (put_token x xs)"
  by (induction xs) auto

definition tokens_of :: "dao \<Rightarrow> token_balance_model list" where
  "tokens_of d = (case dao_tokens d of None \<Rightarrow> [] | Some ts \<Rightarrow> ts)"

definition dao_key :: "string \<Rightarrow> dyn_key" where
  "dao_key daoId = entity_key (Some daoId) E_Dao daoId"

text \<open>
  The tokens of a DAO after a balance is saved. The DAO is read from the table and its token
  list written back: it contains the token with the new balance, the entries of all other tokens
  are the stored ones in their order, and no token is listed twice unless one was before. When
  saving fails, nothing was written, or the write was the last call and the table rejected it.
\<close>

theorem saveTokenBalanceToDao_spec:
  "case saveTokenBalanceToDao b W tr of (r, t) \<Rightarrow>
     let key = dao_key (tb_accountId b); read = tr @ [Dyn (D_get key)] in
     (case r of
        Inr u \<Rightarrow> \<exists>d toks. w_dao W read = Inr (Some d) \<and> t = read @ [Dyn (D_updateTokens key toks)]
          \<and> (\<exists>m \<in> set toks. tbm_tokenId m = tb_tokenId b \<and> tbm_balance m = tb_balance b)
          \<and> filter (\<lambda>m. tbm_tokenId m \<noteq> tb_tokenId b) toks
              = filter (\<lambda>m. tbm_tokenId m \<noteq> tb_tokenId b) (tokens_of d)
          \<and> distinct (map tbm_tokenId toks) = distinct (map tbm_tokenId (tokens_of d))
      | Inl e \<Rightarrow> t = tr \<or> t = read
          \<or> (\<exists>toks. t = read @ [Dyn (D_updateTokens key toks)] \<and> w_ack W t = Inl e))"
proof (cases "tb_token b")
  case None
  then show ?thesis
    by (simp add: saveTokenBalanceToDao_def mapTokenBalanceToTokenBalanceModel_def run_simps Let_def)
next
  case (Some tk)
  then obtain m where m: "mapTokenBalanceToTokenBalanceModel b = Inr m"
    and id: "tbm_tokenId m = tb_tokenId b" and bal: "tbm_balance m = tb_balance b"
    by (simp add: mapTokenBalanceToTokenBalanceModel_def)
  have "\<exists>m' \<in> set (put_token m xs). tbm_tokenId m' = tb_tokenId b \<and> tbm_balance m' = tb_balance b" for xs
    using put_token_mem [of m xs] id bal by blast
  then show ?thesis
    using tokens.filter_put [of m, unfolded id] tokens.distinct_put [of m]
    by (auto simp: saveTokenBalanceToDao_def dao_key_def tokens_of_def m run_simps Let_def
        split: sum.splits option.splits)
qed

section \<open>Listing the NFTs of an account\<close>

definition nft_request :: "string \<Rightarrow> string \<Rightarrow> nat \<Rightarrow> call" where
  "nft_request c a k = Rpc (R_nftTokensForOwner c a (NFT_CHUNK_SIZE * k) NFT_CHUNK_SIZE)"

lemma nft_chunks_step:
  assumes "w_jsons W (tr @ [nft_request c a j]) = Inr chunk"
  shows "nft_chunks (Suc n) c a (NFT_CHUNK_SIZE * j) nfts W tr =
     (if length chunk = NFT_CHUNK_SIZE
      then nft_chunks n c a (NFT_CHUNK_SIZE * Suc j) (nfts @ chunk) W (tr @ [nft_request c a j])
      else (Inr (nfts @ chunk), tr @ [nft_request c a j]))"
  using assms by (simp add: run_simps nft_request_def add.commute)

lemma nft_chunks_reads:
  assumes "\<And>k. j \<le> k \<Longrightarrow> k \<le> length L div NFT_CHUNK_SIZE \<Longrightarrow>
      w_jsons W (tr @ map (nft_request c a) [j..<Suc k])
        = Inr (take NFT_CHUNK_SIZE (drop (NFT_CHUNK_SIZE * k) L))"
    and "j \<le> length L div NFT_CHUNK_SIZE" and "length L div NFT_CHUNK_SIZE < j + n"
  shows "nft_chunks n c a (NFT_CHUNK_SIZE * j) (take (NFT_CHUNK_SIZE * j) L) W tr =
     (Inr L, tr @ map (nft_request c a) [j..<Suc (length L div NFT_CHUNK_SIZE)])"
  using assms
proof (induction n arbitrary: j tr)
  case 0
  then show ?case by simp
next
  case (Suc n)
  let ?s = NFT_CHUNK_SIZE and ?q = "length L div NFT_CHUNK_SIZE"
  let ?chunk = "take ?s (drop (?s * j) L)"
  have s: "0 < ?s" by (simp add: NFT_CHUNK_SIZE_def)
  have first: "w_jsons W (tr @ [nft_request c a j]) = Inr ?chunk"
    using Suc.prems(1) [of j] Suc.prems(2) by simp
  have app: "take (?s * j) L @ ?chunk = take (?s * Suc j) L"
    by (simp add: take_add [symmetric] add.commute)
  show ?case
  proof (cases "j = ?q")
    case True
    then have "length L < ?s * Suc j"
      using s by (metis dividend_less_div_times mult.commute mult_Suc)
    then have "length ?chunk \<noteq> ?s" and all: "take (?s * Suc j) L = L"
      using s by auto
    then show ?thesis
      using app unfolding nft_chunks_step [OF first] by (simp only: if_False True [symmetric]) simp
  next
    case False
    then have le: "Suc j \<le> ?q" using Suc.prems(2) by simp
    then have "?s * Suc j \<le> length L"
      using s by (metis div_times_less_eq_dividend le_trans mult.commute mult_le_mono2)
    then have full: "length ?chunk = ?s" by simp
    have "nft_chunks n c a (?s * Suc j) (take (?s * Suc j) L) W (tr @ [nft_request c a j]) =
       (Inr L, (tr @ [nft_request c a j]) @ map (nft_request c a) [Suc j..<Suc ?q])"
    proof (rule Suc.IH)
      show "w_jsons W ((tr @ [nft_request c a j]) @ map (nft_request c a) [Suc j..<Suc k])
          = Inr (take ?s (drop (?s * k) L))" if "Suc j \<le> k" "k \<le> ?q" for k
        using Suc.prems(1) [of k] that by (simp add: upt_conv_Cons)
    qed (use le Suc.prems(3) in auto)
    then show ?thesis
      using full le unfolding nft_chunks_step [OF first] app
      by (simp add: upt_conv_Cons)
  qed
qed

text \<open>
  Listing NFTs terminates and is complete. When the contract answers each request with the part
  of its list \<open>L\<close> that was asked for, and the fuel exceeds the number of full chunks of \<open>L\<close>, the
  loop returns all of \<open>L\<close> after one request per chunk and one for the last, partial one.
\<close>

theorem getNfts_reads_all:
  assumes "\<And>k. k \<le> length L div NFT_CHUNK_SIZE \<Longrightarrow>
      w_jsons W (tr @ map (nft_request c a) [0..<Suc k])
        = Inr (take NFT_CHUNK_SIZE (drop (NFT_CHUNK_SIZE * k) L))"
    and "length L div NFT_CHUNK_SIZE < e_fuel E"
  shows "getNfts E c a W tr =
     (Inr L, tr @ map (nft_request c a) [0..<Suc (length L div NFT_CHUNK_SIZE)])"
  unfolding getNfts_def
  using nft_chunks_reads [of 0 L W tr c a "e_fuel E"] assms by simp

definition nft_world :: world where
  "nft_world = quiet_world\<lparr>w_jsons := (\<lambda>tr. Inr [JObj [(''id'', JStr ''1'')]])\<rparr>"

theorem getNfts_reads_all_witness:
  "getNfts sample_env ''nft.near'' ''d.sputnik-dao.near'' nft_world [] =
     (Inr [JObj [(''id'', JStr ''1'')]], [nft_request ''nft.near'' ''d.sputnik-dao.near'' 0])"
  using getNfts_reads_all [of "[JObj [(''id'', JStr ''1'')]]" nft_world "[]" "''nft.near''"
      "''d.sputnik-dao.near''" sample_env]
  by (simp add: nft_world_def sample_env_def NFT_CHUNK_SIZE_def)

section \<open>Storing the NFTs of an account\<close>

text \<open>
  A failed listing empties the store. When the first listing request is rejected, the loop ends
  with no tokens; if \<open>loadNFT\<close> then succeeds, it has saved nothing and deleted every NFT of the
  account and the contract from the database, and its query of the table was for the items of type
  \<open>DaoStats\<close>, not for NFTs.
\<close>

theorem loadNFT_rejected_listing:
  assumes "loadNFT E c a timestamp blockId W tr = (Inr r, t)"
    and "w_jsons W (tr @ [Rpc (R_nftMetadata c blockId), nft_request c a 0]) = Inl e"
  shows "\<exists>items. t = tr @ [Rpc (R_nftMetadata c blockId), nft_request c a 0, Dyn (D_putNfts []),
      Sql (S_saveNfts []), Dyn (D_queryNfts a E_DaoStats c []), Dyn (D_deleteNfts items),
      Sql (S_deleteNfts a c [])]"
proof (cases "e_fuel E")
  case 0
  then show ?thesis
    using assms by (auto simp: loadNFT_def getNfts_def ok_iffs)
next
  case (Suc n)
  then show ?thesis
    using assms
    by (auto simp: loadNFT_def getNfts_def nft_request_def nft_createMultiple_def purge_def run_simps
        split: sum.splits)
qed

definition nft_down :: world where
  "nft_down = quiet_world\<lparr>
     w_json := (\<lambda>tr. Inr (JObj [])),
     w_jsons := (\<lambda>tr. if last tr = nft_request ''nft.near'' ''d'' 0 then Inl (Rejection ''429'')
       else Inr [])\<rparr>"

theorem loadNFT_rejected_listing_witness:
  "Sql (S_deleteNfts ''d'' ''nft.near'' [])
     \<in> set (snd (loadNFT sample_env ''nft.near'' ''d'' (Some ''1'') (Some ''b'') nft_down []))"
proof -
  have "loadNFT sample_env ''nft.near'' ''d'' (Some ''1'') (Some ''b'') nft_down [] =
      (Inr (JObj [], []), snd (loadNFT sample_env ''nft.near'' ''d'' (Some ''1'') (Some ''b'') nft_down []))"
    by (simp add: loadNFT_def getNfts_def nft_request_def nft_createMultiple_def purge_def run_simps
        nft_down_def quiet_world_def sample_env_def numeral_eq_Suc)
  from loadNFT_rejected_listing [OF this, of "Rejection ''429''"] show ?thesis
    by (auto simp: nft_down_def)
qed

end
