(* ===== verification/Dao_Service.thy ===== *)
theory Dao_Service
  imports Token_Service Proposal_Service
begin

text \<open>
  \<open>DaoService\<close> and \<open>DaoDynamoService\<close> of \<open>libs/dao/src\<close> and the DynamoDB model of a DAO
  (\<open>libs/dynamodb/src/models/dao.model.ts\<close>): storing a DAO with its counters and funds, its
  delegations, members, version, status and variant. The searches that only build SQL for the API
  are not modelled.
\<close>

section \<open>Models\<close>

definition mapRoleToDaoRoleModel :: "role \<Rightarrow> role" where
  "mapRoleToDaoRoleModel r =
     \<lparr> role_id = role_id r, role_name = role_name r, role_kind = role_kind r,
       role_balance = role_balance r, role_accountIds = role_accountIds r,
       role_permissions = role_permissions r, role_votePolicy = role_votePolicy r,
       role_policyDaoId = None \<rparr>"

definition mapPolicyDtoToDaoPolicyModel :: "policy \<Rightarrow> exn + policy" where
  "mapPolicyDtoToDaoPolicyModel p =
     (case pol_roles p of
        None \<Rightarrow> Inl (TypeError ''map'')
      | Some rs \<Rightarrow> Inr
          \<lparr> pol_daoId = None, pol_proposalBond = pol_proposalBond p,
            pol_bountyBond = pol_bountyBond p, pol_proposalPeriod = pol_proposalPeriod p,
            pol_bountyForgivenessPeriod = pol_bountyForgivenessPeriod p,
            pol_defaultVotePolicy = pol_defaultVotePolicy p,
            pol_roles = Some (map mapRoleToDaoRoleModel rs) \<rparr>)"

text \<open>The version, the delegations and the tokens are not part of this model.\<close>

definition mapDaoDtoToDaoModel :: "dao \<Rightarrow> exn + dyn_key \<times> dao" where
  "mapDaoDtoToDaoModel d =
     res_bind (case dao_policy d of None \<Rightarrow> Inr None
       | Some p \<Rightarrow> res_bind (mapPolicyDtoToDaoPolicyModel p) (\<lambda>p. Inr (Some p))) (\<lambda>pol.
     Inr (entity_key (Some (dao_id d)) E_Dao (dao_id d),
       \<lparr> isArchived = None, createdAt = None, updatedAt = None,
         transactionHash = transactionHash d, updateTransactionHash = updateTransactionHash d,
         createTimestamp = createTimestamp d, updateTimestamp = updateTimestamp d,
         dao_id = dao_id d, dao_config = dao_config d, dao_metadata = dao_metadata d,
         dao_amount = dao_amount d, dao_totalSupply = dao_totalSupply d,
         dao_lastBountyId = dao_lastBountyId d, dao_lastProposalId = dao_lastProposalId d,
         dao_stakingContract = dao_stakingContract d,
         dao_numberOfAssociates = dao_numberOfAssociates d,
         dao_numberOfMembers = dao_numberOfMembers d, dao_numberOfGroups = dao_numberOfGroups d,
         dao_council = dao_council d, dao_accountIds = dao_accountIds d,
         dao_councilSeats = dao_councilSeats d, dao_policy = pol, dao_link = dao_link d,
         dao_description = dao_description d, dao_createdBy = dao_createdBy d,
         dao_daoVersion = None, dao_status = dao_status d,
         dao_activeProposalCount = dao_activeProposalCount d,
         dao_totalProposalCount = dao_totalProposalCount d,
         dao_totalDaoFunds = dao_totalDaoFunds d, dao_bountyCount = dao_bountyCount d,
         dao_nftCount = dao_nftCount d, dao_delegations = None, dao_tokens = None \<rparr>))"

section \<open>DaoDynamoService\<close>

definition saveDao :: "dao \<Rightarrow> unit service" where
  "saveDao d = bnd (lift_res (mapDaoDtoToDaoModel d)) (\<lambda>(k, m). do_call (Dyn (D_save k (M_Dao m))))"

definition dao_save_item :: "string \<Rightarrow> dyn_model \<Rightarrow> unit service" where
  "dao_save_item daoId m = do_call (Dyn (D_save (dao_key daoId) m))"

definition dao_ids_key :: dyn_key where
  "dao_ids_key = entity_key (Some (entity_type_str E_DaoIds)) E_DaoIds ''1''"

definition getDaoIds :: "string list service" where
  "getDaoIds = bnd (dyn_get w_ids dao_ids_key) (\<lambda>m. ret (case m of None \<Rightarrow> [] | Some ids \<Rightarrow> ids))"

definition saveDaoId :: "string \<Rightarrow> unit service" where
  "saveDaoId daoId =
     bnd getDaoIds (\<lambda>daoIds. do_call (Dyn (D_save dao_ids_key (M_DaoIds (daoIds @ [daoId])))))"

definition saveDaoVersion :: "string \<Rightarrow> dao_version option \<Rightarrow> unit service" where
  "saveDaoVersion daoId version = dao_save_item daoId (M_DaoVersion version)"

definition dao_get :: "string \<Rightarrow> dao option service" where
  "dao_get daoId = dyn_get w_dao (dao_key daoId)"

text \<open>
  The spread \<open>{...old, ...delegation}\<close>: the caller passes all five properties, and a property that
  is \<open>undefined\<close> there replaces the old one as well.
\<close>

fun put_delegation :: "delegation \<Rightarrow> delegation list \<Rightarrow> delegation list" where
  "put_delegation dlg [] = [dlg]"
| "put_delegation dlg (d # delegations) =
     (if dlg_id d = dlg_id dlg
      then d\<lparr>dlg_id := dlg_id dlg, dlg_daoId := dlg_daoId dlg, dlg_accountId := dlg_accountId dlg,
             dlg_balance := dlg_balance dlg, dlg_delegators := dlg_delegators dlg\<rparr> # delegations
      else d # put_delegation dlg delegations)"

definition member_ids :: "string list \<Rightarrow> string list \<Rightarrow> string list" where
  "member_ids accountIds delegationAccounts =
     filter (\<lambda>a. a \<noteq> []) (set_order (accountIds @ delegationAccounts))"

definition daoDynamo_saveDelegation :: "delegation \<Rightarrow> unit service" where
  "daoDynamo_saveDelegation dlg =
     bnd (dao_get (dlg_daoId dlg)) (\<lambda>d.
     case d of
       None \<Rightarrow> ret ()
     | Some d \<Rightarrow>
         bnd (need ''findIndex'' (dao_delegations d)) (\<lambda>ds.
         let delegations = put_delegation dlg ds in
         bnd (need ''concat'' (dao_accountIds d)) (\<lambda>ids.
         let accountIds = member_ids ids (map dlg_accountId delegations) in
         dao_save_item (dlg_daoId dlg)
           (M_DaoDelegations delegations accountIds (int (length accountIds))))))"

definition getDelegations :: "string \<Rightarrow> delegation list option service" where
  "getDelegations daoId =
     bnd (dao_get daoId) (\<lambda>d. bnd (need ''delegations'' d) (\<lambda>d. ret (dao_delegations d)))"

section \<open>DaoService: reading\<close>

definition dao_findById :: "string \<Rightarrow> dao option service" where
  "dao_findById i =
     bnd (useDynamoDB ''dao-dynamo'') (\<lambda>dynamo.
       if dynamo then dao_get i else call (Sql (S_findEnabledDao i)) w_dao)"

definition dao_findOne :: "string \<Rightarrow> bool \<Rightarrow> dao option service" where
  "dao_findOne i relations = call (Sql (S_findDao i relations)) w_dao"

definition findByIds :: "string list option \<Rightarrow> dao list service" where
  "findByIds daoIds = call (Sql (S_findDaos daoIds)) w_daos"

definition findDaoIds :: "string list service" where
  "findDaoIds = bnd (call (Sql S_findDaoIds) w_daos) (\<lambda>daos. ret (map dao_id daos))"

definition getDelegationsByDaoId :: "string \<Rightarrow> delegation list option service" where
  "getDelegationsByDaoId daoId =
     bnd (useDynamoDB ''dao-dynamo'') (\<lambda>dynamo.
       if dynamo then getDelegations daoId
       else bnd (call (Sql (S_findDelegations daoId)) w_delegations) (\<lambda>ds. ret (Some ds)))"

definition getDelegationAccountsByDaoId :: "string \<Rightarrow> string list service" where
  "getDelegationAccountsByDaoId daoId =
     bnd (useDynamoDB ''dao-dynamo'') (\<lambda>dynamo.
       if dynamo then
         bnd (dao_get daoId) (\<lambda>d.
         ret (case d of None \<Rightarrow> []
              | Some d \<Rightarrow> (case dao_delegations d of None \<Rightarrow> [] | Some ds \<Rightarrow> map dlg_accountId ds)))
       else
         bnd (call (Sql (S_findDelegations daoId)) w_delegations) (\<lambda>ds. ret (map dlg_accountId ds)))"

definition getDaoMembers :: "string \<Rightarrow> string list option service" where
  "getDaoMembers daoId =
     bnd (dao_findOne daoId False) (\<lambda>d.
       case d of
         None \<Rightarrow> throw (HttpError 400 (''Invalid DAO ID '' @ daoId))
       | Some d \<Rightarrow> ret (dao_accountIds d))"

definition is_council_role :: "role \<Rightarrow> bool" where
  "is_council_role r \<longleftrightarrow> to_lower (role_name r) = ''council'' \<and> role_kind r = Group"

definition getCouncil :: "string \<Rightarrow> string list service" where
  "getCouncil daoId =
     bnd (dao_findOne daoId False) (\<lambda>d.
       case d of
         None \<Rightarrow> ret []
       | Some d \<Rightarrow>
           bnd (need ''roles'' (dao_policy d)) (\<lambda>p.
           bnd (need ''find'' (pol_roles p)) (\<lambda>rs.
           ret (case find is_council_role rs of None \<Rightarrow> []
                | Some r \<Rightarrow> (case role_accountIds r of None \<Rightarrow> [] | Some ids \<Rightarrow> ids)))))"

definition everyone_adds_proposal :: "role \<Rightarrow> bool" where
  "everyone_adds_proposal r \<longleftrightarrow> role_kind r = Everyone \<and> ''*:AddProposal'' \<in> set (role_permissions r)"

definition token_weighted :: "role \<Rightarrow> bool" where
  "token_weighted r \<longleftrightarrow>
     (case role_votePolicy r of None \<Rightarrow> False
      | Some vps \<Rightarrow> (case map_of vps ''*.*'' of
            Some (Some vp) \<Rightarrow> vp_weightKind vp = TokenWeight | _ \<Rightarrow> False))"

definition named_council :: "role \<Rightarrow> bool" where
  "named_council r \<longleftrightarrow> to_lower (role_name r) = ''council''"

definition getDaoVariant :: "dao \<Rightarrow> exn + dao_variant" where
  "getDaoVariant d =
     (case dao_policy d of
        None \<Rightarrow> Inl (TypeError ''roles'')
      | Some p \<Rightarrow> (case pol_roles p of
          None \<Rightarrow> Inl (TypeError ''some'')
        | Some rs \<Rightarrow>
            let canEveryoneAddProposal = list_ex everyone_adds_proposal rs;
                hasTokensVotingPower = list_ex token_weighted rs;
                hasCouncil = list_ex named_council rs in
            Inr (if \<not> canEveryoneAddProposal \<and> \<not> hasTokensVotingPower \<and> \<not> hasCouncil then Club
                 else if canEveryoneAddProposal \<and> \<not> hasTokensVotingPower \<and> hasCouncil then Foundation
                 else if \<not> canEveryoneAddProposal \<and> hasTokensVotingPower \<and> hasCouncil
                   then Corporation
                 else if \<not> canEveryoneAddProposal \<and> \<not> hasTokensVotingPower \<and> hasCouncil
                   then Cooperative
                 else Custom)))"

section \<open>DaoService: funds\<close>

text \<open>
  \<open>Number(text)\<close> for prices: decimal notation without an exponent; other texts count as \<open>NaN\<close>
  (\<open>None\<close>). The values are exact, without the rounding of doubles.
\<close>

definition decimal_value :: "string \<Rightarrow> rat option" where
  "decimal_value s =
     (let t = trim s; neg = starts_with t ''-'';
          u = (if neg \<or> starts_with t ''+'' then drop 1 t else t);
          sgn_of = (\<lambda>q :: rat. if neg then - q else q) in
      if t = [] then Some 0
      else case split_on CHR ''.'' u of
             [i] \<Rightarrow> if i \<noteq> [] \<and> list_all is_digit i then Some (sgn_of (of_nat (dec_val i))) else None
           | [i, f] \<Rightarrow>
               if (i \<noteq> [] \<or> f \<noteq> []) \<and> list_all is_digit (i @ f)
               then Some (sgn_of (of_nat (dec_val i) + of_nat (dec_val f) / 10 ^ length f))
               else None
           | _ \<Rightarrow> None)"

text \<open>A negative number of decimals makes \<open>BigInt(10) ** BigInt(decimals)\<close> a RangeError.\<close>

definition funds_of :: "string \<Rightarrow> string option \<Rightarrow> int \<Rightarrow> exn + rat" where
  "funds_of amount price decimals =
     (if decimals < 0 then
        res_bind (parse_bigint amount) (\<lambda>_. Inl (ThrownError ''RangeError''))
      else calculateFunds amount
             (case price of None \<Rightarrow> None | Some p \<Rightarrow> decimal_value p) (nat decimals))"

fun balance_parts :: "account_balance \<Rightarrow> string option \<times> string option \<times> int" where
  "balance_parts (AB_Sql b) =
     (case tb_token b of None \<Rightarrow> (tb_balance b, None, 0)
      | Some t \<Rightarrow> (tb_balance b, tok_price t, tok_decimals t))"
| "balance_parts (AB_Dyn m) = (tbm_balance m, tbm_price m, tbm_decimals m)"

definition given :: "string option \<Rightarrow> bool" where
  "given s \<longleftrightarrow> s \<noteq> None \<and> s \<noteq> Some []"

definition add_balance :: "rat \<Rightarrow> account_balance \<Rightarrow> exn + rat" where
  "add_balance acc b =
     (case balance_parts b of (balance, price, decimals) \<Rightarrow>
        if given balance \<and> given price \<and> decimals \<noteq> 0
        then res_bind (funds_of (the balance) price decimals) (\<lambda>v. Inr (acc + v))
        else Inr acc)"

definition calculateDaoFunds :: "string \<Rightarrow> string option \<Rightarrow> rat service" where
  "calculateDaoFunds daoId nearAmount =
     bnd (tokenBalancesByAccount daoId) (\<lambda>tokenBalances.
     bnd getNearToken (\<lambda>nearToken.
     bnd (lift_res
           (case nearToken of
              Some t \<Rightarrow> if given nearAmount
                         then funds_of (the nearAmount) (tok_price t) (tok_decimals t) else Inr 0
            | None \<Rightarrow> Inr 0)) (\<lambda>nearBalance.
     bnd (lift_res (fold_res add_balance 0 tokenBalances)) (\<lambda>tokenBalance.
     ret (nearBalance + tokenBalance)))))"

section \<open>DaoService: writing\<close>

text \<open>An option left out counts as false, except \<open>allowDynamo\<close> and \<open>saveToDynamo\<close>.\<close>

record dao_save_options =
  so_updateProposalsCount :: bool
  so_updateTotalDaoFunds :: bool
  so_updateBountiesCount :: bool
  so_updateNftsCount :: bool
  so_allowDynamo :: bool
  so_saveToDynamo :: bool

definition no_options :: dao_save_options where
  "no_options = \<lparr> so_updateProposalsCount = False, so_updateTotalDaoFunds = False,
     so_updateBountiesCount = False, so_updateNftsCount = False, so_allowDynamo = True,
     so_saveToDynamo = True \<rparr>"

definition update_proposal_counts :: "dao_save_options \<Rightarrow> dao \<Rightarrow> dao \<Rightarrow> dao service" where
  "update_proposal_counts opts d data =
     (if so_updateProposalsCount opts then
        bnd (all_act (\<lambda>count. count (dao_id d)) [getDaoProposalCount, getDaoActiveProposalCount])
          (\<lambda>counts. ret (data\<lparr>dao_totalProposalCount := Some (counts ! 0),
                              dao_activeProposalCount := Some (counts ! 1)\<rparr>))
      else ret data)"

definition update_funds :: "dao_save_options \<Rightarrow> dao \<Rightarrow> dao \<Rightarrow> dao service" where
  "update_funds opts d data =
     (if so_updateTotalDaoFunds opts then
        bnd (calculateDaoFunds (dao_id d) (dao_amount d)) (\<lambda>funds.
        ret (data\<lparr>dao_totalDaoFunds := Some funds\<rparr>))
      else ret data)"

definition update_bounty_count :: "dao_save_options \<Rightarrow> dao \<Rightarrow> dao \<Rightarrow> dao service" where
  "update_bounty_count opts d data =
     (if so_updateBountiesCount opts then
        bnd (getDaoActiveBountiesCount (dao_id d) (so_allowDynamo opts)) (\<lambda>n.
        ret (data\<lparr>dao_bountyCount := Some n\<rparr>))
      else ret data)"

definition update_nft_count :: "dao_save_options \<Rightarrow> dao \<Rightarrow> dao \<Rightarrow> dao service" where
  "update_nft_count opts d data =
     (if so_updateNftsCount opts then
        bnd (getAccountTokenCount (dao_id d) (so_allowDynamo opts)) (\<lambda>n.
        ret (data\<lparr>dao_nftCount := Some n\<rparr>))
      else ret data)"

definition dao_save :: "dao \<Rightarrow> dao_save_options \<Rightarrow> unit service" where
  "dao_save d opts =
     bnd (update_proposal_counts opts d d) (\<lambda>data.
     bnd (update_funds opts d data) (\<lambda>data.
     bnd (update_bounty_count opts d data) (\<lambda>data.
     bnd (update_nft_count opts d data) (\<lambda>data.
     thn (when_act (so_saveToDynamo opts) (saveDao data))
         (do_call (Sql (S_saveDao data)))))))"

definition MILLIS_PER_DAY :: int where
  "MILLIS_PER_DAY = 24 * 60 * 60 * 1000"

definition getDaoStatus :: "dao \<Rightarrow> dao_status service" where
  "getDaoStatus d =
     (if dao_status d = Some DS_Disabled then ret DS_Disabled
      else bnd (peek w_now) (\<lambda>now.
        bnd (call (Sql (S_countRecentProposals (dao_id d)
               (getBlockTimestamp (now - MILLIS_PER_DAY)))) w_num) (\<lambda>activeProposalCount.
        ret (if activeProposalCount > 0 then DS_Active else DS_Inactive))))"

definition updateDaoStatus :: "dao \<Rightarrow> unit service" where
  "updateDaoStatus d =
     bnd (getDaoStatus d) (\<lambda>status.
       if dao_status d \<noteq> Some status
       then do_call (Sql (S_saveDao (d\<lparr>dao_status := Some status\<rparr>)))
       else ret ())"

definition updateDaoMembers :: "string \<Rightarrow> unit service" where
  "updateDaoMembers daoId =
     bnd (dao_findOne daoId False) (\<lambda>d.
     bnd (getDelegationAccountsByDaoId daoId) (\<lambda>delegationAccounts.
     bnd (need ''accountIds'' d) (\<lambda>d.
     bnd (need ''concat'' (dao_accountIds d)) (\<lambda>ids.
     let accountIds = member_ids ids delegationAccounts in
     do_call (Sql (S_saveDao (d\<lparr>dao_accountIds := Some accountIds,
       dao_numberOfMembers := Some (int (length accountIds))\<rparr>)))))))"

definition loadDaoVersions :: "unit service" where
  "loadDaoVersions =
     bnd (call (Rpc R_contractsMetadata) w_versions) (\<lambda>daoVersions.
     do_call (Sql (S_saveVersions daoVersions)))"

definition getDaoVersionById :: "string \<Rightarrow> dao_version option service" where
  "getDaoVersionById i =
     bnd (useDynamoDB ''dao-dynamo'') (\<lambda>dynamo.
     bnd (if dynamo then call (Rpc R_contractsMetadata) w_versions
          else call (Sql S_findVersions) w_versions) (\<lambda>versions.
     bnd (call (Rpc (R_versionHash i)) w_str) (\<lambda>daoVersionHash.
     ret (find (\<lambda>v. daoVersionHash = dv_hash v) versions))))"

definition setDaoVersion :: "string \<Rightarrow> string option service" where
  "setDaoVersion i =
     bnd (getDaoVersionById i) (\<lambda>version.
     thn (saveDaoVersion i version)
    (thn (do_call (Sql (S_saveDaoVersion i (map_option dv_hash version))))
         (ret (map_option dv_hash version))))"

text \<open>The relational store keeps the columns that are not given.\<close>

definition dao_saveDelegation ::
    "string \<Rightarrow> string \<Rightarrow> string option \<Rightarrow> (string \<times> string) list option \<Rightarrow> unit service" where
  "dao_saveDelegation daoId accountId balance delegators =
     (let dlg = \<lparr> dlg_id = buildDelegationId daoId accountId, dlg_daoId = daoId,
            dlg_accountId = accountId, dlg_balance = balance, dlg_delegators = delegators \<rparr> in
      thn (daoDynamo_saveDelegation dlg) (do_call (Sql (S_saveDelegation dlg))))"


section \<open>Storing a DAO\<close>

lemma lift_res_Inr_iff: "lift_res r W tr = (Inr x, t) \<longleftrightarrow> r = Inr x \<and> t = tr"
  by (auto simp: lift_res_def)

lemma call_Inr_iff: "call c g W tr = (Inr x, t) \<longleftrightarrow> g W (tr @ [c]) = Inr x \<and> t = tr @ [c]"
  by (auto simp: call_iff)

lemma keeps_saveDao: "keeps is_dyn (saveDao d)"
  unfolding saveDao_def do_call_def
  by (intro keeps_intros) (auto simp: split_beta intro!: keeps_call)

interpretation daos: dual_write "\<lambda>d. thn (saveDao d) (do_call (Sql (S_saveDao d)))" saveDao S_saveDao
  by unfold_locales (rule refl, rule keeps_saveDao)

lemma mapDaoDtoToDaoModel_key:
  "mapDaoDtoToDaoModel d = Inr (k, m) \<Longrightarrow>
     k = dao_key (dao_id d) \<and> dao_accountIds m = dao_accountIds d
     \<and> dao_numberOfMembers m = dao_numberOfMembers d
     \<and> dao_totalProposalCount m = dao_totalProposalCount d
     \<and> dao_activeProposalCount m = dao_activeProposalCount d
     \<and> dao_totalDaoFunds m = dao_totalDaoFunds d \<and> dao_bountyCount m = dao_bountyCount d
     \<and> dao_nftCount m = dao_nftCount d \<and> dao_amount m = dao_amount d
     \<and> dao_delegations m = None \<and> dao_tokens m = None"
  by (auto simp: mapDaoDtoToDaoModel_def res_bind_Inr_iff dao_key_def)

text \<open>\<open>counters_only opts d data\<close>: the saved data differs from the DAO in the requested counters only.\<close>

definition counters_only :: "dao_save_options \<Rightarrow> dao \<Rightarrow> dao \<Rightarrow> bool" where
  "counters_only opts d data \<longleftrightarrow>
     data = d\<lparr>dao_totalProposalCount := (if so_updateProposalsCount opts
                 then dao_totalProposalCount data else dao_totalProposalCount d),
              dao_activeProposalCount := (if so_updateProposalsCount opts
                 then dao_activeProposalCount data else dao_activeProposalCount d),
              dao_totalDaoFunds := (if so_updateTotalDaoFunds opts
                 then dao_totalDaoFunds data else dao_totalDaoFunds d),
              dao_bountyCount := (if so_updateBountiesCount opts
                 then dao_bountyCount data else dao_bountyCount d),
              dao_nftCount := (if so_updateNftsCount opts
                 then dao_nftCount data else dao_nftCount d)\<rparr>"

lemma dao_save_data:
  assumes "dao_save d opts W tr = (Inr u, t)"
  obtains data t' where "counters_only opts d data"
    and "thn (when_act (so_saveToDynamo opts) (saveDao data)) (do_call (Sql (S_saveDao data))) W t'
       = (Inr u, t)"
proof -
  obtain d1 t1 where 1: "update_proposal_counts opts d d W tr = (Inr d1, t1)"
    and r1: "bnd (update_funds opts d d1) (\<lambda>data. bnd (update_bounty_count opts d data) (\<lambda>data.
       bnd (update_nft_count opts d data) (\<lambda>data.
       thn (when_act (so_saveToDynamo opts) (saveDao data)) (do_call (Sql (S_saveDao data)))))) W t1
       = (Inr u, t)"
    using assms unfolding dao_save_def bnd_Inr_iff by blast
  obtain d2 t2 where 2: "update_funds opts d d1 W t1 = (Inr d2, t2)"
    and r2: "bnd (update_bounty_count opts d d2) (\<lambda>data. bnd (update_nft_count opts d data) (\<lambda>data.
       thn (when_act (so_saveToDynamo opts) (saveDao data)) (do_call (Sql (S_saveDao data))))) W t2
       = (Inr u, t)"
    using r1 unfolding bnd_Inr_iff by blast
  obtain d3 t3 where 3: "update_bounty_count opts d d2 W t2 = (Inr d3, t3)"
    and r3: "bnd (update_nft_count opts d d3) (\<lambda>data.
       thn (when_act (so_saveToDynamo opts) (saveDao data)) (do_call (Sql (S_saveDao data)))) W t3
       = (Inr u, t)"
    using r2 unfolding bnd_Inr_iff by blast
  obtain d4 t4 where 4: "update_nft_count opts d d3 W t3 = (Inr d4, t4)"
    and r4: "thn (when_act (so_saveToDynamo opts) (saveDao d4)) (do_call (Sql (S_saveDao d4))) W t4
       = (Inr u, t)"
    using r3 unfolding bnd_Inr_iff by blast
  have "\<exists>a b. d1 = (if so_updateProposalsCount opts
      then d\<lparr>dao_totalProposalCount := a, dao_activeProposalCount := b\<rparr> else d)"
    using 1 by (auto simp: update_proposal_counts_def bnd_Inr_iff ret_iff split: if_splits)
  moreover have "\<exists>a. d2 = (if so_updateTotalDaoFunds opts then d1\<lparr>dao_totalDaoFunds := a\<rparr> else d1)"
    using 2 by (auto simp: update_funds_def bnd_Inr_iff ret_iff split: if_splits)
  moreover have "\<exists>a. d3 = (if so_updateBountiesCount opts then d2\<lparr>dao_bountyCount := a\<rparr> else d2)"
    using 3 by (auto simp: update_bounty_count_def bnd_Inr_iff ret_iff split: if_splits)
  moreover have "\<exists>a. d4 = (if so_updateNftsCount opts then d3\<lparr>dao_nftCount := a\<rparr> else d3)"
    using 4 by (auto simp: update_nft_count_def bnd_Inr_iff ret_iff split: if_splits)
  ultimately have "counters_only opts d d4"
    by (auto simp: counters_only_def)
  with r4 show thesis using that by blast
qed

text \<open>
  C36. Saving a DAO. When \<open>save\<close> succeeds with the default options for the stores, its last two calls
  put the DAO into the table under its id and save it to the database; both get the same data, which
  differs from the given DAO only in the counters and funds the options asked to refresh, and the
  item of the table carries neither delegations nor tokens.
\<close>

theorem dao_save_both:
  assumes "dao_save d opts W tr = (Inr u, t)" and "so_saveToDynamo opts"
  shows "\<exists>t' data m. t = t' @ [Dyn (D_save (dao_key (dao_id d)) (M_Dao m)), Sql (S_saveDao data)]
     \<and> counters_only opts d data
     \<and> dao_accountIds m = dao_accountIds data \<and> dao_numberOfMembers m = dao_numberOfMembers data
     \<and> dao_totalProposalCount m = dao_totalProposalCount data
     \<and> dao_activeProposalCount m = dao_activeProposalCount data
     \<and> dao_totalDaoFunds m = dao_totalDaoFunds data \<and> dao_bountyCount m = dao_bountyCount data
     \<and> dao_nftCount m = dao_nftCount data \<and> dao_delegations m = None \<and> dao_tokens m = None"
proof -
  obtain data t' where c: "counters_only opts d data"
    and s: "thn (saveDao data) (do_call (Sql (S_saveDao data))) W t' = (Inr u, t)"
    using dao_save_data [OF assms(1)] assms(2) by (auto simp: when_act_def)
  obtain ds where t: "t = t' @ ds @ [Sql (S_saveDao data)]"
    and d: "saveDao data W t' = (Inr (), t' @ ds)"
    using daos.save_sql_last [OF s] by auto
  obtain k m where km: "mapDaoDtoToDaoModel data = Inr (k, m)" and "ds = [Dyn (D_save k (M_Dao m))]"
    using d by (auto simp: saveDao_def bnd_Inr_iff lift_res_Inr_iff)
  moreover have "dao_id data = dao_id d"
    by (subst c [unfolded counters_only_def]) simp
  ultimately show ?thesis using t c mapDaoDtoToDaoModel_key [OF km] by auto
qed

section \<open>The funds\<close>

lemma calculateFunds_nonneg: "calculateFunds amount price decimals = Inr v \<Longrightarrow> 0 \<le> v"
  by (auto simp: calculateFunds_def res_bind_Inr_iff Let_def split: option.splits)

lemma funds_of_nonneg: "funds_of amount price decimals = Inr v \<Longrightarrow> 0 \<le> v"
  by (auto simp: funds_of_def res_bind_Inr_iff dest: calculateFunds_nonneg split: if_splits)

lemma add_balance_shift:
  "add_balance acc b = res_bind (add_balance 0 b) (\<lambda>v. Inr (acc + v))"
proof -
  obtain balance price decimals where p: "balance_parts b = (balance, price, decimals)"
    by (cases "balance_parts b") auto
  show ?thesis
    by (cases "funds_of (the balance) price decimals") (simp_all add: add_balance_def p)
qed

lemma add_balance_nonneg: "add_balance 0 b = Inr v \<Longrightarrow> 0 \<le> v"
  by (auto simp: add_balance_def res_bind_Inr_iff dest: funds_of_nonneg
      split: prod.splits if_splits)

lemma fold_add_balance:
  "fold_res add_balance acc bs = Inr v \<longleftrightarrow>
     (\<exists>ws. map_res (add_balance 0) bs = Inr ws \<and> v = acc + sum_list ws)"
proof (induction bs arbitrary: acc)
  case (Cons b bs)
  have "fold_res add_balance acc (b # bs) = Inr v \<longleftrightarrow>
      (\<exists>w. add_balance 0 b = Inr w \<and> fold_res add_balance (acc + w) bs = Inr v)"
    by (subst fold_res.simps, subst add_balance_shift) (auto simp: res_bind_Inr_iff)
  also have "\<dots> \<longleftrightarrow> (\<exists>w. add_balance 0 b = Inr w
      \<and> (\<exists>ws. map_res (add_balance 0) bs = Inr ws \<and> v = acc + w + sum_list ws))"
    unfolding Cons.IH ..
  also have "\<dots> \<longleftrightarrow> (\<exists>ws. map_res (add_balance 0) (b # bs) = Inr ws \<and> v = acc + sum_list ws)"
    by (cases "add_balance 0 b"; cases "map_res (add_balance 0) bs") (simp_all add: add.assoc)
  finally show ?case .
qed auto

text \<open>
  The total funds of a DAO are the value of its NEAR amount plus the sum of the values of its
  token balances, whichever store the balances come from; every one of these values, and so the
  total, is at least zero, whatever prices and amounts are recorded.
\<close>

theorem calculateDaoFunds_sum:
  "case fst (calculateDaoFunds daoId nearAmount W tr) of
     Inl e \<Rightarrow> True
   | Inr v \<Rightarrow> \<exists>bs values near t'. tokenBalancesByAccount daoId W tr = (Inr bs, t')
       \<and> map_res (add_balance 0) bs = Inr values \<and> list_all (\<lambda>x. 0 \<le> x) values \<and> 0 \<le> near
       \<and> v = near + sum_list values \<and> 0 \<le> v"
proof (cases "fst (calculateDaoFunds daoId nearAmount W tr)")
  case (Inl e)
  then show ?thesis by simp
next
  case (Inr v)
  then obtain t' where "calculateDaoFunds daoId nearAmount W tr = (Inr v, t')"
    by (metis prod.collapse)
  then obtain bs near bal t1 and nt :: "token option" where
    near: "(case nt of Some t \<Rightarrow> if given nearAmount
        then funds_of (the nearAmount) (tok_price t) (tok_decimals t) else Inr 0
      | None \<Rightarrow> Inr 0) = Inr near"
    and bs: "tokenBalancesByAccount daoId W tr = (Inr bs, t1)"
    and bal: "fold_res add_balance 0 bs = Inr bal" and v: "v = near + bal"
    unfolding calculateDaoFunds_def bnd_Inr_iff lift_res_Inr_iff ret_iff sum.inject by blast
  obtain ws where ws: "map_res (add_balance 0) bs = Inr ws" "bal = sum_list ws"
    using bal by (auto simp: fold_add_balance)
  then have "list_all (\<lambda>x. 0 \<le> x) ws"
    by (auto simp: list_all_iff map_res_Inr_set dest: add_balance_nonneg)
  moreover from this have "0 \<le> sum_list ws"
    by (simp add: list_all_iff sum_list_nonneg)
  moreover have "0 \<le> near"
    using near funds_of_nonneg by (auto split: option.splits if_splits)
  ultimately show ?thesis using Inr v ws bs by auto
qed

section \<open>Delegations and members\<close>

interpretation delegations: keyed_list dlg_id put_delegation
proof
  show "put_delegation x xs = xs @ [x]" if "dlg_id x \<notin> dlg_id ` set xs" for x xs
    using that by (induction xs) auto
  show "\<exists>y'. put_delegation x (ys @ y # zs) = ys @ y' # zs \<and> dlg_id y' = dlg_id x"
    if "dlg_id y = dlg_id x" "dlg_id x \<notin> dlg_id ` set ys" for x y ys zs
    using that by (induction ys) auto
qed

lemma put_delegation_mem: "dlg \<in> set (put_delegation dlg ds)"
  by (induction ds) auto

lemma member_ids_simps [simp]:
  "distinct (member_ids a b)" "set (member_ids a b) = (set a \<union> set b) - {[]}"
  by (auto simp: member_ids_def)

text \<open>
  The delegations of a DAO after one is saved in the table. Nothing is written for a DAO that is
  not there. Otherwise the delegation is stored exactly as given, also where its balance or its
  delegators are missing; all other delegations stay as they are, ids stay distinct, and the members
  are the stored accounts and all delegation accounts, without duplicates and empty ids, with their
  count. A DAO stored without a list of delegations makes it throw before anything is written.
\<close>

theorem daoDynamo_saveDelegation_spec:
  "case daoDynamo_saveDelegation dlg W tr of (r, t) \<Rightarrow>
     let key = dao_key (dlg_daoId dlg); read = tr @ [Dyn (D_get key)];
         stored = (case w_dao W read of Inl e \<Rightarrow> None | Inr v \<Rightarrow> v) in
     (case stored of
        None \<Rightarrow> r = Inr () \<and> t = read
      | Some d \<Rightarrow> (case dao_delegations d of
          None \<Rightarrow> r = Inl (TypeError ''findIndex'') \<and> t = read
        | Some ds \<Rightarrow> (case dao_accountIds d of
            None \<Rightarrow> r = Inl (TypeError ''concat'') \<and> t = read
          | Some ids \<Rightarrow> \<exists>ds' accountIds.
              t = read @ [Dyn (D_save key (M_DaoDelegations ds' accountIds (int (length accountIds))))]
              \<and> r = w_ack W t
              \<and> dlg \<in> set ds'
              \<and> filter (\<lambda>x. dlg_id x \<noteq> dlg_id dlg) ds' = filter (\<lambda>x. dlg_id x \<noteq> dlg_id dlg) ds
              \<and> distinct (map dlg_id ds') = distinct (map dlg_id ds)
              \<and> distinct accountIds
              \<and> set accountIds = (set ids \<union> dlg_accountId ` set ds') - {[]})))"
  using delegations.filter_put [of dlg] delegations.distinct_put [of dlg]
  by (auto simp: daoDynamo_saveDelegation_def dao_get_def dao_save_item_def run_simps Let_def
      put_delegation_mem simp del: set_filter split: option.splits sum.splits)

text \<open>
  Recomputing the members. \<open>updateDaoMembers\<close> saves the DAO it has read with the union of its
  accounts and the delegation accounts as members, each once and none empty, and the number of
  members is their number; nothing else of the DAO changes.
\<close>

theorem updateDaoMembers_consistent:
  "case updateDaoMembers daoId W tr of (r, t) \<Rightarrow>
     (case r of
        Inl e \<Rightarrow> True
      | Inr u \<Rightarrow> \<exists>d ids accounts members t'.
          w_dao W (tr @ [Sql (S_findDao daoId False)]) = Inr (Some d) \<and> dao_accountIds d = Some ids
          \<and> getDelegationAccountsByDaoId daoId W (tr @ [Sql (S_findDao daoId False)]) = (Inr accounts, t')
          \<and> distinct members \<and> set members = (set ids \<union> set accounts) - {[]}
          \<and> t = t' @ [Sql (S_saveDao (d\<lparr>dao_accountIds := Some members,
                dao_numberOfMembers := Some (int (length members))\<rparr>))])"
proof (cases "updateDaoMembers daoId W tr")
  case (Pair r t)
  show ?thesis
  proof (cases r)
    case (Inl e)
    then show ?thesis using Pair by simp
  next
    case (Inr u)
    with Pair obtain d accounts t' ids where
      "w_dao W (tr @ [Sql (S_findDao daoId False)]) = Inr (Some d)"
      "getDelegationAccountsByDaoId daoId W (tr @ [Sql (S_findDao daoId False)]) = (Inr accounts, t')"
      "dao_accountIds d = Some ids"
      "t = t' @ [Sql (S_saveDao (d\<lparr>dao_accountIds := Some (member_ids ids accounts),
         dao_numberOfMembers := Some (int (length (member_ids ids accounts)))\<rparr>))]"
      by (auto simp: updateDaoMembers_def dao_findOne_def bnd_Inr_iff need_iff call_Inr_iff Let_def)
    then show ?thesis using Pair Inr
      by (simp del: set_filter) (metis member_ids_simps)
  qed
qed


definition empty_dao :: "string \<Rightarrow> dao" where
  "empty_dao i =
     \<lparr> isArchived = None, createdAt = None, updatedAt = None, transactionHash = None,
       updateTransactionHash = None, createTimestamp = None, updateTimestamp = None, dao_id = i,
       dao_config = None, dao_metadata = JUndef, dao_amount = None, dao_totalSupply = None,
       dao_lastBountyId = None, dao_lastProposalId = None, dao_stakingContract = None,
       dao_numberOfAssociates = None, dao_numberOfMembers = None, dao_numberOfGroups = None,
       dao_council = None, dao_accountIds = None, dao_councilSeats = None, dao_policy = None,
       dao_link = None, dao_description = None, dao_createdBy = None, dao_daoVersion = None,
       dao_status = None, dao_activeProposalCount = None, dao_totalProposalCount = None,
       dao_totalDaoFunds = None, dao_bountyCount = None, dao_nftCount = None,
       dao_delegations = None, dao_tokens = None \<rparr>"

lemma empty_dao_id [simp]: "dao_id (empty_dao i) = i"
  by (simp add: empty_dao_def)

theorem dao_save_both_witness:
  "\<exists>t' data m. snd (dao_save (empty_dao ''d'') (no_options\<lparr>so_updateProposalsCount := True\<rparr>)
       quiet_world []) = t' @ [Dyn (D_save (dao_key ''d'') (M_Dao m)), Sql (S_saveDao data)]
     \<and> dao_totalProposalCount m = dao_totalProposalCount data"
proof -
  let ?o = "no_options\<lparr>so_updateProposalsCount := True\<rparr>"
  have "dao_save (empty_dao ''d'') ?o quiet_world [] =
      (Inr (), snd (dao_save (empty_dao ''d'') ?o quiet_world []))"
    by (simp add: dao_save_def update_proposal_counts_def update_funds_def update_bounty_count_def
        update_nft_count_def getDaoProposalCount_def getDaoActiveProposalCount_def useDynamoDB_def
        saveDao_def mapDaoDtoToDaoModel_def run_simps quiet_world_def no_options_def empty_dao_def)
  from dao_save_both [OF this] show ?thesis
    by (auto simp: no_options_def)
qed

section \<open>The version\<close>

text \<open>
  The version of a DAO. When \<open>setDaoVersion\<close> succeeds, both stores have been given the same
  version, last the database; it is the first of the known versions whose hash is the hash of the
  deployed contract, and no version when there is none.
\<close>

theorem setDaoVersion_stores:
  "case setDaoVersion i W tr of (r, t) \<Rightarrow>
     (case r of
        Inl e \<Rightarrow> True
      | Inr h \<Rightarrow> \<exists>t' versions hash v. t = t' @ [Rpc (R_versionHash i),
            Dyn (D_save (dao_key i) (M_DaoVersion v)), Sql (S_saveDaoVersion i h)]
          \<and> w_versions W t' = Inr versions \<and> w_str W (t' @ [Rpc (R_versionHash i)]) = Inr hash
          \<and> v = find (\<lambda>x. dv_hash x = hash) versions \<and> h = map_option dv_hash v
          \<and> (h = None \<or> h = Some hash))"
proof -
  have find: "find (\<lambda>x. hash = dv_hash x) vs = find (\<lambda>x. dv_hash x = hash) vs"
    and hash: "map_option dv_hash (find (\<lambda>x. dv_hash x = hash) vs) = None
      \<or> map_option dv_hash (find (\<lambda>x. dv_hash x = hash) vs) = Some hash" for hash and vs :: "dao_version list"
  proof -
    show "find (\<lambda>x. hash = dv_hash x) vs = find (\<lambda>x. dv_hash x = hash) vs" by metis
    show "map_option dv_hash (find (\<lambda>x. dv_hash x = hash) vs) = None
      \<or> map_option dv_hash (find (\<lambda>x. dv_hash x = hash) vs) = Some hash"
      by (cases "find (\<lambda>x. dv_hash x = hash) vs") (auto simp: find_Some_iff)
  qed
  show ?thesis
    using hash by (auto simp: setDaoVersion_def getDaoVersionById_def useDynamoDB_def saveDaoVersion_def
        dao_save_item_def run_simps find split: sum.splits)
qed

end
