(* ===== verification/Search_Service.thy ===== *)
theory Search_Service
  imports Dao_Service
begin

text \<open>
  \<open>OpensearchService\<close> (\<open>libs/opensearch/src\<close>) for DAOs, proposals and bounties: the documents
  built from the entities (\<open>dto/*-opensearch.dto.ts\<close>) and the calls that index or remove them.
\<close>

section \<open>Documents\<close>

definition mapDaoToOpensearchDto :: "dao \<Rightarrow> search_doc" where
  "mapDaoToOpensearchDto d =
     Doc_Dao
       \<lparr> doc_id = dao_id d, doc_name = js_get_opt (dao_metadata d) ''displayName'',
         doc_description = dao_description d,
         doc_accounts = join_with '' ''
           (set_order (case dao_accountIds d of None \<Rightarrow> [] | Some ids \<Rightarrow> ids)) \<rparr> d"

text \<open>The properties of a kind object besides its type, as the code reads them.\<close>

definition js_of_config :: "sputnik_dao_config \<Rightarrow> jsval" where
  "js_of_config c = JObj [(''name'', JStr (cfg_name c)), (''purpose'', JStr (cfg_purpose c)),
     (''metadata'', JStr (cfg_metadata c))]"

definition js_of_action_call :: "action_call \<Rightarrow> jsval" where
  "js_of_action_call a = JObj [(''methodName'', JStr (ac_methodName a)), (''args'', JStr (ac_args a)),
     (''deposit'', JStr (ac_deposit a)), (''gas'', JNum (ac_gas a))]"

definition js_of_bounty :: "sputnik_bounty \<Rightarrow> jsval" where
  "js_of_bounty b = JObj [(''description'', JStr (sb_description b)), (''token'', JStr (sb_token b)),
     (''amount'', JStr (sb_amount b)), (''times'', JNum (sb_times b)),
     (''maxDeadline'', JStr (sb_max_deadline b))]"

fun kind_props :: "proposal_kind \<Rightarrow> (string \<times> jsval) list" where
  "kind_props (K_ChangeConfig c) = [(''config'', js_of_config c)]"
| "kind_props (K_ChangePolicy p) = [(''policy'', p)]"
| "kind_props (K_AddMemberToRole m r) = [(''memberId'', JStr m), (''role'', JStr r)]"
| "kind_props (K_RemoveMemberFromRole m r) = [(''memberId'', JStr m), (''role'', JStr r)]"
| "kind_props (K_FunctionCall r acs) =
     [(''receiverId'', JStr r), (''actions'', JArr (map js_of_action_call acs))]"
| "kind_props (K_UpgradeSelf h) = [(''hash'', JStr h)]"
| "kind_props (K_UpgradeRemote r m h) =
     [(''receiverId'', JStr r), (''methodName'', JStr m), (''hash'', JStr h)]"
| "kind_props (K_Transfer tk r a m) =
     [(''tokenId'', JStr tk), (''receiverId'', JStr r), (''amount'', JStr a), (''msg'', js_of_opt m)]"
| "kind_props (K_SetStakingContract s) = [(''stakingId'', JStr s)]"
| "kind_props (K_AddBounty b) = [(''bounty'', js_of_bounty b)]"
| "kind_props (K_BountyDone b r) = [(''bountyId'', JNum b), (''receiverId'', JStr r)]"
| "kind_props K_Vote = []"

definition kind_value :: "proposal_kind option \<Rightarrow> jsval" where
  "kind_value k = (case k of None \<Rightarrow> JUndef | Some k \<Rightarrow> JObj (kind_props k))"

text \<open>Destructuring the named properties of the kind.\<close>

definition take_props :: "string list \<Rightarrow> jsval \<Rightarrow> exn + (string \<times> jsval) list" where
  "take_props ks v = map_res (\<lambda>k. res_bind (js_get v k) (\<lambda>x. Inr (k, x))) ks"

definition stringified :: "(jsval \<Rightarrow> string) \<Rightarrow> jsval \<Rightarrow> jsval" where
  "stringified stringify v = (if v = JUndef then JUndef else JStr (stringify v))"

fun kind_fields ::
    "(jsval \<Rightarrow> string) \<Rightarrow> proposal_type \<Rightarrow> jsval \<Rightarrow> exn + (string \<times> jsval) list" where
  "kind_fields stringify AddBounty kind =
     res_bind (js_get kind ''bounty'') (\<lambda>b.
     res_bind (take_props [''id'', ''amount'', ''bountyClaims'', ''bountyId'', ''description'',
       ''token'', ''times'', ''numberOfClaims'', ''maxDeadline''] b) (\<lambda>fs.
     Inr [(''bounty'', JObj fs)]))"
| "kind_fields stringify ChangeConfig kind = take_props [''config''] kind"
| "kind_fields stringify ChangePolicy kind =
     res_bind (js_get kind ''policy'') (\<lambda>p. Inr [(''policy'', stringified stringify p)])"
| "kind_fields stringify AddMemberToRole kind = take_props [''memberId'', ''role''] kind"
| "kind_fields stringify RemoveMemberFromRole kind = take_props [''memberId'', ''role''] kind"
| "kind_fields stringify FunctionCall kind = take_props [''actions'', ''receiverId''] kind"
| "kind_fields stringify UpgradeSelf kind = take_props [''hash''] kind"
| "kind_fields stringify UpgradeRemote kind = take_props [''hash'', ''methodName'', ''receiverId''] kind"
| "kind_fields stringify Transfer kind =
     take_props [''amount'', ''receiverId'', ''tokenId'', ''msg''] kind"
| "kind_fields stringify SetStakingContract kind = take_props [''stakingId''] kind"
| "kind_fields stringify BountyDone kind = take_props [''bountyId'', ''receiverId''] kind"
| "kind_fields stringify Vote kind = Inr []"

definition mapProposalToOpensearchDto :: "env \<Rightarrow> proposal \<Rightarrow> dao option \<Rightarrow> exn + search_doc" where
  "mapProposalToOpensearchDto E p d =
     res_bind (kind_fields (e_json_stringify E) (prp_type p) (kind_value (prp_kind p))) (\<lambda>fs.
     Inr (Doc_Proposal
       \<lparr> doc_id = prp_id p, doc_name = JStr (prp_id p), doc_description = Some (prp_description p),
         doc_accounts = join_with '' '' (set_order (prp_proposer p # map fst (prp_votes p))) \<rparr>
       p (map_option mapDaoToOpensearchDto d) fs))"

text \<open>
  In the accounts of a bounty, a missing proposer is an empty word, and the accounts of a proposal
  that completes it are one array, which \<open>join\<close> writes with commas and the set never merges.
\<close>

definition mapBountyToOpensearchDto :: "env \<Rightarrow> bounty \<Rightarrow> bounty_relations \<Rightarrow> exn + search_doc" where
  "mapBountyToOpensearchDto E b rel =
     (let prop_count = (case br_context rel of None \<Rightarrow> (None, None) | Some c \<Rightarrow> c);
          p = fst prop_count;
          proposer = map_option prp_proposer p;
          voters = (case p of None \<Rightarrow> [] | Some p \<Rightarrow> map fst (prp_votes p)) in
      res_bind (case bnt_bountyClaims b of None \<Rightarrow> Inl (TypeError ''map'') | Some cs \<Rightarrow> Inr cs) (\<lambda>cs.
      res_bind (case br_doneProposals rel of
          None \<Rightarrow> Inl (TypeError ''iterable'') | Some ps \<Rightarrow> Inr ps) (\<lambda>done_proposals.
      let single = set_order (map (\<lambda>c. Some (bc_accountId c)) cs @ [proposer] @ map Some voters);
          accountIds = map (\<lambda>a. case a of None \<Rightarrow> [] | Some a \<Rightarrow> a) single
            @ map (\<lambda>(pr, vs). join_with '','' (pr # vs)) done_proposals in
      res_bind (case p of None \<Rightarrow> Inl (TypeError ''status'') | Some p \<Rightarrow> Inr p) (\<lambda>p.
      res_bind (mapProposalToOpensearchDto E p None) (\<lambda>pdoc.
      Inr (Doc_Bounty
        \<lparr> doc_id = bnt_id b, doc_name = JStr (bnt_id b), doc_description = Some (bnt_description b),
          doc_accounts = join_with '' '' accountIds \<rparr>
        b (prp_status p) pdoc (snd prop_count)))))))"

fun doc_base :: "search_doc \<Rightarrow> base_doc" where
  "doc_base (Doc_Dao b d) = b"
| "doc_base (Doc_Proposal b p d fs) = b"
| "doc_base (Doc_Bounty b bn s p n) = b"

section \<open>Indexing\<close>

text \<open>
  The promises of \<open>update\<close> and \<open>delete\<close> are returned without being awaited in the \<open>try\<close>, so their
  rejections reach the caller; those of \<open>get\<close> and \<open>index\<close> are caught.
\<close>

definition search_index :: "string \<Rightarrow> search_doc \<Rightarrow> unit service" where
  "search_index index dto =
     (let i = doc_id (doc_base dto) in
      bnd (attempt (call (Search (X_get (to_lower index) i)) w_found) (\<lambda>e. ret False)) (\<lambda>found.
        if found then do_call (Search (X_update (to_lower index) i dto))
        else attempt (do_call (Search (X_index (to_lower index) i dto))) (\<lambda>e. ret ())))"

definition search_remove :: "string \<Rightarrow> string \<Rightarrow> unit service" where
  "search_remove index i =
     bnd (call (Search (X_exists index i)) w_found) (\<lambda>found.
       if found then do_call (Search (X_delete (to_lower index) i)) else ret ())"

definition indexDao :: "string \<Rightarrow> dao option \<Rightarrow> unit service" where
  "indexDao i d =
     bnd (useDynamoDB ''open-search-dao-indexing'') (\<lambda>flag.
       if \<not> flag then ret ()
       else case d of
              None \<Rightarrow> search_remove ''Dao'' i
            | Some d \<Rightarrow> search_index ''Dao'' (mapDaoToOpensearchDto d))"

definition indexProposal :: "env \<Rightarrow> string \<Rightarrow> (proposal \<times> dao option) option \<Rightarrow> unit service" where
  "indexProposal E i p =
     bnd (useDynamoDB ''open-search-proposal-indexing'') (\<lambda>flag.
       if \<not> flag then ret ()
       else case p of
              None \<Rightarrow> search_remove ''Proposal'' i
            | Some (p, d) \<Rightarrow> bnd (lift_res (mapProposalToOpensearchDto E p d)) (search_index ''Proposal''))"

definition indexBounty :: "env \<Rightarrow> string \<Rightarrow> (bounty \<times> bounty_relations) option \<Rightarrow> unit service" where
  "indexBounty E i b =
     bnd (useDynamoDB ''open-search-bounty-indexing'') (\<lambda>flag.
       if \<not> flag then ret ()
       else case b of
              None \<Rightarrow> search_remove ''Bounty'' i
            | Some (b, rel) \<Rightarrow> bnd (lift_res (mapBountyToOpensearchDto E b rel)) (search_index ''Bounty''))"

section \<open>Properties\<close>

lemma take_props_obj [simp]: "take_props ks (JObj fs) = Inr (map (\<lambda>k. (k, obj_get fs k)) ks)"
  unfolding take_props_def by (rule map_res_total) simp

text \<open>The fields a document has for each kind, with the values of the kind itself.\<close>

fun shown_kind :: "(jsval \<Rightarrow> string) \<Rightarrow> proposal_kind \<Rightarrow> (string \<times> jsval) list" where
  "shown_kind stringify (K_ChangeConfig c) =
     [(''config'', JObj [(''name'', JStr (cfg_name c)), (''purpose'', JStr (cfg_purpose c)),
        (''metadata'', JStr (cfg_metadata c))])]"
| "shown_kind stringify (K_ChangePolicy p) =
     [(''policy'', if p = JUndef then JUndef else JStr (stringify p))]"
| "shown_kind stringify (K_AddMemberToRole member r) = [(''memberId'', JStr member), (''role'', JStr r)]"
| "shown_kind stringify (K_RemoveMemberFromRole member r) =
     [(''memberId'', JStr member), (''role'', JStr r)]"
| "shown_kind stringify (K_FunctionCall receiver calls) =
     [(''actions'', JArr (map (\<lambda>a. JObj [(''methodName'', JStr (ac_methodName a)),
        (''args'', JStr (ac_args a)), (''deposit'', JStr (ac_deposit a)), (''gas'', JNum (ac_gas a))]) calls)),
      (''receiverId'', JStr receiver)]"
| "shown_kind stringify (K_UpgradeSelf code) = [(''hash'', JStr code)]"
| "shown_kind stringify (K_UpgradeRemote receiver method code) =
     [(''hash'', JStr code), (''methodName'', JStr method), (''receiverId'', JStr receiver)]"
| "shown_kind stringify (K_Transfer tok receiver amount msg) =
     [(''amount'', JStr amount), (''receiverId'', JStr receiver), (''tokenId'', JStr tok),
      (''msg'', js_of_opt msg)]"
| "shown_kind stringify (K_SetStakingContract staking) = [(''stakingId'', JStr staking)]"
| "shown_kind stringify (K_AddBounty b) =
     [(''bounty'', JObj [(''id'', JUndef), (''amount'', JStr (sb_amount b)), (''bountyClaims'', JUndef),
        (''bountyId'', JUndef), (''description'', JStr (sb_description b)), (''token'', JStr (sb_token b)),
        (''times'', JNum (sb_times b)), (''numberOfClaims'', JUndef),
        (''maxDeadline'', JStr (sb_max_deadline b))])]"
| "shown_kind stringify (K_BountyDone bounty receiver) =
     [(''bountyId'', JNum bounty), (''receiverId'', JStr receiver)]"
| "shown_kind stringify K_Vote = []"

lemma kind_fields_shown: "kind_fields s (kind_type k) (kind_value (Some k)) = Inr (shown_kind s k)"
  by (cases k)
    (auto simp: kind_value_def js_of_bounty_def js_of_config_def js_of_action_call_def obj_get_def
      stringified_def)

text \<open>
  C38. The search document of a proposal exists whenever the stored type is the type of the stored
  kind. It is found under the id of the proposal, which is also its name, and has its description;
  each account, the proposer and every voter, is listed once in its accounts; it carries the
  document of the DAO when that is loaded, and for each kind of proposal the fields of that kind
  with the kind's own values, a bounty without the properties of the stored bounties.
\<close>

theorem mapProposalToOpensearchDto_consistent:
  assumes "prp_kind p = Some k" and "kind_type k = prp_type p"
  shows "\<exists>base ddoc. mapProposalToOpensearchDto E p d =
       Inr (Doc_Proposal base p ddoc (shown_kind (e_json_stringify E) k))
     \<and> doc_id base = prp_id p \<and> doc_name base = JStr (prp_id p)
     \<and> doc_description base = Some (prp_description p)
     \<and> (case d of None \<Rightarrow> ddoc = None
        | Some x \<Rightarrow> \<exists>b. ddoc = Some (Doc_Dao b x) \<and> doc_id b = dao_id x)
     \<and> (\<exists>accounts. doc_accounts base = join_with '' '' accounts \<and> distinct accounts
          \<and> set accounts = insert (prp_proposer p) (fst ` set (prp_votes p)))"
proof -
  let ?accounts = "set_order (prp_proposer p # map fst (prp_votes p))"
  have "kind_fields (e_json_stringify E) (prp_type p) (kind_value (prp_kind p)) =
      Inr (shown_kind (e_json_stringify E) k)"
    using kind_fields_shown [of "e_json_stringify E" k] assms by simp
  then have "mapProposalToOpensearchDto E p d = Inr (Doc_Proposal
      \<lparr> doc_id = prp_id p, doc_name = JStr (prp_id p), doc_description = Some (prp_description p),
        doc_accounts = join_with '' '' ?accounts \<rparr>
      p (map_option mapDaoToOpensearchDto d) (shown_kind (e_json_stringify E) k))"
    by (simp only: mapProposalToOpensearchDto_def res_bind_simps)
  moreover have "distinct ?accounts" by (rule distinct_set_order)
  moreover have "set ?accounts = insert (prp_proposer p) (fst ` set (prp_votes p))"
    by (simp only: set_set_order list.set set_map)
  moreover have "case d of None \<Rightarrow> map_option mapDaoToOpensearchDto d = None
      | Some x \<Rightarrow> \<exists>b. map_option mapDaoToOpensearchDto d = Some (Doc_Dao b x) \<and> doc_id b = dao_id x"
    by (simp add: mapDaoToOpensearchDto_def split: option.split)
  ultimately show ?thesis
    by (intro exI conjI) (assumption | simp only: base_doc.select_convs | rule refl)+
qed

definition transfer_proposal :: proposal where
  "transfer_proposal =
     \<lparr> isArchived = None, createdAt = None, updatedAt = None, transactionHash = None,
       updateTransactionHash = None, createTimestamp = None, updateTimestamp = None,
       prp_id = ''d-1'', prp_proposalId = 1, prp_daoId = Some ''d'', prp_proposer = ''a'',
       prp_description = [], prp_status = InProgress, prp_voteStatus = None, prp_kind = Some (K_Transfer ''t'' ''r'' ''5'' None),
       prp_type = Transfer, prp_policyLabel = None, prp_submissionTime = ''1'', prp_voteCounts = [],
       prp_votes = [(''a'', V_Approve), (''b'', V_Reject)], prp_failure = JUndef, prp_actions = [],
       prp_votePeriodEnd = None, prp_bountyDoneId = None, prp_bountyClaimId = None,
       prp_commentsCount = None \<rparr>"

theorem mapProposalToOpensearchDto_consistent_witness:
  "\<exists>base ddoc. mapProposalToOpensearchDto sample_env transfer_proposal None
      = Inr (Doc_Proposal base transfer_proposal ddoc [(''amount'', JStr ''5''), (''receiverId'', JStr ''r''),
          (''tokenId'', JStr ''t''), (''msg'', JUndef)]) \<and> doc_id base = ''d-1''"
  using mapProposalToOpensearchDto_consistent [of transfer_proposal "K_Transfer ''t'' ''r'' ''5'' None" sample_env None]
  by (auto simp: transfer_proposal_def js_of_opt_def)

end
