(* ===== verification/Support_Services.thy ===== *)
theory Support_Services
  imports World Bounty_Service
begin

text \<open>
  The services the transaction handlers finish with: the API cache (\<open>libs/cache\<close>), the events
  (\<open>libs/event\<close>), the record of handled receipt actions (\<open>libs/transaction-handler\<close>) and the
  receipts of the treasuries (\<open>libs/dao-funds\<close>).
\<close>

section \<open>CacheService\<close>

definition CLEAR_CHUNK :: nat where
  "CLEAR_CHUNK = 10"

function clearKeysChunked :: "string list \<Rightarrow> unit service" where
  "clearKeysChunked keys =
     (if keys = [] then ret ()
      else thn (do_call (CacheDel (take CLEAR_CHUNK keys))) (clearKeysChunked (drop CLEAR_CHUNK keys)))"
  by pat_completeness auto

termination
  by (relation "measure length") (auto simp: CLEAR_CHUNK_def)

declare clearKeysChunked.simps [simp del]

text \<open>
  The lists the loop of \<open>handleProposalCache\<close> collects, in the order in which they are cleared: a
  key goes to the first list whose prefix it has.
\<close>

definition proposal_prefixes :: "string \<Rightarrow> string list" where
  "proposal_prefixes i =
     [''/api/v1/proposals/templates'', ''/api/v1/proposals?'',
      ''/api/v1/proposals/account-proposals?'', ''/api/v1/proposals/'' @ i]"

fun grouped_keys :: "string list \<Rightarrow> string list \<Rightarrow> string list" where
  "grouped_keys [] keys = []"
| "grouped_keys (p # ps) keys =
     filter (\<lambda>k. starts_with k p) keys
       @ grouped_keys ps (filter (\<lambda>k. \<not> starts_with k p) keys)"

definition handleProposalCache :: "string \<Rightarrow> unit service" where
  "handleProposalCache i =
     bnd (call (CacheKeys (Some ''/api/v1/proposals*'')) w_strs) (\<lambda>keys.
     clearKeysChunked (grouped_keys (proposal_prefixes i) keys))"

definition handleTokenCache :: "unit service" where
  "handleTokenCache =
     bnd (call (CacheKeys (Some ''/api/v1/tokens*'')) w_strs) (\<lambda>keys.
     clearKeysChunked (filter (\<lambda>k. \<not> starts_with k ''/api/v1/tokens/nfts'') keys))"

definition handleNFTCache :: "unit service" where
  "handleNFTCache =
     bnd (call (CacheKeys (Some ''/api/v1/tokens/nfts*'')) w_strs) clearKeysChunked"

definition CACHE_API_WHITELIST :: "string list" where
  "CACHE_API_WHITELIST = [''/api/v1/proposals'', ''/api/v1/tokens'']"

definition clearCache :: "unit service" where
  "clearCache =
     bnd (call (CacheKeys None) w_strs) (\<lambda>keys.
     clearKeysChunked (filter (\<lambda>k. \<not> list_ex (starts_with k) CACHE_API_WHITELIST) keys))"

section \<open>EventService\<close>

definition sendEvent :: "event_client \<Rightarrow> event_payload \<Rightarrow> unit service" where
  "sendEvent client message = attempt (do_call (Emit client message)) throw"

definition sendDaoUpdateNotificationEvent :: "dao \<Rightarrow> transaction_action \<Rightarrow> unit service" where
  "sendDaoUpdateNotificationEvent d txAction = sendEvent EC_Notification (EV_DaoUpdate d txAction)"

definition sendProposalUpdateNotificationEvent :: "proposal_dto \<Rightarrow> transaction_action \<Rightarrow> unit service" where
  "sendProposalUpdateNotificationEvent p txAction =
     sendEvent EC_Notification (EV_ProposalUpdate p txAction)"

definition sendStoredProposalUpdateNotificationEvent :: "proposal \<Rightarrow> transaction_action \<Rightarrow> unit service" where
  "sendStoredProposalUpdateNotificationEvent p txAction =
     sendEvent EC_Notification (EV_StoredProposalUpdate p txAction)"

definition sendCloseDraftProposalEvent :: "string \<Rightarrow> jsval \<Rightarrow> string \<Rightarrow> unit service" where
  "sendCloseDraftProposalEvent daoId draftId proposalId =
     sendEvent EC_Draft (EV_CloseDraft daoId draftId proposalId)"

section \<open>HandledReceiptActionDynamoService\<close>

definition handled_key :: "transaction_action \<Rightarrow> dyn_key" where
  "handled_key a = entity_key (Some (ta_transactionHash a)) E_HandledReceiptAction
     (ta_receiptId a @ ''-'' @ nat_str (ta_indexInReceipt a))"

definition handled_save :: "transaction_action \<Rightarrow> handler_result list \<Rightarrow> unit service" where
  "handled_save a results = do_call (Dyn (D_save (handled_key a) (M_Handled results)))"

definition handled_check :: "transaction_action \<Rightarrow> handler_result list option service" where
  "handled_check a = dyn_get w_handled (handled_key a)"

section \<open>DaoFundsReceiptService, DaoFundsTokenReceiptService\<close>

record dao_funds_receipt =
  dfr_daoId :: string
  dfr_receiptId :: string
  dfr_indexInReceipt :: nat
  dfr_predecessorId :: string
  dfr_receiverId :: string
  dfr_kind :: string
  dfr_deposit :: "string option"
  dfr_methodName :: "string option"
  dfr_args :: jsval
  dfr_transactionHash :: string
  dfr_createTimestamp :: string

record dao_funds_token_receipt =
  dft_daoId :: jsval
  dft_receiptId :: string
  dft_indexInReceipt :: nat
  dft_senderId :: string
  dft_receiverId :: jsval
  dft_tokenId :: string
  dft_kind :: string
  dft_amount :: jsval
  dft_deposit :: "string option"
  dft_methodName :: "string option"
  dft_args :: jsval
  dft_transactionHash :: string
  dft_createTimestamp :: string

definition castReceiptDtoToModel :: "dao_funds_receipt \<Rightarrow> dyn_key \<times> (string \<times> jsval) list" where
  "castReceiptDtoToModel dto =
     (entity_key (Some (dfr_daoId dto)) E_DaoFundsReceipt
        (dfr_createTimestamp dto @ ''-'' @ dfr_receiptId dto @ ''-'' @ nat_str (dfr_indexInReceipt dto)),
      [(''daoId'', JStr (dfr_daoId dto)), (''receiptId'', JStr (dfr_receiptId dto)),
       (''indexInReceipt'', JNum (int (dfr_indexInReceipt dto))),
       (''predecessorId'', JStr (dfr_predecessorId dto)), (''receiverId'', JStr (dfr_receiverId dto)),
       (''kind'', JStr (dfr_kind dto)), (''deposit'', js_of_opt (dfr_deposit dto)),
       (''methodName'', js_of_opt (dfr_methodName dto)), (''args'', dfr_args dto),
       (''transactionHash'', JStr (dfr_transactionHash dto)),
       (''createTimestamp'', JStr (dfr_createTimestamp dto)), (''isArchived'', JUndef)])"

definition receipt_save :: "dao_funds_receipt \<Rightarrow> unit service" where
  "receipt_save dto =
     (case castReceiptDtoToModel dto of (k, m) \<Rightarrow> do_call (Dyn (D_save k (M_FundsReceipt m))))"

text \<open>The partition is the account id, which comes from the arguments of the call.\<close>

definition castTokenReceiptDtoToModel ::
    "dao_funds_token_receipt \<Rightarrow> dyn_key \<times> (string \<times> jsval) list" where
  "castTokenReceiptDtoToModel dto =
     (entity_key (case dft_daoId dto of JStr s \<Rightarrow> Some s | _ \<Rightarrow> None) E_DaoFundsTokenReceipt
        (dft_tokenId dto @ ''-'' @ dft_createTimestamp dto @ ''-'' @ dft_receiptId dto @ ''-''
           @ nat_str (dft_indexInReceipt dto)),
      [(''daoId'', dft_daoId dto), (''receiptId'', JStr (dft_receiptId dto)),
       (''indexInReceipt'', JNum (int (dft_indexInReceipt dto))),
       (''senderId'', JStr (dft_senderId dto)), (''receiverId'', dft_receiverId dto),
       (''tokenId'', JStr (dft_tokenId dto)), (''kind'', JStr (dft_kind dto)),
       (''amount'', dft_amount dto), (''deposit'', js_of_opt (dft_deposit dto)),
       (''methodName'', js_of_opt (dft_methodName dto)), (''args'', dft_args dto),
       (''transactionHash'', JStr (dft_transactionHash dto)),
       (''createTimestamp'', JStr (dft_createTimestamp dto)), (''isArchived'', JUndef)])"

definition token_receipt_save :: "dao_funds_token_receipt \<Rightarrow> unit service" where
  "token_receipt_save dto =
     (case castTokenReceiptDtoToModel dto of (k, m) \<Rightarrow> do_call (Dyn (D_save k (M_FundsReceipt m))))"

section \<open>Clearing the cache\<close>

text \<open>The keys a list of calls deletes.\<close>

fun deleted_keys :: "call list \<Rightarrow> string list" where
  "deleted_keys [] = []"
| "deleted_keys (CacheDel ks # cs) = ks @ deleted_keys cs"
| "deleted_keys (c # cs) = deleted_keys cs"

fun small_delete :: "call \<Rightarrow> bool" where
  "small_delete (CacheDel ks) \<longleftrightarrow> ks \<noteq> [] \<and> length ks \<le> CLEAR_CHUNK"
| "small_delete c \<longleftrightarrow> False"

lemma clearKeysChunked_calls:
  "clearKeysChunked keys W tr = (r, t) \<Longrightarrow>
     \<exists>cs. t = tr @ cs \<and> list_all small_delete cs
       \<and> (if r = Inr () then deleted_keys cs = keys
          else \<exists>rest. keys = deleted_keys cs @ rest)"
proof (induction keys arbitrary: tr rule: clearKeysChunked.induct)
  case (1 keys)
  show ?case
  proof (cases "keys = []")
    case True
    then show ?thesis
      using "1.prems" by (subst (asm) clearKeysChunked.simps) (auto simp: run_simps)
  next
    case False
    let ?c = "CacheDel (take CLEAR_CHUNK keys)"
    have small: "small_delete ?c" using False by (auto simp: CLEAR_CHUNK_def)
    have run: "(case w_ack W (tr @ [?c]) of Inl e \<Rightarrow> (Inl e, tr @ [?c])
        | Inr u \<Rightarrow> clearKeysChunked (drop CLEAR_CHUNK keys) W (tr @ [?c])) = (r, t)"
      using "1.prems" False by (subst (asm) clearKeysChunked.simps) (simp add: run_simps)
    show ?thesis
    proof (cases "w_ack W (tr @ [?c])")
      case (Inl e)
      with run small show ?thesis
        by (intro exI [of _ "[?c]"]) (auto intro: exI [of _ "drop CLEAR_CHUNK keys"])
    next
      case (Inr u)
      with run have "clearKeysChunked (drop CLEAR_CHUNK keys) W (tr @ [?c]) = (r, t)" by simp
      from "1.IH" [OF False this] obtain cs where cs: "t = (tr @ [?c]) @ cs" "list_all small_delete cs"
        "if r = Inr () then deleted_keys cs = drop CLEAR_CHUNK keys
         else \<exists>rest. drop CLEAR_CHUNK keys = deleted_keys cs @ rest" by blast
      have "if r = Inr () then deleted_keys (?c # cs) = keys
          else \<exists>rest. keys = deleted_keys (?c # cs) @ rest"
        using cs(3) append_take_drop_id [of CLEAR_CHUNK keys]
        by (cases "r = Inr ()") (simp, metis append_assoc deleted_keys.simps(2))
      with cs small show ?thesis by (intro exI [of _ "?c # cs"]) simp
    qed
  qed
qed

lemma set_grouped_keys: "set (grouped_keys ps keys) = {k \<in> set keys. \<exists>p \<in> set ps. starts_with k p}"
  by (induction ps arbitrary: keys) auto

text \<open>
  Clearing the cache of a proposal. When it succeeds, the keys deleted, in batches of at most
  ten, are exactly the listed keys of the proposal itself, of the proposal lists, of the accounts'
  proposals and of the templates; no other key is deleted even when it fails.
\<close>

theorem handleProposalCache_exact:
  "case handleProposalCache i W tr of (r, t) \<Rightarrow>
     (case w_strs W (tr @ [CacheKeys (Some ''/api/v1/proposals*'')]) of
        Inl e \<Rightarrow> r = Inl e \<and> t = tr @ [CacheKeys (Some ''/api/v1/proposals*'')]
      | Inr keys \<Rightarrow> \<exists>cs. t = tr @ CacheKeys (Some ''/api/v1/proposals*'') # cs
          \<and> list_all small_delete cs
          \<and> (let relevant = {k \<in> set keys. \<exists>p \<in> set (proposal_prefixes i). starts_with k p} in
             if r = Inr () then set (deleted_keys cs) = relevant
             else set (deleted_keys cs) \<subseteq> relevant))"
proof (cases "w_strs W (tr @ [CacheKeys (Some ''/api/v1/proposals*'')])")
  case (Inl e)
  then show ?thesis by (simp add: handleProposalCache_def run_simps)
next
  case (Inr keys)
  let ?c = "CacheKeys (Some ''/api/v1/proposals*'')"
  let ?ks = "grouped_keys (proposal_prefixes i) keys"
  obtain r t where run: "clearKeysChunked ?ks W (tr @ [?c]) = (r, t)" by fastforce
  from clearKeysChunked_calls [OF this] obtain cs where cs: "t = (tr @ [?c]) @ cs"
    "list_all small_delete cs"
    "if r = Inr () then deleted_keys cs = ?ks else \<exists>rest. ?ks = deleted_keys cs @ rest" by blast
  then have "if r = Inr () then set (deleted_keys cs) = set ?ks else set (deleted_keys cs) \<subseteq> set ?ks"
    by (auto split: if_splits)
  moreover have "handleProposalCache i W tr = (r, t)"
    using run Inr by (simp add: handleProposalCache_def run_simps)
  ultimately show ?thesis
    using Inr cs(1,2) by (auto simp: set_grouped_keys)
qed

lemma clear_filtered:
  assumes "clearKeysChunked (filter P keys) W tr = (r, t)"
  shows "\<exists>cs. t = tr @ cs \<and> list_all P (deleted_keys cs) \<and> set (deleted_keys cs) \<subseteq> set keys
     \<and> (r = Inr () \<longrightarrow> deleted_keys cs = filter P keys)"
proof -
  obtain cs where cs: "t = tr @ cs"
    "if r = Inr () then deleted_keys cs = filter P keys
     else \<exists>rest. filter P keys = deleted_keys cs @ rest"
    using clearKeysChunked_calls [OF assms] by blast
  then have "set (deleted_keys cs) \<subseteq> set (filter P keys)"
    by (cases "r = Inr ()") (simp, metis Un_upper1 set_append)
  then have "list_all P (deleted_keys cs)" "set (deleted_keys cs) \<subseteq> set keys"
    by (auto simp: list_all_iff)
  with cs show ?thesis by (intro exI [of _ cs]) simp
qed

definition whitelisted :: "string \<Rightarrow> bool" where
  "whitelisted k \<longleftrightarrow> starts_with k ''/api/v1/proposals'' \<or> starts_with k ''/api/v1/tokens''"

text \<open>
  Clearing the whole cache never deletes a key of the proposals or of the tokens, and when it
  succeeds it deletes every other key.
\<close>

theorem clearCache_keeps_whitelist:
  "case clearCache W tr of (r, t) \<Rightarrow>
     (case w_strs W (tr @ [CacheKeys None]) of
        Inl e \<Rightarrow> r = Inl e \<and> t = tr @ [CacheKeys None]
      | Inr keys \<Rightarrow> \<exists>cs. t = tr @ CacheKeys None # cs
          \<and> list_all (\<lambda>k. \<not> whitelisted k) (deleted_keys cs) \<and> set (deleted_keys cs) \<subseteq> set keys
          \<and> (if r = Inr () then deleted_keys cs = filter (\<lambda>k. \<not> whitelisted k) keys else True))"
proof (cases "w_strs W (tr @ [CacheKeys None])")
  case (Inl e)
  then show ?thesis by (simp add: clearCache_def run_simps)
next
  case (Inr keys)
  obtain r t where run: "clearKeysChunked (filter (\<lambda>k. \<not> whitelisted k) keys) W
      (tr @ [CacheKeys None]) = (r, t)" by fastforce
  have "(\<lambda>k. \<not> list_ex (starts_with k) CACHE_API_WHITELIST) = (\<lambda>k. \<not> whitelisted k)"
    by (simp add: CACHE_API_WHITELIST_def whitelisted_def)
  then have "clearCache W tr = (r, t)"
    using run Inr by (simp add: clearCache_def run_simps)
  with clear_filtered [OF run] Inr show ?thesis by auto
qed

end
