(* ===== verification/Tx_Handlers.thy ===== *)
theory Tx_Handlers
  imports Search_Service Support_Services Sputnik_Service
begin

text \<open>
  The handlers of \<open>TransactionActionHandlerService\<close>
  (\<open>libs/transaction-handler/src/transaction-action-handler.service.ts\<close>): what one transaction
  action does to the stored DAOs, proposals, bounties, delegations, tokens and NFTs. The dispatch
  to the handlers is in \<open>Tx_Dispatch\<close>. Entities the services may not find are options, read with
  \<open>need\<close> where the code reads a property of them. Logging is left out.
\<close>

section \<open>Results\<close>

definition result_with :: "result_type \<Rightarrow> (string \<times> jsval) list \<Rightarrow> handler_result" where
  "result_with ty metadata = HR_Result \<lparr> hr_type = ty, hr_metadata = metadata \<rparr>"

definition unknown_result :: "string \<Rightarrow> handler_result" where
  "unknown_result daoId = result_with RT_Unknown [(''daoId'', JStr daoId)]"

section \<open>DAO creation\<close>

definition handleCreateDao :: "env \<Rightarrow> transaction_action \<Rightarrow> handler_result service" where
  "handleCreateDao E txAction =
     bnd (lift_res (js_get (ta_args txAction) ''name'')) (\<lambda>name.
     let daoId = js_str name @ ''.'' @ e_contractName E in
     bnd (getDaoInfo daoId (Some (ta_blockHash txAction))) (\<lambda>daoInfo.
     bnd (getDelegationAccountsByDaoId daoId) (\<lambda>delegationAccounts.
     bnd (lift_res (castCreateDao (e_json_parse E) (ta_signerId txAction)
            (ta_transactionHash txAction) daoId daoInfo (Some delegationAccounts)
            (ta_timestamp txAction))) (\<lambda>d.
     thn (dao_save d (no_options\<lparr>so_updateTotalDaoFunds := True\<rparr>))
    (thn (saveNearBalanceToDao (dao_id d) (dao_amount d))
    (bnd (setDaoVersion daoId) (\<lambda>_.
     thn (saveDaoId daoId)
    (thn (sendDaoUpdateNotificationEvent d txAction)
    (bnd (dao_findOne daoId True) (\<lambda>daoById.
     thn (indexDao daoId daoById)
         (ret (result_with RT_DaoCreate [(''daoId'', JStr (dao_id d))]))))))))))))"

section \<open>Bounties\<close>

definition handleAddBounty ::
    "env \<Rightarrow> dao option \<Rightarrow> proposal_dto \<Rightarrow> sputnik_bounty \<Rightarrow> int \<Rightarrow> string \<Rightarrow> string option \<Rightarrow>
     string \<Rightarrow>
     unit service" where
  "handleAddBounty E d p bountyData lastBountyId txHash blockHash timestamp =
     bnd (need ''id'' d) (\<lambda>d.
     bnd (findLastBounty E (dao_id d) lastBountyId bountyData blockHash) (\<lambda>daoBounty.
     case daoBounty of
       None \<Rightarrow> ret ()
     | Some (b, _) \<Rightarrow>
         let bountyId = sbo_id b in
         bnd (bounty_findById (dao_id d) (JNum bountyId) False) (\<lambda>stored.
         thn (when_act (stored = None)
                (bounty_create (castAddBounty d p bountyData bountyId txHash timestamp)))
        (bnd (bounty_findOne (buildBountyId (dao_id d) (JNum bountyId))) (\<lambda>bountyById.
         bnd (need ''id'' bountyById) (\<lambda>found.
         indexBounty E (bnt_id (fst found)) bountyById))))))"

definition handleDoneBounty ::
    "env \<Rightarrow> dao option \<Rightarrow> int \<Rightarrow> string \<Rightarrow> string \<Rightarrow> string option \<Rightarrow> string \<Rightarrow> unit service" where
  "handleDoneBounty E d bountyId receiverId txHash blockHash timestamp =
     bnd (need ''id'' d) (\<lambda>d.
     bnd (bounty_findById (dao_id d) (JNum bountyId) True) (\<lambda>b.
     case b of
       None \<Rightarrow> ret ()
     | Some b \<Rightarrow>
         bnd (call (Rpc (R_getBounty (dao_id d) bountyId blockHash)) w_rpcBounty) (\<lambda>bountyData.
         bnd (getBountyNumberOfClaims (dao_id d) bountyId blockHash) (\<lambda>numberOfClaims.
         bnd (getAccountBountyClaims (dao_id d) receiverId blockHash) (\<lambda>bountyClaims.
         bnd (lift_res (castDoneBounty d receiverId b bountyData numberOfClaims
                (map fst bountyClaims) txHash timestamp)) (\<lambda>updatedBounty.
         thn (bounty_create updatedBounty)
        (bnd (bounty_findOne (bnt_id b)) (\<lambda>bountyById.
         indexBounty E (bnt_id b) bountyById))))))))"

definition handleClaimUnclaimBounty :: "env \<Rightarrow> transaction_action \<Rightarrow> handler_result service" where
  "handleClaimUnclaimBounty E a =
     bnd (lift_res (js_get (ta_args a) ''id'')) (\<lambda>i.
     bnd (bounty_findById (ta_receiverId a) i True) (\<lambda>b.
     case b of
       None \<Rightarrow> ret HR_Undefined
     | Some b \<Rightarrow>
         bnd (getAccountBountyClaims (ta_receiverId a) (ta_signerId a) (Some (ta_blockHash a)))
           (\<lambda>bountyClaims.
         bnd (getBountyNumberOfClaims (ta_receiverId a) (bnt_bountyId b) (Some (ta_blockHash a)))
           (\<lambda>numberOfClaims.
         bnd (if ta_methodName a = Some ''bounty_giveup''
              then bnd (need ''reduce'' (bnt_bountyClaims b)) (\<lambda>cs.
                lift_res (findLastClaim cs (ta_signerId a) (ta_timestamp a)))
              else ret None) (\<lambda>removedClaim.
         bnd (lift_res (castClaimBounty b (ta_signerId a) (ta_receiverId a) (ta_transactionHash a)
                (map fst bountyClaims) numberOfClaims removedClaim (ta_timestamp a)))
           (\<lambda>updatedBounty.
         thn (bounty_create updatedBounty)
        (bnd (bounty_findOne (bnt_id b)) (\<lambda>bountyById.
         thn (indexBounty E (bnt_id b) bountyById)
             (ret (result_with RT_BountyClaim
                [(''daoId'', JStr (ta_receiverId a)),
                 (''bountyContextId'', JStr (bnt_proposalId b))])))))))))) "

section \<open>New proposals\<close>

text \<open>The bounty claim and the bounty of a proposal that reports a finished bounty.\<close>

definition link_done_bounty :: "dao \<Rightarrow> proposal_dto \<Rightarrow> string \<Rightarrow> proposal_dto service" where
  "link_done_bounty d p timestamp =
     (case pk_kind (pd_kind p) of
        K_BountyDone bountyId receiverId \<Rightarrow>
          bnd (getLastBountyClaim (dao_id d) bountyId receiverId timestamp) (\<lambda>bountyClaim.
          thn (addBountyDoneProposalId (dao_id d) (int_str bountyId) (int_str (pd_proposalId p)))
              (ret (p\<lparr>pd_bountyClaimId := map_option bc_id bountyClaim\<rparr>)))
      | _ \<Rightarrow> ret p)"

definition handleAddProposal :: "env \<Rightarrow> transaction_action \<Rightarrow> handler_result service" where
  "handleAddProposal E txAction =
     (let receiverId = ta_receiverId txAction; txHash = ta_transactionHash txAction;
          timestamp = ta_timestamp txAction in
      case Option.bind (ta_receiptSuccessValue txAction) parse_int of
        None \<Rightarrow> ret (unknown_result receiverId)
      | Some lastProposalId \<Rightarrow>
          bnd (dao_findById receiverId) (\<lambda>daoEntity.
          bnd (getProposal receiverId (JNum lastProposalId) (Some (ta_blockHash txAction))) (\<lambda>daoProposal.
          case daoProposal of
            None \<Rightarrow> ret (unknown_result receiverId)
          | Some daoProposal \<Rightarrow>
              bnd (need ''id'' daoEntity) (\<lambda>daoEntity.
              bnd (lift_res (castCreateProposal (e_camelcase E) txHash (ta_signerId txAction)
                     daoProposal daoEntity timestamp)) (\<lambda>p.
              let d = castAddProposalDao daoEntity lastProposalId txHash timestamp in
              bnd (link_done_bounty d p timestamp) (\<lambda>p.
              thn (proposal_create p)
             (thn (when_act (pd_type p = AddBounty)
                     (bnd (bountyContext_create
                        \<lparr> bctx_id = pd_id p, bctx_daoId = pd_daoId p,
                          bctx_transactionHash = Some txHash, bctx_createTimestamp = Some timestamp \<rparr>
                        (pd_proposalId p)) (\<lambda>_. ret ())))
             (thn (dao_save d (no_options\<lparr>so_updateProposalsCount := True\<rparr>))
             (bnd (proposal_findOne (pd_id p)) (\<lambda>proposalById.
              bnd (dao_findOne (pd_daoId p) True) (\<lambda>daoById.
              thn (indexProposal E (pd_id p) proposalById)
             (thn (indexDao (pd_daoId p) daoById)
             (thn (handleProposalCache (pd_id p))
             (thn (sendProposalUpdateNotificationEvent p txAction)
             (bnd (lift_res (js_get (ta_args txAction) ''draftId'')) (\<lambda>draftId.
              thn (when_act (truthy draftId)
                     (sendCloseDraftProposalEvent (pd_daoId p) draftId (pd_id p)))
                  (ret (result_with RT_ProposalCreate
                     [(''daoId'', JStr receiverId), (''proposalId'', JStr (pd_id p))]))))))))))))))))))"

section \<open>Votes\<close>

text \<open>What the handlers of a vote are given.\<close>

record act_context =
  cx_dao :: "dao option"
  cx_proposal :: "proposal_dto option"
  cx_receiverId :: string
  cx_transactionHash :: string
  cx_blockHash :: "string option"
  cx_timestamp :: string

definition save_acted_dao ::
    "env \<Rightarrow> act_context \<Rightarrow> string \<Rightarrow> act_proposal_dao_args \<Rightarrow> dao_save_options \<Rightarrow> unit service" where
  "save_acted_dao E c amount acted opts =
     bnd (lift_res (castActProposalDao (e_json_parse E) acted)) (\<lambda>updatedDao.
     thn (dao_save updatedDao opts)
         (saveNearBalanceToDao (cx_receiverId c) (Some amount)))"

definition acted_args :: "act_context \<Rightarrow> dao \<Rightarrow> string \<Rightarrow> act_proposal_dao_args" where
  "acted_args c d amount =
     \<lparr> apd_dao = d, apd_transactionHash = cx_transactionHash c, apd_amount = Some amount,
       apd_config = None, apd_policy = None, apd_lastBountyId = None, apd_stakingContract = None,
       apd_delegationAccounts = None, apd_timestamp = cx_timestamp c \<rparr>"

text \<open>What an approved proposal changed, read back from the contract.\<close>

record approved_changes =
  ch_config :: "sputnik_dao_config option"
  ch_policy :: "sputnik_dao_policy option"
  ch_delegationAccounts :: "string list option"
  ch_stakingContract :: "string option"
  ch_lastBountyId :: "int option"

definition no_changes :: approved_changes where
  "no_changes = \<lparr> ch_config = None, ch_policy = None, ch_delegationAccounts = None,
     ch_stakingContract = None, ch_lastBountyId = None \<rparr>"

definition update_transferred_token ::
    "env \<Rightarrow> act_context \<Rightarrow> string \<Rightarrow> string \<Rightarrow> unit service" where
  "update_transferred_token E c tokenId receiverId =
     bnd (loadTokenById tokenId (Some (cx_timestamp c)) (cx_blockHash c)) (\<lambda>_.
     bnd (need ''id'' (cx_dao c)) (\<lambda>d.
     bnd (loadBalanceById tokenId (dao_id d) (Some (cx_timestamp c)) (cx_blockHash c)) (\<lambda>_.
     when_act (receiverId \<noteq> [] \<and> str_includes receiverId (e_contractName E))
       (bnd (loadBalanceById tokenId receiverId (Some (cx_timestamp c)) (cx_blockHash c)) (\<lambda>_. ret ())))))"

definition read_policy :: "act_context \<Rightarrow> approved_changes service" where
  "read_policy c =
     bnd (call (Rpc (R_getPolicy (cx_receiverId c) (cx_blockHash c))) w_policy) (\<lambda>pol.
     bnd (need ''id'' (cx_dao c)) (\<lambda>d.
     bnd (getDelegationAccountsByDaoId (dao_id d)) (\<lambda>accounts.
     ret (no_changes\<lparr>ch_policy := Some pol, ch_delegationAccounts := Some accounts\<rparr>))))"

text \<open>
  An upgrade starts a timer that runs \<open>setDaoVersion\<close> on the DAO half a minute later, outside the
  handling of the action.
\<close>

definition apply_approved :: "env \<Rightarrow> act_context \<Rightarrow> proposal_dto \<Rightarrow> approved_changes service" where
  "apply_approved E c p =
     (case pk_kind (pd_kind p) of
        K_Transfer tokenId receiverId amount msg \<Rightarrow>
          thn (when_act (tokenId \<noteq> []) (update_transferred_token E c tokenId receiverId))
              (ret no_changes)
      | K_ChangeConfig _ \<Rightarrow>
          bnd (call (Rpc (R_getConfig (cx_receiverId c) (cx_blockHash c))) w_config) (\<lambda>config.
          ret (no_changes\<lparr>ch_config := Some config\<rparr>))
      | K_ChangePolicy _ \<Rightarrow> read_policy c
      | K_AddMemberToRole _ _ \<Rightarrow> read_policy c
      | K_RemoveMemberFromRole _ _ \<Rightarrow> read_policy c
      | K_SetStakingContract _ \<Rightarrow>
          bnd (call (Rpc (R_getStakingContract (cx_receiverId c) (cx_blockHash c))) w_str)
            (\<lambda>stakingContract. ret (no_changes\<lparr>ch_stakingContract := Some stakingContract\<rparr>))
      | K_BountyDone bountyId receiverId \<Rightarrow>
          thn (handleDoneBounty E (cx_dao c) bountyId receiverId (cx_transactionHash c)
                 (cx_blockHash c) (cx_timestamp c))
              (ret no_changes)
      | K_AddBounty bountyData \<Rightarrow>
          bnd (call (Rpc (R_getLastBountyId (cx_receiverId c) (cx_blockHash c))) w_num)
            (\<lambda>lastBountyId.
          thn (handleAddBounty E (cx_dao c) p bountyData lastBountyId (cx_transactionHash c)
                 (cx_blockHash c) (cx_timestamp c))
              (ret (no_changes\<lparr>ch_lastBountyId := Some lastBountyId\<rparr>)))
      | K_UpgradeSelf _ \<Rightarrow>
          thn (call (Timer 30000 (opt_str (map_option dao_id (cx_dao c)))) (\<lambda>W tr. Inr ()))
              (ret no_changes)
      | _ \<Rightarrow> ret no_changes)"

text \<open>
  The handler sets \<open>failure\<close> on the proposal it was given after storing it; it returns that
  proposal, which is the one the caller sends in the event.
\<close>

definition handleApproveProposal :: "env \<Rightarrow> act_context \<Rightarrow> jsval \<Rightarrow> proposal_dto service" where
  "handleApproveProposal E c status =
     bnd (getAccountState (cx_receiverId c)) (\<lambda>amount.
     bnd (need ''kind'' (cx_proposal c)) (\<lambda>p.
     thn (proposal_create p)
    (bnd (if pd_status p = Approved then apply_approved E c p else ret no_changes) (\<lambda>ch.
     bnd (need ''id'' (cx_dao c)) (\<lambda>d.
     thn (save_acted_dao E c amount
            ((acted_args c d amount)\<lparr>apd_config := ch_config ch, apd_policy := ch_policy ch,
               apd_delegationAccounts := ch_delegationAccounts ch,
               apd_lastBountyId := ch_lastBountyId ch,
               apd_stakingContract := ch_stakingContract ch\<rparr>)
            (no_options\<lparr>so_updateProposalsCount := True, so_updateTotalDaoFunds := True,
               so_updateBountiesCount := True\<rparr>))
         (ret (if pd_status p = Approved
               then p\<lparr>pd_failure := js_get_opt status ''Failure''\<rparr> else p)))))))"

definition done_bounty_of :: "env \<Rightarrow> act_context \<Rightarrow> proposal_kind \<Rightarrow> unit service" where
  "done_bounty_of E c kind =
     (case kind of
        K_BountyDone bountyId receiverId \<Rightarrow>
          handleDoneBounty E (cx_dao c) bountyId receiverId (cx_transactionHash c)
            (cx_blockHash c) (cx_timestamp c)
      | _ \<Rightarrow> ret ())"

definition handleRejectProposal :: "env \<Rightarrow> act_context \<Rightarrow> proposal_dto service" where
  "handleRejectProposal E c =
     bnd (getAccountState (cx_receiverId c)) (\<lambda>amount.
     bnd (need ''kind'' (cx_proposal c)) (\<lambda>p.
     thn (when_act (pd_status p = Rejected \<or> pd_status p = Expired)
            (done_bounty_of E c (pk_kind (pd_kind p))))
    (thn (proposal_create p)
    (bnd (need ''id'' (cx_dao c)) (\<lambda>d.
     thn (save_acted_dao E c amount (acted_args c d amount)
            (no_options\<lparr>so_updateProposalsCount := True\<rparr>))
         (ret p))))))"

definition remove_stored_proposal :: "env \<Rightarrow> act_context \<Rightarrow> proposal \<Rightarrow> jsval \<Rightarrow> unit service" where
  "remove_stored_proposal E c proposalEntity proposalId =
     thn (case prp_kind proposalEntity of None \<Rightarrow> ret () | Some kind \<Rightarrow> done_bounty_of E c kind)
    (bnd (need ''id'' (cx_dao c)) (\<lambda>d.
     thn (when_act (map_option kind_type (prp_kind proposalEntity) = Some AddBounty)
            (bountyContext_remove (dao_id d) proposalId))
         (proposal_remove (dao_id d) proposalId)))"

definition handleRemoveProposal ::
    "env \<Rightarrow> act_context \<Rightarrow> proposal \<Rightarrow> jsval \<Rightarrow> unit service" where
  "handleRemoveProposal E c proposalEntity proposalId =
     bnd (getAccountState (cx_receiverId c)) (\<lambda>amount.
     thn (case cx_proposal c of
            None \<Rightarrow> remove_stored_proposal E c proposalEntity proposalId
          | Some p \<Rightarrow> proposal_create p)
    (bnd (need ''id'' (cx_dao c)) (\<lambda>d.
     save_acted_dao E c amount (acted_args c d amount)
       (no_options\<lparr>so_updateProposalsCount := True\<rparr>))))"

text \<open>The \<open>switch\<close> on the vote; it yields the proposal object as the handlers leave it.\<close>

definition act_on_proposal ::
    "env \<Rightarrow> act_context \<Rightarrow> proposal \<Rightarrow> jsval \<Rightarrow> jsval \<Rightarrow> jsval \<Rightarrow> proposal_dto option service" where
  "act_on_proposal E c proposalEntity proposalId vote_action status =
     (if vote_action = JStr ''VoteApprove'' then
        bnd (handleApproveProposal E c status) (\<lambda>p. ret (Some p))
      else if vote_action \<in> {JStr ''Finalize'', JStr ''VoteReject''} then
        bnd (handleRejectProposal E c) (\<lambda>p. ret (Some p))
      else if vote_action \<in> {JStr ''RemoveProposal'', JStr ''VoteRemove''} then
        thn (handleRemoveProposal E c proposalEntity proposalId) (ret (cx_proposal c))
      else
        bnd (need ''daoId'' (cx_proposal c)) (\<lambda>p. thn (proposal_create p) (ret (Some p))))"

definition handleActProposal :: "env \<Rightarrow> transaction_action \<Rightarrow> handler_result service" where
  "handleActProposal E txAction =
     (let receiverId = ta_receiverId txAction; txHash = ta_transactionHash txAction in
      bnd (dao_findById receiverId) (\<lambda>d.
      bnd (lift_res (js_get (ta_args txAction) ''id'')) (\<lambda>argId.
      bnd (proposal_findById receiverId argId) (\<lambda>proposalEntity.
      case proposalEntity of
        None \<Rightarrow> ret HR_Undefined
      | Some proposalEntity \<Rightarrow>
          let vote_action = js_get_opt (ta_args txAction) ''action'' in
          bnd (getProposal receiverId argId (Some (ta_blockHash txAction))) (\<lambda>proposalResponse.
          bnd (lift_res (case proposalResponse of
                 None \<Rightarrow> Inr None
               | Some response \<Rightarrow>
                   res_bind (castActProposal (e_camelcase E) txHash receiverId (ta_signerId txAction)
                      proposalEntity response (ta_timestamp txAction) (js_str vote_action))
                     (\<lambda>p. Inr (Some p)))) (\<lambda>p.
          let c = \<lparr> cx_dao = d, cx_proposal = p, cx_receiverId = receiverId,
                    cx_transactionHash = txHash, cx_blockHash = Some (ta_blockHash txAction),
                    cx_timestamp = ta_timestamp txAction \<rparr>;
              proposalId = buildProposalId receiverId argId in
          bnd (act_on_proposal E c proposalEntity argId vote_action (ta_status txAction)) (\<lambda>p.
          bnd (proposal_findOne proposalId) (\<lambda>proposalById.
          bnd (dao_findOne receiverId True) (\<lambda>daoById.
          thn (indexProposal E proposalId proposalById)
         (thn (indexDao receiverId daoById)
         (thn (handleProposalCache proposalId)
         (thn (case p of
                 Some p \<Rightarrow> sendProposalUpdateNotificationEvent p txAction
               | None \<Rightarrow> sendStoredProposalUpdateNotificationEvent proposalEntity txAction)
              (ret (result_with RT_ProposalVote
                 [(''daoId'', JStr receiverId), (''proposalId'', JStr proposalId),
                  (''action'', vote_action)]))))))))))))))"

section \<open>Other calls of a DAO\<close>

definition handleUnknownDaoTransaction :: "transaction_action \<Rightarrow> handler_result service" where
  "handleUnknownDaoTransaction a =
     bnd (dao_findById (ta_receiverId a)) (\<lambda>d.
     bnd (getAccountState (ta_receiverId a)) (\<lambda>amount.
     bnd (need ''amount'' d) (\<lambda>d.
     let d = d\<lparr>dao_amount := Some amount\<rparr> in
     thn (dao_save d (no_options\<lparr>so_updateTotalDaoFunds := True\<rparr>))
    (thn (saveNearBalanceToDao (dao_id d) (dao_amount d))
    (bnd (dao_findOne (dao_id d) True) (\<lambda>daoById.
     thn (indexDao (dao_id d) daoById)
         (ret (unknown_result (ta_receiverId a)))))))))"

end
