(* ===== verification/Tx_Assets.thy ===== *)
theory Tx_Assets
  imports Search_Service Support_Services
begin

text \<open>
  The handlers of \<open>TransactionActionHandlerService\<close> that update delegations, tokens and NFTs, and
  the receipts of the treasuries (\<open>saveDaoFunds\<close>). The arguments of a call are whatever its caller
  passed, so they stay dynamic values.
\<close>

section \<open>Accounts\<close>

definition isDaoContract :: "env \<Rightarrow> string \<Rightarrow> bool" where
  "isDaoContract E receiverId \<longleftrightarrow> ends_with receiverId (CHR ''.'' # e_contractName E)"

text \<open>The same on a dynamic value: only strings have the method \<open>endsWith\<close>.\<close>

fun isDaoContract_js :: "env \<Rightarrow> jsval \<Rightarrow> exn + bool" where
  "isDaoContract_js E (JStr s) = Inr (isDaoContract E s)"
| "isDaoContract_js E v = Inl (TypeError ''endsWith'')"

text \<open>
  \<open>[...new Set(accounts)].filter((a) => a && this.isDaoContract(a))\<close>. Any object that could occur
  twice makes the filter throw, so comparing values instead of references changes nothing.
\<close>

definition dao_accounts :: "env \<Rightarrow> jsval list \<Rightarrow> exn + string list" where
  "dao_accounts E accounts =
     res_bind (map_res (\<lambda>v. res_bind (isDaoContract_js E v) (\<lambda>b. Inr (js_str v, b)))
                (filter truthy (set_order accounts))) (\<lambda>vs.
     Inr (map fst (filter snd vs)))"

definition opt_args :: "transaction_action \<Rightarrow> string \<Rightarrow> jsval" where
  "opt_args a k = js_get_opt (ta_args a) k"

section \<open>Tokens\<close>

definition handleTokenUpdate :: "transaction_action \<Rightarrow> string list \<Rightarrow> unit service" where
  "handleTokenUpdate a accountIds =
     bnd (attempt (bnd (loadTokenById (ta_receiverId a) (Some (ta_timestamp a)) (Some (ta_blockHash a)))
             (\<lambda>_. ret True)) (\<lambda>err. ret False)) (\<lambda>loaded.
     when_act loaded
       (each_act (\<lambda>accountId.
            attempt (bnd (loadBalanceById (ta_receiverId a) accountId (Some (ta_timestamp a))
                            (Some (ta_blockHash a))) (\<lambda>_. ret ()))
              (\<lambda>err. ret ())) accountIds))"

definition handleTokenMethods :: "env \<Rightarrow> transaction_action \<Rightarrow> handler_result service" where
  "handleTokenMethods E a =
     bnd (lift_res (dao_accounts E
            [js_of_opt (ta_txSignerId a), JStr (ta_predecessorId a), opt_args a ''receiver_id'',
             opt_args a ''account_id''])) (\<lambda>daoIds.
     thn (handleTokenUpdate a daoIds)
    (thn handleTokenCache
         (ret (HR_Result \<lparr> hr_type = RT_TokenUpdate, hr_metadata = [] \<rparr>))))"

section \<open>NFTs\<close>

definition handleNftUpdate :: "env \<Rightarrow> transaction_action \<Rightarrow> string list \<Rightarrow> unit service" where
  "handleNftUpdate E a accountIds =
     each_act (\<lambda>accountId.
       attempt
         (bnd (loadNFT E (ta_receiverId a) accountId (Some (ta_timestamp a)) (Some (ta_blockHash a))) (\<lambda>_.
          dao_save ((empty_dao accountId)\<lparr>updateTransactionHash := Some (ta_transactionHash a),
              updateTimestamp := Some (ta_timestamp a)\<rparr>)
            (no_options\<lparr>so_updateNftsCount := True\<rparr>)))
         (\<lambda>err. ret ())) accountIds"

text \<open>\<open>arr[1]\<close>\<close>

fun second_elem :: "jsval \<Rightarrow> exn + jsval" where
  "second_elem JUndef = Inl (TypeError ''1'')"
| "second_elem JNull = Inl (TypeError ''1'')"
| "second_elem (JArr (x # y # xs)) = Inr y"
| "second_elem (JStr (c # d # s)) = Inr (JStr [d])"
| "second_elem (JObj fs) = Inr (obj_get fs ''1'')"
| "second_elem v = Inr JUndef"

text \<open>\<open>token_ids?.map((arr) => arr[1]) || []\<close>\<close>

definition token_id_accounts :: "jsval \<Rightarrow> exn + jsval list" where
  "token_id_accounts v =
     (if nullish v then Inr []
      else case v of JArr xs \<Rightarrow> map_res second_elem xs | _ \<Rightarrow> Inl (TypeError ''map''))"

definition handleNftMethods :: "env \<Rightarrow> transaction_action \<Rightarrow> handler_result service" where
  "handleNftMethods E a =
     bnd (lift_res
       (res_bind (token_id_accounts (opt_args a ''token_ids'')) (\<lambda>tokenAccounts.
        dao_accounts E
          ([js_of_opt (ta_txSignerId a), JStr (ta_predecessorId a), opt_args a ''receiver_id'',
            opt_args a ''account_id'', opt_args a ''creator_id'', opt_args a ''owner_id'']
           @ tokenAccounts)))) (\<lambda>daoIds.
     thn (handleNftUpdate E a daoIds)
    (thn handleNFTCache
         (ret (HR_Result \<lparr> hr_type = RT_NftUpdate, hr_metadata = [] \<rparr>))))"

definition handleTokenMint :: "env \<Rightarrow> transaction_action \<Rightarrow> handler_result service" where
  "handleTokenMint E a =
     bnd (attempt
            (bnd (call (Rpc (R_ftTotalSupply (ta_receiverId a) None)) w_str) (\<lambda>_.
             bnd (handleTokenMethods E a) (\<lambda>_. ret True)))
            (\<lambda>err. ret False)) (\<lambda>isToken.
     if isToken then ret HR_Undefined
     else
       thn (attempt
              (bnd (call (Rpc (R_nftTotalSupply (ta_receiverId a))) w_str) (\<lambda>_.
               bnd (handleNftMethods E a) (\<lambda>_. ret ())))
              (\<lambda>err. ret ()))
           (ret (HR_Result \<lparr> hr_type = RT_TokenUpdate, hr_metadata = [] \<rparr>)))"

section \<open>Delegations\<close>

fun js_BigInt :: "jsval \<Rightarrow> exn + int" where
  "js_BigInt (JStr s) = parse_bigint s"
| "js_BigInt (JNum n) = Inr n"
| "js_BigInt (JBig n) = Inr n"
| "js_BigInt (JBool b) = Inr (if b then 1 else 0)"
| "js_BigInt v = Inl (TypeError ''BigInt'')"

fun assoc_set :: "(string \<times> 'a) list \<Rightarrow> string \<Rightarrow> 'a \<Rightarrow> (string \<times> 'a) list" where
  "assoc_set [] k v = [(k, v)]"
| "assoc_set ((k', v') # fs) k v = (if k' = k then (k, v) # fs else (k', v') # assoc_set fs k v)"

text \<open>\<open>value[0]\<close>\<close>

fun first_elem :: "jsval \<Rightarrow> exn + jsval" where
  "first_elem JUndef = Inl (TypeError ''0'')"
| "first_elem JNull = Inl (TypeError ''0'')"
| "first_elem (JArr (x # xs)) = Inr x"
| "first_elem (JStr (c # s)) = Inr (JStr [c])"
| "first_elem (JObj fs) = Inr (obj_get fs ''0'')"
| "first_elem v = Inr JUndef"

text \<open>One step of the reduction that adds up the amounts per account.\<close>

definition add_delegated :: "(string \<times> int) list \<Rightarrow> jsval \<Rightarrow> exn + (string \<times> int) list" where
  "add_delegated acc v =
     res_bind (first_elem v) (\<lambda>account.
     res_bind (second_elem v) (\<lambda>amount.
     res_bind (js_BigInt amount) (\<lambda>n.
     let k = js_str account in
     Inr (assoc_set acc k ((case map_of acc k of None \<Rightarrow> 0 | Some m \<Rightarrow> m) + n)))))"

definition delegated_amounts :: "jsval \<Rightarrow> jsval list" where
  "delegated_amounts user = (case js_get_opt user ''delegated_amounts'' of JArr xs \<Rightarrow> xs | _ \<Rightarrow> [])"

definition save_delegator ::
    "transaction_action \<Rightarrow> jsval \<Rightarrow> delegation list option \<Rightarrow> string \<times> int \<Rightarrow> unit service" where
  "save_delegator a accountId existingDelegations ka =
     (let daoId = ta_receiverId a; delegationAccountId = fst ka in
      bnd (need ''find'' existingDelegations) (\<lambda>existing.
      let old = (case find (\<lambda>d. dlg_id d = buildDelegationId daoId delegationAccountId) existing of
            None \<Rightarrow> [] | Some d \<Rightarrow> (case dlg_delegators d of None \<Rightarrow> [] | Some ds \<Rightarrow> ds));
          delegators = assoc_set old (opt_str (ta_txSignerId a)) (int_str (snd ka)) in
      if accountId = JStr delegationAccountId
      then dao_saveDelegation daoId delegationAccountId None (Some delegators)
      else
        bnd (call (Rpc (R_delegationBalanceOf daoId (JStr delegationAccountId) (Some (ta_blockHash a))))
               w_str) (\<lambda>accountBalance.
        dao_saveDelegation daoId delegationAccountId (Some accountBalance) (Some delegators))))"

text \<open>
  The account that the call delegates to is a string in every call the contract accepts; its text
  stands for it where an id is built.
\<close>

definition handleDelegate :: "env \<Rightarrow> transaction_action \<Rightarrow> handler_result service" where
  "handleDelegate E a =
     (let daoId = ta_receiverId a in
      bnd (lift_res (js_get (ta_args a) ''account_id'')) (\<lambda>accountId.
      bnd (call (Rpc (R_delegationBalanceOf daoId accountId (Some (ta_blockHash a)))) w_str) (\<lambda>balance.
      thn (dao_saveDelegation daoId (js_str accountId) (Some balance) None)
     (bnd (getDelegationsByDaoId daoId) (\<lambda>existingDelegations.
      bnd (dao_findById daoId) (\<lambda>d.
      bnd (need ''stakingContract'' d) (\<lambda>d.
      if \<not> given (dao_stakingContract d) then ret HR_Undefined
      else
        thn (do_call (Rpc (R_stakingAccount (the (dao_stakingContract d)))))
       (bnd (call (Rpc (R_stakingUser (the (dao_stakingContract d)) (ta_txSignerId a))) w_json)
          (\<lambda>user.
        if delegated_amounts user = [] then ret HR_Undefined
        else
          bnd (lift_res (fold_res add_delegated [] (delegated_amounts user))) (\<lambda>amounts.
          thn (each_act (save_delegator a accountId existingDelegations) amounts)
         (thn (updateDaoMembers daoId)
         (bnd (dao_findOne (dao_id d) True) (\<lambda>daoById.
          thn (indexDao (dao_id d) daoById)
              (ret (HR_Result \<lparr> hr_type = RT_Delegate, hr_metadata = [] \<rparr>)))))))))))))))"

section \<open>Treasury receipts\<close>

definition positive_amount :: "jsval \<Rightarrow> exn + bool" where
  "positive_amount v =
     (if truthy v then res_bind (js_BigInt v) (\<lambda>n. Inr (n > 0)) else Inr False)"

definition save_deposit_receipt :: "env \<Rightarrow> transaction_action \<Rightarrow> unit service" where
  "save_deposit_receipt E a =
     bnd (lift_res (positive_amount (js_of_opt (ta_deposit a)))) (\<lambda>pos.
     when_act (pos \<and> (isDaoContract E (ta_predecessorId a) \<or> isDaoContract E (ta_receiverId a)))
       (receipt_save
         \<lparr> dfr_daoId = (if isDaoContract E (ta_predecessorId a) then ta_predecessorId a
                        else ta_receiverId a),
           dfr_receiptId = ta_receiptId a, dfr_indexInReceipt = ta_indexInReceipt a,
           dfr_predecessorId = ta_predecessorId a, dfr_receiverId = ta_receiverId a,
           dfr_kind = ta_kind a, dfr_deposit = ta_deposit a, dfr_methodName = ta_methodName a,
           dfr_args = ta_args a, dfr_transactionHash = ta_transactionHash a,
           dfr_createTimestamp = ta_timestamp a \<rparr>))"

definition token_transfer_methods :: "string list" where
  "token_transfer_methods = [''ft_mint'', ''ft_transfer'', ''ft_transfer_call'']"

definition save_token_receipt :: "env \<Rightarrow> transaction_action \<Rightarrow> unit service" where
  "save_token_receipt E a =
     (if ta_kind a = ''FunctionCall'' \<and> ta_methodName a \<in> Some ` set token_transfer_methods then
        bnd (lift_res (positive_amount (opt_args a ''amount''))) (\<lambda>pos.
        when_act pos
          (let receiverId = (if nullish (opt_args a ''receiver_id'') then opt_args a ''account_id''
                             else opt_args a ''receiver_id'') in
           bnd (lift_res (if isDaoContract E (ta_predecessorId a) then Inr True
                  else isDaoContract_js E receiverId)) (\<lambda>ofDao.
           when_act ofDao
             (token_receipt_save
               \<lparr> dft_daoId = (if isDaoContract E (ta_predecessorId a) then JStr (ta_predecessorId a)
                              else receiverId),
                 dft_receiptId = ta_receiptId a, dft_indexInReceipt = ta_indexInReceipt a,
                 dft_senderId = ta_predecessorId a, dft_receiverId = receiverId,
                 dft_tokenId = ta_receiverId a, dft_kind = ta_kind a,
                 dft_amount = opt_args a ''amount'', dft_deposit = ta_deposit a,
                 dft_methodName = ta_methodName a, dft_args = ta_args a,
                 dft_transactionHash = ta_transactionHash a,
                 dft_createTimestamp = ta_timestamp a \<rparr>))))
      else ret ())"

definition saveDaoFunds :: "env \<Rightarrow> transaction_action \<Rightarrow> unit service" where
  "saveDaoFunds E a =
     (if ta_kind a \<noteq> ''Transfer'' \<and> ta_kind a \<noteq> ''FunctionCall'' then ret ()
      else thn (save_deposit_receipt E a) (save_token_receipt E a))"


section \<open>What the treasury receipts record\<close>

text \<open>A call that stores a receipt in the partition of a DAO.\<close>

definition dao_receipt :: "env \<Rightarrow> call \<Rightarrow> bool" where
  "dao_receipt E c \<longleftrightarrow> (\<exists>k m d. c = Dyn (D_save k (M_FundsReceipt m)) \<and> dk_partitionId k = Some d
     \<and> isDaoContract E d \<and> map_of m ''daoId'' = Some (JStr d))"

lemma isDaoContract_js_True: "isDaoContract_js E v = Inr True \<Longrightarrow> \<exists>s. v = JStr s \<and> isDaoContract E s"
  by (cases v) auto

lemma save_deposit_receipt_calls:
  "\<exists>cs. snd (save_deposit_receipt E a W tr) = tr @ cs \<and> length cs \<le> 1 \<and> list_all (dao_receipt E) cs"
  by (auto simp: save_deposit_receipt_def receipt_save_def castReceiptDtoToModel_def entity_key_def
      dao_receipt_def run_simps split: sum.splits)

lemma save_token_receipt_calls:
  "\<exists>cs. snd (save_token_receipt E a W tr) = tr @ cs \<and> length cs \<le> 1 \<and> list_all (dao_receipt E) cs"
  by (auto simp: save_token_receipt_def token_receipt_save_def castTokenReceiptDtoToModel_def
      entity_key_def dao_receipt_def run_simps Let_def split: sum.splits
      dest: isDaoContract_js_True)

text \<open>
  The receipts of one action: at most two calls are made, and each stores a receipt in the
  partition of a DAO account, under that account's id; so nothing is recorded for transfers between
  other accounts, and a transfer between two DAOs is recorded for one of them only.
\<close>

theorem saveDaoFunds_calls:
  "\<exists>cs. snd (saveDaoFunds E a W tr) = tr @ cs \<and> length cs \<le> 2 \<and> list_all (dao_receipt E) cs"
proof -
  obtain cs where cs: "snd (save_deposit_receipt E a W tr) = tr @ cs" "length cs \<le> 1"
    "list_all (dao_receipt E) cs" using save_deposit_receipt_calls by blast
  obtain ds where ds: "snd (save_token_receipt E a W (tr @ cs)) = (tr @ cs) @ ds" "length ds \<le> 1"
    "list_all (dao_receipt E) ds" using save_token_receipt_calls by blast
  show ?thesis
  proof (cases "save_deposit_receipt E a W tr")
    case (Pair r t)
    then show ?thesis
      using cs ds by (cases r) (auto simp: saveDaoFunds_def run_simps intro!: exI [of _ "cs @ ds"])
  qed
qed

section \<open>The delegated amounts\<close>

definition account_of :: "jsval \<Rightarrow> string" where
  "account_of v = (case first_elem v of Inl e \<Rightarrow> [] | Inr x \<Rightarrow> js_str x)"

definition amount_of :: "jsval \<Rightarrow> int" where
  "amount_of v = (case res_bind (second_elem v) js_BigInt of Inl e \<Rightarrow> 0 | Inr n \<Rightarrow> n)"

definition total_for :: "(string \<times> int) list \<Rightarrow> string \<Rightarrow> int" where
  "total_for m k = (case map_of m k of None \<Rightarrow> 0 | Some n \<Rightarrow> n)"

lemma map_of_assoc_set [simp]: "map_of (assoc_set fs k v) = (map_of fs)(k \<mapsto> v)"
  by (induction fs k v rule: assoc_set.induct) (auto simp: fun_eq_iff)

lemma keys_assoc_set: "fst ` set (assoc_set fs k v) = insert k (fst ` set fs)"
  by (induction fs k v rule: assoc_set.induct) auto

lemma distinct_assoc_set: "distinct (map fst fs) \<Longrightarrow> distinct (map fst (assoc_set fs k v))"
proof (induction fs k v rule: assoc_set.induct)
  case (2 k' v' fs k v)
  then show ?case using keys_assoc_set [of fs k v] by (auto simp: image_iff)
qed simp

lemma add_delegated_step:
  assumes "add_delegated acc v = Inr m"
  shows "total_for m k = total_for acc k + (if account_of v = k then amount_of v else 0)"
    and "distinct (map fst acc) \<Longrightarrow> distinct (map fst m)"
proof -
  obtain x y n where "first_elem v = Inr x" "second_elem v = Inr y" "js_BigInt y = Inr n"
    and m: "m = assoc_set acc (js_str x) (total_for acc (js_str x) + n)"
    using assms by (auto simp: add_delegated_def res_bind_Inr_iff Let_def total_for_def)
  then have "account_of v = js_str x" and "amount_of v = n"
    by (simp_all add: account_of_def amount_of_def)
  with m show "total_for m k = total_for acc k + (if account_of v = k then amount_of v else 0)"
    by (simp add: total_for_def)
  show "distinct (map fst m)" if "distinct (map fst acc)"
    unfolding m using that by (rule distinct_assoc_set)
qed

lemma fold_add_delegated:
  assumes "fold_res add_delegated acc vs = Inr m"
  shows "total_for m k = total_for acc k
      + sum_list (map amount_of (filter (\<lambda>v. account_of v = k) vs))"
    and "distinct (map fst acc) \<Longrightarrow> distinct (map fst m)"
  using assms
proof (induction vs arbitrary: acc)
  case (Cons v vs)
  {
    case 1
    then obtain acc' where "add_delegated acc v = Inr acc'" "fold_res add_delegated acc' vs = Inr m"
      by (auto simp: res_bind_Inr_iff)
    with Cons.IH(1) [of acc'] add_delegated_step(1) [of acc v acc' k] show ?case by simp
  next
    case 2
    then obtain acc' where "add_delegated acc v = Inr acc'" "fold_res add_delegated acc' vs = Inr m"
      by (auto simp: res_bind_Inr_iff)
    with Cons.IH(2) [of acc'] add_delegated_step(2) [of acc v acc'] 2 show ?case by simp
  }
qed simp_all

text \<open>
  The reduction over the delegated amounts of a user adds up, for every account, exactly the
  amounts delegated to it, and lists each account once.
\<close>

theorem add_delegated_totals:
  "case fold_res add_delegated [] vs of
     Inl e \<Rightarrow> True
   | Inr m \<Rightarrow> distinct (map fst m)
       \<and> (\<forall>k. total_for m k = sum_list (map amount_of (filter (\<lambda>v. account_of v = k) vs)))"
proof (cases "fold_res add_delegated [] vs")
  case (Inr m)
  have "total_for [] k = 0" for k by (simp add: total_for_def)
  then show ?thesis
    using Inr fold_add_delegated(1) [OF Inr] fold_add_delegated(2) [OF Inr] by simp
qed simp

section \<open>Handlers that never fail\<close>

lemma attempt_total: "(\<And>e W tr. \<exists>y t. h e W tr = (Inr y, t)) \<Longrightarrow> \<exists>y t. attempt m h W tr = (Inr y, t)"
  by (cases "m W tr"; cases "fst (m W tr)") (auto simp: run_simps)

text \<open>
  A \<open>mint\<close> call never makes the handling of its action fail, whatever the contract and the
  stores answer: for a fungible token whose update succeeds the result is undefined, in all other
  cases it is a token update.
\<close>

theorem handleTokenMint_total:
  "fst (handleTokenMint E a W tr)
     \<in> {Inr HR_Undefined, Inr (HR_Result \<lparr> hr_type = RT_TokenUpdate, hr_metadata = [] \<rparr>)}"
proof -
  let ?ft = "attempt (bnd (call (Rpc (R_ftTotalSupply (ta_receiverId a) None)) w_str) (\<lambda>_.
      bnd (handleTokenMethods E a) (\<lambda>_. ret True))) (\<lambda>err. ret False)"
  let ?nft = "attempt (bnd (call (Rpc (R_nftTotalSupply (ta_receiverId a))) w_str) (\<lambda>_.
      bnd (handleNftMethods E a) (\<lambda>_. ret ()))) (\<lambda>err. ret ())"
  have "\<exists>y t. ?ft W tr = (Inr y, t)"
    by (rule attempt_total) (intro exI, rule run_ret)
  then obtain b t where ft: "?ft W tr = (Inr b, t)" by blast
  have "\<exists>y t'. ?nft W t = (Inr y, t')"
    by (rule attempt_total) (intro exI, rule run_ret)
  then obtain u t' where nft: "?nft W t = (Inr u, t')" by blast
  show ?thesis
    unfolding handleTokenMint_def
    by (subst run_bnd, subst ft, cases b) (simp_all add: run_ret run_thn nft)
qed

end
