(* ===== verification/Tx_Dispatch.thy ===== *)
theory Tx_Dispatch
  imports Tx_Handlers Tx_Assets
begin

text \<open>
  The dispatch of \<open>TransactionActionHandlerService\<close>: the table of contract handlers, the handling of
  one transaction action with its check that it has not been handled before, and the handling of a
  list of actions in order.
\<close>

section \<open>The table of handlers\<close>

type_synonym action_handler = "transaction_action \<Rightarrow> handler_result service"

record contract_handler =
  ch_contractId :: "string option"
  ch_contractIdSuffix :: "string option"
  ch_methodHandlers :: "(string \<times> action_handler) list"
  ch_defaultHandler :: "action_handler option"

definition factory_handler :: "env \<Rightarrow> contract_handler" where
  "factory_handler E =
     \<lparr> ch_contractId = Some (e_contractName E), ch_contractIdSuffix = None,
       ch_methodHandlers = [(''create'', handleCreateDao E)], ch_defaultHandler = None \<rparr>"

definition dao_handler :: "env \<Rightarrow> contract_handler" where
  "dao_handler E =
     \<lparr> ch_contractId = None, ch_contractIdSuffix = Some (CHR ''.'' # e_contractName E),
       ch_methodHandlers =
         [(''add_proposal'', handleAddProposal E), (''act_proposal'', handleActProposal E),
          (''bounty_claim'', handleClaimUnclaimBounty E),
          (''bounty_giveup'', handleClaimUnclaimBounty E),
          (''delegate'', handleDelegate E), (''undelegate'', handleDelegate E)],
       ch_defaultHandler = Some handleUnknownDaoTransaction \<rparr>"

definition token_methods :: "string list" where
  "token_methods =
     [''ft_mint'', ''ft_transfer_call'', ''ft_transfer'', ''deposit'', ''storage_deposit'',
      ''deposit_and_stake'', ''withdraw'', ''storage_withdraw'', ''withdraw_all'',
      ''withdraw_unstaked'', ''withdraw_from_available'']"

definition nft_methods :: "string list" where
  "nft_methods =
     [''nft_transfer'', ''nft_batch_transfer'', ''nft_transfer_call'', ''nft_approve'',
      ''nft_revoke'', ''nft_transfer_payout'', ''nft_on_approve'', ''nft_mint'', ''nft_batch_mint'',
      ''nft_burn'', ''nft_batch_burn'', ''nft_create_series'', ''nft_buy'']"

definition asset_handler :: "env \<Rightarrow> contract_handler" where
  "asset_handler E =
     \<lparr> ch_contractId = None, ch_contractIdSuffix = Some [],
       ch_methodHandlers =
         (''mint'', handleTokenMint E) # map (\<lambda>m. (m, handleTokenMethods E)) token_methods
           @ map (\<lambda>m. (m, handleNftMethods E)) nft_methods,
       ch_defaultHandler = None \<rparr>"

definition contractHandlers :: "env \<Rightarrow> contract_handler list" where
  "contractHandlers E = [factory_handler E, dao_handler E, asset_handler E]"

text \<open>\<open>endsWith(undefined)\<close> compares with the text \<open>undefined\<close>.\<close>

definition getContractHandlers :: "env \<Rightarrow> string \<Rightarrow> contract_handler list" where
  "getContractHandlers E receiverId =
     filter (\<lambda>h. ch_contractId h = Some receiverId
       \<or> ends_with receiverId (opt_str (ch_contractIdSuffix h))) (contractHandlers E)"

section \<open>Choosing a handler\<close>

text \<open>
  The table is a plain object, so indexing it with the name of a method of \<open>Object.prototype\<close> finds
  that method, which is called without a receiver: \<open>toString\<close> then returns a text, \<open>constructor\<close>
  the action itself, and the others throw.
\<close>

definition throwing_methods :: "string list" where
  "throwing_methods =
     [''hasOwnProperty'', ''isPrototypeOf'', ''propertyIsEnumerable'', ''toLocaleString'',
      ''valueOf'', ''__defineGetter__'', ''__defineSetter__'', ''__lookupGetter__'',
      ''__lookupSetter__'', ''__proto__'']"

definition js_of_action :: "transaction_action \<Rightarrow> jsval" where
  "js_of_action a = JObj
     [(''receiverId'', JStr (ta_receiverId a)), (''signerId'', JStr (ta_signerId a)),
      (''txSignerId'', js_of_opt (ta_txSignerId a)), (''predecessorId'', JStr (ta_predecessorId a)),
      (''transactionHash'', JStr (ta_transactionHash a)), (''blockHash'', JStr (ta_blockHash a)),
      (''kind'', JStr (ta_kind a)), (''methodName'', js_of_opt (ta_methodName a)),
      (''args'', ta_args a), (''deposit'', js_of_opt (ta_deposit a)),
      (''timestamp'', JStr (ta_timestamp a)), (''receiptId'', JStr (ta_receiptId a)),
      (''indexInReceipt'', JNum (int (ta_indexInReceipt a))), (''status'', ta_status a),
      (''receiptSuccessValue'', js_of_opt (ta_receiptSuccessValue a))]"

definition prototype_handler :: "string \<Rightarrow> action_handler option" where
  "prototype_handler m =
     (if m = ''toString'' then Some (\<lambda>a. ret (HR_Other (JStr ''[object Undefined]'')))
      else if m = ''constructor'' then Some (\<lambda>a. ret (HR_Other (js_of_action a)))
      else if m \<in> set throwing_methods then Some (\<lambda>a. throw (TypeError m))
      else None)"

definition method_handler :: "contract_handler \<Rightarrow> string \<Rightarrow> action_handler option" where
  "method_handler h m =
     (case map_of (ch_methodHandlers h) m of
        Some f \<Rightarrow> Some f
      | None \<Rightarrow> prototype_handler m)"

definition process_handler :: "transaction_action \<Rightarrow> contract_handler \<Rightarrow> handler_result service" where
  "process_handler a h =
     (case method_handler h (opt_str (ta_methodName a)) of
        Some f \<Rightarrow> f a
      | None \<Rightarrow> (case ch_defaultHandler h of Some f \<Rightarrow> f a | None \<Rightarrow> ret HR_Undefined))"

section \<open>Handling an action\<close>

definition action_id :: "transaction_action \<Rightarrow> string" where
  "action_id a = ta_transactionHash a @ '':'' @ ta_receiptId a @ '':'' @ nat_str (ta_indexInReceipt a)"

definition is_test_dao :: "transaction_action \<Rightarrow> bool" where
  "is_test_dao a \<longleftrightarrow> index_of (ta_receiverId a) ''astro-failed-test'' = 0"

definition handleTransactionAction :: "env \<Rightarrow> transaction_action \<Rightarrow> handler_result list service" where
  "handleTransactionAction E a =
     bnd (if is_test_dao a then useDynamoDB ''enable-failed-dao'' else ret False) (\<lambda>failTest.
     if failTest then throw (ThrownError (''Test error - transaction action: '' @ action_id a))
     else
       bnd (handled_check a) (\<lambda>handled.
       case handled of
         Some results \<Rightarrow> ret results
       | None \<Rightarrow>
           bnd (lift_res (js_get (ta_status a) ''Failure'')) (\<lambda>failure.
           if failure \<noteq> JUndef then ret []
           else
             bnd (e_poolHandlers E (map (process_handler a) (getContractHandlers E (ta_receiverId a))))
               (\<lambda>results.
             thn (saveDaoFunds E a)
            (thn (handled_save a results)
                 (ret results))))))"

record actions_result =
  ar_handledTxHashes :: "string list"
  ar_results :: "handler_result list"
  ar_success :: bool

fun truthy_result :: "handler_result \<Rightarrow> bool" where
  "truthy_result HR_Undefined = False"
| "truthy_result (HR_Result r) = True"
| "truthy_result (HR_Other v) = truthy v"

fun handle_actions_loop ::
    "env \<Rightarrow> string list \<Rightarrow> handler_result list \<Rightarrow> transaction_action list \<Rightarrow> actions_result service"
where
  "handle_actions_loop E handledTxHashes results [] =
     ret \<lparr> ar_handledTxHashes = handledTxHashes, ar_results = results, ar_success = True \<rparr>"
| "handle_actions_loop E handledTxHashes results (a # actions) =
     bnd (attempt (bnd (handleTransactionAction E a) (\<lambda>rs. ret (Some rs))) (\<lambda>error. ret None)) (\<lambda>r.
     case r of
       Some actionResults \<Rightarrow>
         handle_actions_loop E (handledTxHashes @ [ta_transactionHash a])
           (results @ filter truthy_result actionResults) actions
     | None \<Rightarrow>
         ret \<lparr> ar_handledTxHashes = filter (\<lambda>h. ta_transactionHash a \<noteq> h) handledTxHashes,
               ar_results = results, ar_success = False \<rparr>)"

definition handleTransactionActions :: "env \<Rightarrow> transaction_action list \<Rightarrow> actions_result service" where
  "handleTransactionActions E actions = handle_actions_loop E [] [] actions"

section \<open>Which handlers a contract has\<close>

text \<open>
  The handlers of a receiver. Every contract has the handlers of tokens and NFTs, a contract
  whose id ends with the factory's name after a dot also those of a DAO, and the factory also the
  handler of new DAOs; the last one is chosen as well for every account id that ends with
  \<open>undefined\<close>, because the factory's entry has no suffix.
\<close>

theorem getContractHandlers_spec:
  "getContractHandlers E r =
     (if r = e_contractName E \<or> ends_with r ''undefined'' then [factory_handler E] else [])
     @ (if isDaoContract E r then [dao_handler E] else [])
     @ [asset_handler E]"
  by (auto simp: getContractHandlers_def contractHandlers_def factory_handler_def dao_handler_def
      asset_handler_def isDaoContract_def opt_str_def)

lemma map_of_methods: "map_of (map (\<lambda>m. (m, f)) ms) k = (if k \<in> set ms then Some f else None)"
  by (induction ms) auto

lemma method_handler_throws:
  assumes "m \<in> set throwing_methods" and "h \<in> set (contractHandlers E)"
  shows "method_handler h m = Some (\<lambda>a. throw (TypeError m))"
proof -
  have "m \<noteq> ''toString''" "m \<noteq> ''constructor''" "m \<noteq> ''create''" "m \<noteq> ''add_proposal''"
    "m \<noteq> ''act_proposal''" "m \<noteq> ''bounty_claim''" "m \<noteq> ''bounty_giveup''" "m \<noteq> ''delegate''"
    "m \<noteq> ''undelegate''" "m \<noteq> ''mint''" "m \<notin> set token_methods" "m \<notin> set nft_methods"
    using assms(1) by (auto simp: throwing_methods_def token_methods_def nft_methods_def)
  then show ?thesis
    using assms by (auto simp: method_handler_def contractHandlers_def factory_handler_def
        dao_handler_def asset_handler_def prototype_handler_def map_of_methods map_add_def split: option.splits)
qed

text \<open>
  A call of a method with the name of an object method, which any account can make on any
  contract, makes every handler of the contract throw, so the action can never be handled.
\<close>

theorem process_handler_object_method:
  "list_all (\<lambda>m. list_all (\<lambda>h. process_handler (a\<lparr>ta_methodName := Some m\<rparr>) h W tr
       = (Inl (TypeError m), tr)) (getContractHandlers E r)) throwing_methods"
proof -
  have "set (getContractHandlers E r) \<subseteq> set (contractHandlers E)"
    by (auto simp: getContractHandlers_def)
  then show ?thesis
    using method_handler_throws [of _ _ E]
    by (auto simp: list_all_iff process_handler_def opt_str_def run_throw)
qed

section \<open>An action is handled once\<close>

text \<open>The results stored last for a key in a history of calls.\<close>

fun latest_handled :: "dyn_key \<Rightarrow> call list \<Rightarrow> handler_result list option" where
  "latest_handled k [] = None"
| "latest_handled k (c # cs) =
     (case latest_handled k cs of
        Some rs \<Rightarrow> Some rs
      | None \<Rightarrow> (case c of Dyn (D_save k' (M_Handled rs)) \<Rightarrow> if k' = k then Some rs else None
                | _ \<Rightarrow> None))"

text \<open>A table that answers the check with what was stored last under the key.\<close>

definition remembers :: "world \<Rightarrow> bool" where
  "remembers W \<longleftrightarrow> (\<forall>tr k. w_handled W (tr @ [Dyn (D_get k)]) = Inr (latest_handled k tr))"

lemma latest_handled_append:
  "latest_handled k (xs @ ys) =
     (case latest_handled k ys of Some rs \<Rightarrow> Some rs | None \<Rightarrow> latest_handled k xs)"
  by (induction xs) (auto split: option.split)

lemma latest_handled_other:
  "list_all (\<lambda>c. \<forall>rs. c \<noteq> Dyn (D_save k (M_Handled rs))) cs \<Longrightarrow> latest_handled k cs = None"
  by (induction cs) (auto split: call.split dyn_request.split dyn_model.split)

lemma latest_handled_reads:
  assumes "list_all (\<lambda>c. \<forall>rs. c \<noteq> Dyn (D_save k (M_Handled rs))) cs"
  shows "latest_handled k (tr @ cs) = latest_handled k tr"
  using latest_handled_other [OF assms] by (simp add: latest_handled_append)

lemma latest_handled_last [simp]:
  "latest_handled k (tr @ [Dyn (D_get k')]) = latest_handled k tr"
  "latest_handled k (tr @ [Dyn (D_save k (M_Handled rs))]) = Some rs"
  by (simp_all add: latest_handled_append)

lemma handled_check_remembers:
  "remembers W \<Longrightarrow> handled_check a W tr =
     (Inr (latest_handled (handled_key a) tr), tr @ [Dyn (D_get (handled_key a))])"
  by (simp add: handled_check_def run_dyn_get remembers_def)

text \<open>The handling of an action on a DAO that is not the one of the failure tests, by its check.\<close>

lemma handleTransactionAction_run:
  assumes "remembers W" and "\<not> is_test_dao a"
  shows "handleTransactionAction E a W tr =
     (case latest_handled (handled_key a) tr of
        Some results \<Rightarrow> ret results
      | None \<Rightarrow>
          bnd (lift_res (js_get (ta_status a) ''Failure'')) (\<lambda>failure.
          if failure \<noteq> JUndef then ret []
          else
            bnd (e_poolHandlers E (map (process_handler a) (getContractHandlers E (ta_receiverId a))))
              (\<lambda>results. thn (saveDaoFunds E a) (thn (handled_save a results) (ret results)))))
       W (tr @ [Dyn (D_get (handled_key a))])"
  using assms(2)
  by (simp add: handleTransactionAction_def run_bnd [of "handled_check a"]
      handled_check_remembers [OF assms(1)])

text \<open>
  C2. Handling is idempotent. If the table remembers what was stored in it, an action that has been
  handled is not handled again: whatever other calls \<open>cs\<close> have been made in the meantime, handling
  it once more gives the same results and makes no call but the check. (The DAO of the failure
  tests, whose handling depends on a feature flag, is left out.)
\<close>

theorem handleTransactionAction_once:
  assumes "remembers W" and "\<not> is_test_dao a"
    and "handleTransactionAction E a W tr = (Inr results, t)"
    and "list_all (\<lambda>c. \<forall>rs. c \<noteq> Dyn (D_save (handled_key a) (M_Handled rs))) cs"
  shows "handleTransactionAction E a W (t @ cs)
     = (Inr results, t @ cs @ [Dyn (D_get (handled_key a))])"
proof -
  note reads = latest_handled_reads [OF assms(4)]
  show ?thesis
  proof (cases "latest_handled (handled_key a) tr")
  case (Some rs)
  then have "results = rs" and "t = tr @ [Dyn (D_get (handled_key a))]"
    using assms(3) by (auto simp: handleTransactionAction_run [OF assms(1,2)] ret_iff)
  moreover from this Some have "latest_handled (handled_key a) (t @ cs) = Some rs"
    unfolding reads by simp
  ultimately show ?thesis
    by (simp add: handleTransactionAction_run [OF assms(1,2)] run_ret)
next
  case None
  have run: "bnd (lift_res (js_get (ta_status a) ''Failure'')) (\<lambda>failure.
      if failure \<noteq> JUndef then ret []
      else
        bnd (e_poolHandlers E (map (process_handler a) (getContractHandlers E (ta_receiverId a))))
          (\<lambda>results. thn (saveDaoFunds E a) (thn (handled_save a results) (ret results))))
      W (tr @ [Dyn (D_get (handled_key a))]) = (Inr results, t)"
    using assms(3) None by (simp add: handleTransactionAction_run [OF assms(1,2)])
  then obtain failure where st: "js_get (ta_status a) ''Failure'' = Inr failure"
    by (auto simp: bnd_Inr_iff lift_res_Inr_iff)
  show ?thesis
  proof (cases "failure = JUndef")
    case False
    then have "results = []" and "t = tr @ [Dyn (D_get (handled_key a))]"
      using run st by (auto simp: run_bnd run_lift_res ret_iff)
    moreover from this None have "latest_handled (handled_key a) (t @ cs) = None"
      unfolding reads by simp
    ultimately show ?thesis
      using False st by (simp add: handleTransactionAction_run [OF assms(1,2)] run_simps)
  next
    case True
    then obtain t' where "t = t' @ [Dyn (D_save (handled_key a) (M_Handled results))]"
      using run st by (auto simp: bnd_Inr_iff thn_Inr_iff lift_res_Inr_iff ret_iff handled_save_def)
    then have "latest_handled (handled_key a) (t @ cs) = Some results"
      unfolding reads by simp
    then show ?thesis
      by (simp add: handleTransactionAction_run [OF assms(1,2)] run_ret)
  qed
qed
qed

definition remembering_world :: world where
  "remembering_world = quiet_world\<lparr>w_handled := \<lambda>tr. Inr (case rev tr of
     Dyn (D_get k) # before \<Rightarrow> latest_handled k (rev before) | _ \<Rightarrow> None)\<rparr>"

lemma remembering_world [simp]: "remembers remembering_world"
  by (simp add: remembers_def remembering_world_def)

definition transfer_action :: transaction_action where
  "transfer_action =
     \<lparr> ta_receiverId = ''bob.near'', ta_signerId = ''alice.near'', ta_txSignerId = Some ''alice.near'',
       ta_predecessorId = ''alice.near'', ta_transactionHash = ''h'', ta_blockHash = ''b'',
       ta_kind = ''Transfer'', ta_methodName = None, ta_args = JUndef, ta_deposit = Some ''7'',
       ta_timestamp = ''1'', ta_receiptId = ''r'', ta_indexInReceipt = 0,
       ta_status = JObj [(''SuccessValue'', JStr [])], ta_receiptSuccessValue = None \<rparr>"

lemma transfer_action_handled:
  "handleTransactionAction sample_env transfer_action remembering_world []
     = (Inr [HR_Undefined], [Dyn (D_get (handled_key transfer_action)),
          Dyn (D_save (handled_key transfer_action) (M_Handled [HR_Undefined]))])"
proof -
  have hs: "getContractHandlers sample_env (ta_receiverId transfer_action) = [asset_handler sample_env]"
    by (simp add: getContractHandlers_def contractHandlers_def factory_handler_def dao_handler_def
        asset_handler_def transfer_action_def sample_env_def ends_with_def opt_str_def)
  have "process_handler transfer_action (asset_handler sample_env) = ret HR_Undefined"
    by (simp add: process_handler_def method_handler_def asset_handler_def transfer_action_def
        token_methods_def nft_methods_def prototype_handler_def throwing_methods_def opt_str_def)
  moreover have "\<not> is_test_dao transfer_action"
    by (simp add: is_test_dao_def transfer_action_def) code_simp
  moreover have "saveDaoFunds sample_env transfer_action W tr = (Inr (), tr)" for W tr
  proof -
    have "\<not> isDaoContract sample_env ''alice.near''" "\<not> isDaoContract sample_env ''bob.near''"
      by (simp_all add: isDaoContract_def ends_with_def sample_env_def)
    moreover have "positive_amount (JStr ''7'') = Inr True"
      by code_simp
    ultimately show ?thesis
      by (auto simp: saveDaoFunds_def save_deposit_receipt_def save_token_receipt_def transfer_action_def
          run_simps)
  qed
  moreover have "js_get (ta_status transfer_action) ''Failure'' = Inr JUndef"
    by (simp add: transfer_action_def obj_get_def)
  moreover have "e_poolHandlers sample_env = seq_pool" and "w_ack remembering_world = (\<lambda>tr. Inr ())"
    by (simp_all add: sample_env_def remembering_world_def quiet_world_def)
  ultimately show ?thesis
    by (simp add: handleTransactionAction_run run_simps hs seq_pool_def handled_save_def)
qed

theorem handleTransactionAction_once_witness:
  "handleTransactionAction sample_env transfer_action remembering_world
     [Dyn (D_get (handled_key transfer_action)),
      Dyn (D_save (handled_key transfer_action) (M_Handled [HR_Undefined])), CacheDel [''k'']]
   = (Inr [HR_Undefined], [Dyn (D_get (handled_key transfer_action)),
       Dyn (D_save (handled_key transfer_action) (M_Handled [HR_Undefined])), CacheDel [''k''],
       Dyn (D_get (handled_key transfer_action))])"
proof -
  have "\<not> is_test_dao transfer_action"
    by (simp add: is_test_dao_def transfer_action_def) code_simp
  from handleTransactionAction_once [OF remembering_world this transfer_action_handled,
      of "[CacheDel [''k'']]"]
  show ?thesis by simp
qed

section \<open>A list of actions is handled in order\<close>

text \<open>
  \<open>handles E W tr actions results t\<close>: from the history \<open>tr\<close> every action is handled, one after the
  other, with the given truthy results and the history \<open>t\<close> at the end.
\<close>

inductive handles ::
    "env \<Rightarrow> world \<Rightarrow> call list \<Rightarrow> transaction_action list \<Rightarrow> handler_result list \<Rightarrow> call list \<Rightarrow> bool"
  for E W
where
  none: "handles E W tr [] [] tr"
| next_action: "handleTransactionAction E a W tr = (Inr rs, t) \<Longrightarrow> handles E W t actions results t'
    \<Longrightarrow> handles E W tr (a # actions) (filter truthy_result rs @ results) t'"

inductive_simps handles_Nil: "handles E W tr [] results t"
inductive_simps handles_Cons: "handles E W tr (a # actions) results t"
inductive_cases handles_ConsE: "handles E W tr (a # actions) results t"

lemma handles_append:
  "handles E W tr xs rs t \<Longrightarrow> handles E W t ys rs' t' \<Longrightarrow> handles E W tr (xs @ ys) (rs @ rs') t'"
  by (induction rule: handles.induct) (auto intro: handles.next_action)

lemma handles_deterministic:
  "handles E W tr xs rs t \<Longrightarrow> handles E W tr xs rs' t' \<Longrightarrow> rs' = rs \<and> t' = t"
proof (induction arbitrary: rs' t' rule: handles.induct)
  case (none tr)
  then show ?case by (simp add: handles_Nil)
next
  case (next_action a tr rs t actions results t1)
  obtain ss where "rs' = filter truthy_result rs @ ss" and "handles E W t actions ss t'"
    using next_action.prems
    by (rule handles_ConsE) (simp add: next_action.hyps(1))
  with next_action.IH show ?case by blast
qed

text \<open>What the loop yields, in terms of the actions handled before the first that fails.\<close>

definition loop_outcome ::
    "env \<Rightarrow> world \<Rightarrow> call list \<Rightarrow> transaction_action list \<Rightarrow> string list \<Rightarrow> handler_result list \<Rightarrow>
     actions_result \<Rightarrow> call list \<Rightarrow> bool" where
  "loop_outcome E W tr actions hashes results r t \<longleftrightarrow>
     (if ar_success r then
        ar_handledTxHashes r = hashes @ map ta_transactionHash actions
        \<and> (\<exists>rs. ar_results r = results @ rs \<and> handles E W tr actions rs t)
      else
        (\<exists>before a rest rs t' e. actions = before @ a # rest \<and> handles E W tr before rs t'
           \<and> handleTransactionAction E a W t' = (Inl e, t) \<and> ar_results r = results @ rs
           \<and> ar_handledTxHashes r =
               filter (\<lambda>h. ta_transactionHash a \<noteq> h) (hashes @ map ta_transactionHash before)))"

lemma loop_outcome_failed:
  assumes "\<not> ar_success r" and "actions = before @ a # rest" and "handles E W tr before rs t'"
    and "handleTransactionAction E a W t' = (Inl e, t)" and "ar_results r = results @ rs"
    and "ar_handledTxHashes r =
      filter (\<lambda>h. ta_transactionHash a \<noteq> h) (hashes @ map ta_transactionHash before)"
  shows "loop_outcome E W tr actions hashes results r t"
  unfolding loop_outcome_def using assms by (simp only: if_False) blast

lemma loop_outcome_step:
  assumes h: "handleTransactionAction E a W tr = (Inr rs, t1)"
    and o: "loop_outcome E W t1 actions (hashes @ [ta_transactionHash a])
           (results @ filter truthy_result rs) r t"
  shows "loop_outcome E W tr (a # actions) hashes results r t"
proof (cases "ar_success r")
  case True
  then obtain ss where "ar_handledTxHashes r = hashes @ map ta_transactionHash (a # actions)"
    and "ar_results r = results @ filter truthy_result rs @ ss" and "handles E W t1 actions ss t"
    using o by (auto simp: loop_outcome_def)
  then show ?thesis
    using True handles.next_action [OF h] unfolding loop_outcome_def by (simp only: if_True) blast
next
  case False
  then obtain xs b rest ss t' e where
    "actions = xs @ b # rest" "handles E W t1 xs ss t'"
    and b: "handleTransactionAction E b W t' = (Inl e, t)"
    and "ar_results r = (results @ filter truthy_result rs) @ ss"
      "ar_handledTxHashes r = filter (\<lambda>h. ta_transactionHash b \<noteq> h)
         ((hashes @ [ta_transactionHash a]) @ map ta_transactionHash xs)"
    using o unfolding loop_outcome_def by (simp only: if_False) blast
  then show ?thesis
    by (intro loop_outcome_failed [OF False _ handles.next_action [OF h] b]) auto
qed

lemma handle_actions_loop_outcome:
  "\<exists>r t. handle_actions_loop E hashes results actions W tr = (Inr r, t)
     \<and> loop_outcome E W tr actions hashes results r t"
proof (induction actions arbitrary: hashes results tr)
  case Nil
  then show ?case by (simp add: run_ret loop_outcome_def handles.none)
next
  case (Cons a actions)
  obtain x t1 where h: "handleTransactionAction E a W tr = (x, t1)" by fastforce
  show ?case
  proof (cases x)
    case (Inl e)
    let ?r = "\<lparr> ar_handledTxHashes = filter (\<lambda>h. ta_transactionHash a \<noteq> h) hashes,
               ar_results = results, ar_success = False \<rparr>"
    have "handle_actions_loop E hashes results (a # actions) W tr = (Inr ?r, t1)"
      using h Inl by (simp add: run_simps)
    moreover have "loop_outcome E W tr (a # actions) hashes results ?r t1"
      by (rule loop_outcome_failed [OF _ _ handles.none h [unfolded Inl]]) simp_all
    ultimately show ?thesis by blast
  next
    case (Inr rs)
    obtain r t where r: "handle_actions_loop E (hashes @ [ta_transactionHash a])
        (results @ filter truthy_result rs) actions W t1 = (Inr r, t)"
      and o: "loop_outcome E W t1 actions (hashes @ [ta_transactionHash a])
        (results @ filter truthy_result rs) r t"
      using Cons.IH by blast
    have "handle_actions_loop E hashes results (a # actions) W tr = (Inr r, t)"
      using h Inr r by (simp add: run_simps)
    with loop_outcome_step [OF h [unfolded Inr] o] show ?thesis by blast
  qed
qed

text \<open>
  C3. A list of actions. \<open>handleTransactionActions\<close> never throws. It succeeds when every action has
  been handled, in order, and then lists every transaction; otherwise it stops at the first action
  whose handling throws, makes no further call, and lists the transactions of the actions before it
  except that action's own. The results are the truthy ones of the handled actions.
\<close>

theorem handleTransactionActions_spec:
  "\<exists>r t. handleTransactionActions E actions W tr = (Inr r, t)
     \<and> loop_outcome E W tr actions [] [] r t"
  unfolding handleTransactionActions_def by (rule handle_actions_loop_outcome)

end
