(* ===== verification/Call_Invariants.thy ===== *)
theory Call_Invariants
  imports World
begin

text \<open>
  Invariants of the calls. \<open>pres P W m\<close> says that in the world \<open>W\<close> the computation \<open>m\<close> keeps
  \<open>P\<close> true of all calls made: if it holds of the history, it holds of the calls afterwards,
  also when \<open>m\<close> ends in an exception. \<open>yields P W m x\<close> says that \<open>m\<close> can return \<open>x\<close> after such a
  history; the rule for \<open>bnd\<close> gives it to the rest of the computation, so what is known about the
  entities a service has read reaches the calls that write them back.
\<close>

section \<open>The judgements\<close>

definition pres :: "('c \<Rightarrow> bool) \<Rightarrow> 'w \<Rightarrow> ('w, 'c, 'a) act \<Rightarrow> bool" where
  "pres P W m \<longleftrightarrow> (\<forall>tr. list_all P tr \<longrightarrow> list_all P (snd (m W tr)))"

definition yields :: "('c \<Rightarrow> bool) \<Rightarrow> 'w \<Rightarrow> ('w, 'c, 'a) act \<Rightarrow> 'a \<Rightarrow> bool" where
  "yields P W m x \<longleftrightarrow> (\<exists>tr t. list_all P tr \<and> m W tr = (Inr x, t))"

named_theorems pres_intros
named_theorems yields_dests

lemma presD: "pres P W m \<Longrightarrow> list_all P tr \<Longrightarrow> m W tr = (r, t) \<Longrightarrow> list_all P t"
  unfolding pres_def by (metis snd_conv)

lemma presI: "(\<And>tr r t. list_all P tr \<Longrightarrow> m W tr = (r, t) \<Longrightarrow> list_all P t) \<Longrightarrow> pres P W m"
  unfolding pres_def by (metis prod.collapse)

section \<open>Rules\<close>

lemma pres_ret [pres_intros]: "pres P W (ret x)"
  by (simp add: pres_def ret_def)

lemma pres_throw [pres_intros]: "pres P W (throw e)"
  by (simp add: pres_def throw_def)

lemma pres_lift_res [pres_intros]: "pres P W (lift_res r)"
  by (simp add: pres_def lift_res_def)

lemma pres_peek [pres_intros]: "pres P W (peek g)"
  by (simp add: pres_def peek_def)

lemma pres_call [pres_intros]: "P c \<Longrightarrow> pres P W (call c g)"
  by (simp add: pres_def run_call)

lemma pres_do_call [pres_intros]: "P c \<Longrightarrow> pres P W (do_call c)"
  unfolding do_call_def by (rule pres_call)

lemma pres_need [pres_intros]: "pres P W (need p v)"
  by (simp add: pres_def run_need)

lemma pres_dyn_get [pres_intros]: "P (Dyn (D_get k)) \<Longrightarrow> pres P W (dyn_get sel k)"
  by (simp add: pres_def run_dyn_get)

lemma pres_bnd [pres_intros]:
  assumes "pres P W m" and "\<And>x. yields P W m x \<Longrightarrow> pres P W (f x)"
  shows "pres P W (bnd m f)"
proof (rule presI)
  fix tr r t
  assume tr: "list_all P tr" and run: "bnd m f W tr = (r, t)"
  obtain r' t' where m: "m W tr = (r', t')" by fastforce
  then have t': "list_all P t'" using presD [OF assms(1) tr] by blast
  show "list_all P t"
  proof (cases r')
    case (Inl e)
    then show ?thesis using run m t' by (simp add: run_bnd)
  next
    case (Inr x)
    then have "yields P W m x" unfolding yields_def using tr m by blast
    moreover have "f x W t' = (r, t)" using run m Inr by (simp add: run_bnd)
    ultimately show ?thesis using presD [OF assms(2) t'] by blast
  qed
qed

lemma pres_thn [pres_intros]: "pres P W m \<Longrightarrow> pres P W k \<Longrightarrow> pres P W (thn m k)"
  unfolding thn_def by (rule pres_bnd)

lemma pres_attempt [pres_intros]:
  assumes "pres P W m" and "\<And>e. pres P W (h e)"
  shows "pres P W (attempt m h)"
proof (rule presI)
  fix tr r t
  assume tr: "list_all P tr" and run: "attempt m h W tr = (r, t)"
  obtain r' t' where m: "m W tr = (r', t')" by fastforce
  then have t': "list_all P t'" using presD [OF assms(1) tr] by blast
  show "list_all P t"
  proof (cases r')
    case (Inl e)
    then have "h e W t' = (r, t)" using run m by (simp add: run_attempt)
    then show ?thesis by (rule presD [OF assms(2) t'])
  next
    case (Inr x)
    then show ?thesis using run m t' by (simp add: run_attempt)
  qed
qed

lemma pres_when_act [pres_intros]: "(b \<Longrightarrow> pres P W m) \<Longrightarrow> pres P W (when_act b m)"
  by (simp add: when_act_def pres_ret)

lemma pres_if [pres_intros]:
  "(b \<Longrightarrow> pres P W m) \<Longrightarrow> (\<not> b \<Longrightarrow> pres P W k) \<Longrightarrow> pres P W (if b then m else k)"
  by simp

lemma pres_case_option [pres_intros]:
  "(v = None \<Longrightarrow> pres P W m) \<Longrightarrow> (\<And>x. v = Some x \<Longrightarrow> pres P W (f x)) \<Longrightarrow>
     pres P W (case v of None \<Rightarrow> m | Some x \<Rightarrow> f x)"
  by (simp split: option.split)

lemma pres_case_prod [pres_intros]:
  "(\<And>x y. v = (x, y) \<Longrightarrow> pres P W (f x y)) \<Longrightarrow> pres P W (case v of (x, y) \<Rightarrow> f x y)"
  by (cases v) simp

lemma pres_Let [pres_intros]: "(\<And>x. x = v \<Longrightarrow> pres P W (f x)) \<Longrightarrow> pres P W (let x = v in f x)"
  by simp

lemma pres_each_act [pres_intros]:
  "(\<And>x. x \<in> set xs \<Longrightarrow> pres P W (f x)) \<Longrightarrow> pres P W (each_act f xs)"
  by (induction xs) (auto intro!: pres_ret pres_thn)

lemma pres_map_act [pres_intros]:
  "(\<And>x. x \<in> set xs \<Longrightarrow> pres P W (f x)) \<Longrightarrow> pres P W (map_act f xs)"
  by (induction xs) (auto intro!: pres_ret pres_bnd)

lemma pres_fold_act [pres_intros]:
  "(\<And>a x. pres P W (f a x)) \<Longrightarrow> pres P W (fold_act f acc xs)"
  by (induction xs arbitrary: acc) (auto intro!: pres_ret pres_bnd)

lemma pres_all_act [pres_intros]:
  assumes "\<And>x. x \<in> set xs \<Longrightarrow> pres P W (f x)"
  shows "pres P W (all_act f xs)"
  using assms
proof (induction xs)
  case Nil
  then show ?case by (simp add: pres_ret)
next
  case (Cons x xs)
  show ?case
  proof (rule presI)
    fix tr r t
    assume tr: "list_all P tr" and run: "all_act f (x # xs) W tr = (r, t)"
    obtain r1 t1 where 1: "f x W tr = (r1, t1)" by fastforce
    obtain r2 t2 where 2: "all_act f xs W t1 = (r2, t2)" by fastforce
    have "list_all P t1" using presD [OF Cons.prems [of x] tr 1] by simp
    then have "list_all P t2" using presD [OF Cons.IH _ 2] Cons.prems by simp
    then show "list_all P t" using run 1 2 by simp
  qed
qed

text \<open>A computation that only makes calls of which \<open>P\<close> holds.\<close>

lemma pres_keeps: "keeps P m \<Longrightarrow> pres P W m"
  by (rule presI) (auto elim: keepsE)

section \<open>What a computation returns\<close>

lemma yields_ret [yields_dests]: "yields P W (ret x) y \<Longrightarrow> y = x"
  by (auto simp: yields_def ret_def)

lemma yields_lift_res [yields_dests]: "yields P W (lift_res r) y \<Longrightarrow> r = Inr y"
  by (auto simp: yields_def lift_res_def)

lemma yields_need [yields_dests]: "yields P W (need p v) x \<Longrightarrow> v = Some x"
  by (auto simp: yields_def need_iff)

lemma yields_bnd:
  assumes "yields P W (bnd m f) y" and "pres P W m"
  obtains x where "yields P W m x" and "yields P W (f x) y"
proof -
  obtain tr t where tr: "list_all P tr" and "bnd m f W tr = (Inr y, t)"
    using assms(1) unfolding yields_def by blast
  then obtain x t' where x: "m W tr = (Inr x, t')" "f x W t' = (Inr y, t)"
    unfolding bnd_Inr_iff by blast
  then have "list_all P t'" using presD [OF assms(2) tr x(1)] by simp
  with tr x have "yields P W m x" and "yields P W (f x) y" unfolding yields_def by blast+
  then show thesis by (rule that)
qed

lemma yields_thn:
  assumes "yields P W (thn m k) y" and "pres P W m"
  shows "yields P W k y"
  by (rule yields_bnd [OF assms(1) [unfolded thn_def] assms(2)])

lemma yields_call:
  assumes "yields P W (call c g) x" and "P c"
  obtains tr where "list_all P tr" and "g W tr = Inr x"
proof -
  obtain tr where "list_all P tr" and "g W (tr @ [c]) = Inr x"
    using assms(1) by (auto simp: yields_def run_call)
  then show thesis using that [of "tr @ [c]"] assms(2) by simp
qed

lemma yields_dyn_get:
  assumes "yields P W (dyn_get sel k) (Some x)" and "P (Dyn (D_get k))"
  obtains tr where "list_all P tr" and "sel W tr = Inr (Some x)"
proof -
  obtain tr where "list_all P tr" and "dyn_get sel k W tr = (Inr (Some x), tr @ [Dyn (D_get k)])"
    using assms(1) by (auto simp: yields_def run_dyn_get)
  then have "sel W (tr @ [Dyn (D_get k)]) = Inr (Some x)"
    by (cases "sel W (tr @ [Dyn (D_get k)])") (simp_all add: run_dyn_get)
  moreover note \<open>list_all P tr\<close>
  ultimately show thesis using that [of "tr @ [Dyn (D_get k)]"] assms(2) by simp
qed

lemma yields_if:
  assumes "yields P W (if b then m else k) x"
  obtains "b" and "yields P W m x" | "\<not> b" and "yields P W k x"
  using assms by (cases b) auto

text \<open>A pool that runs only the computations it is given keeps what they keep.\<close>

definition fair_pool :: "('a service list \<Rightarrow> 'a list service) \<Rightarrow> bool" where
  "fair_pool pool \<longleftrightarrow> (\<forall>P W ms. (\<forall>m \<in> set ms. pres P W m) \<longrightarrow> pres P W (pool ms))"

lemma fair_seq_pool: "fair_pool seq_pool"
  by (auto simp: fair_pool_def seq_pool_def intro!: pres_map_act)

lemma pres_pool: "fair_pool pool \<Longrightarrow> (\<And>m. m \<in> set ms \<Longrightarrow> pres P W m) \<Longrightarrow> pres P W (pool ms)"
  by (simp add: fair_pool_def)

end
