(* ===== verification/Row_Invariant.thy ===== *)
theory Row_Invariant
  imports Call_Invariants Tx_Dispatch
begin

text \<open>
  The invariant of the stores that the transaction handlers keep. \<open>row_ok\<close> says of one call that the
  row it writes is well formed: the members and the council of a DAO are counted by its counters,
  lists keyed by an id have each id once, the type and the policy label of a proposal are those of
  its kind, and receipts belong to DAO accounts. If what is read back from the stores is well formed
  as long as everything written was, then handling any list of actions writes well-formed rows only.
\<close>

section \<open>Well-formed rows\<close>

definition dao_ok :: "dao \<Rightarrow> bool" where
  "dao_ok d \<longleftrightarrow>
     dao_numberOfMembers d = map_option (\<lambda>ids. int (length ids)) (dao_accountIds d)
     \<and> (\<forall>ids. dao_accountIds d = Some ids \<longrightarrow> distinct ids \<and> [] \<notin> set ids)
     \<and> dao_councilSeats d = map_option (\<lambda>council. int (length council)) (dao_council d)
     \<and> (\<forall>ds. dao_delegations d = Some ds \<longrightarrow> distinct (map dlg_id ds))
     \<and> (\<forall>ts. dao_tokens d = Some ts \<longrightarrow> distinct (map tbm_tokenId ts))"

definition proposal_ok :: "proposal_dto \<Rightarrow> bool" where
  "proposal_ok p \<longleftrightarrow> distinct (map pa_id (pd_actions p))
     \<and> pd_type p = kind_type (pk_kind (pd_kind p))
     \<and> pd_policyLabel p = Some (ProposalTypeToPolicyLabel (pd_type p))"

definition stored_proposal_ok :: "proposal \<Rightarrow> bool" where
  "stored_proposal_ok p \<longleftrightarrow> distinct (map pa_id (prp_actions p))
     \<and> map_option kind_type (prp_kind p) = Some (prp_type p)
     \<and> prp_policyLabel p = Some (ProposalTypeToPolicyLabel (prp_type p))"

definition bounty_ok :: "bounty \<Rightarrow> bool" where
  "bounty_ok b \<longleftrightarrow> (\<forall>cs. bnt_bountyClaims b = Some cs \<longrightarrow> distinct (map bc_id cs))"

definition row_ok :: "env \<Rightarrow> call \<Rightarrow> bool" where
  "row_ok E c \<longleftrightarrow>
     (case c of
        Sql (S_saveDao d) \<Rightarrow> dao_ok d
      | Sql (S_saveProposal p) \<Rightarrow> proposal_ok p
      | Sql (S_saveBounty b) \<Rightarrow> bounty_ok b
      | Dyn (D_save k (M_Dao d)) \<Rightarrow> k = dao_key (dao_id d) \<and> dao_ok d
      | Dyn (D_save k (M_DaoDelegations ds ids n)) \<Rightarrow>
          distinct (map dlg_id ds) \<and> n = int (length ids) \<and> distinct ids \<and> [] \<notin> set ids
      | Dyn (D_save k (M_Proposal p)) \<Rightarrow> stored_proposal_ok p
      | Dyn (D_save k (M_Bounty b)) \<Rightarrow> bounty_ok b
      | Dyn (D_save k (M_FundsReceipt m)) \<Rightarrow> dao_receipt E c
      | Dyn (D_updateTokens k ts) \<Rightarrow> distinct (map tbm_tokenId ts)
      | _ \<Rightarrow> True)"

text \<open>The contract of the stores.\<close>

definition stores_ok :: "env \<Rightarrow> world \<Rightarrow> bool" where
  "stores_ok E W \<longleftrightarrow> (\<forall>tr. list_all (row_ok E) tr \<longrightarrow>
     (\<forall>d. w_dao W tr = Inr (Some d) \<longrightarrow> dao_ok d)
     \<and> (\<forall>b. w_bounty W tr = Inr (Some b) \<longrightarrow> bounty_ok b))"

text \<open>\<open>preserves_rows E W m\<close>: \<open>m\<close> writes well-formed rows only.\<close>

abbreviation preserves_rows :: "env \<Rightarrow> world \<Rightarrow> 'a service \<Rightarrow> bool" where
  "preserves_rows E W \<equiv> pres (row_ok E) W"

section \<open>What is read\<close>

lemma row_ok_simps [simp]:
  "row_ok E (Rpc r)" "row_ok E (Search s)" "row_ok E (CacheKeys pat)" "row_ok E (CacheDel ks)"
  "row_ok E (Emit cl p)" "row_ok E (Flag f)" "row_ok E (Timer n i)"
  "row_ok E (Dyn (D_get k))"
  by (simp_all add: row_ok_def)

lemma pres_dao_get [pres_intros]: "preserves_rows E W (dao_get i)"
  unfolding dao_get_def by (intro pres_intros) simp

lemma pres_useDynamoDB [pres_intros]: "preserves_rows E W (useDynamoDB f)"
  unfolding useDynamoDB_def by (intro pres_intros) simp

lemma read_dao: "stores_ok E W \<Longrightarrow> list_all (row_ok E) tr \<Longrightarrow> w_dao W tr = Inr (Some d) \<Longrightarrow> dao_ok d"
  by (simp add: stores_ok_def)

lemma read_bounty:
  "stores_ok E W \<Longrightarrow> list_all (row_ok E) tr \<Longrightarrow> w_bounty W tr = Inr (Some b) \<Longrightarrow> bounty_ok b"
  by (simp add: stores_ok_def)

lemma yields_dao_get:
  assumes "stores_ok E W" and "yields (row_ok E) W (dao_get i) (Some d)"
  shows "dao_ok d"
  using assms(2) unfolding dao_get_def
  by (rule yields_dyn_get) (simp_all add: read_dao [OF assms(1)])

lemma yields_find_dao:
  assumes "stores_ok E W" and "yields (row_ok E) W (call (Sql c) w_dao) (Some d)"
    and "row_ok E (Sql c)"
  shows "dao_ok d"
  using assms(2,3) by (rule yields_call) (simp add: read_dao [OF assms(1)])

lemma pres_dao_findById [pres_intros]: "preserves_rows E W (dao_findById i)"
  unfolding dao_findById_def by (intro pres_intros) (simp add: row_ok_def)

lemma yields_dao_findById:
  assumes "stores_ok E W" and "yields (row_ok E) W (dao_findById i) (Some d)"
  shows "dao_ok d"
proof -
  obtain dynamo where
    "yields (row_ok E) W (if dynamo then dao_get i else call (Sql (S_findEnabledDao i)) w_dao) (Some d)"
    using assms(2) unfolding dao_findById_def by (rule yields_bnd) (intro pres_intros)
  then show ?thesis
    by (rule yields_if)
      (auto intro: yields_dao_get [OF assms(1)] yields_find_dao [OF assms(1)] simp: row_ok_def)
qed

lemma pres_dao_findOne [pres_intros]: "preserves_rows E W (dao_findOne i r)"
  unfolding dao_findOne_def by (intro pres_intros) (simp add: row_ok_def)

lemma yields_dao_findOne:
  "stores_ok E W \<Longrightarrow> yields (row_ok E) W (dao_findOne i r) (Some d) \<Longrightarrow> dao_ok d"
  unfolding dao_findOne_def by (rule yields_find_dao, assumption, assumption) (simp add: row_ok_def)

section \<open>Saving a DAO\<close>

lemma pres_token_calls [pres_intros]:
  "preserves_rows E W (tokenBalancesByAccount i)" "preserves_rows E W getNearToken"
  unfolding tokenBalancesByAccount_def getNearToken_def
  by (intro pres_intros; simp add: row_ok_def)+

lemma pres_calculateDaoFunds [pres_intros]: "preserves_rows E W (calculateDaoFunds i a)"
  unfolding calculateDaoFunds_def by (intro pres_intros)

lemma pres_counts [pres_intros]:
  "preserves_rows E W (getDaoProposalCount i)" "preserves_rows E W (getDaoActiveProposalCount i)"
  "preserves_rows E W (getDaoActiveBountiesCount i b)" "preserves_rows E W (getAccountTokenCount i b)"
  unfolding getDaoProposalCount_def getDaoActiveProposalCount_def getDaoActiveBountiesCount_def
    getAccountTokenCount_def
  by (intro pres_intros; simp add: row_ok_def)+

lemma pres_updates [pres_intros]:
  "preserves_rows E W (update_proposal_counts opts d x)" "preserves_rows E W (update_funds opts d x)"
  "preserves_rows E W (update_bounty_count opts d x)" "preserves_rows E W (update_nft_count opts d x)"
  unfolding update_proposal_counts_def update_funds_def update_bounty_count_def update_nft_count_def
  by (intro pres_intros; auto intro: pres_intros)+

lemma dao_ok_counters [simp]:
  "dao_ok (d\<lparr>dao_totalProposalCount := a\<rparr>) = dao_ok d"
  "dao_ok (d\<lparr>dao_activeProposalCount := a\<rparr>) = dao_ok d"
  "dao_ok (d\<lparr>dao_totalDaoFunds := f\<rparr>) = dao_ok d"
  "dao_ok (d\<lparr>dao_bountyCount := b\<rparr>) = dao_ok d"
  "dao_ok (d\<lparr>dao_nftCount := n\<rparr>) = dao_ok d"
  "dao_ok (d\<lparr>dao_amount := m\<rparr>) = dao_ok d"
  by (simp_all add: dao_ok_def)

lemma yields_updates:
  "yields P W (update_proposal_counts opts d x) y \<Longrightarrow> dao_ok x \<Longrightarrow> dao_ok y"
  "yields P W (update_funds opts d x) y \<Longrightarrow> dao_ok x \<Longrightarrow> dao_ok y"
  "yields P W (update_bounty_count opts d x) y \<Longrightarrow> dao_ok x \<Longrightarrow> dao_ok y"
  "yields P W (update_nft_count opts d x) y \<Longrightarrow> dao_ok x \<Longrightarrow> dao_ok y"
  by (auto simp: yields_def update_proposal_counts_def update_funds_def update_bounty_count_def
      update_nft_count_def bnd_Inr_iff ret_iff split: if_splits)

lemma dao_ok_model:
  assumes "mapDaoDtoToDaoModel d = Inr (k, m)" and "dao_ok d"
  shows "row_ok E (Dyn (D_save k (M_Dao m)))"
proof -
  have "dao_id m = dao_id d" "dao_council m = dao_council d" "dao_councilSeats m = dao_councilSeats d"
    using assms(1) by (auto simp: mapDaoDtoToDaoModel_def res_bind_Inr_iff)
  then show ?thesis
    using mapDaoDtoToDaoModel_key [OF assms(1)] assms(2) by (simp add: row_ok_def dao_ok_def)
qed

lemma pres_saveDao: "dao_ok d \<Longrightarrow> preserves_rows E W (saveDao d)"
  unfolding saveDao_def
  by (intro pres_intros) (auto dest!: yields_dests intro: dao_ok_model)

lemma pres_dao_save:
  assumes "dao_ok d"
  shows "preserves_rows E W (dao_save d opts)"
  unfolding dao_save_def
  using assms
  by (intro pres_intros pres_saveDao) (auto dest!: yields_updates simp: row_ok_def)

section \<open>Tokens, NFTs and delegations\<close>

lemma pres_saveTokenBalanceToDao [pres_intros]:
  assumes "stores_ok E W"
  shows "preserves_rows E W (saveTokenBalanceToDao b)"
proof -
  have "distinct (map tbm_tokenId (put_token x (case dao_tokens d of None \<Rightarrow> [] | Some ts \<Rightarrow> ts)))"
    if "dao_ok d" for d x
    using that by (simp add: tokens.distinct_put dao_ok_def split: option.splits)
  then show ?thesis
    unfolding saveTokenBalanceToDao_def
    by (intro pres_intros)
      (auto simp: row_ok_def dest!: yields_dests
        elim!: yields_dyn_get dest: read_dao [OF assms])
qed

lemma pres_saveNearBalanceToDao [pres_intros]:
  "stores_ok E W \<Longrightarrow> preserves_rows E W (saveNearBalanceToDao i b)"
  unfolding saveNearBalanceToDao_def by (intro pres_intros)

lemma pres_loadTokenById [pres_intros]: "preserves_rows E W (loadTokenById i ts h)"
  unfolding loadTokenById_def token_create_def by (intro pres_intros) (simp_all add: row_ok_def)

lemma pres_loadBalanceById [pres_intros]:
  "stores_ok E W \<Longrightarrow> preserves_rows E W (loadBalanceById i a ts h)"
  unfolding loadBalanceById_def by (intro pres_intros) (simp_all add: row_ok_def)

lemma pres_nft_chunks: "preserves_rows E W (nft_chunks n c a i xs)"
  by (induction n arbitrary: i xs) (auto intro!: pres_intros)

lemma pres_loadNFT [pres_intros]: "preserves_rows E W (loadNFT E' c a ts h)"
  unfolding loadNFT_def getNfts_def nft_createMultiple_def purge_def
  by (intro pres_intros pres_nft_chunks) (simp_all add: row_ok_def)

lemma pres_daoDynamo_saveDelegation [pres_intros]:
  assumes "stores_ok E W"
  shows "preserves_rows E W (daoDynamo_saveDelegation dlg)"
proof -
  have "row_ok E (Dyn (D_save k (M_DaoDelegations (put_delegation dlg ds) (member_ids ids as)
      (int (length (member_ids ids as))))))"
    if "dao_ok d" "dao_delegations d = Some ds" for d ds ids as k
    using that by (simp add: row_ok_def delegations.distinct_put dao_ok_def)
  then show ?thesis
    unfolding daoDynamo_saveDelegation_def dao_save_item_def
    by (intro pres_intros) (auto dest!: yields_dests yields_dao_get [OF assms])
qed

lemma pres_dao_saveDelegation [pres_intros]:
  "stores_ok E W \<Longrightarrow> preserves_rows E W (dao_saveDelegation d a b ds)"
  unfolding dao_saveDelegation_def by (intro pres_intros) (simp_all add: row_ok_def)

lemma pres_getDelegationsByDaoId [pres_intros]: "preserves_rows E W (getDelegationsByDaoId i)"
  unfolding getDelegationsByDaoId_def getDelegations_def
  by (intro pres_intros) (simp_all add: row_ok_def)

lemma pres_getDelegationAccountsByDaoId [pres_intros]:
  "preserves_rows E W (getDelegationAccountsByDaoId i)"
  unfolding getDelegationAccountsByDaoId_def by (intro pres_intros) (simp_all add: row_ok_def)

lemma dao_ok_members:
  "dao_ok d \<Longrightarrow> dao_ok (d\<lparr>dao_accountIds := Some (member_ids ids as),
     dao_numberOfMembers := Some (int (length (member_ids ids as)))\<rparr>)"
  by (simp add: dao_ok_def split: option.splits)

lemma pres_updateDaoMembers [pres_intros]:
  assumes "stores_ok E W"
  shows "preserves_rows E W (updateDaoMembers i)"
  unfolding updateDaoMembers_def
  by (intro pres_intros)
    (auto simp: row_ok_def dest!: yields_dests yields_dao_findOne [OF assms] intro!: dao_ok_members)

section \<open>Index, cache, events and receipts\<close>

lemma pres_search [pres_intros]:
  "preserves_rows E W (search_index ix doc)" "preserves_rows E W (search_remove ix i)"
  "preserves_rows E W (indexDao i d)" "preserves_rows E W (indexProposal E' i p)"
  "preserves_rows E W (indexBounty E' i b)"
  unfolding indexDao_def indexProposal_def indexBounty_def search_index_def search_remove_def
  by (intro pres_intros; simp)+

lemma pres_clearKeysChunked [pres_intros]: "preserves_rows E W (clearKeysChunked keys)"
proof (induction keys rule: clearKeysChunked.induct)
  case (1 keys)
  then show ?case by (subst clearKeysChunked.simps) (intro pres_intros; simp)
qed

lemma pres_caches [pres_intros]:
  "preserves_rows E W (handleProposalCache i)" "preserves_rows E W handleTokenCache"
  "preserves_rows E W handleNFTCache"
  unfolding handleProposalCache_def handleTokenCache_def handleNFTCache_def
  by (intro pres_intros; simp)+

lemma pres_events [pres_intros]:
  "preserves_rows E W (sendDaoUpdateNotificationEvent d a)"
  "preserves_rows E W (sendProposalUpdateNotificationEvent p a)"
  "preserves_rows E W (sendStoredProposalUpdateNotificationEvent q a)"
  "preserves_rows E W (sendCloseDraftProposalEvent i v j)"
  unfolding sendDaoUpdateNotificationEvent_def sendProposalUpdateNotificationEvent_def
    sendStoredProposalUpdateNotificationEvent_def sendCloseDraftProposalEvent_def sendEvent_def
  by (intro pres_intros; simp)+

lemma dao_receipt_row: "dao_receipt E c \<Longrightarrow> row_ok E c"
  by (auto simp: dao_receipt_def row_ok_def)

lemma pres_saveDaoFunds [pres_intros]: "preserves_rows E W (saveDaoFunds E a)"
proof -
  have "pres (row_ok E) W m"
    if "\<And>tr. \<exists>cs. snd (m W tr) = tr @ cs \<and> length cs \<le> 1 \<and> list_all (dao_receipt E) cs"
    for m :: "unit service"
  proof (rule presI)
    fix tr r t
    assume "list_all (row_ok E) tr" and "m W tr = (r, t)"
    with that [of tr] show "list_all (row_ok E) t"
      by (auto simp: list_all_iff dest: dao_receipt_row)
  qed
  then show ?thesis
    unfolding saveDaoFunds_def
    using save_deposit_receipt_calls save_token_receipt_calls
    by (intro pres_intros) blast+
qed

section \<open>Reading the contract\<close>

definition fair_pools :: "env \<Rightarrow> bool" where
  "fair_pools E \<longleftrightarrow> fair_pool (e_poolHandlers E) \<and> fair_pool (e_poolBounties E)
     \<and> fair_pool (e_poolClaims E)"

lemma pres_contract [pres_intros]:
  "preserves_rows E W (getAccountState i)" "preserves_rows E W (getDaoInfo i h)"
  "preserves_rows E W (getProposal i v h)" "preserves_rows E W (getBountyNumberOfClaims i n h)"
  "preserves_rows E W (getAccountBountyClaims i a h)"
  unfolding getAccountState_def getDaoInfo_def getProposal_def getBountyNumberOfClaims_def
    getAccountBountyClaims_def getAccountAmount_def
  by (intro pres_intros; simp)+

lemma pres_findLastBounty [pres_intros]:
  assumes "fair_pools E"
  shows "preserves_rows E W (findLastBounty E i n b h)"
  using assms
  unfolding findLastBounty_def getBountiesByDaoId_def fair_pools_def
  by (intro pres_intros pres_pool) (auto intro!: pres_intros)

section \<open>Bounties\<close>

lemma pres_keyed_bounty [pres_intros]: "preserves_rows E W (keyed_bounty d i)"
  unfolding keyed_bounty_def by (intro pres_intros; simp)

lemma yields_keyed_bounty:
  assumes "stores_ok E W" and "yields (row_ok E) W (keyed_bounty d i) (Some (k, b))"
  shows "bounty_ok b"
proof -
  obtain m where "yields (row_ok E) W (case m of None \<Rightarrow> ret None
       | Some n \<Rightarrow> let k = entity_key (Some d) E_Bounty (int_str n)
           in bnd (dyn_get w_bounty k) (\<lambda>b. ret (map_option (Pair k) b))) (Some (k, b))"
    using assms(2) unfolding keyed_bounty_def by (rule yields_bnd) (intro pres_intros, simp)
  then obtain k' where
    "yields (row_ok E) W (bnd (dyn_get w_bounty k') (\<lambda>b. ret (map_option (Pair k') b))) (Some (k, b))"
    by (cases m) (auto dest!: yields_dests simp: Let_def)
  then obtain b' where "yields (row_ok E) W (dyn_get w_bounty k') b'"
    and "yields (row_ok E) W (ret (map_option (Pair k') b')) (Some (k, b))"
    by (rule yields_bnd) (intro pres_intros, simp)
  then have "yields (row_ok E) W (dyn_get w_bounty k') (Some b)"
    by (cases b') (auto dest!: yields_dests)
  then show ?thesis
    by (rule yields_dyn_get) (simp_all add: read_bounty [OF assms(1)])
qed

lemma pres_addBountyDoneProposalId [pres_intros]:
  assumes "stores_ok E W"
  shows "preserves_rows E W (addBountyDoneProposalId d i p)"
  unfolding addBountyDoneProposalId_def
  by (intro pres_intros)
    (auto simp: row_ok_def bounty_ok_def dest!: yields_keyed_bounty [OF assms])

lemma pres_bounty_reads [pres_intros]:
  "preserves_rows E W (bounty_findById d i r)" "preserves_rows E W (bounty_findOne j)"
  "preserves_rows E W (getLastBountyClaim d n a ts)"
  unfolding bounty_findById_def bounty_findOne_def getLastBountyClaim_def getByBountyId_def
    keyed_bounty_def
  by (intro pres_intros; simp add: row_ok_def)+

lemma bounty_ok_model: "mapBountyDtoToBountyModel now b = (k, m) \<Longrightarrow> bounty_ok b \<Longrightarrow> bounty_ok m"
  by (auto simp: bounty_ok_def mapBountyDtoToBountyModel_def mapBountyClaimToBountyClaimModel_def
      comp_def split: option.splits)

lemma pres_bounty_create: "bounty_ok b \<Longrightarrow> preserves_rows E W (bounty_create b)"
  unfolding bounty_create_def saveBounty_def saveBountyMapping_def
  by (intro pres_intros) (auto simp: row_ok_def intro: bounty_ok_model)

lemma pres_bountyContext [pres_intros]:
  "preserves_rows E W (bountyContext_create b n)" "preserves_rows E W (bountyContext_remove d i)"
  unfolding bountyContext_create_def bountyContext_remove_def saveBountyContext_def archiveBounty_def
  by (intro pres_intros; simp add: row_ok_def)+

lemma bounty_ok_casts:
  "bounty_ok (castAddBounty d p bd i h ts)"
  "castClaimBounty b a di h cs n rc ts = Inr b' \<Longrightarrow> bounty_ok b'"
  "castDoneBounty d a b bo n cs h ts = Inr b'' \<Longrightarrow> bounty_ok b''"
  using claims.uniq_distinct
  by (auto simp: castAddBounty_def castClaimBounty_def castDoneBounty_def bounty_ok_def
      res_bind_Inr_iff Let_def)

lemma pres_handleAddBounty [pres_intros]:
  assumes "fair_pools E"
  shows "preserves_rows E W (handleAddBounty E d p bd n h bh ts)"
  unfolding handleAddBounty_def
  by (intro pres_intros pres_bounty_create bounty_ok_casts assms)

lemma pres_handleDoneBounty [pres_intros]:
  "preserves_rows E W (handleDoneBounty E' d i r h bh ts)"
  unfolding handleDoneBounty_def
  by (intro pres_intros pres_bounty_create) (auto dest!: yields_dests intro: bounty_ok_casts)

lemma pres_handleClaimUnclaimBounty [pres_intros]:
  "preserves_rows E W (handleClaimUnclaimBounty E' a)"
  unfolding handleClaimUnclaimBounty_def
  by (intro pres_intros pres_bounty_create) (auto dest!: yields_dests intro: bounty_ok_casts)

section \<open>Proposals\<close>

lemma pres_proposal_reads [pres_intros]:
  "preserves_rows E W (proposal_findById d v)" "preserves_rows E W (proposal_findOne i)"
  unfolding proposal_findById_def proposal_findOne_def proposalDynamo_get_def
  by (intro pres_intros; simp add: row_ok_def)+

lemma stored_proposal_ok_model:
  "mapProposalDtoToProposalModel now p = (k, m) \<Longrightarrow> proposal_ok p \<Longrightarrow> stored_proposal_ok m"
  by (auto simp: proposal_ok_def stored_proposal_ok_def mapProposalDtoToProposalModel_def
      mapProposalActionToProposalActionModel_def comp_def)

lemma pres_proposal_create: "proposal_ok p \<Longrightarrow> preserves_rows E W (proposal_create p)"
  unfolding proposal_create_def saveProposalDto_def
  by (intro pres_intros) (auto simp: row_ok_def intro: stored_proposal_ok_model)

lemma pres_proposal_remove [pres_intros]: "preserves_rows E W (proposal_remove d i)"
  unfolding proposal_remove_def proposalDynamo_archive_def
  by (intro pres_intros; simp add: row_ok_def)

lemma proposal_ok_casts:
  "castCreateProposal cc h s po d ts = Inr p \<Longrightarrow> proposal_ok p"
  "castActProposal cc h i s st po ts v = Inr q \<Longrightarrow> proposal_ok q"
  using unique_list.uniq_distinct [OF unique_list_arrayUniqueBy, of pa_id]
  by (auto simp: castCreateProposal_def castActProposal_def castProposalKind_sputnik proposal_ok_def
      res_bind_Inr_iff Let_def new_ProposalKindDto_def split: option.splits if_splits)

section \<open>The handlers\<close>

lemma members_consistent_ok:
  assumes "members_consistent d" and "dao_delegations d = None" and "dao_tokens d = None"
  shows "dao_ok d"
  using assms by (auto simp: members_consistent_def dao_ok_def split: option.splits)

lemma dao_ok_casts:
  "castCreateDao jp s h i info das ts = Inr d \<Longrightarrow> dao_ok d"
  "dao_ok d0 \<Longrightarrow> dao_ok (castAddProposalDao d0 n h ts)"
  "dao_ok (apd_dao a) \<Longrightarrow> castActProposalDao jp a = Inr d \<Longrightarrow> dao_ok d"
proof -
  assume c: "castCreateDao jp s h i info das ts = Inr d"
  then have "dao_delegations d = None" "dao_tokens d = None"
    by (auto simp: castCreateDao_def res_bind_Inr_iff)
  then show "dao_ok d"
    using members_consistent_ok castCreateDao_consistent [OF c] by blast
next
  show "dao_ok (castAddProposalDao d0 n h ts)" if "dao_ok d0"
    using that by (simp add: castAddProposalDao_def dao_ok_def)
next
  show "dao_ok d" if "dao_ok (apd_dao a)" "castActProposalDao jp a = Inr d"
    using that castDaoPolicy_fields
    by (auto simp: castActProposalDao_def Let_def res_bind_Inr_iff dao_ok_def split: option.splits)
qed

lemma pres_setDaoVersion [pres_intros]: "preserves_rows E W (setDaoVersion i)"
  unfolding setDaoVersion_def getDaoVersionById_def saveDaoVersion_def dao_save_item_def
  by (intro pres_intros; simp add: row_ok_def)

lemma pres_saveDaoId [pres_intros]: "preserves_rows E W (saveDaoId i)"
  unfolding saveDaoId_def getDaoIds_def by (intro pres_intros; simp add: row_ok_def)

lemma pres_handleCreateDao [pres_intros]:
  assumes "stores_ok E W"
  shows "preserves_rows E W (handleCreateDao E a)"
  unfolding handleCreateDao_def
  by (intro pres_intros pres_dao_save assms) (auto dest!: yields_dests intro: dao_ok_casts)

lemma pres_link_done_bounty [pres_intros]:
  "stores_ok E W \<Longrightarrow> preserves_rows E W (link_done_bounty d p ts)"
  unfolding link_done_bounty_def by (cases "pk_kind (pd_kind p)") (simp_all add: pres_intros)

lemma yields_link_done_bounty:
  assumes "yields P W (link_done_bounty d p ts) q"
  shows "proposal_ok q = proposal_ok p"
  using assms
  by (auto simp: yields_def link_done_bounty_def bnd_Inr_iff thn_Inr_iff ret_iff proposal_ok_def
      split: proposal_kind.splits)

lemma pres_handleAddProposal [pres_intros]:
  assumes "stores_ok E W"
  shows "preserves_rows E W (handleAddProposal E a)"
  unfolding handleAddProposal_def
  by (intro pres_intros pres_dao_save pres_proposal_create assms)
    (auto dest!: yields_dests yields_dao_findById [OF assms] simp: yields_link_done_bounty
      intro: dao_ok_casts proposal_ok_casts)

text \<open>What the handlers of a vote are given.\<close>

definition context_ok :: "act_context \<Rightarrow> bool" where
  "context_ok c \<longleftrightarrow> (\<forall>d. cx_dao c = Some d \<longrightarrow> dao_ok d) \<and> (\<forall>p. cx_proposal c = Some p \<longrightarrow> proposal_ok p)"

lemma pres_save_acted_dao:
  assumes "stores_ok E W" and "dao_ok (apd_dao acted)"
  shows "preserves_rows E W (save_acted_dao E' c m acted opts)"
  unfolding save_acted_dao_def
  using assms
  by (intro pres_intros pres_dao_save) (auto dest!: yields_dests intro: dao_ok_casts)

lemma pres_update_transferred_token [pres_intros]:
  "stores_ok E W \<Longrightarrow> preserves_rows E W (update_transferred_token E' c i r)"
  unfolding update_transferred_token_def by (intro pres_intros)

lemma pres_read_policy [pres_intros]: "preserves_rows E W (read_policy c)"
  unfolding read_policy_def by (intro pres_intros; simp)

lemma pres_apply_approved [pres_intros]:
  assumes "stores_ok E W" and "fair_pools E"
  shows "preserves_rows E W (apply_approved E c p)"
  unfolding apply_approved_def
  by (cases "pk_kind (pd_kind p)") (simp_all, (intro pres_intros assms; simp)+)

lemma pres_done_bounty_of [pres_intros]: "preserves_rows E W (done_bounty_of E' c k)"
  unfolding done_bounty_of_def by (cases k) (simp_all add: pres_intros)

lemma pres_handleApproveProposal:
  assumes "stores_ok E W" and "fair_pools E" and "context_ok c"
  shows "preserves_rows E W (handleApproveProposal E c st)"
  unfolding handleApproveProposal_def
  using assms(3)
  by (intro pres_intros pres_proposal_create pres_save_acted_dao assms(1,2))
    (auto dest!: yields_dests simp: context_ok_def acted_args_def)

lemma pres_handleRejectProposal:
  assumes "stores_ok E W" and "context_ok c"
  shows "preserves_rows E W (handleRejectProposal E' c)"
  unfolding handleRejectProposal_def
  using assms(2)
  by (intro pres_intros pres_proposal_create pres_save_acted_dao assms(1))
    (auto dest!: yields_dests simp: context_ok_def acted_args_def)

lemma pres_handleRemoveProposal:
  assumes "stores_ok E W" and "context_ok c"
  shows "preserves_rows E W (handleRemoveProposal E' c p i)"
  unfolding handleRemoveProposal_def remove_stored_proposal_def
  using assms(2)
  by (intro pres_intros pres_proposal_create pres_save_acted_dao assms(1))
    (auto dest!: yields_dests simp: context_ok_def acted_args_def)

lemma pres_act_on_proposal:
  assumes "stores_ok E W" and "fair_pools E" and "context_ok c"
  shows "preserves_rows E W (act_on_proposal E c p i v st)"
  unfolding act_on_proposal_def
  using assms(3)
  by (intro pres_intros pres_proposal_create pres_handleApproveProposal pres_handleRejectProposal
      pres_handleRemoveProposal assms) (auto dest!: yields_dests simp: context_ok_def)

lemma pres_handleActProposal [pres_intros]:
  assumes "stores_ok E W" and "fair_pools E"
  shows "preserves_rows E W (handleActProposal E a)"
  unfolding handleActProposal_def
  by (intro pres_intros pres_act_on_proposal assms)
    (auto dest!: yields_dests yields_dao_findById [OF assms(1)] simp: context_ok_def res_bind_Inr_iff
      intro: proposal_ok_casts split: option.splits)

lemma pres_handleUnknownDaoTransaction [pres_intros]:
  assumes "stores_ok E W"
  shows "preserves_rows E W (handleUnknownDaoTransaction a)"
  unfolding handleUnknownDaoTransaction_def
  by (intro pres_intros pres_dao_save assms)
    (auto dest!: yields_dests yields_dao_findById [OF assms])

lemma pres_token_handlers [pres_intros]:
  assumes "stores_ok E W"
  shows "preserves_rows E W (handleTokenMethods E' a)" and "preserves_rows E W (handleNftMethods E' a)"
    and "preserves_rows E W (handleTokenMint E' a)"
proof -
  have "dao_ok (empty_dao i\<lparr>updateTransactionHash := h, updateTimestamp := ts\<rparr>)" for i h ts
    by (simp add: dao_ok_def empty_dao_def)
  then show 1: "preserves_rows E W (handleNftMethods E' a)"
    unfolding handleNftMethods_def handleNftUpdate_def by (intro pres_intros pres_dao_save)
  show 2: "preserves_rows E W (handleTokenMethods E' a)"
    unfolding handleTokenMethods_def handleTokenUpdate_def by (intro pres_intros assms)
  show "preserves_rows E W (handleTokenMint E' a)"
    unfolding handleTokenMint_def by (intro pres_intros 1 2; simp)
qed

lemma pres_handleDelegate [pres_intros]:
  "stores_ok E W \<Longrightarrow> preserves_rows E W (handleDelegate E' a)"
  unfolding handleDelegate_def save_delegator_def by (intro pres_intros; simp)

section \<open>The dispatch\<close>

lemma pres_prototype_handler: "prototype_handler m = Some f \<Longrightarrow> preserves_rows E W (f a)"
  by (auto simp: prototype_handler_def intro: pres_intros split: if_splits)

lemma pres_table_handler:
  assumes "stores_ok E W" and "fair_pools E" and "h \<in> set (contractHandlers E)"
    and "map_of (ch_methodHandlers h) m = Some f"
  shows "preserves_rows E W (f a)"
proof -
  have "f \<in> {handleCreateDao E, handleAddProposal E, handleActProposal E,
      handleClaimUnclaimBounty E, handleDelegate E, handleTokenMint E, handleTokenMethods E,
      handleNftMethods E}"
    using assms(3) map_of_SomeD [OF assms(4)]
    by (auto simp: contractHandlers_def factory_handler_def dao_handler_def asset_handler_def)
  then show ?thesis using assms(1,2) by (auto intro: pres_intros)
qed

lemma pres_process_handler:
  assumes "stores_ok E W" and "fair_pools E" and "h \<in> set (getContractHandlers E r)"
  shows "preserves_rows E W (process_handler a h)"
proof -
  have h: "h \<in> set (contractHandlers E)" using assms(3) by (auto simp: getContractHandlers_def)
  show ?thesis
  proof (cases "method_handler h (opt_str (ta_methodName a))")
    case (Some f)
    then show ?thesis
      using pres_table_handler [OF assms(1,2) h] pres_prototype_handler
      by (auto simp: process_handler_def method_handler_def split: option.splits)
  next
    case None
    have "ch_defaultHandler h \<in> {None, Some handleUnknownDaoTransaction}"
      using h by (auto simp: contractHandlers_def factory_handler_def dao_handler_def asset_handler_def)
    then show ?thesis
      using None assms(1) by (auto simp: process_handler_def intro: pres_intros)
  qed
qed

lemma pres_handled [pres_intros]:
  "preserves_rows E W (handled_check a)" "preserves_rows E W (handled_save a rs)"
  unfolding handled_check_def handled_save_def by (intro pres_intros; simp add: row_ok_def)+

lemma pres_handleTransactionAction [pres_intros]:
  assumes "stores_ok E W" and "fair_pools E"
  shows "preserves_rows E W (handleTransactionAction E a)"
  unfolding handleTransactionAction_def
  using assms(2) pres_process_handler [OF assms]
  by (intro pres_intros pres_pool) (auto simp: fair_pools_def intro!: pres_process_handler [OF assms])

lemma pres_handle_actions_loop:
  assumes "stores_ok E W" and "fair_pools E"
  shows "preserves_rows E W (handle_actions_loop E hashes results actions)"
proof (induction actions arbitrary: hashes results)
  case (Cons a actions)
  then show ?case
    by (simp only: handle_actions_loop.simps) (intro pres_intros assms)
qed (simp add: pres_ret)

text \<open>
  C1. The invariant of the stores. Suppose that what is read back from the stores is well formed as
  long as every row written so far is, and that the pools run only the computations they are given.
  Then handling any list of actions, whatever the contract, the stores and the callers' arguments
  are, and also when it fails half way, writes well-formed rows only: every DAO has counters that
  count its members and its council, and members, delegations, tokens, claims and proposal actions
  without duplicate ids; every proposal has the type and the label of its kind; every DAO is written
  under its own key, and every receipt belongs to a DAO account.
\<close>

theorem handleTransactionActions_rows:
  assumes "stores_ok E W" and "fair_pools E" and "list_all (row_ok E) tr"
  shows "list_all (row_ok E) (snd (handleTransactionActions E actions W tr))"
  using pres_handle_actions_loop [OF assms(1,2)] assms(3)
  unfolding handleTransactionActions_def pres_def by blast

theorem handleTransactionActions_rows_witness:
  "list_all (row_ok sample_env)
     (snd (handleTransactionActions sample_env [transfer_action] remembering_world
        [Sql (S_saveDao (empty_dao ''d''))]))"
proof (rule handleTransactionActions_rows)
  show "stores_ok sample_env remembering_world"
    by (simp add: stores_ok_def remembering_world_def quiet_world_def)
  show "fair_pools sample_env"
    by (simp add: fair_pools_def sample_env_def fair_seq_pool)
  show "list_all (row_ok sample_env) [Sql (S_saveDao (empty_dao ''d''))]"
    by (simp add: row_ok_def dao_ok_def empty_dao_def)
qed

end
