(* ===== verification/Tx_Mapper.thy ===== *)
theory Tx_Mapper
  imports Tx_Dispatch
begin

text \<open>
  From the chain to transaction actions: the casts of \<open>libs/near-api/src/types\<close> that
  \<open>NearApiService.getTxStatus\<close> applies to an answer of the RPC, the casts of
  \<open>libs/transaction-handler/src/types/transaction-action.ts\<close>, and
  \<open>TransactionActionMapperService\<close>, which lists the actions of a transaction or of the receipts
  of the indexer's database.
\<close>

section \<open>Casting the answers of the RPC\<close>

text \<open>The text of a base64 field; \<open>Buffer.from\<close> throws when it is not a text.\<close>

definition decode_field :: "jsval \<Rightarrow> exn + string" where
  "decode_field v = (case v of JStr s \<Rightarrow> Inr (decodeBase64 s) | _ \<Rightarrow> Inl (TypeError ''from''))"

definition castTransactionAction :: "(string \<Rightarrow> exn + jsval) \<Rightarrow> jsval \<Rightarrow> exn + jsval" where
  "castTransactionAction json_parse action =
     res_bind (js_get action ''FunctionCall'') (\<lambda>fc.
     if truthy fc then
       (case action of
          JObj fs \<Rightarrow> Inr (JObj (obj_set fs ''FunctionCall'' (JObj
            [(''methodName'', js_get_opt fc ''method_name''),
             (''args'', (case js_get_opt fc ''args'' of
                JStr s \<Rightarrow> btoaJSON json_parse s | _ \<Rightarrow> JUndef))])))
        | _ \<Rightarrow> Inr action)
     else Inr action)"

text \<open>The operator \<open>in\<close> throws when its right operand is not an object.\<close>

definition castTransactionStatus :: "jsval \<Rightarrow> exn + jsval" where
  "castTransactionStatus status =
     (case status of
        JObj fs \<Rightarrow>
          if ''SuccessValue'' \<in> set (map fst fs) then
            res_bind (decode_field (obj_get fs ''SuccessValue'')) (\<lambda>s.
            Inr (JObj (obj_set fs ''SuccessValue'' (JStr s))))
          else Inr status
      | JArr xs \<Rightarrow> Inr status
      | _ \<Rightarrow> Inl (TypeError ''SuccessValue''))"

definition castTransactionReceipt ::
    "(string \<Rightarrow> exn + jsval) \<Rightarrow> near_receipt \<Rightarrow> exn + near_receipt" where
  "castTransactionReceipt json_parse receipt =
     (case nr_receipt receipt of
        None \<Rightarrow> Inr receipt
      | Some None \<Rightarrow> Inl (TypeError ''actions'')
      | Some (Some actions) \<Rightarrow>
          res_bind (map_res (castTransactionAction json_parse) actions) (\<lambda>as.
          Inr (receipt\<lparr>nr_receipt := Some (Some as)\<rparr>)))"

definition castTransactionReceiptOutcome :: "near_outcome \<Rightarrow> exn + near_outcome" where
  "castTransactionReceiptOutcome outcome =
     res_bind (castTransactionStatus (no_status outcome)) (\<lambda>s. Inr (outcome\<lparr>no_status := s\<rparr>))"

definition cast_tx_status ::
    "(string \<Rightarrow> exn + jsval) \<Rightarrow> near_tx_status \<Rightarrow> exn + near_tx_status" where
  "cast_tx_status json_parse txStatus =
     res_bind (castTransactionStatus (nts_status txStatus)) (\<lambda>status.
     res_bind (map_res (castTransactionAction json_parse) (nts_actions txStatus)) (\<lambda>actions.
     res_bind (map_res (castTransactionReceipt json_parse) (nts_receipts txStatus)) (\<lambda>receipts.
     res_bind (map_res castTransactionReceiptOutcome (nts_receipts_outcome txStatus)) (\<lambda>outcomes.
     Inr (txStatus\<lparr>nts_status := status, nts_actions := actions, nts_receipts := receipts,
       nts_receipts_outcome := outcomes\<rparr>)))))"

section \<open>NearApiService\<close>

definition getTxStatus :: "env \<Rightarrow> string \<Rightarrow> string \<Rightarrow> near_tx_status service" where
  "getTxStatus E txHash accountId =
     bnd (call (Rpc (R_txStatus txHash accountId)) w_txStatus) (\<lambda>txStatus.
     lift_res (cast_tx_status (e_json_parse E) txStatus))"

definition getTxStatusRetry :: "env \<Rightarrow> string \<Rightarrow> string \<Rightarrow> near_tx_status service" where
  "getTxStatusRetry E txHash accountId =
     e_retryStatus E (getTxStatus E txHash accountId)"

definition getBlock :: "string \<Rightarrow> near_block service" where
  "getBlock blockId = call (Rpc (R_block blockId)) w_block"

definition getBlockRetry :: "env \<Rightarrow> string \<Rightarrow> near_block service" where
  "getBlockRetry E blockHash = e_retryBlock E (getBlock blockHash)"

section \<open>Casting actions\<close>

definition js_text :: "jsval \<Rightarrow> string option" where
  "js_text v = (case v of JStr s \<Rightarrow> Some s | _ \<Rightarrow> None)"

text \<open>
  \<open>Object.keys(action)[0]\<close>: an object's first property; the keys of a text are its positions. The
  RPC delivers no action without a key, whose kind would be \<open>undefined\<close>.
\<close>

definition first_key :: "jsval \<Rightarrow> string" where
  "first_key v =
     (case v of
        JObj ((k, x) # fs) \<Rightarrow> k
      | JStr (c # s) \<Rightarrow> ''0''
      | JArr (x # xs) \<Rightarrow> ''0''
      | _ \<Rightarrow> ''undefined'')"

definition castNearTransactionAction ::
    "near_tx_status \<Rightarrow> near_block \<Rightarrow> near_receipt \<Rightarrow> near_outcome \<Rightarrow> jsval \<Rightarrow> nat \<Rightarrow>
     transaction_action" where
  "castNearTransactionAction txStatus block receipt outcome action index =
     (let fc = js_get_opt action ''FunctionCall''; tf = js_get_opt action ''Transfer'' in
      \<lparr> ta_receiverId = nr_receiver_id receipt, ta_signerId = nr_predecessor_id receipt,
        ta_txSignerId = Some (nts_signer_id txStatus),
        ta_predecessorId = nr_predecessor_id receipt, ta_transactionHash = nts_hash txStatus,
        ta_blockHash = no_block_hash outcome, ta_kind = first_key action,
        ta_methodName = js_text (js_get_opt fc ''methodName''), ta_args = js_get_opt fc ''args'',
        ta_deposit = js_text (js_or (js_get_opt tf ''deposit'') (js_get_opt fc ''deposit'')),
        ta_timestamp = nb_timestamp_nanosec block, ta_receiptId = nr_receipt_id receipt,
        ta_indexInReceipt = index, ta_status = nts_status txStatus,
        ta_receiptSuccessValue = js_text (js_get_opt (no_status outcome) ''SuccessValue'') \<rparr>)"

fun castNearIndexerReceiptActionKind :: "action_kind \<Rightarrow> string" where
  "castNearIndexerReceiptActionKind AK_CreateAccount = ''CreateAccount''"
| "castNearIndexerReceiptActionKind AK_DeployContract = ''DeployContract''"
| "castNearIndexerReceiptActionKind AK_FunctionCall = ''FunctionCall''"
| "castNearIndexerReceiptActionKind AK_Transfer = ''Transfer''"
| "castNearIndexerReceiptActionKind AK_Stake = ''Stake''"
| "castNearIndexerReceiptActionKind AK_AddKey = ''AddKey''"
| "castNearIndexerReceiptActionKind AK_DeleteKey = ''DeleteKey''"
| "castNearIndexerReceiptActionKind AK_DeleteAccount = ''DeleteAccount''"

definition castNearIndexerReceiptAction ::
    "indexer_receipt \<Rightarrow> indexer_receipt_action \<Rightarrow> exn + transaction_action" where
  "castNearIndexerReceiptAction receipt ac =
     (case ir_originatedFromTransaction receipt of
        None \<Rightarrow> Inl (TypeError ''transactionHash'')
      | Some tx \<Rightarrow> Inr
          \<lparr> ta_receiverId = ira_receiptReceiverAccountId ac,
            ta_signerId = ira_receiptPredecessorAccountId ac,
            ta_txSignerId = Some (itx_signerAccountId tx),
            ta_predecessorId = ira_receiptPredecessorAccountId ac,
            ta_transactionHash = itx_transactionHash tx, ta_blockHash = itx_includedInBlockHash tx,
            ta_kind = castNearIndexerReceiptActionKind (ira_actionKind ac),
            ta_methodName = js_text (js_get_opt (ira_args ac) ''method_name''),
            ta_args = js_get_opt (ira_args ac) ''args_json'',
            ta_deposit = js_text (js_or (js_get_opt (ira_args ac) ''deposit'') (JStr ''0'')),
            ta_timestamp = itx_blockTimestamp tx, ta_receiptId = ir_receiptId receipt,
            ta_indexInReceipt = ira_indexInActionReceipt ac, ta_status = JUndef,
            ta_receiptSuccessValue = None \<rparr>)"

definition kind_keys :: "(string \<times> action_kind) list" where
  "kind_keys = map (\<lambda>k. (castNearIndexerReceiptActionKind k, k))
     [AK_CreateAccount, AK_DeployContract, AK_FunctionCall, AK_Transfer, AK_Stake, AK_AddKey,
      AK_DeleteKey, AK_DeleteAccount]"

definition castTransactionActionEntity :: "near_tx_status \<Rightarrow> nat \<Rightarrow> exn + indexer_action" where
  "castTransactionActionEntity txStatus actionIndex =
     (let action = (if actionIndex < length (nts_actions txStatus)
                    then nts_actions txStatus ! actionIndex else JUndef) in
      if nullish action then Inl (TypeError ''CreateAccount'')
      else Inr
        \<lparr> ia_transactionHash = nts_hash txStatus, ia_indexInTransaction = actionIndex,
          ia_actionKind = map_option snd (find (\<lambda>(key, k). truthy (js_get_opt action key)) kind_keys),
          ia_args = JUndef \<rparr>)"

section \<open>TransactionActionMapperService\<close>

definition receipt_actions ::
    "near_tx_status \<Rightarrow> near_block list \<Rightarrow> near_receipt \<Rightarrow> exn + transaction_action list" where
  "receipt_actions txStatus blocks receipt =
     (case find (\<lambda>o1. no_id o1 = nr_receipt_id receipt) (nts_receipts_outcome txStatus) of
        None \<Rightarrow> Inl (ThrownError (''Unable to fund outcome for receipt ID: '' @ nr_receipt_id receipt))
      | Some outcome \<Rightarrow>
          (case find (\<lambda>b. nb_hash b = no_block_hash outcome) blocks of
             None \<Rightarrow> Inl (ThrownError (''Unable to find block for outcome ID: '' @ no_id outcome))
           | Some block \<Rightarrow>
               (case nr_receipt receipt of
                  Some (Some actions) \<Rightarrow> Inr (map (\<lambda>(action, index).
                      castNearTransactionAction txStatus block receipt outcome action index)
                    (zip actions [0..<length actions]))
                | _ \<Rightarrow> Inl (TypeError ''Action''))))"

definition getActionsByTxStatus :: "env \<Rightarrow> near_tx_status \<Rightarrow> transaction_action list service" where
  "getActionsByTxStatus E txStatus =
     (let blockHashes = set_order (map no_block_hash (nts_receipts_outcome txStatus)) in
      bnd (all_act (getBlockRetry E) blockHashes) (\<lambda>blocks.
      lift_res (res_bind (map_res (receipt_actions txStatus blocks) (nts_receipts txStatus))
        (\<lambda>ass. Inr (concat ass)))))"

definition getActionsByNearTransaction ::
    "env \<Rightarrow> string \<Rightarrow> string \<Rightarrow> transaction_action list service" where
  "getActionsByNearTransaction E txHash accountId =
     bnd (getTxStatusRetry E txHash accountId) (getActionsByTxStatus E)"

definition isActFunctionCall :: "indexer_transaction \<Rightarrow> bool" where
  "isActFunctionCall transaction =
     (case itx_transactionAction transaction of
        None \<Rightarrow> False
      | Some a \<Rightarrow> js_get_opt (ia_args a) ''method_name'' = JStr ''act_proposal''
          \<and> ia_actionKind a = Some AK_FunctionCall)"

definition getActionsByReceipt ::
    "env \<Rightarrow> indexer_receipt \<Rightarrow> (indexer_transaction \<times> transaction_action list) service" where
  "getActionsByReceipt E receipt =
     bnd (need ''transactionAction'' (ir_originatedFromTransaction receipt)) (\<lambda>tx.
     if itx_transactionAction tx = None \<or> ir_receiptActions receipt = None \<or> isActFunctionCall tx
     then
       bnd (getTxStatusRetry E (itx_transactionHash tx) (itx_signerAccountId tx)) (\<lambda>txStatus.
       bnd (getActionsByTxStatus E txStatus) (\<lambda>actions.
       bnd (lift_res (castTransactionActionEntity txStatus 0)) (\<lambda>entity.
       ret (tx\<lparr>itx_transactionAction := Some entity\<rparr>, actions))))
     else
       bnd (lift_res (map_res (castNearIndexerReceiptAction receipt)
              (the (ir_receiptActions receipt)))) (\<lambda>actions.
       ret (tx, actions)))"

text \<open>\<open>transactions[hash] = transaction\<close>, then \<open>Object.values(transactions)\<close>.\<close>

fun put_transaction :: "indexer_transaction \<Rightarrow> indexer_transaction list \<Rightarrow> indexer_transaction list"
where
  "put_transaction tx [] = [tx]"
| "put_transaction tx (u # us) =
     (if itx_transactionHash u = itx_transactionHash tx then tx # us else u # put_transaction tx us)"

definition getActionsByReceipts ::
    "env \<Rightarrow> indexer_receipt list \<Rightarrow>
     (indexer_transaction list \<times> transaction_action list) service" where
  "getActionsByReceipts E receipts =
     fold_act (\<lambda>(transactions, actions) receipt.
         attempt
           (bnd (getActionsByReceipt E receipt) (\<lambda>(tx, as).
            ret (put_transaction tx transactions, actions @ as)))
           (\<lambda>error. ret (transactions, actions)))
       ([], []) receipts"


section \<open>The actions of a transaction\<close>

lemma handled_key_inject:
  "handled_key a = handled_key b \<longleftrightarrow>
     ta_transactionHash a = ta_transactionHash b \<and> ta_receiptId a = ta_receiptId b
     \<and> ta_indexInReceipt a = ta_indexInReceipt b"
proof
  assume "handled_key a = handled_key b"
  then have "ta_transactionHash a = ta_transactionHash b"
    and "ta_receiptId a @ CHR ''-'' # nat_str (ta_indexInReceipt a)
       = ta_receiptId b @ CHR ''-'' # nat_str (ta_indexInReceipt b)"
    by (simp_all add: handled_key_def entity_key_def buildEntityId_def)
  then show "ta_transactionHash a = ta_transactionHash b \<and> ta_receiptId a = ta_receiptId b
     \<and> ta_indexInReceipt a = ta_indexInReceipt b"
    using dash_suffix_inject [of "nat_str (ta_indexInReceipt a)" "nat_str (ta_indexInReceipt b)"]
    by simp
qed (simp add: handled_key_def)

definition action_position :: "transaction_action \<Rightarrow> string \<times> nat" where
  "action_position a = (ta_receiptId a, ta_indexInReceipt a)"

definition receipt_positions :: "near_receipt \<Rightarrow> (string \<times> nat) list" where
  "receipt_positions r =
     (case nr_receipt r of
        Some (Some as) \<Rightarrow> map (Pair (nr_receipt_id r)) [0..<length as]
      | _ \<Rightarrow> [])"

text \<open>What is copied from the transaction, the receipt and the receipt's outcome.\<close>

definition action_of_receipt :: "near_tx_status \<Rightarrow> near_receipt \<Rightarrow> transaction_action \<Rightarrow> bool" where
  "action_of_receipt s r a \<longleftrightarrow>
     ta_transactionHash a = nts_hash s \<and> ta_status a = nts_status s
     \<and> ta_receiverId a = nr_receiver_id r \<and> ta_signerId a = nr_predecessor_id r
     \<and> ta_txSignerId a = Some (nts_signer_id s)
     \<and> (\<exists>outcome. find (\<lambda>o1. no_id o1 = nr_receipt_id r) (nts_receipts_outcome s) = Some outcome
          \<and> ta_blockHash a = no_block_hash outcome
          \<and> ta_receiptSuccessValue a = js_text (js_get_opt (no_status outcome) ''SuccessValue''))"

lemma receipt_actions_Inr:
  assumes "receipt_actions s blocks r = Inr as"
  shows "map action_position as = receipt_positions r"
    and "a \<in> set as \<Longrightarrow> action_of_receipt s r a"
proof -
  obtain outcome block actions where
    o: "find (\<lambda>o1. no_id o1 = nr_receipt_id r) (nts_receipts_outcome s) = Some outcome"
    and r: "nr_receipt r = Some (Some actions)"
    and as: "as = map (\<lambda>(action, index).
        castNearTransactionAction s block r outcome action index) (zip actions [0..<length actions])"
    using assms by (auto simp: receipt_actions_def split: option.splits)
  have "map action_position as = map (Pair (nr_receipt_id r)) (map snd (zip actions [0..<length actions]))"
    unfolding as map_map
    by (intro map_cong) (auto simp: action_position_def castNearTransactionAction_def Let_def)
  then show "map action_position as = receipt_positions r"
    by (simp add: receipt_positions_def r)
  show "action_of_receipt s r a" if "a \<in> set as"
    using that o by (auto simp: as action_of_receipt_def castNearTransactionAction_def Let_def)
qed

lemma receipts_actions_Inr:
  assumes "map_res (receipt_actions s blocks) rs = Inr ass"
  shows "map action_position (concat ass) = concat (map receipt_positions rs)"
    and "a \<in> set (concat ass) \<Longrightarrow> \<exists>r \<in> set rs. action_of_receipt s r a"
proof -
  have "map action_position (concat ass) = concat (map receipt_positions rs)
      \<and> (\<forall>a \<in> set (concat ass). \<exists>r \<in> set rs. action_of_receipt s r a)"
    using assms
  proof (induction rs arbitrary: ass)
    case Nil
    then show ?case by simp
  next
    case (Cons r rs)
    then obtain as ass' where "receipt_actions s blocks r = Inr as"
      "map_res (receipt_actions s blocks) rs = Inr ass'" "ass = as # ass'"
      by (auto simp: res_bind_Inr_iff)
    with Cons.IH receipt_actions_Inr [of s blocks r as] show ?case by fastforce
  qed
  then show "map action_position (concat ass) = concat (map receipt_positions rs)"
    and "a \<in> set (concat ass) \<Longrightarrow> \<exists>r \<in> set rs. action_of_receipt s r a" by blast+
qed

lemma receipt_positions_id: "x \<in> set (receipt_positions q) \<Longrightarrow> fst x = nr_receipt_id q"
  by (auto simp: receipt_positions_def split: option.splits)

lemma distinct_positions:
  "distinct (map nr_receipt_id rs) \<Longrightarrow> distinct (concat (map receipt_positions rs))"
proof (induction rs)
  case (Cons r rs)
  have "distinct (receipt_positions r)"
    by (auto simp: receipt_positions_def distinct_map intro: inj_onI split: option.split)
  moreover have "x \<notin> set (concat (map receipt_positions rs))" if "x \<in> set (receipt_positions r)" for x
  proof
    assume "x \<in> set (concat (map receipt_positions rs))"
    then obtain q where "q \<in> set rs" "x \<in> set (receipt_positions q)" by auto
    then have "nr_receipt_id r = nr_receipt_id q"
      using that receipt_positions_id [of x q] receipt_positions_id [of x r] by simp
    with \<open>q \<in> set rs\<close> Cons.prems show False by auto
  qed
  ultimately show ?case using Cons by (simp add: disjoint_iff)
qed simp

text \<open>
  The actions of a transaction. When \<open>getActionsByTxStatus\<close> returns, it lists the actions of
  the receipts in their order, numbered from 0 in each receipt; every action carries the hash, the
  status and the signer of the transaction, the accounts of its receipt, and the block and the
  success value of the outcome with the receipt's id. If the receipts have different ids, no two
  actions are recorded under the same key, so that handling one never counts as handling another.
\<close>

theorem getActionsByTxStatus_spec:
  assumes "getActionsByTxStatus E s W tr = (Inr actions, t)"
  shows "map action_position actions = concat (map receipt_positions (nts_receipts s))
    \<and> (\<forall>a \<in> set actions. \<exists>r \<in> set (nts_receipts s). action_of_receipt s r a)
    \<and> (distinct (map nr_receipt_id (nts_receipts s)) \<longrightarrow> distinct (map handled_key actions))"
proof -
  obtain blocks ass where ass: "map_res (receipt_actions s blocks) (nts_receipts s) = Inr ass"
    and actions: "actions = concat ass"
    using assms by (auto simp: getActionsByTxStatus_def Let_def bnd_Inr_iff lift_res_Inr_iff
        res_bind_Inr_iff)
  note spec = receipts_actions_Inr [OF ass, folded actions]
  have "distinct (map handled_key actions)" if "distinct (map nr_receipt_id (nts_receipts s))"
  proof -
    have "distinct (map action_position actions)"
      using distinct_positions [OF that] spec(1) by simp
    then show ?thesis
      by (auto simp: distinct_map inj_on_def handled_key_inject action_position_def)
  qed
  then show ?thesis using spec by blast
qed

definition sample_tx :: near_tx_status where
  "sample_tx = \<lparr> nts_hash = ''h'', nts_signer_id = ''alice.near'', nts_actions = [],
     nts_status = JObj [(''SuccessValue'', JStr [])],
     nts_receipts = [\<lparr> nr_receipt_id = ''r1'', nr_receiver_id = ''d'', nr_predecessor_id = ''alice.near'',
        nr_receipt = Some (Some [JStr ''CreateAccount'', JObj [(''Transfer'', JObj [(''deposit'', JStr ''1'')])]]) \<rparr>,
       \<lparr> nr_receipt_id = ''r2'', nr_receiver_id = ''e'', nr_predecessor_id = ''d'',
        nr_receipt = Some (Some [JObj [(''Transfer'', JObj [(''deposit'', JStr ''2'')])]]) \<rparr>],
     nts_receipts_outcome = map (\<lambda>i. \<lparr> no_id = i, no_block_hash = ''b'',
        no_status = JObj [(''SuccessValue'', JStr [])] \<rparr>) [''r1'', ''r2''] \<rparr>"

lemma retry_act_first: "retry_act 4 m = attempt m (\<lambda>e. retry_act 3 m)"
  by (simp add: numeral_eq_Suc)

definition block_world :: world where
  "block_world = quiet_world\<lparr>w_block := \<lambda>tr. Inr \<lparr> nb_hash = ''b'', nb_timestamp_nanosec = ''5'' \<rparr>,
     w_txStatus := \<lambda>tr. Inr sample_tx\<rparr>"

lemma sample_tx_run:
  "\<exists>a b c. getActionsByTxStatus sample_env sample_tx block_world [] = (Inr [a, b, c], [Rpc (R_block ''b'')])"
proof -
  have block: "getBlockRetry sample_env ''b'' block_world tr =
      (Inr \<lparr> nb_hash = ''b'', nb_timestamp_nanosec = ''5'' \<rparr>, tr @ [Rpc (R_block ''b'')])" for tr
    by (simp add: getBlockRetry_def getBlock_def sample_env_def retry_act_first run_attempt run_call block_world_def)
  show ?thesis
    by (simp add: getActionsByTxStatus_def sample_tx_def block run_simps receipt_actions_def upt_rec)
qed

theorem getActionsByTxStatus_spec_witness:
  "\<exists>a b c. fst (getActionsByTxStatus sample_env sample_tx block_world []) = Inr [a, b, c]
     \<and> map action_position [a, b, c] = [(''r1'', 0), (''r1'', 1), (''r2'', 0)]
     \<and> distinct (map handled_key [a, b, c])"
proof -
  obtain a b c where run:
    "getActionsByTxStatus sample_env sample_tx block_world [] = (Inr [a, b, c], [Rpc (R_block ''b'')])"
    using sample_tx_run by blast
  have "concat (map receipt_positions (nts_receipts sample_tx)) = [(''r1'', 0), (''r1'', 1), (''r2'', 0)]"
    and "distinct (map nr_receipt_id (nts_receipts sample_tx))"
    by (simp_all add: sample_tx_def receipt_positions_def upt_rec)
  then show ?thesis using getActionsByTxStatus_spec [OF run] run by auto
qed

section \<open>The transactions of a list of receipts\<close>

interpretation transactions: keyed_list itx_transactionHash put_transaction
proof
  show "put_transaction x xs = xs @ [x]"
    if "itx_transactionHash x \<notin> itx_transactionHash ` set xs" for x xs
    using that by (induction xs) auto
  show "\<exists>y'. put_transaction x (ys @ y # zs) = ys @ y' # zs
      \<and> itx_transactionHash y' = itx_transactionHash x"
    if "itx_transactionHash y = itx_transactionHash x"
      "itx_transactionHash x \<notin> itx_transactionHash ` set ys" for x y ys zs
    using that by (induction ys) auto
qed

end
