(* ===== verification/Tx_Service.thy ===== *)
theory Tx_Service
  imports Tx_Mapper
begin

text \<open>
  \<open>libs/transaction-handler/src/transaction-handler.service.ts\<close>: the state of a handler, the blocks
  reported by the API, and the handling of a transaction or of receipts from the indexer's
  database; and \<open>libs/transaction/src\<close>: the stored transactions and the wallet callback.
\<close>

section \<open>The state of a handler\<close>

definition getState :: "string \<Rightarrow> handler_state option service" where
  "getState i = call (Sql (S_getHandlerState i)) w_handlerState"

definition getStateBlock :: "string \<Rightarrow> indexer_block option service" where
  "getStateBlock i =
     bnd (getState i) (\<lambda>st.
     case st of
       None \<Rightarrow> ret None
     | Some s \<Rightarrow> call (Indexer (N_blockByHash (hs_lastBlockHash s))) w_indexerBlock)"

datatype handler_status = HS_InProgress | HS_Failed | HS_Success

fun handler_status_str :: "handler_status \<Rightarrow> string" where
  "handler_status_str HS_InProgress = ''InProgress''"
| "handler_status_str HS_Failed = ''Failed''"
| "handler_status_str HS_Success = ''Success''"

text \<open>\<open>lastTx\<close> is the block hash and the block timestamp of the last transaction.\<close>

definition saveState :: "string \<Rightarrow> handler_status \<Rightarrow> (string \<times> string) option \<Rightarrow> unit service" where
  "saveState i status lastTx =
     do_call (Sql (S_saveHandlerState i (handler_status_str status) (map_option fst lastTx)
       (map_option snd lastTx)))"

section \<open>The blocks reported\<close>

definition INDEXER_PROCESSOR_HANDLER_STATE_ID :: string where
  "INDEXER_PROCESSOR_HANDLER_STATE_ID = ''indexer-processor''"

record handler_block =
  hb_height :: "string option"
  hb_timestamp :: "string option"

record handler_blocks =
  hbs_lastBlock :: handler_block
  hbs_lastAstroBlock :: handler_block
  hbs_lastHandledBlock :: handler_block
  hbs_lastProcessedBlock :: handler_block

text \<open>\<open>s > t\<close> on texts, which the driver delivers for a column of type \<open>bigint\<close>.\<close>

fun str_greater :: "string \<Rightarrow> string \<Rightarrow> bool" where
  "str_greater [] t = False"
| "str_greater (c # s) [] = True"
| "str_greater (c # s) (d # t) =
     ((of_char d :: nat) < of_char c \<or> c = d \<and> str_greater s t)"

definition block_of :: "indexer_block option \<Rightarrow> handler_block" where
  "block_of b = \<lparr> hb_height = map_option ib_blockHeight b, hb_timestamp = map_option ib_blockTimestamp b \<rparr>"

definition zero_block :: handler_block where
  "zero_block = \<lparr> hb_height = Some ''0'', hb_timestamp = Some ''0'' \<rparr>"

definition later_block :: "indexer_block option \<Rightarrow> indexer_block option \<Rightarrow> bool" where
  "later_block b c =
     (case (b, c) of
        (Some x, Some y) \<Rightarrow> str_greater (ib_blockTimestamp x) (ib_blockTimestamp y)
      | _ \<Rightarrow> False)"

definition getHandlerBlocks :: "handler_blocks service" where
  "getHandlerBlocks =
     attempt
       (bnd (getStateBlock INDEXER_PROCESSOR_HANDLER_STATE_ID) (\<lambda>processorBlock.
        bnd (call (Indexer N_lastAccountChange) w_timestamp) (\<lambda>lastAccountChange.
        bnd (call (Indexer (N_blockByTimestamp lastAccountChange)) w_indexerBlock) (\<lambda>lastAstroBlock.
        bnd (call (Indexer N_lastNearLakeBlock) w_indexerBlock) (\<lambda>lastNearLakeBlock.
        let lastHandledBlock = (if later_block processorBlock lastAstroBlock then lastAstroBlock
                                else processorBlock) in
        ret \<lparr> hbs_lastBlock = block_of lastNearLakeBlock,
              hbs_lastAstroBlock = block_of lastAstroBlock,
              hbs_lastHandledBlock = block_of lastHandledBlock,
              hbs_lastProcessedBlock = block_of processorBlock \<rparr>)))))
       (\<lambda>err. ret \<lparr> hbs_lastBlock = zero_block, hbs_lastAstroBlock = zero_block,
          hbs_lastHandledBlock = zero_block, hbs_lastProcessedBlock = zero_block \<rparr>)"

section \<open>Handling transactions and receipts\<close>

definition handleNearTransaction :: "env \<Rightarrow> string \<Rightarrow> string \<Rightarrow> handler_result list service" where
  "handleNearTransaction E txHash accountId =
     bnd (getActionsByNearTransaction E txHash accountId) (\<lambda>actions.
     bnd (handleTransactionActions E actions) (\<lambda>r.
     if \<not> ar_success r
     then throw (ThrownError (''Failed to handle actions of transaction '' @ txHash))
     else ret (ar_results r)))"

definition handleNearReceipts ::
    "env \<Rightarrow> indexer_receipt list \<Rightarrow> (indexer_transaction list \<times> bool) service" where
  "handleNearReceipts E receipts =
     bnd (getActionsByReceipts E receipts) (\<lambda>(transactions, actions).
     bnd (handleTransactionActions E actions) (\<lambda>r.
     ret (filter (\<lambda>tx. itx_transactionHash tx \<in> set (ar_handledTxHashes r)) transactions,
          ar_success r)))"

section \<open>TransactionService\<close>

definition transaction_create :: "indexer_transaction \<Rightarrow> unit service" where
  "transaction_create transaction = do_call (Sql (S_saveTransaction transaction))"

definition transaction_createMultiple :: "indexer_transaction list \<Rightarrow> unit service" where
  "transaction_createMultiple transactions = do_call (Sql (S_saveTransactions transactions))"

definition lastTransaction :: "indexer_transaction option service" where
  "lastTransaction = call (Sql S_lastTransaction) w_transaction"

definition findBountyClaimTransactions :: "string option \<Rightarrow> indexer_transaction list service" where
  "findBountyClaimTransactions daoId =
     call (Sql (S_bountyClaimTransactions
       (case daoId of Some d \<Rightarrow> if d = [] then None else Some d | None \<Rightarrow> None))) w_transactions"

definition castEmptyTransactionAction :: "string \<Rightarrow> indexer_action" where
  "castEmptyTransactionAction txHash =
     \<lparr> ia_transactionHash = txHash, ia_indexInTransaction = 0,
       ia_actionKind = Some AK_FunctionCall, ia_args = JNull \<rparr>"

definition castEmptyTransaction :: "string \<Rightarrow> string \<Rightarrow> indexer_transaction" where
  "castEmptyTransaction txHash accountId =
     \<lparr> itx_transactionHash = txHash, itx_includedInBlockHash = [], itx_signerAccountId = accountId,
       itx_blockTimestamp = ''0'', itx_transactionAction = Some (castEmptyTransactionAction txHash) \<rparr>"

definition walletCallback :: "env \<Rightarrow> string \<Rightarrow> string \<Rightarrow> handler_result list service" where
  "walletCallback E txHash accountId =
     bnd (handleNearTransaction E txHash accountId) (\<lambda>results.
     thn clearCache
    (thn (transaction_create (castEmptyTransaction txHash accountId))
         (ret results)))"


section \<open>Receipts of the indexer's database\<close>

text \<open>
  A receipt whose relations are loaded and whose transaction is not a vote: its actions are taken
  from the database.
\<close>

definition from_database :: "indexer_receipt \<Rightarrow> bool" where
  "from_database r \<longleftrightarrow>
     (case ir_originatedFromTransaction r of
        None \<Rightarrow> False
      | Some tx \<Rightarrow> itx_transactionAction tx \<noteq> None \<and> \<not> isActFunctionCall tx)
     \<and> ir_receiptActions r \<noteq> None"

definition database_actions :: "indexer_receipt \<Rightarrow> transaction_action list" where
  "database_actions r =
     (case map_res (castNearIndexerReceiptAction r) (the (ir_receiptActions r)) of
        Inl e \<Rightarrow> [] | Inr as \<Rightarrow> as)"

lemma castNearIndexerReceiptAction_total:
  "from_database r \<Longrightarrow> \<exists>a. castNearIndexerReceiptAction r ac = Inr a \<and> ta_status a = JUndef"
  by (auto simp: from_database_def castNearIndexerReceiptAction_def split: option.splits)

lemma map_res_database:
  assumes "from_database r"
  shows "\<exists>as. map_res (castNearIndexerReceiptAction r) acs = Inr as
     \<and> (\<forall>a \<in> set as. ta_status a = JUndef)"
proof (induction acs)
  case (Cons ac acs)
  then obtain as where "map_res (castNearIndexerReceiptAction r) acs = Inr as"
    "\<forall>a \<in> set as. ta_status a = JUndef" by blast
  with castNearIndexerReceiptAction_total [OF assms, of ac] show ?case by auto
qed simp

lemma database_actions_status:
  "from_database r \<Longrightarrow> a \<in> set (database_actions r) \<Longrightarrow> ta_status a = JUndef"
  using map_res_database [of r "the (ir_receiptActions r)"]
  by (auto simp: database_actions_def)

lemma getActionsByReceipt_database:
  assumes "from_database r"
  shows "\<exists>tx. getActionsByReceipt E r = ret (tx, database_actions r)"
proof -
  obtain tx where tx: "ir_originatedFromTransaction r = Some tx" "itx_transactionAction tx \<noteq> None"
      "\<not> isActFunctionCall tx" "ir_receiptActions r \<noteq> None"
    using assms by (auto simp: from_database_def split: option.splits)
  obtain as where "map_res (castNearIndexerReceiptAction r) (the (ir_receiptActions r)) = Inr as"
    using map_res_database [OF assms] by blast
  with tx show ?thesis
    by (intro exI [of _ tx]) (auto simp: getActionsByReceipt_def need_def database_actions_def
        lift_res_def bnd_def ret_def fun_eq_iff)
qed

lemma getActionsByReceipts_database:
  assumes "list_all from_database receipts"
  shows "\<exists>txs. getActionsByReceipts E receipts W tr
     = (Inr (txs, concat (map database_actions receipts)), tr)"
proof -
  let ?f = "\<lambda>(transactions, actions) receipt.
         attempt
           (bnd (getActionsByReceipt E receipt) (\<lambda>(tx, as).
            ret (put_transaction tx transactions, actions @ as)))
           (\<lambda>error. ret (transactions, actions))"
  have "\<exists>txs'. fold_act ?f (txs, as) receipts W tr
     = (Inr (txs', as @ concat (map database_actions receipts)), tr)" for txs as
    using assms
  proof (induction receipts arbitrary: txs as)
    case Nil
    then show ?case by (simp add: run_ret)
  next
    case (Cons r rs)
    obtain tx where "getActionsByReceipt E r = ret (tx, database_actions r)"
      using getActionsByReceipt_database Cons.prems by auto
    then show ?case
      using Cons.IH [of "put_transaction tx txs" "as @ database_actions r"] Cons.prems by simp
  qed
  from this [of "[]" "[]"] show ?thesis by (simp add: getActionsByReceipts_def)
qed

lemma handleTransactionAction_no_status:
  assumes "ta_status a = JUndef" and "\<not> is_test_dao a"
    and "w_handled W (tr @ [Dyn (D_get (handled_key a))]) = Inr None"
  shows "handleTransactionAction E a W tr
     = (Inl (TypeError ''Failure''), tr @ [Dyn (D_get (handled_key a))])"
  using assms by (simp add: handleTransactionAction_def handled_check_def run_simps)

text \<open>
  C35. Receipts whose actions come from the indexer's database are never handled: the actions are
  cast without a status, which the handler reads, so that the first action that is not recorded as
  handled fails with a TypeError before anything is stored, and \<open>handleNearReceipts\<close> reports a
  failure and no transaction.
\<close>

theorem handleNearReceipts_database:
  assumes "list_all from_database receipts"
    and "concat (map database_actions receipts) = a # rest"
    and "\<not> is_test_dao a"
    and "w_handled W (tr @ [Dyn (D_get (handled_key a))]) = Inr None"
  shows "handleNearReceipts E receipts W tr
     = (Inr ([], False), tr @ [Dyn (D_get (handled_key a))])"
proof -
  obtain txs where txs: "getActionsByReceipts E receipts W tr = (Inr (txs, a # rest), tr)"
    using getActionsByReceipts_database [OF assms(1)] assms(2) by metis
  have "a \<in> set (concat (map database_actions receipts))" unfolding assms(2) by simp
  then have "ta_status a = JUndef"
    using database_actions_status assms(1) by (auto simp: list_all_iff)
  then show ?thesis
    using handleTransactionAction_no_status [OF _ assms(3,4), of E]
    by (simp add: handleNearReceipts_def handleTransactionActions_def txs run_simps)
qed

definition sample_receipt :: indexer_receipt where
  "sample_receipt = \<lparr> ir_receiptId = ''r'', ir_includedInBlockTimestamp = ''1'',
     ir_originatedFromTransaction = Some (castEmptyTransaction ''h'' ''alice.near''),
     ir_receiptActions = Some [\<lparr> ira_indexInActionReceipt = 0, ira_actionKind = AK_Transfer,
       ira_args = JNull, ira_receiptPredecessorAccountId = ''alice.near'',
       ira_receiptReceiverAccountId = ''d'' \<rparr>] \<rparr>"

theorem handleNearReceipts_database_witness:
  "fst (handleNearReceipts sample_env [sample_receipt] quiet_world []) = Inr ([], False)"
proof -
  have "list_all from_database [sample_receipt]"
    by (simp add: from_database_def sample_receipt_def castEmptyTransaction_def isActFunctionCall_def
        castEmptyTransactionAction_def)
  moreover obtain a where "concat (map database_actions [sample_receipt]) = a # []"
    and "ta_receiverId a = ''d''"
    by (simp add: database_actions_def sample_receipt_def castEmptyTransaction_def
        castNearIndexerReceiptAction_def)
  moreover from this have "\<not> is_test_dao a"
    by (simp add: is_test_dao_def index_of.simps starts_with_def)
  ultimately show ?thesis
    using handleNearReceipts_database [of "[sample_receipt]" a "[]" quiet_world "[]" sample_env]
    by (simp add: quiet_world_def)
qed

section \<open>The wallet callback\<close>

lemma handles_loop:
  "handles E W tr actions rs t \<Longrightarrow>
     handle_actions_loop E hashes results actions W tr =
       (Inr \<lparr> ar_handledTxHashes = hashes @ map ta_transactionHash actions,
              ar_results = results @ rs, ar_success = True \<rparr>, t)"
  by (induction arbitrary: hashes results rule: handles.induct) (simp_all add: run_simps)

lemma handleTransactionActions_success:
  "handleTransactionActions E actions W tr = (Inr r, t) \<and> ar_success r \<longleftrightarrow>
     (\<exists>rs. handles E W tr actions rs t
       \<and> r = \<lparr> ar_handledTxHashes = map ta_transactionHash actions, ar_results = rs,
              ar_success = True \<rparr>)"
proof
  assume *: "handleTransactionActions E actions W tr = (Inr r, t) \<and> ar_success r"
  obtain r' t' where "handle_actions_loop E [] [] actions W tr = (Inr r', t')"
    and o: "loop_outcome E W tr actions [] [] r' t'"
    using handle_actions_loop_outcome by blast
  with * have "r' = r" "t' = t" by (simp_all add: handleTransactionActions_def)
  with o * show "\<exists>rs. handles E W tr actions rs t
       \<and> r = \<lparr> ar_handledTxHashes = map ta_transactionHash actions, ar_results = rs,
              ar_success = True \<rparr>"
    by (cases r) (auto simp: loop_outcome_def)
next
  assume "\<exists>rs. handles E W tr actions rs t
       \<and> r = \<lparr> ar_handledTxHashes = map ta_transactionHash actions, ar_results = rs,
              ar_success = True \<rparr>"
  then show "handleTransactionActions E actions W tr = (Inr r, t) \<and> ar_success r"
    using handles_loop [of E W tr actions _ t "[]" "[]"]
    by (auto simp: handleTransactionActions_def)
qed

lemma handleTransactionActions_handles:
  "(\<exists>r. (handleTransactionActions E actions W tr = (Inr r, t) \<and> ar_success r)
     \<and> ar_results r = results) \<longleftrightarrow> handles E W tr actions results t"
  unfolding handleTransactionActions_success by force

lemma handleNearTransaction_iff:
  "handleNearTransaction E txHash accountId W tr = (Inr results, t) \<longleftrightarrow>
     (\<exists>actions t0. getActionsByNearTransaction E txHash accountId W tr = (Inr actions, t0)
        \<and> handles E W t0 actions results t)"
proof -
  have "handleNearTransaction E txHash accountId W tr = (Inr results, t) \<longleftrightarrow>
     (\<exists>actions t0. getActionsByNearTransaction E txHash accountId W tr = (Inr actions, t0)
        \<and> (\<exists>r. (handleTransactionActions E actions W t0 = (Inr r, t) \<and> ar_success r)
        \<and> ar_results r = results))"
    by (auto simp: handleNearTransaction_def bnd_Inr_iff ret_iff throw_iff split: if_splits)
  then show ?thesis unfolding handleTransactionActions_handles .
qed

text \<open>
  The wallet callback. It returns exactly when every action of the transaction is handled, in
  order, the cache is cleared and the transaction is stored, in the last call; its results are
  then the truthy results of the actions.
\<close>

theorem walletCallback_spec:
  "walletCallback E txHash accountId W tr = (Inr results, t) \<longleftrightarrow>
     (\<exists>actions t0 t1 t2.
        getActionsByNearTransaction E txHash accountId W tr = (Inr actions, t0)
      \<and> handles E W t0 actions results t1
      \<and> clearCache W t1 = (Inr (), t2)
      \<and> t = t2 @ [Sql (S_saveTransaction (castEmptyTransaction txHash accountId))]
      \<and> w_ack W t = Inr ())"
proof -
  have "walletCallback E txHash accountId W tr = (Inr results, t) \<longleftrightarrow>
     (\<exists>t1 t2. handleNearTransaction E txHash accountId W tr = (Inr results, t1)
      \<and> clearCache W t1 = (Inr (), t2)
      \<and> t = t2 @ [Sql (S_saveTransaction (castEmptyTransaction txHash accountId))]
      \<and> w_ack W t = Inr ())"
    by (auto simp: walletCallback_def transaction_create_def bnd_Inr_iff thn_Inr_iff ret_iff)
  then show ?thesis unfolding handleNearTransaction_iff by blast
qed

end
