(* ===== verification/Error_Tracker.thy ===== *)
theory Error_Tracker
  imports World Bounty_Service
begin

text \<open>
  \<open>libs/error-tracker/src\<close>: the errors of the indexer processor, kept in both stores
  (\<open>ErrorTrackerService\<close>), and the list of the open ones, which only DynamoDB has
  (\<open>ErrorTrackerDynamoService\<close>).
\<close>

section \<open>ErrorTrackerDynamoService\<close>

definition error_key :: "string \<Rightarrow> dyn_key" where
  "error_key i = entity_key (Some (entity_type_str E_Error)) E_Error i"

definition error_ids_key :: dyn_key where
  "error_ids_key = entity_key (Some (entity_type_str E_ErrorIds)) E_ErrorIds ''1''"

definition errorDynamo_save :: "string \<Rightarrow> dyn_model \<Rightarrow> unit service" where
  "errorDynamo_save i error = do_call (Dyn (D_save (error_key i) error))"

definition getOpenErrorIds :: "string list service" where
  "getOpenErrorIds =
     bnd (dyn_get w_ids error_ids_key) (\<lambda>m. ret (case m of None \<Rightarrow> [] | Some ids \<Rightarrow> ids))"

definition addOpenErrorId :: "string \<Rightarrow> unit service" where
  "addOpenErrorId i =
     bnd (dyn_get w_ids error_ids_key) (\<lambda>m.
     bnd (need ''openErrorIds'' m) (\<lambda>ids.
     when_act (i \<notin> set ids) (do_call (Dyn (D_updateErrorIds (ids @ [i]))))))"

definition removeOpenErrorId :: "string \<Rightarrow> unit service" where
  "removeOpenErrorId i =
     bnd (dyn_get w_ids error_ids_key) (\<lambda>m.
     bnd (need ''openErrorIds'' m) (\<lambda>ids.
     when_act (i \<in> set ids) (do_call (Dyn (D_updateErrorIds (filter (\<lambda>errorId. errorId \<noteq> i) ids))))))"

text \<open>The stored error has the status \<open>Open\<close> and no timestamp.\<close>

definition errorDynamo_create :: "error_entity \<Rightarrow> unit service" where
  "errorDynamo_create error =
     thn (errorDynamo_save (ee_id error)
            (M_Error (error\<lparr>ee_status := Some ES_Open, ee_timestamp := None\<rparr>)))
         (addOpenErrorId (ee_id error))"

definition errorDynamo_getById :: "string \<Rightarrow> error_entity option service" where
  "errorDynamo_getById i = dyn_get w_error (error_key i)"

section \<open>ErrorTrackerService\<close>

definition error_create :: "error_entity \<Rightarrow> unit service" where
  "error_create error = thn (errorDynamo_create error) (do_call (Sql (S_saveError error)))"

definition getErrorById :: "string \<Rightarrow> error_entity option service" where
  "getErrorById i =
     bnd (useDynamoDB ''error-dynamo'') (\<lambda>dynamo.
       if dynamo then errorDynamo_getById i else call (Sql (S_findError i)) w_error)"

definition getOpenErrorsIds :: "string list service" where
  "getOpenErrorsIds =
     bnd (useDynamoDB ''error-dynamo'') (\<lambda>dynamo.
       if dynamo then getOpenErrorIds else call (Sql S_findOpenErrors) w_strs)"

definition setErrorStatus :: "string \<Rightarrow> error_status \<Rightarrow> unit service" where
  "setErrorStatus i status =
     thn (if status = ES_Open then addOpenErrorId i else removeOpenErrorId i)
    (thn (errorDynamo_save i (M_ErrorStatus status))
         (do_call (Sql (S_updateErrorStatus i status))))"

section \<open>Storing an error\<close>

interpretation errors: dual_write error_create errorDynamo_create S_saveError
proof
  show "error_create x = thn (errorDynamo_create x) (do_call (Sql (S_saveError x)))" for x
    by (simp add: error_create_def)
  show "keeps is_dyn (errorDynamo_create x)" for x
    unfolding errorDynamo_create_def errorDynamo_save_def addOpenErrorId_def
    by (intro keeps_intros keeps_do_call keeps_dyn_get) simp_all
qed

text \<open>
  The list of the open errors after \<open>setErrorStatus\<close>: what it writes when it returns, given the
  list it read.
\<close>

lemma addOpenErrorId_ids:
  assumes "addOpenErrorId i W tr = (Inr (), t)"
  shows "\<exists>ids. w_ids W (tr @ [Dyn (D_get error_ids_key)]) = Inr (Some ids)
    \<and> t = tr @ Dyn (D_get error_ids_key) # (if i \<in> set ids then [] else [Dyn (D_updateErrorIds (ids @ [i]))])"
  using assms by (auto simp: addOpenErrorId_def run_simps split: sum.splits option.splits if_splits)

lemma removeOpenErrorId_ids:
  assumes "removeOpenErrorId i W tr = (Inr (), t)"
  shows "\<exists>ids. w_ids W (tr @ [Dyn (D_get error_ids_key)]) = Inr (Some ids)
    \<and> t = tr @ Dyn (D_get error_ids_key) #
        (if i \<in> set ids then [Dyn (D_updateErrorIds (filter (\<lambda>j. j \<noteq> i) ids))] else [])"
  using assms by (auto simp: removeOpenErrorId_def run_simps split: sum.splits option.splits if_splits)

lemma errorDynamo_create_no_ids:
  assumes "\<And>tr. w_ids W (tr @ [Dyn (D_get error_ids_key)]) = Inr None"
  shows "errorDynamo_create error W tr \<noteq> (Inr (), t)"
proof
  assume "errorDynamo_create error W tr = (Inr (), t)"
  then obtain t' where "addOpenErrorId (ee_id error) W t' = (Inr (), t)"
    unfolding errorDynamo_create_def thn_Inr_iff by blast
  from addOpenErrorId_ids [OF this] assms [of t'] show False by simp
qed

text \<open>
  An error can only be recorded when the list of the open errors exists. While the table has no
  such item, storing an error fails after it has been written to DynamoDB, and the relational store
  never learns of the error.
\<close>

theorem error_create_without_ids:
  assumes "\<And>tr. w_ids W (tr @ [Dyn (D_get error_ids_key)]) = Inr None"
  shows "\<exists>e ds. error_create error W tr = (Inl e, tr @ ds) \<and> list_all is_dyn ds"
proof -
  obtain r t where rt: "error_create error W tr = (r, t)" by fastforce
  then show ?thesis
    by (cases rule: errors.save_cases) (use errorDynamo_create_no_ids [OF assms] rt in auto)
qed

theorem error_create_without_ids_witness:
  "\<exists>e ds. error_create \<lparr> ee_id = ''r-0'', ee_reason = ''x'', ee_status = None, ee_timestamp = None,
      ee_receipt = None \<rparr> quiet_world [] = (Inl e, ds) \<and> list_all is_dyn ds"
  using error_create_without_ids [of quiet_world _ "[]"] by (simp add: quiet_world_def)

end
