(* ===== verification/Indexer_Processor.thy ===== *)
theory Indexer_Processor
  imports Tx_Service Error_Tracker
begin

text \<open>
  \<open>apps/indexer-processor/src\<close>: the receipts that arrive on the Redis stream are handled action by
  action; a failure is recorded as an open error, which is retried in the background.
\<close>

section \<open>Receipt entries\<close>

text \<open>The arguments of an action, reduced to the three fields that are read.\<close>

definition map_args :: "jsval \<Rightarrow> jsval" where
  "map_args args = JObj
     [(''method_name'', js_get_opt args ''method_name''), (''deposit'', js_get_opt args ''deposit''),
      (''args_json'', js_get_opt args ''args_json'')]"

definition mapReceiptEntryActionArgs :: "receipt_entry \<Rightarrow> exn + receipt_entry" where
  "mapReceiptEntryActionArgs receipt =
     (case re_action receipt of
        None \<Rightarrow> Inl (TypeError ''actions'')
      | Some (signer, actions) \<Rightarrow> Inr (receipt\<lparr>re_action :=
          Some (signer, map (\<lambda>a. a\<lparr>rea_args := map_args (rea_args a)\<rparr>) actions)\<rparr>))"

definition cast_entry_action ::
    "near_tx_status \<Rightarrow> receipt_entry \<Rightarrow> near_outcome \<Rightarrow> receipt_entry_action \<Rightarrow>
     exn + transaction_action" where
  "cast_entry_action txStatus receipt outcome action =
     (case re_action receipt of
        None \<Rightarrow> Inl (TypeError ''signer_account_id'')
      | Some (signer, actions) \<Rightarrow> Inr
          \<lparr> ta_receiverId = rea_receipt_receiver_account_id action,
            ta_signerId = rea_receipt_predecessor_account_id action,
            ta_txSignerId = Some signer,
            ta_predecessorId = rea_receipt_predecessor_account_id action,
            ta_transactionHash = re_originated_from_transaction_hash receipt,
            ta_blockHash = re_included_in_block_hash receipt,
            ta_kind = castNearIndexerReceiptActionKind (rea_action_kind action),
            ta_methodName = js_text (js_get_opt (rea_args action) ''method_name''),
            ta_args = js_get_opt (rea_args action) ''args_json'',
            ta_deposit = js_text (js_or (js_get_opt (rea_args action) ''deposit'') (JStr ''0'')),
            ta_timestamp = re_included_in_block_timestamp receipt,
            ta_receiptId = re_receipt_id receipt,
            ta_indexInReceipt = rea_index_in_action_receipt action,
            ta_status = nts_status txStatus,
            ta_receiptSuccessValue = js_text (js_get_opt (no_status outcome) ''SuccessValue'') \<rparr>)"

section \<open>IndexerProcessorCommonService\<close>

definition getTransactionAction ::
    "env \<Rightarrow> receipt_entry \<Rightarrow> receipt_entry_action \<Rightarrow> transaction_action service" where
  "getTransactionAction E receipt action =
     bnd (getTxStatusRetry E (re_originated_from_transaction_hash receipt)
            (re_predecessor_account_id receipt)) (\<lambda>txStatus.
     case find (\<lambda>o1. no_id o1 = re_receipt_id receipt) (nts_receipts_outcome txStatus) of
       None \<Rightarrow> throw (ThrownError
         (''Unable to fund outcome for receipt ID: '' @ re_receipt_id receipt))
     | Some outcome \<Rightarrow> lift_res (cast_entry_action txStatus receipt outcome action))"

text \<open>The two awaited calls that both loops make for an action.\<close>

definition run_entry_action :: "env \<Rightarrow> receipt_entry \<Rightarrow> receipt_entry_action \<Rightarrow> unit service" where
  "run_entry_action E receipt action =
     bnd (getTransactionAction E receipt action) (\<lambda>transactionAction.
     bnd (handleTransactionAction E transactionAction) (\<lambda>_. ret ()))"

definition entry_actions :: "receipt_entry \<Rightarrow> receipt_entry_action list" where
  "entry_actions receipt = (case re_action receipt of None \<Rightarrow> [] | Some (signer, actions) \<Rightarrow> actions)"

section \<open>IndexerProcessorErrorHandlerService\<close>

definition resolveErrorBackOff :: "string \<Rightarrow> unit service" where
  "resolveErrorBackOff i = start (BackOff i)"

definition new_error_id :: "receipt_entry \<Rightarrow> nat \<Rightarrow> string" where
  "new_error_id receipt actionIndex = re_receipt_id receipt @ ''-'' @ nat_str actionIndex"

definition handleNewError :: "env \<Rightarrow> receipt_entry \<Rightarrow> nat \<Rightarrow> exn \<Rightarrow> unit service" where
  "handleNewError E receipt actionIndex error =
     (let errorId = new_error_id receipt actionIndex in
      bnd (lift_res (mapReceiptEntryActionArgs receipt)) (\<lambda>mapped.
      thn (error_create \<lparr> ee_id = errorId,
             ee_reason = e_errorText E error @ '' ('' @ e_errorStack E error @ '')'',
             ee_status = None, ee_timestamp = Some (re_included_in_block_timestamp receipt),
             ee_receipt = Some mapped \<rparr>)
          (resolveErrorBackOff errorId)))"

definition resolveErrorsBackOff :: "unit service" where
  "resolveErrorsBackOff =
     bnd getOpenErrorsIds (\<lambda>openErrorIds.
     each_act (\<lambda>errorId. thn (resolveErrorBackOff errorId) (start (Timer 3000 ''sleep''))) openErrorIds)"

text \<open>What \<open>resolveError\<close> does with the error it has read.\<close>

definition resolve_found :: "env \<Rightarrow> string \<Rightarrow> error_entity \<Rightarrow> unit service" where
  "resolve_found E i error =
     (case ee_receipt error of
        None \<Rightarrow> ret ()
      | Some receipt \<Rightarrow>
          if ee_status error = Some ES_Resolved then ret ()
          else
            thn (each_act (\<lambda>a. attempt (run_entry_action E receipt a)
                   (\<lambda>err. throw (ThrownError (e_errorText E err)))) (entry_actions receipt))
           (thn (setErrorStatus i ES_Resolved)
                clearCache))"

definition resolveError :: "env \<Rightarrow> string \<Rightarrow> unit service" where
  "resolveError E i =
     bnd (getErrorById i) (\<lambda>found.
     bnd (need ''metadata'' found) (\<lambda>error.
     resolve_found E i error))"

section \<open>IndexerProcessorService\<close>

text \<open>The loop of \<open>handleReceipt\<close> from the action with the given index on.\<close>

fun handle_receipt_loop ::
    "env \<Rightarrow> receipt_entry \<Rightarrow> nat \<Rightarrow> receipt_entry_action list \<Rightarrow> bool service" where
  "handle_receipt_loop E receipt i [] =
     thn (saveState INDEXER_PROCESSOR_HANDLER_STATE_ID HS_Success None)
    (thn clearCache
         (ret True))"
| "handle_receipt_loop E receipt i (a # as) =
     bnd (attempt (thn (run_entry_action E receipt a) (ret None)) (\<lambda>error. ret (Some error))) (\<lambda>r.
     case r of
       None \<Rightarrow> handle_receipt_loop E receipt (Suc i) as
     | Some error \<Rightarrow>
         thn (handleNewError E receipt i error)
        (thn (saveState INDEXER_PROCESSOR_HANDLER_STATE_ID HS_Failed None)
             (ret False)))"

definition handleReceipt :: "env \<Rightarrow> receipt_entry \<Rightarrow> bool service" where
  "handleReceipt E receipt =
     thn (saveState INDEXER_PROCESSOR_HANDLER_STATE_ID HS_InProgress
            (Some (re_included_in_block_hash receipt, re_included_in_block_timestamp receipt)))
         (handle_receipt_loop E receipt 0 (entry_actions receipt))"

section \<open>RedisService\<close>

text \<open>
  One round of \<open>handleStream\<close>. It yields the arguments \<open>maxItems\<close> and \<open>interval\<close> of the round that
  the timer starts: the code passes the interval in the place of \<open>maxItems\<close>. An entry of the
  stream is its id and the text of its value.
\<close>

definition handleStream ::
    "env \<Rightarrow> string \<Rightarrow> (jsval \<Rightarrow> unit service) \<Rightarrow> int \<Rightarrow> nat \<Rightarrow> (int \<times> nat) service" where
  "handleStream E key handler maxItems interval =
     bnd (call (RedisRead key maxItems) w_stream) (\<lambda>results.
     thn (case results of
            None \<Rightarrow> ret ()
          | Some entries \<Rightarrow>
              each_act (\<lambda>(i, value).
                  thn (handler (parseJSON (e_json_parse E) value))
                      (do_call (RedisDel key i))) entries)
    (thn (start (Timer interval key))
         (ret (int interval, 3000))))"

text \<open>
  The first round of the processor; the entries are used at their declared type, as which
  \<open>as_receipt\<close> reads a JSON value. \<open>resolveErrorsBackOff\<close>, which \<open>init\<close> starts and does not await,
  runs beside the rounds.
\<close>

definition indexer_init :: "env \<Rightarrow> (jsval \<Rightarrow> exn + receipt_entry) \<Rightarrow> (int \<times> nat) service" where
  "indexer_init E as_receipt =
     handleStream E ''receipts''
       (\<lambda>v. bnd (lift_res (as_receipt v)) (\<lambda>receipt. bnd (handleReceipt E receipt) (\<lambda>_. ret ()))) 10 3000"


section \<open>A receipt is handled or recorded\<close>

text \<open>
  \<open>entry_handled E W receipt tr actions t\<close>: from the history \<open>tr\<close> the actions of the receipt are
  handled, one after the other, up to the history \<open>t\<close>.
\<close>

inductive entry_handled ::
    "env \<Rightarrow> world \<Rightarrow> receipt_entry \<Rightarrow> call list \<Rightarrow> receipt_entry_action list \<Rightarrow> call list \<Rightarrow> bool"
  for E W receipt
where
  entry_none: "entry_handled E W receipt tr [] tr"
| entry_next: "run_entry_action E receipt a W tr = (Inr (), t) \<Longrightarrow> entry_handled E W receipt t as t'
    \<Longrightarrow> entry_handled E W receipt tr (a # as) t'"

inductive_simps entry_handled_Nil [simp]: "entry_handled E W receipt tr [] t"
inductive_simps entry_handled_Cons: "entry_handled E W receipt tr (a # as) t"

lemma entry_handled_each_act:
  "each_act (\<lambda>a. attempt (run_entry_action E receipt a) (\<lambda>err. throw (f err))) as W tr = (Inr (), t) \<longleftrightarrow>
     entry_handled E W receipt tr as t"
  by (induction as arbitrary: tr)
    (auto simp: thn_Inr_iff attempt_Inr_iff ret_iff throw_iff entry_handled_Cons)

lemma handle_receipt_loop_step:
  assumes "run_entry_action E receipt a W tr = (x, t0)"
  shows "handle_receipt_loop E receipt i (a # as) W tr =
     (case x of
        Inr u \<Rightarrow> handle_receipt_loop E receipt (Suc i) as
      | Inl e \<Rightarrow> thn (handleNewError E receipt i e)
          (thn (saveState INDEXER_PROCESSOR_HANDLER_STATE_ID HS_Failed None) (ret False))) W t0"
  using assms by (simp add: run_bnd run_attempt run_thn run_ret split: sum.split)

lemma handle_receipt_loop_True:
  "handle_receipt_loop E receipt i as W tr = (Inr True, t) \<longleftrightarrow>
     (\<exists>t1 t2. entry_handled E W receipt tr as t1
        \<and> saveState INDEXER_PROCESSOR_HANDLER_STATE_ID HS_Success None W t1 = (Inr (), t2)
        \<and> clearCache W t2 = (Inr (), t))"
proof (induction as arbitrary: i tr)
  case Nil
  show ?case by (simp add: thn_Inr_iff ret_iff)
next
  case (Cons a as)
  obtain x t0 where a: "run_entry_action E receipt a W tr = (x, t0)" by fastforce
  then show ?case
    unfolding handle_receipt_loop_step [OF a] entry_handled_Cons
    by (cases x) (simp_all add: Cons.IH thn_Inr_iff ret_iff)
qed

lemma handle_receipt_loop_False:
  assumes "handle_receipt_loop E receipt i as W tr = (Inr False, t)"
  shows "\<exists>before a rest t1 t2 t3 e. as = before @ a # rest \<and> entry_handled E W receipt tr before t1
     \<and> run_entry_action E receipt a W t1 = (Inl e, t2)
     \<and> handleNewError E receipt (i + length before) e W t2 = (Inr (), t3)
     \<and> saveState INDEXER_PROCESSOR_HANDLER_STATE_ID HS_Failed None W t3 = (Inr (), t)"
  using assms
proof (induction as arbitrary: i tr)
  case Nil
  then show ?case by (simp add: thn_Inr_iff ret_iff)
next
  case (Cons a as)
  obtain x t0 where a: "run_entry_action E receipt a W tr = (x, t0)" by fastforce
  note step = Cons.prems [unfolded handle_receipt_loop_step [OF a]]
  show ?case
  proof (cases x)
    case (Inl e)
    then have "\<exists>t3. handleNewError E receipt i e W t0 = (Inr (), t3)
      \<and> saveState INDEXER_PROCESSOR_HANDLER_STATE_ID HS_Failed None W t3 = (Inr (), t)"
      using step by (simp add: thn_Inr_iff ret_iff)
    then show ?thesis
      using a Inl by (intro exI [of _ "[]"]) auto
  next
    case (Inr u)
    then have "handle_receipt_loop E receipt (Suc i) as W t0 = (Inr False, t)"
      using step by simp
    from Cons.IH [OF this] obtain before b rest t1 t2 t3 e where
      "as = before @ b # rest" "entry_handled E W receipt t0 before t1"
      "run_entry_action E receipt b W t1 = (Inl e, t2)"
      "handleNewError E receipt (Suc i + length before) e W t2 = (Inr (), t3)"
      "saveState INDEXER_PROCESSOR_HANDLER_STATE_ID HS_Failed None W t3 = (Inr (), t)" by blast
    moreover have "entry_handled E W receipt tr (a # before) t1"
      using a Inr \<open>entry_handled E W receipt t0 before t1\<close> by (auto intro: entry_next)
    ultimately show ?thesis by (intro exI [of _ "a # before"]) auto
  qed
qed

text \<open>
  C4. A receipt is handled or recorded. When \<open>handleReceipt\<close> returns, the state has been set to in
  progress, and either every action of the receipt has been handled in order, the state is set to
  success, the cache is cleared and the answer is true; or the actions before one have been
  handled, that one failed, its failure was stored as a new error under the receipt's id and the
  action's number and its retries were started, the state is set to failed, and the answer is
  false.
\<close>

theorem handleReceipt_outcome:
  assumes "handleReceipt E receipt W tr = (Inr handled, t)"
  shows "\<exists>t0. saveState INDEXER_PROCESSOR_HANDLER_STATE_ID HS_InProgress
          (Some (re_included_in_block_hash receipt, re_included_in_block_timestamp receipt)) W tr
        = (Inr (), t0)
     \<and> (if handled then
          \<exists>t1 t2. entry_handled E W receipt t0 (entry_actions receipt) t1
            \<and> saveState INDEXER_PROCESSOR_HANDLER_STATE_ID HS_Success None W t1 = (Inr (), t2)
            \<and> clearCache W t2 = (Inr (), t)
        else
          \<exists>before a rest t1 t2 t3 e. entry_actions receipt = before @ a # rest
            \<and> entry_handled E W receipt t0 before t1
            \<and> run_entry_action E receipt a W t1 = (Inl e, t2)
            \<and> handleNewError E receipt (length before) e W t2 = (Inr (), t3)
            \<and> saveState INDEXER_PROCESSOR_HANDLER_STATE_ID HS_Failed None W t3 = (Inr (), t))"
proof -
  obtain t0 where s: "saveState INDEXER_PROCESSOR_HANDLER_STATE_ID HS_InProgress
          (Some (re_included_in_block_hash receipt, re_included_in_block_timestamp receipt)) W tr
        = (Inr (), t0)"
    and l: "handle_receipt_loop E receipt 0 (entry_actions receipt) W t0 = (Inr handled, t)"
    using assms unfolding handleReceipt_def thn_Inr_iff by auto
  show ?thesis
  proof (cases handled)
    case True
    then show ?thesis using s l handle_receipt_loop_True by (intro exI [of _ t0]) auto
  next
    case False
    with l have "handle_receipt_loop E receipt 0 (entry_actions receipt) W t0 = (Inr False, t)" by simp
    from handle_receipt_loop_False [OF this] s False show ?thesis by (intro exI [of _ t0]) simp
  qed
qed

definition entry_world :: world where
  "entry_world = quiet_world\<lparr>w_ids := \<lambda>tr. Inr (Some [])\<rparr>"

definition sample_entry :: receipt_entry where
  "sample_entry = \<lparr> re_receipt_id = ''r'', re_included_in_block_hash = ''b'',
     re_included_in_block_timestamp = ''1'', re_predecessor_account_id = ''alice.near'',
     re_originated_from_transaction_hash = ''h'',
     re_action = Some (''alice.near'', [\<lparr> rea_index_in_action_receipt = 0,
       rea_action_kind = AK_Transfer, rea_args = JNull,
       rea_receipt_predecessor_account_id = ''alice.near'',
       rea_receipt_receiver_account_id = ''d'' \<rparr>]) \<rparr>"

definition no_retry :: env where
  "no_retry = sample_env\<lparr>e_retryStatus := \<lambda>m. m\<rparr>"

lemma entry_world_simps:
  "w_ack entry_world tr = Inr ()" "w_ids entry_world tr = Inr (Some [])"
  "w_txStatus entry_world tr = Inl (Rejection ''tx'')"
  by (simp_all add: entry_world_def quiet_world_def)

lemma sample_entry_fails: "\<exists>t. handleReceipt no_retry sample_entry entry_world [] = (Inr False, t)"
proof -
  have "run_entry_action no_retry sample_entry a entry_world tr
      = (Inl (Rejection ''tx''), tr @ [Rpc (R_txStatus ''h'' ''alice.near'')])" for a tr
    by (simp add: run_entry_action_def getTransactionAction_def getTxStatusRetry_def no_retry_def
        getTxStatus_def run_simps entry_world_simps sample_entry_def)
  then have "\<exists>t. handle_receipt_loop no_retry sample_entry 0 (entry_actions sample_entry) entry_world tr
      = (Inr False, t)" for tr
    by (simp add: entry_actions_def sample_entry_def run_simps saveState_def handleNewError_def
        mapReceiptEntryActionArgs_def error_create_def errorDynamo_create_def errorDynamo_save_def
        addOpenErrorId_def resolveErrorBackOff_def entry_world_simps Let_def)
  then show ?thesis by (simp add: handleReceipt_def saveState_def run_simps entry_world_simps)
qed

theorem handleReceipt_outcome_witness:
  "\<exists>t1 t2 t3 e. run_entry_action no_retry sample_entry (hd (entry_actions sample_entry)) entry_world t1
       = (Inl e, t2)
     \<and> handleNewError no_retry sample_entry 0 e entry_world t2 = (Inr (), t3)"
proof -
  obtain t where "handleReceipt no_retry sample_entry entry_world [] = (Inr False, t)"
    using sample_entry_fails by blast
  from handleReceipt_outcome [OF this] obtain before a rest t1 t2 t3 e where
    "entry_actions sample_entry = before @ a # rest"
    "run_entry_action no_retry sample_entry a entry_world t1 = (Inl e, t2)"
    "handleNewError no_retry sample_entry (length before) e entry_world t2 = (Inr (), t3)" by auto
  moreover from this(1) have "before = []" "a = hd (entry_actions sample_entry)"
    by (auto simp: sample_entry_def entry_actions_def Cons_eq_append_conv)
  ultimately show ?thesis by auto
qed

section \<open>A resolved error\<close>

definition error_settled :: "env \<Rightarrow> world \<Rightarrow> string \<Rightarrow> error_entity \<Rightarrow> call list \<Rightarrow> call list \<Rightarrow> bool" where
  "error_settled E W i error t0 t \<longleftrightarrow>
     (case ee_receipt error of
        None \<Rightarrow> t = t0
      | Some receipt \<Rightarrow>
          if ee_status error = Some ES_Resolved then t = t0
          else \<exists>t1 t2. entry_handled E W receipt t0 (entry_actions receipt) t1
            \<and> setErrorStatus i ES_Resolved W t1 = (Inr (), t2)
            \<and> clearCache W t2 = (Inr (), t))"

lemma resolve_found_iff: "resolve_found E i error W t0 = (Inr (), t) \<longleftrightarrow> error_settled E W i error t0 t"
  by (simp add: resolve_found_def error_settled_def ret_iff thn_Inr_iff entry_handled_each_act
      split: option.split)

text \<open>
  An error is resolved only when its receipt has been handled. \<open>resolveError\<close> returns exactly
  when the error exists and either it is skipped, having no receipt or being resolved already, and
  nothing but the read is done, or every action of its receipt is handled in order, the status is
  set to resolved in both stores and the cache is cleared.
\<close>

theorem resolveError_spec:
  "resolveError E i W tr = (Inr (), t) \<longleftrightarrow>
     (\<exists>error t0. getErrorById i W tr = (Inr (Some error), t0) \<and> error_settled E W i error t0 t)"
proof -
  have "resolveError E i W tr = (Inr (), t) \<longleftrightarrow>
     (\<exists>error t0. getErrorById i W tr = (Inr (Some error), t0)
        \<and> resolve_found E i error W t0 = (Inr (), t))"
    by (auto simp: resolveError_def bnd_Inr_iff need_iff)
  then show ?thesis unfolding resolve_found_iff .
qed

section \<open>The stream\<close>

text \<open>The entries are handled in order, and every one is deleted after it has been handled.\<close>

inductive drained ::
    "env \<Rightarrow> world \<Rightarrow> string \<Rightarrow> (jsval \<Rightarrow> unit service) \<Rightarrow> call list \<Rightarrow> (string \<times> string) list \<Rightarrow>
     call list \<Rightarrow> bool"
  for E W key handler
where
  drained_none: "drained E W key handler tr [] tr"
| drained_next: "handler (parseJSON (e_json_parse E) value) W tr = (Inr (), t)
    \<Longrightarrow> w_ack W (t @ [RedisDel key i]) = Inr ()
    \<Longrightarrow> drained E W key handler (t @ [RedisDel key i]) entries t'
    \<Longrightarrow> drained E W key handler tr ((i, value) # entries) t'"

inductive_simps drained_Nil [simp]: "drained E W key handler tr [] t"

definition stream_step :: "env \<Rightarrow> string \<Rightarrow> (jsval \<Rightarrow> unit service) \<Rightarrow> string \<times> string \<Rightarrow> unit service" where
  "stream_step E key handler = (\<lambda>(i, value).
     thn (handler (parseJSON (e_json_parse E) value)) (do_call (RedisDel key i)))"

lemma stream_steps_outcome:
  "\<exists>r t. each_act (stream_step E key handler) entries W tr = (r, t)
     \<and> (case r of
          Inr u \<Rightarrow> drained E W key handler tr entries t
        | Inl e \<Rightarrow> \<exists>before x rest t1. entries = before @ x # rest \<and> drained E W key handler tr before t1
            \<and> stream_step E key handler x W t1 = (Inl e, t))"
proof (induction entries arbitrary: tr)
  case Nil
  show ?case by (simp add: run_ret)
next
  case (Cons x xs)
  obtain i v where x: "x = (i, v)" by (cases x)
  obtain r1 t1 where s: "stream_step E key handler x W tr = (r1, t1)" by fastforce
  show ?case
  proof (cases r1)
    case (Inl e)
    then have "\<exists>before x' rest t2. x # xs = before @ x' # rest \<and> drained E W key handler tr before t2
        \<and> stream_step E key handler x' W t2 = (Inl e, t1)"
      using s drained_none by (metis append_Nil)
    moreover have "each_act (stream_step E key handler) (x # xs) W tr = (Inl e, t1)"
      using s Inl by (simp add: run_thn)
    ultimately show ?thesis by (intro exI [of _ "Inl e"] exI [of _ t1]) simp
  next
    case (Inr u)
    then have h: "\<exists>t0. handler (parseJSON (e_json_parse E) v) W tr = (Inr (), t0)
        \<and> t1 = t0 @ [RedisDel key i] \<and> w_ack W t1 = Inr ()"
      using s unfolding x stream_step_def by (auto simp: thn_Inr_iff)
    have next1: "drained E W key handler tr (x # ys) t'" if "drained E W key handler t1 ys t'" for ys t'
      using h that unfolding x by (auto intro: drained_next)
    obtain r t where "each_act (stream_step E key handler) xs W t1 = (r, t)"
      and o: "case r of
          Inr u \<Rightarrow> drained E W key handler t1 xs t
        | Inl e \<Rightarrow> \<exists>before x rest t2. xs = before @ x # rest \<and> drained E W key handler t1 before t2
            \<and> stream_step E key handler x W t2 = (Inl e, t)"
      using Cons.IH by blast
    then have run: "each_act (stream_step E key handler) (x # xs) W tr = (r, t)"
      using s Inr by (simp add: run_thn)
    show ?thesis
    proof (cases r)
      case (Inr u')
      then show ?thesis using run o next1 by auto
    next
      case (Inl e)
      then obtain before y rest t2 where "xs = before @ y # rest" "drained E W key handler t1 before t2"
        "stream_step E key handler y W t2 = (Inl e, t)" using o by auto
      then have "\<exists>before x' rest t2. x # xs = before @ x' # rest \<and> drained E W key handler tr before t2
          \<and> stream_step E key handler x' W t2 = (Inl e, t)"
        using next1 by (metis append_Cons)
      then show ?thesis using run Inl by (intro exI [of _ r] exI [of _ t]) simp
    qed
  qed
qed

text \<open>
  C28. A round of the stream. When the read delivers entries, they are handled in the order of the
  stream and each is deleted after its handler has returned. If all are, the next round is started
  after the interval, and reads at most \<open>interval\<close> entries. Otherwise the round fails with the first
  failure, of a handler or of a deletion: that entry and all later ones are still in the stream
  unless the deletion took effect, and no further round is started.
\<close>

theorem handleStream_spec:
  assumes "w_stream W (tr @ [RedisRead key maxItems]) = Inr (Some entries)"
  shows "\<exists>r t. handleStream E key handler maxItems interval W tr = (r, t)
     \<and> (case r of
          Inr nxt \<Rightarrow> nxt = (int interval, 3000)
            \<and> (\<exists>t1. drained E W key handler (tr @ [RedisRead key maxItems]) entries t1
                 \<and> t = t1 @ [Timer interval key])
        | Inl e \<Rightarrow> \<exists>before i value rest t1. entries = before @ (i, value) # rest
            \<and> drained E W key handler (tr @ [RedisRead key maxItems]) before t1
            \<and> (handler (parseJSON (e_json_parse E) value) W t1 = (Inl e, t)
               \<or> (\<exists>t2. handler (parseJSON (e_json_parse E) value) W t1 = (Inr (), t2)
                    \<and> t = t2 @ [RedisDel key i] \<and> w_ack W t = Inl e)))"
proof -
  obtain r t where run: "each_act (stream_step E key handler) entries W (tr @ [RedisRead key maxItems])
      = (r, t)"
    and o: "case r of
          Inr u \<Rightarrow> drained E W key handler (tr @ [RedisRead key maxItems]) entries t
        | Inl e \<Rightarrow> \<exists>before x rest t1. entries = before @ x # rest
            \<and> drained E W key handler (tr @ [RedisRead key maxItems]) before t1
            \<and> stream_step E key handler x W t1 = (Inl e, t)"
    using stream_steps_outcome by blast
  have stream: "handleStream E key handler maxItems interval W tr =
      (case r of Inl e \<Rightarrow> (Inl e, t) | Inr u \<Rightarrow> (Inr (int interval, 3000), t @ [Timer interval key]))"
    using assms run by (simp add: handleStream_def run_simps stream_step_def split: sum.split)
  show ?thesis
  proof (cases r)
    case (Inr u)
    then show ?thesis using stream o by auto
  next
    case (Inl e)
    then obtain before i v rest t1 where "entries = before @ (i, v) # rest"
      "drained E W key handler (tr @ [RedisRead key maxItems]) before t1"
      "stream_step E key handler (i, v) W t1 = (Inl e, t)" using o by auto
    moreover from this(3) have "handler (parseJSON (e_json_parse E) v) W t1 = (Inl e, t)
        \<or> (\<exists>t2. handler (parseJSON (e_json_parse E) v) W t1 = (Inr (), t2)
             \<and> t = t2 @ [RedisDel key i] \<and> w_ack W t = Inl e)"
      unfolding stream_step_def by (auto simp: thn_Inl_iff)
    ultimately have "\<exists>before i value rest t1. entries = before @ (i, value) # rest
            \<and> drained E W key handler (tr @ [RedisRead key maxItems]) before t1
            \<and> (handler (parseJSON (e_json_parse E) value) W t1 = (Inl e, t)
               \<or> (\<exists>t2. handler (parseJSON (e_json_parse E) value) W t1 = (Inr (), t2)
                    \<and> t = t2 @ [RedisDel key i] \<and> w_ack W t = Inl e))" by blast
    then show ?thesis using stream Inl by (intro exI [of _ "Inl e"] exI [of _ t]) simp
  qed
qed

definition stream_world :: world where
  "stream_world = quiet_world\<lparr>w_stream := \<lambda>tr. Inr (Some [(''1-0'', [])])\<rparr>"

theorem handleStream_spec_witness:
  "\<exists>t1. handleStream sample_env ''receipts'' (\<lambda>v. ret ()) 10 3000 stream_world []
      = (Inr (3000, 3000), t1 @ [Timer 3000 ''receipts''])
     \<and> drained sample_env stream_world ''receipts'' (\<lambda>v. ret ()) [RedisRead ''receipts'' 10]
         [(''1-0'', [])] t1"
proof -
  have world: "w_stream stream_world tr = Inr (Some [(''1-0'', [])])" "w_ack stream_world tr = Inr ()" for tr
    by (simp_all add: stream_world_def quiet_world_def)
  have run: "handleStream sample_env ''receipts'' (\<lambda>v. ret ()) 10 3000 stream_world []
      = (Inr (3000, 3000), [RedisRead ''receipts'' 10, RedisDel ''receipts'' ''1-0'', Timer 3000 ''receipts''])"
    by (simp add: handleStream_def run_simps world)
  have "w_stream stream_world ([] @ [RedisRead ''receipts'' 10]) = Inr (Some [(''1-0'', [])])"
    by (simp add: world)
  from handleStream_spec [OF this, of sample_env "\<lambda>v. ret ()" 3000] show ?thesis
    unfolding run by auto
qed

end
