(* ===== verification/Store_Effects.thy ===== *)
theory Store_Effects
  imports Prelude
begin

text \<open>
  Effectful code over stores the model keeps itself. Where a service owns its tables (drafts and
  their comments), an asynchronous method is a function from the state to a result, an exception or
  a value, and the next state. Every awaited request is one \<open>access\<close>, which the state's oracle may
  reject, before or after the request has taken effect; a theorem over all states holds for every
  pattern of failures.

  The rules at the end say how a relation between the states before and after, or an invariant,
  follows from those of the parts.
\<close>

section \<open>The state\<close>

datatype fault = Lost exn | Unacknowledged exn

text \<open>
  \<open>st_tick\<close> counts the requests; the oracles are indexed with it: the failure of a request, the
  clock in milliseconds and the ids the database makes.
\<close>

record store =
  st_tick :: nat
  st_faults :: "nat \<Rightarrow> fault option"
  st_now :: "nat \<Rightarrow> int"
  st_newId :: "nat \<Rightarrow> string"

type_synonym ('s, 'a) op = "'s \<Rightarrow> (exn + 'a) \<times> 's"

section \<open>Combinators\<close>

definition op_ret :: "'a \<Rightarrow> ('s, 'a) op" where
  "op_ret x = (\<lambda>s. (Inr x, s))"

definition op_fail :: "exn \<Rightarrow> ('s, 'a) op" where
  "op_fail e = (\<lambda>s. (Inl e, s))"

definition op_bind :: "('s, 'a) op \<Rightarrow> ('a \<Rightarrow> ('s, 'b) op) \<Rightarrow> ('s, 'b) op" where
  "op_bind m f = (\<lambda>s. case m s of (r, s') \<Rightarrow>
     (case r of Inl e \<Rightarrow> (Inl e, s') | Inr x \<Rightarrow> f x s'))"

definition op_then :: "('s, 'a) op \<Rightarrow> ('s, 'b) op \<Rightarrow> ('s, 'b) op" where
  "op_then m k = op_bind m (\<lambda>_. k)"

definition op_try :: "('s, 'a) op \<Rightarrow> (exn \<Rightarrow> ('s, 'a) op) \<Rightarrow> ('s, 'a) op" where
  "op_try m h = (\<lambda>s. case m s of (r, s') \<Rightarrow>
     (case r of Inl e \<Rightarrow> h e s' | Inr x \<Rightarrow> (Inr x, s')))"

definition op_when :: "bool \<Rightarrow> ('s, unit) op \<Rightarrow> ('s, unit) op" where
  "op_when b m = (if b then m else op_ret ())"

definition op_lift :: "exn + 'a \<Rightarrow> ('s, 'a) op" where
  "op_lift r = (\<lambda>s. (r, s))"

definition op_need :: "exn \<Rightarrow> 'a option \<Rightarrow> ('s, 'a) op" where
  "op_need e v = (case v of None \<Rightarrow> op_fail e | Some x \<Rightarrow> op_ret x)"

text \<open>Reading and changing a state without a request.\<close>

definition op_get :: "('s \<Rightarrow> 'a) \<Rightarrow> ('s, 'a) op" where
  "op_get g = (\<lambda>s. (Inr (g s), s))"

definition op_put :: "('s \<Rightarrow> 's) \<Rightarrow> ('s, unit) op" where
  "op_put f = (\<lambda>s. (Inr (), f s))"

definition tick :: "'b store_scheme \<Rightarrow> 'b store_scheme" where
  "tick s = s\<lparr>st_tick := Suc (st_tick s)\<rparr>"

definition access :: "('b store_scheme, 'a) op \<Rightarrow> ('b store_scheme, 'a) op" where
  "access m = (\<lambda>s.
     case st_faults s (st_tick s) of
       None \<Rightarrow> m (tick s)
     | Some (Lost e) \<Rightarrow> (Inl e, tick s)
     | Some (Unacknowledged e) \<Rightarrow> (Inl e, snd (m (tick s))))"

text \<open>\<open>Date.now()\<close>.\<close>

definition op_now :: "('b store_scheme, int) op" where
  "op_now = op_get (\<lambda>s. st_now s (st_tick s))"

lemma run_op [run_simps]:
  "op_ret x s = (Inr x, s)"
  "op_fail e s = (Inl e, s)"
  "op_bind m f s = (case m s of (r, s') \<Rightarrow>
     (case r of Inl e \<Rightarrow> (Inl e, s') | Inr x \<Rightarrow> f x s'))"
  "op_then m k s = (case m s of (r, s') \<Rightarrow>
     (case r of Inl e \<Rightarrow> (Inl e, s') | Inr x \<Rightarrow> k s'))"
  "op_try m h s = (case m s of (r, s') \<Rightarrow>
     (case r of Inl e \<Rightarrow> h e s' | Inr x \<Rightarrow> (Inr x, s')))"
  "op_when b m' s = (if b then m' s else (Inr (), s))"
  "op_lift r s = (r, s)"
  "op_need e v s = ((case v of None \<Rightarrow> Inl e | Some x \<Rightarrow> Inr x), s)"
  "op_get g s = (Inr (g s), s)"
  "op_put h' s = (Inr (), h' s)"
  "op_now s2 = (Inr (st_now s2 (st_tick s2)), s2)"
  by (simp_all add: op_ret_def op_fail_def op_bind_def op_then_def op_try_def op_when_def op_lift_def
      op_need_def op_get_def op_put_def op_now_def split: option.split)

text \<open>A state in which no request fails.\<close>

definition calm :: "'b store_scheme \<Rightarrow> bool" where
  "calm s \<longleftrightarrow> (\<forall>n. st_faults s n = None)"

lemma run_access [run_simps]: "calm s \<Longrightarrow> access m s = m (tick s)"
  by (simp add: calm_def access_def)

lemma calm_tick [simp]: "calm (tick s) = calm s"
  by (simp add: calm_def tick_def)

lemma access_Inr:
  "access m s = (Inr x, s') \<Longrightarrow> m (tick s) = (Inr x, s')"
  by (auto simp: access_def split: option.splits fault.splits)

section \<open>Outcomes\<close>

lemma op_bind_Inr_iff:
  "op_bind m f s = (Inr y, t) \<longleftrightarrow> (\<exists>x s'. m s = (Inr x, s') \<and> f x s' = (Inr y, t))"
  by (auto simp: op_bind_def split: prod.splits sum.splits)

lemma op_then_Inr_iff:
  "op_then m k s = (Inr y, t) \<longleftrightarrow> (\<exists>x s'. m s = (Inr x, s') \<and> k s' = (Inr y, t))"
  by (simp add: op_then_def op_bind_Inr_iff)

lemma op_ret_iff: "op_ret x s = (r, t) \<longleftrightarrow> r = Inr x \<and> t = s"
  by (auto simp: op_ret_def)

lemma op_fail_iff: "op_fail e s = (r, t) \<longleftrightarrow> r = Inl e \<and> t = s"
  by (auto simp: op_fail_def)

lemma op_lift_iff: "op_lift r' s = (r, t) \<longleftrightarrow> r = r' \<and> t = s"
  by (auto simp: op_lift_def)

lemma op_need_iff: "op_need e v s = (Inr x, t) \<longleftrightarrow> v = Some x \<and> t = s"
  by (auto simp: op_need_def op_ret_def op_fail_def split: option.splits)

lemmas op_iffs = op_bind_Inr_iff op_then_Inr_iff op_ret_iff op_fail_iff op_lift_iff op_need_iff

section \<open>Relations between the states before and after\<close>

text \<open>
  A relation that is reflexive and transitive holds between the states before and after a
  computation if it holds for each of its changes.
\<close>

locale state_relation =
  fixes R :: "'b store_scheme \<Rightarrow> 'b store_scheme \<Rightarrow> bool"
  assumes R_refl: "R s s" and R_trans: "R s t \<Longrightarrow> R t u \<Longrightarrow> R s u" and R_tick: "R s (tick s)"
begin

definition stays :: "('b store_scheme, 'a) op \<Rightarrow> bool" where
  "stays m \<longleftrightarrow> (\<forall>s. R s (snd (m s)))"

lemma staysD: "stays m \<Longrightarrow> m s = (r, t) \<Longrightarrow> R s t"
  unfolding stays_def by (metis snd_conv)

lemma stays_ret: "stays (op_ret x)" "stays (op_fail e)" "stays (op_lift r)" "stays (op_need e v)"
  "stays (op_get g)" "stays op_now"
  by (simp_all add: stays_def run_simps R_refl)

lemma stays_put: "(\<And>s. R s (f s)) \<Longrightarrow> stays (op_put f)"
  by (simp add: stays_def run_simps)

lemma stays_bind:
  assumes "stays m" and "\<And>x. stays (f x)"
  shows "stays (op_bind m f)"
  unfolding stays_def
proof
  fix s
  obtain r t where m: "m s = (r, t)" by fastforce
  show "R s (snd (op_bind m f s))"
  proof (cases r)
    case (Inl e)
    then show ?thesis using staysD [OF assms(1) m] m by (simp add: run_simps)
  next
    case (Inr x)
    have "R t (snd (f x t))" using assms(2) by (simp add: stays_def)
    then show ?thesis
      using R_trans [OF staysD [OF assms(1) m]] m Inr by (simp add: run_simps)
  qed
qed

lemma stays_then: "stays m \<Longrightarrow> stays k \<Longrightarrow> stays (op_then m k)"
  unfolding op_then_def by (rule stays_bind)

lemma stays_try:
  assumes "stays m" and "\<And>e. stays (h e)"
  shows "stays (op_try m h)"
  unfolding stays_def
proof
  fix s
  obtain r t where m: "m s = (r, t)" by fastforce
  show "R s (snd (op_try m h s))"
  proof (cases r)
    case (Inr x)
    then show ?thesis using staysD [OF assms(1) m] m by (simp add: run_simps)
  next
    case (Inl e)
    have "R t (snd (h e t))" using assms(2) by (simp add: stays_def)
    then show ?thesis
      using R_trans [OF staysD [OF assms(1) m]] m Inl by (simp add: run_simps)
  qed
qed

lemma stays_when: "stays m \<Longrightarrow> stays (op_when b m)"
  by (simp add: stays_def run_simps R_refl)

lemma stays_if: "(b \<Longrightarrow> stays m) \<Longrightarrow> (\<not> b \<Longrightarrow> stays k) \<Longrightarrow> stays (if b then m else k)"
  by simp

lemma stays_case_option:
  "stays m \<Longrightarrow> (\<And>x. v = Some x \<Longrightarrow> stays (f x)) \<Longrightarrow> stays (case v of None \<Rightarrow> m | Some x \<Rightarrow> f x)"
  by (cases v) simp_all

lemma stays_access: "stays m \<Longrightarrow> stays (access m)"
proof -
  assume m: "stays m"
  have "R s (snd (m (tick s)))" for s
    using R_trans [OF R_tick, of "tick s"] m unfolding stays_def by (metis R_tick R_trans)
  then show "stays (access m)"
    using R_tick by (auto simp: stays_def access_def split: option.split fault.split)
qed

lemmas stays_intros = stays_ret stays_bind stays_then stays_try stays_when stays_if
  stays_case_option stays_access

end

end
