(* ===== verification/Draft_Proposals.thy ===== *)
theory Draft_Proposals
  imports Store_Effects Permissions
begin

text \<open>
  \<open>libs/draft-proposal/src\<close>: the drafts of proposals, kept in MongoDB
  (\<open>MongoDraftProposalService\<close>) and in DynamoDB (\<open>DynamoDraftProposalService\<close>), behind
  \<open>DraftProposalServiceFacade\<close>, which changes both. The two databases, the search index and the
  DAOs that the API and the table deliver are components of the state.

  The stores follow what TypeORM and DynamoDB document: \<open>save\<close> of an entity without an id makes one,
  \<open>save\<close> sets the time of the last update, \<open>update\<close> changes the given columns of an existing
  document and nothing otherwise.
\<close>

section \<open>Data\<close>

datatype draft_state = DS_Open | DS_Closed

record draft =
  df_id :: string
  df_daoId :: string
  df_proposalId :: "string option"
  df_proposer :: string
  df_title :: string
  df_description :: string
  df_kind :: jsval
  df_type :: proposal_type
  df_state :: draft_state
  df_viewAccounts :: "string list"
  df_saveAccounts :: "string list"
  df_replies :: int
  df_createdAt :: int
  df_updatedAt :: int

record draft_history =
  dh_draftProposalId :: string
  dh_daoId :: string
  dh_proposer :: string
  dh_title :: string
  dh_description :: string
  dh_kind :: jsval
  dh_type :: proposal_type
  dh_date :: int

record update_draft =
  ud_title :: string
  ud_description :: string
  ud_type :: proposal_type
  ud_kind :: jsval

record create_draft = update_draft +
  cd_daoId :: string

text \<open>
  The item of a draft: the columns and, nested in it, the earlier versions with the time at which
  they were replaced. A version is a copy of the whole item, its own history included.
\<close>

record draft_columns = draft +
  dc_isArchived :: "bool option"
  dc_updateTimestamp :: "int option"

datatype draft_item =
  Draft_Item (item_columns: draft_columns) (item_history: "(draft_item \<times> int) list")

section \<open>The state\<close>

text \<open>What the index holds of a draft.\<close>

record draft_doc =
  dd_id :: string
  dd_name :: string
  dd_description :: string
  dd_accounts :: string
  dd_daoId :: string
  dd_proposalId :: "string option"
  dd_type :: proposal_type
  dd_state :: draft_state
  dd_replies :: int
  dd_viewAccounts :: "string list"
  dd_createTimestamp :: int

text \<open>The items are found by the DAO's id and the id in the item's key.\<close>

record draft_store = store +
  ds_drafts :: "string \<Rightarrow> draft option"
  ds_histories :: "draft_history list"
  ds_items :: "string \<Rightarrow> string \<Rightarrow> draft_item option"
  ds_apiDao :: "string \<Rightarrow> dao option"
  ds_dynDao :: "string \<Rightarrow> dao option"
  ds_flags :: "string \<Rightarrow> bool"
  ds_index :: "string \<Rightarrow> draft_doc option"

section \<open>Requests\<close>

definition find_draft :: "string \<Rightarrow> ('b draft_store_scheme, draft option) op" where
  "find_draft i = access (op_get (\<lambda>s. ds_drafts s i))"

definition put_draft :: "draft \<Rightarrow> 'b draft_store_scheme \<Rightarrow> 'b draft_store_scheme" where
  "put_draft d s = s\<lparr>ds_drafts := (ds_drafts s)(df_id d \<mapsto> d)\<rparr>"

definition insert_draft :: "draft \<Rightarrow> ('b draft_store_scheme, draft) op" where
  "insert_draft d = access (\<lambda>s.
     let now = st_now s (st_tick s);
         d' = d\<lparr>df_id := st_newId s (st_tick s), df_createdAt := now, df_updatedAt := now\<rparr>
     in (Inr d', put_draft d' s))"

definition save_draft :: "draft \<Rightarrow> ('b draft_store_scheme, unit) op" where
  "save_draft d = access (\<lambda>s. (Inr (), put_draft (d\<lparr>df_updatedAt := st_now s (st_tick s)\<rparr>) s))"

definition update_draft_at :: "string \<Rightarrow> (draft \<Rightarrow> draft) \<Rightarrow> ('b draft_store_scheme, unit) op" where
  "update_draft_at i f = access (op_put (\<lambda>s.
     s\<lparr>ds_drafts := (ds_drafts s)(i := map_option f (ds_drafts s i))\<rparr>))"

definition delete_draft :: "string \<Rightarrow> ('b draft_store_scheme, unit) op" where
  "delete_draft i = access (op_put (\<lambda>s. s\<lparr>ds_drafts := (ds_drafts s)(i := None)\<rparr>))"

definition save_history :: "draft_history \<Rightarrow> ('b draft_store_scheme, unit) op" where
  "save_history h = access (op_put (\<lambda>s. s\<lparr>ds_histories := ds_histories s @ [h]\<rparr>))"

definition delete_history :: "string \<Rightarrow> ('b draft_store_scheme, unit) op" where
  "delete_history i = access (op_put (\<lambda>s.
     s\<lparr>ds_histories := filter (\<lambda>h. dh_draftProposalId h \<noteq> i) (ds_histories s)\<rparr>))"

text \<open>\<open>getItemByType\<close>: a rejection reads as a missing item.\<close>

definition get_draft_item :: "string \<Rightarrow> string \<Rightarrow> ('b draft_store_scheme, draft_item option) op" where
  "get_draft_item daoId i = op_try (access (op_get (\<lambda>s. ds_items s daoId i))) (\<lambda>e. op_ret None)"

definition put_item :: "string \<Rightarrow> string \<Rightarrow> draft_item \<Rightarrow> 'b draft_store_scheme \<Rightarrow> 'b draft_store_scheme" where
  "put_item daoId i x s = s\<lparr>ds_items := (ds_items s)(daoId := (ds_items s daoId)(i \<mapsto> x))\<rparr>"

text \<open>
  \<open>saveItem\<close> puts an item under a new key and updates the columns of an existing one; the items
  saved here give every column.
\<close>

definition save_draft_item ::
    "string \<Rightarrow> string \<Rightarrow> draft_item \<Rightarrow> ('b draft_store_scheme, unit) op" where
  "save_draft_item daoId i x =
     op_bind (access (\<lambda>s. if ds_items s daoId i = None then (Inr True, put_item daoId i x s)
                          else (Inr False, s))) (\<lambda>created.
     op_when (\<not> created) (access (op_put (put_item daoId i x))))"

definition api_dao :: "string \<Rightarrow> ('b draft_store_scheme, dao) op" where
  "api_dao daoId = access (\<lambda>s. case ds_apiDao s daoId of
     None \<Rightarrow> (Inl (Rejection ''404''), s) | Some d \<Rightarrow> (Inr d, s))"

definition dyn_dao :: "string \<Rightarrow> ('b draft_store_scheme, dao option) op" where
  "dyn_dao daoId = op_try (access (op_get (\<lambda>s. ds_dynDao s daoId))) (\<lambda>e. op_ret None)"

definition check_flag :: "string \<Rightarrow> ('b draft_store_scheme, bool) op" where
  "check_flag flag = access (op_get (\<lambda>s. ds_flags s flag))"

text \<open>\<open>getAccountPermissions(dao.policy.roles, type, accountId)\<close>.\<close>

definition dao_permissions :: "dao \<Rightarrow> proposal_type option \<Rightarrow> string \<Rightarrow> exn + proposal_permissions" where
  "dao_permissions d type accountId =
     (case dao_policy d of
        None \<Rightarrow> Inl (TypeError ''roles'')
      | Some p \<Rightarrow>
          (case pol_roles p of
             None \<Rightarrow> if accountId = [] then Inr no_permissions else Inl (TypeError ''find'')
           | Some roles \<Rightarrow> getAccountPermissions roles type (Some accountId) None))"

section \<open>Indexing\<close>

definition mapDraftProposalToOpensearchDto :: "draft \<Rightarrow> draft_doc" where
  "mapDraftProposalToOpensearchDto d =
     \<lparr> dd_id = df_id d, dd_name = df_title d, dd_description = df_description d,
       dd_accounts = df_proposer d, dd_daoId = df_daoId d, dd_proposalId = df_proposalId d,
       dd_type = df_type d, dd_state = df_state d, dd_replies = df_replies d,
       dd_viewAccounts = df_viewAccounts d, dd_createTimestamp = df_createdAt d \<rparr>"

definition put_doc :: "draft_doc \<Rightarrow> 'b draft_store_scheme \<Rightarrow> 'b draft_store_scheme" where
  "put_doc doc s = s\<lparr>ds_index := (ds_index s)(dd_id doc \<mapsto> doc)\<rparr>"

text \<open>
  \<open>OpensearchService.index\<close>: a rejected lookup counts as not found, a rejected update reaches the
  caller, a rejected insertion does not.
\<close>

definition index_doc :: "draft_doc \<Rightarrow> ('b draft_store_scheme, unit) op" where
  "index_doc doc =
     op_bind (op_try (access (op_get (\<lambda>s. ds_index s (dd_id doc) \<noteq> None))) (\<lambda>e. op_ret False)) (\<lambda>found.
     if found then access (op_put (put_doc doc))
     else op_try (access (op_put (put_doc doc))) (\<lambda>e. op_ret ()))"

text \<open>
  \<open>OpensearchService.remove\<close> looks for the document in an index named \<open>DraftProposal\<close>; the indices
  have lower-case names, so nothing is found and nothing is removed.
\<close>

definition index_remove :: "string \<Rightarrow> ('b draft_store_scheme, unit) op" where
  "index_remove i =
     op_bind (access (op_get (\<lambda>s. False))) (\<lambda>found.
     op_when found (access (op_put (\<lambda>s. s\<lparr>ds_index := (ds_index s)(i := None)\<rparr>))))"

definition indexDraftProposal :: "string \<Rightarrow> draft option \<Rightarrow> ('b draft_store_scheme, unit) op" where
  "indexDraftProposal i d =
     op_bind (check_flag ''open-search-draft-proposal-indexing'') (\<lambda>flag.
     if \<not> flag then op_ret ()
     else case d of
            None \<Rightarrow> index_remove i
          | Some d \<Rightarrow> index_doc (mapDraftProposalToOpensearchDto d))"

section \<open>MongoDraftProposalService\<close>

fun proposal_type_str :: "proposal_type \<Rightarrow> string" where
  "proposal_type_str ChangeConfig = ''ChangeConfig''"
| "proposal_type_str ChangePolicy = ''ChangePolicy''"
| "proposal_type_str AddMemberToRole = ''AddMemberToRole''"
| "proposal_type_str RemoveMemberFromRole = ''RemoveMemberFromRole''"
| "proposal_type_str FunctionCall = ''FunctionCall''"
| "proposal_type_str UpgradeSelf = ''UpgradeSelf''"
| "proposal_type_str UpgradeRemote = ''UpgradeRemote''"
| "proposal_type_str Transfer = ''Transfer''"
| "proposal_type_str SetStakingContract = ''SetStakingContract''"
| "proposal_type_str AddBounty = ''AddBounty''"
| "proposal_type_str BountyDone = ''BountyDone''"
| "proposal_type_str Vote = ''Vote''"

definition no_draft :: "string \<Rightarrow> exn" where
  "no_draft i = HttpError 404 (''Draft proposal '' @ i @ '' does not exist'')"

definition not_proposer :: exn where
  "not_proposer = HttpError 403 ''Account is not the proposer or council''"

definition draft_closed :: exn where
  "draft_closed = HttpError 400 ''Draft proposal is closed''"

definition cannot_add :: "proposal_type \<Rightarrow> exn" where
  "cannot_add type = HttpError 403
     (''Account does not have permissions to add '' @ proposal_type_str type @ '' proposals'')"

text \<open>The answer of \<open>delete\<close>: the id; its flag is always true.\<close>

definition new_draft :: "string \<Rightarrow> create_draft \<Rightarrow> draft" where
  "new_draft accountId dto =
     \<lparr> df_id = [], df_daoId = cd_daoId dto, df_proposalId = None, df_proposer = accountId,
       df_title = ud_title dto, df_description = ud_description dto, df_kind = ud_kind dto,
       df_type = ud_type dto, df_state = DS_Open, df_viewAccounts = [], df_saveAccounts = [],
       df_replies = 0, df_createdAt = 0, df_updatedAt = 0 \<rparr>"

definition mongo_create :: "string \<Rightarrow> create_draft \<Rightarrow> ('b draft_store_scheme, string) op" where
  "mongo_create accountId dto =
     op_bind (insert_draft (new_draft accountId dto)) (\<lambda>draftProposal.
     op_then (indexDraftProposal (df_id draftProposal) (Some draftProposal))
             (op_ret (df_id draftProposal)))"

definition mongo_update ::
    "string \<Rightarrow> string \<Rightarrow> update_draft \<Rightarrow> ('b draft_store_scheme, string) op" where
  "mongo_update i accountId dto =
     op_bind (find_draft i) (\<lambda>found.
     op_bind (op_need (no_draft i) found) (\<lambda>d.
     op_bind (api_dao (df_daoId d)) (\<lambda>dao.
     op_bind (op_lift (dao_permissions dao (Some (ud_type dto)) accountId)) (\<lambda>accountPermissions.
     if df_proposer d \<noteq> accountId \<and> \<not> isCouncil accountPermissions then op_fail not_proposer
     else
       op_then (save_history
         \<lparr> dh_draftProposalId = df_id d, dh_daoId = df_daoId d, dh_proposer = df_proposer d,
           dh_title = df_title d, dh_description = df_description d, dh_kind = df_kind d,
           dh_type = df_type d, dh_date = df_updatedAt d \<rparr>)
      (op_then (save_draft (d\<lparr>df_title := ud_title dto, df_description := ud_description dto,
         df_kind := ud_kind dto, df_type := ud_type dto\<rparr>))
      (op_then (indexDraftProposal (df_id d) (Some d))
               (op_ret (df_id d))))))))"

definition mongo_delete :: "string \<Rightarrow> string \<Rightarrow> ('b draft_store_scheme, string) op" where
  "mongo_delete i accountId =
     op_bind (find_draft i) (\<lambda>found.
     op_bind (op_need (no_draft i) found) (\<lambda>d.
     op_bind (api_dao (df_daoId d)) (\<lambda>dao.
     op_bind (op_lift (dao_permissions dao (Some (df_type d)) accountId)) (\<lambda>accountPermissions.
     if df_proposer d \<noteq> accountId \<and> \<not> isCouncil accountPermissions then op_fail not_proposer
     else if df_state d = DS_Closed then op_fail draft_closed
     else
       op_then (delete_history (df_id d))
      (op_then (delete_draft (df_id d))
               (op_ret i))))))"

definition mongo_view :: "string \<Rightarrow> string \<Rightarrow> ('b draft_store_scheme, bool) op" where
  "mongo_view i accountId =
     op_bind (find_draft i) (\<lambda>found.
     op_bind (op_need (no_draft i) found) (\<lambda>d.
     op_then (op_when (accountId \<notin> set (df_viewAccounts d))
         (update_draft_at (df_id d) (df_viewAccounts_update (\<lambda>_. df_viewAccounts d @ [accountId]))))
       (op_ret True)))"

definition mongo_save :: "string \<Rightarrow> string \<Rightarrow> ('b draft_store_scheme, bool) op" where
  "mongo_save i accountId =
     op_bind (find_draft i) (\<lambda>found.
     op_bind (op_need (no_draft i) found) (\<lambda>d.
     op_then (op_when (accountId \<notin> set (df_saveAccounts d))
         (update_draft_at (df_id d) (df_saveAccounts_update (\<lambda>_. df_saveAccounts d @ [accountId]))))
       (op_ret True)))"

definition mongo_removeSave :: "string \<Rightarrow> string \<Rightarrow> ('b draft_store_scheme, bool) op" where
  "mongo_removeSave i accountId =
     op_bind (find_draft i) (\<lambda>found.
     op_bind (op_need (no_draft i) found) (\<lambda>d.
     op_then (op_when (accountId \<in> set (df_saveAccounts d))
         (update_draft_at (df_id d)
           (df_saveAccounts_update (\<lambda>_. filter (\<lambda>a. a \<noteq> accountId) (df_saveAccounts d)))))
       (op_ret True)))"

definition mongo_close :: "string \<Rightarrow> string \<Rightarrow> string \<Rightarrow> ('b draft_store_scheme, bool) op" where
  "mongo_close i accountId proposalId =
     op_bind (find_draft i) (\<lambda>found.
     op_bind (op_need (no_draft i) found) (\<lambda>d.
     op_bind (api_dao (df_daoId d)) (\<lambda>dao.
     op_bind (op_lift (dao_permissions dao (Some (df_type d)) accountId)) (\<lambda>accountPermissions.
     if \<not> canAdd accountPermissions then op_fail (cannot_add (df_type d))
     else
       op_then (op_when (df_state d \<noteq> DS_Closed)
           (update_draft_at (df_id d) (\<lambda>x. x\<lparr>df_state := DS_Closed, df_proposalId := Some proposalId\<rparr>)))
         (op_ret True)))))"

definition mongo_closeInternal :: "string \<Rightarrow> string \<Rightarrow> ('b draft_store_scheme, unit) op" where
  "mongo_closeInternal i proposalId =
     op_bind (find_draft i) (\<lambda>found.
     case found of
       None \<Rightarrow> op_ret ()
     | Some d \<Rightarrow> update_draft_at (df_id d)
         (\<lambda>x. x\<lparr>df_state := DS_Closed, df_proposalId := Some proposalId\<rparr>))"

definition updateReplies :: "string \<Rightarrow> int \<Rightarrow> ('b draft_store_scheme, unit) op" where
  "updateReplies i replies = update_draft_at i (\<lambda>x. x\<lparr>df_replies := replies\<rparr>)"

section \<open>DynamoDraftProposalService\<close>

definition map_columns :: "(draft_columns \<Rightarrow> draft_columns) \<Rightarrow> draft_item \<Rightarrow> draft_item" where
  "map_columns f x = Draft_Item (f (item_columns x)) (item_history x)"

definition dynamo_create ::
    "string \<Rightarrow> create_draft \<Rightarrow> string \<Rightarrow> ('b draft_store_scheme, string) op" where
  "dynamo_create accountId dto draftId =
     op_bind op_now (\<lambda>now.
     op_then (save_draft_item (cd_daoId dto) draftId (Draft_Item
         (draft.extend ((new_draft accountId dto)\<lparr>df_id := draftId, df_createdAt := now, df_updatedAt := now\<rparr>)
            \<lparr> dc_isArchived = None, dc_updateTimestamp = None \<rparr>) []))
       (op_ret draftId))"

definition dynamo_draft :: "string \<Rightarrow> string \<Rightarrow> ('b draft_store_scheme, draft_item) op" where
  "dynamo_draft daoId i = op_bind (get_draft_item daoId i) (op_need (no_draft i))"

definition dynamo_permissions ::
    "string \<Rightarrow> proposal_type \<Rightarrow> string \<Rightarrow> ('b draft_store_scheme, proposal_permissions) op" where
  "dynamo_permissions daoId type accountId =
     op_bind (dyn_dao daoId) (\<lambda>found.
     op_bind (op_need (TypeError ''policy'') found) (\<lambda>dao.
     op_lift (dao_permissions dao (Some type) accountId)))"

definition dynamo_update ::
    "string \<Rightarrow> string \<Rightarrow> string \<Rightarrow> update_draft \<Rightarrow> ('b draft_store_scheme, string) op" where
  "dynamo_update daoId i accountId dto =
     op_bind (dynamo_draft daoId i) (\<lambda>x.
     op_bind (dynamo_permissions daoId (ud_type dto) accountId) (\<lambda>accountPermissions.
     if df_proposer (item_columns x) \<noteq> accountId \<and> \<not> isCouncil accountPermissions
     then op_fail not_proposer
     else
       op_bind op_now (\<lambda>now.
       op_then (save_draft_item daoId i (Draft_Item
           ((item_columns x)\<lparr>df_title := ud_title dto, df_description := ud_description dto,
              df_kind := ud_kind dto, df_type := ud_type dto\<rparr>)
           (item_history x @ [(x, now)])))
         (op_ret (df_id (item_columns x))))))"

definition dynamo_delete :: "string \<Rightarrow> string \<Rightarrow> string \<Rightarrow> ('b draft_store_scheme, string) op" where
  "dynamo_delete daoId i accountId =
     op_bind (dynamo_draft daoId i) (\<lambda>x.
     op_bind (dynamo_permissions daoId (df_type (item_columns x)) accountId) (\<lambda>accountPermissions.
     if df_proposer (item_columns x) \<noteq> accountId \<and> \<not> isCouncil accountPermissions
     then op_fail not_proposer
     else if df_state (item_columns x) = DS_Closed then op_fail draft_closed
     else
       op_bind op_now (\<lambda>now.
       op_then (save_draft_item daoId i (map_columns
           (\<lambda>c. c\<lparr>dc_updateTimestamp := Some now, dc_isArchived := Some True\<rparr>) x))
         (op_ret i))))"

definition dynamo_view :: "string \<Rightarrow> string \<Rightarrow> string \<Rightarrow> ('b draft_store_scheme, bool) op" where
  "dynamo_view daoId i accountId =
     op_bind (dynamo_draft daoId i) (\<lambda>x.
     op_then (op_when (accountId \<notin> set (df_viewAccounts (item_columns x)))
         (save_draft_item daoId i (map_columns
           (\<lambda>c. c\<lparr>df_viewAccounts := df_viewAccounts c @ [accountId]\<rparr>) x)))
       (op_ret True))"

definition dynamo_save :: "string \<Rightarrow> string \<Rightarrow> string \<Rightarrow> ('b draft_store_scheme, bool) op" where
  "dynamo_save daoId i accountId =
     op_bind (dynamo_draft daoId i) (\<lambda>x.
     op_then (op_when (accountId \<notin> set (df_saveAccounts (item_columns x)))
         (op_bind op_now (\<lambda>now. save_draft_item daoId i (map_columns
           (\<lambda>c. c\<lparr>df_saveAccounts := df_saveAccounts c @ [accountId],
              dc_updateTimestamp := Some now\<rparr>) x))))
       (op_ret True))"

definition dynamo_removeSave :: "string \<Rightarrow> string \<Rightarrow> string \<Rightarrow> ('b draft_store_scheme, bool) op" where
  "dynamo_removeSave daoId i accountId =
     op_bind (dynamo_draft daoId i) (\<lambda>x.
     op_then (op_when (accountId \<in> set (df_saveAccounts (item_columns x)))
         (op_bind op_now (\<lambda>now. save_draft_item daoId i (map_columns
           (\<lambda>c. c\<lparr>df_saveAccounts := filter (\<lambda>a. a \<noteq> accountId) (df_saveAccounts c),
              dc_updateTimestamp := Some now\<rparr>) x))))
       (op_ret True))"

definition close_item :: "int \<Rightarrow> string \<Rightarrow> draft_item \<Rightarrow> draft_item" where
  "close_item now proposalId = map_columns (\<lambda>c. c\<lparr>df_state := DS_Closed,
     df_proposalId := Some proposalId, dc_updateTimestamp := Some now\<rparr>)"

definition dynamo_close ::
    "string \<Rightarrow> string \<Rightarrow> string \<Rightarrow> string \<Rightarrow> ('b draft_store_scheme, bool) op" where
  "dynamo_close daoId i accountId proposalId =
     op_bind (dynamo_draft daoId i) (\<lambda>x.
     op_bind (dynamo_permissions daoId (df_type (item_columns x)) accountId) (\<lambda>accountPermissions.
     if \<not> canAdd accountPermissions then op_fail (cannot_add (df_type (item_columns x)))
     else
       op_then (op_when (df_state (item_columns x) \<noteq> DS_Closed)
           (op_bind op_now (\<lambda>now. save_draft_item daoId i (close_item now proposalId x))))
         (op_ret True)))"

definition dynamo_closeInternal ::
    "string \<Rightarrow> string \<Rightarrow> string \<Rightarrow> ('b draft_store_scheme, unit) op" where
  "dynamo_closeInternal daoId i proposalId =
     op_bind (get_draft_item daoId i) (\<lambda>found.
     case found of
       None \<Rightarrow> op_ret ()
     | Some x \<Rightarrow> op_bind op_now (\<lambda>now. save_draft_item daoId i (close_item now proposalId x)))"

section \<open>DraftProposalServiceFacade\<close>

definition draft_create :: "string \<Rightarrow> create_draft \<Rightarrow> ('b draft_store_scheme, string) op" where
  "draft_create accountId dto =
     op_bind (mongo_create accountId dto) (\<lambda>draftId.
     op_then (dynamo_create accountId dto draftId) (op_ret draftId))"

definition draft_update ::
    "string \<Rightarrow> string \<Rightarrow> string \<Rightarrow> update_draft \<Rightarrow> ('b draft_store_scheme, string) op" where
  "draft_update daoId i accountId dto =
     op_then (dynamo_update daoId i accountId dto) (mongo_update i accountId dto)"

definition draft_delete :: "string \<Rightarrow> string \<Rightarrow> string \<Rightarrow> ('b draft_store_scheme, string) op" where
  "draft_delete daoId i accountId =
     op_then (dynamo_delete daoId i accountId) (mongo_delete i accountId)"

definition draft_view :: "string \<Rightarrow> string \<Rightarrow> string \<Rightarrow> ('b draft_store_scheme, bool) op" where
  "draft_view daoId i accountId = op_then (dynamo_view daoId i accountId) (mongo_view i accountId)"

definition draft_save :: "string \<Rightarrow> string \<Rightarrow> string \<Rightarrow> ('b draft_store_scheme, bool) op" where
  "draft_save daoId i accountId = op_then (dynamo_save daoId i accountId) (mongo_save i accountId)"

definition draft_removeSave :: "string \<Rightarrow> string \<Rightarrow> string \<Rightarrow> ('b draft_store_scheme, bool) op" where
  "draft_removeSave daoId i accountId =
     op_then (dynamo_removeSave daoId i accountId) (mongo_removeSave i accountId)"

definition draft_close ::
    "string \<Rightarrow> string \<Rightarrow> string \<Rightarrow> string \<Rightarrow> ('b draft_store_scheme, bool) op" where
  "draft_close daoId i accountId proposalId =
     op_then (dynamo_close daoId i accountId proposalId) (mongo_close i accountId proposalId)"

definition draft_closeInternal ::
    "string \<Rightarrow> string \<Rightarrow> string \<Rightarrow> ('b draft_store_scheme, unit) op" where
  "draft_closeInternal daoId i proposalId =
     op_then (dynamo_closeInternal daoId i proposalId) (mongo_closeInternal i proposalId)"

text \<open>The event of a proposal that was created from a draft (\<open>DraftController\<close>): MongoDB first.\<close>

definition onCloseDraftProposal ::
    "string \<Rightarrow> string \<Rightarrow> string \<Rightarrow> ('b draft_store_scheme, unit) op" where
  "onCloseDraftProposal daoId draftId proposalId =
     op_then (mongo_closeInternal draftId proposalId) (dynamo_closeInternal daoId draftId proposalId)"


section \<open>Reading a draft\<close>

record draft_response =
  rs_id :: string
  rs_daoId :: string
  rs_proposer :: string
  rs_proposalId :: "string option"
  rs_title :: string
  rs_type :: proposal_type
  rs_state :: draft_state
  rs_views :: nat
  rs_replies :: int
  rs_saves :: nat
  rs_createdAt :: int
  rs_updatedAt :: int
  rs_isRead :: bool
  rs_isSaved :: bool

definition castDraftProposalBasicResponse :: "draft \<Rightarrow> string option \<Rightarrow> draft_response" where
  "castDraftProposalBasicResponse d accountId =
     (let listed = (\<lambda>accounts. case accountId of
            None \<Rightarrow> False | Some a \<Rightarrow> a \<noteq> [] \<and> a \<in> set accounts) in
      \<lparr> rs_id = df_id d, rs_daoId = df_daoId d, rs_proposer = df_proposer d,
        rs_proposalId = df_proposalId d, rs_title = df_title d, rs_type = df_type d,
        rs_state = df_state d, rs_views = length (df_viewAccounts d), rs_replies = df_replies d,
        rs_saves = length (df_saveAccounts d), rs_createdAt = df_createdAt d,
        rs_updatedAt = df_updatedAt d, rs_isRead = listed (df_viewAccounts d),
        rs_isSaved = listed (df_saveAccounts d) \<rparr>)"

text \<open>
  A version in the answer, without its own id; that of the draft itself has no \<open>draftProposalId\<close>.
\<close>

record version_response =
  vr_draftProposalId :: "string option"
  vr_daoId :: string
  vr_proposer :: string
  vr_title :: string
  vr_description :: string
  vr_type :: proposal_type
  vr_kind :: jsval
  vr_updatedAt :: int

definition castDraftProposalHistoryResponse :: "draft_history \<Rightarrow> version_response" where
  "castDraftProposalHistoryResponse h =
     \<lparr> vr_draftProposalId = Some (dh_draftProposalId h), vr_daoId = dh_daoId h,
       vr_proposer = dh_proposer h, vr_title = dh_title h, vr_description = dh_description h,
       vr_type = dh_type h, vr_kind = dh_kind h, vr_updatedAt = dh_date h \<rparr>"

definition cast_current_version :: "draft \<Rightarrow> version_response" where
  "cast_current_version d =
     \<lparr> vr_draftProposalId = None, vr_daoId = df_daoId d, vr_proposer = df_proposer d,
       vr_title = df_title d, vr_description = df_description d, vr_type = df_type d,
       vr_kind = df_kind d, vr_updatedAt = df_updatedAt d \<rparr>"

record full_response = draft_response +
  rs_description :: string
  rs_kind :: jsval
  rs_history :: "version_response list"

definition castDraftProposalResponse ::
    "draft \<Rightarrow> draft_history list \<Rightarrow> string option \<Rightarrow> full_response" where
  "castDraftProposalResponse d history accountId =
     draft_response.extend (castDraftProposalBasicResponse d accountId)
       \<lparr> rs_description = df_description d, rs_kind = df_kind d,
         rs_history = cast_current_version d # map castDraftProposalHistoryResponse history \<rparr>"

text \<open>The versions are stored in the order of their creation and listed from the newest.\<close>

definition getOneById ::
    "string \<Rightarrow> string option \<Rightarrow> ('b draft_store_scheme, full_response) op" where
  "getOneById i accountId =
     op_bind (find_draft i) (\<lambda>found.
     op_bind (op_need (no_draft i) found) (\<lambda>d.
     op_bind (access (op_get (\<lambda>s. rev (filter (\<lambda>h. dh_draftProposalId h = df_id d) (ds_histories s)))))
       (\<lambda>history.
     op_ret (castDraftProposalResponse d history accountId))))"

section \<open>What the operations change\<close>

lemma run_tick [simp]:
  "ds_drafts (tick s) = ds_drafts s" "ds_items (tick s) = ds_items s" "ds_apiDao (tick s) = ds_apiDao s"
  "ds_dynDao (tick s) = ds_dynDao s" "ds_flags (tick s) = ds_flags s" "ds_index (tick s) = ds_index s"
  "ds_histories (tick s) = ds_histories s" "st_newId (tick s) = st_newId s"
  "st_faults (tick s) = st_faults s" "st_tick (tick s) = Suc (st_tick s)"
  by (simp_all add: tick_def)

text \<open>The parts of the state that no operation changes, and the indexing and the versions, which
  change no draft.\<close>

definition same_env :: "'b draft_store_scheme \<Rightarrow> 'b draft_store_scheme \<Rightarrow> bool" where
  "same_env s t \<longleftrightarrow> ds_apiDao t = ds_apiDao s \<and> ds_dynDao t = ds_dynDao s \<and> st_faults t = st_faults s
     \<and> st_newId t = st_newId s \<and> st_tick s \<le> st_tick t"

definition same_drafts :: "'b draft_store_scheme \<Rightarrow> 'b draft_store_scheme \<Rightarrow> bool" where
  "same_drafts s t \<longleftrightarrow> same_env s t \<and> ds_drafts t = ds_drafts s \<and> ds_items t = ds_items s"

interpretation drafts: state_relation same_drafts
  by unfold_locales (auto simp: same_drafts_def same_env_def)

interpretation fixed: state_relation same_env
  by unfold_locales (auto simp: same_env_def)

lemma drafts_index: "drafts.stays (indexDraftProposal i d)"
  unfolding indexDraftProposal_def index_doc_def index_remove_def check_flag_def
  by (intro drafts.stays_intros drafts.stays_put)
    (auto simp: same_drafts_def same_env_def put_doc_def split: option.split
      intro!: drafts.stays_intros drafts.stays_put)

lemma drafts_reads:
  "drafts.stays (find_draft i)" "drafts.stays (api_dao daoId)" "drafts.stays (dyn_dao daoId)"
  "drafts.stays (get_draft_item daoId i)" "drafts.stays (save_history h)" "drafts.stays (delete_history i)"
  unfolding find_draft_def api_dao_def dyn_dao_def get_draft_item_def save_history_def delete_history_def
  by (auto intro!: drafts.stays_intros drafts.stays_put simp: same_drafts_def same_env_def)
    (auto simp: drafts.stays_def same_drafts_def same_env_def split: option.split)


text \<open>
  What a method of the MongoDB service does to the drafts, under every pattern of failures: nothing,
  or one change of the draft it was called for, after its checks.
\<close>

definition may_change :: "dao \<Rightarrow> draft \<Rightarrow> proposal_type \<Rightarrow> string \<Rightarrow> bool" where
  "may_change dao d type accountId \<longleftrightarrow>
     (\<exists>p. dao_permissions dao (Some type) accountId = Inr p
        \<and> (df_proposer d = accountId \<or> isCouncil p))"

lemma find_draft_cases:
  assumes "find_draft i s = (r, t)"
  shows "same_drafts s t \<and> (\<forall>found. r = Inr found \<longrightarrow> found = ds_drafts s i)"
  using drafts.staysD [OF drafts_reads(1) assms] assms
  by (auto simp: find_draft_def run_op dest!: access_Inr)

lemma api_dao_cases:
  assumes "api_dao daoId s = (r, t)"
  shows "same_drafts s t \<and> (\<forall>d. r = Inr d \<longrightarrow> ds_apiDao s daoId = Some d)"
  using drafts.staysD [OF drafts_reads(2) assms] assms
  by (auto simp: api_dao_def dest!: access_Inr split: option.splits)

lemma save_draft_cases:
  assumes "save_draft d s = (r, t)"
  shows "same_env s t \<and> ds_items t = ds_items s
    \<and> (ds_drafts t = ds_drafts s
       \<or> (\<exists>now. ds_drafts t = (ds_drafts s)(df_id d \<mapsto> d\<lparr>df_updatedAt := now\<rparr>)))"
  using assms
  by (auto simp: save_draft_def access_def put_draft_def same_env_def split: option.splits fault.splits)

lemma update_draft_at_cases:
  assumes "update_draft_at i f s = (r, t)"
  shows "same_env s t \<and> ds_items t = ds_items s
    \<and> (ds_drafts t = ds_drafts s \<or> ds_drafts t = (ds_drafts s)(i := map_option f (ds_drafts s i)))"
  using assms
  by (auto simp: update_draft_at_def access_def op_put_def same_env_def split: option.splits fault.splits)

lemma delete_draft_cases:
  assumes "delete_draft i s = (r, t)"
  shows "same_env s t \<and> ds_items t = ds_items s
    \<and> (ds_drafts t = ds_drafts s \<or> ds_drafts t = (ds_drafts s)(i := None))"
  using assms
  by (auto simp: delete_draft_def access_def op_put_def same_env_def split: option.splits fault.splits)

text \<open>The common beginning of the methods, and that of the methods that check permissions.\<close>

lemma with_draft_cases:
  assumes "op_bind (find_draft i) (\<lambda>found. op_bind (op_need e found) k) s = (r, t)"
  obtains (unchanged) "same_drafts s t" "\<And>x. r \<noteq> Inr x"
  | (found) d s1 where "ds_drafts s i = Some d" "same_drafts s s1" "k d s1 = (r, t)"
proof -
  obtain r0 s1 where f: "find_draft i s = (r0, s1)" by fastforce
  note same = find_draft_cases [OF f, THEN conjunct1]
  show thesis
  proof (cases r0)
    case (Inl e')
    then have "r = Inl e'" "t = s1" using assms f by (simp_all add: run_op)
    with same unchanged show thesis by simp
  next
    case (Inr x)
    then have x: "x = ds_drafts s i" using find_draft_cases [OF f] by blast
    have run: "op_bind (op_need e x) k s1 = (r, t)" using assms f Inr by (simp add: run_op)
    show thesis
    proof (cases x)
      case None
      then have "r = Inl e" "t = s1" using run by (simp_all add: run_op)
      with same unchanged show thesis by simp
    next
      case (Some d)
      then have "k d s1 = (r, t)" using run by (simp add: run_op)
      with same x Some found [of d s1] show thesis by simp
    qed
  qed
qed

lemma with_permissions_cases:
  assumes "op_bind (api_dao daoId) (\<lambda>dao.
      op_bind (op_lift (dao_permissions dao type accountId)) k) s = (r, t)"
  obtains (unchanged) "same_drafts s t" "\<And>x. r \<noteq> Inr x"
  | (permitted) dao p s1 where "ds_apiDao s daoId = Some dao"
      "dao_permissions dao type accountId = Inr p" "same_drafts s s1" "k p s1 = (r, t)"
proof -
  obtain r0 s1 where f: "api_dao daoId s = (r0, s1)" by fastforce
  note same = api_dao_cases [OF f, THEN conjunct1]
  show thesis
  proof (cases r0)
    case (Inl e')
    then have "r = Inl e'" "t = s1" using assms f by (simp_all add: run_op)
    with same unchanged show thesis by simp
  next
    case (Inr d)
    then have d: "ds_apiDao s daoId = Some d" using api_dao_cases [OF f] by blast
    have run: "op_bind (op_lift (dao_permissions d type accountId)) k s1 = (r, t)"
      using assms f Inr by (simp add: run_op)
    show thesis
    proof (cases "dao_permissions d type accountId")
      case (Inl e)
      then have "r = Inl e" "t = s1" using run by (simp_all add: run_op)
      with same unchanged show thesis by simp
    next
      case (Inr p)
      then have "k p s1 = (r, t)" using run by (simp add: run_op)
      with same d Inr permitted [of d p s1] show thesis by simp
    qed
  qed
qed


text \<open>
  Documents are stored under their own id. \<open>draft_effect G i s t\<close>: between \<open>s\<close> and \<open>t\<close> nothing has
  changed but possibly the draft \<open>i\<close>, from \<open>d\<close> to \<open>d'\<close> (or to no draft) with \<open>G d d'\<close>.
\<close>

definition keyed :: "'b draft_store_scheme \<Rightarrow> bool" where
  "keyed s \<longleftrightarrow> (\<forall>i d. ds_drafts s i = Some d \<longrightarrow> df_id d = i)"

definition draft_effect ::
    "(draft \<Rightarrow> draft option \<Rightarrow> bool) \<Rightarrow> string \<Rightarrow> 'b draft_store_scheme \<Rightarrow> 'b draft_store_scheme \<Rightarrow> bool"
where
  "draft_effect G i s t \<longleftrightarrow> same_env s t \<and> ds_items t = ds_items s
     \<and> (ds_drafts t = ds_drafts s
        \<or> (\<exists>d d'. ds_drafts s i = Some d \<and> G d d' \<and> ds_drafts t = (ds_drafts s)(i := d')))"

lemma draft_effect_same: "same_drafts s t \<Longrightarrow> draft_effect G i s t"
  by (auto simp: draft_effect_def same_drafts_def)

lemma draft_effect_before: "same_drafts s u \<Longrightarrow> draft_effect G i u t \<Longrightarrow> draft_effect G i s t"
  by (auto simp: draft_effect_def same_drafts_def same_env_def)

lemma draft_effect_after: "draft_effect G i s u \<Longrightarrow> same_drafts u t \<Longrightarrow> draft_effect G i s t"
  by (auto simp: draft_effect_def same_drafts_def same_env_def)

lemma draft_effect_mono:
  "draft_effect G i s t \<Longrightarrow> (\<And>d d'. ds_drafts s i = Some d \<Longrightarrow> G d d' \<Longrightarrow> H d d') \<Longrightarrow> draft_effect H i s t"
  by (auto simp: draft_effect_def)

lemma keyed_same: "same_drafts s t \<Longrightarrow> keyed s \<Longrightarrow> keyed t"
  by (simp add: keyed_def same_drafts_def)

lemma keyed_effect:
  "draft_effect G i s t \<Longrightarrow> keyed s \<Longrightarrow> (\<And>d d'. G d (Some d') \<Longrightarrow> df_id d' = df_id d) \<Longrightarrow> keyed t"
  by (auto simp: draft_effect_def keyed_def split: if_splits)

lemma op_then_snd:
  assumes "op_then m k s = (r, t)"
  obtains (fails) e where "m s = (Inl e, t)"
  | (runs) x s1 where "m s = (Inr x, s1)" "k s1 = (r, t)"
  using assms by (auto simp: op_then_def op_bind_def split: prod.splits sum.splits)

lemma update_effect:
  assumes "op_then (op_when b (update_draft_at (df_id d) f)) (op_ret x) s = (r, t)"
    and "ds_drafts s i = Some d" and "keyed s"
  shows "draft_effect (\<lambda>d d'. b \<and> d' = Some (f d)) i s t"
proof -
  have i: "df_id d = i" using assms(2,3) by (simp add: keyed_def)
  show ?thesis
  proof (cases b)
    case False
    then show ?thesis
      using assms(1) by (auto simp: run_op draft_effect_def same_env_def)
  next
    case True
    obtain r0 u where u: "update_draft_at (df_id d) f s = (r0, u)" by fastforce
    then have "t = u" using assms(1) True by (auto simp: run_op split: sum.splits)
    then show ?thesis
      using update_draft_at_cases [OF u] True assms(2) by (auto simp: draft_effect_def i)
  qed
qed

lemma read_update_effect:
  assumes "op_bind (find_draft i) (\<lambda>found. op_bind (op_need e found) (\<lambda>d.
      op_then (op_when (b d) (update_draft_at (df_id d) (f d))) (op_ret x))) s = (r, t)"
    and "keyed s"
  shows "draft_effect (\<lambda>d d'. b d \<and> d' = Some (f d d)) i s t"
  using assms(1)
proof (cases rule: with_draft_cases)
  case unchanged
  then show ?thesis by (intro draft_effect_same)
next
  case (found d s1)
  have "ds_drafts s1 i = Some d" using found by (simp add: same_drafts_def)
  from draft_effect_before [OF found(2) update_effect [OF found(3) this keyed_same [OF found(2) assms(2)]]]
  show ?thesis using found(1) by (auto elim!: draft_effect_mono)
qed

lemma mongo_view_effect:
  "mongo_view i accountId s = (r, t) \<Longrightarrow> keyed s \<Longrightarrow>
     draft_effect (\<lambda>d d'. accountId \<notin> set (df_viewAccounts d)
       \<and> d' = Some (d\<lparr>df_viewAccounts := df_viewAccounts d @ [accountId]\<rparr>)) i s t"
  unfolding mongo_view_def
  by (erule (1) read_update_effect
    [where b = "\<lambda>d. accountId \<notin> set (df_viewAccounts d)"
       and f = "\<lambda>d. df_viewAccounts_update (\<lambda>_. df_viewAccounts d @ [accountId])"])

lemma mongo_save_effect:
  "mongo_save i accountId s = (r, t) \<Longrightarrow> keyed s \<Longrightarrow>
     draft_effect (\<lambda>d d'. accountId \<notin> set (df_saveAccounts d)
       \<and> d' = Some (d\<lparr>df_saveAccounts := df_saveAccounts d @ [accountId]\<rparr>)) i s t"
  unfolding mongo_save_def
  by (erule (1) read_update_effect
    [where b = "\<lambda>d. accountId \<notin> set (df_saveAccounts d)"
       and f = "\<lambda>d. df_saveAccounts_update (\<lambda>_. df_saveAccounts d @ [accountId])"])

lemma mongo_removeSave_effect:
  "mongo_removeSave i accountId s = (r, t) \<Longrightarrow> keyed s \<Longrightarrow>
     draft_effect (\<lambda>d d'. accountId \<in> set (df_saveAccounts d)
       \<and> d' = Some (d\<lparr>df_saveAccounts := filter (\<lambda>a. a \<noteq> accountId) (df_saveAccounts d)\<rparr>)) i s t"
  unfolding mongo_removeSave_def
  by (erule (1) read_update_effect
    [where b = "\<lambda>d. accountId \<in> set (df_saveAccounts d)"
       and f = "\<lambda>d. df_saveAccounts_update (\<lambda>_. filter (\<lambda>a. a \<noteq> accountId) (df_saveAccounts d))"])

lemma mongo_close_effect:
  assumes "mongo_close i accountId proposalId s = (r, t)" and "keyed s"
  shows "draft_effect (\<lambda>d d'. df_state d = DS_Open
      \<and> (\<exists>dao p. ds_apiDao s (df_daoId d) = Some dao
           \<and> dao_permissions dao (Some (df_type d)) accountId = Inr p \<and> canAdd p)
      \<and> d' = Some (d\<lparr>df_state := DS_Closed, df_proposalId := Some proposalId\<rparr>)) i s t"
  using assms(1) unfolding mongo_close_def
proof (cases rule: with_draft_cases)
  case unchanged
  then show ?thesis by (intro draft_effect_same)
next
  case (found d s1)
  from found(3) show ?thesis
  proof (cases rule: with_permissions_cases)
    case unchanged
    then show ?thesis using found(2) by (intro draft_effect_same) (auto intro: drafts.R_trans)
  next
    case (permitted dao p s2)
    have s2: "same_drafts s s2" using found(2) permitted(3) by (rule drafts.R_trans)
    have dao: "ds_apiDao s (df_daoId d) = Some dao"
      using permitted(1) found(2) by (simp add: same_drafts_def same_env_def)
    have d: "ds_drafts s2 i = Some d" using found(1) s2 by (simp add: same_drafts_def)
    show ?thesis
    proof (cases "canAdd p")
      case False
      then show ?thesis using permitted(4) s2 by (auto simp: run_op intro: draft_effect_same)
    next
      case True
      then have "op_then (op_when (df_state d \<noteq> DS_Closed)
           (update_draft_at (df_id d) (\<lambda>x. x\<lparr>df_state := DS_Closed, df_proposalId := Some proposalId\<rparr>)))
         (op_ret True) s2 = (r, t)" using permitted(4) by simp
      from draft_effect_before [OF s2 update_effect [OF this d keyed_same [OF s2 assms(2)]]]
      have "draft_effect (\<lambda>d0 d'. df_state d \<noteq> DS_Closed
        \<and> d' = Some (d0\<lparr>df_state := DS_Closed, df_proposalId := Some proposalId\<rparr>)) i s t" .
      then show ?thesis
      proof (rule draft_effect_mono)
        show "df_state d0 = DS_Open
            \<and> (\<exists>dao p. ds_apiDao s (df_daoId d0) = Some dao
                 \<and> dao_permissions dao (Some (df_type d0)) accountId = Inr p \<and> canAdd p)
            \<and> d' = Some (d0\<lparr>df_state := DS_Closed, df_proposalId := Some proposalId\<rparr>)"
          if "ds_drafts s i = Some d0"
            "df_state d \<noteq> DS_Closed \<and> d' = Some (d0\<lparr>df_state := DS_Closed, df_proposalId := Some proposalId\<rparr>)"
          for d0 d'
          using that found(1) dao permitted(2) True by (cases "df_state d") auto
      qed
    qed
  qed
qed

lemma mongo_closeInternal_effect:
  assumes "mongo_closeInternal i proposalId s = (r, t)" and "keyed s"
  shows "draft_effect (\<lambda>d d'. d' = Some (d\<lparr>df_state := DS_Closed, df_proposalId := Some proposalId\<rparr>)) i s t"
proof -
  obtain r0 s1 where f: "find_draft i s = (r0, s1)" by fastforce
  note same = find_draft_cases [OF f, THEN conjunct1]
  show ?thesis
  proof (cases "\<exists>d. r0 = Inr (Some d)")
    case False
    then have "t = s1"
      using assms(1) f by (auto simp: mongo_closeInternal_def run_op split: sum.splits option.splits)
    then show ?thesis using same by (simp add: draft_effect_same)
  next
    case True
    then obtain d where d: "r0 = Inr (Some d)" by blast
    then have "ds_drafts s i = Some d" using find_draft_cases [OF f] by simp
    then have i: "df_id d = i" using assms(2) by (simp add: keyed_def)
    have "update_draft_at i (\<lambda>x. x\<lparr>df_state := DS_Closed, df_proposalId := Some proposalId\<rparr>) s1 = (r, t)"
      using assms(1) f d i by (simp add: mongo_closeInternal_def run_op)
    from update_draft_at_cases [OF this] same \<open>ds_drafts s i = Some d\<close> show ?thesis
      by (intro draft_effect_before [OF same]) (auto simp: draft_effect_def same_drafts_def)
  qed
qed


lemma with_draft_permissions_cases:
  assumes "op_bind (find_draft i) (\<lambda>found. op_bind (op_need e found) (\<lambda>d.
      op_bind (api_dao (df_daoId d)) (\<lambda>dao.
      op_bind (op_lift (dao_permissions dao (type d) accountId)) (k d)))) s = (r, t)"
  obtains (unchanged) "same_drafts s t"
  | (permitted) d dao p s1 where "ds_drafts s i = Some d" "ds_apiDao s (df_daoId d) = Some dao"
      "dao_permissions dao (type d) accountId = Inr p" "same_drafts s s1" "k d p s1 = (r, t)"
  using assms
proof (cases rule: with_draft_cases)
  case unchanged
  then show thesis using that(1) by simp
next
  case (found d s1)
  from found(3) show thesis
  proof (cases rule: with_permissions_cases)
    case unchanged
    then show thesis using found(2) that(1) drafts.R_trans by blast
  next
    case (permitted dao p s2)
    moreover have "ds_apiDao s (df_daoId d) = Some dao"
      using permitted(1) found(2) by (simp add: same_drafts_def same_env_def)
    ultimately show thesis
      using that(2) [OF found(1)] drafts.R_trans [OF found(2) permitted(3)] by blast
  qed
qed

lemma save_and_index_effect:
  assumes "op_then (save_history h) (op_then (save_draft d') (op_then (indexDraftProposal j x) (op_ret y))) s
      = (r, t)"
    and "ds_drafts s i = Some d" and "df_id d' = i"
  shows "draft_effect (\<lambda>_ d''. \<exists>now. d'' = Some (d'\<lparr>df_updatedAt := now\<rparr>)) i s t"
  using assms(1)
proof (cases rule: op_then_snd)
  case (fails e)
  from drafts.staysD [OF drafts_reads(5) fails] show ?thesis by (rule draft_effect_same)
next
  case (runs u s1)
  have s1: "same_drafts s s1" using drafts.staysD [OF drafts_reads(5) runs(1)] .
  have effect: "draft_effect (\<lambda>_ d''. \<exists>now. d'' = Some (d'\<lparr>df_updatedAt := now\<rparr>)) i s1 s2"
    if "save_draft d' s1 = (r', s2)" for r' s2
    using save_draft_cases [OF that] assms(2,3) s1
    by (auto simp: draft_effect_def same_drafts_def)
  from runs(2) show ?thesis
  proof (cases rule: op_then_snd)
    case (fails e)
    then show ?thesis using effect draft_effect_before [OF s1] by blast
  next
    case (runs u s2)
    from runs(2) have "same_drafts s2 t"
      by (rule drafts.staysD [OF drafts.stays_then [OF drafts_index drafts.stays_ret(1)]])
    then show ?thesis using effect [OF runs(1)] draft_effect_before [OF s1] draft_effect_after by blast
  qed
qed

definition with_update :: "update_draft \<Rightarrow> draft \<Rightarrow> draft" where
  "with_update dto d = d\<lparr>df_title := ud_title dto, df_description := ud_description dto,
     df_kind := ud_kind dto, df_type := ud_type dto\<rparr>"

lemma mongo_update_effect:
  assumes "mongo_update i accountId dto s = (r, t)" and "keyed s"
  shows "draft_effect (\<lambda>d d'. (\<exists>dao. ds_apiDao s (df_daoId d) = Some dao
        \<and> may_change dao d (ud_type dto) accountId)
      \<and> (\<exists>now. d' = Some ((with_update dto d)\<lparr>df_updatedAt := now\<rparr>))) i s t"
  using assms(1) unfolding mongo_update_def
proof (cases rule: with_draft_permissions_cases)
  case unchanged
  then show ?thesis by (rule draft_effect_same)
next
  case (permitted d dao p s1)
  have i: "df_id d = i" using permitted(1) assms(2) by (simp add: keyed_def)
  show ?thesis
  proof (cases "df_proposer d \<noteq> accountId \<and> \<not> isCouncil p")
    case True
    then have "t = s1" using permitted(5) by (simp add: run_op)
    then show ?thesis using permitted(4) by (simp add: draft_effect_same)
  next
    case False
    then have may: "may_change dao d (ud_type dto) accountId"
      using permitted(3) by (auto simp: may_change_def)
    have "ds_drafts s1 i = Some d" using permitted by (simp add: same_drafts_def)
    then have "draft_effect (\<lambda>_ d''. \<exists>now. d'' = Some ((with_update dto d)\<lparr>df_updatedAt := now\<rparr>)) i s1 t"
      using permitted(5) False i
      by (intro save_and_index_effect) (simp_all add: with_update_def)
    from draft_effect_before [OF permitted(4) this] show ?thesis
      by (rule draft_effect_mono) (use permitted(1,2) may in auto)
  qed
qed

lemma mongo_delete_effect:
  assumes "mongo_delete i accountId s = (r, t)" and "keyed s"
  shows "draft_effect (\<lambda>d d'. (\<exists>dao. ds_apiDao s (df_daoId d) = Some dao
        \<and> may_change dao d (df_type d) accountId) \<and> df_state d = DS_Open \<and> d' = None) i s t"
  using assms(1) unfolding mongo_delete_def
proof (cases rule: with_draft_permissions_cases)
  case unchanged
  then show ?thesis by (rule draft_effect_same)
next
  case (permitted d dao p s1)
  have i: "df_id d = i" using permitted(1) assms(2) by (simp add: keyed_def)
  show ?thesis
  proof (cases "(df_proposer d \<noteq> accountId \<and> \<not> isCouncil p) \<or> df_state d = DS_Closed")
    case True
    then have "t = s1" using permitted(5) by (auto simp: run_op split: if_splits)
    then show ?thesis using permitted(4) by (simp add: draft_effect_same)
  next
    case False
    then have may: "may_change dao d (df_type d) accountId" "df_state d = DS_Open"
      using permitted(3) by (auto simp: may_change_def intro: draft_state.exhaust [of "df_state d"])
    have "op_then (delete_history i) (op_then (delete_draft i) (op_ret i)) s1 = (r, t)"
      using permitted(5) False i by auto
    then have "draft_effect (\<lambda>_ d'. d' = None) i s1 t"
    proof (cases rule: op_then_snd)
      case (fails e)
      from drafts.staysD [OF drafts_reads(6) fails] show ?thesis by (rule draft_effect_same)
    next
      case (runs u s2)
      have s2: "same_drafts s1 s2" using drafts.staysD [OF drafts_reads(6) runs(1)] .
      obtain r' t' where d: "delete_draft i s2 = (r', t')" by fastforce
      then have "t = t'" using runs(2) by (auto simp: run_op split: sum.splits)
      then show ?thesis
        using delete_draft_cases [OF d] permitted(1,4) s2
        by (intro draft_effect_before [OF s2]) (auto simp: draft_effect_def same_drafts_def)
    qed
    from draft_effect_before [OF permitted(4) this] show ?thesis
      by (rule draft_effect_mono) (use permitted(1,2) may in auto)
  qed
qed


end
