(* ===== verification/Draft_Life.thy ===== *)
theory Draft_Life
  imports Draft_Proposals
begin

text \<open>
  The life of a draft under the requests of the API and the events of created proposals, over both
  stores of \<open>DraftProposalServiceFacade\<close>: what may happen to a draft under any failures, and how
  far the two stores agree.
\<close>

section \<open>The life of a draft\<close>

text \<open>The requests of the API and the event of a created proposal.\<close>

datatype draft_request =
    RQ_create string create_draft
  | RQ_update string string string update_draft
  | RQ_delete string string string
  | RQ_view string string string
  | RQ_save string string string
  | RQ_removeSave string string string
  | RQ_close string string string string
  | RQ_closeInternal string string string

definition ignore :: "('s, 'a) op \<Rightarrow> 's \<Rightarrow> 's" where
  "ignore m s = snd (m s)"

fun serve :: "draft_request \<Rightarrow> 'b draft_store_scheme \<Rightarrow> 'b draft_store_scheme" where
  "serve (RQ_create a dto) = ignore (draft_create a dto)"
| "serve (RQ_update daoId i a dto) = ignore (draft_update daoId i a dto)"
| "serve (RQ_delete daoId i a) = ignore (draft_delete daoId i a)"
| "serve (RQ_view daoId i a) = ignore (draft_view daoId i a)"
| "serve (RQ_save daoId i a) = ignore (draft_save daoId i a)"
| "serve (RQ_removeSave daoId i a) = ignore (draft_removeSave daoId i a)"
| "serve (RQ_close daoId i a proposalId) = ignore (draft_close daoId i a proposalId)"
| "serve (RQ_closeInternal daoId i proposalId) = ignore (onCloseDraftProposal daoId i proposalId)"

text \<open>The ids of the database are different, and those in use were made before.\<close>

definition ids_ok :: "'b draft_store_scheme \<Rightarrow> bool" where
  "ids_ok s \<longleftrightarrow> inj (st_newId s)
     \<and> (\<forall>i. ds_drafts s i \<noteq> None \<longrightarrow> i \<in> st_newId s ` {..st_tick s})"

text \<open>The services of DynamoDB change no document of MongoDB, and the other way round.\<close>

definition same_mongo :: "'b draft_store_scheme \<Rightarrow> 'b draft_store_scheme \<Rightarrow> bool" where
  "same_mongo s t \<longleftrightarrow> same_env s t \<and> ds_drafts t = ds_drafts s"

interpretation mongo: state_relation same_mongo
  by unfold_locales (auto simp: same_mongo_def same_env_def)

lemma mongo_of_drafts: "drafts.stays m \<Longrightarrow> mongo.stays m"
  by (auto simp: drafts.stays_def mongo.stays_def same_mongo_def same_drafts_def)

lemma mongo_save_item: "mongo.stays (save_draft_item daoId i x)"
  unfolding save_draft_item_def
  by (intro mongo.stays_intros mongo.stays_put)
    (auto simp: mongo.stays_def same_mongo_def same_env_def put_item_def)

lemma mongo_dynamo_parts:
  "mongo.stays (dynamo_draft daoId i)" "mongo.stays (dynamo_permissions daoId type a)"
  unfolding dynamo_draft_def dynamo_permissions_def
  by (intro mongo.stays_intros mongo_of_drafts drafts_reads)+

lemmas mongo_intros = mongo.stays_intros mongo_save_item mongo_dynamo_parts
  mongo_of_drafts [OF drafts_reads(4)]

lemma mongo_dynamo_ops:
  "mongo.stays (dynamo_create a dto i)" "mongo.stays (dynamo_update daoId i a up)"
  "mongo.stays (dynamo_delete daoId i a)" "mongo.stays (dynamo_view daoId i a)"
  "mongo.stays (dynamo_save daoId i a)" "mongo.stays (dynamo_removeSave daoId i a)"
  "mongo.stays (dynamo_close daoId i a p)" "mongo.stays (dynamo_closeInternal daoId i p)"
  unfolding dynamo_create_def dynamo_update_def dynamo_delete_def dynamo_view_def dynamo_save_def
    dynamo_removeSave_def dynamo_close_def dynamo_closeInternal_def
  by (intro mongo_intros)+


text \<open>How a request may change the draft it names.\<close>

fun allowed :: "draft_request \<Rightarrow> (string \<Rightarrow> dao option) \<Rightarrow> string \<Rightarrow> draft \<Rightarrow> draft option \<Rightarrow> bool" where
  "allowed (RQ_create a dto) api i d d' = False"
| "allowed (RQ_update daoId j a dto) api i d d' =
     (j = i \<and> (\<exists>dao. api (df_daoId d) = Some dao \<and> may_change dao d (ud_type dto) a)
      \<and> (\<exists>now. d' = Some ((with_update dto d)\<lparr>df_updatedAt := now\<rparr>)))"
| "allowed (RQ_delete daoId j a) api i d d' =
     (j = i \<and> (\<exists>dao. api (df_daoId d) = Some dao \<and> may_change dao d (df_type d) a)
      \<and> df_state d = DS_Open \<and> d' = None)"
| "allowed (RQ_view daoId j a) api i d d' =
     (j = i \<and> a \<notin> set (df_viewAccounts d)
      \<and> d' = Some (d\<lparr>df_viewAccounts := df_viewAccounts d @ [a]\<rparr>))"
| "allowed (RQ_save daoId j a) api i d d' =
     (j = i \<and> a \<notin> set (df_saveAccounts d)
      \<and> d' = Some (d\<lparr>df_saveAccounts := df_saveAccounts d @ [a]\<rparr>))"
| "allowed (RQ_removeSave daoId j a) api i d d' =
     (j = i \<and> a \<in> set (df_saveAccounts d)
      \<and> d' = Some (d\<lparr>df_saveAccounts := filter (\<lambda>x. x \<noteq> a) (df_saveAccounts d)\<rparr>))"
| "allowed (RQ_close daoId j a proposalId) api i d d' =
     (j = i \<and> df_state d = DS_Open
      \<and> (\<exists>dao p. api (df_daoId d) = Some dao
           \<and> dao_permissions dao (Some (df_type d)) a = Inr p \<and> canAdd p)
      \<and> d' = Some (d\<lparr>df_state := DS_Closed, df_proposalId := Some proposalId\<rparr>))"
| "allowed (RQ_closeInternal daoId j proposalId) api i d d' =
     (j = i \<and> d' = Some (d\<lparr>df_state := DS_Closed, df_proposalId := Some proposalId\<rparr>))"

definition created :: "draft_request \<Rightarrow> draft \<Rightarrow> bool" where
  "created rq d \<longleftrightarrow> (\<exists>a dto. rq = RQ_create a dto \<and> df_proposer d = a \<and> df_state d = DS_Open
     \<and> df_daoId d = cd_daoId dto \<and> df_proposalId d = None)"

definition draft_change ::
    "(string \<Rightarrow> draft \<Rightarrow> draft option \<Rightarrow> bool) \<Rightarrow> (draft \<Rightarrow> bool) \<Rightarrow> 'b draft_store_scheme \<Rightarrow>
     'b draft_store_scheme \<Rightarrow> bool" where
  "draft_change G N s t \<longleftrightarrow> same_env s t \<and> (\<forall>i.
       ds_drafts t i = ds_drafts s i
     \<or> (\<exists>d. ds_drafts s i = Some d \<and> G i d (ds_drafts t i))
     \<or> (ds_drafts s i = None \<and> (\<exists>d. ds_drafts t i = Some d \<and> N d \<and> df_id d = i
          \<and> i \<in> st_newId s ` {st_tick s <.. st_tick t})))"

lemma draft_change_effect:
  assumes "draft_effect (G i) i s t"
  shows "draft_change G N s t"
  unfolding draft_change_def
proof (intro conjI allI)
  show "same_env s t" using assms by (simp add: draft_effect_def)
  show "ds_drafts t j = ds_drafts s j
     \<or> (\<exists>d. ds_drafts s j = Some d \<and> G j d (ds_drafts t j))
     \<or> (ds_drafts s j = None \<and> (\<exists>d. ds_drafts t j = Some d \<and> N d \<and> df_id d = j
          \<and> j \<in> st_newId s ` {st_tick s <.. st_tick t}))" for j
    using assms by (cases "j = i") (auto simp: draft_effect_def)
qed

lemma keyed_mongo: "same_mongo s t \<Longrightarrow> keyed s \<Longrightarrow> keyed t"
  by (simp add: keyed_def same_mongo_def)

lemma draft_change_before: "same_mongo s u \<Longrightarrow> draft_change G N u t \<Longrightarrow> draft_change G N s t"
proof -
  assume su: "same_mongo s u" and ut: "draft_change G N u t"
  have "{st_tick u <.. st_tick t} \<subseteq> {st_tick s <.. st_tick t}"
    using su by (auto simp: same_mongo_def same_env_def)
  then show "draft_change G N s t"
    using su ut unfolding draft_change_def same_mongo_def same_env_def by (fastforce simp: image_iff)
qed

lemma draft_change_after: "draft_change G N s u \<Longrightarrow> same_mongo u t \<Longrightarrow> draft_change G N s t"
proof -
  assume su: "draft_change G N s u" and ut: "same_mongo u t"
  have "{st_tick s <.. st_tick u} \<subseteq> {st_tick s <.. st_tick t}"
    using ut by (auto simp: same_mongo_def same_env_def)
  then show "draft_change G N s t"
    using su ut unfolding draft_change_def same_mongo_def same_env_def by (fastforce simp: image_iff)
qed

lemma facade_change:
  assumes "mongo.stays m" and "keyed s"
    and "\<And>s' r t. k s' = (r, t) \<Longrightarrow> keyed s' \<Longrightarrow> ds_apiDao s' = ds_apiDao s \<Longrightarrow> draft_change G N s' t"
  shows "draft_change G N s (ignore (op_then m k) s)"
proof -
  obtain r t where run: "op_then m k s = (r, t)" by fastforce
  then have "draft_change G N s t"
  proof (cases rule: op_then_snd)
    case (fails e)
    then show ?thesis using mongo.staysD [OF assms(1)]
      by (auto simp: draft_change_def same_mongo_def)
  next
    case (runs x s1)
    have s1: "same_mongo s s1" using mongo.staysD [OF assms(1) runs(1)] .
    moreover have "draft_change G N s1 t"
      using assms(3) [OF runs(2) keyed_mongo [OF s1 assms(2)]] s1
      by (simp add: same_mongo_def same_env_def)
    ultimately show ?thesis by (rule draft_change_before)
  qed
  then show ?thesis using run by (simp add: ignore_def)
qed

lemma mongo_create_change:
  assumes "mongo_create a dto s = (r, t)" and "ids_ok s"
  shows "draft_change (\<lambda>i d d'. False) (created (RQ_create a dto)) s t"
proof -
  obtain r0 s1 where ins: "insert_draft (new_draft a dto) s = (r0, s1)" by fastforce
  have fresh: "ds_drafts s (st_newId s (Suc (st_tick s))) = None"
  proof (rule ccontr)
    assume "ds_drafts s (st_newId s (Suc (st_tick s))) \<noteq> None"
    then obtain n where "n \<le> st_tick s" "st_newId s (Suc (st_tick s)) = st_newId s n"
      using assms(2) by (auto simp: ids_ok_def)
    then have "Suc (st_tick s) = n" using assms(2) by (auto simp: ids_ok_def dest: injD)
    with \<open>n \<le> st_tick s\<close> show False by simp
  qed
  let ?j = "st_newId s (Suc (st_tick s))"
  have s1: "same_env s s1 \<and> st_tick s1 = Suc (st_tick s) \<and> (ds_drafts s1 = ds_drafts s
      \<or> (\<exists>d. ds_drafts s1 = (ds_drafts s)(?j \<mapsto> d) \<and> created (RQ_create a dto) d \<and> df_id d = ?j))"
    using ins by (auto simp: insert_draft_def access_def put_draft_def Let_def same_env_def created_def
        new_draft_def split: option.splits fault.splits)
  have "same_drafts s1 t"
  proof (cases r0)
    case (Inl e)
    then show ?thesis using assms(1) ins by (auto simp: mongo_create_def run_op drafts.R_refl)
  next
    case (Inr d)
    then have "op_then (indexDraftProposal (df_id d) (Some d)) (op_ret (df_id d)) s1 = (r, t)"
      using assms(1) ins by (simp add: mongo_create_def run_op(3))
    then show ?thesis
      by (rule drafts.staysD [OF drafts.stays_then [OF drafts_index drafts.stays_ret(1)]])
  qed
  then have "same_mongo s1 t" by (simp add: same_mongo_def same_drafts_def)
  moreover have "draft_change (\<lambda>i d d'. False) (created (RQ_create a dto)) s s1"
    unfolding draft_change_def
  proof (intro conjI allI)
    show "same_env s s1" using s1 by blast
    show "ds_drafts s1 i = ds_drafts s i \<or> (\<exists>d. ds_drafts s i = Some d \<and> False)
      \<or> (ds_drafts s i = None \<and> (\<exists>d. ds_drafts s1 i = Some d \<and> created (RQ_create a dto) d
          \<and> df_id d = i \<and> i \<in> st_newId s ` {st_tick s <.. st_tick s1}))" for i
      using s1 fresh by (cases "i = ?j") auto
  qed
  ultimately show ?thesis by (blast intro: draft_change_after)
qed

lemma then_mongo_change:
  assumes "m s = (r0, s1)" and "draft_change G N s s1" and "mongo.stays k"
  shows "draft_change G N s (ignore (op_then m k) s)"
proof -
  obtain r t where run: "op_then m k s = (r, t)" by fastforce
  then have "draft_change G N s t"
  proof (cases rule: op_then_snd)
    case (fails e)
    then show ?thesis using assms by simp
  next
    case (runs x s2)
    then have "s2 = s1" using assms(1) by simp
    then show ?thesis using draft_change_after [OF assms(2) mongo.staysD [OF assms(3)]] runs by simp
  qed
  then show ?thesis using run by (simp add: ignore_def)
qed

lemma facade_draft_ops:
  "draft_update daoId i a dto = op_then (dynamo_update daoId i a dto) (mongo_update i a dto)"
  "draft_delete daoId i a = op_then (dynamo_delete daoId i a) (mongo_delete i a)"
  "draft_view daoId i a = op_then (dynamo_view daoId i a) (mongo_view i a)"
  "draft_save daoId i a = op_then (dynamo_save daoId i a) (mongo_save i a)"
  "draft_removeSave daoId i a = op_then (dynamo_removeSave daoId i a) (mongo_removeSave i a)"
  "draft_close daoId i a p = op_then (dynamo_close daoId i a p) (mongo_close i a p)"
  by (simp_all add: draft_update_def draft_delete_def draft_view_def draft_save_def
      draft_removeSave_def draft_close_def)

lemma draft_change_allowed:
  assumes "draft_effect G i s' t" and "\<And>d d'. G d d' \<Longrightarrow> H i d d'"
  shows "draft_change H N s' t"
  by (rule draft_change_effect, rule draft_effect_mono, rule assms(1), rule assms(2))

lemma created_by_mongo:
  assumes "ids_ok s"
  shows "draft_change (allowed (RQ_create a dto) api) (created (RQ_create a dto)) s
    (ignore (draft_create a dto) s)"
proof -
  obtain r s1 where run: "mongo_create a dto s = (r, s1)" by fastforce
  have new: "draft_change (allowed (RQ_create a dto) api) (created (RQ_create a dto)) s s1"
    using mongo_create_change [OF run assms] by (simp add: draft_change_def)
  show ?thesis
  proof (cases r)
    case (Inl e)
    then show ?thesis using run new by (simp add: draft_create_def ignore_def run_op)
  next
    case (Inr i)
    obtain r' t where rest: "op_then (dynamo_create a dto i) (op_ret i) s1 = (r', t)" by fastforce
    have "same_mongo s1 t"
      by (rule mongo.staysD [OF mongo.stays_then [OF mongo_dynamo_ops(1) mongo.stays_ret(1)] rest])
    moreover have "ignore (draft_create a dto) s = t"
      using run Inr rest by (simp add: draft_create_def ignore_def run_op(3))
    ultimately show ?thesis using draft_change_after [OF new] by blast
  qed
qed

lemma facade_allowed:
  assumes "mongo.stays m" and "keyed s"
    and "\<And>s' r t. k s' = (r, t) \<Longrightarrow> keyed s' \<Longrightarrow> ds_apiDao s' = ds_apiDao s \<Longrightarrow> draft_effect (G s') i s' t"
    and "\<And>s' d d'. ds_apiDao s' = ds_apiDao s \<Longrightarrow> G s' d d' \<Longrightarrow> H i d d'"
  shows "draft_change H N s (ignore (op_then m k) s)"
  using assms(1,2)
proof (rule facade_change)
  show "draft_change H N s' t" if "k s' = (r, t)" "keyed s'" "ds_apiDao s' = ds_apiDao s" for s' r t
    by (rule draft_change_allowed, rule assms(3) [OF that], rule assms(4) [OF that(3)])
qed

text \<open>
  A request changes no draft but the one it names, and that one only as the request may. This holds
  under every pattern of lost and unacknowledged requests.
\<close>

lemma serve_change:
  assumes "keyed s" and "ids_ok s"
  shows "draft_change (allowed rq (ds_apiDao s)) (created rq) s (serve rq s)"
proof (cases rq)
  case (RQ_create a dto)
  then show ?thesis using created_by_mongo [OF assms(2)] by simp
next
  case (RQ_update daoId i a dto)
  then show ?thesis
    unfolding RQ_update serve.simps facade_draft_ops
    by (intro facade_allowed [OF mongo_dynamo_ops(2) assms(1) mongo_update_effect]) auto
next
  case (RQ_delete daoId i a)
  then show ?thesis
    unfolding RQ_delete serve.simps facade_draft_ops
    by (intro facade_allowed [OF mongo_dynamo_ops(3) assms(1) mongo_delete_effect]) auto
next
  case (RQ_view daoId i a)
  then show ?thesis
    unfolding RQ_view serve.simps facade_draft_ops
    by (intro facade_allowed [OF mongo_dynamo_ops(4) assms(1) mongo_view_effect]) auto
next
  case (RQ_save daoId i a)
  then show ?thesis
    unfolding RQ_save serve.simps facade_draft_ops
    by (intro facade_allowed [OF mongo_dynamo_ops(5) assms(1) mongo_save_effect]) auto
next
  case (RQ_removeSave daoId i a)
  then show ?thesis
    unfolding RQ_removeSave serve.simps facade_draft_ops
    by (intro facade_allowed [OF mongo_dynamo_ops(6) assms(1) mongo_removeSave_effect]) auto
next
  case (RQ_close daoId i a proposalId)
  then show ?thesis
    unfolding RQ_close serve.simps facade_draft_ops
    by (intro facade_allowed [OF mongo_dynamo_ops(7) assms(1) mongo_close_effect]) auto
next
  case (RQ_closeInternal daoId i proposalId)
  obtain r s1 where run: "mongo_closeInternal i proposalId s = (r, s1)" by fastforce
  have "draft_change (allowed rq (ds_apiDao s)) (created rq) s s1"
    by (rule draft_change_allowed [OF mongo_closeInternal_effect [OF run assms(1)]])
      (simp add: RQ_closeInternal)
  then show ?thesis
    unfolding RQ_closeInternal serve.simps onCloseDraftProposal_def
    by (rule then_mongo_change [where m = "mongo_closeInternal i proposalId", OF run])
      (rule mongo_dynamo_ops(8))
qed

section \<open>Closed drafts\<close>

lemma allowed_id: "allowed rq api i d (Some d') \<Longrightarrow> df_id d' = df_id d"
  by (cases rq) (auto simp: with_update_def)

lemma draft_changeD:
  "draft_change G N s t \<Longrightarrow> ds_drafts t i = ds_drafts s i
     \<or> (\<exists>d. ds_drafts s i = Some d \<and> G i d (ds_drafts t i))
     \<or> (ds_drafts s i = None \<and> (\<exists>d. ds_drafts t i = Some d \<and> N d \<and> df_id d = i
          \<and> i \<in> st_newId s ` {st_tick s <.. st_tick t}))"
  unfolding draft_change_def by blast

lemma keyed_change:
  assumes "draft_change (allowed rq api) N s t" and "keyed s"
  shows "keyed t"
  unfolding keyed_def
proof (intro allI impI)
  fix i d
  assume d: "ds_drafts t i = Some d"
  have "ds_drafts t i = ds_drafts s i \<or> (\<exists>d0. ds_drafts s i = Some d0 \<and> allowed rq api i d0 (ds_drafts t i))
      \<or> (\<exists>d. ds_drafts t i = Some d \<and> df_id d = i)"
    using assms(1) unfolding draft_change_def by blast
  then show "df_id d = i"
    using assms(2) d allowed_id by (auto simp: keyed_def)
qed

lemma ids_ok_change:
  assumes "draft_change (allowed rq api) N s t" and "ids_ok s"
  shows "ids_ok t"
  unfolding ids_ok_def
proof (intro conjI allI impI)
  have env: "st_newId t = st_newId s" "st_tick s \<le> st_tick t"
    using assms(1) by (simp_all add: draft_change_def same_env_def)
  show "inj (st_newId t)" using assms(2) env by (simp add: ids_ok_def)
  fix i
  assume i: "ds_drafts t i \<noteq> None"
  have "ds_drafts s i \<noteq> None \<or> i \<in> st_newId s ` {st_tick s <.. st_tick t}"
    using draft_changeD [OF assms(1), of i] i by auto
  then have "i \<in> st_newId s ` {..st_tick s} \<or> i \<in> st_newId s ` {st_tick s <.. st_tick t}"
    using assms(2) by (auto simp: ids_ok_def)
  then show "i \<in> st_newId t ` {..st_tick t}"
    using env by auto
qed

definition serve_all :: "draft_request list \<Rightarrow> 'b draft_store_scheme \<Rightarrow> 'b draft_store_scheme" where
  "serve_all rqs s = fold serve rqs s"

lemma serve_all_keyed: "keyed s \<Longrightarrow> ids_ok s \<Longrightarrow> keyed (serve_all rqs s) \<and> ids_ok (serve_all rqs s)"
proof (induction rqs arbitrary: s)
  case Nil
  then show ?case by (simp add: serve_all_def)
next
  case (Cons rq rqs)
  note change = serve_change [OF Cons.prems, of rq]
  show ?case
    using Cons.IH [OF keyed_change [OF change Cons.prems(1)] ids_ok_change [OF change Cons.prems(2)]]
    by (simp add: serve_all_def)
qed

text \<open>A store without drafts that makes different ids.\<close>

definition fresh_store :: "'b draft_store_scheme \<Rightarrow> bool" where
  "fresh_store s \<longleftrightarrow> inj (st_newId s) \<and> (\<forall>i. ds_drafts s i = None)"

lemma fresh_store_ok: "fresh_store s \<Longrightarrow> keyed s \<and> ids_ok s"
  by (simp add: fresh_store_def keyed_def ids_ok_def)

text \<open>
  C18. Whatever requests and events a store of drafts receives, each changes no draft but the one it
  names, and that one only as it may: an update by the proposer or a member of the council, who
  replace title, description, kind and type; a deletion by the same of an open draft; a view or a
  saved mark, once for an account; a closing of an open draft by an account that may add proposals
  of its type; the closing by the event of a proposal. A new draft has a new id, is open and belongs
  to its author. This holds under every pattern of lost and unacknowledged requests.
\<close>

theorem drafts_change_as_allowed:
  assumes "fresh_store s0"
  shows "draft_change (allowed rq (ds_apiDao (serve_all rqs s0))) (created rq)
    (serve_all rqs s0) (serve_all (rqs @ [rq]) s0)"
proof -
  have "keyed (serve_all rqs s0)" "ids_ok (serve_all rqs s0)"
    using serve_all_keyed fresh_store_ok [OF assms] by blast+
  from serve_change [OF this] show ?thesis by (simp add: serve_all_def)
qed

definition sample_draft_dao :: dao where
  "sample_draft_dao =
     \<lparr> isArchived = None, createdAt = None, updatedAt = None, transactionHash = None,
       updateTransactionHash = None, createTimestamp = None, updateTimestamp = None, dao_id = ''d'',
       dao_config = None, dao_metadata = JUndef, dao_amount = None, dao_totalSupply = None,
       dao_lastBountyId = None, dao_lastProposalId = None, dao_stakingContract = None,
       dao_numberOfAssociates = None, dao_numberOfMembers = None, dao_numberOfGroups = None,
       dao_council = None, dao_accountIds = None, dao_councilSeats = None,
       dao_policy = Some \<lparr> pol_daoId = None, pol_proposalBond = None, pol_bountyBond = None,
         pol_proposalPeriod = None, pol_bountyForgivenessPeriod = None,
         pol_defaultVotePolicy = None, pol_roles = Some [] \<rparr>,
       dao_link = None, dao_description = None, dao_createdBy = None, dao_daoVersion = None,
       dao_status = None, dao_activeProposalCount = None, dao_totalProposalCount = None,
       dao_totalDaoFunds = None, dao_bountyCount = None, dao_nftCount = None,
       dao_delegations = None, dao_tokens = None \<rparr>"

definition sample_update :: update_draft where
  "sample_update = \<lparr> ud_title = ''t'', ud_description = ''x'', ud_type = Transfer, ud_kind = JUndef \<rparr>"

definition sample_new_draft :: create_draft where
  "sample_new_draft = update_draft.extend sample_update \<lparr> cd_daoId = ''d'' \<rparr>"

definition sample_store :: "(string \<Rightarrow> draft option) \<Rightarrow> draft_store" where
  "sample_store drafts =
     \<lparr> st_tick = 0, st_faults = (\<lambda>n. None), st_now = int, st_newId = (\<lambda>n. replicate n (CHR ''x'')),
       ds_drafts = drafts, ds_histories = [],
       ds_items = (\<lambda>daoId i. map_option (\<lambda>d. Draft_Item
          (draft.extend d \<lparr> dc_isArchived = None, dc_updateTimestamp = None \<rparr>) []) (drafts i)),
       ds_apiDao = (\<lambda>i. Some sample_draft_dao), ds_dynDao = (\<lambda>i. Some sample_draft_dao),
       ds_flags = (\<lambda>f. False), ds_index = (\<lambda>i. None) \<rparr>"

lemma sample_ids: "inj (\<lambda>n. replicate n (CHR ''x''))"
  by (rule injI) (metis length_replicate)

lemma sample_fresh: "fresh_store (sample_store (\<lambda>i. None))"
  using sample_ids by (simp add: fresh_store_def sample_store_def)

theorem drafts_change_as_allowed_witness:
  "let s0 = sample_store (\<lambda>i. None); rq = RQ_create ''a'' sample_new_draft in
   fresh_store s0 \<and> draft_change (allowed rq (ds_apiDao (serve_all [] s0))) (created rq)
    (serve_all [] s0) (serve_all ([] @ [rq]) s0)"
  using drafts_change_as_allowed [OF sample_fresh, of "RQ_create ''a'' sample_new_draft" "[]"] sample_fresh
  by (simp add: Let_def)

definition closed_by :: "draft_request list \<Rightarrow> string \<Rightarrow> string \<Rightarrow> bool" where
  "closed_by rqs i p \<longleftrightarrow> (\<exists>daoId. RQ_closeInternal daoId i p \<in> set rqs)"

lemma allowed_closed:
  assumes "allowed rq api i d d'" and "df_state d = DS_Closed"
  shows "\<exists>d1. d' = Some d1 \<and> df_state d1 = DS_Closed \<and> df_proposer d1 = df_proposer d
    \<and> df_daoId d1 = df_daoId d
    \<and> (df_proposalId d1 = df_proposalId d
       \<or> (\<exists>daoId p. rq = RQ_closeInternal daoId i p \<and> df_proposalId d1 = Some p))"
  using assms by (cases rq) (auto simp: with_update_def)

text \<open>
  C19. A closed draft is neither deleted nor opened again, whatever requests and events follow and
  however they fail; it keeps its author and its DAO, and its proposal, unless the event of another
  proposal gives it that one. (Its title, description, kind and type may still be changed.)
\<close>

theorem closed_drafts_stay:
  assumes "keyed s" and "ids_ok s" and "ds_drafts s i = Some d" and "df_state d = DS_Closed"
  shows "\<exists>d'. ds_drafts (serve_all rqs s) i = Some d' \<and> df_state d' = DS_Closed
    \<and> df_proposer d' = df_proposer d \<and> df_daoId d' = df_daoId d
    \<and> (df_proposalId d' = df_proposalId d \<or> (\<exists>p. closed_by rqs i p \<and> df_proposalId d' = Some p))"
  using assms
proof (induction rqs arbitrary: s d)
  case Nil
  then show ?case by (simp add: serve_all_def)
next
  case (Cons rq rqs)
  let ?t = "serve rq s"
  have change: "draft_change (allowed rq (ds_apiDao s)) (created rq) s ?t"
    using Cons.prems(1,2) by (rule serve_change)
  have "ds_drafts ?t i = ds_drafts s i \<or> allowed rq (ds_apiDao s) i d (ds_drafts ?t i)"
    using draft_changeD [OF change, of i] Cons.prems(3) by auto
  then obtain d1 where d1: "ds_drafts ?t i = Some d1" "df_state d1 = DS_Closed"
      "df_proposer d1 = df_proposer d" "df_daoId d1 = df_daoId d"
      "df_proposalId d1 = df_proposalId d
       \<or> (\<exists>daoId p. rq = RQ_closeInternal daoId i p \<and> df_proposalId d1 = Some p)"
    using Cons.prems(3,4) allowed_closed by (metis (no_types, lifting))
  from Cons.IH [OF keyed_change [OF change Cons.prems(1)] ids_ok_change [OF change Cons.prems(2)] d1(1,2)]
  obtain d' where "ds_drafts (serve_all rqs ?t) i = Some d'" "df_state d' = DS_Closed"
      "df_proposer d' = df_proposer d1" "df_daoId d' = df_daoId d1"
      "df_proposalId d' = df_proposalId d1 \<or> (\<exists>p. closed_by rqs i p \<and> df_proposalId d' = Some p)"
    by blast
  moreover have "serve_all (rq # rqs) s = serve_all rqs ?t" by (simp add: serve_all_def)
  moreover have "closed_by rqs i p \<Longrightarrow> closed_by (rq # rqs) i p" for p by (auto simp: closed_by_def)
  moreover have "closed_by (RQ_closeInternal daoId i p # rqs) i p" for daoId p
    by (auto simp: closed_by_def)
  ultimately show ?case using d1 by metis
qed

section \<open>The size of an item\<close>

text \<open>The number of versions an item stores, itself and those nested in it.\<close>

fun versions :: "draft_item \<Rightarrow> nat" where
  "versions (Draft_Item c h) = Suc (sum_list (map (\<lambda>v. versions (fst v)) h))"

lemma save_draft_item_Inr:
  assumes "save_draft_item daoId i x s = (Inr u, t)"
  shows "ds_items t daoId i = Some x"
  using assms
  by (auto simp: save_draft_item_def op_bind_Inr_iff op_when_def put_item_def op_put_def op_ret_def
      split: if_splits dest!: access_Inr)

lemma get_draft_item_Inr:
  assumes "dynamo_draft daoId i s = (Inr x, t)"
  shows "ds_items s daoId i = Some x"
proof -
  obtain v where "get_draft_item daoId i s = (Inr v, t)" "v = Some x"
    using assms unfolding dynamo_draft_def op_bind_Inr_iff op_need_iff by auto
  then show ?thesis
    by (auto simp: get_draft_item_def op_try_def op_get_def op_ret_def access_def
        split: sum.splits prod.splits option.splits fault.splits)
qed

lemma dynamo_update_versions:
  assumes "dynamo_update daoId i a dto s = (Inr j, t)"
  shows "\<exists>x y. ds_items s daoId i = Some x \<and> ds_items t daoId i = Some y
    \<and> versions y = 2 * versions x"
proof -
  obtain x s1 s2 and p :: proposal_permissions where run: "dynamo_draft daoId i s = (Inr x, s1)"
      "(if df_proposer (item_columns x) \<noteq> a \<and> \<not> isCouncil p then op_fail not_proposer
        else op_bind op_now (\<lambda>now.
          op_then (save_draft_item daoId i (Draft_Item
             ((item_columns x)\<lparr>df_title := ud_title dto, df_description := ud_description dto,
                df_kind := ud_kind dto, df_type := ud_type dto\<rparr>)
             (item_history x @ [(x, now)])))
           (op_ret (df_id (item_columns x))))) s2 = (Inr j, t)"
    using assms unfolding dynamo_update_def op_bind_Inr_iff by blast
  then obtain now s3 u where "save_draft_item daoId i (Draft_Item
             ((item_columns x)\<lparr>df_title := ud_title dto, df_description := ud_description dto,
                df_kind := ud_kind dto, df_type := ud_type dto\<rparr>)
             (item_history x @ [(x, now)])) s3 = (Inr u, t)"
    by (auto simp: op_iffs split: if_splits)
  from save_draft_item_Inr [OF this] show ?thesis
    using get_draft_item_Inr [OF run(1)] by (cases x) simp
qed

fun dynamo_updates ::
    "string \<Rightarrow> string \<Rightarrow> (string \<times> update_draft) list \<Rightarrow> ('b draft_store_scheme, unit) op" where
  "dynamo_updates daoId i [] = op_ret ()"
| "dynamo_updates daoId i ((a, dto) # us) =
     op_then (dynamo_update daoId i a dto) (dynamo_updates daoId i us)"

text \<open>
  The history of a DynamoDB draft keeps whole items, each with its own history: every accepted
  update doubles the number of versions stored in the item, so that n updates leave 2 to the n times
  as many as before.
\<close>

theorem dynamo_updates_double:
  assumes "dynamo_updates daoId i us s = (Inr u, t)" and "ds_items s daoId i = Some x"
  shows "\<exists>y. ds_items t daoId i = Some y \<and> versions y = 2 ^ length us * versions x"
  using assms
proof (induction us arbitrary: s x)
  case Nil
  then show ?case by (simp add: op_ret_iff)
next
  case (Cons up us)
  obtain a dto where up: "up = (a, dto)" by fastforce
  obtain j s1 where run: "dynamo_update daoId i a dto s = (Inr j, s1)"
      "dynamo_updates daoId i us s1 = (Inr u, t)"
    using Cons.prems(1) unfolding up dynamo_updates.simps op_then_Inr_iff by blast
  obtain y where y: "ds_items s1 daoId i = Some y" "versions y = 2 * versions x"
    using dynamo_update_versions [OF run(1)] Cons.prems(2) by auto
  from Cons.IH [OF run(2) y(1)] y(2) show ?case by auto
qed

section \<open>Examples\<close>

definition sample_draft :: draft where
  "sample_draft = (new_draft ''a'' sample_new_draft)\<lparr>df_id := [], df_state := DS_Closed\<rparr>"

definition sample_drafts :: "string \<Rightarrow> draft option" where
  "sample_drafts = [[] \<mapsto> sample_draft]"

theorem closed_drafts_stay_witness:
  "\<exists>d'. ds_drafts (serve_all [RQ_delete ''d'' [] ''a'', RQ_closeInternal ''d'' [] ''p''] (sample_store sample_drafts)) []
      = Some d' \<and> df_state d' = DS_Closed"
proof -
  have "keyed (sample_store sample_drafts)" "ids_ok (sample_store sample_drafts)"
      "ds_drafts (sample_store sample_drafts) [] = Some sample_draft" "df_state sample_draft = DS_Closed"
    using sample_ids
    by (auto simp: keyed_def ids_ok_def sample_store_def sample_drafts_def sample_draft_def
        split: if_splits)
  from closed_drafts_stay [OF this] show ?thesis by blast
qed

theorem dynamo_updates_double_witness:
  "\<exists>t x y. dynamo_updates ''d'' [] [(''a'', sample_update)] (sample_store sample_drafts) = (Inr (), t)
    \<and> ds_items (sample_store sample_drafts) ''d'' [] = Some x
    \<and> ds_items t ''d'' [] = Some y \<and> versions x = 1 \<and> versions y = 2"
proof -
  let ?s = "sample_store sample_drafts"
  let ?x = "Draft_Item (draft.extend sample_draft \<lparr> dc_isArchived = None, dc_updateTimestamp = None \<rparr>) []"
  have x: "ds_items ?s ''d'' [] = Some ?x" by (simp add: sample_store_def sample_drafts_def)
  have calm: "calm ?s" by (simp add: calm_def sample_store_def)
  have item: "dynamo_draft ''d'' [] ?s = (Inr ?x, tick ?s)"
    using calm x by (simp add: dynamo_draft_def get_draft_item_def run_simps)
  have dao: "ds_dynDao ?s ''d'' = Some sample_draft_dao" by (simp add: sample_store_def)
  obtain p where p: "dao_permissions sample_draft_dao (Some Transfer) ''a'' = Inr p"
    by (simp add: dao_permissions_def sample_draft_dao_def getAccountPermissions_def
        collect_permissions_def)
  have perm: "dynamo_permissions ''d'' Transfer ''a'' (tick ?s) = (Inr p, tick (tick ?s))"
    using calm dao p by (simp add: dynamo_permissions_def dyn_dao_def run_simps)
  have save: "\<exists>t. save_draft_item ''d'' [] y (tick (tick ?s)) = (Inr (), t)" for y
    using calm x by (simp add: save_draft_item_def run_simps)
  then obtain T where T: "save_draft_item ''d'' [] y (tick (tick ?s)) = (Inr (), T y)" for y by metis
  have "df_proposer (item_columns ?x) = ''a''"
    by (simp add: draft.defs sample_draft_def new_draft_def)
  then have "\<exists>t. dynamo_updates ''d'' [] [(''a'', sample_update)] ?s = (Inr (), t)"
    using item perm by (simp add: dynamo_update_def run_op sample_update_def T)
  then obtain t where t: "dynamo_updates ''d'' [] [(''a'', sample_update)] ?s = (Inr (), t)" by blast
  from dynamo_updates_double [OF t x] show ?thesis using t x by fastforce
qed

end
