(* ===== verification/Draft_Stores.thy ===== *)
theory Draft_Stores
  imports Draft_Life
begin

text \<open>
  The agreement of the two stores of drafts: while no request fails, every request changes both
  alike. Each method is computed in a calm state, as a change of the draft's core data that both
  services make under the same condition.
\<close>

section \<open>The calm runs of the requests\<close>

lemma calm_env: "same_env s t \<Longrightarrow> calm s \<Longrightarrow> calm t"
  by (simp add: same_env_def calm_def)

lemma calm_same_mongo: "same_mongo s t \<Longrightarrow> calm s \<Longrightarrow> calm t"
  using calm_env unfolding same_mongo_def by blast

lemma calm_same_drafts: "same_drafts s t \<Longrightarrow> calm s \<Longrightarrow> calm t"
  using calm_env unfolding same_drafts_def by blast

lemma same_drafts_tick [simp]: "same_drafts s (tick s)"
  by (simp add: same_drafts_def same_env_def)

lemma calm_find: "calm s \<Longrightarrow> find_draft i s = (Inr (ds_drafts s i), tick s)"
  by (simp add: find_draft_def run_simps)

lemma calm_api: "calm s \<Longrightarrow> api_dao daoId s =
    (case ds_apiDao s daoId of None \<Rightarrow> Inl (Rejection ''404'') | Some d \<Rightarrow> Inr d, tick s)"
  by (simp add: api_dao_def run_simps split: option.split)

lemma calm_dyn: "calm s \<Longrightarrow> dyn_dao daoId s = (Inr (ds_dynDao s daoId), tick s)"
  by (simp add: dyn_dao_def run_simps)

lemma calm_item: "calm s \<Longrightarrow> get_draft_item daoId i s = (Inr (ds_items s daoId i), tick s)"
  by (simp add: get_draft_item_def run_simps)

lemma calm_writes:
  "calm s \<Longrightarrow> update_draft_at i f s =
     (Inr (), (tick s)\<lparr>ds_drafts := (ds_drafts s)(i := map_option f (ds_drafts s i))\<rparr>)"
  "calm s \<Longrightarrow> delete_draft i s = (Inr (), (tick s)\<lparr>ds_drafts := (ds_drafts s)(i := None)\<rparr>)"
  "calm s \<Longrightarrow> save_draft d s = (Inr (), put_draft (d\<lparr>df_updatedAt := st_now s (Suc (st_tick s))\<rparr>) (tick s))"
  "calm s \<Longrightarrow> save_history h s = (Inr (), (tick s)\<lparr>ds_histories := ds_histories s @ [h]\<rparr>)"
  "calm s \<Longrightarrow> delete_history i s =
     (Inr (), (tick s)\<lparr>ds_histories := filter (\<lambda>h. dh_draftProposalId h \<noteq> i) (ds_histories s)\<rparr>)"
  by (simp_all add: update_draft_at_def delete_draft_def save_draft_def save_history_def
      delete_history_def run_simps tick_def)

lemma calm_index: "calm s \<Longrightarrow> \<exists>t. indexDraftProposal i d s = (Inr (), t) \<and> same_drafts s t"
proof -
  assume calm: "calm s"
  obtain r t where run: "indexDraftProposal i d s = (r, t)" by fastforce
  moreover have "r = Inr ()"
    using run calm
    by (auto simp: indexDraftProposal_def check_flag_def index_remove_def index_doc_def run_simps
        split: if_splits option.splits)
  ultimately show ?thesis using drafts.staysD [OF drafts_index run] by simp
qed

text \<open>One item changes, and nothing of MongoDB.\<close>

definition item_put :: "string \<Rightarrow> string \<Rightarrow> draft_item \<Rightarrow> 'b draft_store_scheme \<Rightarrow> 'b draft_store_scheme \<Rightarrow> bool" where
  "item_put daoId i x s t \<longleftrightarrow> same_mongo s t
     \<and> ds_items t = (ds_items s)(daoId := (ds_items s daoId)(i \<mapsto> x))"

lemma calm_save_item:
  "calm s \<Longrightarrow> \<exists>t. save_draft_item daoId i x s = (Inr (), t) \<and> item_put daoId i x s t"
  by (auto simp: save_draft_item_def run_simps put_item_def item_put_def same_mongo_def same_env_def)

section \<open>Core data\<close>

text \<open>What both stores keep of a draft, the times and the number of replies aside.\<close>

definition core :: "'b draft_scheme \<Rightarrow> draft" where
  "core d = (draft.truncate d)\<lparr>df_replies := 0, df_createdAt := 0, df_updatedAt := 0\<rparr>"

lemma core_fields:
  "df_id (core d) = df_id d" "df_daoId (core d) = df_daoId d" "df_proposer (core d) = df_proposer d"
  "df_type (core d) = df_type d" "df_state (core d) = df_state d"
  "df_viewAccounts (core d) = df_viewAccounts d" "df_saveAccounts (core d) = df_saveAccounts d"
  by (simp_all add: core_def draft.truncate_def)

text \<open>
  A change of the core data: \<open>P\<close> is its condition, \<open>F\<close> the result, \<open>None\<close> for a removed draft. DynamoDB
  marks the item of a removed draft.
\<close>

definition archived :: "draft_item \<Rightarrow> bool" where
  "archived x \<longleftrightarrow> dc_isArchived (item_columns x) = Some True"

definition item_changed :: "(draft \<Rightarrow> draft option) \<Rightarrow> draft_item \<Rightarrow> draft_item \<Rightarrow> bool" where
  "item_changed F x y \<longleftrightarrow>
     (case F (core (item_columns x)) of
        Some c \<Rightarrow> core (item_columns y) = c \<and> archived y = archived x
      | None \<Rightarrow> core (item_columns y) = core (item_columns x) \<and> archived y)"

definition dynamo_done ::
    "(draft \<Rightarrow> bool) \<Rightarrow> (draft \<Rightarrow> draft option) \<Rightarrow> string \<Rightarrow> string \<Rightarrow> 'b draft_store_scheme \<Rightarrow>
     'b draft_store_scheme \<Rightarrow> bool" where
  "dynamo_done P F daoId i s t \<longleftrightarrow> same_mongo s t \<and> (\<exists>x. ds_items s daoId i = Some x
     \<and> (if P (core (item_columns x)) then \<exists>y. item_put daoId i y s t \<and> item_changed F x y
        else ds_items t = ds_items s))"

definition mongo_done ::
    "(draft \<Rightarrow> bool) \<Rightarrow> (draft \<Rightarrow> draft option) \<Rightarrow> string \<Rightarrow> 'b draft_store_scheme \<Rightarrow>
     'b draft_store_scheme \<Rightarrow> bool" where
  "mongo_done P F i s t \<longleftrightarrow> same_env s t \<and> ds_items t = ds_items s
     \<and> (case ds_drafts s i of
          None \<Rightarrow> ds_drafts t = ds_drafts s
        | Some d \<Rightarrow>
            if P (core d)
            then map_option core (ds_drafts t i) = F (core d)
              \<and> (\<forall>j. j \<noteq> i \<longrightarrow> ds_drafts t j = ds_drafts s j)
            else ds_drafts t = ds_drafts s)"

lemmas [simp] = core_fields

section \<open>The stores agree\<close>

text \<open>
  The agreement, but for the drafts of a set \<open>X\<close>: of those only the item stays where it is.
\<close>

definition stores_agree :: "string set \<Rightarrow> 'b draft_store_scheme \<Rightarrow> bool" where
  "stores_agree X s \<longleftrightarrow>
     (\<forall>i d. ds_drafts s i = Some d \<longrightarrow>
        (\<exists>x. ds_items s (df_daoId d) i = Some x
          \<and> (i \<notin> X \<longrightarrow> core (item_columns x) = core d \<and> \<not> archived x)))
   \<and> (\<forall>daoId i x. ds_items s daoId i = Some x \<longrightarrow>
        df_daoId (item_columns x) = daoId \<and> df_id (item_columns x) = i
        \<and> (i \<notin> X \<longrightarrow> \<not> archived x \<longrightarrow> ds_drafts s i \<noteq> None)
        \<and> (\<forall>daoId'. ds_items s daoId' i \<noteq> None \<longrightarrow> daoId' = daoId)
        \<and> i \<in> st_newId s ` {..st_tick s})"

lemma stores_agreeI:
  assumes "\<And>i d. ds_drafts s i = Some d \<Longrightarrow>
      \<exists>x. ds_items s (df_daoId d) i = Some x
        \<and> (i \<notin> X \<longrightarrow> core (item_columns x) = core d \<and> \<not> archived x)"
    and "\<And>daoId i x. ds_items s daoId i = Some x \<Longrightarrow>
      df_daoId (item_columns x) = daoId \<and> df_id (item_columns x) = i
        \<and> (i \<notin> X \<longrightarrow> \<not> archived x \<longrightarrow> ds_drafts s i \<noteq> None)
        \<and> (\<forall>daoId'. ds_items s daoId' i \<noteq> None \<longrightarrow> daoId' = daoId)
        \<and> i \<in> st_newId s ` {..st_tick s}"
  shows "stores_agree X s"
  using assms unfolding stores_agree_def by blast

lemma stores_agreeD:
  assumes "stores_agree X s"
  shows "ds_drafts s i = Some d \<Longrightarrow>
      \<exists>x. ds_items s (df_daoId d) i = Some x
        \<and> (i \<notin> X \<longrightarrow> core (item_columns x) = core d \<and> \<not> archived x)"
    and "ds_items s daoId i = Some x \<Longrightarrow> df_daoId (item_columns x) = daoId"
    and "ds_items s daoId i = Some x \<Longrightarrow> df_id (item_columns x) = i"
    and "ds_items s daoId i = Some x \<Longrightarrow> i \<notin> X \<Longrightarrow> \<not> archived x \<Longrightarrow> ds_drafts s i \<noteq> None"
    and "ds_items s daoId i = Some x \<Longrightarrow> ds_items s daoId' i = Some x' \<Longrightarrow> daoId' = daoId"
    and "ds_items s daoId i = Some x \<Longrightarrow> i \<in> st_newId s ` {..st_tick s}"
  using assms unfolding stores_agree_def by blast+

lemma ids_grow: "same_env s t \<Longrightarrow> i \<in> st_newId s ` {..st_tick s} \<Longrightarrow> i \<in> st_newId t ` {..st_tick t}"
proof -
  assume env: "same_env s t" and "i \<in> st_newId s ` {..st_tick s}"
  then obtain n where "i = st_newId s n" "n \<le> st_tick s" by auto
  then have "i = st_newId t n" "n \<le> st_tick t" using env by (simp_all add: same_env_def)
  then show "i \<in> st_newId t ` {..st_tick t}" by blast
qed

lemma stores_agree_same:
  assumes "stores_agree X s" and "same_env s t" and "ds_drafts t = ds_drafts s" and "ds_items t = ds_items s"
  shows "stores_agree X t"
proof (rule stores_agreeI)
  fix i d assume "ds_drafts t i = Some d"
  then show "\<exists>x. ds_items t (df_daoId d) i = Some x
      \<and> (i \<notin> X \<longrightarrow> core (item_columns x) = core d \<and> \<not> archived x)"
    using stores_agreeD(1) [OF assms(1)] assms(3,4) by simp
next
  fix daoId i x assume x: "ds_items t daoId i = Some x"
  then have x': "ds_items s daoId i = Some x" using assms(4) by simp
  show "df_daoId (item_columns x) = daoId \<and> df_id (item_columns x) = i
        \<and> (i \<notin> X \<longrightarrow> \<not> archived x \<longrightarrow> ds_drafts t i \<noteq> None)
        \<and> (\<forall>daoId'. ds_items t daoId' i \<noteq> None \<longrightarrow> daoId' = daoId)
        \<and> i \<in> st_newId t ` {..st_tick t}"
    using stores_agreeD(2-5) [OF assms(1) x'] ids_grow [OF assms(2) stores_agreeD(6) [OF assms(1) x']]
      assms(3,4) by auto
qed

text \<open>A change of a draft of the set keeps the rest in agreement.\<close>

lemma stores_agree_loose:
  assumes agree: "stores_agree X s" and "i \<in> X" and env: "same_env s t"
    and others: "\<And>j. j \<noteq> i \<Longrightarrow> ds_drafts t j = ds_drafts s j"
    and here: "\<And>d'. ds_drafts t i = Some d' \<Longrightarrow> \<exists>d. ds_drafts s i = Some d \<and> df_daoId d = df_daoId d'"
    and items: "ds_items t = ds_items s \<or> (\<exists>daoId x y. ds_items s daoId i = Some x
      \<and> ds_items t = (ds_items s)(daoId := (ds_items s daoId)(i \<mapsto> y))
      \<and> df_id (item_columns y) = i \<and> df_daoId (item_columns y) = daoId)"
  shows "stores_agree X t"
proof -
  note A = stores_agreeD [OF agree]
  have item: "ds_items t daoId j \<noteq> None \<longleftrightarrow> ds_items s daoId j \<noteq> None" for daoId j
    using items by (elim disjE exE conjE) (simp_all only: fun_upd_apply, simp)
  have same: "ds_items t daoId j = ds_items s daoId j" if "j \<noteq> i" for daoId j
    using items that by auto
  show ?thesis
  proof (rule stores_agreeI)
    fix j d assume d: "ds_drafts t j = Some d"
    show "\<exists>x. ds_items t (df_daoId d) j = Some x
        \<and> (j \<notin> X \<longrightarrow> core (item_columns x) = core d \<and> \<not> archived x)"
    proof (cases "j = i")
      case True
      then obtain d0 where "ds_drafts s i = Some d0" "df_daoId d0 = df_daoId d" using here d by blast
      then have "ds_items s (df_daoId d) i \<noteq> None" using A(1) by fastforce
      then show ?thesis using item assms(2) True by blast
    next
      case False
      then show ?thesis using A(1) [of j d] others [of j] same [of j] d by simp
    qed
  next
    fix daoId j z assume z: "ds_items t daoId j = Some z"
    then obtain x where x: "ds_items s daoId j = Some x" using item by blast
    have cols: "df_daoId (item_columns z) = daoId \<and> df_id (item_columns z) = j"
    proof (cases "j = i")
      case True
      then show ?thesis using items z A(2,3) by (auto split: if_splits)
    next
      case False
      then show ?thesis using same [of j] z A(2,3) by simp
    qed
    have unique: "daoId' = daoId" if "ds_items t daoId' j \<noteq> None" for daoId'
      using that item A(5) [OF x] by blast
    have kept: "j \<notin> X \<longrightarrow> \<not> archived z \<longrightarrow> ds_drafts t j \<noteq> None"
      using A(4) same others assms(2) z by metis
    show "df_daoId (item_columns z) = daoId \<and> df_id (item_columns z) = j
        \<and> (j \<notin> X \<longrightarrow> \<not> archived z \<longrightarrow> ds_drafts t j \<noteq> None)
        \<and> (\<forall>daoId'. ds_items t daoId' j \<noteq> None \<longrightarrow> daoId' = daoId)
        \<and> j \<in> st_newId t ` {..st_tick t}"
      using cols unique kept ids_grow [OF env A(6) [OF x]] by blast
  qed
qed

text \<open>Both stores make the same change: they agree afterwards.\<close>

lemma stores_agree_step_off:
  assumes agree: "stores_agree X s" and off: "i \<notin> X"
    and D: "dynamo_done P F daoId i s u" and M: "mongo_done P F i u t"
    and F: "\<And>c c'. P c \<Longrightarrow> F c = Some c' \<Longrightarrow> df_id c' = df_id c \<and> df_daoId c' = df_daoId c"
  shows "stores_agree X t"
proof -
  have env: "same_env s t"
    using D M fixed.R_trans by (auto simp: dynamo_done_def mongo_done_def same_mongo_def)
  have du: "ds_drafts u = ds_drafts s" using D by (simp add: dynamo_done_def same_mongo_def)
  have it: "ds_items t = ds_items u" using M by (simp add: mongo_done_def)
  obtain x where x: "ds_items s daoId i = Some x"
    and ux: "if P (core (item_columns x)) then \<exists>y. item_put daoId i y s u \<and> item_changed F x y
        else ds_items u = ds_items s"
    using D by (auto simp: dynamo_done_def)
  note A = stores_agreeD [OF agree]
  show ?thesis
  proof (cases "P (core (item_columns x))")
    case False
    have "ds_drafts t = ds_drafts s"
    proof (cases "ds_drafts s i")
      case None
      then show ?thesis using M du by (simp add: mongo_done_def)
    next
      case (Some d)
      then obtain x' where "ds_items s (df_daoId d) i = Some x'" "core (item_columns x') = core d"
        using A(1) off by blast
      then have "core d = core (item_columns x)" using A(5) [OF x] x by fastforce
      then show ?thesis using M du Some False by (simp add: mongo_done_def)
    qed
    then show ?thesis
      using stores_agree_same [OF agree env] ux False it by simp
  next
    case True
    then obtain y where y: "item_put daoId i y s u" "item_changed F x y" using ux by auto
    have items: "ds_items t = (ds_items s)(daoId := (ds_items s daoId)(i \<mapsto> y))"
      using y(1) it by (simp add: item_put_def)
    have ycols: "df_id (item_columns y) = i" "df_daoId (item_columns y) = daoId"
    proof -
      have "df_id (core (item_columns y)) = i \<and> df_daoId (core (item_columns y)) = daoId"
        using y(2) F [OF True] A(2,3) [OF x]
        by (cases "F (core (item_columns x))") (simp_all add: item_changed_def)
      then show "df_id (item_columns y) = i" "df_daoId (item_columns y) = daoId" by simp_all
    qed
    have others: "ds_drafts t j = ds_drafts s j" if "j \<noteq> i" for j
      using M du that by (auto simp: mongo_done_def split: option.splits if_splits)
    show ?thesis
    proof (rule stores_agreeI)
      fix j d assume d: "ds_drafts t j = Some d"
      show "\<exists>x. ds_items t (df_daoId d) j = Some x
          \<and> (j \<notin> X \<longrightarrow> core (item_columns x) = core d \<and> \<not> archived x)"
      proof (cases "j = i")
        case False
        then show ?thesis
          using A(1) [of j d] others [of j] d items by (cases "df_daoId d = daoId") simp_all
      next
        case j: True
        obtain d0 where d0: "ds_drafts s i = Some d0"
          using M du d j by (cases "ds_drafts s i") (auto simp: mongo_done_def)
        then obtain x' where x': "ds_items s (df_daoId d0) i = Some x'" "core (item_columns x') = core d0"
          "\<not> archived x'" using A(1) off by blast
        then have same: "df_daoId d0 = daoId" "x' = x" using A(5) [OF x] x by fastforce+
        then have P0: "P (core d0)" "core (item_columns x) = core d0" using True x'(2) by simp_all
        then have Fd: "F (core d0) = Some (core d)" using M du d0 d j by (auto simp: mongo_done_def)
        have ycore: "core (item_columns y) = core d" "\<not> archived y"
          using y(2) P0(2) Fd x'(3) same(2) by (simp_all add: item_changed_def)
        have "df_daoId (core d) = daoId" using ycore(1) ycols(2) by (metis core_fields(2))
        then show ?thesis using items ycore j by simp
      qed
    next
      fix daoId' j z assume z: "ds_items t daoId' j = Some z"
      show "df_daoId (item_columns z) = daoId' \<and> df_id (item_columns z) = j
        \<and> (j \<notin> X \<longrightarrow> \<not> archived z \<longrightarrow> ds_drafts t j \<noteq> None)
        \<and> (\<forall>daoId''. ds_items t daoId'' j \<noteq> None \<longrightarrow> daoId'' = daoId')
        \<and> j \<in> st_newId t ` {..st_tick t}"
      proof (cases "daoId' = daoId \<and> j = i")
        case False
        then have z': "ds_items s daoId' j = Some z" using z items by (auto split: if_splits)
        then have j: "j \<noteq> i" using False A(5) [OF x] by blast
        then show ?thesis
          using A(2-5) [OF z'] ids_grow [OF env A(6) [OF z']] others [OF j] items by auto
      next
        case True
        then have zy: "z = y" using z items by simp
        have "ds_drafts t i \<noteq> None" if na: "\<not> archived y"
        proof -
          obtain c where c: "F (core (item_columns x)) = Some c" "\<not> archived x"
            using na y(2) by (auto simp: item_changed_def split: option.splits)
          then obtain d0 where d0: "ds_drafts s i = Some d0" using A(4) [OF x off] by blast
          then obtain x' where "ds_items s (df_daoId d0) i = Some x'" "core (item_columns x') = core d0"
            using A(1) off by blast
          then have "core d0 = core (item_columns x)" using A(5) [OF x] x by fastforce
          then show ?thesis using M du d0 c(1) by (auto simp: mongo_done_def split: if_splits)
        qed
        moreover have "daoId'' = daoId" if "ds_items t daoId'' i \<noteq> None" for daoId''
          using that items A(5) [OF x] by (auto split: if_splits)
        ultimately show ?thesis
          using ycols zy True ids_grow [OF env A(6) [OF x]] by simp
      qed
    qed
  qed
qed

lemma stores_agree_step:
  assumes agree: "stores_agree X s"
    and D: "dynamo_done P F daoId i s u" and M: "mongo_done P F i u t"
    and F: "\<And>c c'. P c \<Longrightarrow> F c = Some c' \<Longrightarrow> df_id c' = df_id c \<and> df_daoId c' = df_daoId c"
  shows "stores_agree X t"
proof (cases "i \<in> X")
  case False
  show ?thesis by (rule stores_agree_step_off [OF agree False D M F])
next
  case True
  have env: "same_env s t"
    using D M fixed.R_trans by (auto simp: dynamo_done_def mongo_done_def same_mongo_def)
  have du: "ds_drafts u = ds_drafts s" using D by (simp add: dynamo_done_def same_mongo_def)
  have it: "ds_items t = ds_items u" using M by (simp add: mongo_done_def)
  obtain x where x: "ds_items s daoId i = Some x"
    and ux: "if P (core (item_columns x)) then \<exists>y. item_put daoId i y s u \<and> item_changed F x y
        else ds_items u = ds_items s"
    using D by (auto simp: dynamo_done_def)
  show ?thesis
  proof (rule stores_agree_loose [OF agree True env])
    show "ds_drafts t j = ds_drafts s j" if "j \<noteq> i" for j
      using M du that by (auto simp: mongo_done_def split: option.splits if_splits)
    fix d' assume d': "ds_drafts t i = Some d'"
    then obtain d where d: "ds_drafts s i = Some d"
      using M du by (cases "ds_drafts s i") (auto simp: mongo_done_def)
    have "df_daoId (core d) = df_daoId (core d')"
      using M du d d' F [of "core d" "core d'"] by (auto simp: mongo_done_def split: if_splits)
    with d show "\<exists>d. ds_drafts s i = Some d \<and> df_daoId d = df_daoId d'" by simp
  next
    show "ds_items t = ds_items s \<or> (\<exists>daoId x y. ds_items s daoId i = Some x
      \<and> ds_items t = (ds_items s)(daoId := (ds_items s daoId)(i \<mapsto> y))
      \<and> df_id (item_columns y) = i \<and> df_daoId (item_columns y) = daoId)"
    proof (cases "P (core (item_columns x))")
      case False
      with ux it show ?thesis by simp
    next
      case P: True
      then obtain y where y: "item_put daoId i y s u" "item_changed F x y" using ux by auto
      have "df_id (core (item_columns y)) = i \<and> df_daoId (core (item_columns y)) = daoId"
        using y(2) F [OF P] stores_agreeD(2,3) [OF agree x]
        by (cases "F (core (item_columns x))") (simp_all add: item_changed_def)
      then show ?thesis using y(1) x it by (auto simp: item_put_def)
    qed
  qed
qed

section \<open>The methods of MongoDB in calm states\<close>

definition permitted :: "(string \<Rightarrow> dao option) \<Rightarrow> draft \<Rightarrow> proposal_type \<Rightarrow> string \<Rightarrow> bool" where
  "permitted api c type a \<longleftrightarrow> (\<exists>dao. api (df_daoId c) = Some dao \<and> may_change dao c type a)"

definition may_add :: "(string \<Rightarrow> dao option) \<Rightarrow> draft \<Rightarrow> string \<Rightarrow> bool" where
  "may_add api c a \<longleftrightarrow> (\<exists>dao p. api (df_daoId c) = Some dao
     \<and> dao_permissions dao (Some (df_type c)) a = Inr p \<and> canAdd p)"

lemma permitted_core [simp]: "permitted api (core d) type a = permitted api d type a"
  by (simp add: permitted_def may_change_def)

lemma may_add_core [simp]: "may_add api (core d) a = may_add api d a"
  by (simp add: may_add_def)

definition closing :: "string \<Rightarrow> draft \<Rightarrow> draft" where
  "closing proposalId d = d\<lparr>df_state := DS_Closed, df_proposalId := Some proposalId\<rparr>"

lemma core_changes:
  "core ((with_update dto d)\<lparr>df_updatedAt := now\<rparr>) = with_update dto (core d)"
  "core (d\<lparr>df_viewAccounts := v\<rparr>) = (core d)\<lparr>df_viewAccounts := v\<rparr>"
  "core (d\<lparr>df_saveAccounts := v\<rparr>) = (core d)\<lparr>df_saveAccounts := v\<rparr>"
  "core (closing p d) = closing p (core d)"
  for d :: draft
  by (simp_all add: core_def draft.truncate_def with_update_def closing_def)

lemma core_item_changes:
  "core (c\<lparr>df_title := ud_title dto, df_description := ud_description dto,
     df_kind := ud_kind dto, df_type := ud_type dto\<rparr>) = with_update dto (core c)"
  "core (c\<lparr>df_viewAccounts := v\<rparr>) = (core c)\<lparr>df_viewAccounts := v\<rparr>"
  "core (c\<lparr>df_saveAccounts := v, dc_updateTimestamp := u\<rparr>) = (core c)\<lparr>df_saveAccounts := v\<rparr>"
  "core (c\<lparr>df_state := DS_Closed, df_proposalId := Some p, dc_updateTimestamp := u\<rparr>) = closing p (core c)"
  "core (c\<lparr>dc_updateTimestamp := u, dc_isArchived := a\<rparr>) = core c"
  for c :: draft_columns
  by (simp_all add: core_def draft.truncate_def with_update_def closing_def draft.defs draft_columns.defs)

lemma mongo_done_same: "same_drafts s t \<Longrightarrow> (\<And>d. ds_drafts s i = Some d \<Longrightarrow> \<not> P (core d)) \<Longrightarrow> mongo_done P F i s t"
  by (auto simp: mongo_done_def same_drafts_def split: option.split)

lemma mongo_view_calm:
  assumes "calm s" and "keyed s"
  shows "mongo_done (\<lambda>c. a \<notin> set (df_viewAccounts c))
    (\<lambda>c. Some (c\<lparr>df_viewAccounts := df_viewAccounts c @ [a]\<rparr>)) i s (snd (mongo_view i a s))"
  using assms
  by (auto simp: mongo_view_def calm_find calm_writes run_op mongo_done_def same_env_def keyed_def
      core_changes split: option.split)

lemma mongo_save_calm:
  assumes "calm s" and "keyed s"
  shows "mongo_done (\<lambda>c. a \<notin> set (df_saveAccounts c))
    (\<lambda>c. Some (c\<lparr>df_saveAccounts := df_saveAccounts c @ [a]\<rparr>)) i s (snd (mongo_save i a s))"
  using assms
  by (auto simp: mongo_save_def calm_find calm_writes run_op mongo_done_def same_env_def keyed_def
      core_changes split: option.split)

lemma mongo_removeSave_calm:
  assumes "calm s" and "keyed s"
  shows "mongo_done (\<lambda>c. a \<in> set (df_saveAccounts c))
    (\<lambda>c. Some (c\<lparr>df_saveAccounts := filter (\<lambda>x. x \<noteq> a) (df_saveAccounts c)\<rparr>)) i s
    (snd (mongo_removeSave i a s))"
  using assms
  by (auto simp: mongo_removeSave_def calm_find calm_writes run_op mongo_done_def same_env_def keyed_def
      core_changes split: option.split)

lemma mongo_closeInternal_calm:
  assumes "calm s" and "keyed s"
  shows "mongo_done (\<lambda>c. True) (\<lambda>c. Some (closing p c)) i s (snd (mongo_closeInternal i p s))"
  using assms
  by (auto simp: mongo_closeInternal_def calm_find calm_writes run_op mongo_done_def same_env_def keyed_def
      core_changes closing_def [symmetric] split: option.split)

lemma mongo_close_calm:
  assumes "calm s" and "keyed s"
  shows "mongo_done (\<lambda>c. may_add (ds_apiDao s) c a \<and> df_state c = DS_Open)
    (\<lambda>c. Some (closing p c)) i s (snd (mongo_close i a p s))"
proof (cases "ds_drafts s i")
  case None
  then show ?thesis using assms
    by (simp add: mongo_close_def calm_find run_op mongo_done_def same_env_def)
next
  case (Some d)
  then have "df_id d = i" using assms(2) by (simp add: keyed_def)
  then show ?thesis
    using assms(1) Some
    by (cases "ds_apiDao s (df_daoId d)"; cases "df_state d")
      (auto simp: mongo_close_def calm_find calm_api calm_writes run_op mongo_done_def same_env_def
        may_add_def core_changes closing_def [symmetric] split: sum.split)
qed

lemma calm_put_draft [simp]: "calm (put_draft d s) = calm s"
  by (simp add: calm_def put_draft_def)

lemma mongo_update_calm:
  assumes "calm s" and "keyed s"
  shows "mongo_done (\<lambda>c. permitted (ds_apiDao s) c (ud_type dto) a)
    (\<lambda>c. Some (with_update dto c)) i s (snd (mongo_update i a dto s))"
proof (cases "ds_drafts s i")
  case None
  then show ?thesis using assms
    by (simp add: mongo_update_def calm_find run_op mongo_done_def same_env_def)
next
  case (Some d)
  then have i: "df_id d = i" using assms(2) by (simp add: keyed_def)
  show ?thesis
  proof (cases "permitted (ds_apiDao s) d (ud_type dto) a")
    case False
    then show ?thesis
      using assms(1) Some i
      by (cases "ds_apiDao s (df_daoId d)")
        (auto simp: mongo_update_def calm_find calm_api run_op mongo_done_def same_env_def
          permitted_def may_change_def split: sum.split)
  next
    case True
    then obtain dao p where dao: "ds_apiDao s (df_daoId d) = Some dao"
        "dao_permissions dao (Some (ud_type dto)) a = Inr p" "df_proposer d = a \<or> isCouncil p"
      by (auto simp: permitted_def may_change_def)
    let ?d = "with_update dto d"
    define s2 where "s2 = tick (tick s)"
    have s2: "calm s2" "ds_drafts s2 = ds_drafts s" "ds_items s2 = ds_items s" "same_env s s2"
      using assms(1) by (simp_all add: s2_def same_env_def)
    obtain h s3 where h: "save_history h s2 = (Inr (), s3)"
        "snd (mongo_update i a dto s) = snd (op_then (save_draft ?d)
          (op_then (indexDraftProposal i (Some d)) (op_ret i)) s3)"
    proof -
      define h where "h = \<lparr> dh_draftProposalId = df_id d, dh_daoId = df_daoId d,
           dh_proposer = df_proposer d, dh_title = df_title d, dh_description = df_description d,
           dh_kind = df_kind d, dh_type = df_type d, dh_date = df_updatedAt d \<rparr>"
      have "mongo_update i a dto s = op_then (save_history h) (op_then (save_draft ?d)
          (op_then (indexDraftProposal i (Some d)) (op_ret i))) s2"
        unfolding h_def s2_def with_update_def
        using assms(1) Some i dao
        by (auto simp: mongo_update_def calm_find calm_api run_op(3,7,8))
      then show thesis using that [of h] calm_writes(4) [OF s2(1), of h] by (simp add: run_op(4))
    qed
    have "same_drafts s2 s3" by (rule drafts.staysD [OF drafts_reads(5) h(1)])
    then have s3: "calm s3" "ds_drafts s3 = ds_drafts s" "ds_items s3 = ds_items s" "same_env s s3"
      using s2 calm_same_drafts [of s2 s3] fixed.R_trans [OF s2(4)] by (auto simp: same_drafts_def)
    obtain s4 where s4: "save_draft ?d s3 = (Inr (), s4)" "calm s4" "ds_items s4 = ds_items s"
        "same_env s s4" "\<exists>now. ds_drafts s4 = (ds_drafts s)(i \<mapsto> ?d\<lparr>df_updatedAt := now\<rparr>)"
      using calm_writes(3) [OF s3(1), of ?d] s3 i
      by (auto simp: put_draft_def same_env_def with_update_def calm_def)
    obtain t where t: "indexDraftProposal i (Some d) s4 = (Inr (), t)" "same_drafts s4 t"
      using calm_index [OF s4(2)] by blast
    have "snd (mongo_update i a dto s) = t" using h(2) s4(1) t(1) by (simp add: run_op)
    moreover have "mongo_done (\<lambda>c. permitted (ds_apiDao s) c (ud_type dto) a)
        (\<lambda>c. Some (with_update dto c)) i s t"
      using s4(3-5) t(2) Some True fixed.R_trans
      by (auto simp: mongo_done_def same_drafts_def core_changes)
    ultimately show ?thesis by simp
  qed
qed

lemma mongo_delete_calm:
  assumes "calm s" and "keyed s"
  shows "mongo_done (\<lambda>c. permitted (ds_apiDao s) c (df_type c) a \<and> df_state c = DS_Open)
    (\<lambda>c. None) i s (snd (mongo_delete i a s))"
proof (cases "ds_drafts s i")
  case None
  then show ?thesis using assms
    by (simp add: mongo_delete_def calm_find run_op mongo_done_def same_env_def)
next
  case (Some d)
  then have i: "df_id d = i" using assms(2) by (simp add: keyed_def)
  then show ?thesis
    using assms(1) Some
    by (cases "ds_apiDao s (df_daoId d)"; cases "df_state d")
      (auto simp: mongo_delete_def calm_find calm_api calm_writes run_op mongo_done_def same_env_def
        permitted_def may_change_def calm_def tick_def split: sum.split)
qed

section \<open>The methods of DynamoDB in calm states\<close>

definition item_columns_ok :: "'b draft_store_scheme \<Rightarrow> bool" where
  "item_columns_ok s \<longleftrightarrow> (\<forall>daoId i x. ds_items s daoId i = Some x \<longrightarrow> df_daoId (item_columns x) = daoId)"

lemma calm_dynamo_draft: "calm s \<Longrightarrow> dynamo_draft daoId i s =
    (case ds_items s daoId i of None \<Rightarrow> Inl (no_draft i) | Some x \<Rightarrow> Inr x, tick s)"
  by (simp add: dynamo_draft_def calm_item run_op split: option.split)

lemma calm_dynamo_permissions: "calm s \<Longrightarrow> dynamo_permissions daoId type a s =
    (case ds_dynDao s daoId of None \<Rightarrow> Inl (TypeError ''policy'')
     | Some dao \<Rightarrow> dao_permissions dao (Some type) a, tick s)"
  by (simp add: dynamo_permissions_def calm_dyn run_op split: option.split)

text \<open>A method that ends well has made its change, or found nothing to change.\<close>

lemma dynamo_done_put:
  assumes "ds_items s daoId i = Some x" and "P (core (item_columns x))"
    and "item_changed F x y" and "item_put daoId i y u t" and "same_drafts s u"
  shows "dynamo_done P F daoId i s t"
  using assms by (auto simp: dynamo_done_def item_put_def same_drafts_def same_mongo_def same_env_def)

lemma dynamo_done_same:
  assumes "ds_items s daoId i = Some x" and "\<not> P (core (item_columns x))" and "same_drafts s t"
  shows "dynamo_done P F daoId i s t"
  using assms by (auto simp: dynamo_done_def same_drafts_def same_mongo_def)

lemma save_then_calm:
  assumes "calm u" and "op_then (save_draft_item daoId i y) (op_ret v) u = (Inr w, t)"
  shows "item_put daoId i y u t"
  using assms(2) calm_save_item [OF assms(1), of daoId i y] by (auto simp: run_op)

lemma when_save_calm:
  assumes "calm u" and "op_then (op_when b (save_draft_item daoId i y)) (op_ret v) u = (Inr w, t)"
  shows "if b then item_put daoId i y u t else t = u"
  using assms save_then_calm [OF assms(1)] by (auto simp: op_when_def run_op)

lemma dynamo_done_map:
  assumes "item_put daoId i (map_columns f x) u t" and "same_drafts s u"
    and "ds_items s daoId i = Some x" and "P (core (item_columns x))"
    and "F (core (item_columns x)) = Some (core (f (item_columns x)))"
    and "dc_isArchived (f (item_columns x)) = dc_isArchived (item_columns x)"
  shows "dynamo_done P F daoId i s t"
  using assms
  by (intro dynamo_done_put [where x = x and y = "map_columns f x" and u = u])
    (simp_all add: item_changed_def map_columns_def archived_def)

lemma op_now_const: "op_bind op_now (\<lambda>_. m) = m"
  by (rule ext) (simp add: run_op)

text \<open>The common shape of the methods that mark an item, with and without a time.\<close>

lemma mark_calm:
  assumes "calm s" and "op_bind (dynamo_draft daoId i) (\<lambda>x.
      op_then (op_when (b x) (op_bind op_now (\<lambda>now. save_draft_item daoId i (map_columns (f now x) x))))
        (op_ret True)) s = (Inr v, t)"
    and "\<And>x. b x = P (core (item_columns x))"
    and "\<And>now x. F (core (item_columns x)) = Some (core (f now x (item_columns x)))"
    and "\<And>now x. dc_isArchived (f now x (item_columns x)) = dc_isArchived (item_columns x)"
  shows "dynamo_done P F daoId i s t"
proof -
  obtain x where x: "ds_items s daoId i = Some x"
    using assms(1,2) by (auto simp: calm_dynamo_draft run_op(3) split: option.splits)
  have run: "op_then (op_when (b x) (op_bind op_now (\<lambda>now. save_draft_item daoId i (map_columns (f now x) x))))
        (op_ret True) (tick s) = (Inr v, t)"
    using assms(1,2) x by (simp add: calm_dynamo_draft run_op(3))
  show ?thesis
  proof (cases "b x")
    case False
    then have "t = tick s" using run by (simp add: run_op)
    then show ?thesis using False assms(3) by (intro dynamo_done_same [OF x]) simp_all
  next
    case True
    then obtain now where "op_then (save_draft_item daoId i (map_columns (f now x) x)) (op_ret True)
        (tick s) = (Inr v, t)" using run by (simp add: run_op)
    from save_then_calm [OF _ this] have "item_put daoId i (map_columns (f now x) x) (tick s) t"
      using assms(1) by simp
    then show ?thesis
      by (rule dynamo_done_map) (use True x assms(3-5) in simp_all)
  qed
qed

lemma dynamo_view_calm:
  assumes "calm s" and "dynamo_view daoId i a s = (Inr v, t)"
  shows "dynamo_done (\<lambda>c. a \<notin> set (df_viewAccounts c))
    (\<lambda>c. Some (c\<lparr>df_viewAccounts := df_viewAccounts c @ [a]\<rparr>)) daoId i s t"
  using assms unfolding dynamo_view_def
  by (intro mark_calm [where f = "\<lambda>now x c. c\<lparr>df_viewAccounts := df_viewAccounts c @ [a]\<rparr>"
        and b = "\<lambda>x. a \<notin> set (df_viewAccounts (item_columns x))"])
    (simp_all add: core_item_changes op_now_const)

lemma dynamo_save_calm:
  assumes "calm s" and "dynamo_save daoId i a s = (Inr v, t)"
  shows "dynamo_done (\<lambda>c. a \<notin> set (df_saveAccounts c))
    (\<lambda>c. Some (c\<lparr>df_saveAccounts := df_saveAccounts c @ [a]\<rparr>)) daoId i s t"
  using assms unfolding dynamo_save_def
  by (intro mark_calm [where f = "\<lambda>now x c. c\<lparr>df_saveAccounts := df_saveAccounts c @ [a],
          dc_updateTimestamp := Some now\<rparr>" and b = "\<lambda>x. a \<notin> set (df_saveAccounts (item_columns x))"])
    (simp_all add: core_item_changes)

lemma dynamo_removeSave_calm:
  assumes "calm s" and "dynamo_removeSave daoId i a s = (Inr v, t)"
  shows "dynamo_done (\<lambda>c. a \<in> set (df_saveAccounts c))
    (\<lambda>c. Some (c\<lparr>df_saveAccounts := filter (\<lambda>x. x \<noteq> a) (df_saveAccounts c)\<rparr>)) daoId i s t"
  using assms unfolding dynamo_removeSave_def
  by (intro mark_calm [where f = "\<lambda>now x c. c\<lparr>df_saveAccounts := filter (\<lambda>y. y \<noteq> a) (df_saveAccounts c),
          dc_updateTimestamp := Some now\<rparr>" and b = "\<lambda>x. a \<in> set (df_saveAccounts (item_columns x))"])
    (simp_all add: core_item_changes)

lemma dynamo_closeInternal_calm:
  assumes "calm s" and "dynamo_closeInternal daoId i p s = (r, t)" and "ds_items s daoId i \<noteq> None"
  shows "dynamo_done (\<lambda>c. True) (\<lambda>c. Some (closing p c)) daoId i s t"
proof -
  obtain x where x: "ds_items s daoId i = Some x" using assms(3) by blast
  then obtain now where "save_draft_item daoId i (close_item now p x) (tick s) = (r, t)"
    using assms(1,2) by (simp add: dynamo_closeInternal_def calm_item run_op)
  moreover have "calm (tick s)" using assms(1) by simp
  ultimately have "item_put daoId i (close_item now p x) (tick s) t"
    using calm_save_item [of "tick s" daoId i "close_item now p x"] by auto
  then show ?thesis
    unfolding close_item_def by (rule dynamo_done_map) (simp_all add: x core_item_changes)
qed

lemma dynamo_close_calm:
  assumes "calm s" and "dynamo_close daoId i a p s = (Inr v, t)" and "item_columns_ok s"
    and "ds_apiDao s = ds_dynDao s"
  shows "dynamo_done (\<lambda>c. may_add (ds_apiDao s) c a \<and> df_state c = DS_Open)
    (\<lambda>c. Some (closing p c)) daoId i s t"
proof -
  obtain x where x: "ds_items s daoId i = Some x"
    using assms(1,2) by (auto simp: dynamo_close_def calm_dynamo_draft run_op(3) split: option.splits)
  have daoId: "df_daoId (item_columns x) = daoId" using assms(3) x by (simp add: item_columns_ok_def)
  obtain q where q: "may_add (ds_apiDao s) (core (item_columns x)) a"
    "op_then (op_when (df_state (item_columns x) \<noteq> DS_Closed)
        (op_bind op_now (\<lambda>now. save_draft_item daoId i (close_item now p x)))) (op_ret True) q = (Inr v, t)"
    "q = tick (tick s)"
    using assms(1,2,4) x daoId
    by (auto simp: dynamo_close_def calm_dynamo_draft calm_dynamo_permissions run_op(2,3) may_add_def
        split: option.splits sum.splits if_splits)
  show ?thesis
  proof (cases "df_state (item_columns x) = DS_Closed")
    case True
    then have "t = q" using q(2) by (simp add: run_op)
    then show ?thesis using True q(3)
      by (intro dynamo_done_same [OF x]) (simp_all add: same_drafts_def same_env_def)
  next
    case False
    then obtain now where "op_then (save_draft_item daoId i (close_item now p x)) (op_ret True) q = (Inr v, t)"
      using q(2) by (simp add: run_op)
    from save_then_calm [OF _ this] have "item_put daoId i (close_item now p x) q t"
      using assms(1) q(3) by simp
    then show ?thesis
      unfolding close_item_def
      by (rule dynamo_done_map)
        (use False q(1,3) x in \<open>simp_all add: core_item_changes same_drafts_def same_env_def, cases "df_state (item_columns x)", simp_all\<close>)
  qed
qed

lemma permissions_calm:
  assumes "calm s" and "op_bind (dynamo_draft daoId i) (\<lambda>x.
      op_bind (dynamo_permissions daoId (type x) a) (\<lambda>p.
      if df_proposer (item_columns x) \<noteq> a \<and> \<not> isCouncil p then op_fail not_proposer else k x)) s
      = (Inr v, t)"
    and "item_columns_ok s" and "ds_apiDao s = ds_dynDao s"
  shows "\<exists>x. ds_items s daoId i = Some x \<and> permitted (ds_apiDao s) (core (item_columns x)) (type x) a
    \<and> k x (tick (tick s)) = (Inr v, t)"
proof -
  obtain x where x: "ds_items s daoId i = Some x"
    using assms(1,2) by (auto simp: calm_dynamo_draft run_op(3) split: option.splits)
  then have daoId: "df_daoId (item_columns x) = daoId" using assms(3) by (simp add: item_columns_ok_def)
  have run: "op_bind (dynamo_permissions daoId (type x) a) (\<lambda>p.
      if df_proposer (item_columns x) \<noteq> a \<and> \<not> isCouncil p then op_fail not_proposer else k x) (tick s)
      = (Inr v, t)"
    using assms(1,2) x by (simp add: calm_dynamo_draft run_op(3))
  obtain dao where dao: "ds_dynDao s daoId = Some dao"
    using run assms(1) by (auto simp: calm_dynamo_permissions run_op(3) split: option.splits)
  obtain p where p: "dao_permissions dao (Some (type x)) a = Inr p"
    using run assms(1) dao by (auto simp: calm_dynamo_permissions run_op(3) split: sum.splits)
  have "df_proposer (item_columns x) = a \<or> isCouncil p" "k x (tick (tick s)) = (Inr v, t)"
    using run assms(1) dao p
    by (auto simp: calm_dynamo_permissions run_op(2,3) split: if_splits)
  then show ?thesis
    using x p dao daoId assms(4) by (auto simp: permitted_def may_change_def)
qed

lemma dynamo_update_calm:
  assumes "calm s" and "dynamo_update daoId i a dto s = (Inr v, t)" and "item_columns_ok s"
    and "ds_apiDao s = ds_dynDao s"
  shows "dynamo_done (\<lambda>c. permitted (ds_apiDao s) c (ud_type dto) a)
    (\<lambda>c. Some (with_update dto c)) daoId i s t"
proof -
  let ?c = "\<lambda>x. (item_columns x)\<lparr>df_title := ud_title dto, df_description := ud_description dto,
     df_kind := ud_kind dto, df_type := ud_type dto\<rparr>"
  obtain x where x: "ds_items s daoId i = Some x"
    "permitted (ds_apiDao s) (core (item_columns x)) (ud_type dto) a"
    "op_bind op_now (\<lambda>now. op_then (save_draft_item daoId i (Draft_Item (?c x) (item_history x @ [(x, now)])))
       (op_ret (df_id (item_columns x)))) (tick (tick s)) = (Inr v, t)"
    using permissions_calm [OF assms(1) assms(2) [unfolded dynamo_update_def] assms(3,4)] by blast
  then obtain h where "op_then (save_draft_item daoId i (Draft_Item (?c x) h))
       (op_ret (df_id (item_columns x))) (tick (tick s)) = (Inr v, t)"
    by (simp add: run_op(3,11))
  from save_then_calm [OF _ this] have put: "item_put daoId i (Draft_Item (?c x) h) (tick (tick s)) t"
    using assms(1) by simp
  show ?thesis
    by (rule dynamo_done_put [where x = x and y = "Draft_Item (?c x) h" and u = "tick (tick s)"])
      (use x(1,2) put in \<open>simp_all add: item_changed_def archived_def core_item_changes same_drafts_def same_env_def\<close>)
qed

lemma dynamo_delete_calm:
  assumes "calm s" and "dynamo_delete daoId i a s = (Inr v, t)" and "item_columns_ok s"
    and "ds_apiDao s = ds_dynDao s"
  shows "dynamo_done (\<lambda>c. permitted (ds_apiDao s) c (df_type c) a \<and> df_state c = DS_Open)
    (\<lambda>c. None) daoId i s t"
proof -
  obtain x where x: "ds_items s daoId i = Some x"
    "permitted (ds_apiDao s) (core (item_columns x)) (df_type (item_columns x)) a"
    "(if df_state (item_columns x) = DS_Closed then op_fail draft_closed
      else op_bind op_now (\<lambda>now. op_then (save_draft_item daoId i (map_columns
           (\<lambda>c. c\<lparr>dc_updateTimestamp := Some now, dc_isArchived := Some True\<rparr>) x)) (op_ret i)))
       (tick (tick s)) = (Inr v, t)"
    using permissions_calm [OF assms(1) assms(2) [unfolded dynamo_delete_def] assms(3,4)] by blast
  then have state: "df_state (item_columns x) \<noteq> DS_Closed" by (auto simp: run_op(2))
  define y where "y now = map_columns
     (\<lambda>c. c\<lparr>dc_updateTimestamp := Some now, dc_isArchived := Some True\<rparr>) x" for now
  obtain now where "op_then (save_draft_item daoId i (y now)) (op_ret i) (tick (tick s)) = (Inr v, t)"
    using x(3) state by (simp add: run_op(3,11) y_def)
  from save_then_calm [OF _ this] have put: "item_put daoId i (y now) (tick (tick s)) t"
    using assms(1) by simp
  show ?thesis
    by (rule dynamo_done_put [where x = x and y = "y now" and u = "tick (tick s)"])
      (use x(1,2) put state in \<open>simp_all add: item_changed_def archived_def map_columns_def y_def
          core_item_changes same_drafts_def same_env_def, cases "df_state (item_columns x)", simp_all\<close>)
qed

text \<open>A method that fails in a calm state has changed nothing.\<close>

definition clean :: "('b draft_store_scheme, 'a) op \<Rightarrow> bool" where
  "clean m \<longleftrightarrow> (\<forall>s e t. calm s \<longrightarrow> m s = (Inl e, t) \<longrightarrow> same_drafts s t)"

lemma clean_bind:
  assumes "drafts.stays m" and "\<And>x. clean (f x)"
  shows "clean (op_bind m f)"
  unfolding clean_def
proof (intro allI impI)
  fix s e t
  assume calm: "calm s" and run: "op_bind m f s = (Inl e, t)"
  obtain r s1 where m: "m s = (r, s1)" by fastforce
  have s1: "same_drafts s s1" by (rule drafts.staysD [OF assms(1) m])
  show "same_drafts s t"
  proof (cases r)
    case (Inl e')
    then show ?thesis using run m s1 by (simp add: run_op)
  next
    case (Inr x)
    then have "f x s1 = (Inl e, t)" using run m by (simp add: run_op)
    then have "same_drafts s1 t" using assms(2) calm_same_drafts [OF s1 calm] unfolding clean_def by blast
    then show ?thesis by (rule drafts.R_trans [OF s1])
  qed
qed

lemma clean_stays: "drafts.stays m \<Longrightarrow> clean m"
  using drafts.staysD unfolding clean_def by blast

lemma clean_save: "clean (op_then (save_draft_item daoId i x) (op_ret v))"
  unfolding clean_def
proof (intro allI impI)
  fix s e t
  assume "calm s" and "op_then (save_draft_item daoId i x) (op_ret v) s = (Inl e, t)"
  then show "same_drafts s t"
    using calm_save_item [of s daoId i x] by (auto simp: run_op)
qed

lemma clean_when: "clean (op_then m (op_ret v)) \<Longrightarrow> clean (op_then (op_when b m) (op_ret v))"
  by (cases b) (simp_all add: op_when_def clean_def run_op)

lemma op_bind_then: "op_then (op_bind m f) k = op_bind m (\<lambda>x. op_then (f x) k)"
  by (rule ext) (simp add: run_op split: prod.split sum.split)

lemma drafts_dynamo: "drafts.stays (dynamo_draft daoId i)" "drafts.stays (dynamo_permissions daoId type a)"
  unfolding dynamo_draft_def dynamo_permissions_def by (intro drafts.stays_intros drafts_reads)+

lemma clean_if: "(b \<Longrightarrow> clean m) \<Longrightarrow> (\<not> b \<Longrightarrow> clean k) \<Longrightarrow> clean (if b then m else k)"
  by simp

lemmas clean_intros = clean_if clean_bind clean_when clean_save drafts_dynamo drafts.stays_ret
  clean_stays [OF drafts.stays_ret(2)]

lemma dynamo_clean:
  "clean (dynamo_update daoId i a up)" "clean (dynamo_delete daoId i a)"
  "clean (dynamo_view daoId i a)" "clean (dynamo_save daoId i a)" "clean (dynamo_removeSave daoId i a)"
  "clean (dynamo_close daoId i a p)"
  unfolding dynamo_update_def dynamo_delete_def dynamo_view_def dynamo_save_def dynamo_removeSave_def
    dynamo_close_def
  by (intro clean_intros; simp add: op_bind_then; intro clean_intros)+

section \<open>The facade in calm states\<close>

definition in_step :: "string set \<Rightarrow> 'b draft_store_scheme \<Rightarrow> bool" where
  "in_step X s \<longleftrightarrow> calm s \<and> keyed s \<and> ids_ok s \<and> ds_apiDao s = ds_dynDao s \<and> stores_agree X s"

lemma in_stepD:
  assumes "in_step X s"
  shows "calm s" "keyed s" "ids_ok s" "ds_apiDao s = ds_dynDao s" "stores_agree X s" "item_columns_ok s"
  using assms stores_agreeD(2) [of X s] by (auto simp: in_step_def item_columns_ok_def)

lemma facade_agrees:
  assumes S: "in_step X s" and "clean m"
    and D: "\<And>v u. m s = (Inr v, u) \<Longrightarrow> dynamo_done P F daoId i s u"
    and M: "\<And>u. calm u \<Longrightarrow> keyed u \<Longrightarrow> ds_apiDao u = ds_apiDao s \<Longrightarrow> mongo_done P F i u (snd (k u))"
    and F: "\<And>c c'. P c \<Longrightarrow> F c = Some c' \<Longrightarrow> df_id c' = df_id c \<and> df_daoId c' = df_daoId c"
  shows "stores_agree X (ignore (op_then m k) s)"
proof -
  note S = in_stepD [OF S]
  obtain r u where m: "m s = (r, u)" by fastforce
  show ?thesis
  proof (cases r)
    case (Inl e)
    then have "same_drafts s u" using assms(2) S(1) m unfolding clean_def by blast
    then have "stores_agree X u" using stores_agree_same [OF S(5)] by (simp add: same_drafts_def)
    then show ?thesis using m Inl by (simp add: ignore_def run_op)
  next
    case (Inr v)
    have d: "dynamo_done P F daoId i s u" using D m Inr by blast
    then have u: "same_mongo s u" by (simp add: dynamo_done_def)
    have "mongo_done P F i u (snd (k u))"
      by (rule M [OF calm_same_mongo [OF u S(1)] keyed_mongo [OF u S(2)]])
        (use u in \<open>simp add: same_mongo_def same_env_def\<close>)
    from stores_agree_step [OF S(5) d this F] have "stores_agree X (snd (k u))" by blast
    then show ?thesis using m Inr by (simp add: ignore_def run_op)
  qed
qed

text \<open>The event changes MongoDB first; the two changes can be told apart and made in either order.\<close>

lemma event_addressed:
  assumes S: "in_step X s" and addressed: "\<And>d. ds_drafts s i = Some d \<Longrightarrow> df_daoId d = daoId"
  shows "stores_agree X (ignore (onCloseDraftProposal daoId i p) s)"
proof -
  note S = in_stepD [OF S]
  let ?P = "\<lambda>c :: draft. True" and ?F = "\<lambda>c. Some (closing p c)"
  obtain r u where m: "mongo_closeInternal i p s = (r, u)" by fastforce
  have M: "mongo_done ?P ?F i s u" using mongo_closeInternal_calm [OF S(1,2), of p i] m by simp
  have r: "r = Inr ()" using m S(1)
    by (auto simp: mongo_closeInternal_def calm_find calm_writes run_op split: option.splits)
  have calm_u: "calm u" using M calm_env [OF _ S(1)] by (simp add: mongo_done_def)
  obtain r' t where d: "dynamo_closeInternal daoId i p u = (r', t)" by fastforce
  have t: "ignore (onCloseDraftProposal daoId i p) s = t"
    using m r d by (simp add: onCloseDraftProposal_def ignore_def run_op)
  have items: "ds_items u = ds_items s" using M by (simp add: mongo_done_def)
  show ?thesis
  proof (cases "ds_items s daoId i")
    case None
    have same: "same_drafts u t" using d calm_u None items
      by (simp add: dynamo_closeInternal_def calm_item run_op) (metis same_drafts_tick)
    have "ds_drafts s i = None"
    proof (rule ccontr)
      assume "ds_drafts s i \<noteq> None"
      then obtain d where "ds_drafts s i = Some d" by blast
      then show False using stores_agreeD(1) [OF S(5)] addressed None by fastforce
    qed
    then have "ds_drafts u = ds_drafts s" using M by (simp add: mongo_done_def)
    then have "stores_agree X t"
      using stores_agree_same [OF S(5), of t] same items M fixed.R_trans
      by (auto simp: same_drafts_def mongo_done_def)
    then show ?thesis by (simp add: t)
  next
    case (Some x)
    then have "dynamo_done ?P ?F daoId i u t"
      using dynamo_closeInternal_calm [OF calm_u d] items by simp
    then obtain y where y: "same_mongo u t" "item_put daoId i y u t" "item_changed ?F x y"
      using Some items by (auto simp: dynamo_done_def)
    define w where "w = t\<lparr>ds_drafts := ds_drafts s\<rparr>"
    have env: "same_env s t" using M y(1) fixed.R_trans by (auto simp: mongo_done_def same_mongo_def)
    have "same_mongo s w" using env by (simp add: w_def same_mongo_def same_env_def)
    moreover have "item_put daoId i y s w"
      using y(2) calculation items by (simp add: item_put_def w_def)
    ultimately have "dynamo_done ?P ?F daoId i s w" using Some y(3) by (auto simp: dynamo_done_def)
    moreover have "mongo_done ?P ?F i w t"
      using M y(1) by (auto simp: mongo_done_def w_def same_env_def same_mongo_def split: option.splits)
    ultimately have "stores_agree X t"
      by (rule stores_agree_step [OF S(5)]) (simp add: closing_def)
    then show ?thesis by (simp add: t)
  qed
qed

text \<open>
  An event that names another DAO closes the draft in MongoDB, which looks it up by its id alone, and
  finds no item in DynamoDB.
\<close>

lemma event_misaddressed:
  assumes S: "in_step X s" and d: "ds_drafts s i = Some d" and other: "df_daoId d \<noteq> daoId"
  shows "ds_items (serve (RQ_closeInternal daoId i p) s) = ds_items s"
    and "\<exists>d'. ds_drafts (serve (RQ_closeInternal daoId i p) s) i = Some d' \<and> core d' = closing p (core d)"
    and "stores_agree (insert i X) (serve (RQ_closeInternal daoId i p) s)"
proof -
  note S = in_stepD [OF S]
  obtain r u where m: "mongo_closeInternal i p s = (r, u)" by fastforce
  have M: "mongo_done (\<lambda>c :: draft. True) (\<lambda>c. Some (closing p c)) i s u"
    using mongo_closeInternal_calm [OF S(1,2), of p i] m by simp
  have r: "r = Inr ()" using m S(1)
    by (auto simp: mongo_closeInternal_def calm_find calm_writes run_op split: option.splits)
  have calm_u: "calm u" using M calm_env [OF _ S(1)] by (simp add: mongo_done_def)
  have items: "ds_items u = ds_items s" using M by (simp add: mongo_done_def)
  obtain x where x: "ds_items s (df_daoId d) i = Some x" using stores_agreeD(1) [OF S(5) d] by blast
  have none: "ds_items u daoId i = None"
  proof (rule ccontr)
    assume "ds_items u daoId i \<noteq> None"
    then show False using stores_agreeD(5) [OF S(5) x] items other by fastforce
  qed
  obtain r' t where run: "dynamo_closeInternal daoId i p u = (r', t)" by fastforce
  have same: "same_drafts u t"
    using run calm_u none by (simp add: dynamo_closeInternal_def calm_item run_op) (metis same_drafts_tick)
  have t: "serve (RQ_closeInternal daoId i p) s = t"
    using m r run by (simp add: onCloseDraftProposal_def ignore_def run_op)
  have ti: "ds_items t = ds_items s" and td: "ds_drafts t = ds_drafts u"
    using same items by (simp_all add: same_drafts_def)
  then show "ds_items (serve (RQ_closeInternal daoId i p) s) = ds_items s" unfolding t by simp
  have here: "map_option core (ds_drafts t i) = Some (closing p (core d))"
    and others: "\<And>j. j \<noteq> i \<Longrightarrow> ds_drafts t j = ds_drafts s j"
    using M d td by (auto simp: mongo_done_def)
  then show "\<exists>d'. ds_drafts (serve (RQ_closeInternal daoId i p) s) i = Some d' \<and> core d' = closing p (core d)"
    unfolding t by (cases "ds_drafts t i") auto
  have env: "same_env s t" using M same fixed.R_trans by (auto simp: mongo_done_def same_drafts_def)
  have agree: "stores_agree (insert i X) s" using S(5) unfolding stores_agree_def by blast
  show "stores_agree (insert i X) (serve (RQ_closeInternal daoId i p) s)"
    unfolding t
  proof (rule stores_agree_loose [OF agree _ env others])
    fix d' assume "ds_drafts t i = Some d'"
    then have "core d' = closing p (core d)" using here by simp
    then have "df_daoId (core d') = df_daoId (core d)" by (simp add: closing_def)
    then show "\<exists>d. ds_drafts s i = Some d \<and> df_daoId d = df_daoId d'" using d by simp
  qed (simp_all add: ti)
qed

lemma calm_insert: "calm s \<Longrightarrow> insert_draft d s =
    (let now = st_now s (Suc (st_tick s)); d' = d\<lparr>df_id := st_newId s (Suc (st_tick s)),
       df_createdAt := now, df_updatedAt := now\<rparr> in (Inr d', put_draft d' (tick s)))"
  by (simp add: insert_draft_def run_simps tick_def)

lemma create_agrees:
  assumes S: "in_step X s"
  shows "stores_agree X (ignore (draft_create a dto) s)"
proof -
  note S = in_stepD [OF S]
  define j where "j = st_newId s (Suc (st_tick s))"
  obtain d s1 where ins: "insert_draft (new_draft a dto) s = (Inr d, s1)" "df_id d = j"
      "core d = (core (new_draft a dto))\<lparr>df_id := j\<rparr>" "s1 = put_draft d (tick s)"
    using calm_insert [OF S(1), of "new_draft a dto"]
    by (auto simp: j_def Let_def core_def draft.truncate_def)
  have "calm s1" using S(1) ins(4) by simp
  then obtain s2 where ix: "indexDraftProposal j (Some d) s1 = (Inr (), s2)" "same_drafts s1 s2"
    using calm_index by blast
  then have s2: "calm s2" using \<open>calm s1\<close> calm_same_drafts by blast
  define y where "y now = Draft_Item (draft.extend ((new_draft a dto)\<lparr>df_id := j, df_createdAt := now,
     df_updatedAt := now\<rparr>) \<lparr> dc_isArchived = None, dc_updateTimestamp = None \<rparr>) []" for now
  obtain t now where t: "save_draft_item (cd_daoId dto) j (y now) s2 = (Inr (), t)"
      "item_put (cd_daoId dto) j (y now) s2 t" "ignore (draft_create a dto) s = t"
  proof -
    obtain t where "save_draft_item (cd_daoId dto) j (y (st_now s2 (st_tick s2))) s2 = (Inr (), t)"
        "item_put (cd_daoId dto) j (y (st_now s2 (st_tick s2))) s2 t"
      using calm_save_item [OF s2] by blast
    moreover from this have "ignore (draft_create a dto) s = t"
      using ins(1,2) ix(1)
      by (simp add: ignore_def draft_create_def mongo_create_def dynamo_create_def run_op y_def)
    ultimately show thesis by (rule that)
  qed
  have env: "same_env s t" "st_tick s < st_tick t"
    using ins(4) ix(2) t(2)
    by (auto simp: put_draft_def same_drafts_def item_put_def same_mongo_def same_env_def tick_def)
  have stores: "ds_drafts t = (ds_drafts s)(j \<mapsto> d)"
      "ds_items t = (ds_items s)(cd_daoId dto := (ds_items s (cd_daoId dto))(j \<mapsto> y now))"
    using ins(2,4) ix(2) t(2)
    by (simp_all add: put_draft_def same_drafts_def item_put_def same_mongo_def)
  have inj: "inj (st_newId s)" using S(3) by (simp add: ids_ok_def)
  have unused: "ds_items s daoId j = None" for daoId
  proof (rule ccontr)
    assume "ds_items s daoId j \<noteq> None"
    then obtain x where "ds_items s daoId j = Some x" by blast
    from stores_agreeD(6) [OF S(5) this] obtain n where "n \<le> st_tick s" "j = st_newId s n" by auto
    then have "Suc (st_tick s) = n" using inj by (simp add: j_def injD)
    then show False using \<open>n \<le> st_tick s\<close> by simp
  qed
  have cols: "core (item_columns (y now)) = core d" "\<not> archived (y now)" "df_daoId d = cd_daoId dto"
      "df_id (item_columns (y now)) = j" "df_daoId (item_columns (y now)) = cd_daoId dto"
    using ins(3) arg_cong [OF ins(3), of df_daoId]
    by (simp_all add: y_def core_def draft.defs archived_def new_draft_def)
  note A = stores_agreeD [OF S(5)]
  have j: "j \<in> st_newId t ` {..st_tick t}"
    using env by (auto simp: j_def same_env_def intro!: imageI)
  have "stores_agree X t"
  proof (rule stores_agreeI)
    fix i e assume e: "ds_drafts t i = Some e"
    show "\<exists>x. ds_items t (df_daoId e) i = Some x
        \<and> (i \<notin> X \<longrightarrow> core (item_columns x) = core e \<and> \<not> archived x)"
    proof (cases "i = j")
      case True
      then show ?thesis using e stores cols by simp
    next
      case False
      then show ?thesis
        using A(1) [of i e] e stores by (cases "df_daoId e = cd_daoId dto") simp_all
    qed
  next
    fix daoId i x assume x: "ds_items t daoId i = Some x"
    show "df_daoId (item_columns x) = daoId \<and> df_id (item_columns x) = i
      \<and> (i \<notin> X \<longrightarrow> \<not> archived x \<longrightarrow> ds_drafts t i \<noteq> None)
      \<and> (\<forall>daoId'. ds_items t daoId' i \<noteq> None \<longrightarrow> daoId' = daoId)
      \<and> i \<in> st_newId t ` {..st_tick t}"
    proof (cases "i = j")
      case True
      then have "daoId = cd_daoId dto" "x = y now"
        using x stores unused by (auto split: if_splits)
      then show ?thesis using True stores cols j unused by auto
    next
      case False
      then have x': "ds_items s daoId i = Some x" using x stores by (auto split: if_splits)
      show ?thesis
        using A(2-5) [OF x'] ids_grow [OF env(1) A(6) [OF x']] stores False by auto
    qed
  qed
  then show ?thesis using t(3) by simp
qed

text \<open>The draft an event closes though it belongs to another DAO than the one the event names.\<close>

fun misaddressed :: "draft_request \<Rightarrow> 'b draft_store_scheme \<Rightarrow> string set" where
  "misaddressed (RQ_closeInternal daoId i p) s =
     (case ds_drafts s i of None \<Rightarrow> {} | Some d \<Rightarrow> if df_daoId d = daoId then {} else {i})"
| "misaddressed _ s = {}"

lemma serve_agrees:
  assumes S: "in_step X s"
  shows "stores_agree (X \<union> misaddressed rq s) (serve rq s)"
proof (cases rq)
  case (RQ_create a dto)
  then show ?thesis using create_agrees [OF S] by simp
next
  case (RQ_update daoId i a dto)
  show ?thesis
    unfolding RQ_update serve.simps facade_draft_ops misaddressed.simps Un_empty_right
    by (rule facade_agrees [OF S dynamo_clean(1)],
        erule dynamo_update_calm [OF in_stepD(1) [OF S] _ in_stepD(6,4) [OF S]],
        metis mongo_update_calm, auto simp: with_update_def)
next
  case (RQ_delete daoId i a)
  show ?thesis
    unfolding RQ_delete serve.simps facade_draft_ops misaddressed.simps Un_empty_right
    by (rule facade_agrees [OF S dynamo_clean(2)],
        erule dynamo_delete_calm [OF in_stepD(1) [OF S] _ in_stepD(6,4) [OF S]],
        metis mongo_delete_calm, auto)
next
  case (RQ_view daoId i a)
  show ?thesis
    unfolding RQ_view serve.simps facade_draft_ops misaddressed.simps Un_empty_right
    by (rule facade_agrees [OF S dynamo_clean(3)],
        erule dynamo_view_calm [OF in_stepD(1) [OF S]], erule (1) mongo_view_calm, auto)
next
  case (RQ_save daoId i a)
  show ?thesis
    unfolding RQ_save serve.simps facade_draft_ops misaddressed.simps Un_empty_right
    by (rule facade_agrees [OF S dynamo_clean(4)],
        erule dynamo_save_calm [OF in_stepD(1) [OF S]], erule (1) mongo_save_calm, auto)
next
  case (RQ_removeSave daoId i a)
  show ?thesis
    unfolding RQ_removeSave serve.simps facade_draft_ops misaddressed.simps Un_empty_right
    by (rule facade_agrees [OF S dynamo_clean(5)],
        erule dynamo_removeSave_calm [OF in_stepD(1) [OF S]], erule (1) mongo_removeSave_calm, auto)
next
  case (RQ_close daoId i a p)
  show ?thesis
    unfolding RQ_close serve.simps facade_draft_ops misaddressed.simps Un_empty_right
    by (rule facade_agrees [OF S dynamo_clean(6)],
        erule dynamo_close_calm [OF in_stepD(1) [OF S] _ in_stepD(6,4) [OF S]],
        metis mongo_close_calm, auto simp: closing_def)
next
  case (RQ_closeInternal daoId i p)
  show ?thesis
  proof (cases "misaddressed rq s = {}")
    case True
    then have "df_daoId d = daoId" if "ds_drafts s i = Some d" for d
      using that RQ_closeInternal by (simp split: if_splits)
    then have "stores_agree X (serve rq s)"
      unfolding RQ_closeInternal serve.simps using event_addressed [OF S] by blast
    with True show ?thesis by simp
  next
    case False
    then obtain d where "ds_drafts s i = Some d" "df_daoId d \<noteq> daoId" "misaddressed rq s = {i}"
      using RQ_closeInternal by (auto split: option.splits if_splits)
    with event_misaddressed(3) [OF S] show ?thesis unfolding RQ_closeInternal by simp
  qed
qed

text \<open>
  The states that requests and events lead to from stores without drafts, while no request fails, with
  the drafts that were closed by events naming another DAO.
\<close>

inductive drafts_reach :: "draft_store \<Rightarrow> draft_store \<Rightarrow> string set \<Rightarrow> bool" for s0 where
  reach_start: "drafts_reach s0 s0 {}"
| reach_serve: "drafts_reach s0 s X \<Longrightarrow> drafts_reach s0 (serve rq s) (X \<union> misaddressed rq s)"

definition no_drafts :: "draft_store \<Rightarrow> bool" where
  "no_drafts s \<longleftrightarrow> calm s \<and> inj (st_newId s) \<and> ds_apiDao s = ds_dynDao s
     \<and> (\<forall>i. ds_drafts s i = None) \<and> (\<forall>daoId i. ds_items s daoId i = None)"

lemma no_drafts_in_step: "no_drafts s \<Longrightarrow> in_step {} s"
  by (simp add: no_drafts_def in_step_def keyed_def ids_ok_def stores_agree_def)

lemma serve_in_step:
  assumes "in_step X s"
  shows "in_step (X \<union> misaddressed rq s) (serve rq s)"
proof -
  note S = in_stepD [OF assms(1)]
  have change: "draft_change (allowed rq (ds_apiDao s)) (created rq) s (serve rq s)"
    using S(2,3) by (rule serve_change)
  then have env: "same_env s (serve rq s)" by (simp add: draft_change_def)
  show ?thesis
    unfolding in_step_def
    using keyed_change [OF change S(2)] ids_ok_change [OF change S(3)] calm_env [OF env S(1)]
      serve_agrees [OF assms] env S(4)
    by (simp add: same_env_def)
qed

text \<open>
  C5. The two stores of drafts stay in step: starting from empty stores, while no request fails and both
  stores know the same DAOs, after any sequence of requests and events every draft of MongoDB has an
  item in DynamoDB, in the partition of its DAO; and unless an event that named another DAO has closed
  the draft, the item has the same text, kind, type, state, proposal, readers and savers and is not
  archived, and every item that is not archived has a draft. Such an event, and it alone, parts the two:
  it closes the draft in MongoDB and leaves every item as it is.
\<close>

theorem drafts_in_step:
  assumes "no_drafts s0" and "drafts_reach s0 s X"
  shows "stores_agree X s
     \<and> (\<forall>i d daoId p. ds_drafts s i = Some d \<and> df_daoId d \<noteq> daoId \<longrightarrow>
          (\<exists>d'. ds_drafts (serve (RQ_closeInternal daoId i p) s) i = Some d'
             \<and> core d' = (core d)\<lparr>df_state := DS_Closed, df_proposalId := Some p\<rparr>)
          \<and> ds_items (serve (RQ_closeInternal daoId i p) s) = ds_items s)"
proof -
  from assms(2) have S: "in_step X s"
    by (induction rule: drafts_reach.induct)
      (use no_drafts_in_step [OF assms(1)] serve_in_step in blast)+
  have "(\<exists>d'. ds_drafts (serve (RQ_closeInternal daoId i p) s) i = Some d'
             \<and> core d' = (core d)\<lparr>df_state := DS_Closed, df_proposalId := Some p\<rparr>)
      \<and> ds_items (serve (RQ_closeInternal daoId i p) s) = ds_items s"
    if "ds_drafts s i = Some d" "df_daoId d \<noteq> daoId" for i d daoId p
    using event_misaddressed(1,2) [OF S that] unfolding closing_def by blast
  with in_stepD(5) [OF S] show ?thesis by blast
qed

theorem drafts_in_step_witness:
  "let s0 = sample_store (\<lambda>i. None); s = serve (RQ_create ''a'' sample_new_draft) s0 in
   no_drafts s0 \<and> drafts_reach s0 s {} \<and> stores_agree {} s"
proof -
  let ?s0 = "sample_store (\<lambda>i. None)"
  have start: "no_drafts ?s0"
    using sample_ids by (simp add: no_drafts_def calm_def sample_store_def)
  have reach: "drafts_reach ?s0 (serve (RQ_create ''a'' sample_new_draft) ?s0) {}"
    using reach_serve [OF reach_start, of ?s0 "RQ_create ''a'' sample_new_draft"] by simp
  from drafts_in_step [OF start reach] start reach show ?thesis by (simp add: Let_def)
qed

end
