(* ===== verification/Draft_Comments.thy ===== *)
theory Draft_Comments
  imports Draft_Proposals
begin

text \<open>
  \<open>libs/draft-comment/src\<close>: the comments on drafts, in MongoDB (\<open>MongoDraftCommentService\<close>) and in
  DynamoDB (\<open>DynamoDraftCommentService\<close>), behind \<open>DraftCommentServiceFacade\<close>. The documents of
  MongoDB are listed in the order of their creation; an item of DynamoDB is found by the id of its
  DAO and the ids of its draft and itself. One feature flag says which service sends the events.

  A comment's item is only ever saved under the key made of its own \<open>contextId\<close> and \<open>id\<close>, so an update
  addresses the item that was read.
\<close>

section \<open>Data\<close>

datatype comment_context = CC_DraftProposal

record draft_comment =
  cm_id :: string
  cm_daoId :: string
  cm_contextId :: string
  cm_contextType :: comment_context
  cm_author :: string
  cm_message :: string
  cm_replyTo :: "string option"
  cm_likeAccounts :: "string list"
  cm_dislikeAccounts :: "string list option"
  cm_createdAt :: int
  cm_updatedAt :: int

record comment_item = draft_comment +
  ci_isArchived :: bool

record create_comment =
  cc_contextId :: string
  cc_daoId :: string
  cc_contextType :: comment_context
  cc_message :: string
  cc_replyTo :: "string option"

record comment_params =
  cp_daoId :: string
  cp_draftId :: string
  cp_commentId :: string
  cp_accountId :: string

text \<open>The answer of the API for a comment, without and with its replies.\<close>

record comment_view =
  cv_id :: string
  cv_contextId :: string
  cv_contextType :: comment_context
  cv_author :: string
  cv_message :: string
  cv_replyTo :: "string option"
  cv_likeAccounts :: "string list"
  cv_dislikeAccounts :: "string list option"
  cv_createdAt :: int
  cv_updatedAt :: int

record comment_response = comment_view +
  cr_replies :: "comment_view list option"

definition cast_comment :: "draft_comment \<Rightarrow> comment_view" where
  "cast_comment c =
     \<lparr> cv_id = cm_id c, cv_contextId = cm_contextId c, cv_contextType = cm_contextType c,
       cv_author = cm_author c, cv_message = cm_message c, cv_replyTo = cm_replyTo c,
       cv_likeAccounts = cm_likeAccounts c, cv_dislikeAccounts = cm_dislikeAccounts c,
       cv_createdAt = cm_createdAt c, cv_updatedAt = cm_updatedAt c \<rparr>"

definition castDraftCommentResponse ::
    "draft_comment \<Rightarrow> draft_comment list option \<Rightarrow> comment_response" where
  "castDraftCommentResponse c replies =
     comment_view.extend (cast_comment c)
       \<lparr> cr_replies = map_option (\<lambda>rs.
           map cast_comment (filter (\<lambda>r. cm_replyTo r = Some (cm_id c)) rs)) replies \<rparr>"

datatype comment_payload = Sent_Response comment_response | Sent_Item comment_item

datatype comment_event =
    New_Comment comment_payload
  | Updated_Comment comment_payload
  | Deleted_Comment comment_payload

section \<open>The state\<close>

record comment_store = draft_store +
  cs_comments :: "draft_comment list"
  cs_items :: "string \<Rightarrow> string \<Rightarrow> comment_item option"
  cs_sent :: "comment_event list"

definition same_context :: "draft_comment \<Rightarrow> draft_comment \<Rightarrow> bool" where
  "same_context c c' \<longleftrightarrow> cm_contextId c' = cm_contextId c \<and> cm_contextType c' = cm_contextType c"

definition find_comment :: "string \<Rightarrow> ('b comment_store_scheme, draft_comment option) op" where
  "find_comment i = access (op_get (\<lambda>s. find (\<lambda>c. cm_id c = i) (cs_comments s)))"

definition insert_comment :: "draft_comment \<Rightarrow> ('b comment_store_scheme, draft_comment) op" where
  "insert_comment c = access (\<lambda>s.
     let now = st_now s (st_tick s);
         c' = c\<lparr>cm_id := st_newId s (st_tick s), cm_createdAt := now, cm_updatedAt := now\<rparr>
     in (Inr c', s\<lparr>cs_comments := cs_comments s @ [c']\<rparr>))"

definition set_comment ::
    "string \<Rightarrow> (draft_comment \<Rightarrow> draft_comment) \<Rightarrow> 'b comment_store_scheme \<Rightarrow> 'b comment_store_scheme" where
  "set_comment i f s =
     s\<lparr>cs_comments := map (\<lambda>c. if cm_id c = i then f c else c) (cs_comments s)\<rparr>"

definition save_comment :: "draft_comment \<Rightarrow> ('b comment_store_scheme, draft_comment) op" where
  "save_comment c = access (\<lambda>s.
     let c' = c\<lparr>cm_updatedAt := st_now s (st_tick s)\<rparr>
     in (Inr c', set_comment (cm_id c) (\<lambda>_. c') s))"

definition update_comment ::
    "string \<Rightarrow> (draft_comment \<Rightarrow> draft_comment) \<Rightarrow> ('b comment_store_scheme, unit) op" where
  "update_comment i f = access (op_put (set_comment i f))"

definition delete_comments :: "string list \<Rightarrow> ('b comment_store_scheme, unit) op" where
  "delete_comments ids = access (op_put (\<lambda>s.
     s\<lparr>cs_comments := filter (\<lambda>c. cm_id c \<notin> set ids) (cs_comments s)\<rparr>))"

definition count_comments :: "draft_comment \<Rightarrow> ('b comment_store_scheme, int) op" where
  "count_comments c = access (op_get (\<lambda>s.
     int (length (filter (same_context c) (cs_comments s)))))"

definition find_replies :: "string \<Rightarrow> ('b comment_store_scheme, string list) op" where
  "find_replies i = access (op_get (\<lambda>s.
     map cm_id (filter (\<lambda>c. cm_replyTo c = Some i) (cs_comments s))))"

definition send_comment :: "comment_event \<Rightarrow> ('b comment_store_scheme, unit) op" where
  "send_comment e = access (op_put (\<lambda>s. s\<lparr>cs_sent := cs_sent s @ [e]\<rparr>))"

section \<open>MongoDraftCommentService\<close>

definition no_comment :: "string \<Rightarrow> exn" where
  "no_comment i = HttpError 404 (''Draft comment '' @ i @ '' does not exist'')"

definition not_author :: exn where
  "not_author = HttpError 403 ''Account is not the author''"

definition useMongo :: "('b comment_store_scheme, bool) op" where
  "useMongo = op_bind (check_flag ''draft-comments-dynamo'') (\<lambda>flag. op_ret (\<not> flag))"

definition mongo_send :: "comment_event \<Rightarrow> ('b comment_store_scheme, unit) op" where
  "mongo_send e = op_bind useMongo (\<lambda>yes. op_when yes (send_comment e))"

definition new_comment :: "string \<Rightarrow> string \<Rightarrow> string \<Rightarrow> string \<Rightarrow> string option \<Rightarrow> draft_comment" where
  "new_comment daoId contextId author message replyTo =
     \<lparr> cm_id = [], cm_daoId = daoId, cm_contextId = contextId, cm_contextType = CC_DraftProposal,
       cm_author = author, cm_message = message, cm_replyTo = replyTo, cm_likeAccounts = [],
       cm_dislikeAccounts = Some [], cm_createdAt = 0, cm_updatedAt = 0 \<rparr>"

definition createDraftProposalComment ::
    "string \<Rightarrow> create_comment \<Rightarrow> ('b comment_store_scheme, string) op" where
  "createDraftProposalComment accountId dto =
     op_bind (find_draft (cc_contextId dto)) (\<lambda>found.
     op_bind (op_need (no_draft (cc_contextId dto)) found) (\<lambda>d.
     op_bind (insert_comment (new_comment (df_daoId d) (cc_contextId dto) accountId (cc_message dto) None))
       (\<lambda>c.
     op_bind (count_comments c) (\<lambda>n.
     op_then (updateReplies (df_id d) n)
    (op_then (mongo_send (New_Comment (Sent_Response (castDraftCommentResponse c None))))
             (op_ret (cm_id c)))))))"

definition createDraftCommentReply ::
    "string \<Rightarrow> string \<Rightarrow> create_comment \<Rightarrow> ('b comment_store_scheme, string) op" where
  "createDraftCommentReply replyTo accountId dto =
     op_bind (find_comment replyTo) (\<lambda>found.
     op_bind (op_need (HttpError 404 (''Reply comment '' @ replyTo @ '' does not exist'')) found)
       (\<lambda>replied.
     op_bind (insert_comment ((new_comment (cm_daoId replied) (cm_contextId replied) accountId
         (cc_message dto) (Some replyTo))\<lparr>cm_contextType := cm_contextType replied\<rparr>)) (\<lambda>c.
     op_then
       (op_when (cm_contextType c = CC_DraftProposal)
          (op_bind (count_comments c) (\<lambda>n. updateReplies (cm_contextId c) n)))
    (op_then (mongo_send (New_Comment (Sent_Response (castDraftCommentResponse c None))))
             (op_ret (cm_id c))))))"

text \<open>An empty \<open>replyTo\<close> counts as none; \<open>None\<close> is the answer \<open>undefined\<close>.\<close>

definition given_reply :: "create_comment \<Rightarrow> string option" where
  "given_reply dto = (case cc_replyTo dto of Some (x # xs) \<Rightarrow> Some (x # xs) | _ \<Rightarrow> None)"

definition mongo_comment_create ::
    "string \<Rightarrow> create_comment \<Rightarrow> ('b comment_store_scheme, string) op" where
  "mongo_comment_create accountId dto =
     (case given_reply dto of
        Some replyTo \<Rightarrow> createDraftCommentReply replyTo accountId dto
      | None \<Rightarrow> (case cc_contextType dto of
                    CC_DraftProposal \<Rightarrow> createDraftProposalComment accountId dto))"

definition mongo_comment :: "string \<Rightarrow> ('b comment_store_scheme, draft_comment) op" where
  "mongo_comment i = op_bind (find_comment i) (op_need (no_comment i))"

definition mongo_comment_update ::
    "comment_params \<Rightarrow> string \<Rightarrow> ('b comment_store_scheme, string) op" where
  "mongo_comment_update q message =
     op_bind (mongo_comment (cp_commentId q)) (\<lambda>c.
     if cm_author c \<noteq> cp_accountId q then op_fail not_author
     else
       op_bind (save_comment (c\<lparr>cm_message := message\<rparr>)) (\<lambda>updated.
       op_then (mongo_send (Updated_Comment (Sent_Response (castDraftCommentResponse updated None))))
               (op_ret (cm_id c))))"

definition disliked_by :: "string \<Rightarrow> string \<Rightarrow> exn" where
  "disliked_by i a = HttpError 400 (''Draft comment '' @ i @ '' is disliked by '' @ a)"

definition liked_by :: "string \<Rightarrow> string \<Rightarrow> exn" where
  "liked_by i a = HttpError 400 (''Draft comment '' @ i @ '' is liked by '' @ a)"

definition disliked :: "'b draft_comment_scheme \<Rightarrow> string \<Rightarrow> bool" where
  "disliked c a = (case cm_dislikeAccounts c of None \<Rightarrow> False | Some ds \<Rightarrow> a \<in> set ds)"

text \<open>The end of the four marking methods: the change of the document and its event.\<close>

definition mongo_mark ::
    "draft_comment \<Rightarrow> (draft_comment \<Rightarrow> draft_comment) \<Rightarrow> ('b comment_store_scheme, unit) op" where
  "mongo_mark c f =
     op_then (update_comment (cm_id c) f)
       (mongo_send (Updated_Comment (Sent_Response (castDraftCommentResponse (f c) None))))"

definition mongo_like :: "comment_params \<Rightarrow> ('b comment_store_scheme, bool) op" where
  "mongo_like q =
     op_bind (mongo_comment (cp_commentId q)) (\<lambda>c.
     if disliked c (cp_accountId q) then op_fail (disliked_by (cp_commentId q) (cp_accountId q))
     else
       op_then (op_when (cp_accountId q \<notin> set (cm_likeAccounts c))
           (mongo_mark c (cm_likeAccounts_update (\<lambda>_. cm_likeAccounts c @ [cp_accountId q]))))
         (op_ret True))"

definition mongo_removeLike :: "comment_params \<Rightarrow> ('b comment_store_scheme, bool) op" where
  "mongo_removeLike q =
     op_bind (mongo_comment (cp_commentId q)) (\<lambda>c.
       op_then (op_when (cp_accountId q \<in> set (cm_likeAccounts c))
           (mongo_mark c (cm_likeAccounts_update
              (\<lambda>_. filter (\<lambda>a. a \<noteq> cp_accountId q) (cm_likeAccounts c)))))
         (op_ret True))"

definition mongo_dislike :: "comment_params \<Rightarrow> ('b comment_store_scheme, bool) op" where
  "mongo_dislike q =
     op_bind (mongo_comment (cp_commentId q)) (\<lambda>c.
     if cp_accountId q \<in> set (cm_likeAccounts c)
     then op_fail (liked_by (cp_commentId q) (cp_accountId q))
     else
       op_then (op_when (\<not> disliked c (cp_accountId q))
           (op_bind (op_need (TypeError ''dislikeAccounts is not iterable'') (cm_dislikeAccounts c)) (\<lambda>ds.
              mongo_mark c (cm_dislikeAccounts_update (\<lambda>_. Some (ds @ [cp_accountId q]))))))
         (op_ret True))"

definition mongo_removeDislike :: "comment_params \<Rightarrow> ('b comment_store_scheme, bool) op" where
  "mongo_removeDislike q =
     op_bind (mongo_comment (cp_commentId q)) (\<lambda>c.
       op_then (op_when (disliked c (cp_accountId q))
           (mongo_mark c (cm_dislikeAccounts_update
              (\<lambda>_. map_option (filter (\<lambda>a. a \<noteq> cp_accountId q)) (cm_dislikeAccounts c)))))
         (op_ret True))"

definition mongo_comment_delete :: "comment_params \<Rightarrow> ('b comment_store_scheme, string) op" where
  "mongo_comment_delete q =
     op_bind (mongo_comment (cp_commentId q)) (\<lambda>c.
     op_bind (api_dao (cm_daoId c)) (\<lambda>dao.
     op_bind (op_lift (dao_permissions dao None (cp_accountId q))) (\<lambda>accountPermissions.
     if cm_author c \<noteq> cp_accountId q \<and> \<not> isCouncil accountPermissions
     then op_fail (HttpError 403 ''Account is not the author or council'')
     else
       op_bind (find_replies (cp_commentId q)) (\<lambda>replies.
       op_then (delete_comments (cm_id c # replies))
      (op_then
         (op_when (cm_contextType c = CC_DraftProposal)
            (op_bind (count_comments c) (\<lambda>n. updateReplies (cm_contextId c) n)))
      (op_then (mongo_send (Deleted_Comment (Sent_Response (castDraftCommentResponse c None))))
               (op_ret (cp_commentId q))))))))"

section \<open>DynamoDraftCommentService\<close>

definition comment_key :: "string \<Rightarrow> string \<Rightarrow> string" where
  "comment_key draftId commentId = draftId @ '':'' @ commentId"

definition getComment :: "comment_params \<Rightarrow> ('b comment_store_scheme, comment_item option) op" where
  "getComment q = op_try
     (access (op_get (\<lambda>s. cs_items s (cp_daoId q) (comment_key (cp_draftId q) (cp_commentId q)))))
     (\<lambda>e. op_ret None)"

definition put_comment_item ::
    "string \<Rightarrow> string \<Rightarrow> comment_item \<Rightarrow> 'b comment_store_scheme \<Rightarrow> 'b comment_store_scheme" where
  "put_comment_item daoId key x s =
     s\<lparr>cs_items := (cs_items s)(daoId := (cs_items s daoId)(key \<mapsto> x))\<rparr>"

text \<open>As \<open>save_draft_item\<close>: a put under a new key, then an update of all columns.\<close>

definition save_comment_item ::
    "string \<Rightarrow> string \<Rightarrow> comment_item \<Rightarrow> ('b comment_store_scheme, unit) op" where
  "save_comment_item daoId key x =
     op_bind (access (\<lambda>s. if cs_items s daoId key = None then (Inr True, put_comment_item daoId key x s)
                          else (Inr False, s))) (\<lambda>created.
     op_when (\<not> created) (access (op_put (put_comment_item daoId key x))))"

definition updateDraftProposalCommentInDynamo ::
    "string \<Rightarrow> comment_item \<Rightarrow> (comment_item \<Rightarrow> comment_item) \<Rightarrow> ('b comment_store_scheme, unit) op" where
  "updateDraftProposalCommentInDynamo daoId x f =
     save_comment_item daoId (comment_key (cm_contextId x) (cm_id x)) (f x)"

definition createDraftProposalCommentInDynamo ::
    "string \<Rightarrow> string \<Rightarrow> string \<Rightarrow> create_comment \<Rightarrow> ('b comment_store_scheme, comment_item) op" where
  "createDraftProposalCommentInDynamo daoId accountId commentId dto =
     op_bind op_now (\<lambda>now.
     let model = draft_comment.extend
           ((new_comment daoId (cc_contextId dto) accountId (cc_message dto) (cc_replyTo dto))
              \<lparr>cm_id := commentId, cm_createdAt := now, cm_updatedAt := now\<rparr>) \<lparr> ci_isArchived = False \<rparr>
     in op_then (save_comment_item daoId (comment_key (cc_contextId dto) commentId) model) (op_ret model))"

text \<open>\<open>incrementByType\<close> reads the item, a rejection reaches the caller, and saves it with the sum.\<close>

definition incrementDraftProposalReplies ::
    "string \<Rightarrow> string \<Rightarrow> int \<Rightarrow> ('b comment_store_scheme, unit) op" where
  "incrementDraftProposalReplies daoId draftId value =
     op_bind (access (op_get (\<lambda>s. ds_items s daoId draftId))) (\<lambda>found.
     op_bind (op_need (TypeError ''Cannot convert undefined or null to object'') found) (\<lambda>x.
     save_draft_item daoId draftId (map_columns (\<lambda>c. c\<lparr>df_replies := df_replies c + value\<rparr>) x)))"

definition dynamo_send :: "comment_event \<Rightarrow> ('b comment_store_scheme, unit) op" where
  "dynamo_send e = op_bind (check_flag ''draft-comments-dynamo'') (\<lambda>yes. op_when yes (send_comment e))"

text \<open>A comment and a reply are created alike.\<close>

definition createDynamoComment ::
    "string \<Rightarrow> string \<Rightarrow> create_comment \<Rightarrow> string \<Rightarrow> ('b comment_store_scheme, string) op" where
  "createDynamoComment daoId accountId dto commentId =
     op_bind (createDraftProposalCommentInDynamo daoId accountId commentId dto) (\<lambda>comment.
     op_then (incrementDraftProposalReplies daoId (cc_contextId dto) 1)
    (op_then (dynamo_send (New_Comment (Sent_Item comment)))
             (op_ret commentId)))"

definition dynamo_comment_create ::
    "string \<Rightarrow> create_comment \<Rightarrow> string \<Rightarrow> ('b comment_store_scheme, string) op" where
  "dynamo_comment_create accountId dto commentId =
     (case given_reply dto of
        Some replyTo \<Rightarrow> createDynamoComment (cc_daoId dto) accountId dto commentId
      | None \<Rightarrow> (case cc_contextType dto of
                    CC_DraftProposal \<Rightarrow> createDynamoComment (cc_daoId dto) accountId dto commentId))"

definition dynamo_comment :: "comment_params \<Rightarrow> exn \<Rightarrow> ('b comment_store_scheme, comment_item) op" where
  "dynamo_comment q e = op_bind (getComment q) (op_need e)"

definition dynamo_comment_update ::
    "comment_params \<Rightarrow> string \<Rightarrow> ('b comment_store_scheme, string) op" where
  "dynamo_comment_update q message =
     op_bind (dynamo_comment q (no_comment (cp_commentId q))) (\<lambda>x.
     if cm_author x \<noteq> cp_accountId q then op_fail not_author
     else
       op_then (updateDraftProposalCommentInDynamo (cp_daoId q) x (cm_message_update (\<lambda>_. message)))
               (op_ret (cm_id x)))"

definition dynamo_mark ::
    "string \<Rightarrow> comment_item \<Rightarrow> (comment_item \<Rightarrow> comment_item) \<Rightarrow> ('b comment_store_scheme, unit) op" where
  "dynamo_mark daoId x f =
     op_then (updateDraftProposalCommentInDynamo daoId x f)
             (dynamo_send (Updated_Comment (Sent_Item (f x))))"

definition dynamo_like :: "comment_params \<Rightarrow> ('b comment_store_scheme, bool) op" where
  "dynamo_like q =
     op_bind (dynamo_comment q (no_comment (cp_commentId q))) (\<lambda>x.
     if disliked x (cp_accountId q) then op_fail (disliked_by (cp_commentId q) (cp_accountId q))
     else
       op_then (op_when (cp_accountId q \<notin> set (cm_likeAccounts x))
           (dynamo_mark (cp_daoId q) x
              (cm_likeAccounts_update (\<lambda>_. cm_likeAccounts x @ [cp_accountId q]))))
         (op_ret True))"

definition dynamo_removeLike :: "comment_params \<Rightarrow> ('b comment_store_scheme, bool) op" where
  "dynamo_removeLike q =
     op_bind (dynamo_comment q (no_comment (cp_commentId q))) (\<lambda>x.
       op_then (op_when (cp_accountId q \<in> set (cm_likeAccounts x))
           (dynamo_mark (cp_daoId q) x (cm_likeAccounts_update
              (\<lambda>_. filter (\<lambda>a. a \<noteq> cp_accountId q) (cm_likeAccounts x)))))
         (op_ret True))"

text \<open>The test for a liked comment reads \<open>dislikeAccounts\<close>; without that list it throws.\<close>

definition dynamo_dislike :: "comment_params \<Rightarrow> ('b comment_store_scheme, bool) op" where
  "dynamo_dislike q =
     op_bind (dynamo_comment q (HttpError 404
         (''Draft '' @ cp_draftId q @ '' comment '' @ cp_commentId q @ '' does not exist''))) (\<lambda>x.
     op_bind (op_need (TypeError ''includes'') (cm_dislikeAccounts x)) (\<lambda>ds.
     if cp_accountId q \<in> set ds
     then op_fail (liked_by (cp_commentId q) (cp_accountId q))
     else
       op_then (op_when (\<not> disliked x (cp_accountId q))
           (dynamo_mark (cp_daoId q) x
              (cm_dislikeAccounts_update (\<lambda>_. Some (ds @ [cp_accountId q])))))
         (op_ret True)))"

definition dynamo_removeDislike :: "comment_params \<Rightarrow> ('b comment_store_scheme, bool) op" where
  "dynamo_removeDislike q =
     op_bind (dynamo_comment q (no_comment (cp_commentId q))) (\<lambda>x.
       op_then (op_when (disliked x (cp_accountId q))
           (dynamo_mark (cp_daoId q) x (cm_dislikeAccounts_update
              (\<lambda>_. map_option (filter (\<lambda>a. a \<noteq> cp_accountId q)) (cm_dislikeAccounts x)))))
         (op_ret True))"

definition dynamo_comment_delete :: "comment_params \<Rightarrow> ('b comment_store_scheme, string) op" where
  "dynamo_comment_delete q =
     op_bind (dynamo_comment q (no_comment (cp_commentId q))) (\<lambda>x.
     op_bind (dyn_dao (cp_daoId q)) (\<lambda>found.
     op_bind (op_need (TypeError ''policy'') found) (\<lambda>dao.
     op_bind (op_lift (dao_permissions dao None (cp_accountId q))) (\<lambda>accountPermissions.
     if cm_author x \<noteq> cp_accountId q \<and> \<not> isCouncil accountPermissions
     then op_fail (HttpError 403 ''Account is not the author or council'')
     else
       op_then (updateDraftProposalCommentInDynamo (cp_daoId q) x (ci_isArchived_update (\<lambda>_. True)))
      (op_then (incrementDraftProposalReplies (cp_daoId q) (cm_contextId x) (- 1))
      (op_then (dynamo_send (Deleted_Comment (Sent_Item x)))
               (op_ret (cp_commentId q))))))))"

section \<open>DraftCommentServiceFacade\<close>

definition comment_create :: "string \<Rightarrow> create_comment \<Rightarrow> ('b comment_store_scheme, string) op" where
  "comment_create accountId dto =
     op_bind (mongo_comment_create accountId dto) (\<lambda>commentId.
     op_then (dynamo_comment_create accountId dto commentId) (op_ret commentId))"

definition comment_delete :: "comment_params \<Rightarrow> ('b comment_store_scheme, string) op" where
  "comment_delete q = op_then (dynamo_comment_delete q) (mongo_comment_delete q)"

definition comment_like :: "comment_params \<Rightarrow> ('b comment_store_scheme, bool) op" where
  "comment_like q = op_then (dynamo_like q) (mongo_like q)"

definition comment_removeLike :: "comment_params \<Rightarrow> ('b comment_store_scheme, bool) op" where
  "comment_removeLike q = op_then (dynamo_removeLike q) (mongo_removeLike q)"

definition comment_dislike :: "comment_params \<Rightarrow> ('b comment_store_scheme, bool) op" where
  "comment_dislike q = op_then (dynamo_dislike q) (mongo_dislike q)"

definition comment_removeDislike :: "comment_params \<Rightarrow> ('b comment_store_scheme, bool) op" where
  "comment_removeDislike q = op_then (dynamo_removeDislike q) (mongo_removeDislike q)"

definition comment_update :: "comment_params \<Rightarrow> string \<Rightarrow> ('b comment_store_scheme, string) op" where
  "comment_update q message = op_then (dynamo_comment_update q message) (mongo_comment_update q message)"

end
