(* ===== verification/Store_Logic.thy ===== *)
theory Store_Logic
  imports Store_Effects
begin

text \<open>
  Triples over the methods of \<open>Store_Effects\<close>: from a state that satisfies the precondition a method
  ends with a value in the normal postcondition or with an exception in the exceptional one. The
  rules follow the combinators; an \<open>access\<close> may be lost or unacknowledged at any time.
\<close>

definition triple ::
    "('s \<Rightarrow> bool) \<Rightarrow> ('s, 'a) op \<Rightarrow> ('a \<Rightarrow> 's \<Rightarrow> bool) \<Rightarrow> ('s \<Rightarrow> bool) \<Rightarrow> bool" where
  "triple P m Q E \<longleftrightarrow>
     (\<forall>s. P s \<longrightarrow> (case m s of (r, t) \<Rightarrow> (case r of Inl e \<Rightarrow> E t | Inr x \<Rightarrow> Q x t)))"

lemma tripleI:
  assumes "\<And>s e t. P s \<Longrightarrow> m s = (Inl e, t) \<Longrightarrow> E t" and "\<And>s x t. P s \<Longrightarrow> m s = (Inr x, t) \<Longrightarrow> Q x t"
  shows "triple P m Q E"
  using assms unfolding triple_def by (auto split: prod.split sum.split)

lemma triple_Inl: "triple P m Q E \<Longrightarrow> P s \<Longrightarrow> m s = (Inl e, t) \<Longrightarrow> E t"
  unfolding triple_def by (drule spec [of _ s]) simp

lemma triple_Inr: "triple P m Q E \<Longrightarrow> P s \<Longrightarrow> m s = (Inr x, t) \<Longrightarrow> Q x t"
  unfolding triple_def by (drule spec [of _ s]) simp

text \<open>With one condition on both kinds of end, the condition holds at the end.\<close>

lemma triple_end:
  assumes "triple P m (\<lambda>_. E) E" and "P s"
  shows "E (snd (m s))"
proof (cases "m s")
  case (Pair r t)
  then show ?thesis
    using triple_Inl [OF assms] triple_Inr [OF assms] by (cases r) auto
qed

lemma triple_weaken:
  assumes "triple P m Q E" and "\<And>s. P' s \<Longrightarrow> P s" and "\<And>x s. Q x s \<Longrightarrow> Q' x s"
    and "\<And>s. E s \<Longrightarrow> E' s"
  shows "triple P' m Q' E'"
proof (rule tripleI)
  show "E' t" if "P' s" "m s = (Inl e, t)" for s e t
    by (rule assms(4) [OF triple_Inl [OF assms(1) assms(2) [OF that(1)] that(2)]])
  show "Q' x t" if "P' s" "m s = (Inr x, t)" for s x t
    by (rule assms(3) [OF triple_Inr [OF assms(1) assms(2) [OF that(1)] that(2)]])
qed

lemma triple_ret: "(\<And>s. P s \<Longrightarrow> Q x s) \<Longrightarrow> triple P (op_ret x) Q E"
  by (auto intro: tripleI simp: run_op)

lemma triple_fail: "(\<And>s. P s \<Longrightarrow> E s) \<Longrightarrow> triple P (op_fail e) Q E"
  by (auto intro: tripleI simp: run_op)

lemma triple_need:
  "(\<And>s x. v = Some x \<Longrightarrow> P s \<Longrightarrow> Q x s) \<Longrightarrow> (\<And>s. P s \<Longrightarrow> E s) \<Longrightarrow> triple P (op_need e v) Q E"
  by (cases v) (auto intro: tripleI simp: run_op)

lemma triple_lift:
  "(\<And>s x. r = Inr x \<Longrightarrow> P s \<Longrightarrow> Q x s) \<Longrightarrow> (\<And>s. P s \<Longrightarrow> E s) \<Longrightarrow> triple P (op_lift r) Q E"
  by (cases r) (auto intro: tripleI simp: run_op)

lemma triple_bind:
  assumes "triple P m Q E" and "\<And>x. triple (Q x) (f x) R E"
  shows "triple P (op_bind m f) R E"
proof (rule tripleI)
  fix s e t
  assume P: "P s" and run: "op_bind m f s = (Inl e, t)"
  obtain r u where m: "m s = (r, u)" by fastforce
  show "E t"
  proof (cases r)
    case (Inl e')
    then show ?thesis using run m triple_Inl [OF assms(1) P] by (simp add: run_op)
  next
    case (Inr x)
    then show ?thesis
      using run m triple_Inr [OF assms(1) P] triple_Inl [OF assms(2)] by (simp add: run_op)
  qed
next
  fix s y t
  assume P: "P s" and run: "op_bind m f s = (Inr y, t)"
  then obtain x u where "m s = (Inr x, u)" "f x u = (Inr y, t)" unfolding op_bind_Inr_iff by blast
  then show "R y t" using triple_Inr [OF assms(1) P] triple_Inr [OF assms(2)] by blast
qed

lemma triple_then:
  "triple P m (\<lambda>_. Q) E \<Longrightarrow> triple Q k R E \<Longrightarrow> triple P (op_then m k) R E"
  unfolding op_then_def by (rule triple_bind)

lemma triple_when:
  "(b \<Longrightarrow> triple P m (\<lambda>_. Q) E) \<Longrightarrow> (\<And>s. \<not> b \<Longrightarrow> P s \<Longrightarrow> Q s) \<Longrightarrow> triple P (op_when b m) (\<lambda>_. Q) E"
  by (cases b) (auto simp: op_when_def intro: triple_ret)

lemma triple_if:
  "(b \<Longrightarrow> triple P m Q E) \<Longrightarrow> (\<not> b \<Longrightarrow> triple P k Q E) \<Longrightarrow> triple P (if b then m else k) Q E"
  by simp

lemma triple_access:
  assumes "triple P m Q E" and "\<And>s. P s \<Longrightarrow> P (tick s)" and "\<And>s. P s \<Longrightarrow> E s" and "\<And>x s. Q x s \<Longrightarrow> E s"
  shows "triple P (access m) Q E"
proof (rule tripleI)
  fix s e t
  assume P: "P s" and run: "access m s = (Inl e, t)"
  note P' = assms(2) [OF P]
  show "E t"
  proof (cases "st_faults s (st_tick s)")
    case None
    then show ?thesis using run triple_Inl [OF assms(1) P'] by (simp add: access_def)
  next
    case (Some f)
    obtain r u where "m (tick s) = (r, u)" by fastforce
    then have "E (snd (m (tick s)))"
      using triple_Inl [OF assms(1) P'] triple_Inr [OF assms(1) P'] assms(4) by (cases r) auto
    then show ?thesis
      using run Some assms(3) [OF P'] by (cases f) (auto simp: access_def)
  qed
next
  fix s x t
  assume P: "P s" and run: "access m s = (Inr x, t)"
  show "Q x t" by (rule triple_Inr [OF assms(1) assms(2) [OF P] access_Inr [OF run]])
qed

text \<open>What a relation between the states leaves alone.\<close>

lemma triple_stays:
  assumes "\<And>s r t. m s = (r, t) \<Longrightarrow> R s t" and "\<And>s t. R s t \<Longrightarrow> P s \<Longrightarrow> P t" and "\<And>s. P s \<Longrightarrow> E s"
  shows "triple P m (\<lambda>_. P) E"
proof (rule tripleI)
  show "E t" if "P s" "m s = (Inl e, t)" for s e t
    by (rule assms(3) [OF assms(2) [OF assms(1) [OF that(2)] that(1)]])
  show "P t" if "P s" "m s = (Inr x, t)" for s x t
    by (rule assms(2) [OF assms(1) [OF that(2)] that(1)])
qed

end
