(* ===== verification/Comment_Life.thy ===== *)
theory Comment_Life
  imports Draft_Comments Store_Logic Draft_Stores
begin

text \<open>
  The life of comments on drafts: in MongoDB no account likes and dislikes a comment, the number of
  replies of a draft is that of its comments; in DynamoDB neither need hold.
\<close>

section \<open>What an operation leaves alone\<close>

definition same_comments :: "'b comment_store_scheme \<Rightarrow> 'b comment_store_scheme \<Rightarrow> bool" where
  "same_comments s t \<longleftrightarrow> cs_comments t = cs_comments s \<and> st_newId t = st_newId s \<and> st_tick s \<le> st_tick t"

interpretation comments: state_relation same_comments
  by unfold_locales (auto simp: same_comments_def tick_def)

lemma comments_reads:
  "comments.stays (find_comment i)" "comments.stays (api_dao daoId)" "comments.stays (dyn_dao daoId)"
  "comments.stays (find_draft i)" "comments.stays (count_comments c)" "comments.stays (find_replies i)"
  "comments.stays (check_flag f)" "comments.stays (getComment q)"
  unfolding find_comment_def api_dao_def dyn_dao_def find_draft_def count_comments_def
    find_replies_def check_flag_def getComment_def
  by (intro comments.stays_intros | simp add: comments.stays_def comments.R_refl split: option.split)+

lemma comments_writes:
  "comments.stays (updateReplies i n)" "comments.stays (save_draft_item daoId i x)"
  "comments.stays (save_comment_item daoId key y)" "comments.stays (send_comment e)"
  unfolding updateReplies_def update_draft_at_def save_draft_item_def save_comment_item_def send_comment_def
  by (intro comments.stays_intros comments.stays_put;
      simp add: comments.stays_def same_comments_def put_item_def put_comment_item_def)+

lemma comments_sends: "comments.stays (mongo_send e)" "comments.stays (dynamo_send e)"
  unfolding mongo_send_def dynamo_send_def useMongo_def
  by (intro comments.stays_intros comments_reads comments_writes)+

lemmas comments_intros = comments.stays_intros comments_reads comments_writes comments_sends

lemma comments_dynamo_parts:
  "comments.stays (dynamo_comment q e)" "comments.stays (incrementDraftProposalReplies daoId i n)"
  "comments.stays (updateDraftProposalCommentInDynamo daoId x f)"
  "comments.stays (createDraftProposalCommentInDynamo daoId a j dto)"
  unfolding dynamo_comment_def incrementDraftProposalReplies_def updateDraftProposalCommentInDynamo_def
    createDraftProposalCommentInDynamo_def Let_def
  by (intro comments_intros)+

lemma comments_dynamo:
  "comments.stays (dynamo_comment_update q m)"
  "comments.stays (dynamo_like q)" "comments.stays (dynamo_removeLike q)"
  "comments.stays (dynamo_dislike q)" "comments.stays (dynamo_removeDislike q)"
  "comments.stays (dynamo_comment_delete q)"
  unfolding dynamo_comment_update_def dynamo_like_def dynamo_removeLike_def dynamo_dislike_def
    dynamo_removeDislike_def dynamo_comment_delete_def dynamo_mark_def
  by (intro comments_intros comments_dynamo_parts)+

lemma comments_dynamo_create: "comments.stays (dynamo_comment_create a dto j)"
  unfolding dynamo_comment_create_def createDynamoComment_def
  by (cases "cc_contextType dto"; cases "given_reply dto"; simp;
      intro comments_intros comments_dynamo_parts)

section \<open>Likes exclude dislikes in MongoDB\<close>

definition exclusive :: "draft_comment \<Rightarrow> bool" where
  "exclusive c \<longleftrightarrow> distinct (cm_likeAccounts c)
     \<and> (case cm_dislikeAccounts c of
          None \<Rightarrow> True
        | Some ds \<Rightarrow> distinct ds \<and> set (cm_likeAccounts c) \<inter> set ds = {})"

definition comments_ok :: "'b comment_store_scheme \<Rightarrow> bool" where
  "comments_ok s \<longleftrightarrow> inj (st_newId s) \<and> distinct (map cm_id (cs_comments s))
     \<and> (\<forall>c \<in> set (cs_comments s). cm_id c \<in> st_newId s ` {..st_tick s} \<and> exclusive c)"

definition holds_comment :: "draft_comment \<Rightarrow> 'b comment_store_scheme \<Rightarrow> bool" where
  "holds_comment c s \<longleftrightarrow> comments_ok s \<and> c \<in> set (cs_comments s)"

lemma older_ids: "n \<le> m \<Longrightarrow> i \<in> f ` {..n :: nat} \<Longrightarrow> i \<in> f ` {..m}"
  using image_mono [of "{..n}" "{..m}" f] by auto

lemma comments_ok_same: "same_comments s t \<Longrightarrow> comments_ok s \<Longrightarrow> comments_ok t"
  using older_ids [of "st_tick s" "st_tick t" _ "st_newId s"]
  by (auto simp: comments_ok_def same_comments_def)

lemma holds_same: "same_comments s t \<Longrightarrow> holds_comment c s \<Longrightarrow> holds_comment c t"
  using comments_ok_same by (auto simp: holds_comment_def same_comments_def)

lemma triple_quiet: "comments.stays m \<Longrightarrow> triple comments_ok m (\<lambda>_. comments_ok) comments_ok"
  by (rule triple_stays [where R = same_comments], erule (1) comments.staysD,
      erule (1) comments_ok_same, assumption)

lemma triple_quiet_holding:
  "comments.stays m \<Longrightarrow> triple (holds_comment c) m (\<lambda>_. holds_comment c) comments_ok"
  by (rule triple_stays [where R = same_comments], erule (1) comments.staysD,
      erule (1) holds_same, simp add: holds_comment_def)

lemma triple_done: "triple (holds_comment c) (op_ret x) (\<lambda>_. comments_ok) comments_ok"
  by (rule triple_ret) (simp add: holds_comment_def)

lemma triple_refused: "triple (holds_comment c) (op_fail e) Q comments_ok"
  by (rule triple_fail) (simp add: holds_comment_def)

lemma ok_set_comment:
  assumes "holds_comment c s" and "exclusive (f c)" and "cm_id (f c) = cm_id c"
  shows "comments_ok (set_comment (cm_id c) f s)"
proof -
  have ok: "comments_ok s" and c: "c \<in> set (cs_comments s)" using assms(1) by (simp_all add: holds_comment_def)
  have only: "c' = c" if "c' \<in> set (cs_comments s)" "cm_id c' = cm_id c" for c'
    using ok c that by (auto simp: comments_ok_def distinct_map dest: inj_onD)
  have ids: "map cm_id (cs_comments (set_comment (cm_id c) f s)) = map cm_id (cs_comments s)"
    using only assms(3) by (auto simp: set_comment_def)
  show ?thesis
    unfolding comments_ok_def
  proof (intro conjI ballI)
    show "inj (st_newId (set_comment (cm_id c) f s))" using ok by (simp add: comments_ok_def set_comment_def)
    show "distinct (map cm_id (cs_comments (set_comment (cm_id c) f s)))"
      unfolding ids using ok by (simp add: comments_ok_def)
    fix d assume "d \<in> set (cs_comments (set_comment (cm_id c) f s))"
    then obtain c' where c': "c' \<in> set (cs_comments s)" "d = (if cm_id c' = cm_id c then f c' else c')"
      by (auto simp: set_comment_def)
    have "exclusive d \<and> cm_id d = cm_id c'"
    proof (cases "cm_id c' = cm_id c")
      case True
      then show ?thesis using only [OF c'(1)] c'(2) assms(2,3) by simp
    next
      case False
      then show ?thesis using c' ok by (simp add: comments_ok_def)
    qed
    then show "exclusive d" "cm_id d \<in> st_newId (set_comment (cm_id c) f s) ` {..st_tick (set_comment (cm_id c) f s)}"
      using c'(1) ok by (auto simp: comments_ok_def set_comment_def)
  qed
qed

lemma holds_tick: "holds_comment c s \<Longrightarrow> holds_comment c (tick s)"
  by (rule holds_same) (simp_all add: same_comments_def tick_def)

lemma comments_ok_tick: "comments_ok s \<Longrightarrow> comments_ok (tick s)"
  by (rule comments_ok_same) (simp_all add: same_comments_def tick_def)

lemma triple_update_comment:
  assumes "exclusive c \<Longrightarrow> exclusive (f c)" and "cm_id (f c) = cm_id c"
  shows "triple (holds_comment c) (update_comment (cm_id c) f) (\<lambda>_. comments_ok) comments_ok"
  unfolding update_comment_def
proof (rule triple_access)
  show "triple (holds_comment c) (op_put (set_comment (cm_id c) f)) (\<lambda>_. comments_ok) comments_ok"
  proof (rule tripleI)
    fix s x t
    assume h: "holds_comment c s" and "op_put (set_comment (cm_id c) f) s = (Inr x, t)"
    then have "t = set_comment (cm_id c) f s" by (simp add: run_op)
    moreover have "exclusive c" using h by (auto simp: holds_comment_def comments_ok_def)
    ultimately show "comments_ok t" using ok_set_comment [OF h] assms by simp
  qed (simp add: run_op)
  show "holds_comment c (tick s)" if "holds_comment c s" for s using that by (rule holds_tick)
qed (simp_all add: holds_comment_def)

lemma find_member: "find Q xs = Some x \<Longrightarrow> x \<in> set xs"
  by (induction xs) (auto split: if_splits)

lemma triple_mongo_comment:
  "triple comments_ok (mongo_comment i) (\<lambda>c. holds_comment c) comments_ok"
  unfolding mongo_comment_def find_comment_def
proof (rule triple_bind)
  show "triple comments_ok (access (op_get (\<lambda>s. find (\<lambda>c. cm_id c = i) (cs_comments s))))
     (\<lambda>v s. comments_ok s \<and> v = find (\<lambda>c. cm_id c = i) (cs_comments s)) comments_ok"
    (is "triple _ (access ?m) ?Q _")
  proof (rule triple_access)
    show "triple comments_ok ?m ?Q comments_ok"
      by (rule tripleI) (simp_all add: run_op)
    show "comments_ok (tick s)" if "comments_ok s" for s using that by (rule comments_ok_tick)
  qed simp_all
  show "triple (\<lambda>s. comments_ok s \<and> v = find (\<lambda>c. cm_id c = i) (cs_comments s))
     (op_need (no_comment i) v) (\<lambda>c. holds_comment c) comments_ok" for v
    by (rule triple_need) (auto simp: holds_comment_def dest: find_member)
qed

lemma triple_mongo_mark:
  assumes "exclusive c \<Longrightarrow> exclusive (f c)" and "cm_id (f c) = cm_id c"
  shows "triple (holds_comment c) (mongo_mark c f) (\<lambda>_. comments_ok) comments_ok"
  unfolding mongo_mark_def
  by (rule triple_then [OF triple_update_comment triple_quiet [OF comments_sends(1)]])
    (use assms in simp_all)

lemma triple_marking:
  assumes "b \<Longrightarrow> exclusive c \<Longrightarrow> exclusive (f c)" and "cm_id (f c) = cm_id c"
  shows "triple (holds_comment c) (op_then (op_when b (mongo_mark c f)) (op_ret x))
    (\<lambda>_. comments_ok) comments_ok"
proof (rule triple_then [OF triple_when])
  show "triple (holds_comment c) (mongo_mark c f) (\<lambda>_. comments_ok) comments_ok" if b
    using assms that by (intro triple_mongo_mark) simp_all
  show "triple comments_ok (op_ret x) (\<lambda>_. comments_ok) comments_ok" by (rule triple_ret)
qed (simp add: holds_comment_def)

lemma exclusive_changes:
  "a \<notin> set (cm_likeAccounts c) \<Longrightarrow> \<not> disliked c a \<Longrightarrow> exclusive c \<Longrightarrow>
     exclusive (c\<lparr>cm_likeAccounts := cm_likeAccounts c @ [a]\<rparr>)"
  "exclusive c \<Longrightarrow> exclusive (c\<lparr>cm_likeAccounts := filter Q (cm_likeAccounts c)\<rparr>)"
  "a \<notin> set (cm_likeAccounts c) \<Longrightarrow> \<not> disliked c a \<Longrightarrow> cm_dislikeAccounts c = Some ds \<Longrightarrow> exclusive c \<Longrightarrow>
     exclusive (c\<lparr>cm_dislikeAccounts := Some (ds @ [a])\<rparr>)"
  "exclusive c \<Longrightarrow> exclusive (c\<lparr>cm_dislikeAccounts := map_option (filter Q) (cm_dislikeAccounts c)\<rparr>)"
  "exclusive c \<Longrightarrow> exclusive (c\<lparr>cm_message := m, cm_updatedAt := now\<rparr>)"
  by (auto simp: exclusive_def disliked_def split: option.splits)

lemma mongo_marks_ok:
  "triple comments_ok (mongo_like q) (\<lambda>_. comments_ok) comments_ok"
  "triple comments_ok (mongo_removeLike q) (\<lambda>_. comments_ok) comments_ok"
  "triple comments_ok (mongo_removeDislike q) (\<lambda>_. comments_ok) comments_ok"
  unfolding mongo_like_def mongo_removeLike_def mongo_removeDislike_def
  by (rule triple_bind [OF triple_mongo_comment] triple_if triple_refused triple_marking | assumption
      | simp add: exclusive_changes)+

lemma op_need_Some: "op_bind (op_need e (Some x)) k = k x"
  by (simp add: fun_eq_iff run_op)

lemma mongo_dislike_ok: "triple comments_ok (mongo_dislike q) (\<lambda>_. comments_ok) comments_ok"
  unfolding mongo_dislike_def
proof (rule triple_bind [OF triple_mongo_comment], rule triple_if)
  fix c :: draft_comment
  assume likes: "cp_accountId q \<notin> set (cm_likeAccounts c)"
  show "triple (holds_comment c) (op_then (op_when (\<not> disliked c (cp_accountId q))
      (op_bind (op_need (TypeError ''dislikeAccounts is not iterable'') (cm_dislikeAccounts c)) (\<lambda>ds.
         mongo_mark c (cm_dislikeAccounts_update (\<lambda>_. Some (ds @ [cp_accountId q])))))) (op_ret True))
      (\<lambda>_. comments_ok) comments_ok"
  proof (rule triple_then [OF triple_when])
    assume b: "\<not> disliked c (cp_accountId q)"
    show "triple (holds_comment c)
        (op_bind (op_need (TypeError ''dislikeAccounts is not iterable'') (cm_dislikeAccounts c)) (\<lambda>ds.
         mongo_mark c (cm_dislikeAccounts_update (\<lambda>_. Some (ds @ [cp_accountId q])))))
        (\<lambda>_. comments_ok) comments_ok"
    proof (cases "cm_dislikeAccounts c")
      case None
      then show ?thesis
        by (auto simp: op_need_def intro!: triple_bind [where Q = "\<lambda>_ _. False"] triple_refused)
          (auto simp: triple_def)
    next
      case (Some ds)
      then show ?thesis
        using likes b by (auto simp: op_need_Some intro!: triple_mongo_mark exclusive_changes(3))
    qed
  qed (auto simp: holds_comment_def intro: triple_ret)
qed (rule triple_refused)

lemma save_comment_ok:
  "triple (holds_comment c) (save_comment (c\<lparr>cm_message := m\<rparr>)) (\<lambda>_. comments_ok) comments_ok"
  unfolding save_comment_def
proof (rule triple_access)
  show "triple (holds_comment c) (\<lambda>s. let c' :: draft_comment = (c\<lparr>cm_message := m\<rparr>)\<lparr>cm_updatedAt := st_now s (st_tick s)\<rparr>
        in (Inr c', set_comment (cm_id (c\<lparr>cm_message := m\<rparr>)) (\<lambda>_. c') s)) (\<lambda>_. comments_ok) comments_ok"
  proof (rule tripleI)
      fix s x t
      assume h: "holds_comment c s" and "(let c' = (c\<lparr>cm_message := m\<rparr>)\<lparr>cm_updatedAt := st_now s (st_tick s)\<rparr>
        in (Inr c', set_comment (cm_id (c\<lparr>cm_message := m\<rparr>)) (\<lambda>_. c') s)) = (Inr x, t)"
      then have "t = set_comment (cm_id c) (\<lambda>_. c\<lparr>cm_message := m, cm_updatedAt := st_now s (st_tick s)\<rparr>) s"
        by (auto simp: Let_def)
      moreover have "exclusive c" using h by (auto simp: holds_comment_def comments_ok_def)
      ultimately show "comments_ok t"
        using ok_set_comment [OF h, of "\<lambda>_. c\<lparr>cm_message := m, cm_updatedAt := st_now s (st_tick s)\<rparr>"]
        by (simp add: exclusive_changes(5))
  qed (simp add: Let_def)
  show "holds_comment c (tick s)" if "holds_comment c s" for s using that by (rule holds_tick)
qed (simp_all add: holds_comment_def)

lemma mongo_comment_update_ok:
  "triple comments_ok (mongo_comment_update q m) (\<lambda>_. comments_ok) comments_ok"
  unfolding mongo_comment_update_def
  by (rule triple_bind [OF triple_mongo_comment] triple_if triple_refused triple_bind [OF save_comment_ok]
      triple_quiet comments_intros)+

lemma delete_comments_ok: "triple comments_ok (delete_comments ids) (\<lambda>_. comments_ok) comments_ok"
  unfolding delete_comments_def
proof (rule triple_access)
  show "triple comments_ok (op_put (\<lambda>s. s\<lparr>cs_comments := filter (\<lambda>c. cm_id c \<notin> set ids) (cs_comments s)\<rparr>))
     (\<lambda>_. comments_ok) comments_ok"
    by (rule tripleI) (auto simp: run_op comments_ok_def distinct_map_filter)
  show "comments_ok (tick s)" if "comments_ok s" for s using that by (rule comments_ok_tick)
qed simp_all

lemma delete_holding: "triple (holds_comment c) (delete_comments ids) (\<lambda>_. comments_ok) comments_ok"
  by (rule triple_weaken [OF delete_comments_ok]) (simp_all add: holds_comment_def)

lemma exclusive_id:
  "exclusive (c\<lparr>cm_id := i, cm_createdAt := n, cm_updatedAt := n\<rparr>) = exclusive c"
  by (cases "cm_dislikeAccounts c") (simp_all add: exclusive_def)

lemma insert_comment_ok:
  assumes "exclusive c"
  shows "triple comments_ok (insert_comment c) (\<lambda>_. comments_ok) comments_ok"
proof -
  let ?m = "\<lambda>s. let now = st_now s (st_tick s);
         c' = c\<lparr>cm_id := st_newId s (st_tick s), cm_createdAt := now, cm_updatedAt := now\<rparr>
     in (Inr c', s\<lparr>cs_comments := cs_comments s @ [c']\<rparr>)"
  let ?P = "\<lambda>s. comments_ok s \<and> st_newId s (st_tick s) \<notin> cm_id ` set (cs_comments s)"
  have new: "?P (tick s)" if ok: "comments_ok s" for s
  proof -
    have "st_newId s (Suc (st_tick s)) \<noteq> cm_id d" if "d \<in> set (cs_comments s)" for d
    proof
      assume eq: "st_newId s (Suc (st_tick s)) = cm_id d"
      have "cm_id d \<in> st_newId s ` {..st_tick s}" using ok that by (simp add: comments_ok_def)
      then obtain n where "n \<le> st_tick s" "cm_id d = st_newId s n" by auto
      then have "Suc (st_tick s) = n" using eq ok by (auto simp: comments_ok_def dest: injD)
      then show False using \<open>n \<le> st_tick s\<close> by simp
    qed
    then show ?thesis using comments_ok_tick [OF ok] by (auto simp: tick_def)
  qed
  have put: "comments_ok (snd (?m s))" if "?P s" for s
    using that assms by (auto simp: Let_def comments_ok_def exclusive_id)
  show ?thesis
    unfolding insert_comment_def
  proof (rule tripleI)
    fix s e t
    assume ok: "comments_ok s" and run: "access ?m s = (Inl e, t)"
    show "comments_ok t"
      using run put [OF new [OF ok]] comments_ok_tick [OF ok]
      by (auto simp: access_def Let_def split: option.splits fault.splits)
  next
    fix s x t
    assume ok: "comments_ok s" and run: "access ?m s = (Inr x, t)"
    show "comments_ok t" using put [OF new [OF ok]] access_Inr [OF run] by (metis snd_conv)
  qed
qed

lemma create_draft_comment_ok:
  "triple comments_ok (createDraftProposalComment a dto) (\<lambda>_. comments_ok) comments_ok"
  "triple comments_ok (createDraftCommentReply i a dto) (\<lambda>_. comments_ok) comments_ok"
proof -
  have reply: "triple comments_ok (insert_comment ((new_comment d c a m r)\<lparr>cm_contextType := ct\<rparr>))
      (\<lambda>_. comments_ok) comments_ok" for d c a m r ct
    by (rule insert_comment_ok) (simp add: exclusive_def new_comment_def)
  have new: "triple comments_ok (insert_comment (new_comment d c a m r)) (\<lambda>_. comments_ok) comments_ok"
    for d c a m r
    by (rule insert_comment_ok) (simp add: exclusive_def new_comment_def)
  show "triple comments_ok (createDraftProposalComment a dto) (\<lambda>_. comments_ok) comments_ok"
    unfolding createDraftProposalComment_def
    by (rule triple_bind [OF new] triple_bind [OF triple_quiet] triple_quiet comments_intros)+
  show "triple comments_ok (createDraftCommentReply i a dto) (\<lambda>_. comments_ok) comments_ok"
    unfolding createDraftCommentReply_def
    by (rule triple_bind [OF reply] triple_bind [OF triple_quiet] triple_quiet comments_intros)+
qed

lemma mongo_comment_create_ok:
  "triple comments_ok (mongo_comment_create a dto) (\<lambda>_. comments_ok) comments_ok"
  unfolding mongo_comment_create_def
  by (cases "given_reply dto"; cases "cc_contextType dto") (simp_all add: create_draft_comment_ok)

lemma mongo_comment_delete_ok:
  "triple comments_ok (mongo_comment_delete q) (\<lambda>_. comments_ok) comments_ok"
  unfolding mongo_comment_delete_def
  by (rule triple_bind [OF triple_mongo_comment] triple_bind [OF triple_quiet_holding]
      triple_refused triple_if triple_then [OF delete_holding] triple_quiet comments_intros)+

datatype comment_request =
    CR_create string create_comment
  | CR_update comment_params string
  | CR_like comment_params
  | CR_removeLike comment_params
  | CR_dislike comment_params
  | CR_removeDislike comment_params
  | CR_delete comment_params

fun serve_comment :: "comment_request \<Rightarrow> 'b comment_store_scheme \<Rightarrow> 'b comment_store_scheme" where
  "serve_comment (CR_create a dto) = ignore (comment_create a dto)"
| "serve_comment (CR_update q m) = ignore (comment_update q m)"
| "serve_comment (CR_like q) = ignore (comment_like q)"
| "serve_comment (CR_removeLike q) = ignore (comment_removeLike q)"
| "serve_comment (CR_dislike q) = ignore (comment_dislike q)"
| "serve_comment (CR_removeDislike q) = ignore (comment_removeDislike q)"
| "serve_comment (CR_delete q) = ignore (comment_delete q)"

lemmas triple_facade = triple_then [OF triple_quiet]

lemma comment_facade_ok:
  "triple comments_ok (comment_update q m) (\<lambda>_. comments_ok) comments_ok"
  "triple comments_ok (comment_like q) (\<lambda>_. comments_ok) comments_ok"
  "triple comments_ok (comment_removeLike q) (\<lambda>_. comments_ok) comments_ok"
  "triple comments_ok (comment_dislike q) (\<lambda>_. comments_ok) comments_ok"
  "triple comments_ok (comment_removeDislike q) (\<lambda>_. comments_ok) comments_ok"
  "triple comments_ok (comment_delete q) (\<lambda>_. comments_ok) comments_ok"
  unfolding comment_update_def comment_like_def comment_removeLike_def comment_dislike_def
    comment_removeDislike_def comment_delete_def
  by (rule triple_facade comments_dynamo mongo_marks_ok mongo_dislike_ok mongo_comment_update_ok
      mongo_comment_delete_ok)+

lemma comment_create_ok: "triple comments_ok (comment_create a dto) (\<lambda>_. comments_ok) comments_ok"
  unfolding comment_create_def
  by (rule triple_bind [OF mongo_comment_create_ok] triple_quiet comments.stays_then
      comments_dynamo_create comments.stays_ret)+

lemma serve_comment_ok: "comments_ok s \<Longrightarrow> comments_ok (serve_comment rq s)"
  using triple_end [OF comment_create_ok] triple_end [OF comment_facade_ok(1)]
    triple_end [OF comment_facade_ok(2)] triple_end [OF comment_facade_ok(3)]
    triple_end [OF comment_facade_ok(4)] triple_end [OF comment_facade_ok(5)]
    triple_end [OF comment_facade_ok(6)]
  by (cases rq) (simp_all add: ignore_def)

text \<open>
  C23. In MongoDB no account ever likes and dislikes the same comment, and none is listed twice:
  whatever requests a store without comments serves, and however they fail.
\<close>

theorem comments_exclusive:
  assumes "inj (st_newId s0)" and "cs_comments s0 = []"
    and "c \<in> set (cs_comments (fold serve_comment rqs s0))"
  shows "exclusive c"
proof -
  have "comments_ok s \<Longrightarrow> comments_ok (fold serve_comment rqs s)" for s
    by (induction rqs arbitrary: s) (simp_all add: serve_comment_ok)
  moreover have "comments_ok s0" using assms(1,2) by (simp add: comments_ok_def)
  ultimately show ?thesis using assms(3) by (auto simp: comments_ok_def)
qed

section \<open>The number of replies in MongoDB\<close>

definition counted :: "string \<Rightarrow> 'b comment_store_scheme \<Rightarrow> bool" where
  "counted i s \<longleftrightarrow> (\<forall>d. ds_drafts s i = Some d \<longrightarrow>
     df_replies d = int (length (filter (\<lambda>c. cm_contextId c = i) (cs_comments s))))"

definition same_discussion :: "'b comment_store_scheme \<Rightarrow> 'b comment_store_scheme \<Rightarrow> bool" where
  "same_discussion s t \<longleftrightarrow> cs_comments t = cs_comments s \<and> ds_drafts t = ds_drafts s"

interpretation discussions: state_relation same_discussion
  by unfold_locales (auto simp: same_discussion_def tick_def)

lemma discussion_send: "discussions.stays (mongo_send e)"
  unfolding mongo_send_def useMongo_def check_flag_def send_comment_def
  by (intro discussions.stays_intros discussions.stays_put) (simp add: same_discussion_def)

lemma context_only [simp]: "same_context c = (\<lambda>c'. cm_contextId c' = cm_contextId c)"
  by (rule ext) (metis (full_types) comment_context.exhaust same_context_def)

lemma count_and_update:
  assumes "op_bind (count_comments c) (\<lambda>n. updateReplies (cm_contextId c) n) s = (Inr u, t)"
  shows "counted (cm_contextId c) t \<and> cs_comments t = cs_comments s"
proof -
  obtain n s1 where n: "count_comments c s = (Inr n, s1)" "updateReplies (cm_contextId c) n s1 = (Inr u, t)"
    using assms unfolding op_bind_Inr_iff by blast
  have s1: "n = int (length (filter (same_context c) (cs_comments s)))" "cs_comments s1 = cs_comments s"
    using access_Inr [OF n(1) [unfolded count_comments_def]] by (auto simp: run_op tick_def)
  show ?thesis
    using access_Inr [OF n(2) [unfolded updateReplies_def update_draft_at_def]] s1
    by (auto simp: run_op counted_def tick_def)
qed

lemma send_and_return:
  assumes "op_then (mongo_send e) (op_ret x) s = (Inr y, t)"
  shows "cs_comments t = cs_comments s \<and> ds_drafts t = ds_drafts s \<and> y = x"
proof -
  have "discussions.stays (op_then (mongo_send e) (op_ret x))"
    by (intro discussions.stays_intros discussion_send)
  note same = discussions.staysD [OF this assms]
  have "y = x" using assms by (auto simp: op_then_Inr_iff op_ret_iff)
  then show ?thesis using same by (simp add: same_discussion_def)
qed

lemma insert_comment_Inr:
  assumes "insert_comment c s = (Inr c', t)"
  shows "c' \<in> set (cs_comments t) \<and> cm_contextId c' = cm_contextId c
    \<and> cm_contextType c' = cm_contextType c \<and> ds_drafts t = ds_drafts s"
  using access_Inr [OF assms [unfolded insert_comment_def]] by (auto simp: Let_def)

lemma context_type [simp]: "cm_contextType c = CC_DraftProposal"
  by (cases "cm_contextType c") simp

lemma counted_after:
  assumes "op_bind (count_comments c) (\<lambda>n. op_then (updateReplies (cm_contextId c) n)
      (op_then (mongo_send e) (op_ret x))) s = (Inr y, t)"
  shows "counted (cm_contextId c) t \<and> cs_comments t = cs_comments s \<and> y = x"
proof -
  obtain n s1 s2 u where run: "count_comments c s = (Inr n, s1)" "updateReplies (cm_contextId c) n s1 = (Inr u, s2)"
      "op_then (mongo_send e) (op_ret x) s2 = (Inr y, t)"
    using assms unfolding op_bind_Inr_iff op_then_Inr_iff by blast
  have "op_bind (count_comments c) (\<lambda>n. updateReplies (cm_contextId c) n) s = (Inr u, s2)"
    using run by (auto simp: op_bind_Inr_iff)
  then show ?thesis
    using count_and_update send_and_return [OF run(3)] by (fastforce simp: counted_def)
qed

lemma create_counts:
  assumes "createDraftProposalComment a dto s = (Inr i, t)" and "keyed s"
  shows "\<exists>c \<in> set (cs_comments t). cm_id c = i \<and> counted (cm_contextId c) t"
proof -
  obtain found s1 d s2 c s3 where run: "find_draft (cc_contextId dto) s = (Inr found, s1)"
      "op_need (no_draft (cc_contextId dto)) found s1 = (Inr d, s2)"
      "insert_comment (new_comment (df_daoId d) (cc_contextId dto) a (cc_message dto) None) s2 = (Inr c, s3)"
      "op_bind (count_comments c) (\<lambda>n. op_then (updateReplies (df_id d) n)
        (op_then (mongo_send (New_Comment (Sent_Response (castDraftCommentResponse c None))))
          (op_ret (cm_id c)))) s3 = (Inr i, t)"
    using assms(1) unfolding createDraftProposalComment_def op_bind_Inr_iff by blast
  have "ds_drafts s (cc_contextId dto) = Some d"
    using find_draft_cases [OF run(1)] run(2) by (simp add: op_need_iff)
  then have "df_id d = cc_contextId dto" using assms(2) by (simp add: keyed_def)
  moreover have c: "c \<in> set (cs_comments s3)" "cm_contextId c = cc_contextId dto"
    using insert_comment_Inr [OF run(3)] by (simp_all add: new_comment_def)
  ultimately have "counted (cm_contextId c) t \<and> cs_comments t = cs_comments s3 \<and> i = cm_id c"
    using run(4) by (intro counted_after) simp
  then show ?thesis using c by auto
qed

lemma reply_counts:
  assumes "createDraftCommentReply r a dto s = (Inr i, t)"
  shows "\<exists>c \<in> set (cs_comments t). cm_id c = i \<and> counted (cm_contextId c) t"
proof -
  obtain replied :: draft_comment and s1 c s2 u s3 where run:
      "insert_comment ((new_comment (cm_daoId replied) (cm_contextId replied) a
         (cc_message dto) (Some r))\<lparr>cm_contextType := cm_contextType replied\<rparr>) s1 = (Inr c, s2)"
      "op_when (cm_contextType c = CC_DraftProposal)
          (op_bind (count_comments c) (\<lambda>n. updateReplies (cm_contextId c) n)) s2 = (Inr u, s3)"
      "op_then (mongo_send (New_Comment (Sent_Response (castDraftCommentResponse c None))))
          (op_ret (cm_id c)) s3 = (Inr i, t)"
    using assms unfolding createDraftCommentReply_def op_bind_Inr_iff op_then_Inr_iff by blast
  have c: "c \<in> set (cs_comments s2)" using insert_comment_Inr [OF run(1)] by simp
  have "counted (cm_contextId c) s3 \<and> cs_comments s3 = cs_comments s2"
    using run(2) by (intro count_and_update) (simp add: op_when_def)
  then show ?thesis
    using c send_and_return [OF run(3)] by (auto simp: counted_def)
qed

lemma delete_counts:
  assumes "mongo_comment_delete q s = (Inr i, t)"
  shows "\<exists>c. cm_id c = cp_commentId q \<and> c \<in> set (cs_comments s)
    \<and> (\<forall>c' \<in> set (cs_comments t). cm_id c' \<noteq> cp_commentId q) \<and> counted (cm_contextId c) t"
proof -
  obtain c s1 s2 replies s3 u s4 v s5 where run: "mongo_comment (cp_commentId q) s = (Inr c, s1)"
      "delete_comments (cm_id c # replies) s2 = (Inr u, s3)"
      "op_when (cm_contextType c = CC_DraftProposal)
            (op_bind (count_comments c) (\<lambda>n. updateReplies (cm_contextId c) n)) s3 = (Inr v, s4)"
      "op_then (mongo_send (Deleted_Comment (Sent_Response (castDraftCommentResponse c None))))
               (op_ret (cp_commentId q)) s4 = (Inr i, t)"
    using assms unfolding mongo_comment_delete_def op_bind_Inr_iff op_then_Inr_iff
    by (auto simp: op_iffs split: if_splits)
  have "find (\<lambda>c. cm_id c = cp_commentId q) (cs_comments s) = Some c"
    using run(1) unfolding mongo_comment_def find_comment_def op_bind_Inr_iff
    by (auto simp: op_need_iff run_op tick_def split: option.splits dest!: access_Inr)
  then have c: "cm_id c = cp_commentId q" "c \<in> set (cs_comments s)"
    by (auto simp: find_Some_iff dest: find_member)
  have gone: "\<forall>c' \<in> set (cs_comments s3). cm_id c' \<noteq> cm_id c"
    using access_Inr [OF run(2) [unfolded delete_comments_def]] by (auto simp: run_op)
  have "counted (cm_contextId c) s4 \<and> cs_comments s4 = cs_comments s3"
    using run(3) by (intro count_and_update) (simp add: op_when_def)
  then show ?thesis
    using c gone send_and_return [OF run(4)] by (auto simp: counted_def)
qed

text \<open>
  When MongoDB's service answers that a comment was created, or deleted, the draft it is about
  (if it still exists) says how many comments there are about it, whichever requests before it were
  lost; a deleted comment is gone.
\<close>

theorem mongo_replies_counted:
  assumes "keyed s"
  shows "(\<forall>a dto i t. mongo_comment_create a dto s = (Inr i, t) \<longrightarrow>
        (\<exists>c \<in> set (cs_comments t). cm_id c = i \<and> counted (cm_contextId c) t))
    \<and> (\<forall>q i t. mongo_comment_delete q s = (Inr i, t) \<longrightarrow>
        (\<exists>c \<in> set (cs_comments s). cm_id c = cp_commentId q \<and> counted (cm_contextId c) t)
        \<and> (\<forall>c' \<in> set (cs_comments t). cm_id c' \<noteq> cp_commentId q))"
proof (intro conjI allI impI)
  fix a dto i t
  assume run: "mongo_comment_create a dto s = (Inr i, t)"
  show "\<exists>c \<in> set (cs_comments t). cm_id c = i \<and> counted (cm_contextId c) t"
  proof (cases "given_reply dto")
    case None
    then show ?thesis
      using run create_counts [OF _ assms]
      by (cases "cc_contextType dto") (simp add: mongo_comment_create_def)
  next
    case (Some r)
    then show ?thesis using run reply_counts by (simp add: mongo_comment_create_def)
  qed
next
  fix q i t
  assume "mongo_comment_delete q s = (Inr i, t)"
  from delete_counts [OF this]
  show "\<exists>c \<in> set (cs_comments s). cm_id c = cp_commentId q \<and> counted (cm_contextId c) t"
    and "\<forall>c' \<in> set (cs_comments t). cm_id c' \<noteq> cp_commentId q" by blast+
qed

section \<open>Comments in DynamoDB\<close>

text \<open>The parts of the state that belong to DynamoDB, which no method of MongoDB's service changes.\<close>

definition same_tables :: "'b comment_store_scheme \<Rightarrow> 'b comment_store_scheme \<Rightarrow> bool" where
  "same_tables s t \<longleftrightarrow> cs_items t = cs_items s \<and> ds_items t = ds_items s \<and> ds_dynDao t = ds_dynDao s
     \<and> st_faults t = st_faults s"

interpretation tables: state_relation same_tables
  by unfold_locales (auto simp: same_tables_def tick_def)

lemma tables_parts:
  "tables.stays (find_comment i)" "tables.stays (api_dao daoId)" "tables.stays (find_replies i)"
  "tables.stays (delete_comments ids)" "tables.stays (count_comments c)" "tables.stays (updateReplies i n)"
  "tables.stays (mongo_send e)"
  unfolding find_comment_def api_dao_def find_replies_def delete_comments_def count_comments_def
    updateReplies_def update_draft_at_def mongo_send_def useMongo_def check_flag_def send_comment_def
  by (intro tables.stays_intros tables.stays_put
      | simp add: tables.stays_def same_tables_def split: option.split)+

lemma tables_delete: "tables.stays (mongo_comment_delete q)"
  unfolding mongo_comment_delete_def mongo_comment_def
  by (intro tables.stays_intros tables_parts)

lemma calm_save_comment_item:
  "calm s \<Longrightarrow> \<exists>t. save_comment_item daoId key x s = (Inr (), t) \<and> calm t
     \<and> cs_items t = (cs_items s)(daoId := (cs_items s daoId)(key \<mapsto> x)) \<and> ds_items t = ds_items s
     \<and> ds_dynDao t = ds_dynDao s \<and> cs_comments t = cs_comments s"
  by (auto simp: save_comment_item_def run_simps put_comment_item_def calm_def tick_def)

lemma calm_increment:
  assumes "calm s" and "ds_items s daoId i = Some y"
  shows "\<exists>t. incrementDraftProposalReplies daoId i n s = (Inr (), t) \<and> calm t
    \<and> cs_items t = cs_items s \<and> ds_dynDao t = ds_dynDao s
    \<and> ds_items t daoId i = Some (map_columns (\<lambda>c. c\<lparr>df_replies := df_replies c + n\<rparr>) y)"
  using assms
  by (auto simp: incrementDraftProposalReplies_def save_draft_item_def run_simps put_item_def calm_def tick_def)

lemma calm_send: "calm s \<Longrightarrow> \<exists>t. dynamo_send e s = (Inr (), t) \<and> calm t \<and> cs_items t = cs_items s
    \<and> ds_items t = ds_items s \<and> ds_dynDao t = ds_dynDao s \<and> cs_comments t = cs_comments s"
  by (auto simp: dynamo_send_def check_flag_def send_comment_def run_simps calm_def tick_def)

lemma calm_dynamo_comment: "calm s \<Longrightarrow> dynamo_comment q e s =
    (case cs_items s (cp_daoId q) (comment_key (cp_draftId q) (cp_commentId q)) of
       None \<Rightarrow> Inl e | Some x \<Rightarrow> Inr x, tick s)"
  by (simp add: dynamo_comment_def getComment_def run_simps tick_def split: option.split)

definition holds_item :: "comment_params \<Rightarrow> comment_item \<Rightarrow> 'b comment_store_scheme \<Rightarrow> bool" where
  "holds_item q x s \<longleftrightarrow> calm s
     \<and> cs_items s (cp_daoId q) (comment_key (cp_draftId q) (cp_commentId q)) = Some x
     \<and> cm_contextId x = cp_draftId q \<and> cm_id x = cp_commentId q"

text \<open>
  The check of a dislike in DynamoDB's service reads the wrong list: an account that likes a
  comment and dislikes it is refused by MongoDB's service, but only after DynamoDB's has listed
  it among both.
\<close>

theorem dislike_of_liked_comment:
  assumes "holds_item q x s" and "cm_dislikeAccounts x = Some ds"
    and "cp_accountId q \<in> set (cm_likeAccounts x)" and "cp_accountId q \<notin> set ds"
    and "find (\<lambda>c. cm_id c = cp_commentId q) (cs_comments s) = Some c"
    and "cp_accountId q \<in> set (cm_likeAccounts c)"
  shows "\<exists>t y. comment_dislike q s = (Inl (liked_by (cp_commentId q) (cp_accountId q)), t)
    \<and> cs_comments t = cs_comments s \<and> holds_item q y t
    \<and> cp_accountId q \<in> set (cm_likeAccounts y) \<and> disliked y (cp_accountId q)"
proof -
  let ?y = "x\<lparr>cm_dislikeAccounts := Some (ds @ [cp_accountId q])\<rparr>"
  let ?key = "comment_key (cp_draftId q) (cp_commentId q)"
  have calm: "calm (tick s)" using assms(1) by (simp add: holds_item_def)
  obtain u where u: "save_comment_item (cp_daoId q) ?key ?y (tick s) = (Inr (), u)" "calm u"
      "cs_items u (cp_daoId q) ?key = Some ?y" "cs_comments u = cs_comments s"
    using calm_save_comment_item [OF calm, of "cp_daoId q" ?key ?y] by (auto simp: tick_def)
  obtain t where t: "dynamo_send (Updated_Comment (Sent_Item ?y)) u = (Inr (), t)" "calm t"
      "cs_items t = cs_items u" "cs_comments t = cs_comments u"
    using calm_send [OF u(2)] by blast
  have "dynamo_dislike q s = (Inr True, t)"
    using assms u(1) t(1)
    by (simp add: dynamo_dislike_def calm_dynamo_comment holds_item_def run_op dynamo_mark_def
        updateDraftProposalCommentInDynamo_def disliked_def)
  moreover have "mongo_dislike q t = (Inl (liked_by (cp_commentId q) (cp_accountId q)), tick t)"
    using t(2,4) u(4) assms(5,6)
    by (simp add: mongo_dislike_def mongo_comment_def find_comment_def run_simps tick_def)
  moreover have "holds_item q ?y (tick t)" "cs_comments (tick t) = cs_comments s"
    using t(2-4) u(3,4) assms(1) by (simp_all add: holds_item_def calm_def tick_def)
  ultimately have "comment_dislike q s = (Inl (liked_by (cp_commentId q) (cp_accountId q)), tick t)
    \<and> cs_comments (tick t) = cs_comments s \<and> holds_item q ?y (tick t)
    \<and> cp_accountId q \<in> set (cm_likeAccounts ?y) \<and> disliked ?y (cp_accountId q)"
    using assms(3) by (simp add: comment_dislike_def run_op disliked_def)
  then show ?thesis by blast
qed

definition deletable :: "comment_params \<Rightarrow> int \<Rightarrow> 'b comment_store_scheme \<Rightarrow> bool" where
  "deletable q n s \<longleftrightarrow> (\<exists>x y dao p. holds_item q x s \<and> ds_dynDao s (cp_daoId q) = Some dao
     \<and> dao_permissions dao None (cp_accountId q) = Inr p
     \<and> (cm_author x = cp_accountId q \<or> isCouncil p)
     \<and> ds_items s (cp_daoId q) (cp_draftId q) = Some y \<and> df_replies (item_columns y) = n)"

lemma deletable_tables: "same_tables s t \<Longrightarrow> deletable q n s \<Longrightarrow> deletable q n t"
  by (auto simp: deletable_def same_tables_def holds_item_def calm_def)

lemma dynamo_delete_step:
  assumes "deletable q n s"
  shows "\<exists>i t. dynamo_comment_delete q s = (Inr i, t) \<and> deletable q (n - 1) t"
proof -
  obtain x y dao p where s: "calm s"
      "cs_items s (cp_daoId q) (comment_key (cp_draftId q) (cp_commentId q)) = Some x"
      "cm_contextId x = cp_draftId q" "cm_id x = cp_commentId q"
      "ds_dynDao s (cp_daoId q) = Some dao" "dao_permissions dao None (cp_accountId q) = Inr p"
      "cm_author x = cp_accountId q \<or> isCouncil p"
      "ds_items s (cp_daoId q) (cp_draftId q) = Some y" "df_replies (item_columns y) = n"
    using assms by (auto simp: deletable_def holds_item_def)
  let ?key = "comment_key (cp_draftId q) (cp_commentId q)" and ?x = "x\<lparr>ci_isArchived := True\<rparr>"
  let ?y = "map_columns (\<lambda>c. c\<lparr>df_replies := df_replies c + - 1\<rparr>) y"
  let ?s = "tick (tick s)"
  have calm: "calm ?s" using s(1) by simp
  obtain u where u: "save_comment_item (cp_daoId q) ?key ?x ?s = (Inr (), u)" "calm u"
      "cs_items u (cp_daoId q) ?key = Some ?x" "ds_items u = ds_items s" "ds_dynDao u = ds_dynDao s"
    using calm_save_comment_item [OF calm, of "cp_daoId q" ?key ?x] by (auto simp: tick_def)
  have "ds_items u (cp_daoId q) (cp_draftId q) = Some y" using u(4) s(8) by simp
  from calm_increment [OF u(2) this, of "- 1"]
  obtain v where v: "incrementDraftProposalReplies (cp_daoId q) (cp_draftId q) (- 1) u = (Inr (), v)" "calm v"
      "cs_items v = cs_items u" "ds_dynDao v = ds_dynDao u"
      "ds_items v (cp_daoId q) (cp_draftId q) = Some ?y"
    by blast
  obtain t where t: "dynamo_send (Deleted_Comment (Sent_Item x)) v = (Inr (), t)" "calm t"
      "cs_items t = cs_items v" "ds_items t = ds_items v" "ds_dynDao t = ds_dynDao v"
    using calm_send [OF v(2)] by blast
  have "dynamo_comment_delete q s = (Inr (cp_commentId q), t)"
    using s u(1) v(1) t(1)
    by (auto simp: dynamo_comment_delete_def calm_dynamo_comment calm_dyn run_op
        updateDraftProposalCommentInDynamo_def)
  moreover have "deletable q (n - 1) t"
    unfolding deletable_def holds_item_def
    using s(3-7,9) u(3,5) v(3-5) t(2-5)
    by (intro exI [of _ ?x] exI [of _ ?y] exI [of _ dao] exI [of _ p]) (simp add: map_columns_def)
  ultimately show ?thesis by blast
qed

text \<open>
  Deleting a comment again is refused by MongoDB's service, but DynamoDB's keeps the archived
  comment and takes one reply from the draft each time: after n requests to delete one comment the
  number of replies has fallen by n, below zero if they go on.
\<close>

theorem repeated_deletes:
  assumes "deletable q n s"
  shows "deletable q (n - int k) ((serve_comment (CR_delete q) ^^ k) s)"
proof (induction k)
  case 0
  then show ?case using assms by simp
next
  case (Suc k)
  let ?s = "(serve_comment (CR_delete q) ^^ k) s"
  obtain i t where t: "dynamo_comment_delete q ?s = (Inr i, t)" "deletable q (n - int k - 1) t"
    using dynamo_delete_step [OF Suc.IH] by blast
  obtain r u where u: "mongo_comment_delete q t = (r, u)" by fastforce
  have "same_tables t u" by (rule tables.staysD [OF tables_delete u])
  moreover have "serve_comment (CR_delete q) ?s = u"
    using t(1) u by (simp add: ignore_def comment_delete_def run_op)
  ultimately show ?case using deletable_tables [OF _ t(2)] by (simp add: algebra_simps)
qed

section \<open>Examples\<close>

definition sample_comment :: draft_comment where
  "sample_comment = (new_comment ''d'' [] ''a'' ''m'' None)\<lparr>cm_id := ''i'', cm_likeAccounts := [''a'']\<rparr>"

definition sample_item :: comment_item where
  "sample_item = draft_comment.extend sample_comment \<lparr> ci_isArchived = False \<rparr>"

definition sample_comment_store :: "draft_comment list \<Rightarrow> comment_store" where
  "sample_comment_store cs = draft_store.extend (sample_store sample_drafts)
     \<lparr> cs_comments = cs,
       cs_items = (\<lambda>daoId key. if daoId = ''d'' \<and> key = '':i'' then Some sample_item else None),
       cs_sent = [] \<rparr>"

definition sample_create :: create_comment where
  "sample_create = \<lparr> cc_contextId = [], cc_daoId = ''d'', cc_contextType = CC_DraftProposal,
     cc_message = ''m'', cc_replyTo = None \<rparr>"

definition sample_params :: comment_params where
  "sample_params = \<lparr> cp_daoId = ''d'', cp_draftId = [], cp_commentId = ''i'', cp_accountId = ''a'' \<rparr>"

lemma sample_comment_fields [simp]:
  "st_faults (sample_comment_store cs) = (\<lambda>n. None)" "st_tick (sample_comment_store cs) = 0"
  "st_newId (sample_comment_store cs) = (\<lambda>n. replicate n (CHR ''x''))"
  "ds_drafts (sample_comment_store cs) = sample_drafts" "cs_comments (sample_comment_store cs) = cs"
  "ds_dynDao (sample_comment_store cs) = (\<lambda>i. Some sample_draft_dao)"
  "ds_flags (sample_comment_store cs) = (\<lambda>f. False)"
  "ds_items (sample_comment_store cs) daoId i = map_option (\<lambda>d. Draft_Item
      (draft.extend d \<lparr> dc_isArchived = None, dc_updateTimestamp = None \<rparr>) []) (sample_drafts i)"
  "cs_items (sample_comment_store cs) daoId key =
     (if daoId = ''d'' \<and> key = '':i'' then Some sample_item else None)"
  by (simp_all add: sample_comment_store_def draft_store.defs sample_store_def)

lemma sample_calm: "calm (sample_comment_store cs)"
  by (simp add: calm_def)

lemma sample_item_held: "holds_item sample_params sample_item (sample_comment_store cs)"
  by (simp add: holds_item_def sample_calm sample_params_def comment_key_def sample_item_def
      sample_comment_def new_comment_def draft_comment.defs)

theorem comments_exclusive_witness:
  "\<exists>c. c \<in> set (cs_comments (fold serve_comment [CR_create ''a'' sample_create] (sample_comment_store [])))
    \<and> exclusive c"
proof -
  let ?s = "sample_comment_store []"
  obtain i t c where t: "mongo_comment_create ''a'' sample_create ?s = (Inr i, t)" "cs_comments t = [c]"
  proof -
    have "\<exists>i t c. mongo_comment_create ''a'' sample_create ?s = (Inr i, t) \<and> cs_comments t = [c]"
      by (simp add: mongo_comment_create_def given_reply_def sample_create_def
          createDraftProposalComment_def find_draft_def insert_comment_def count_comments_def
          updateReplies_def update_draft_at_def mongo_send_def useMongo_def check_flag_def send_comment_def
          run_op access_def tick_def sample_drafts_def Let_def)
    then show thesis using that by blast
  qed
  obtain r u where u: "op_then (dynamo_comment_create ''a'' sample_create i) (op_ret i) t = (r, u)" by fastforce
  have "same_comments t u"
    by (rule comments.staysD [OF comments.stays_then [OF comments_dynamo_create comments.stays_ret(1)] u])
  then have c: "c \<in> set (cs_comments (fold serve_comment [CR_create ''a'' sample_create] ?s))"
    using t u by (simp add: ignore_def comment_create_def run_op(3) same_comments_def)
  have "inj (st_newId ?s)" "cs_comments ?s = []" using sample_ids by simp_all
  from comments_exclusive [OF this c] c show ?thesis by blast
qed

theorem mongo_replies_counted_witness:
  "let s = sample_comment_store [] in keyed s
    \<and> (\<forall>a dto i t. mongo_comment_create a dto s = (Inr i, t) \<longrightarrow>
        (\<exists>c \<in> set (cs_comments t). cm_id c = i \<and> counted (cm_contextId c) t))"
proof -
  have "keyed (sample_comment_store [])"
    by (simp add: keyed_def sample_drafts_def sample_draft_def)
  with mongo_replies_counted [OF this] show ?thesis by (simp add: Let_def)
qed

theorem dislike_of_liked_comment_witness:
  "\<exists>t y. comment_dislike sample_params (sample_comment_store [sample_comment])
      = (Inl (liked_by ''i'' ''a''), t)
    \<and> holds_item sample_params y t \<and> ''a'' \<in> set (cm_likeAccounts y) \<and> disliked y ''a''"
proof -
  have "cm_dislikeAccounts sample_item = Some []"
      "cp_accountId sample_params \<in> set (cm_likeAccounts sample_item)"
      "find (\<lambda>c. cm_id c = cp_commentId sample_params)
         (cs_comments (sample_comment_store [sample_comment])) = Some sample_comment"
      "cp_accountId sample_params \<in> set (cm_likeAccounts sample_comment)"
    by (simp_all add: sample_item_def sample_comment_def sample_params_def new_comment_def
        draft_comment.defs)
  from dislike_of_liked_comment [OF sample_item_held this(1,2) _ this(3,4)] show ?thesis
    by (auto simp: sample_params_def)
qed

theorem repeated_deletes_witness:
  "deletable sample_params 0 (sample_comment_store [])
   \<and> deletable sample_params (- 2) ((serve_comment (CR_delete sample_params) ^^ 2) (sample_comment_store []))"
proof -
  obtain p where "dao_permissions sample_draft_dao None ''a'' = Inr p"
    by (simp add: dao_permissions_def sample_draft_dao_def getAccountPermissions_def
        collect_permissions_def)
  then have "deletable sample_params 0 (sample_comment_store [])"
    unfolding deletable_def
    by (intro exI [of _ sample_item] conjI sample_item_held exI)
      (auto simp: sample_params_def sample_item_def sample_comment_def new_comment_def
        draft_comment.defs sample_drafts_def sample_draft_def draft.defs new_draft_def)
  from repeated_deletes [OF this, of 2] this show ?thesis by simp
qed

end
