(* ===== verification/Dao_Funds.thy ===== *)
theory Dao_Funds
  imports World Casts_Proposal Support_Services "HOL-Library.Multiset"
begin

text \<open>
  The balances of a DAO per day (\<open>libs/dao-funds/src\<close> and \<open>getDays\<close>, \<open>patchDailyBalance\<close> of
  \<open>libs/utils/src/index.ts\<close>): the stored treasury receipts are sorted by their time and added up,
  then the days without receipts are filled in. What luxon's \<open>startOf\<close> and \<open>minus\<close> give are fields of
  the environment; the day of a time is assumed to be at most the time only where a lemma says so.
\<close>

section \<open>Objects with numeric keys\<close>

text \<open>
  An object used as a map from times to BigInts: its entries in the order of insertion. A
  key that is an array index is listed before all others, in ascending order.
\<close>

type_synonym daily = "(int \<times> int) list"

definition is_index :: "int \<Rightarrow> bool" where
  "is_index k \<longleftrightarrow> 0 \<le> k \<and> k < 4294967295"

fun put_day :: "int \<Rightarrow> int \<Rightarrow> daily \<Rightarrow> daily" where
  "put_day k v [] = [(k, v)]"
| "put_day k v ((k', v') # d) = (if k' = k then (k, v) # d else (k', v') # put_day k v d)"

definition js_entries :: "daily \<Rightarrow> daily" where
  "js_entries d = sort_key fst (filter (is_index \<circ> fst) d) @ filter (Not \<circ> is_index \<circ> fst) d"

lemma map_of_put_day [simp]: "map_of (put_day k v d) = (map_of d)(k \<mapsto> v)"
  by (induction d) auto

lemma keys_put_day [simp]: "fst ` set (put_day k v d) = insert k (fst ` set d)"
  by (induction k v d rule: put_day.induct) (simp_all add: insert_commute)

lemma distinct_put_day: "distinct (map fst d) \<Longrightarrow> distinct (map fst (put_day k v d))"
proof (induction d)
  case (Cons kv d)
  then show ?case
    by (cases kv) (auto simp del: set_map simp: keys_put_day [folded set_map])
qed simp

lemma put_day_in_place: "k \<in> fst ` set d \<Longrightarrow> map fst (put_day k v d) = map fst d"
  by (induction d) (auto simp: rev_image_eqI)

lemma put_day_last: "k \<notin> fst ` set d \<Longrightarrow> put_day k v d = d @ [(k, v)]"
  by (induction d) auto

lemma set_js_entries [simp]: "set (js_entries d) = set d"
  by (auto simp: js_entries_def)

lemma distinct_js_entries: "distinct (map fst d) \<Longrightarrow> distinct (map fst (js_entries d))"
proof -
  assume d: "distinct (map fst d)"
  have "mset (filter P d) + mset (filter (Not \<circ> P) d) = mset d" for P by (induction d) simp_all
  then have "mset (js_entries d) = mset d" by (simp add: js_entries_def)
  then show ?thesis using d by (metis mset_eq_imp_distinct_iff mset_map)
qed

lemma js_entries_no_index: "(\<And>k v. (k, v) \<in> set d \<Longrightarrow> \<not> is_index k) \<Longrightarrow> js_entries d = d"
proof -
  assume no: "\<And>k v. (k, v) \<in> set d \<Longrightarrow> \<not> is_index k"
  then have "filter (is_index \<circ> fst) d = []" "filter (Not \<circ> is_index \<circ> fst) d = d"
    by (auto simp: filter_empty_conv intro!: filter_True)
  then show ?thesis by (simp add: js_entries_def)
qed

section \<open>getDays, patchDailyBalance\<close>

function days_from :: "int \<Rightarrow> int \<Rightarrow> int list" where
  "days_from time until = (if time \<le> until then time # days_from (time + 86400000) until else [])"
  by auto
termination by (relation "measure (\<lambda>(time, until). nat (until - time + 1))") auto

declare days_from.simps [simp del]

definition getDays :: "env \<Rightarrow> int \<Rightarrow> int \<Rightarrow> int list" where
  "getDays E frm until = days_from (e_startOfDay E frm) until"

text \<open>
  \<open>values[timestamp] || prev || 0n\<close>: a balance of \<open>0n\<close> is falsy, and \<open>prev\<close> starts as
  \<open>undefined\<close>, which has the same effect as \<open>0n\<close>.
\<close>

definition patch_value :: "int option \<Rightarrow> int \<Rightarrow> int" where
  "patch_value v prev = (case v of None \<Rightarrow> prev | Some b \<Rightarrow> if b \<noteq> 0 then b else prev)"

fun patch_days :: "int \<Rightarrow> int list \<Rightarrow> daily \<Rightarrow> daily" where
  "patch_days prev [] vals = vals"
| "patch_days prev (t # ts) vals =
     (let v = patch_value (map_of vals t) prev in patch_days v ts (put_day t v vals))"

definition patchDailyBalance :: "env \<Rightarrow> int \<Rightarrow> daily \<Rightarrow> daily" where
  "patchDailyBalance E now vals =
     (let frm = (case js_entries vals of
                   [] \<Rightarrow> e_startOfDay E (e_minusYear E now)
                 | (t, v) # _ \<Rightarrow> t);
          until = e_startOfDay E now
      in patch_days 0 (getDays E frm until) vals)"

section \<open>The two services\<close>

text \<open>\<open>BigInt(value)\<close>: an object is converted to its text first.\<close>

fun js_BigInt :: "jsval \<Rightarrow> exn + int" where
  "js_BigInt JUndef = Inl (TypeError ''BigInt'')"
| "js_BigInt JNull = Inl (TypeError ''BigInt'')"
| "js_BigInt (JBool b) = Inr (if b then 1 else 0)"
| "js_BigInt (JNum n) = Inr n"
| "js_BigInt JNaN = Inl (ThrownError ''RangeError'')"
| "js_BigInt (JBig n) = Inr n"
| "js_BigInt v = parse_bigint (js_str v)"

definition entry_time :: "funds_entry \<Rightarrow> exn + int" where
  "entry_time r = parseBlockTimestamp (fe_createTimestamp r)"

definition entry_change :: "string \<Rightarrow> funds_entry \<Rightarrow> exn + int" where
  "entry_change daoId r =
     res_bind (js_BigInt (fe_amount r)) (\<lambda>a.
     Inr (if strict_eq (fe_receiverId r) (JStr daoId) then a else - a))"

text \<open>
  The receipts with their times, sorted by them (the sort is stable). A time that cannot be read
  fails in the comparison of the sort or, for a single receipt, in the loop after it.
\<close>

definition sorted_entries :: "funds_entry list \<Rightarrow> exn + (int \<times> funds_entry) list" where
  "sorted_entries receipts =
     res_bind (map_res (\<lambda>r. res_bind (entry_time r) (\<lambda>t. Inr (t, r))) receipts) (\<lambda>rs.
     Inr (sort_key fst rs))"

definition add_entry ::
    "env \<Rightarrow> string \<Rightarrow> int \<times> daily \<Rightarrow> int \<times> funds_entry \<Rightarrow> exn + int \<times> daily" where
  "add_entry E daoId = (\<lambda>(balance, vals) (t, r).
     res_bind (entry_change daoId r) (\<lambda>change.
     Inr (balance + change, put_day (e_startOfDay E t) (balance + change) vals)))"

definition daily_balance :: "env \<Rightarrow> string \<Rightarrow> funds_entry list \<Rightarrow> exn + daily" where
  "daily_balance E daoId receipts =
     res_bind (sorted_entries receipts) (\<lambda>rs.
     res_bind (fold_res (add_entry E daoId) (0, []) rs) (\<lambda>(balance, vals). Inr vals))"

definition balance_entries :: "daily \<Rightarrow> (int \<times> string) list" where
  "balance_entries vals = map (\<lambda>(t, v). (t, int_str v)) (js_entries vals)"

definition daily_service :: "env \<Rightarrow> string \<Rightarrow> dyn_request \<Rightarrow> (int \<times> string) list service" where
  "daily_service E daoId req =
     bnd (call (Dyn req) w_funds) (\<lambda>receipts.
     bnd (lift_res (daily_balance E daoId receipts)) (\<lambda>vals.
     bnd (peek w_now) (\<lambda>now.
     ret (balance_entries (patchDailyBalance E now vals)))))"

definition getDailyBalanceByDaoId :: "env \<Rightarrow> string \<Rightarrow> (int \<times> string) list service" where
  "getDailyBalanceByDaoId E daoId = daily_service E daoId (D_allReceipts daoId)"

definition getDailyTokenBalanceByDaoId ::
    "env \<Rightarrow> string \<Rightarrow> string \<Rightarrow> (int \<times> string) list service" where
  "getDailyTokenBalanceByDaoId E daoId tokenId =
     daily_service E daoId (D_allTokenReceipts daoId (tokenId @ ''-''))"

section \<open>Running balances\<close>

definition receipt_time :: "funds_entry \<Rightarrow> int" where
  "receipt_time r = projr (entry_time r)"

definition receipt_day :: "env \<Rightarrow> funds_entry \<Rightarrow> int" where
  "receipt_day E r = e_startOfDay E (receipt_time r)"

definition receipt_change :: "string \<Rightarrow> funds_entry \<Rightarrow> int" where
  "receipt_change daoId r = projr (entry_change daoId r)"

definition receipt_readable :: "funds_entry \<Rightarrow> bool" where
  "receipt_readable r \<longleftrightarrow> isl (js_BigInt (fe_amount r)) = False \<and> isl (entry_time r) = False"

text \<open>The balance after all receipts of the days up to \<open>d\<close>.\<close>

definition balance_at :: "env \<Rightarrow> string \<Rightarrow> funds_entry list \<Rightarrow> int \<Rightarrow> int" where
  "balance_at E daoId receipts d =
     sum_list (map (receipt_change daoId) (filter (\<lambda>r. receipt_day E r \<le> d) receipts))"

lemma entry_time_readable: "receipt_readable r \<Longrightarrow> entry_time r = Inr (receipt_time r)"
  by (cases "entry_time r") (auto simp: receipt_readable_def receipt_time_def)

lemma entry_change_readable: "receipt_readable r \<Longrightarrow> entry_change daoId r = Inr (receipt_change daoId r)"
  by (cases "js_BigInt (fe_amount r)") (auto simp: receipt_readable_def receipt_change_def entry_change_def)

lemma sorted_entries_readable:
  "list_all receipt_readable receipts \<Longrightarrow>
     sorted_entries receipts = Inr (map (\<lambda>r. (receipt_time r, r)) (sort_key receipt_time receipts))"
proof -
  assume "list_all receipt_readable receipts"
  then have "map_res (\<lambda>r. res_bind (entry_time r) (\<lambda>t. Inr (t, r))) receipts
      = Inr (map (\<lambda>r. (receipt_time r, r)) receipts)"
    by (intro map_res_total) (auto simp: list_all_iff entry_time_readable)
  moreover have "sort_key fst (map (\<lambda>r. (receipt_time r, r)) receipts)
      = map (\<lambda>r. (receipt_time r, r)) (sort_key receipt_time receipts)"
  proof -
    have ins: "insort_key fst (receipt_time r, r) (map (\<lambda>r. (receipt_time r, r)) rs)
        = map (\<lambda>r. (receipt_time r, r)) (insort_key receipt_time r rs)" for r rs
      by (induction rs) auto
    show ?thesis by (induction receipts) (auto simp: ins)
  qed
  ultimately show ?thesis by (simp add: sorted_entries_def)
qed

lemma remdups_adj_snoc:
  "remdups_adj (xs @ [x]) =
     (if xs \<noteq> [] \<and> last xs = x then remdups_adj xs else remdups_adj xs @ [x])"
  by (cases xs rule: rev_cases) (auto simp: remdups_adj_append_two remdups_adj_append')

lemma distinct_remdups_adj_sorted: "sorted xs \<Longrightarrow> distinct (remdups_adj xs)"
  by (induction xs rule: remdups_adj.induct) auto

lemma put_day_sorted_snoc:
  assumes "map fst d = remdups_adj ks" and "sorted ks" and "\<forall>k' \<in> set ks. k' \<le> k"
  shows "map fst (put_day k v d) = remdups_adj (ks @ [k])"
proof (cases "k \<in> set ks")
  case True
  have "set (map fst d) = set ks" using assms(1) by simp
  then have "k \<in> fst ` set d" using True by simp
  moreover have "last ks = k" and "ks \<noteq> []"
  proof -
    from True obtain as bs where ks: "ks = as @ k # bs" by (meson split_list)
    then have "\<forall>b \<in> set bs. b = k" using assms(2,3) by (auto simp: sorted_append intro: antisym)
    then show "last ks = k" using ks by (cases bs rule: rev_cases) auto
    show "ks \<noteq> []" using True by auto
  qed
  ultimately show ?thesis using assms(1) by (simp add: put_day_in_place remdups_adj_snoc)
next
  case False
  have "set (map fst d) = set ks" using assms(1) by simp
  then have "k \<notin> fst ` set d" using False by simp
  then have "put_day k v d = d @ [(k, v)]" by (rule put_day_last)
  moreover have "\<not> (ks \<noteq> [] \<and> last ks = k)" using False by (metis last_in_set)
  ultimately show ?thesis using assms(1) by (simp add: remdups_adj_snoc)
qed

lemma balance_at_snoc:
  "balance_at E daoId (rs @ [r]) d =
     balance_at E daoId rs d + (if receipt_day E r \<le> d then receipt_change daoId r else 0)"
  by (simp add: balance_at_def)

lemma balance_at_total:
  "\<forall>r \<in> set rs. receipt_day E r \<le> d \<Longrightarrow> balance_at E daoId rs d = sum_list (map (receipt_change daoId) rs)"
  by (simp add: balance_at_def filter_True)

lemma balance_at_perm: "mset rs = mset rs' \<Longrightarrow> balance_at E daoId rs d = balance_at E daoId rs' d"
proof -
  assume eq: "mset rs = mset rs'"
  have "mset (map (receipt_change daoId) (filter P rs)) = mset (map (receipt_change daoId) (filter P rs'))" for P
    using eq by simp
  then show ?thesis unfolding balance_at_def by (metis sum_mset_sum_list)
qed

lemma fold_entries:
  assumes "mono (e_startOfDay E)" and "list_all receipt_readable rs"
    and "sorted (map receipt_time rs)"
  shows "\<exists>vals. fold_res (add_entry E daoId) (0, []) (map (\<lambda>r. (receipt_time r, r)) rs)
             = Inr (sum_list (map (receipt_change daoId) rs), vals)
           \<and> map fst vals = remdups_adj (map (receipt_day E) rs)
           \<and> (\<forall>d \<in> receipt_day E ` set rs. map_of vals d = Some (balance_at E daoId rs d))"
  using assms(2,3)
proof (induction rs rule: rev_induct)
  case (snoc r rs)
  then obtain vals where v: "fold_res (add_entry E daoId) (0, []) (map (\<lambda>r. (receipt_time r, r)) rs)
        = Inr (sum_list (map (receipt_change daoId) rs), vals)"
      "map fst vals = remdups_adj (map (receipt_day E) rs)"
      "\<forall>d \<in> receipt_day E ` set rs. map_of vals d = Some (balance_at E daoId rs d)"
    by (auto simp: sorted_append)
  let ?d = "receipt_day E r"
  let ?b = "sum_list (map (receipt_change daoId) rs) + receipt_change daoId r"
  have le: "\<forall>r' \<in> set rs. receipt_day E r' \<le> ?d"
    using snoc.prems(2) assms(1) by (auto simp: sorted_append receipt_day_def mono_def)
  have srt: "sorted (map (receipt_day E) rs)"
    using snoc.prems(2) assms(1)
    by (auto simp: sorted_append receipt_day_def sorted_wrt_map mono_def elim!: sorted_wrt_mono_rel [rotated])
  have f1: "fold_res (add_entry E daoId) (0, []) (map (\<lambda>r. (receipt_time r, r)) (rs @ [r]))
      = Inr (sum_list (map (receipt_change daoId) (rs @ [r])), put_day ?d ?b vals)"
    using snoc.prems(1) v(1)
    by (simp add: fold_res_snoc add_entry_def entry_change_readable receipt_day_def)
  have f2: "map fst (put_day ?d ?b vals) = remdups_adj (map (receipt_day E) (rs @ [r]))"
    using put_day_sorted_snoc [OF v(2) srt, of ?d] le by simp
  have f3: "map_of (put_day ?d ?b vals) d = Some (balance_at E daoId (rs @ [r]) d)"
    if d: "d \<in> receipt_day E ` set (rs @ [r])" for d
  proof (cases "d = ?d")
    case True
    then show ?thesis using le balance_at_total [of rs E ?d daoId] by (simp add: balance_at_snoc)
  next
    case False
    with d le have "d \<in> receipt_day E ` set rs" "\<not> ?d \<le> d" by force+
    then have "map_of vals d = Some (balance_at E daoId rs d)" using v(3) by blast
    with False \<open>\<not> ?d \<le> d\<close> show ?thesis by (simp add: balance_at_snoc)
  qed
  show ?case using f1 f2 f3 by blast
qed simp

lemma daily_balance_sums:
  assumes "mono (e_startOfDay E)" and "list_all receipt_readable receipts"
  obtains vals where "daily_balance E daoId receipts = Inr vals"
    and "map fst vals = remdups_adj (sort (map (receipt_day E) receipts))"
    and "\<And>d. d \<in> receipt_day E ` set receipts \<Longrightarrow> map_of vals d = Some (balance_at E daoId receipts d)"
proof -
  let ?rs = "sort_key receipt_time receipts"
  have "list_all receipt_readable ?rs" using assms(2) by (simp add: list_all_iff)
  then obtain vals where v: "fold_res (add_entry E daoId) (0, []) (map (\<lambda>r. (receipt_time r, r)) ?rs)
        = Inr (sum_list (map (receipt_change daoId) ?rs), vals)"
      "map fst vals = remdups_adj (map (receipt_day E) ?rs)"
      "\<forall>d \<in> receipt_day E ` set ?rs. map_of vals d = Some (balance_at E daoId ?rs d)"
    using fold_entries [OF assms(1), of ?rs daoId] by auto
  have "map (receipt_day E) ?rs = sort (map (receipt_day E) receipts)"
  proof (rule properties_for_sort [symmetric])
    show "sorted (map (receipt_day E) ?rs)"
      using sorted_sort_key [of receipt_time receipts] assms(1)
      by (auto simp: receipt_day_def sorted_wrt_map mono_def elim!: sorted_wrt_mono_rel [rotated])
  qed (simp add: mset_map)
  then show thesis
    using that [of vals] v assms(2)
    by (simp add: daily_balance_def sorted_entries_readable balance_at_perm [of ?rs receipts])
qed

section \<open>Filling in the days\<close>

lemma days_from_Cons: "s \<le> u \<Longrightarrow> days_from s u = s # days_from (s + 86400000) u"
  by (simp add: days_from.simps [of s u])

lemma days_from_Nil: "\<not> s \<le> u \<Longrightarrow> days_from s u = []"
  by (simp add: days_from.simps [of s u])

lemma set_days_from: "t \<in> set (days_from s u) \<longleftrightarrow> s \<le> t \<and> t \<le> u \<and> 86400000 dvd (t - s)"
proof (induction s u rule: days_from.induct)
  case (1 s u)
  show ?case
  proof (cases "s \<le> u")
    case True
    have "t - s = (t - (s + 86400000)) + 86400000" by simp
    then have dvd: "86400000 dvd (t - (s + 86400000)) \<longleftrightarrow> 86400000 dvd (t - s)"
      by (metis dvd_add_triv_right_iff)
    have step: "s \<le> t \<and> 86400000 dvd (t - s) \<longleftrightarrow> t = s \<or> s + 86400000 \<le> t \<and> 86400000 dvd (t - s)"
      using zdvd_imp_le [of 86400000 "t - s"] by fastforce
    have "t \<in> set (days_from s u) \<longleftrightarrow> t = s \<or> s + 86400000 \<le> t \<and> t \<le> u \<and> 86400000 dvd (t - s)"
      using 1 [OF True] by (simp add: days_from_Cons [OF True] dvd)
    then show ?thesis using True step by blast
  qed (simp add: days_from_Nil)
qed

lemma sorted_days_from: "sorted_wrt (<) (days_from s u)"
proof (induction s u rule: days_from.induct)
  case (1 s u)
  show ?case
  proof (cases "s \<le> u")
    case True
    have "\<forall>x \<in> set (days_from (s + 86400000) u). s < x" by (auto simp: set_days_from)
    then show ?thesis using 1 [OF True] by (simp add: days_from_Cons [OF True])
  qed (simp add: days_from_Nil)
qed

lemma keys_patch_days:
  "distinct ts \<Longrightarrow>
     map fst (patch_days prev ts vals) =
       map fst vals @ filter (\<lambda>t. t \<notin> fst ` set vals) ts"
proof (induction ts arbitrary: prev vals)
  case (Cons t ts)
  let ?v = "patch_value (map_of vals t) prev"
  have "filter (\<lambda>t'. t' \<notin> fst ` set (put_day t ?v vals)) ts = filter (\<lambda>t'. t' \<notin> fst ` set vals) ts"
    using Cons.prems by (auto simp: keys_put_day intro!: filter_cong)
  with Cons show ?case
    by (cases "t \<in> fst ` set vals") (auto simp: Let_def put_day_in_place put_day_last)
qed simp

lemma map_of_patch_days:
  "distinct ts \<Longrightarrow>
     map_of (patch_days prev ts vals) t =
       (if t \<in> set ts
        then Some (foldl (\<lambda>p t. patch_value (map_of vals t) p) prev (takeWhile ((\<noteq>) t) ts @ [t]))
        else map_of vals t)"
proof (induction ts arbitrary: prev vals)
  case (Cons u ts)
  let ?v = "patch_value (map_of vals u) prev"
  have same: "foldl (\<lambda>p t. patch_value (map_of (put_day u ?v vals) t) p) ?v xs
      = foldl (\<lambda>p t. patch_value (map_of vals t) p) ?v xs" if "u \<notin> set xs" for xs
    using that by (intro foldl_cong) auto
  show ?case
  proof (cases "t = u")
    case True
    then show ?thesis using Cons by (simp add: Let_def)
  next
    case False
    then have "u \<notin> set (takeWhile ((\<noteq>) t) ts @ [t])"
      using Cons.prems by (auto dest: set_takeWhileD)
    then show ?thesis using Cons False same by (simp add: Let_def)
  qed
qed simp

lemma foldl_patch_value:
  "foldl (\<lambda>p t. patch_value (m t) p) prev ts =
     (let xs = filter (\<lambda>t. m t \<notin> {None, Some 0}) ts in if xs = [] then prev else the (m (last xs)))"
  by (induction ts rule: rev_induct) (auto simp: patch_value_def Let_def split: option.splits)

lemma last_sorted_Max: "sorted xs \<Longrightarrow> xs \<noteq> [] \<Longrightarrow> last xs = Max (set (xs :: int list))"
proof -
  assume "sorted xs" and "xs \<noteq> []"
  then show ?thesis
    by (cases xs rule: rev_cases) (auto simp: sorted_append intro!: Max_eqI [symmetric])
qed

text \<open>
  What the result shows for the time \<open>t\<close>: the balance of the last day up to it at which the balance
  was not zero.
\<close>

definition shown_balance :: "env \<Rightarrow> string \<Rightarrow> funds_entry list \<Rightarrow> int \<Rightarrow> int" where
  "shown_balance E daoId receipts t =
     (let ds = filter (\<lambda>d. d \<le> t \<and> balance_at E daoId receipts d \<noteq> 0) (map (receipt_day E) receipts)
      in if ds = [] then 0 else balance_at E daoId receipts (Max (set ds)))"

definition receipt_days :: "env \<Rightarrow> funds_entry list \<Rightarrow> int list" where
  "receipt_days E receipts = remdups_adj (sort (map (receipt_day E) receipts))"

definition utc_days :: "env \<Rightarrow> bool" where
  "utc_days E \<longleftrightarrow> (\<forall>t. e_startOfDay E t = t - t mod 86400000)"

lemma utc_days_mono: "utc_days E \<Longrightarrow> mono (e_startOfDay E)"
  by (auto simp: utc_days_def mono_def minus_mod_eq_mult_div intro: zdiv_mono1)

lemma utc_days_grid: "utc_days E \<Longrightarrow> 86400000 dvd receipt_day E r"
  by (simp add: utc_days_def receipt_day_def)

lemma set_receipt_days: "set (receipt_days E receipts) = receipt_day E ` set receipts"
  by (simp add: receipt_days_def)

lemma hd_receipt_days:
  "receipts \<noteq> [] \<Longrightarrow> r \<in> set receipts \<Longrightarrow> hd (receipt_days E receipts) \<le> receipt_day E r"
proof -
  assume r: "r \<in> set receipts"
  let ?ds = "sort (map (receipt_day E) receipts)"
  have mem: "receipt_day E r \<in> set ?ds" using r by simp
  then obtain d ds where ds: "?ds = d # ds" by (cases ?ds) auto
  moreover have "sorted ?ds" by simp
  ultimately have "sorted (d # ds)" by simp
  moreover have "receipt_day E r \<in> set (d # ds)" using mem unfolding ds .
  ultimately have "d \<le> receipt_day E r" by auto
  then show ?thesis by (simp add: receipt_days_def ds)
qed

lemma patched_value:
  assumes m: "\<And>d. map_of vals d = (if d \<in> receipt_day E ` set receipts
      then Some (balance_at E daoId receipts d) else None)"
    and grid: "\<And>r. r \<in> set receipts \<Longrightarrow> receipt_day E r \<le> u \<Longrightarrow> receipt_day E r \<in> set (days_from s u)"
    and t: "t \<in> set (days_from s u)"
  shows "map_of (patch_days 0 (days_from s u) vals) t = Some (shown_balance E daoId receipts t)"
proof -
  let ?ts = "days_from s u"
  let ?pre = "takeWhile ((\<noteq>) t) ?ts @ [t]"
  have srt: "sorted_wrt (<) ?ts" by (rule sorted_days_from)
  obtain as post where "?ts = as @ t # post" and "t \<notin> set as" using t by (meson split_list_first)
  moreover from this have "takeWhile ((\<noteq>) t) ?ts = as"
    by (metis (mono_tags, lifting) append_Nil2 takeWhile.simps(2) takeWhile_append2)
  ultimately have ts: "?ts = ?pre @ post" by simp
  have srt': "sorted_wrt (<) (?pre @ post)" using srt ts by simp
  then have pre_le: "x \<in> set ?pre \<longleftrightarrow> x \<in> set ?ts \<and> x \<le> t" for x
    using t by (subst ts) (fastforce simp: sorted_wrt_append)
  let ?xs = "filter (\<lambda>t. map_of vals t \<notin> {None, Some 0}) ?pre"
  let ?ds = "filter (\<lambda>d. d \<le> t \<and> balance_at E daoId receipts d \<noteq> 0) (map (receipt_day E) receipts)"
  have sets: "set ?xs = set ?ds"
  proof (rule set_eqI)
    fix x
    have "t \<le> u" using t by (simp add: set_days_from)
    then show "x \<in> set ?xs \<longleftrightarrow> x \<in> set ?ds"
      unfolding set_filter mem_Collect_eq pre_le using grid by (auto simp: m split: if_splits)
  qed
  define xs where "xs = ?xs"
  define ds where "ds = ?ds"
  have sets: "set xs = set ds" unfolding xs_def ds_def by (rule sets)
  have "sorted ?pre" using srt' strict_sorted_imp_sorted sorted_wrt_append by blast
  then have "sorted xs" unfolding xs_def by (rule sorted_wrt_filter)
  then have last: "last xs = Max (set ds)" if "xs \<noteq> []"
    using last_sorted_Max that unfolding sets [symmetric] by blast
  have ne: "xs = [] \<longleftrightarrow> ds = []" using sets by (metis set_empty)
  have max: "map_of vals (Max (set ds)) = Some (balance_at E daoId receipts (Max (set ds)))"
    if "ds \<noteq> []"
  proof -
    have "Max (set ds) \<in> set ds" using that by (intro Max_in) auto
    then show ?thesis by (auto simp: m ds_def)
  qed
  have "distinct ?ts" using srt strict_sorted_iff by blast
  then have "map_of (patch_days 0 ?ts vals) t
      = Some (foldl (\<lambda>p t. patch_value (map_of vals t) p) 0 ?pre)"
    using t by (simp add: map_of_patch_days)
  also have "foldl (\<lambda>p t. patch_value (map_of vals t) p) 0 ?pre
      = (if xs = [] then 0 else the (map_of vals (last xs)))"
    unfolding xs_def by (simp only: foldl_patch_value Let_def)
  also have "\<dots> = (if ds = [] then 0 else balance_at E daoId receipts (Max (set ds)))"
    using last max ne by (cases "ds = []") simp_all
  also have "\<dots> = shown_balance E daoId receipts t" by (simp add: shown_balance_def ds_def Let_def)
  finally show ?thesis .
qed
text \<open>What the listing of the days is, once the receipts have been read.\<close>

definition shown_days :: "env \<Rightarrow> string \<Rightarrow> funds_entry list \<Rightarrow> int \<Rightarrow> (int \<times> string) list" where
  "shown_days E daoId receipts now =
     (let days = receipt_days E receipts in
      map (\<lambda>d. (d, int_str (shown_balance E daoId receipts d)))
        (days @ filter (\<lambda>d. d \<notin> set days) (days_from (hd days) (e_startOfDay E now))))"

definition past_receipt :: "env \<Rightarrow> int \<Rightarrow> funds_entry \<Rightarrow> bool" where
  "past_receipt E now r \<longleftrightarrow> 4294967295 \<le> receipt_day E r \<and> receipt_time r \<le> now"

lemma entries_of_keys: "distinct (map fst d) \<Longrightarrow> d = map (\<lambda>k. (k, the (map_of d k))) (map fst d)"
proof -
  assume d: "distinct (map fst d)"
  have "map ((\<lambda>k. (k, the (map_of d k))) \<circ> fst) d = d"
    by (rule map_idI) (use d in \<open>auto simp: map_of_is_SomeI\<close>)
  then show ?thesis by simp
qed

lemma patched_days:
  assumes utc: "utc_days E" and readable: "list_all receipt_readable receipts"
    and ne: "receipts \<noteq> []" and past: "list_all (past_receipt E now) receipts"
  obtains vals where "daily_balance E daoId receipts = Inr vals"
    and "balance_entries (patchDailyBalance E now vals) = shown_days E daoId receipts now"
proof -
  let ?u = "e_startOfDay E now" and ?days = "receipt_days E receipts"
  obtain vals where v: "daily_balance E daoId receipts = Inr vals" and keys: "map fst vals = ?days"
    and at: "\<And>d. d \<in> receipt_day E ` set receipts \<Longrightarrow> map_of vals d = Some (balance_at E daoId receipts d)"
    using daily_balance_sums [OF utc_days_mono [OF utc] readable] unfolding receipt_days_def by metis
  let ?s = "hd ?days"
  let ?grid = "days_from ?s ?u"
  let ?patched = "patch_days 0 ?grid vals"
  have keyset: "fst ` set vals = receipt_day E ` set receipts"
    using keys by (metis set_map set_receipt_days)
  have m: "map_of vals d = (if d \<in> receipt_day E ` set receipts
      then Some (balance_at E daoId receipts d) else None)" for d
    using at keyset by (auto simp: map_of_eq_None_iff)
  have days_ne: "?days \<noteq> []" using ne set_receipt_days [of E receipts] by auto
  then have hd_in: "?s \<in> receipt_day E ` set receipts" using set_receipt_days hd_in_set by metis
  then have dvd_s: "86400000 dvd ?s" using utc_days_grid [OF utc] by auto
  have no_index: "\<not> is_index d" if "4294967295 \<le> d" for d using that by (simp add: is_index_def)
  have late: "4294967295 \<le> d" if "d \<in> receipt_day E ` set receipts" for d
    using past that by (auto simp: list_all_iff past_receipt_def)
  have start: "js_entries vals = vals" using keyset no_index late by (intro js_entries_no_index) force
  have mem: "receipt_day E r \<in> set ?grid" if "r \<in> set receipts" for r
    unfolding set_days_from
  proof (intro conjI)
    show "?s \<le> receipt_day E r" using ne that by (rule hd_receipt_days)
    show "receipt_day E r \<le> ?u"
      using that past utc_days_mono [OF utc] by (auto simp: list_all_iff past_receipt_def receipt_day_def mono_def)
    show "86400000 dvd receipt_day E r - ?s" using utc_days_grid [OF utc] dvd_s by (rule dvd_diff)
  qed
  have "e_startOfDay E ?s = ?s" using dvd_s utc by (simp add: utc_days_def dvd_eq_mod_eq_0)
  moreover obtain v0 vs where "vals = (?s, v0) # vs"
    using keys days_ne by (cases vals) (auto simp flip: keys)
  ultimately have patch: "patchDailyBalance E now vals = ?patched"
    using start by (auto simp: patchDailyBalance_def getDays_def Let_def)
  have dist_grid: "distinct ?grid" using sorted_days_from strict_sorted_iff by blast
  have keys': "map fst ?patched = ?days @ filter (\<lambda>d. d \<notin> set ?days) ?grid"
    using keys_patch_days [OF dist_grid, of 0 vals] keys keyset set_receipt_days by metis
  have "distinct ?days" unfolding receipt_days_def
    by (simp add: distinct_remdups_adj_sorted)
  then have dist: "distinct (map fst ?patched)" unfolding keys' using dist_grid by auto
  have "\<not> is_index d" if d: "d \<in> set (map fst ?patched)" for d
  proof (cases "d \<in> set ?days")
    case True
    then show ?thesis using no_index late set_receipt_days by metis
  next
    case False
    then have "?s \<le> d" using d unfolding keys' by (auto simp: set_days_from)
    then show ?thesis using no_index late [OF hd_in] by simp
  qed
  then have js: "js_entries ?patched = ?patched" by (intro js_entries_no_index) force
  have val: "the (map_of ?patched d) = shown_balance E daoId receipts d" if "d \<in> set (map fst ?patched)" for d
  proof -
    have "d \<in> set ?grid" using that mem unfolding keys' by (auto simp: set_receipt_days)
    then show ?thesis using patched_value [OF m mem] by simp
  qed
  have "balance_entries ?patched = map (\<lambda>d. (d, int_str (the (map_of ?patched d)))) (map fst ?patched)"
    unfolding balance_entries_def js by (subst (1) entries_of_keys [OF dist]) simp
  also have "\<dots> = map (\<lambda>d. (d, int_str (shown_balance E daoId receipts d))) (map fst ?patched)"
    using val by (intro map_cong) auto
  finally have "balance_entries ?patched = shown_days E daoId receipts now"
    unfolding keys' by (simp add: shown_days_def Let_def)
  then show thesis using that v patch by simp
qed

text \<open>A DAO that received 5 on the first day and spent them on the third; \<open>now\<close> is on the fourth.\<close>

definition sample_funds :: "funds_entry list" where
  "sample_funds =
     [\<lparr> fe_receiverId = JStr ''bob'', fe_amount = JStr (int_str 5),
        fe_createTimestamp = getBlockTimestamp 8812800000 \<rparr>,
      \<lparr> fe_receiverId = JStr ''dao'', fe_amount = JStr (int_str 5),
        fe_createTimestamp = getBlockTimestamp 8640000000 \<rparr>]"

definition funds_world :: world where
  "funds_world = quiet_world\<lparr> w_now := \<lambda>tr. 8899200000, w_funds := \<lambda>tr. Inr sample_funds \<rparr>"

lemma parse_getBlockTimestamp: "parseBlockTimestamp (getBlockTimestamp t) = Inr t"
  by (cases "t = 0") (auto simp: parseBlockTimestamp_def getBlockTimestamp_def big_div_def abs_mult sgn_mult
      mult_sgn_abs simp flip: mult.assoc)

lemma sample_funds_days:
  "list_all receipt_readable sample_funds" "list_all (past_receipt sample_env 8899200000) sample_funds"
  "utc_days sample_env" "sample_funds \<noteq> []"
  "shown_days sample_env ''dao'' sample_funds 8899200000 =
     [(8640000000, ''5''), (8812800000, ''5''), (8726400000, ''5''), (8899200000, ''5'')]"
proof -
  have five: "int_str 5 = ''5''" by code_simp
  have grid: "days_from 8640000000 8899200000 = [8640000000, 8726400000, 8812800000, 8899200000]"
    by (simp add: days_from_Cons days_from_Nil)
  show "list_all receipt_readable sample_funds"
    by (simp add: sample_funds_def receipt_readable_def entry_time_def parse_getBlockTimestamp)
  show "list_all (past_receipt sample_env 8899200000) sample_funds"
    by (simp add: sample_funds_def past_receipt_def receipt_day_def receipt_time_def entry_time_def
        parse_getBlockTimestamp sample_env_def)
  show "utc_days sample_env" by (simp add: utc_days_def sample_env_def)
  show "sample_funds \<noteq> []" by (simp add: sample_funds_def)
  have day: "map (receipt_day sample_env) sample_funds = [8812800000, 8640000000]"
    by (simp add: sample_funds_def receipt_day_def receipt_time_def entry_time_def parse_getBlockTimestamp
        sample_env_def)
  have at: "balance_at sample_env ''dao'' sample_funds d =
      (if 8640000000 \<le> d then 5 else 0) - (if 8812800000 \<le> d then 5 else 0)" for d
    by (simp add: balance_at_def sample_funds_def receipt_day_def receipt_time_def entry_time_def
        parse_getBlockTimestamp sample_env_def receipt_change_def entry_change_def)
  have days: "receipt_days sample_env sample_funds = [8640000000, 8812800000]"
    by (simp add: receipt_days_def day)
  have today: "e_startOfDay sample_env 8899200000 = 8899200000" by (simp add: sample_env_def)
  have "shown_balance sample_env ''dao'' sample_funds t = 5" if "8640000000 \<le> t" for t
    using that by (simp add: shown_balance_def day at Let_def)
  then have shown: "shown_balance sample_env ''dao'' sample_funds 8640000000 = 5"
    "shown_balance sample_env ''dao'' sample_funds 8726400000 = 5"
    "shown_balance sample_env ''dao'' sample_funds 8812800000 = 5"
    "shown_balance sample_env ''dao'' sample_funds 8899200000 = 5" by simp_all
  show "shown_days sample_env ''dao'' sample_funds 8899200000 =
     [(8640000000, ''5''), (8812800000, ''5''), (8726400000, ''5''), (8899200000, ''5'')]"
    by (simp add: shown_days_def days today shown grid five Let_def)
qed

section \<open>What the services return\<close>

text \<open>
  C34. The daily balances of a DAO and of one of its tokens: for each day with receipts, in their
  order, and then for each day without, up to today, the balance after the last day on which the
  receipts did not add up to zero. A DAO that has spent everything is shown with what it had before,
  and days without receipts come after all days with some.
\<close>

theorem getDailyBalance_shown:
  assumes "utc_days E" and "receipts \<noteq> []" and "list_all receipt_readable receipts"
    and "list_all (past_receipt E now) receipts"
    and "\<And>t. w_funds W t = Inr receipts" and "\<And>t. w_now W t = now"
  shows "getDailyBalanceByDaoId E daoId W tr
           = (Inr (shown_days E daoId receipts now), tr @ [Dyn (D_allReceipts daoId)])
       \<and> getDailyTokenBalanceByDaoId E daoId tokenId W tr
           = (Inr (shown_days E daoId receipts now),
              tr @ [Dyn (D_allTokenReceipts daoId (tokenId @ ''-''))])"
proof -
  obtain vals where "daily_balance E daoId receipts = Inr vals"
    and "balance_entries (patchDailyBalance E now vals) = shown_days E daoId receipts now"
    using patched_days [OF assms(1,3,2,4)] .
  then show ?thesis
    using assms(5,6)
    by (simp add: getDailyBalanceByDaoId_def getDailyTokenBalanceByDaoId_def daily_service_def run_simps)
qed

lemma getDailyBalance_shown_witness:
  "fst (getDailyBalanceByDaoId sample_env ''dao'' funds_world [])
     = Inr [(8640000000, ''5''), (8812800000, ''5''), (8726400000, ''5''), (8899200000, ''5'')]"
  using getDailyBalance_shown [of sample_env sample_funds 8899200000 funds_world "''dao''" "[]"]
    sample_funds_days
  by (simp add: funds_world_def)

section \<open>Reading back a receipt\<close>

definition castReceiptModelToDto :: "(string \<times> jsval) list \<Rightarrow> (string \<times> jsval) list" where
  "castReceiptModelToDto m = map (\<lambda>f. (f, obj_get m f))
     [''daoId'', ''receiptId'', ''indexInReceipt'', ''predecessorId'', ''receiverId'', ''kind'', ''deposit'',
      ''methodName'', ''args'', ''transactionHash'', ''createTimestamp'', ''isArchived'']"

definition castTokenReceiptModelToDto :: "(string \<times> jsval) list \<Rightarrow> (string \<times> jsval) list" where
  "castTokenReceiptModelToDto m = map (\<lambda>f. (f, obj_get m f))
     [''daoId'', ''receiptId'', ''indexInReceipt'', ''senderId'', ''receiverId'', ''tokenId'', ''kind'',
      ''amount'', ''deposit'', ''methodName'', ''args'', ''transactionHash'', ''createTimestamp'',
      ''isArchived'']"

lemma castReceiptModelToDto_model:
  "castReceiptModelToDto (snd (castReceiptDtoToModel dto)) = snd (castReceiptDtoToModel dto)"
  by (simp add: castReceiptModelToDto_def castReceiptDtoToModel_def obj_get_def)

lemma castTokenReceiptModelToDto_model:
  "castTokenReceiptModelToDto (snd (castTokenReceiptDtoToModel dto)) = snd (castTokenReceiptDtoToModel dto)"
  by (simp add: castTokenReceiptModelToDto_def castTokenReceiptDtoToModel_def obj_get_def)

end
