(* ===== verification/Dao_Stats.thy ===== *)
theory Dao_Stats
  imports Dao_Service
begin

text \<open>
  The daily statistics of the DAOs (\<open>libs/stats/src\<close>, \<open>getGrowth\<close> of \<open>libs/utils/src/index.ts\<close> and
  \<open>libs/dynamodb/src/models/dao-stats.model.ts\<close>). The operations of
  \<open>decimal.js\<close>, third-party code that rounds, are parameters; what is assumed of them is what the
  library documents. The column
  \<open>transactionsCount\<close>, which nothing writes, and the columns of \<open>BaseEntity\<close> are left out of the records.
\<close>

section \<open>Growth\<close>

text \<open>A value of the statistics: a number or, for amounts, a text. Zero and the empty text are falsy.\<close>

datatype stat_value = SV_Num rat | SV_Text string

datatype growth = Growth rat | Growth_NaN | Growth_Infinity bool

fun falsy_stat :: "stat_value option \<Rightarrow> bool" where
  "falsy_stat None = True"
| "falsy_stat (Some (SV_Num q)) = (q = 0)"
| "falsy_stat (Some (SV_Text s)) = (s = [])"

definition stat_or :: "stat_value option \<Rightarrow> rat \<Rightarrow> stat_value" where
  "stat_or v d = (if falsy_stat v then SV_Num d else the v)"

text \<open>
  What the source uses of \<open>decimal.js\<close>: \<open>new Decimal\<close> of a text, \<open>sub\<close>, \<open>div\<close>, \<open>mul\<close>,
  \<open>toDecimalPlaces(2)\<close> and \<open>toNumber\<close>, which has no number for a value beyond the largest one.
  A \<open>Decimal\<close> is the rational number it holds; a number stands for the decimal value that its text shows.
\<close>

record decimal_lib =
  dec_parse :: "string \<Rightarrow> exn + rat"
  dec_sub :: "rat \<Rightarrow> rat \<Rightarrow> rat"
  dec_div :: "rat \<Rightarrow> rat \<Rightarrow> rat"
  dec_mul :: "rat \<Rightarrow> rat \<Rightarrow> rat"
  dec_places :: "rat \<Rightarrow> rat"
  dec_number :: "rat \<Rightarrow> rat option"

fun to_decimal :: "decimal_lib \<Rightarrow> stat_value \<Rightarrow> exn + rat" where
  "to_decimal D (SV_Num q) = Inr q"
| "to_decimal D (SV_Text s) = dec_parse D s"

text \<open>
  A division by zero gives \<open>NaN\<close> or an infinity, and the later operations keep them. (The sign of a zero,
  which only a text of minus zero has, is not kept.)
\<close>

definition getGrowth :: "decimal_lib \<Rightarrow> stat_value option \<Rightarrow> stat_value option \<Rightarrow> exn + growth" where
  "getGrowth D current prev =
     res_bind (to_decimal D (stat_or current 0)) (\<lambda>c.
     res_bind (to_decimal D (stat_or prev 0)) (\<lambda>p.
     let change = dec_sub D c p in
     res_bind (to_decimal D (stat_or current 1)) (\<lambda>d.
     Inr (if d = 0 then (if change = 0 then Growth_NaN else Growth_Infinity (0 < change))
          else let percent = dec_places D (dec_mul D (dec_div D change d) 100) in
            case dec_number D percent of
              None \<Rightarrow> Growth_Infinity (0 < percent)
            | Some g \<Rightarrow> Growth g))))"

section \<open>Reading and storing\<close>

definition daoStats_key :: "string \<Rightarrow> string \<Rightarrow> dyn_key" where
  "daoStats_key daoId i = entity_key (Some daoId) E_DaoStats i"

definition saveDaoStats :: "dao_stats \<Rightarrow> unit service" where
  "saveDaoStats s = do_call (Dyn (D_save (daoStats_key (ds_daoId s) (ds_id s)) (M_DaoStats s)))"

definition stats_create :: "dao_stats \<Rightarrow> dao_stats service" where
  "stats_create s = thn (do_call (Sql (S_saveDaoStats s))) (thn (saveDaoStats s) (ret s))"

definition getDaoStats :: "env \<Rightarrow> string \<Rightarrow> dao_stats service" where
  "getDaoStats E daoId =
     bnd (peek w_now) (\<lambda>now.
     let timestamp = e_startOfDay E now in
     bnd (dao_findById daoId) (\<lambda>d.
       case d of
         None \<Rightarrow> throw (HttpError 404 ''Not Found'')
       | Some d \<Rightarrow> ret
           \<lparr> ds_id = buildDaoStatsId (dao_id d) timestamp, ds_daoId = daoId, ds_timestamp = timestamp,
             ds_amount = dao_amount d, ds_totalDaoFunds = dao_totalDaoFunds d,
             ds_totalProposalCount = dao_totalProposalCount d,
             ds_activeProposalCount = dao_activeProposalCount d, ds_bountyCount = dao_bountyCount d,
             ds_nftCount = dao_nftCount d \<rparr>))"

definition dynamo_getDaoStats :: "string \<Rightarrow> int \<Rightarrow> dao_stats option service" where
  "dynamo_getDaoStats daoId timestamp =
     dyn_get w_daoStats (daoStats_key daoId (buildDaoStatsId daoId timestamp))"

text \<open>A timestamp of 0 counts as not given.\<close>

definition getLastDaoStats :: "env \<Rightarrow> string \<Rightarrow> int option \<Rightarrow> dao_stats option service" where
  "getLastDaoStats E daoId timestamp =
     bnd (peek w_now) (\<lambda>now.
     let t = (case timestamp of Some t \<Rightarrow> if t = 0 then e_startOfDay E (e_minusDay E now) else t
              | None \<Rightarrow> e_startOfDay E (e_minusDay E now)) in
     bnd (useDynamoDB ''dao-stats-dynamo'') (\<lambda>dynamo.
       if dynamo then dynamo_getDaoStats daoId t
       else call (Sql (S_findDaoStats daoId t)) w_daoStats))"

section \<open>The state of a DAO\<close>

record stats_state =
  ss_value :: stat_value
  ss_growth :: growth

record dao_stats_state =
  dss_daoId :: string
  dss_timestamp :: int
  dss_amount :: stats_state
  dss_totalDaoFunds :: stats_state
  dss_totalProposalCount :: stats_state
  dss_activeProposalCount :: stats_state
  dss_bountyCount :: stats_state
  dss_nftCount :: stats_state

datatype stats_field = F_amount | F_totalDaoFunds | F_totalProposalCount | F_activeProposalCount | F_bountyCount | F_nftCount

definition count_value :: "int option \<Rightarrow> stat_value option" where
  "count_value n = map_option (\<lambda>n. SV_Num (of_int n)) n"

fun stats_get :: "stats_field \<Rightarrow> dao_stats \<Rightarrow> stat_value option" where
  "stats_get F_amount s = map_option SV_Text (ds_amount s)"
| "stats_get F_totalDaoFunds s = map_option SV_Num (ds_totalDaoFunds s)"
| "stats_get F_totalProposalCount s = count_value (ds_totalProposalCount s)"
| "stats_get F_activeProposalCount s = count_value (ds_activeProposalCount s)"
| "stats_get F_bountyCount s = count_value (ds_bountyCount s)"
| "stats_get F_nftCount s = count_value (ds_nftCount s)"

definition getStatsState ::
    "decimal_lib \<Rightarrow> stat_value option \<Rightarrow> stat_value option \<Rightarrow> exn + stats_state" where
  "getStatsState D currentValue previousValue =
     res_bind (getGrowth D currentValue previousValue) (\<lambda>g.
     Inr \<lparr> ss_value = stat_or currentValue 0, ss_growth = g \<rparr>)"

definition field_state :: "decimal_lib \<Rightarrow> dao_stats \<Rightarrow> dao_stats option \<Rightarrow> stats_field \<Rightarrow> exn + stats_state" where
  "field_state D s prev f =
     getStatsState D (stats_get f s) (case prev of None \<Rightarrow> None | Some p \<Rightarrow> stats_get f p)"

definition getDaoStatsState :: "decimal_lib \<Rightarrow> dao_stats \<Rightarrow> dao_stats option \<Rightarrow> exn + dao_stats_state" where
  "getDaoStatsState D s prev =
     res_bind (field_state D s prev F_amount) (\<lambda>amount.
     res_bind (field_state D s prev F_totalDaoFunds) (\<lambda>totalDaoFunds.
     res_bind (field_state D s prev F_totalProposalCount) (\<lambda>totalProposalCount.
     res_bind (field_state D s prev F_activeProposalCount) (\<lambda>activeProposalCount.
     res_bind (field_state D s prev F_bountyCount) (\<lambda>bountyCount.
     res_bind (field_state D s prev F_nftCount) (\<lambda>nftCount.
     Inr \<lparr> dss_daoId = ds_daoId s, dss_timestamp = ds_timestamp s, dss_amount = amount,
           dss_totalDaoFunds = totalDaoFunds, dss_totalProposalCount = totalProposalCount,
           dss_activeProposalCount = activeProposalCount, dss_bountyCount = bountyCount,
           dss_nftCount = nftCount \<rparr>))))))"

section \<open>Charts\<close>

text \<open>
  The items of the table are one page of the query; the relational query orders the rows by time
  and, for one field, leaves out those without it.
\<close>

definition listed_stats :: "string \<Rightarrow> (dao_stats \<Rightarrow> bool) \<Rightarrow> dao_stats list service" where
  "listed_stats daoId present =
     bnd (useDynamoDB ''dao-stats-dynamo'') (\<lambda>dynamo.
       if dynamo then call (Dyn (D_allDaoStats daoId)) w_daoStatsList
       else bnd (call (Sql (S_listDaoStats daoId)) w_daoStatsList) (\<lambda>ss. ret (filter present ss)))"

definition getDaoStatsEntries :: "env \<Rightarrow> string \<Rightarrow> stats_field \<Rightarrow> (int \<times> stat_value) list service" where
  "getDaoStatsEntries E daoId f =
     bnd (getDaoStats E daoId) (\<lambda>currentDaoStats.
     bnd (listed_stats daoId (\<lambda>s. stats_get f s \<noteq> None)) (\<lambda>daoStats.
     ret (map (\<lambda>s. (ds_timestamp s, stat_or (stats_get f s) 0)) (daoStats @ [currentDaoStats]))))"

definition getDaoStatsProposalEntries ::
    "env \<Rightarrow> string \<Rightarrow> (int \<times> int option \<times> int option) list service" where
  "getDaoStatsProposalEntries E daoId =
     bnd (getDaoStats E daoId) (\<lambda>currentDaoStats.
     bnd (listed_stats daoId (\<lambda>s. True)) (\<lambda>daoStats.
     ret (map (\<lambda>s. (ds_timestamp s, ds_totalProposalCount s, ds_activeProposalCount s))
           (daoStats @ [currentDaoStats]))))"

section \<open>What the growth is\<close>

text \<open>
  What \<open>decimal.js\<close> documents: with its default precision each operation returns the exact result rounded
  to 20 significant digits, \<open>toDecimalPlaces(2)\<close> the nearest number of hundredths, and \<open>toNumber\<close> the
  nearest double, or an infinity for what is beyond the doubles.
\<close>

definition decimal_documented :: "decimal_lib \<Rightarrow> bool" where
  "decimal_documented D \<longleftrightarrow>
     (\<forall>x y. \<bar>dec_sub D x y - (x - y)\<bar> \<le> \<bar>x - y\<bar> * (5 / 10 ^ 20))
   \<and> (\<forall>x y. y \<noteq> 0 \<longrightarrow> \<bar>dec_div D x y - x / y\<bar> \<le> \<bar>x / y\<bar> * (5 / 10 ^ 20))
   \<and> (\<forall>x y. \<bar>dec_mul D x y - x * y\<bar> \<le> \<bar>x * y\<bar> * (5 / 10 ^ 20))
   \<and> (\<forall>x. \<bar>dec_places D x - x\<bar> \<le> 1 / 200 \<and> (\<exists>k. dec_places D x = of_int k / 100))
   \<and> (\<forall>k. case dec_number D (of_int k / 100) of
         Some n \<Rightarrow> \<bar>n - of_int k / 100\<bar> \<le> \<bar>of_int k / 100\<bar> / 2 ^ 53
       | None \<Rightarrow> 2 ^ 1023 < \<bar>of_int k / 100 :: rat\<bar>)"

text \<open>The distances add up.\<close>

lemma abs_via: "\<bar>x - z :: rat\<bar> \<le> \<bar>x - y\<bar> + \<bar>y - z\<bar>"
  using abs_triangle_ineq [of "x - y" "y - z"] by simp

lemma abs_from: "\<bar>x :: rat\<bar> \<le> \<bar>x - y\<bar> + \<bar>y\<bar>"
  using abs_via [of x 0 y] by simp

lemma three_errors:
  fixes a1 a2 a3 :: rat
  assumes "a1 \<le> A * (5 / 10 ^ 20)" "a2 \<le> X1 * (5 / 10 ^ 20)" "a3 \<le> X2 * (5 / 10 ^ 20)"
    and "X1 \<le> a1 + A" "X2 \<le> a2 + X1" and "0 \<le> A"
  shows "a3 + (a2 + a1) \<le> A / 10 ^ 18"
  using assms by simp

lemma close_steps:
  fixes g :: rat
  assumes "\<bar>x1 - g\<bar> \<le> \<bar>g\<bar> * (5 / 10 ^ 20)" and "\<bar>x2 - x1\<bar> \<le> \<bar>x1\<bar> * (5 / 10 ^ 20)"
    and "\<bar>m - x2\<bar> \<le> \<bar>x2\<bar> * (5 / 10 ^ 20)"
  shows "\<bar>m - g\<bar> \<le> \<bar>g\<bar> / 10 ^ 18"
proof -
  have "\<bar>m - g\<bar> \<le> \<bar>m - x2\<bar> + (\<bar>x2 - x1\<bar> + \<bar>x1 - g\<bar>)"
    using abs_via [of m g x2] abs_via [of x2 g x1] by linarith
  also have "\<dots> \<le> \<bar>g\<bar> / 10 ^ 18" by (rule three_errors [OF assms abs_from abs_from abs_ge_zero])
  finally show ?thesis .
qed

lemma last_errors:
  fixes a1 a2 a3 :: rat
  assumes "a1 \<le> A / 10 ^ 18" "a2 \<le> 1 / 200" "a3 \<le> T / 2 ^ 53" and "T \<le> a2 + M" "M \<le> a1 + A" and "0 \<le> A"
  shows "a3 + (a2 + a1) \<le> 1 / 200 + (1 + A) / 10 ^ 15"
  using assms by (simp add: add_divide_distrib)

lemma number_error:
  fixes g :: rat
  assumes "\<bar>m - x\<bar> \<le> \<bar>x\<bar> / 10 ^ 18" and "\<bar>t - m\<bar> \<le> 1 / 200" and "\<bar>g - t\<bar> \<le> \<bar>t\<bar> / 2 ^ 53"
  shows "\<bar>g - x\<bar> \<le> 1 / 200 + (1 + \<bar>x\<bar>) / 10 ^ 15"
proof -
  have "\<bar>g - x\<bar> \<le> \<bar>g - t\<bar> + (\<bar>t - m\<bar> + \<bar>m - x\<bar>)"
    using abs_via [of g x t] abs_via [of t x m] by linarith
  also have "\<dots> \<le> 1 / 200 + (1 + \<bar>x\<bar>) / 10 ^ 15"
    by (rule last_errors [OF assms abs_from abs_from abs_ge_zero])
  finally show ?thesis .
qed

lemma big_number:
  fixes t :: rat
  assumes "\<bar>m - x\<bar> \<le> \<bar>x\<bar> / 10 ^ 18" and "\<bar>t - m\<bar> \<le> 1 / 200" and "N + 1 < \<bar>t\<bar>" and "0 \<le> N"
  shows "N < \<bar>x\<bar> * 2" and "0 < t \<longleftrightarrow> 0 < x"
proof -
  have half: "\<bar>m - x\<bar> \<le> \<bar>x\<bar> / 2" using assms(1) by simp
  show "N < \<bar>x\<bar> * 2" and "0 < t \<longleftrightarrow> 0 < x"
    using half assms(2-4) by (simp_all add: abs_if split: if_splits)
qed

lemma decimal_growth:
  assumes D: "decimal_documented D" and "d \<noteq> 0"
  shows "\<bar>dec_mul D (dec_div D (dec_sub D c p) d) 100 - 100 * (c - p) / d\<bar> \<le> \<bar>100 * (c - p) / d\<bar> / 10 ^ 18"
proof (rule close_steps [where ?x1.0 = "100 * dec_sub D c p / d" and ?x2.0 = "dec_div D (dec_sub D c p) d * 100"])
  have "\<bar>dec_sub D c p - (c - p)\<bar> \<le> \<bar>c - p\<bar> * (5 / 10 ^ 20)"
    using D unfolding decimal_documented_def by blast
  then have "\<bar>100 / d\<bar> * \<bar>dec_sub D c p - (c - p)\<bar> \<le> \<bar>100 / d\<bar> * (\<bar>c - p\<bar> * (5 / 10 ^ 20))"
    by (rule mult_left_mono) simp
  then show "\<bar>100 * dec_sub D c p / d - 100 * (c - p) / d\<bar> \<le> \<bar>100 * (c - p) / d\<bar> * (5 / 10 ^ 20)"
    by (simp add: abs_mult [symmetric] right_diff_distrib diff_divide_distrib mult.assoc [symmetric] del: abs_divide)
next
  have "\<bar>dec_div D (dec_sub D c p) d - dec_sub D c p / d\<bar> \<le> \<bar>dec_sub D c p / d\<bar> * (5 / 10 ^ 20)"
    using D assms(2) unfolding decimal_documented_def by blast
  then show "\<bar>dec_div D (dec_sub D c p) d * 100 - 100 * dec_sub D c p / d\<bar> \<le> \<bar>100 * dec_sub D c p / d\<bar> * (5 / 10 ^ 20)"
    by (simp add: abs_mult abs_divide flip: left_diff_distrib)
next
  show "\<bar>dec_mul D (dec_div D (dec_sub D c p) d) 100 - dec_div D (dec_sub D c p) d * 100\<bar>
      \<le> \<bar>dec_div D (dec_sub D c p) d * 100\<bar> * (5 / 10 ^ 20)"
    using D unfolding decimal_documented_def by blast
qed

lemma near_sign:
  fixes x :: rat
  assumes "\<bar>x - y\<bar> \<le> \<bar>y\<bar> * (5 / 10 ^ 20)"
  shows "x = 0 \<longleftrightarrow> y = 0" and "0 < x \<longleftrightarrow> 0 < y"
proof -
  have half: "\<bar>x - y\<bar> \<le> \<bar>y\<bar> / 2" using assms by simp
  then show "x = 0 \<longleftrightarrow> y = 0" and "0 < x \<longleftrightarrow> 0 < y" by (auto simp: abs_if split: if_splits)
qed

lemma sub_sign:
  assumes "decimal_documented D"
  shows "dec_sub D c p = 0 \<longleftrightarrow> c = p" and "0 < dec_sub D c p \<longleftrightarrow> p < c"
proof -
  have "\<bar>dec_sub D c p - (c - p)\<bar> \<le> \<bar>c - p\<bar> * (5 / 10 ^ 20)"
    using assms unfolding decimal_documented_def by blast
  from near_sign [OF this] show "dec_sub D c p = 0 \<longleftrightarrow> c = p" and "0 < dec_sub D c p \<longleftrightarrow> p < c"
    by simp_all
qed

lemma stat_or_kept: "\<not> falsy_stat v \<Longrightarrow> stat_or v d = stat_or v d'"
  by (simp add: stat_or_def)

text \<open>
  C37. The growth of a value is the change in percent of the new value, to two places: it is off by
  at most half a hundredth, and by the relative error of the arithmetic of the library, less than one part
  in 10^15. A new value that is missing or the number zero counts as one in the denominator; the text of
  an amount of zero is not falsy, so that the division by it gives \<open>NaN\<close> or an infinity. Only a growth
  beyond the doubles gives an infinity otherwise.
\<close>

theorem getGrowth_spec:
  assumes "decimal_documented D"
    and "to_decimal D (stat_or current 0) = Inr c" and "to_decimal D (stat_or prev 0) = Inr p"
    and "d = (if falsy_stat current then 1 else c)"
  shows "if d = 0 then
           getGrowth D current prev = Inr (if p = 0 then Growth_NaN else Growth_Infinity (p < 0))
         else \<exists>r. getGrowth D current prev = Inr r
           \<and> (case r of
                Growth g \<Rightarrow> \<bar>g - 100 * (c - p) / d\<bar> \<le> 1 / 200 + (1 + \<bar>100 * (c - p) / d\<bar>) / 10 ^ 15
              | Growth_NaN \<Rightarrow> False
              | Growth_Infinity positive \<Rightarrow> 10 ^ 300 < \<bar>100 * (c - p) / d\<bar> \<and> (positive \<longleftrightarrow> 0 < (c - p) / d))"
proof -
  have "to_decimal D (stat_or current 1) = Inr d"
  proof (cases "falsy_stat current")
    case True
    with assms(4) show ?thesis by (simp add: stat_or_def)
  next
    case False
    with assms(2,4) stat_or_kept [OF False, of 1 0] show ?thesis by simp
  qed
  then have run: "getGrowth D current prev =
      Inr (if d = 0 then (if dec_sub D c p = 0 then Growth_NaN else Growth_Infinity (0 < dec_sub D c p))
          else case dec_number D (dec_places D (dec_mul D (dec_div D (dec_sub D c p) d) 100)) of
              None \<Rightarrow> Growth_Infinity (0 < dec_places D (dec_mul D (dec_div D (dec_sub D c p) d) 100))
            | Some g \<Rightarrow> Growth g)"
    using assms(2,3) by (simp add: getGrowth_def Let_def)
  show ?thesis
  proof (cases "d = 0")
    case True
    with assms(4) have "c = 0" by (simp split: if_splits)
    with True run sub_sign [OF assms(1), of c p] show ?thesis by auto
  next
    case d: False
    let ?G = "100 * (c - p) / d" and ?m = "dec_mul D (dec_div D (dec_sub D c p) d) 100"
    let ?t = "dec_places D ?m"
    have m: "\<bar>?m - ?G\<bar> \<le> \<bar>?G\<bar> / 10 ^ 18" by (rule decimal_growth [OF assms(1) d])
    obtain k where t: "\<bar>?t - ?m\<bar> \<le> 1 / 200" "?t = of_int k / 100"
      using assms(1) unfolding decimal_documented_def by blast
    have n: "case dec_number D ?t of Some n \<Rightarrow> \<bar>n - ?t\<bar> \<le> \<bar>?t\<bar> / 2 ^ 53 | None \<Rightarrow> 2 ^ 1023 < \<bar>?t\<bar>"
      using assms(1) unfolding decimal_documented_def t(2) by blast
    show ?thesis
    proof (cases "dec_number D ?t")
      case (Some g)
      then have "\<bar>g - ?t\<bar> \<le> \<bar>?t\<bar> / 2 ^ 53" using n by simp
      from number_error [OF m t(1) this] have "\<bar>g - ?G\<bar> \<le> 1 / 200 + (1 + \<bar>?G\<bar>) / 10 ^ 15" .
      with d run Some show ?thesis by simp
    next
      case None
      then have big: "2 ^ 1023 < \<bar>?t\<bar>" using n by simp
      have "(2 :: rat) * 10 ^ 300 + 1 < 2 ^ 1023" by simp
      with big have "2 * 10 ^ 300 + 1 < \<bar>?t\<bar>" by linarith
      from big_number [OF m t(1) this] have G: "10 ^ 300 < \<bar>?G\<bar>" "0 < ?t \<longleftrightarrow> 0 < ?G" by simp_all
      have "0 < ?G \<longleftrightarrow> 0 < (c - p) / d" by (simp add: zero_less_divide_iff)
      with d run None G show ?thesis by simp
    qed
  qed
qed

text \<open>A library without any rounding but the one to two places has what is documented.\<close>

definition exact_decimals :: decimal_lib where
  "exact_decimals = \<lparr> dec_parse = (\<lambda>s. Inr (of_nat (dec_val s))), dec_sub = (-), dec_div = (/), dec_mul = (*),
     dec_places = (\<lambda>x. of_int \<lfloor>x * 100 + 1 / 2\<rfloor> / 100), dec_number = Some \<rparr>"

lemma exact_decimals_documented: "decimal_documented exact_decimals"
proof -
  have "\<bar>of_int \<lfloor>x * 100 + 1 / 2\<rfloor> / 100 - x\<bar> \<le> 1 / 200" for x :: rat by linarith
  then show ?thesis by (auto simp: decimal_documented_def exact_decimals_def)
qed

lemma getGrowth_spec_witness:
  "getGrowth exact_decimals (Some (SV_Text ''0'')) (Some (SV_Text ''5'')) = Inr (Growth_Infinity False)
   \<and> (\<exists>g. getGrowth exact_decimals (Some (SV_Num 4)) (Some (SV_Num 2)) = Inr (Growth g) \<and> \<bar>g - 50\<bar> \<le> 1 / 100)"
proof (intro conjI)
  have "to_decimal exact_decimals (SV_Text ''0'') = Inr 0" "to_decimal exact_decimals (SV_Text ''5'') = Inr 5"
    by (simp_all add: exact_decimals_def dec_val_def digit_val_def)
  then show "getGrowth exact_decimals (Some (SV_Text ''0'')) (Some (SV_Text ''5'')) = Inr (Growth_Infinity False)"
    using getGrowth_spec [OF exact_decimals_documented, of "Some (SV_Text ''0'')" 0 "Some (SV_Text ''5'')" 5 0]
    by (simp add: stat_or_def)
  have parts: "to_decimal exact_decimals (stat_or (Some (SV_Num 4)) 0) = Inr 4"
    "to_decimal exact_decimals (stat_or (Some (SV_Num 2)) 0) = Inr 2" by (simp_all add: stat_or_def)
  obtain r where r: "getGrowth exact_decimals (Some (SV_Num 4)) (Some (SV_Num 2)) = Inr r"
    and close: "case r of
        Growth g \<Rightarrow> \<bar>g - 100 * (4 - 2) / 4\<bar> \<le> 1 / 200 + (1 + \<bar>100 * (4 - 2) / 4\<bar>) / 10 ^ 15
      | Growth_NaN \<Rightarrow> False
      | Growth_Infinity positive \<Rightarrow> 10 ^ 300 < \<bar>100 * (4 - 2) / 4 :: rat\<bar> \<and> (positive \<longleftrightarrow> 0 < ((4 - 2) / 4 :: rat))"
    using getGrowth_spec [OF exact_decimals_documented parts, of 4] by auto
  then obtain g where g: "r = Growth g" "\<bar>g - 100 * (4 - 2) / 4\<bar> \<le> 1 / 200 + (1 + \<bar>100 * (4 - 2) / 4\<bar>) / 10 ^ 15"
    by (cases r) simp_all
  moreover have "(100 * (4 - 2) / 4 :: rat) = 50" "(1 / 200 + (1 + \<bar>50\<bar>) / 10 ^ 15 :: rat) \<le> 1 / 100" by simp_all
  ultimately have "\<bar>g - 50\<bar> \<le> 1 / 100" by (metis order_trans)
  then show "\<exists>g. getGrowth exact_decimals (Some (SV_Num 4)) (Some (SV_Num 2)) = Inr (Growth g) \<and> \<bar>g - 50\<bar> \<le> 1 / 100"
    using r g(1) by (intro exI [of _ g]) simp
qed

section \<open>What is stored and read\<close>

lemma getDaoStats_spec:
  "getDaoStats E daoId W tr =
     (case dao_findById daoId W tr of
        (Inl e, t) \<Rightarrow> (Inl e, t)
      | (Inr None, t) \<Rightarrow> (Inl (HttpError 404 ''Not Found''), t)
      | (Inr (Some d), t) \<Rightarrow>
          (Inr \<lparr> ds_id = buildDaoStatsId (dao_id d) (e_startOfDay E (w_now W tr)), ds_daoId = daoId,
             ds_timestamp = e_startOfDay E (w_now W tr), ds_amount = dao_amount d,
             ds_totalDaoFunds = dao_totalDaoFunds d, ds_totalProposalCount = dao_totalProposalCount d,
             ds_activeProposalCount = dao_activeProposalCount d, ds_bountyCount = dao_bountyCount d,
             ds_nftCount = dao_nftCount d \<rparr>, t))"
  by (simp add: getDaoStats_def run_simps Let_def split: prod.splits sum.splits option.splits)

lemma stats_create_run:
  "stats_create s W tr =
     (let t1 = tr @ [Sql (S_saveDaoStats s)];
          t2 = t1 @ [Dyn (D_save (daoStats_key (ds_daoId s) (ds_id s)) (M_DaoStats s))] in
      case w_ack W t1 of
        Inl e \<Rightarrow> (Inl e, t1)
      | Inr u \<Rightarrow> (case w_ack W t2 of Inl e \<Rightarrow> (Inl e, t2) | Inr u \<Rightarrow> (Inr s, t2)))"
  by (simp add: stats_create_def saveDaoStats_def run_simps Let_def split: sum.splits)

text \<open>
  The statistics a DAO is stored with on one day are the ones looked up by default on the next
  day: the item that is read has the key of the item that was written.
\<close>

theorem stats_next_day:
  assumes "getDaoStats E daoId W tr = (Inr s, t)" and "dao_findById daoId W tr = (Inr (Some d), t)"
    and "dao_id d = daoId" and "e_startOfDay E (e_minusDay E (w_now W' tr')) = e_startOfDay E (w_now W tr)"
    and "w_flag W' (tr' @ [Flag ''dao-stats-dynamo'']) = Inr True"
  shows "\<exists>k. getLastDaoStats E daoId None W' tr'
           = dyn_get w_daoStats k W' (tr' @ [Flag ''dao-stats-dynamo''])
       \<and> (\<forall>r t'. stats_create s W t = (Inr r, t') \<longrightarrow>
            t' = t @ [Sql (S_saveDaoStats s), Dyn (D_save k (M_DaoStats s))])"
proof -
  let ?day = "e_startOfDay E (w_now W tr)"
  let ?k = "daoStats_key daoId (buildDaoStatsId daoId ?day)"
  have s: "ds_daoId s = daoId" "ds_id s = buildDaoStatsId daoId ?day"
    using assms(1-3) by (auto simp: getDaoStats_spec)
  have "getLastDaoStats E daoId None W' tr' = dyn_get w_daoStats ?k W' (tr' @ [Flag ''dao-stats-dynamo''])"
    using assms(4,5)
    by (simp add: getLastDaoStats_def dynamo_getDaoStats_def useDynamoDB_def run_simps Let_def)
  moreover have "t' = t @ [Sql (S_saveDaoStats s), Dyn (D_save ?k (M_DaoStats s))]"
    if "stats_create s W t = (Inr r, t')" for r t'
    using that by (auto simp: stats_create_run s Let_def split: sum.splits)
  ultimately show ?thesis by blast
qed

definition stats_world :: "int \<Rightarrow> bool \<Rightarrow> world" where
  "stats_world now flag = quiet_world\<lparr> w_now := \<lambda>tr. now, w_flag := \<lambda>tr. Inr flag,
     w_dao := \<lambda>tr. Inr (Some (empty_dao ''dao'')) \<rparr>"

lemma stats_next_day_witness:
  "\<exists>s k. fst (getDaoStats sample_env ''dao'' (stats_world 86400005 False) []) = Inr s
     \<and> getLastDaoStats sample_env ''dao'' None (stats_world 172800007 True) []
         = dyn_get w_daoStats k (stats_world 172800007 True) [Flag ''dao-stats-dynamo'']
     \<and> k = daoStats_key ''dao'' (buildDaoStatsId ''dao'' 86400000)
     \<and> snd (stats_create s (stats_world 86400005 False) []) =
         [Sql (S_saveDaoStats s), Dyn (D_save k (M_DaoStats s))]"
proof -
  let ?W = "stats_world 86400005 False" and ?W' = "stats_world 172800007 True"
  obtain s t where g: "getDaoStats sample_env ''dao'' ?W [] = (Inr s, t)"
    and d: "dao_findById ''dao'' ?W [] = (Inr (Some (empty_dao ''dao'')), t)"
    and id: "ds_daoId s = ''dao''" "ds_id s = buildDaoStatsId ''dao'' 86400000"
    by (simp add: getDaoStats_def dao_findById_def useDynamoDB_def run_simps Let_def stats_world_def
        quiet_world_def sample_env_def empty_dao_def)
  obtain k where k: "getLastDaoStats sample_env ''dao'' None ?W' []
           = dyn_get w_daoStats k ?W' [Flag ''dao-stats-dynamo'']"
    and c: "\<And>r t'. stats_create s ?W t = (Inr r, t') \<Longrightarrow>
            t' = t @ [Sql (S_saveDaoStats s), Dyn (D_save k (M_DaoStats s))]"
    using stats_next_day [OF g d, of ?W' "[]"]
    by (auto simp: stats_world_def sample_env_def empty_dao_def)
  have "stats_create s ?W t =
      (Inr s, t @ [Sql (S_saveDaoStats s), Dyn (D_save (daoStats_key (ds_daoId s) (ds_id s)) (M_DaoStats s))])"
    by (simp add: stats_create_run stats_world_def quiet_world_def Let_def)
  with c have "k = daoStats_key ''dao'' (buildDaoStatsId ''dao'' 86400000)" by (auto simp: id)
  moreover have "snd (stats_create s ?W []) =
      [Sql (S_saveDaoStats s), Dyn (D_save (daoStats_key (ds_daoId s) (ds_id s)) (M_DaoStats s))]"
    by (simp add: stats_create_run stats_world_def quiet_world_def Let_def)
  ultimately show ?thesis using g k id by auto
qed

end
