(* ===== verification/Aggregators.thy ===== *)
theory Aggregators
  imports Dao_Stats Tx_Service
begin

text \<open>
  The aggregators of \<open>apps/aggregator/src\<close>, which bring the stores up to date with the contracts and
  the prices outside the flow of transactions. \<open>castProposal\<close>, \<open>castBounty\<close> and
  \<open>castBountyClaim\<close> are modelled for an empty list of transactions, the one that
  \<open>AggregatorService.aggregateDaoById\<close> passes; with transactions they are only called by methods the
  source marks as legacy, which nothing calls.
\<close>

section \<open>Pools\<close>

text \<open>A pool whose \<open>handleError\<close> only logs: the failure of one item does not concern the others.\<close>

definition pool_each :: "env \<Rightarrow> ('a \<Rightarrow> unit service) \<Rightarrow> 'a list \<Rightarrow> unit service" where
  "pool_each E f xs = e_poolUnits E (map (\<lambda>x. attempt (f x) (\<lambda>e. ret ())) xs)"

definition ignore :: "'a service \<Rightarrow> unit service" where
  "ignore m = bnd m (\<lambda>_. ret ())"

section \<open>DAOs\<close>

text \<open>
  \<open>DaoService.create\<close>: the stored row is read back, and its version set when it has none; the row
  that was read is returned.
\<close>

definition dao_create :: "dao \<Rightarrow> dao service" where
  "dao_create daoDto =
     thn (do_call (Sql (S_saveDao daoDto)))
    (bnd (dao_findOne (dao_id daoDto) False) (\<lambda>d.
     bnd (need ''daoVersionHash'' d) (\<lambda>d.
     thn (when_act (dao_daoVersion d = None) (ignore (setDaoVersion (dao_id d))))
         (ret d))))"

definition castDaoById :: "env \<Rightarrow> string \<Rightarrow> dao_info \<Rightarrow> string list \<Rightarrow> exn + dao" where
  "castDaoById E daoId info delegationAccounts =
     res_bind (castDaoPolicy daoId (di_policy info) (Some delegationAccounts)) (\<lambda>p.
     Inr ((empty_dao daoId)\<lparr>
       dao_council := Some (dpf_council p), dao_councilSeats := Some (dpf_councilSeats p),
       dao_numberOfMembers := Some (dpf_numberOfMembers p),
       dao_numberOfGroups := Some (dpf_numberOfGroups p),
       dao_accountIds := Some (dpf_accountIds p), dao_policy := Some (dpf_policy p),
       dao_config := Some (di_config info),
       dao_metadata := btoaJSON (e_json_parse E) (cfg_metadata (di_config info)),
       dao_stakingContract := Some (di_stakingContract info),
       dao_totalSupply := Some (di_totalSupply info),
       dao_lastProposalId := Some (di_lastProposalId info),
       dao_lastBountyId := Some (di_lastBountyId info), dao_amount := Some (di_amount info) \<rparr>))"

definition castDao ::
    "env \<Rightarrow> indexer_account \<Rightarrow> indexer_transaction list \<Rightarrow> dao_info \<Rightarrow> string list \<Rightarrow> exn + dao" where
  "castDao E daoAccount txs info delegationAccounts =
     (let receipt = ict_receipt daoAccount;
          created = Option.bind receipt ir_originatedFromTransaction;
          txUpdate = (if txs = [] then None else Some (last txs)) in
      res_bind (castDaoById E (ict_accountId daoAccount) info delegationAccounts) (\<lambda>d.
      Inr (d\<lparr> dao_link := Some [], dao_description := Some [],
        transactionHash := map_option itx_transactionHash created,
        createTimestamp := map_option ir_includedInBlockTimestamp receipt,
        dao_createdBy := map_option itx_signerAccountId created,
        updateTransactionHash := map_option itx_transactionHash txUpdate,
        updateTimestamp := map_option itx_blockTimestamp txUpdate,
        dao_numberOfAssociates := Some (int (card (itx_signerAccountId ` set txs))) \<rparr>)))"

definition aggregateByAccount :: "env \<Rightarrow> indexer_account \<Rightarrow> indexer_transaction list \<Rightarrow> dao service" where
  "aggregateByAccount E daoAccount txs =
     bnd (getDaoInfo (ict_accountId daoAccount) None) (\<lambda>daoInfo.
     bnd (getDelegationAccountsByDaoId (ict_accountId daoAccount)) (\<lambda>delegationAccounts.
     bnd (lift_res (castDao E daoAccount txs daoInfo delegationAccounts)) dao_create))"

definition aggregateDao :: "env \<Rightarrow> string \<Rightarrow> dao service" where
  "aggregateDao E daoId =
     bnd (getDaoInfo daoId None) (\<lambda>daoInfo.
     bnd (getDelegationAccountsByDaoId daoId) (\<lambda>delegationAccounts.
     bnd (lift_res (castDaoById E daoId daoInfo delegationAccounts)) dao_create))"

definition aggregateDaoStatuses :: "env \<Rightarrow> unit service" where
  "aggregateDaoStatuses E = bnd (findByIds None) (pool_each E updateDaoStatus)"

definition aggregateDaoFunds :: "env \<Rightarrow> string list option \<Rightarrow> unit service" where
  "aggregateDaoFunds E daoIds =
     bnd (findByIds daoIds) (pool_each E (\<lambda>d.
       dao_save ((empty_dao (dao_id d))\<lparr>dao_amount := dao_amount d\<rparr>)
         (no_options\<lparr>so_updateTotalDaoFunds := True, so_saveToDynamo := False\<rparr>)))"

definition aggregateDaoAdditionalFields :: "dao \<Rightarrow> unit service" where
  "aggregateDaoAdditionalFields d =
     bnd (getDaoStatus d) (\<lambda>status.
     dao_save (d\<lparr>dao_status := Some status\<rparr>)
       (no_options\<lparr>so_updateProposalsCount := True, so_updateTotalDaoFunds := True,
                   so_updateBountiesCount := True\<rparr>))"

section \<open>Proposals\<close>

definition castProposal :: "env \<Rightarrow> dao \<Rightarrow> sputnik_proposal_output \<Rightarrow> exn + proposal_dto" where
  "castProposal E d p =
     (case castProposalKind (e_camelcase E) (KI_Sputnik (spr_kind p)) of
        None \<Rightarrow> Inl (TypeError ''kind'')
      | Some kind \<Rightarrow>
          res_bind (policy_period d) (\<lambda>period.
          res_bind (calcProposalVotePeriodEnd (spr_submission_time p) period) (\<lambda>votePeriodEnd.
          Inr \<lparr> isArchived = None, createdAt = None, updatedAt = None,
                transactionHash = None, updateTransactionHash = None,
                createTimestamp = None, updateTimestamp = None,
                pd_id = buildProposalId (dao_id d) (JNum (spo_id p)),
                pd_proposalId = spo_id p, pd_daoId = dao_id d,
                pd_bountyDoneId =
                  (case pk_kind kind of
                     K_BountyDone bountyId receiverId \<Rightarrow> Some (buildBountyId (dao_id d) (JNum bountyId))
                   | _ \<Rightarrow> None),
                pd_bountyClaimId = None,
                pd_proposer = spr_proposer p, pd_description = spr_description p,
                pd_status = spr_status p, pd_submissionTime = spr_submission_time p,
                pd_kind = kind, pd_type = kind_type (pk_kind kind),
                pd_policyLabel = Some (ProposalTypeToPolicyLabel (kind_type (pk_kind kind))),
                pd_voteStatus = Some VS_Active,
                pd_voteCounts = spr_vote_counts p, pd_votes = spr_votes p,
                pd_actions = [], pd_votePeriodEnd = Some votePeriodEnd, pd_failure = JUndef \<rparr>)))"

definition bountyContext_createMultiple :: "(string \<times> string) list \<Rightarrow> unit service" where
  "bountyContext_createMultiple dtos = do_call (Sql (S_saveBountyContexts dtos))"

text \<open>A last id that is \<open>undefined\<close> makes the count of chunks \<open>NaN\<close>: nothing is read.\<close>

definition dao_proposals :: "dao \<Rightarrow> sputnik_proposal_output list service" where
  "dao_proposals d =
     (case dao_lastProposalId d of None \<Rightarrow> ret [] | Some n \<Rightarrow> getProposalsByDaoId (dao_id d) n None)"

definition aggregateProposalsByDao :: "env \<Rightarrow> dao \<Rightarrow> unit service" where
  "aggregateProposalsByDao E d =
     bnd (dao_proposals d) (\<lambda>proposals.
     bnd (lift_res (map_res (castProposal E d) proposals)) (\<lambda>proposalDtos.
     let bountyContextDtos = map (\<lambda>p. (pd_id p, pd_daoId p)) (filter (\<lambda>p. pd_type p = AddBounty) proposalDtos) in
     bnd (call (Sql (S_findProposalIds (dao_id d))) w_strs) (\<lambda>ids.
     let removedProposalIds = filter (\<lambda>i. list_all (\<lambda>p. pd_id p \<noteq> i) proposalDtos) ids in
     thn (proposal_removeMultiple removedProposalIds)
    (thn (pool_each E proposal_create proposalDtos)
         (bountyContext_createMultiple bountyContextDtos)))))"

definition expireProposals :: "env \<Rightarrow> unit service" where
  "expireProposals E =
     bnd getExpiredProposalDaoIds (\<lambda>daoIds.
     thn updateExpiredProposals
         (when_act (daoIds \<noteq> []) (pool_each E (\<lambda>daoId.
            dao_save (empty_dao daoId) (no_options\<lparr>so_updateProposalsCount := True\<rparr>)) daoIds)))"

section \<open>Bounties\<close>

text \<open>
  The claims are cast as \<open>cast_claim\<close> does. An aggregated bounty has no \<open>proposalId\<close>, which the
  empty text stands for here.
\<close>

definition castBounty ::
    "dao \<Rightarrow> sputnik_bounty_output \<times> int \<Rightarrow> account_claim list \<Rightarrow> bounty option \<Rightarrow> exn + bounty" where
  "castBounty d = (\<lambda>(b, numberOfClaims) claims bountyEntity.
     res_bind (map_res (\<lambda>(claim, accountId). cast_claim (dao_id d) accountId claim)
                (filter (\<lambda>(claim, accountId). sbo_id b = sbc_bounty_id claim) claims)) (\<lambda>bountyClaims.
     Inr \<lparr> isArchived = None, createdAt = None, updatedAt = None,
           transactionHash = None, updateTransactionHash = None,
           createTimestamp = None, updateTimestamp = None,
           bnt_id = buildBountyId (dao_id d) (JNum (sbo_id b)), bnt_bountyId = sbo_id b,
           bnt_proposalId = [], bnt_proposalIndex = None, bnt_daoId = Some (dao_id d),
           bnt_description = sb_description b, bnt_token = sb_token b, bnt_amount = sb_amount b,
           bnt_times = sb_times b, bnt_maxDeadline = sb_max_deadline b,
           bnt_numberOfClaims = numberOfClaims,
           bnt_bountyClaims = Some (case Option.bind bountyEntity bnt_bountyClaims of
                                      None \<Rightarrow> bountyClaims | Some cs \<Rightarrow> cs @ bountyClaims),
           bnt_bountyDoneProposals = None, bnt_bountyDoneProposalIds = None,
           bnt_commentsCount = None \<rparr>))"

definition claims_bounty :: "indexer_transaction \<Rightarrow> bool" where
  "claims_bounty tx =
     (case itx_transactionAction tx of
        None \<Rightarrow> False
      | Some a \<Rightarrow> strict_eq (JStr ''bounty_claim'') (js_get_opt (ia_args a) ''method_name''))"

definition dao_bounties :: "env \<Rightarrow> dao \<Rightarrow> (sputnik_bounty_output \<times> int) list service" where
  "dao_bounties E d =
     (case dao_lastBountyId d of None \<Rightarrow> e_poolBounties E []
      | Some n \<Rightarrow> getBountiesByDaoId E (dao_id d) n None)"

definition aggregateBountiesByDao :: "env \<Rightarrow> dao \<Rightarrow> unit service" where
  "aggregateBountiesByDao E d =
     bnd (findBountyClaimTransactions (Some (dao_id d))) (\<lambda>bountyClaimTransactions.
     let bountyClaimAccountIds =
           set_order (map itx_signerAccountId (filter claims_bounty bountyClaimTransactions)) in
     bnd (dao_bounties E d) (\<lambda>bounties.
     bnd (getBountyClaims E (dao_id d) bountyClaimAccountIds None) (\<lambda>claims.
     bnd (call (Sql (S_findDaoBounties (dao_id d))) w_bountyList) (\<lambda>daoBounties.
     bnd (lift_res (map_res (\<lambda>b. castBounty d b claims
            (find (\<lambda>e. bnt_bountyId e = sbo_id (fst b)) daoBounties)) bounties)) (\<lambda>bountyDtos.
     do_call (Sql (S_saveBounties bountyDtos)))))))"

section \<open>Tokens and NFTs\<close>

definition aggregateToken :: "string \<Rightarrow> string option \<Rightarrow> unit service" where
  "aggregateToken tokenId timestamp = ignore (loadTokenById tokenId timestamp None)"

text \<open>The timestamp is always the default.\<close>

definition aggregateTokenBalance :: "string \<Rightarrow> string \<Rightarrow> unit service" where
  "aggregateTokenBalance tokenId accountId =
     bnd (peek w_now) (\<lambda>now.
     ignore (loadBalanceById tokenId accountId (Some (getBlockTimestamp now)) None))"

definition aggregateDaoTokenUpdates :: "env \<Rightarrow> token_update list \<Rightarrow> unit service" where
  "aggregateDaoTokenUpdates E tokenUpdates =
     thn (pool_each E (\<lambda>tokenId.
            aggregateToken tokenId
              (map_option tu_timestamp (find (\<lambda>u. tu_token u = tokenId) tokenUpdates)))
            (set_order (map tu_token tokenUpdates)))
         (pool_each E (\<lambda>u. aggregateTokenBalance (tu_token u) (tu_account u)) tokenUpdates)"

definition aggregateDaoTokens :: "env \<Rightarrow> string \<Rightarrow> string list \<Rightarrow> string option \<Rightarrow> unit service" where
  "aggregateDaoTokens E daoId tokenIds timestamp =
     thn (pool_each E (\<lambda>tokenId. aggregateToken tokenId timestamp) tokenIds)
         (pool_each E (\<lambda>tokenId. aggregateTokenBalance tokenId daoId) tokenIds)"

text \<open>
  A price as the column of the token takes it. The tokens are shared objects: when several
  prices name one token, all its occurrences in the result have the last price.
\<close>

definition price_text :: "jsval \<Rightarrow> string option" where
  "price_text v = (if nullish v then None else Some (js_str v))"

definition priced_id :: "jsval \<Rightarrow> exn + jsval" where
  "priced_id tokenPrice =
     (if nullish tokenPrice then Inr JUndef
      else res_bind (js_get tokenPrice ''ftInfo'') (\<lambda>ftInfo. js_get ftInfo ''token_account_id''))"

fun set_price :: "jsval \<Rightarrow> string option \<Rightarrow> token list \<Rightarrow> token list" where
  "set_price i price [] = []"
| "set_price i price (t # ts) =
     (if strict_eq i (JStr (tok_id t)) then t\<lparr>tok_price := price\<rparr> # ts else t # set_price i price ts)"

definition price_index :: "jsval \<Rightarrow> token list \<Rightarrow> nat option" where
  "price_index i tokens =
     (let n = length (takeWhile (\<lambda>t. \<not> strict_eq i (JStr (tok_id t))) tokens) in
      if n < length tokens then Some n else None)"

definition add_price :: "token list \<times> nat list \<Rightarrow> jsval \<Rightarrow> exn + token list \<times> nat list" where
  "add_price = (\<lambda>(tokens, updated) tokenPrice.
     if tokens = [] then Inr (tokens, updated)
     else res_bind (priced_id tokenPrice) (\<lambda>i.
       case price_index i tokens of
         None \<Rightarrow> Inr (tokens, updated)
       | Some n \<Rightarrow> Inr (set_price i (price_text (js_get_opt tokenPrice ''price'')) tokens, updated @ [n])))"

definition updated_tokens :: "token list \<Rightarrow> jsval \<Rightarrow> exn + token list" where
  "updated_tokens tokens tokenPrices =
     (case tokenPrices of
        JArr ps \<Rightarrow> res_bind (fold_res add_price (tokens, []) ps) (\<lambda>(tokens, updated).
                    Inr (map (\<lambda>n. tokens ! n) updated))
      | _ \<Rightarrow> Inr [])"

definition COINGECKO_URL :: string where
  "COINGECKO_URL = ''https://api.coingecko.com/api/v3/simple/price?ids=near&vs_currencies=usd''"

definition aggregateTokenPrices :: "env \<Rightarrow> token list service" where
  "aggregateTokenPrices E =
     bnd (call (Sql S_findTokens) w_tokens) (\<lambda>tokens.
     bnd (if e_tokenApiUrl E \<noteq> []
          then attempt (call (HttpGet (e_tokenApiUrl E @ ''/last-tvl'')) w_json) (\<lambda>e. ret (JArr []))
          else ret (JArr [])) (\<lambda>tokenPrices.
     bnd (lift_res (updated_tokens tokens tokenPrices)) (\<lambda>updatedTokens.
     bnd (call (HttpGet COINGECKO_URL) w_json) (\<lambda>nearPrice.
     bnd (lift_res (js_get nearPrice ''near'')) (\<lambda>near.
     let dtos = castNearToken (price_text (js_get_opt near ''usd'')) # updatedTokens in
     thn (do_call (Sql (S_saveTokens dtos))) (ret dtos))))))"

definition save_nfts_count :: "string \<Rightarrow> unit service" where
  "save_nfts_count daoId = dao_save (empty_dao daoId) (no_options\<lparr>so_updateNftsCount := True\<rparr>)"

definition aggregateDaoNFTUpdates :: "env \<Rightarrow> token_update list \<Rightarrow> unit service" where
  "aggregateDaoNFTUpdates E tokenUpdates =
     thn (pool_each E (\<lambda>u. ignore (loadNFT E (tu_token u) (tu_account u) (Some (tu_timestamp u)) None))
            tokenUpdates)
         (pool_each E save_nfts_count (set_order (map tu_account tokenUpdates)))"

definition aggregateDaoNFTs :: "env \<Rightarrow> string \<Rightarrow> string list \<Rightarrow> string option \<Rightarrow> unit service" where
  "aggregateDaoNFTs E daoId nftIds timestamp =
     thn (pool_each E (\<lambda>nftId. ignore (loadNFT E nftId daoId timestamp None)) nftIds)
         (save_nfts_count daoId)"

section \<open>Statistics\<close>

definition aggregateDaoStatsById :: "env \<Rightarrow> string \<Rightarrow> unit service" where
  "aggregateDaoStatsById E daoId = bnd (getDaoStats E daoId) (\<lambda>s. ignore (stats_create s))"

definition aggregateAllDaoStats :: "env \<Rightarrow> unit service" where
  "aggregateAllDaoStats E = bnd findDaoIds (pool_each E (aggregateDaoStatsById E))"

end
