(* ===== verification/Aggregator_Service.thy ===== *)
theory Aggregator_Service
  imports Aggregators
begin

text \<open>
  \<open>AggregatorState\<close> and \<open>AggregatorService\<close> of \<open>apps/aggregator/src\<close>: the timers and the event that
  start the aggregations, the flags that keep an aggregation from starting twice, and the steps
  in which the started aggregations interleave. The methods the source marks as legacy are modelled
  but for \<open>aggregateAllDaos\<close>, \<open>aggregateDaoByAccount\<close> and the two methods only the former calls.
\<close>

section \<open>AggregatorState\<close>

record aggregation =
  ag_timestamp :: string
  ag_isInProgress :: bool

type_synonym aggregator_state = "string \<Rightarrow> aggregation option"

definition isInProgress :: "string \<Rightarrow> aggregator_state \<Rightarrow> bool" where
  "isInProgress name st = (case st name of None \<Rightarrow> False | Some a \<Rightarrow> ag_isInProgress a)"

definition startAggregation :: "int \<Rightarrow> string \<Rightarrow> aggregator_state \<Rightarrow> aggregator_state" where
  "startAggregation now name st =
     (if isInProgress name st then st
      else st(name \<mapsto> \<lparr> ag_timestamp = getBlockTimestamp now, ag_isInProgress = True \<rparr>))"

definition startAggregations :: "int \<Rightarrow> string list \<Rightarrow> aggregator_state \<Rightarrow> aggregator_state" where
  "startAggregations now names st = fold (startAggregation now) names st"

definition stopAggregation :: "string \<Rightarrow> aggregator_state \<Rightarrow> aggregator_state" where
  "stopAggregation name st =
     (case st name of None \<Rightarrow> st | Some a \<Rightarrow> st(name \<mapsto> a\<lparr>ag_isInProgress := False\<rparr>))"

definition stopAggregations :: "string list \<Rightarrow> aggregator_state \<Rightarrow> aggregator_state" where
  "stopAggregations names st = fold stopAggregation names st"

definition getAggregationTimestamp :: "string \<Rightarrow> aggregator_state \<Rightarrow> string option" where
  "getAggregationTimestamp name st = map_option ag_timestamp (st name)"

lemma isInProgress_start [simp]:
  "isInProgress n (startAggregation now m st) \<longleftrightarrow> n = m \<or> isInProgress n st"
  by (auto simp: isInProgress_def startAggregation_def split: option.splits)

lemma isInProgress_stop [simp]:
  "isInProgress n (stopAggregation m st) \<longleftrightarrow> n \<noteq> m \<and> isInProgress n st"
  by (auto simp: isInProgress_def stopAggregation_def split: option.splits)

lemma isInProgress_startAggregations:
  "isInProgress n (startAggregations now ms st) \<longleftrightarrow> n \<in> set ms \<or> isInProgress n st"
  by (induction ms arbitrary: st) (auto simp: startAggregations_def)

lemma isInProgress_stopAggregations:
  "isInProgress n (stopAggregations ms st) \<longleftrightarrow> n \<notin> set ms \<and> isInProgress n st"
  by (induction ms arbitrary: st) (auto simp: stopAggregations_def)

lemma getAggregationTimestamp_start:
  "getAggregationTimestamp n (startAggregation now m st) =
     (if n = m \<and> \<not> isInProgress n st then Some (getBlockTimestamp now) else getAggregationTimestamp n st)"
  by (auto simp: getAggregationTimestamp_def startAggregation_def)

lemma getAggregationTimestamp_stop [simp]:
  "getAggregationTimestamp n (stopAggregation m st) = getAggregationTimestamp n st"
  by (auto simp: getAggregationTimestamp_def stopAggregation_def split: option.splits)

section \<open>Methods with the state of the service\<close>

text \<open>
  A method of the service: the state is changed at once, also by a method that then rejects.
\<close>

type_synonym 'a job = "aggregator_state \<Rightarrow> ((exn + 'a) \<times> aggregator_state) service"

definition jret :: "'a \<Rightarrow> 'a job" where
  "jret x st = ret (Inr x, st)"

definition jlift :: "'a service \<Rightarrow> 'a job" where
  "jlift m st = bnd (attempt (bnd m (\<lambda>x. ret (Inr x))) (\<lambda>e. ret (Inl e))) (\<lambda>r. ret (r, st))"

definition jbnd :: "'a job \<Rightarrow> ('a \<Rightarrow> 'b job) \<Rightarrow> 'b job" where
  "jbnd m f st = bnd (m st) (\<lambda>(r, st'). case r of Inl e \<Rightarrow> ret (Inl e, st') | Inr x \<Rightarrow> f x st')"

definition jthn :: "'a job \<Rightarrow> 'b job \<Rightarrow> 'b job" where
  "jthn m k = jbnd m (\<lambda>_. k)"

definition jcatch :: "'a job \<Rightarrow> (exn \<Rightarrow> 'a job) \<Rightarrow> 'a job" where
  "jcatch m h st = bnd (m st) (\<lambda>(r, st'). case r of Inl e \<Rightarrow> h e st' | Inr x \<Rightarrow> ret (Inr x, st'))"

definition jstart :: "string \<Rightarrow> unit job" where
  "jstart name st = bnd (peek w_now) (\<lambda>now. ret (Inr (), startAggregation now name st))"

definition jstop :: "string \<Rightarrow> unit job" where
  "jstop name st = ret (Inr (), stopAggregation name st)"

definition junless :: "string \<Rightarrow> unit job \<Rightarrow> unit job" where
  "junless name m st = (if isInProgress name st then ret (Inr (), st) else m st)"

lemma run_jobs [run_simps]:
  "jret x st W tr = (Inr (Inr x, st), tr)"
  "jlift a st W tr = (case a W tr of (r, t) \<Rightarrow> (Inr (r, st), t))"
  "jbnd m f st W tr = (case m st W tr of
     (Inl e, t) \<Rightarrow> (Inl e, t) | (Inr (Inl e, st'), t) \<Rightarrow> (Inr (Inl e, st'), t)
   | (Inr (Inr x, st'), t) \<Rightarrow> f x st' W t)"
  "jthn m k st W tr = (case m st W tr of
     (Inl e, t) \<Rightarrow> (Inl e, t) | (Inr (Inl e, st'), t) \<Rightarrow> (Inr (Inl e, st'), t)
   | (Inr (Inr x, st'), t) \<Rightarrow> k st' W t)"
  "jcatch m h st W tr = (case m st W tr of
     (Inl e, t) \<Rightarrow> (Inl e, t) | (Inr (Inl e, st'), t) \<Rightarrow> h e st' W t
   | (Inr (Inr x, st'), t) \<Rightarrow> (Inr (Inr x, st'), t))"
  "jstart name st W tr = (Inr (Inr (), startAggregation (w_now W tr) name st), tr)"
  "jstop name st W tr = (Inr (Inr (), stopAggregation name st), tr)"
  "junless name u st W tr = (if isInProgress name st then (Inr (Inr (), st), tr) else u st W tr)"
  by (auto simp: jret_def jlift_def jbnd_def jthn_def jcatch_def jstart_def jstop_def junless_def run_simps
      split: prod.splits sum.splits)

section \<open>The aggregations\<close>

definition prices_work :: "env \<Rightarrow> unit service" where
  "prices_work E = thn (ignore (aggregateTokenPrices E)) (thn (aggregateDaoFunds E None) clearCache)"

definition statuses_work :: "env \<Rightarrow> unit service" where
  "statuses_work E = thn (aggregateDaoStatuses E) clearCache"

definition dao_work :: "env \<Rightarrow> string \<Rightarrow> unit service" where
  "dao_work E daoId =
     bnd (aggregateDao E daoId) (\<lambda>d.
     thn (aggregateProposalsByDao E d)
    (thn (aggregateBountiesByDao E d)
         (aggregateDaoAdditionalFields d)))"

definition scheduleExpiredProposalsAggregation :: "env \<Rightarrow> unit job" where
  "scheduleExpiredProposalsAggregation E =
     junless ''expired-proposals''
       (jthn (jcatch (jlift (expireProposals E)) (\<lambda>e. jret ())) (jstop ''expired-proposals''))"

definition job_aggregateTokenPrices :: "env \<Rightarrow> unit job" where
  "job_aggregateTokenPrices E =
     junless ''token-price''
       (jthn (jstart ''token-price'') (jthn (jlift (prices_work E)) (jstop ''token-price'')))"

definition scheduleTokenPricesAggregation :: "env \<Rightarrow> unit job" where
  "scheduleTokenPricesAggregation E =
     jcatch (job_aggregateTokenPrices E) (\<lambda>e. jstop ''token-price'')"

definition job_aggregateDaoStatuses :: "env \<Rightarrow> unit job" where
  "job_aggregateDaoStatuses E =
     junless ''dao-status''
       (jthn (jstart ''dao-status'') (jthn (jlift (statuses_work E)) (jstop ''dao-status'')))"

definition scheduleDaoStatusAggregation :: "env \<Rightarrow> unit job" where
  "scheduleDaoStatusAggregation E = jcatch (job_aggregateDaoStatuses E) (\<lambda>e. jstop ''dao-status'')"

definition job_aggregateDaoStats :: "env \<Rightarrow> unit job" where
  "job_aggregateDaoStats E =
     junless ''dao-stats''
       (jthn (jstart ''dao-stats'')
       (jthn (jlift (aggregateAllDaoStats E)) (jthn (jstop ''dao-stats'') (jlift clearCache))))"

definition handleDaoStatsCronAggregation :: "env \<Rightarrow> unit job" where
  "handleDaoStatsCronAggregation E = jcatch (job_aggregateDaoStats E) (\<lambda>e. jstop ''dao-stats'')"

definition dao_aggregation :: "string \<Rightarrow> string" where
  "dao_aggregation daoId = ''dao-'' @ daoId"

definition aggregateDaoById :: "env \<Rightarrow> string \<Rightarrow> unit job" where
  "aggregateDaoById E daoId =
     junless (dao_aggregation daoId)
       (jthn (jstart (dao_aggregation daoId))
       (jthn (jcatch (jlift (dao_work E daoId)) (\<lambda>e. jret ())) (jstop (dao_aggregation daoId))))"

definition triggerDaoAggregation :: "env \<Rightarrow> string \<Rightarrow> unit job" where
  "triggerDaoAggregation E daoId = aggregateDaoById E daoId"

section \<open>Legacy aggregations\<close>

definition AGGREGATOR_HANDLER_STATE_ID :: string where
  "AGGREGATOR_HANDLER_STATE_ID = ''aggregator''"

definition tx_block :: "indexer_transaction \<Rightarrow> string \<times> string" where
  "tx_block tx = (itx_includedInBlockHash tx, itx_blockTimestamp tx)"

definition aggregateNewDaoTransactions :: "env \<Rightarrow> unit job" where
  "aggregateNewDaoTransactions E =
     junless ''dao''
    (jthn (jstart ''dao'')
    (jthn (jlift (expireProposals E))
    (jbnd (jlift (getState AGGREGATOR_HANDLER_STATE_ID)) (\<lambda>handlerState.
     jbnd (jlift (call (Indexer (N_accountChanges (e_contractName E)
            (Option.bind handlerState hs_lastBlockTimestamp))) w_receipts)) (\<lambda>receipts.
     if receipts = [] then jstop ''dao''
     else jthn (jlift (saveState AGGREGATOR_HANDLER_STATE_ID HS_InProgress None))
         (jbnd (jlift (handleNearReceipts E receipts)) (\<lambda>(transactions, success).
          if transactions = [] then
            jthn (jstop ''dao'') (jlift (saveState AGGREGATOR_HANDLER_STATE_ID HS_Failed None))
          else jthn (jlift (transaction_createMultiple transactions))
              (jthn (jlift (saveState AGGREGATOR_HANDLER_STATE_ID
                       (if success then HS_Success else HS_Failed) (Some (tx_block (last transactions)))))
              (jthn (jstop ''dao'') (jlift clearCache))))))))))"

text \<open>\<open>updateTimestamp || createTimestamp\<close>\<close>

definition last_timestamp :: "string option \<Rightarrow> string option \<Rightarrow> string option" where
  "last_timestamp updated created = (if updated = None \<or> updated = Some [] then created else updated)"

definition unique_updates :: "token_update list \<Rightarrow> token_update list" where
  "unique_updates us = arrayUniqueBy us (\<lambda>u. (tu_token u, tu_account u))"

definition aggregateTokens :: "env \<Rightarrow> unit job" where
  "aggregateTokens E =
     junless ''token''
    (jbnd (jlift (bnd (call (Sql S_lastToken) w_token) (need ''updateTimestamp''))) (\<lambda>lastToken.
     let timestamp = last_timestamp (updateTimestamp lastToken) (createTimestamp lastToken) in
     jthn (jstart ''token'')
    (jbnd (jlift (call (Indexer (N_tokenUpdates (e_contractName E) timestamp)) w_tokenUpdates)) (\<lambda>updates.
     if updates = [] then jstop ''token''
     else jthn (jlift (aggregateDaoTokenUpdates E (unique_updates updates)))
         (jthn (jlift (aggregateDaoFunds E (Some (set_order (map tu_account (unique_updates updates))))))
         (jthn (jlift clearCache) (jstop ''token'')))))))"

text \<open>An event of an NFT that changes hands, as an update of the DAO that has it or had it.\<close>

definition nft_update :: "string \<Rightarrow> nft_event \<Rightarrow> token_update list" where
  "nft_update contractName e =
     (let mk = (\<lambda>a. [\<lparr> tu_token = ne_emittedByContractAccountId e, tu_account = a,
                        tu_timestamp = ne_emittedAtBlockTimestamp e \<rparr>]);
          wildcard = ''.'' @ contractName in
      if ends_with (ne_tokenNewOwnerAccountId e) wildcard then mk (ne_tokenNewOwnerAccountId e)
      else if ends_with (ne_tokenOldOwnerAccountId e) wildcard then mk (ne_tokenOldOwnerAccountId e)
      else [])"

definition aggregateNFTs :: "env \<Rightarrow> unit job" where
  "aggregateNFTs E =
     junless ''nft''
    (jbnd (jlift (bnd (call (Sql S_lastNft) w_json) (\<lambda>t. lift_res (
            res_bind (js_get t ''updateTimestamp'') (\<lambda>u.
            Inr (if truthy u then u else js_get_opt t ''createTimestamp'')))))) (\<lambda>timestamp.
     jthn (jstart ''nft'')
    (jbnd (jlift (call (Indexer (N_nftEvents (e_contractName E)
            (if nullish timestamp then None else Some (js_str timestamp)))) w_nftEvents)) (\<lambda>events.
     if events = [] then jstop ''nft''
     else jthn (jlift (aggregateDaoNFTUpdates E
                 (unique_updates (concat (map (nft_update (e_contractName E)) events)))))
         (jthn (jlift clearCache) (jstop ''nft''))))))"

definition legacy_aggregateDaoTokens :: "env \<Rightarrow> string \<Rightarrow> string option \<Rightarrow> unit service" where
  "legacy_aggregateDaoTokens E accountId blockTimestamp =
     attempt
       (bnd (call (Indexer (N_likelyTokens accountId)) w_strs) (\<lambda>daoTokenIds.
        when_act (daoTokenIds \<noteq> []) (aggregateDaoTokens E accountId daoTokenIds blockTimestamp)))
       (\<lambda>e. ret ())"

definition legacy_aggregateDaoNFTs :: "env \<Rightarrow> string \<Rightarrow> string option \<Rightarrow> unit service" where
  "legacy_aggregateDaoNFTs E accountId blockTimestamp =
     attempt
       (bnd (call (Indexer (N_likelyNfts accountId)) w_strs) (\<lambda>nftLikelyIds.
        let nftIds = nftLikelyIds @ e_nftWhitelistContracts E in
        when_act (nftIds \<noteq> []) (aggregateDaoNFTs E accountId nftIds blockTimestamp)))
       (\<lambda>e. ret ())"

end
