(* ===== verification/Aggregator_Steps.thy ===== *)
theory Aggregator_Steps
  imports Aggregator_Service
begin

text \<open>
  How the aggregations of \<open>apps/aggregator/src/aggregator.service.ts\<close> interleave. Between two awaits
  the code runs without interruption: an aggregation checks and sets its flag in one step when it is
  triggered, and resets it in one step when what it awaited has ended. The triggers are the three
  timers, the cron job of the statistics and the event for one DAO; they may come at any time.
\<close>

section \<open>The aggregations and their phases\<close>

datatype live_job = J_Expired | J_Prices | J_Statuses | J_Stats | J_Dao string

fun job_name :: "live_job \<Rightarrow> string" where
  "job_name J_Expired = ''expired-proposals''"
| "job_name J_Prices = ''token-price''"
| "job_name J_Statuses = ''dao-status''"
| "job_name J_Stats = ''dao-stats''"
| "job_name (J_Dao daoId) = dao_aggregation daoId"

fun job_run :: "env \<Rightarrow> live_job \<Rightarrow> unit job" where
  "job_run E J_Expired = scheduleExpiredProposalsAggregation E"
| "job_run E J_Prices = scheduleTokenPricesAggregation E"
| "job_run E J_Statuses = scheduleDaoStatusAggregation E"
| "job_run E J_Stats = handleDaoStatsCronAggregation E"
| "job_run E (J_Dao daoId) = triggerDaoAggregation E daoId"

fun job_work :: "env \<Rightarrow> live_job \<Rightarrow> unit service" where
  "job_work E J_Expired = expireProposals E"
| "job_work E J_Prices = prices_work E"
| "job_work E J_Statuses = statuses_work E"
| "job_work E J_Stats = aggregateAllDaoStats E"
| "job_work E (J_Dao daoId) = dao_work E daoId"

text \<open>
  What an aggregation waits for: the end of its work or, after its flag has been reset, of clearing
  the cache.
\<close>

datatype phase = Working | Clearing

definition begin_job :: "int \<Rightarrow> live_job \<Rightarrow> aggregator_state \<Rightarrow> aggregator_state \<times> phase list" where
  "begin_job now j st =
     (if isInProgress (job_name j) st then (st, [])
      else (if j = J_Expired then st else startAggregation now (job_name j) st, [Working]))"

text \<open>The flag says whether what was awaited succeeded.\<close>

fun resume_job :: "live_job \<Rightarrow> phase \<Rightarrow> bool \<Rightarrow> aggregator_state \<Rightarrow> aggregator_state \<times> phase list" where
  "resume_job J_Stats Working True st = (stopAggregation ''dao-stats'' st, [Clearing])"
| "resume_job J_Stats Clearing True st = (st, [])"
| "resume_job j ph ok st = (stopAggregation (job_name j) st, [])"

text \<open>
  C29. Each trigger, run without interruption, is its phases one after the other: nothing when the
  flag is set, else its work and, for statistics that succeed, clearing the cache. A trigger never
  rejects.
\<close>

theorem job_phases:
  "job_run E j st W tr =
     (case begin_job (w_now W tr) j st of
        (st1, []) \<Rightarrow> (Inr (Inr (), st1), tr)
      | (st1, _) \<Rightarrow> (case job_work E j W tr of (r, t) \<Rightarrow>
          (case resume_job j Working (\<not> isl r) st1 of
             (st2, []) \<Rightarrow> (Inr (Inr (), st2), t)
           | (st2, _) \<Rightarrow> (case clearCache W t of (r2, t2) \<Rightarrow>
               (Inr (Inr (), fst (resume_job j Clearing (\<not> isl r2) st2)), t2)))))"
proof (cases j)
  case J_Expired
  then show ?thesis
    by (cases "expireProposals E W tr"; cases "fst (expireProposals E W tr)")
       (auto simp: begin_job_def scheduleExpiredProposalsAggregation_def run_simps)
next
  case J_Prices
  then show ?thesis
    by (cases "prices_work E W tr"; cases "fst (prices_work E W tr)")
       (auto simp: begin_job_def scheduleTokenPricesAggregation_def job_aggregateTokenPrices_def run_simps)
next
  case J_Statuses
  then show ?thesis
    by (cases "statuses_work E W tr"; cases "fst (statuses_work E W tr)")
       (auto simp: begin_job_def scheduleDaoStatusAggregation_def job_aggregateDaoStatuses_def run_simps)
next
  case J_Stats
  show ?thesis
  proof (cases "aggregateAllDaoStats E W tr")
    case (Pair r t)
    with J_Stats show ?thesis
      by (cases r; cases "clearCache W t"; cases "fst (clearCache W t)")
         (auto simp: begin_job_def handleDaoStatsCronAggregation_def job_aggregateDaoStats_def run_simps)
  qed
next
  case (J_Dao daoId)
  then show ?thesis
    by (cases "dao_work E daoId W tr"; cases "fst (dao_work E daoId W tr)")
       (auto simp: begin_job_def triggerDaoAggregation_def aggregateDaoById_def run_simps)
qed

section \<open>Steps\<close>

record aggregator =
  agg_state :: aggregator_state
  agg_running :: "(live_job \<times> phase) list"

definition idle :: aggregator where
  "idle = \<lparr> agg_state = Map.empty, agg_running = [] \<rparr>"

inductive agg_step :: "aggregator \<Rightarrow> aggregator \<Rightarrow> bool" where
  triggered: "begin_job now j (agg_state s) = (st, phs) \<Longrightarrow>
     agg_step s \<lparr> agg_state = st, agg_running = agg_running s @ map (Pair j) phs \<rparr>"
| resumed: "agg_running s = xs @ (j, ph) # ys \<Longrightarrow> resume_job j ph ok (agg_state s) = (st, phs) \<Longrightarrow>
     agg_step s \<lparr> agg_state = st, agg_running = xs @ map (Pair j) phs @ ys \<rparr>"

inductive_cases agg_stepE: "agg_step s s'"

text \<open>The second kind of step alone, and what is reachable.\<close>

inductive agg_resume :: "aggregator \<Rightarrow> aggregator \<Rightarrow> bool" where
  "agg_running s = xs @ (j, ph) # ys \<Longrightarrow> resume_job j ph ok (agg_state s) = (st, phs) \<Longrightarrow>
     agg_resume s \<lparr> agg_state = st, agg_running = xs @ map (Pair j) phs @ ys \<rparr>"

definition agg_reachable :: "aggregator \<Rightarrow> bool" where
  "agg_reachable s \<longleftrightarrow> agg_step\<^sup>*\<^sup>* idle s"

lemma agg_resume_step: "agg_resume s s' \<Longrightarrow> agg_step s s'"
  by (auto elim!: agg_resume.cases intro: agg_step.resumed)

definition works_on :: "string \<Rightarrow> live_job \<times> phase \<Rightarrow> bool" where
  "works_on n = (\<lambda>(j, ph). job_name j = n \<and> ph = Working)"

definition workers :: "string \<Rightarrow> aggregator \<Rightarrow> nat" where
  "workers n s = length (filter (works_on n) (agg_running s))"

lemma resume_job_cases:
  "resume_job j ph ok st =
     (if j = J_Stats \<and> ok then (if ph = Working then (stopAggregation ''dao-stats'' st, [Clearing]) else (st, []))
      else (stopAggregation (job_name j) st, []))"
  by (cases j; cases ph; cases ok) auto

text \<open>Only the statistics clear the cache after their flag has been reset.\<close>

lemma clearing_stats: "agg_reachable s \<Longrightarrow> (j, Clearing) \<in> set (agg_running s) \<Longrightarrow> j = J_Stats"
  unfolding agg_reachable_def
proof (induction arbitrary: j rule: rtranclp_induct)
  case base
  then show ?case by (simp add: idle_def)
next
  case (step s s')
  from step(2,4) step.IH show ?case
    by (elim agg_stepE) (auto simp: begin_job_def resume_job_cases split: if_splits)
qed

lemma workers_triggered:
  "begin_job now j (agg_state s) = (st, phs) \<Longrightarrow>
     workers n \<lparr> agg_state = st, agg_running = agg_running s @ map (Pair j) phs \<rparr> =
       workers n s + (if job_name j = n \<and> \<not> isInProgress n (agg_state s) then 1 else 0)"
  by (auto simp: begin_job_def workers_def works_on_def split: if_splits)

lemma workers_resumed:
  "agg_running s = xs @ (j, ph) # ys \<Longrightarrow> resume_job j ph ok (agg_state s) = (st, phs) \<Longrightarrow>
     workers n s =
       workers n \<lparr> agg_state = st, agg_running = xs @ map (Pair j) phs @ ys \<rparr>
       + (if job_name j = n \<and> ph = Working then 1 else 0)"
  by (auto simp: resume_job_cases workers_def works_on_def split: if_splits)

section \<open>Mutual exclusion\<close>

text \<open>
  A flag is set exactly while one aggregation of that name works, for every name but those of the
  expired proposals and of the statistics.
\<close>

lemma flag_counts_workers:
  assumes "agg_reachable s" and "n \<noteq> ''expired-proposals''" and "n \<noteq> ''dao-stats''"
  shows "workers n s = (if isInProgress n (agg_state s) then 1 else 0)"
  using assms(1) unfolding agg_reachable_def
proof (induction rule: rtranclp_induct)
  case base
  then show ?case by (simp add: idle_def workers_def isInProgress_def)
next
  case (step s s')
  from step(2) show ?case
  proof (cases rule: agg_step.cases)
    case (triggered now j st phs)
    then show ?thesis using step.IH workers_triggered [OF triggered(2), of n] assms(2,3)
      by (auto simp: begin_job_def split: if_splits)
  next
    case (resumed xs j ph ys ok st phs)
    have "j = J_Stats" if "ph = Clearing"
      using clearing_stats [of s j] step(1) resumed(2) that by (simp add: agg_reachable_def)
    then have ph: "job_name j = n \<Longrightarrow> ph = Working" using assms(3) by (cases ph) auto
    show ?thesis
      using step.IH workers_resumed [OF resumed(2,3), of n] ph resumed(3) assms(2,3)
      by (auto simp: resumed(1) resume_job_cases split: if_splits)
  qed
qed

text \<open>
  C20. Whatever the order of triggers and of ends, successes and failures: at most one aggregation
  of prices, of the statuses, or of one DAO works at a time, and its flag is set exactly while it
  does. (A DAO called \<open>stats\<close> would share the flag of the statistics.)
\<close>

theorem one_aggregation:
  assumes "agg_reachable s" and "j \<notin> {J_Expired, J_Stats, J_Dao ''stats''}"
  shows "workers (job_name j) s \<le> 1
       \<and> (workers (job_name j) s = 1 \<longleftrightarrow> isInProgress (job_name j) (agg_state s))"
proof -
  have "job_name j \<noteq> ''expired-proposals'' \<and> job_name j \<noteq> ''dao-stats''"
    using assms(2) by (cases j) (auto simp: dao_aggregation_def)
  then show ?thesis using flag_counts_workers [OF assms(1)] by auto
qed

lemma reach_trigger:
  "agg_reachable s \<Longrightarrow> begin_job now j (agg_state s) = (st, phs) \<Longrightarrow>
     agg_reachable \<lparr> agg_state = st, agg_running = agg_running s @ map (Pair j) phs \<rparr>"
  unfolding agg_reachable_def by (erule rtranclp.rtrancl_into_rtrancl) (rule agg_step.triggered)

lemma reach_resume:
  "agg_reachable s \<Longrightarrow> agg_running s = xs @ (j, ph) # ys \<Longrightarrow>
     resume_job j ph ok (agg_state s) = (st, phs) \<Longrightarrow>
     agg_reachable \<lparr> agg_state = st, agg_running = xs @ map (Pair j) phs @ ys \<rparr>"
  unfolding agg_reachable_def by (erule rtranclp.rtrancl_into_rtrancl) (rule agg_step.resumed)

lemma reach_idle: "agg_reachable idle"
  by (simp add: agg_reachable_def)

lemma one_aggregation_witness:
  "\<exists>s. workers ''token-price'' s = 1 \<and> isInProgress ''token-price'' (agg_state s)
     \<and> agg_running s = [(J_Prices, Working)]"
proof -
  have "agg_reachable \<lparr> agg_state = startAggregation 0 ''token-price'' Map.empty,
      agg_running = [(J_Prices, Working)] \<rparr>" (is "agg_reachable ?s")
    using reach_trigger [OF reach_idle, of 0 J_Prices]
    by (simp add: begin_job_def idle_def isInProgress_def)
  from one_aggregation [OF this, of J_Prices] show ?thesis
    by (intro exI [of _ ?s]) simp
qed

section \<open>Where aggregations overlap\<close>

lemma reach_expired:
  "\<exists>s. agg_reachable s \<and> agg_state s = Map.empty \<and> agg_running s = replicate k (J_Expired, Working)"
proof (induction k)
  case 0
  then show ?case using reach_idle by (auto simp: idle_def)
next
  case (Suc k)
  then obtain s where s: "agg_reachable s" "agg_state s = Map.empty"
    "agg_running s = replicate k (J_Expired, Working)" by blast
  have "begin_job 0 J_Expired (agg_state s) = (Map.empty, [Working])"
    by (simp add: begin_job_def isInProgress_def s(2))
  from reach_trigger [OF s(1) this] show ?case
    by (auto simp: s(3) replicate_append_same simp flip: replicate_Suc)
qed

text \<open>
  Two aggregations overlap nevertheless. The flag of the expired proposals is tested but never
  set, so any number of them can run at once. The statistics reset their flag before they clear
  the cache; when that fails, the handler resets it once more, by then the flag of the next
  aggregation, and a third one starts beside the second.
\<close>

theorem overlapping_aggregations:
  "(\<exists>s. agg_reachable s \<and> workers ''expired-proposals'' s = k)
   \<and> (\<exists>s. agg_reachable s \<and> workers ''dao-stats'' s = 2)"
proof (intro conjI)
  show "\<exists>s. agg_reachable s \<and> workers ''expired-proposals'' s = k"
    using reach_expired [of k] by (auto simp: workers_def works_on_def filter_replicate)
  let ?on = "startAggregation 0 ''dao-stats''" and ?off = "stopAggregation ''dao-stats''"
  let ?st = "?on Map.empty"
  have off: "\<not> isInProgress ''dao-stats'' Map.empty" by (simp add: isInProgress_def)
  have "agg_reachable \<lparr> agg_state = ?st, agg_running = [(J_Stats, Working)] \<rparr>"
    using reach_trigger [OF reach_idle, of 0 J_Stats] off by (simp add: begin_job_def idle_def)
  from reach_resume [OF this, of "[]" J_Stats Working "[]" True]
  have "agg_reachable \<lparr> agg_state = ?off ?st, agg_running = [(J_Stats, Clearing)] \<rparr>" by simp
  from reach_trigger [OF this, of 0 J_Stats]
  have "agg_reachable \<lparr> agg_state = ?on (?off ?st),
      agg_running = [(J_Stats, Clearing), (J_Stats, Working)] \<rparr>" by (simp add: begin_job_def)
  from reach_resume [OF this, of "[]" J_Stats Clearing "[(J_Stats, Working)]" False]
  have "agg_reachable \<lparr> agg_state = ?off (?on (?off ?st)), agg_running = [(J_Stats, Working)] \<rparr>" by simp
  from reach_trigger [OF this, of 0 J_Stats]
  have "agg_reachable \<lparr> agg_state = ?on (?off (?on (?off ?st))),
      agg_running = [(J_Stats, Working), (J_Stats, Working)] \<rparr>" by (simp add: begin_job_def)
  then show "\<exists>s. agg_reachable s \<and> workers ''dao-stats'' s = 2"
    by (auto simp: workers_def works_on_def intro!: exI)
qed

section \<open>Progress\<close>

lemma flag_has_worker:
  "agg_reachable s \<Longrightarrow> isInProgress n (agg_state s) \<Longrightarrow> 0 < workers n s"
  unfolding agg_reachable_def
proof (induction rule: rtranclp_induct)
  case base
  then show ?case by (simp add: idle_def isInProgress_def)
next
  case (step s s')
  from step(2) show ?case
  proof (cases rule: agg_step.cases)
    case (triggered now j st phs)
    then show ?thesis using step workers_triggered [OF triggered(2), of n]
      by (auto simp: begin_job_def split: if_splits)
  next
    case (resumed xs j ph ys ok st phs)
    have "ph = Clearing \<Longrightarrow> j = J_Stats"
      using clearing_stats [of s j] step(1) resumed(2) by (simp add: agg_reachable_def)
    then show ?thesis
      using step.IH step.prems workers_resumed [OF resumed(2,3), of n] resumed(3)
      by (auto simp: resumed(1) resume_job_cases split: if_splits)
  qed
qed

fun phase_weight :: "live_job \<times> phase \<Rightarrow> nat" where
  "phase_weight (j, Working) = 2"
| "phase_weight (j, Clearing) = 1"

lemma phase_weight_pos [simp]: "0 < phase_weight (j, ph)"
  by (cases ph) simp_all

lemma phase_weight_clearing: "ph = Working \<Longrightarrow> phase_weight (j, Clearing) < phase_weight (j, ph)"
  by simp

definition pending :: "aggregator \<Rightarrow> nat" where
  "pending s = sum_list (map phase_weight (agg_running s))"

lemma pending_resume: "agg_resume s s' \<Longrightarrow> pending s' < pending s"
  by (erule agg_resume.cases) (auto simp: pending_def resume_job_cases split: if_splits)

lemma pending_bound: "pending s \<le> 2 * length (agg_running s)"
proof -
  have "sum_list (map phase_weight xs) \<le> 2 * length xs" for xs
  proof (induction xs)
    case (Cons x xs)
    moreover have "phase_weight x \<le> 2" by (cases x rule: phase_weight.cases) auto
    ultimately show ?case by simp
  qed simp
  then show ?thesis by (simp add: pending_def)
qed

lemma resume_possible:
  assumes "agg_running s \<noteq> []"
  shows "\<exists>s'. agg_resume s s'"
proof -
  obtain j ph ys where r: "agg_running s = [] @ (j, ph) # ys" using assms by (cases "agg_running s") auto
  show ?thesis using agg_resume.intros [OF r, of True] by (metis surj_pair)
qed

text \<open>
  C21. Nothing stays blocked: from every reachable state, when the started aggregations end, in any
  order and with any outcomes, all have ended after at most two steps for each, and then every
  aggregation starts when it is triggered.
\<close>

theorem aggregations_end:
  assumes "agg_reachable s" and "(agg_resume ^^ k) s s'"
  shows "k \<le> 2 * length (agg_running s)
       \<and> (if \<exists>s''. agg_resume s' s'' then agg_running s' \<noteq> []
          else agg_running s' = [] \<and> (\<forall>now j. snd (begin_job now j (agg_state s')) = [Working]))"
proof -
  have "pending s' + k \<le> pending s \<and> agg_reachable s'"
    using assms(2)
  proof (induction k arbitrary: s')
    case 0
    then show ?case using assms(1) by simp
  next
    case (Suc k)
    then obtain u where u: "(agg_resume ^^ k) s u" "agg_resume u s'" by auto
    with Suc.IH pending_resume [OF u(2)] agg_resume_step [OF u(2)] show ?case
      by (fastforce simp: agg_reachable_def intro: rtranclp.rtrancl_into_rtrancl)
  qed
  then have k: "k \<le> 2 * length (agg_running s)" and s': "agg_reachable s'"
    using pending_bound [of s] by auto
  show ?thesis
  proof (cases "\<exists>s''. agg_resume s' s''")
    case True
    then have "agg_running s' \<noteq> []" by (auto elim: agg_resume.cases)
    with True k show ?thesis by simp
  next
    case False
    then have run: "agg_running s' = []" using resume_possible by blast
    then have "\<not> isInProgress n (agg_state s')" for n
      using flag_has_worker [OF s'] by (fastforce simp: workers_def)
    with False k run show ?thesis by (simp add: begin_job_def)
  qed
qed

lemma aggregations_end_witness:
  "\<exists>s s'. (agg_resume ^^ 1) s s' \<and> agg_running s = [(J_Prices, Working)] \<and> agg_running s' = []
     \<and> snd (begin_job 5 J_Prices (agg_state s')) = [Working]"
proof -
  let ?s = "\<lparr> agg_state = startAggregation 0 ''token-price'' Map.empty, agg_running = [(J_Prices, Working)] \<rparr>"
  let ?s' = "\<lparr> agg_state = stopAggregation ''token-price'' (agg_state ?s), agg_running = [] \<rparr>"
  have r: "agg_reachable ?s"
    using reach_trigger [OF reach_idle, of 0 J_Prices] by (simp add: begin_job_def idle_def isInProgress_def)
  have "agg_resume ?s ?s'"
    using agg_resume.intros [of ?s "[]" J_Prices Working "[]" True "agg_state ?s'" "[]"] by simp
  then have step: "(agg_resume ^^ 1) ?s ?s'" by (simp only: relpowp_1)
  have "\<not> (\<exists>s''. agg_resume ?s' s'')" by (auto elim: agg_resume.cases)
  then have "snd (begin_job 5 J_Prices (agg_state ?s')) = [Working]"
    using aggregations_end [OF r step] by (simp only: if_False)
  with step show ?thesis by (intro exI [of _ ?s] exI [of _ ?s']) simp
qed

end
