(* ===== verification/Aggregator_Facts.thy ===== *)
theory Aggregator_Facts
  imports Aggregators
begin

text \<open>
  What the aggregators of \<open>apps/aggregator/src\<close> write. The pool is third-party code; all that is
  assumed of it is that it makes no calls but those of the computations it runs.
\<close>

section \<open>Pools\<close>

definition pool_calls :: "env \<Rightarrow> bool" where
  "pool_calls E \<longleftrightarrow> (\<forall>P ms. (\<forall>m \<in> set ms. keeps P m) \<longrightarrow> keeps P (e_poolUnits E ms))"

lemma keeps_pool_each:
  "pool_calls E \<Longrightarrow> (\<And>x. x \<in> set xs \<Longrightarrow> keeps P (f x)) \<Longrightarrow> keeps P (pool_each E f xs)"
proof -
  assume pool: "pool_calls E" and f: "\<And>x. x \<in> set xs \<Longrightarrow> keeps P (f x)"
  have "\<forall>m \<in> set (map (\<lambda>x. attempt (f x) (\<lambda>e. ret ())) xs). keeps P m"
    using f by (auto intro: keeps_attempt keeps_ret)
  then show ?thesis using pool unfolding pool_each_def pool_calls_def by blast
qed

text \<open>
  That a pool processes every item: when no computation rejects, the pool resolves, and whatever call
  a computation makes in any case is among its calls.
\<close>

definition new_calls :: "call list \<Rightarrow> call list \<Rightarrow> call set" where
  "new_calls tr t = set (drop (length tr) t)"

definition resolves :: "world \<Rightarrow> unit service \<Rightarrow> bool" where
  "resolves W m \<longleftrightarrow> keeps (\<lambda>c. True) m \<and> (\<forall>tr. fst (m W tr) = Inr ())"

definition pool_runs_all :: "env \<Rightarrow> bool" where
  "pool_runs_all E \<longleftrightarrow> (\<forall>W ms. (\<forall>m \<in> set ms. resolves W m) \<longrightarrow>
     (\<forall>tr. fst (e_poolUnits E ms W tr) = Inr ()
        \<and> (\<forall>m \<in> set ms. \<forall>c. (\<forall>tr. c \<in> new_calls tr (snd (m W tr)))
              \<longrightarrow> c \<in> new_calls tr (snd (e_poolUnits E ms W tr)))))"

lemma resolves_item: "keeps (\<lambda>c. True) m \<Longrightarrow> resolves W (attempt m (\<lambda>e. ret ()))"
  unfolding resolves_def
  by (intro conjI allI keeps_attempt keeps_ret)
    (auto simp: run_attempt run_ret split: prod.split sum.split)

lemma pool_each_runs:
  assumes "pool_runs_all E" and "\<And>x. x \<in> set xs \<Longrightarrow> keeps (\<lambda>c. True) (f x)"
  shows "fst (pool_each E f xs W tr) = Inr ()"
    and "x \<in> set xs \<Longrightarrow> (\<And>tr. c \<in> new_calls tr (snd (attempt (f x) (\<lambda>e. ret ()) W tr))) \<Longrightarrow>
      c \<in> new_calls tr (snd (pool_each E f xs W tr))"
proof -
  let ?ms = "map (\<lambda>x. attempt (f x) (\<lambda>e. ret ())) xs"
  have all: "\<forall>m \<in> set ?ms. resolves W m" using assms(2) resolves_item by auto
  then show "fst (pool_each E f xs W tr) = Inr ()"
    using assms(1) unfolding pool_each_def pool_runs_all_def by blast
  assume "x \<in> set xs" "\<And>tr. c \<in> new_calls tr (snd (attempt (f x) (\<lambda>e. ret ()) W tr))"
  moreover from this(1) have "attempt (f x) (\<lambda>e. ret ()) \<in> set ?ms" by simp
  ultimately show "c \<in> new_calls tr (snd (pool_each E f xs W tr))"
    using assms(1) all unfolding pool_each_def pool_runs_all_def by blast
qed

lemma each_act_runs_all:
  "\<forall>m \<in> set ms. resolves W m \<Longrightarrow>
     \<exists>cs. each_act (\<lambda>m. m) ms W tr = (Inr (), tr @ cs)
       \<and> (\<forall>m \<in> set ms. \<forall>c. (\<forall>tr. c \<in> new_calls tr (snd (m W tr))) \<longrightarrow> c \<in> set cs)"
proof (induction ms arbitrary: tr)
  case (Cons m ms)
  then obtain cs where m: "m W tr = (Inr (), tr @ cs)"
    unfolding resolves_def keeps_def by (metis list.set_intros(1) prod.collapse)
  from Cons obtain cs' where
    rest: "each_act (\<lambda>m. m) ms W (tr @ cs) = (Inr (), (tr @ cs) @ cs')"
    "\<forall>m \<in> set ms. \<forall>c. (\<forall>tr. c \<in> new_calls tr (snd (m W tr))) \<longrightarrow> c \<in> set cs'"
    by (metis list.set_intros(2))
  have "c \<in> set cs" if "\<forall>tr. c \<in> new_calls tr (snd (m W tr))" for c
    using spec [OF that, of tr] m by (simp add: new_calls_def)
  with m rest show ?case by (intro exI [of _ "cs @ cs'"]) (auto simp: run_thn)
qed (simp add: run_ret)

lemma pool_runs_all_sample: "pool_runs_all sample_env"
  unfolding pool_runs_all_def
proof (intro allI impI)
  fix W ms tr
  assume "\<forall>m \<in> set ms. resolves W m"
  from each_act_runs_all [OF this, of tr]
  show "fst (e_poolUnits sample_env ms W tr) = Inr ()
      \<and> (\<forall>m \<in> set ms. \<forall>c. (\<forall>tr. c \<in> new_calls tr (snd (m W tr)))
           \<longrightarrow> c \<in> new_calls tr (snd (e_poolUnits sample_env ms W tr)))"
    by (auto simp: sample_env_def new_calls_def)
qed

lemma pool_calls_sample: "pool_calls sample_env"
  by (auto simp: pool_calls_def sample_env_def intro: keeps_each_act)

section \<open>Proposals\<close>

text \<open>
  How a proposal of the contract is stored: with its own data, but without recorded actions and as
  active, whatever its period of voting.
\<close>

definition shows_proposal :: "dao \<Rightarrow> sputnik_proposal_output \<Rightarrow> proposal_dto \<Rightarrow> bool" where
  "shows_proposal d p x \<longleftrightarrow>
     pd_id x = buildProposalId (dao_id d) (JNum (spo_id p)) \<and> pd_daoId x = dao_id d
     \<and> pd_proposer x = spr_proposer p \<and> pd_description x = spr_description p
     \<and> pd_status x = spr_status p \<and> pd_votes x = spr_votes p \<and> pd_voteCounts x = spr_vote_counts p
     \<and> pd_submissionTime x = spr_submission_time p
     \<and> pd_actions x = [] \<and> pd_voteStatus x = Some VS_Active"

lemma castProposal_shows: "castProposal E d p = Inr dto \<Longrightarrow> shows_proposal d p dto"
  by (auto simp: castProposal_def castProposalKind_sputnik res_bind_Inr_iff shows_proposal_def
      simp del: castProposalKind.simps)

lemma map_res_castProposal:
  "map_res (castProposal E d) ps = Inr dtos \<Longrightarrow> list_all2 (shows_proposal d) ps dtos"
  by (induction ps arbitrary: dtos) (auto simp: res_bind_Inr_iff castProposal_shows)

definition proposal_ids :: "dao \<Rightarrow> sputnik_proposal_output list \<Rightarrow> string set" where
  "proposal_ids d ps = (\<lambda>p. buildProposalId (dao_id d) (JNum (spo_id p))) ` set ps"

lemma shown_ids: "list_all2 (shows_proposal d) ps dtos \<Longrightarrow> pd_id ` set dtos = proposal_ids d ps"
  by (induction rule: list_all2_induct) (auto simp: shows_proposal_def proposal_ids_def)

lemma shown_from: "list_all2 (shows_proposal d) ps dtos \<Longrightarrow> x \<in> set dtos \<Longrightarrow> \<exists>p \<in> set ps. shows_proposal d p x"
  by (induction rule: list_all2_induct) auto

lemma shown_all: "list_all2 (shows_proposal d) ps dtos \<Longrightarrow> p \<in> set ps \<Longrightarrow> \<exists>x \<in> set dtos. shows_proposal d p x"
  by (induction rule: list_all2_induct) auto

fun deletes_proposal :: "call \<Rightarrow> string set" where
  "deletes_proposal (Sql (S_deleteProposal i)) = {i}"
| "deletes_proposal _ = {}"

fun saves_proposal :: "call \<Rightarrow> proposal_dto set" where
  "saves_proposal (Sql (S_saveProposal p)) = {p}"
| "saves_proposal _ = {}"

lemma run_removeMultiple:
  "\<exists>r. proposal_removeMultiple ids W tr = (r, tr @ map (\<lambda>i. Sql (S_deleteProposal i)) ids)"
proof -
  define f where "f = (\<lambda>i. do_call (Sql (S_deleteProposal i)))"
  have f: "f i W tr = (w_ack W (tr @ [Sql (S_deleteProposal i)]), tr @ [Sql (S_deleteProposal i)])" for i tr
    by (simp add: f_def run_do_call)
  have "\<exists>r. all_act f ids W tr = (r, tr @ map (\<lambda>i. Sql (S_deleteProposal i)) ids)"
  proof (induction ids arbitrary: tr)
    case (Cons i ids)
    then obtain r where "all_act f ids W (tr @ [Sql (S_deleteProposal i)])
      = (r, (tr @ [Sql (S_deleteProposal i)]) @ map (\<lambda>i. Sql (S_deleteProposal i)) ids)" by blast
    then show ?case by (simp add: f)
  qed (simp add: run_ret)
  then obtain r where "all_act f ids W tr = (r, tr @ map (\<lambda>i. Sql (S_deleteProposal i)) ids)" by blast
  then show ?thesis
    unfolding proposal_removeMultiple_def f_def [symmetric] by (cases r) (simp_all add: run_thn run_ret)
qed

lemma keeps_proposal_create:
  "keeps (\<lambda>c. deletes_proposal c = {} \<and> saves_proposal c \<subseteq> {p}) (proposal_create p)"
  unfolding proposal_create_def saveProposalDto_def prod.case
  by (intro keeps_intros) (auto split: prod.split intro!: keeps_do_call)

definition deleted :: "call list \<Rightarrow> string set" where
  "deleted cs = (\<Union>c \<in> set cs. deletes_proposal c)"

definition saved :: "call list \<Rightarrow> proposal_dto set" where
  "saved cs = (\<Union>c \<in> set cs. saves_proposal c)"

lemma deleted_saved_simps [simp]:
  "deleted [] = {}" "deleted (c # cs) = deletes_proposal c \<union> deleted cs"
  "deleted (cs @ cs') = deleted cs \<union> deleted cs'"
  "saved [] = {}" "saved (c # cs) = saves_proposal c \<union> saved cs" "saved (cs @ cs') = saved cs \<union> saved cs'"
  by (auto simp: deleted_def saved_def)

lemma deleted_saved_all:
  "list_all (\<lambda>c. deletes_proposal c = {} \<and> saves_proposal c \<subseteq> A) cs \<Longrightarrow> deleted cs = {} \<and> saved cs \<subseteq> A"
  by (induction cs) auto

lemma deletions [simp]:
  "deleted (map (\<lambda>i. Sql (S_deleteProposal i)) ids) = set ids" "saved (map (\<lambda>i. Sql (S_deleteProposal i)) ids) = {}"
  by (induction ids) auto

lemma keeps_dao_proposals:
  "keeps (\<lambda>c. deletes_proposal c = {} \<and> saves_proposal c \<subseteq> {}) (dao_proposals d)"
proof (cases "dao_lastProposalId d")
  case None
  then show ?thesis by (simp add: dao_proposals_def keeps_ret)
next
  case (Some n)
  show ?thesis unfolding dao_proposals_def Some option.case getProposalsByDaoId_def Let_def
    by (intro keeps_fold_act keeps_bnd keeps_call keeps_ret) simp
qed

lemma keeps_pool_proposals:
  assumes "pool_calls E"
  shows "keeps (\<lambda>c. deletes_proposal c = {} \<and> saves_proposal c \<subseteq> set ps) (pool_each E proposal_create ps)"
  using assms
proof (rule keeps_pool_each)
  fix p
  assume "p \<in> set ps"
  then show "keeps (\<lambda>c. deletes_proposal c = {} \<and> saves_proposal c \<subseteq> set ps) (proposal_create p)"
    by (intro keeps_mono [OF keeps_proposal_create [of p]]) auto
qed

definition contexts_of :: "proposal_dto list \<Rightarrow> (string \<times> string) list" where
  "contexts_of dtos = [(pd_id p, pd_daoId p). p \<leftarrow> dtos, pd_type p = AddBounty]"

definition write_proposals :: "env \<Rightarrow> string list \<Rightarrow> proposal_dto list \<Rightarrow> unit service" where
  "write_proposals E removed dtos =
     thn (proposal_removeMultiple removed)
      (thn (pool_each E proposal_create dtos) (do_call (Sql (S_saveBountyContexts (contexts_of dtos)))))"

lemma aggregateProposalsByDao_run:
  assumes "dao_proposals d W tr = (Inr ps, t1)" and "map_res (castProposal E d) ps = Inr dtos"
    and "w_strs W (t1 @ [Sql (S_findProposalIds (dao_id d))]) = Inr ids"
  shows "aggregateProposalsByDao E d W tr =
     write_proposals E (filter (\<lambda>i. list_all (\<lambda>p. pd_id p \<noteq> i) dtos) ids) dtos
       W (t1 @ [Sql (S_findProposalIds (dao_id d))])"
proof -
  have "map (\<lambda>p. (pd_id p, pd_daoId p)) (filter (\<lambda>p. pd_type p = AddBounty) ps) = contexts_of ps" for ps
    by (induction ps) (simp_all add: contexts_of_def)
  with assms show ?thesis
    by (simp add: aggregateProposalsByDao_def bountyContext_createMultiple_def run_bnd run_lift_res run_call
        Let_def write_proposals_def)
qed

lemma removal_acked:
  "\<forall>tr. w_ack W tr = Inr () \<Longrightarrow> fst (proposal_removeMultiple ids W tr) = Inr ()"
proof -
  assume ack: "\<forall>tr. w_ack W tr = Inr ()"
  have "\<exists>rs t. all_act (\<lambda>i. do_call (Sql (S_deleteProposal i))) ids W tr = (Inr rs, t)"
    by (induction ids arbitrary: tr) (simp_all add: run_ret run_do_call ack, metis prod.case res_bind_simps(2))
  then show ?thesis by (auto simp: proposal_removeMultiple_def run_thn run_ret)
qed

lemma create_acked:
  "\<forall>tr. w_ack W tr = Inr () \<Longrightarrow>
     Sql (S_saveProposal p) \<in> new_calls tr (snd (attempt (proposal_create p) (\<lambda>e. ret ()) W tr))"
  by (auto simp: proposal_create_def saveProposalDto_def run_attempt run_thn run_bnd run_peek run_do_call
      new_calls_def split: prod.split)

lemma keeps_proposal_create_any: "keeps (\<lambda>c. True) (proposal_create p)"
  by (rule keeps_mono [OF keeps_proposal_create]) simp

text \<open>What the writing part writes, and that it writes everything when nothing is refused.\<close>

lemma write_proposals_writes:
  assumes "pool_calls E" and "write_proposals E removed dtos W tr = (r, t)"
  obtains cs where "t = tr @ cs" and "deleted cs = set removed" and "saved cs \<subseteq> set dtos"
    and "pool_runs_all E \<Longrightarrow> \<forall>tr. w_ack W tr = Inr () \<Longrightarrow>
      r = Inr () \<and> saved cs = set dtos \<and> (\<exists>cs'. cs = cs' @ [Sql (S_saveBountyContexts (contexts_of dtos))])"
proof -
  let ?dels = "map (\<lambda>i. Sql (S_deleteProposal i)) removed"
    and ?ctx = "Sql (S_saveBountyContexts (contexts_of dtos))"
  obtain r1 where del: "proposal_removeMultiple removed W tr = (r1, tr @ ?dels)"
    using run_removeMultiple by blast
  show thesis
  proof (cases r1)
    case (Inl e)
    with del assms(2) have "t = tr @ ?dels" by (simp add: write_proposals_def run_thn)
    moreover have "\<not> (\<forall>tr. w_ack W tr = Inr ())" using removal_acked [of W removed tr] Inl del by auto
    ultimately show thesis by (intro that [of ?dels]) auto
  next
    case (Inr u)
    obtain r2 t2 where pool: "pool_each E proposal_create dtos W (tr @ ?dels) = (r2, t2)" by fastforce
    obtain cs where t2: "t2 = (tr @ ?dels) @ cs"
      and "list_all (\<lambda>c. deletes_proposal c = {} \<and> saves_proposal c \<subseteq> set dtos) cs"
      using keepsE [OF keeps_pool_proposals [OF assms(1)] pool] .
    from deleted_saved_all [OF this(2)] have cs: "deleted cs = {}" "saved cs \<subseteq> set dtos" by simp_all
    have all: "r2 = Inr () \<and> saved cs = set dtos" if "pool_runs_all E" "\<forall>tr. w_ack W tr = Inr ()"
    proof -
      have "Sql (S_saveProposal p) \<in> set cs" if "p \<in> set dtos" for p
      proof -
        have "Sql (S_saveProposal p) \<in> new_calls (tr @ ?dels) (snd (pool_each E proposal_create dtos W (tr @ ?dels)))"
          by (rule pool_each_runs(2) [OF \<open>pool_runs_all E\<close> keeps_proposal_create_any that
              create_acked [OF \<open>\<forall>tr. w_ack W tr = Inr ()\<close>]])
        then show ?thesis using pool t2 by (simp add: new_calls_def)
      qed
      then have "set dtos \<subseteq> saved cs" by (force simp: saved_def)
      moreover have "r2 = Inr ()"
        using pool_each_runs(1) [where f = proposal_create and xs = dtos and W = W and tr = "tr @ ?dels",
            OF \<open>pool_runs_all E\<close> keeps_proposal_create_any] pool by simp
      ultimately show ?thesis using cs by blast
    qed
    show thesis
    proof (cases r2)
      case (Inl e)
      with Inr del pool assms(2) have "t = t2" by (simp add: write_proposals_def run_thn)
      with t2 cs all Inl show thesis by (intro that [of "?dels @ cs"]) auto
    next
      case ok: (Inr v)
      with Inr del pool assms(2) have "t = t2 @ [?ctx]" and "r = w_ack W t"
        by (auto simp: write_proposals_def run_thn run_do_call)
      with t2 cs all show thesis by (intro that [of "?dels @ cs @ [?ctx]"]) auto
    qed
  qed
qed

text \<open>
  C22. The aggregation of a DAO's proposals. It writes nothing exactly when it stops before, because the
  contract's list cannot be read or cast, or the stored ids cannot be read, and then it rejects with that
  error. Otherwise exactly those stored proposals are deleted that the contract does not list, and
  only proposals that it lists are saved, each with its own data but without the actions that were
  recorded for it and as active even when its voting has expired. When no write is refused it resolves,
  every listed proposal is saved, and last the contexts of the listed bounties.
\<close>

theorem aggregateProposalsByDao_writes:
  assumes "pool_calls E" and "aggregateProposalsByDao E d W tr = (r, t)"
  shows "\<exists>cs. t = tr @ cs \<and>
    ((\<exists>e. r = Inl e \<and> deleted cs = {} \<and> saved cs = {}
        \<and> ((\<exists>t1. dao_proposals d W tr = (Inl e, t1))
           \<or> (\<exists>ps t1. dao_proposals d W tr = (Inr ps, t1)
                \<and> (map_res (castProposal E d) ps = Inl e
                   \<or> w_strs W (t1 @ [Sql (S_findProposalIds (dao_id d))]) = Inl e))))
     \<or> (\<exists>ps t1 ids. dao_proposals d W tr = (Inr ps, t1)
          \<and> w_strs W (t1 @ [Sql (S_findProposalIds (dao_id d))]) = Inr ids
          \<and> deleted cs = set ids - proposal_ids d ps
          \<and> (\<forall>x \<in> saved cs. \<exists>p \<in> set ps. shows_proposal d p x)
          \<and> (pool_runs_all E \<and> (\<forall>tr. w_ack W tr = Inr ()) \<longrightarrow>
               r = Inr () \<and> (\<forall>p \<in> set ps. \<exists>x \<in> saved cs. shows_proposal d p x)
               \<and> (\<exists>cs' ctx. cs = cs' @ [Sql (S_saveBountyContexts ctx)]
                    \<and> set ctx = {(pd_id x, pd_daoId x) | x. x \<in> saved cs \<and> pd_type x = AddBounty}))))"
proof -
  let ?find = "Sql (S_findProposalIds (dao_id d))"
  obtain r1 t1 where p: "dao_proposals d W tr = (r1, t1)" by fastforce
  obtain cs1 where t1: "t1 = tr @ cs1" and none: "deleted cs1 = {}" "saved cs1 = {}"
    using keepsE [OF keeps_dao_proposals p] deleted_saved_all [of "{}"] by (metis subset_empty)
  show ?thesis
  proof (cases r1)
    case (Inl e)
    with assms(2) p have "r = Inl e" "t = t1" by (auto simp: aggregateProposalsByDao_def run_simps)
    with t1 none p Inl show ?thesis by (intro exI [of _ cs1]) simp
  next
    case ps: (Inr ps)
    show ?thesis
    proof (cases "map_res (castProposal E d) ps")
      case (Inl e)
      with ps assms(2) p have "r = Inl e" "t = t1" by (auto simp: aggregateProposalsByDao_def run_simps)
      with t1 none p ps Inl show ?thesis by (intro exI [of _ cs1]) simp
    next
      case dtos: (Inr dtos)
      show ?thesis
      proof (cases "w_strs W (t1 @ [?find])")
        case (Inl e)
        with ps dtos assms(2) p have "r = Inl e" "t = t1 @ [?find]"
          by (auto simp: aggregateProposalsByDao_def run_simps Let_def)
        with t1 none p ps Inl show ?thesis by (intro exI [of _ "cs1 @ [?find]"]) simp
      next
        case ids: (Inr ids)
        let ?rem = "filter (\<lambda>i. list_all (\<lambda>p. pd_id p \<noteq> i) dtos) ids"
        have shown: "list_all2 (shows_proposal d) ps dtos" by (rule map_res_castProposal [OF dtos])
        have rem: "set ?rem = set ids - proposal_ids d ps"
          by (auto simp: list_all_iff simp flip: shown_ids [OF shown])
        obtain cs where t: "t = (t1 @ [?find]) @ cs" and cs: "deleted cs = set ?rem" "saved cs \<subseteq> set dtos"
          and all: "pool_runs_all E \<Longrightarrow> \<forall>tr. w_ack W tr = Inr () \<Longrightarrow>
            r = Inr () \<and> saved cs = set dtos \<and> (\<exists>cs'. cs = cs' @ [Sql (S_saveBountyContexts (contexts_of dtos))])"
          using write_proposals_writes [OF assms(1)] aggregateProposalsByDao_run [OF p [unfolded ps] dtos ids]
            assms(2) by metis
        let ?cs = "cs1 @ [?find] @ cs"
        have del: "deleted ?cs = set ids - proposal_ids d ps" and sav: "saved ?cs = saved cs"
          using none cs(1) rem by auto
        have "\<forall>x \<in> saved ?cs. \<exists>p \<in> set ps. shows_proposal d p x"
          using cs(2) shown_from [OF shown] unfolding sav by blast
        moreover have "r = Inr () \<and> (\<forall>p \<in> set ps. \<exists>x \<in> saved ?cs. shows_proposal d p x)
            \<and> (\<exists>cs' ctx. ?cs = cs' @ [Sql (S_saveBountyContexts ctx)]
               \<and> set ctx = {(pd_id x, pd_daoId x) | x. x \<in> saved ?cs \<and> pd_type x = AddBounty})"
          if "pool_runs_all E" "\<forall>tr. w_ack W tr = Inr ()"
        proof -
          from all [OF that] obtain cs' where "r = Inr ()" "saved cs = set dtos"
            "?cs = (cs1 @ ?find # cs') @ [Sql (S_saveBountyContexts (contexts_of dtos))]" by auto
          moreover have "set (contexts_of dtos) = {(pd_id x, pd_daoId x) | x. x \<in> set dtos \<and> pd_type x = AddBounty}"
            by (auto simp: contexts_of_def)
          ultimately show ?thesis using shown_all [OF shown] unfolding sav by blast
        qed
        ultimately show ?thesis using t t1 del p ps ids by (intro exI [of _ ?cs]) auto
      qed
    qed
  qed
qed

definition listed_proposal :: sputnik_proposal_output where
  "listed_proposal =
     \<lparr> spr_proposer = ''a'', spr_description = ''x'', spr_kind = SK_Vote, spr_status = Expired,
       spr_vote_counts = [], spr_votes = [], spr_submission_time = ''5'', spo_id = 3 \<rparr>"

definition dao_with_period :: dao where
  "dao_with_period = (empty_dao ''d'')\<lparr> dao_lastProposalId := Some 3,
     dao_policy := Some \<lparr> pol_daoId = None, pol_proposalBond = None, pol_bountyBond = None,
       pol_proposalPeriod = Some ''7'', pol_bountyForgivenessPeriod = None, pol_defaultVotePolicy = None,
       pol_roles = None \<rparr> \<rparr>"

lemma aggregateProposalsByDao_writes_witness:
  "\<exists>W r t. aggregateProposalsByDao sample_env dao_with_period W [] = (r, t)
     \<and> r = Inr () \<and> deleted t = {''d-7''} \<and> (\<exists>x \<in> saved t. shows_proposal dao_with_period listed_proposal x)"
proof -
  let ?W = "quiet_world\<lparr> w_strs := \<lambda>tr. Inr [''d-7'', ''d-3''], w_proposals := \<lambda>tr. Inr [listed_proposal] \<rparr>"
  obtain r t where run: "aggregateProposalsByDao sample_env dao_with_period ?W [] = (r, t)" by fastforce
  have listed: "\<exists>t1. dao_proposals dao_with_period ?W [] = (Inr [listed_proposal], t1)"
    by (simp add: dao_proposals_def dao_with_period_def empty_dao_def getProposalsByDaoId_def
        PROPOSAL_REQUEST_CHUNK_SIZE_def chunk_count_def run_simps upt_rec quiet_world_def)
  have period: "policy_period dao_with_period = Inr ''7''"
    by (simp add: policy_period_def dao_with_period_def empty_dao_def)
  have "parse_bigint ''5'' = Inr 5" "parse_bigint ''7'' = Inr 7" by code_simp+
  then have "\<exists>v. calcProposalVotePeriodEnd ''5'' ''7'' = Inr v" by (simp add: calcProposalVotePeriodEnd_def)
  then have "\<exists>x. castProposal sample_env dao_with_period listed_proposal = Inr x"
    by (auto simp: castProposal_def castProposalKind_sputnik period listed_proposal_def
        simp del: castProposalKind.simps)
  then have cast: "\<exists>xs. map_res (castProposal sample_env dao_with_period) [listed_proposal] = Inr xs" by auto
  have three: "int_str 3 = ''3''" by code_simp
  have ids: "proposal_ids dao_with_period [listed_proposal] = {''d-3''}"
    by (simp add: proposal_ids_def buildProposalId_def listed_proposal_def dao_with_period_def empty_dao_def three)
  obtain ps t1 ids where "dao_proposals dao_with_period ?W [] = (Inr ps, t1)" "r = Inr ()"
    "deleted t = {''d-7'', ''d-3''} - proposal_ids dao_with_period ps"
    "\<forall>p \<in> set ps. \<exists>x \<in> saved t. shows_proposal dao_with_period p x"
    using aggregateProposalsByDao_writes [OF pool_calls_sample run] listed cast pool_runs_all_sample
    by (auto simp: quiet_world_def)
  then show ?thesis using run listed ids by (intro exI [of _ ?W] exI [of _ r] exI [of _ t]) auto
qed

section \<open>Funds\<close>

fun writes_dao :: "call \<Rightarrow> dao set" where
  "writes_dao (Sql (S_saveDao d)) = {d}"
| "writes_dao _ = {}"

fun writes_item :: "call \<Rightarrow> bool" where
  "writes_item (Dyn (D_save k m)) = True"
| "writes_item (Dyn (D_updateTokens k ts)) = True"
| "writes_item (Dyn (D_archive k b)) = True"
| "writes_item _ = False"

definition funds_only :: "string option \<Rightarrow> string \<Rightarrow> call \<Rightarrow> bool" where
  "funds_only amount i c \<longleftrightarrow> \<not> writes_item c
     \<and> (\<forall>d \<in> writes_dao c. \<exists>q. d = (empty_dao i)\<lparr>dao_amount := amount, dao_totalDaoFunds := Some q\<rparr>)"

lemma keeps_funds_call: "\<not> writes_item c \<Longrightarrow> writes_dao c = {} \<Longrightarrow> keeps (funds_only a i) (call c g)"
  by (rule keeps_call) (simp add: funds_only_def)

lemma keeps_calculateDaoFunds: "keeps (funds_only a i) (calculateDaoFunds i b)"
  unfolding calculateDaoFunds_def tokenBalancesByAccount_def getNearToken_def useDynamoDB_def
  by (intro keeps_intros keeps_funds_call keeps_dyn_get) (simp_all add: funds_only_def)

lemma keeps_save_funds:
  "keeps (funds_only a i)
     (dao_save ((empty_dao i)\<lparr>dao_amount := a\<rparr>)
        (no_options\<lparr>so_updateTotalDaoFunds := True, so_saveToDynamo := False\<rparr>))"
proof -
  let ?d = "(empty_dao i)\<lparr>dao_amount := a\<rparr>"
  have eq: "dao_save ?d (no_options\<lparr>so_updateTotalDaoFunds := True, so_saveToDynamo := False\<rparr>) =
      bnd (calculateDaoFunds i a) (\<lambda>funds. do_call (Sql (S_saveDao (?d\<lparr>dao_totalDaoFunds := Some funds\<rparr>))))"
    by (simp add: dao_save_def update_proposal_counts_def update_funds_def update_bounty_count_def
        update_nft_count_def no_options_def when_act_def thn_def bnd_assoc empty_dao_def)
  show ?thesis unfolding eq
    by (intro keeps_bnd keeps_calculateDaoFunds keeps_do_call, simp add: funds_only_def, rule exI, rule refl)
qed

text \<open>
  The aggregation of the funds writes nothing to DynamoDB, and to the database only the amount
  a DAO was read with and the funds computed from it, for DAOs that were read.
\<close>

theorem aggregateDaoFunds_writes:
  assumes "pool_calls E" and "aggregateDaoFunds E daoIds W tr = (r, t)"
  shows "\<exists>cs daos. t = tr @ Sql (S_findDaos daoIds) # cs
     \<and> (cs = [] \<or> w_daos W (tr @ [Sql (S_findDaos daoIds)]) = Inr daos)
     \<and> (\<forall>c \<in> set cs. \<not> writes_item c \<and> (\<forall>x \<in> writes_dao c. \<exists>d \<in> set daos. \<exists>q.
           x = (empty_dao (dao_id d))\<lparr>dao_amount := dao_amount d, dao_totalDaoFunds := Some q\<rparr>))"
proof (cases "w_daos W (tr @ [Sql (S_findDaos daoIds)])")
  case (Inl e)
  with assms(2) show ?thesis by (auto simp: aggregateDaoFunds_def findByIds_def run_simps)
next
  case (Inr daos)
  let ?P = "\<lambda>c. \<not> writes_item c \<and> (\<forall>x \<in> writes_dao c. \<exists>d \<in> set daos. \<exists>q.
           x = (empty_dao (dao_id d))\<lparr>dao_amount := dao_amount d, dao_totalDaoFunds := Some q\<rparr>)"
  let ?save = "\<lambda>d. dao_save ((empty_dao (dao_id d))\<lparr>dao_amount := dao_amount d\<rparr>)
         (no_options\<lparr>so_updateTotalDaoFunds := True, so_saveToDynamo := False\<rparr>)"
  have "keeps ?P (?save d)" if "d \<in> set daos" for d
    by (rule keeps_mono [OF keeps_save_funds]) (use that in \<open>unfold funds_only_def, blast\<close>)
  then have k: "keeps ?P (pool_each E ?save daos)" by (rule keeps_pool_each [OF assms(1)])
  have run: "pool_each E ?save daos W (tr @ [Sql (S_findDaos daoIds)]) = (r, t)"
    using assms(2) Inr by (simp add: aggregateDaoFunds_def findByIds_def run_bnd run_call)
  obtain cs where "t = (tr @ [Sql (S_findDaos daoIds)]) @ cs" "list_all ?P cs"
    using keepsE [OF k run] .
  then show ?thesis using Inr by (intro exI [of _ cs] exI [of _ daos]) (auto simp: list_all_iff)
qed

lemma aggregateDaoFunds_writes_witness:
  "\<exists>cs. snd (aggregateDaoFunds sample_env None (quiet_world\<lparr>w_daos := \<lambda>tr. Inr [empty_dao ''d'']\<rparr>) [])
       = Sql (S_findDaos None) # cs \<and> cs \<noteq> [] \<and> (\<forall>c \<in> set cs. \<not> writes_item c)"
proof -
  let ?W = "quiet_world\<lparr>w_daos := \<lambda>tr. Inr [empty_dao ''d'']\<rparr>"
  obtain r t where run: "aggregateDaoFunds sample_env None ?W [] = (r, t)" by fastforce
  moreover have "t \<noteq> [Sql (S_findDaos None)]"
    using run by (auto simp: aggregateDaoFunds_def findByIds_def pool_each_def sample_env_def quiet_world_def
        dao_save_def update_proposal_counts_def update_funds_def update_bounty_count_def update_nft_count_def
        no_options_def calculateDaoFunds_def tokenBalancesByAccount_def getNearToken_def useDynamoDB_def
        empty_dao_def run_simps)
  moreover obtain cs where "t = [] @ Sql (S_findDaos None) # cs" "\<forall>c \<in> set cs. \<not> writes_item c"
    using aggregateDaoFunds_writes [OF pool_calls_sample run] by blast
  ultimately show ?thesis by auto
qed

section \<open>Prices\<close>

definition repriced :: "token \<Rightarrow> token \<Rightarrow> bool" where
  "repriced t t' \<longleftrightarrow> (\<exists>p. t' = t\<lparr>tok_price := p\<rparr>)"

lemma repriced_refl [simp]: "repriced t t"
  unfolding repriced_def by (rule exI [of _ "tok_price t"]) simp

lemma repriced_trans: "repriced a b \<Longrightarrow> repriced b c \<Longrightarrow> repriced a c"
  by (auto simp: repriced_def)

lemma set_price_repriced: "list_all2 repriced ts (set_price i p ts)"
  by (induction ts) (auto simp: list.rel_refl, auto simp: repriced_def)

lemma add_price_repriced:
  assumes "add_price (ts, us) p = Inr (ts', us')" and "\<forall>n \<in> set us. n < length ts"
  shows "list_all2 repriced ts ts' \<and> (\<forall>n \<in> set us'. n < length ts')"
proof -
  have "length (set_price i q ts) = length ts" for i q
    using list_all2_lengthD [OF set_price_repriced] by metis
  then show ?thesis
    using assms set_price_repriced
    by (auto simp: add_price_def res_bind_Inr_iff price_index_def Let_def list.rel_refl
        split: if_splits option.splits)
qed

lemma fold_add_price_repriced:
  "fold_res add_price (ts, us) ps = Inr (ts', us') \<Longrightarrow> \<forall>n \<in> set us. n < length ts \<Longrightarrow>
     list_all2 repriced ts ts' \<and> (\<forall>n \<in> set us'. n < length ts')"
proof (induction ps arbitrary: ts us)
  case (Cons p ps)
  then obtain ts1 us1 where a: "add_price (ts, us) p = Inr (ts1, us1)"
    and f: "fold_res add_price (ts1, us1) ps = Inr (ts', us')" by (auto simp: res_bind_Inr_iff)
  have one: "list_all2 repriced ts ts1" "\<forall>n \<in> set us1. n < length ts1"
    using add_price_repriced [OF a Cons.prems(2)] by auto
  with Cons.IH [OF f] show ?case by (blast intro: list_all2_trans [of repriced repriced repriced] repriced_trans)
qed (simp add: list.rel_refl)

lemma updated_tokens_repriced:
  assumes "updated_tokens ts v = Inr us" and "x \<in> set us"
  shows "\<exists>t \<in> set ts. repriced t x"
proof -
  obtain ps ts' ns where "fold_res add_price (ts, []) ps = Inr (ts', ns)" and us: "us = map ((!) ts') ns"
    using assms by (auto simp: updated_tokens_def res_bind_Inr_iff split: jsval.splits)
  then have all: "list_all2 repriced ts ts'" "\<forall>n \<in> set ns. n < length ts'"
    using fold_add_price_repriced [of ts "[]" ps] by auto
  from assms(2) us obtain n where "n \<in> set ns" "x = ts' ! n" by auto
  with all have "n < length ts'" "repriced (ts ! n) x" by (auto simp: list_all2_conv_all_nth)
  with all(1) show ?thesis by (auto simp: list_all2_lengthD intro!: bexI [of _ "ts ! n"] nth_mem)
qed

text \<open>
  The aggregation of the prices. When it succeeds, what it saved last, and returns, is the entry
  of NEAR with the price that was answered, followed by stored tokens in which nothing but the price
  has changed; when the list of prices cannot be loaded, the entry of NEAR alone.
\<close>

theorem aggregateTokenPrices_saves:
  assumes "aggregateTokenPrices E W tr = (Inr dtos, t)"
  shows "\<exists>tokens price updated t'. w_tokens W (tr @ [Sql S_findTokens]) = Inr tokens
     \<and> dtos = castNearToken price # updated \<and> t = t' @ [Sql (S_saveTokens dtos)]
     \<and> w_ack W t = Inr ()
     \<and> (\<forall>x \<in> set updated. \<exists>y \<in> set tokens. \<exists>p. x = y\<lparr>tok_price := p\<rparr>)
     \<and> ((e_tokenApiUrl E = [] \<or> isl (w_json W (tr @ [Sql S_findTokens, HttpGet (e_tokenApiUrl E @ ''/last-tvl'')])))
          \<longrightarrow> updated = [])"
proof -
  let ?t1 = "tr @ [Sql S_findTokens]" and ?url = "HttpGet (e_tokenApiUrl E @ ''/last-tvl'')"
  let ?prices = "if e_tokenApiUrl E \<noteq> []
          then attempt (call ?url w_json) (\<lambda>e. ret (JArr [])) else ret (JArr [])"
  obtain tokens v t2 updated near where
    tokens: "w_tokens W ?t1 = Inr tokens" and v: "?prices W ?t1 = (Inr v, t2)"
    and up: "updated_tokens tokens v = Inr updated"
    and dtos: "dtos = castNearToken (price_text (js_get_opt near ''usd'')) # updated"
    and t: "t = (t2 @ [HttpGet COINGECKO_URL]) @ [Sql (S_saveTokens dtos)]" "w_ack W t = Inr ()"
    using assms unfolding aggregateTokenPrices_def
    by (auto simp: bnd_Inr_iff thn_Inr_iff ret_iff call_iff lift_res_iff Let_def dest!: sym [of "Inr _"])
  have "\<forall>x \<in> set updated. \<exists>y \<in> set tokens. \<exists>p. x = y\<lparr>tok_price := p\<rparr>"
    using updated_tokens_repriced [OF up] by (auto simp: repriced_def)
  moreover have "updated = []" if "e_tokenApiUrl E = [] \<or> isl (w_json W (tr @ [Sql S_findTokens, ?url]))"
  proof -
    have "v = JArr []"
      using that v by (cases "w_json W (tr @ [Sql S_findTokens, ?url])")
        (auto simp: run_simps split: if_splits)
    then show ?thesis using up by (simp add: updated_tokens_def)
  qed
  ultimately show ?thesis using tokens dtos t by blast
qed

lemma aggregateTokenPrices_saves_witness:
  "\<exists>W price. fst (aggregateTokenPrices sample_env W []) = Inr [castNearToken price]"
proof -
  let ?W = "quiet_world\<lparr>w_json := \<lambda>tr. Inr (JObj [(''near'', JObj [(''usd'', JStr ''3'')])])\<rparr>"
  have "\<exists>dtos t. aggregateTokenPrices sample_env ?W [] = (Inr dtos, t)"
    by (simp add: aggregateTokenPrices_def updated_tokens_def sample_env_def quiet_world_def run_simps
        obj_get_def Let_def)
  then obtain dtos t where run: "aggregateTokenPrices sample_env ?W [] = (Inr dtos, t)" by blast
  obtain price where "dtos = [castNearToken price]"
    using aggregateTokenPrices_saves [OF run] by (auto simp: sample_env_def)
  with run show ?thesis by (intro exI [of _ ?W] exI [of _ price]) simp
qed

end
