(* ===== verification/Notification_Data.thy ===== *)
theory Notification_Data
  imports Dao_Service
begin

text \<open>
  The data of notifications (\<open>libs/notification/src/{types,dto,entities}\<close>), the texts made from it
  (\<open>NotificationService.getNotificationMessage\<close>,
  \<open>AccountNotifierService.getNotificationTemplate\<close>) and what an update of a DAO or a proposal is
  announced as (\<open>apps/notifier/src/notification-handler\<close>).

  The handlers receive the payloads of \<open>EventService\<close>. A proposal comes as a \<open>ProposalDto\<close>, whose
  kind is wrapped, or as a stored proposal, whose kind is not.
\<close>

section \<open>Types\<close>

datatype notification_status =
    NS_Created | NS_Approved | NS_Rejected | NS_Removed | NS_VoteApprove | NS_VoteReject | NS_VoteRemove

datatype notification_type =
    NT_CustomDao | NT_ClubDao | NT_FoundationDao | NT_CorporationDao | NT_CooperativeDao
  | NT_AddMemberToRole | NT_RemoveMemberFromRole | NT_FunctionCall | NT_Transfer | NT_ChangePolicy
  | NT_ChangeConfig | NT_AddBounty | NT_BountyDone | NT_Vote

fun notification_status_str :: "notification_status \<Rightarrow> string" where
  "notification_status_str NS_Created = ''Created''"
| "notification_status_str NS_Approved = ''Approved''"
| "notification_status_str NS_Rejected = ''Rejected''"
| "notification_status_str NS_Removed = ''Removed''"
| "notification_status_str NS_VoteApprove = ''VoteApprove''"
| "notification_status_str NS_VoteReject = ''VoteReject''"
| "notification_status_str NS_VoteRemove = ''VoteRemove''"

fun notification_type_str :: "notification_type \<Rightarrow> string" where
  "notification_type_str NT_CustomDao = ''CustomDao''"
| "notification_type_str NT_ClubDao = ''ClubDao''"
| "notification_type_str NT_FoundationDao = ''FoundationDao''"
| "notification_type_str NT_CorporationDao = ''CorporationDao''"
| "notification_type_str NT_CooperativeDao = ''CooperativeDao''"
| "notification_type_str NT_AddMemberToRole = ''AddMemberToRole''"
| "notification_type_str NT_RemoveMemberFromRole = ''RemoveMemberFromRole''"
| "notification_type_str NT_FunctionCall = ''FunctionCall''"
| "notification_type_str NT_Transfer = ''Transfer''"
| "notification_type_str NT_ChangePolicy = ''ChangePolicy''"
| "notification_type_str NT_ChangeConfig = ''ChangeConfig''"
| "notification_type_str NT_AddBounty = ''AddBounty''"
| "notification_type_str NT_BountyDone = ''BountyDone''"
| "notification_type_str NT_Vote = ''Vote''"

record notified_proposal =
  np_id :: string
  np_proposer :: string
  np_description :: string
  np_kind :: proposal_kind
  np_votes :: "(string \<times> vote) list"

record notification_metadata =
  nm_methodName :: "string option"
  nm_args :: jsval
  nm_proposal :: "notified_proposal option"

record notification_dto =
  ntf_id :: string
  ntf_daoId :: "string option"
  ntf_targetId :: string
  ntf_signerId :: "string option"
  ntf_type :: notification_type
  ntf_status :: "notification_status option"
  ntf_metadata :: "notification_metadata option"
  ntf_timestamp :: "string option"

text \<open>The entity is loaded with its DAO.\<close>

record notification = notification_dto +
  ntf_dao :: "dao option"

record account_notification =
  an_id :: string
  an_notificationId :: string
  an_notification :: notification
  an_accountId :: string
  an_isMuted :: bool
  an_isRead :: bool
  an_isPhone :: bool
  an_isEmail :: bool

section \<open>What an update is announced as\<close>

datatype proposal_update = PU_Dto proposal_dto | PU_Stored proposal

record notification_action =
  na_type :: notification_type
  na_status :: notification_status

text \<open>\<open>data.proposal.kind.kind || data.proposal.kind\<close>: the kinds have no field \<open>kind\<close>.\<close>

fun update_kind :: "proposal_update \<Rightarrow> exn + proposal_kind" where
  "update_kind (PU_Dto p) = Inr (pk_kind (pd_kind p))"
| "update_kind (PU_Stored p) =
     (case prp_kind p of None \<Rightarrow> Inl (TypeError ''kind'') | Some k \<Rightarrow> Inr k)"

fun update_status :: "proposal_update \<Rightarrow> proposal_status" where
  "update_status (PU_Dto p) = pd_status p"
| "update_status (PU_Stored p) = prp_status p"

fun update_proposal_id :: "proposal_update \<Rightarrow> string" where
  "update_proposal_id (PU_Dto p) = pd_id p"
| "update_proposal_id (PU_Stored p) = prp_id p"

fun update_daoId :: "proposal_update \<Rightarrow> string option" where
  "update_daoId (PU_Dto p) = Some (pd_daoId p)"
| "update_daoId (PU_Stored p) = prp_daoId p"

fun notified_proposal_of :: "proposal_update \<Rightarrow> proposal_kind \<Rightarrow> notified_proposal" where
  "notified_proposal_of (PU_Dto p) k =
     \<lparr> np_id = pd_id p, np_proposer = pd_proposer p, np_description = pd_description p,
       np_kind = k, np_votes = pd_votes p \<rparr>"
| "notified_proposal_of (PU_Stored p) k =
     \<lparr> np_id = prp_id p, np_proposer = prp_proposer p, np_description = prp_description p,
       np_kind = k, np_votes = prp_votes p \<rparr>"

fun kind_notification_type :: "proposal_type \<Rightarrow> notification_type option" where
  "kind_notification_type AddMemberToRole = Some NT_AddMemberToRole"
| "kind_notification_type RemoveMemberFromRole = Some NT_RemoveMemberFromRole"
| "kind_notification_type FunctionCall = Some NT_FunctionCall"
| "kind_notification_type Transfer = Some NT_Transfer"
| "kind_notification_type ChangePolicy = Some NT_ChangePolicy"
| "kind_notification_type ChangeConfig = Some NT_ChangeConfig"
| "kind_notification_type AddBounty = Some NT_AddBounty"
| "kind_notification_type BountyDone = Some NT_BountyDone"
| "kind_notification_type Vote = Some NT_Vote"
| "kind_notification_type UpgradeSelf = None"
| "kind_notification_type UpgradeRemote = None"
| "kind_notification_type SetStakingContract = None"

definition getProposalUpdateNotificationType :: "proposal_update \<Rightarrow> exn + notification_type option" where
  "getProposalUpdateNotificationType p =
     res_bind (update_kind p) (\<lambda>k. Inr (kind_notification_type (kind_type k)))"

text \<open>The status a vote is announced with; another action is compared with the statuses below.\<close>

definition vote_status :: "jsval \<Rightarrow> notification_status option" where
  "vote_status action =
     (if action = JStr ''VoteApprove'' then Some NS_VoteApprove
      else if action = JStr ''VoteReject'' then Some NS_VoteReject
      else if action = JStr ''VoteRemove'' then Some NS_VoteRemove
      else None)"

fun decided_status :: "proposal_status \<Rightarrow> notification_status option" where
  "decided_status Approved = Some NS_Approved"
| "decided_status Rejected = Some NS_Rejected"
| "decided_status Removed = Some NS_Removed"
| "decided_status _ = None"

definition getProposalUpdateNotificationAction ::
    "proposal_update \<Rightarrow> transaction_action \<Rightarrow> exn + notification_action option" where
  "getProposalUpdateNotificationAction p txAction =
     res_bind (getProposalUpdateNotificationType p) (\<lambda>found.
     case found of
       None \<Rightarrow> Inr None
     | Some type \<Rightarrow>
         if ta_methodName txAction = Some ''add_proposal''
         then Inr (Some \<lparr> na_type = type, na_status = NS_Created \<rparr>)
         else if ta_methodName txAction \<noteq> Some ''act_proposal'' then Inr None
         else if update_status p = InProgress then
           res_bind (js_get (ta_args txAction) ''action'') (\<lambda>action.
             Inr (map_option (\<lambda>st. \<lparr> na_type = type, na_status = st \<rparr>) (vote_status action)))
         else Inr (map_option (\<lambda>st. \<lparr> na_type = type, na_status = st \<rparr>) (decided_status (update_status p))))"

fun variant_type :: "dao_variant \<Rightarrow> notification_type" where
  "variant_type Club = NT_ClubDao"
| "variant_type Foundation = NT_FoundationDao"
| "variant_type Corporation = NT_CorporationDao"
| "variant_type Cooperative = NT_CooperativeDao"
| "variant_type Custom = NT_CustomDao"

definition getDaoUpdateNotificationAction ::
    "dao \<Rightarrow> transaction_action \<Rightarrow> exn + notification_action option" where
  "getDaoUpdateNotificationAction d txAction =
     (if ta_methodName txAction = Some ''create'' then
        res_bind (getDaoVariant d) (\<lambda>daoVariant.
          Inr (Some \<lparr> na_type = variant_type daoVariant, na_status = NS_Created \<rparr>))
      else Inr None)"

definition castDaoUpdateNotification ::
    "dao \<Rightarrow> transaction_action \<Rightarrow> notification_action \<Rightarrow> notification_dto" where
  "castDaoUpdateNotification d txAction action =
     \<lparr> ntf_id = buildNotificationId (notification_type_str (na_type action)) (ta_transactionHash txAction),
       ntf_daoId = Some (dao_id d), ntf_targetId = dao_id d, ntf_signerId = Some (ta_signerId txAction),
       ntf_type = na_type action, ntf_status = Some (na_status action),
       ntf_metadata = Some \<lparr> nm_methodName = ta_methodName txAction, nm_args = ta_args txAction,
                             nm_proposal = None \<rparr>,
       ntf_timestamp = Some (ta_timestamp txAction) \<rparr>"

definition castProposalUpdateNotification ::
    "proposal_update \<Rightarrow> transaction_action \<Rightarrow> notification_action \<Rightarrow> exn + notification_dto" where
  "castProposalUpdateNotification p txAction action =
     res_bind (update_kind p) (\<lambda>proposalKind. Inr
     \<lparr> ntf_id = buildNotificationId (notification_type_str (na_type action)) (ta_transactionHash txAction),
       ntf_daoId = update_daoId p, ntf_targetId = update_proposal_id p,
       ntf_signerId = Some (ta_signerId txAction), ntf_type = na_type action,
       ntf_status = Some (na_status action),
       ntf_metadata = Some \<lparr> nm_methodName = ta_methodName txAction, nm_args = ta_args txAction,
                             nm_proposal = Some (notified_proposal_of p proposalKind) \<rparr>,
       ntf_timestamp = Some (ta_timestamp txAction) \<rparr>)"

definition castAccountNotification ::
    "string \<Rightarrow> notification \<Rightarrow> bool \<Rightarrow> bool \<Rightarrow> bool \<Rightarrow> account_notification" where
  "castAccountNotification accountId n isDisabled isPhone isEmail =
     \<lparr> an_id = buildAccountNotificationId accountId (ntf_id n), an_notificationId = ntf_id n,
       an_notification = n, an_accountId = accountId, an_isMuted = isDisabled, an_isRead = isDisabled,
       an_isPhone = isPhone, an_isEmail = isEmail \<rparr>"

section \<open>Texts\<close>

definition is_dao_notification :: "notification_type \<Rightarrow> bool" where
  "is_dao_notification type \<longleftrightarrow>
     type \<in> {NT_CustomDao, NT_ClubDao, NT_FoundationDao, NT_CorporationDao, NT_CooperativeDao}"

text \<open>\<open>metadata?.proposal\<close>.\<close>

definition notified :: "'b notification_dto_scheme \<Rightarrow> notified_proposal option" where
  "notified n = Option.bind (ntf_metadata n) nm_proposal"

definition proposer_id :: "'b notification_dto_scheme \<Rightarrow> string" where
  "proposer_id n =
     (case ntf_signerId n of Some i \<Rightarrow> i
      | None \<Rightarrow> (case notified n of Some p \<Rightarrow> np_proposer p | None \<Rightarrow> []))"

text \<open>A nullable column, as a value and in a template literal.\<close>

definition column_value :: "string option \<Rightarrow> jsval" where
  "column_value v = (case v of Some s \<Rightarrow> JStr s | None \<Rightarrow> JNull)"

definition column_str :: "string option \<Rightarrow> string" where
  "column_str v = (case v of Some s \<Rightarrow> s | None \<Rightarrow> ''null'')"

definition getNotificationMessage :: "notification \<Rightarrow> string" where
  "getNotificationMessage n =
     (let daoId = column_str (ntf_daoId n); signerId = column_str (ntf_signerId n);
          proposerId = proposer_id n;
          named = ''\"'' @ notification_type_str (ntf_type n) @ ''\" proposal'';
          place = '' in the '' @ daoId @ '' DAO'';
          voted = (\<lambda>verb. signerId @ '''s voted to '' @ verb @ '' '' @ proposerId @ '''s '' @ named @ place)
      in if is_dao_notification (ntf_type n)
         then ''New DAO \"'' @ daoId @ ''\" has been successfully created by '' @ signerId
         else (case ntf_status n of
           Some NS_Created \<Rightarrow> proposerId @ '' submitted new '' @ named @ place
         | Some NS_Rejected \<Rightarrow> proposerId @ '''s '' @ named @ '' was rejected'' @ place
         | Some NS_Approved \<Rightarrow> proposerId @ '''s '' @ named @ '' was approved'' @ place
         | Some NS_Removed \<Rightarrow> proposerId @ '''s '' @ named @ '' was removed'' @ place
         | Some NS_VoteApprove \<Rightarrow> voted ''approve''
         | Some NS_VoteReject \<Rightarrow> voted ''reject''
         | Some NS_VoteRemove \<Rightarrow> voted ''remove''
         | None \<Rightarrow> ''Proposal updated'' @ place))"

datatype notifi_template =
    TP_Verification | TP_DaoCreated | TP_ProposalSubmitted | TP_ProposalAction | TP_Voted | TP_ProposalUpdated

record template_message =
  tp_emailTemplate :: "notifi_template option"
  tp_smsTemplate :: "notifi_template option"
  tp_variables :: "(string \<times> jsval) list"

text \<open>\<open>dao?.metadata?.displayName || dao?.config?.name || daoId\<close>.\<close>

definition dao_name :: "notification \<Rightarrow> jsval" where
  "dao_name n =
     (let displayName = (case ntf_dao n of None \<Rightarrow> JUndef | Some d \<Rightarrow> js_get_opt (dao_metadata d) ''displayName'');
          name = (case Option.bind (ntf_dao n) dao_config of None \<Rightarrow> [] | Some c \<Rightarrow> cfg_name c)
      in if truthy displayName then displayName
         else if name \<noteq> [] then JStr name
         else column_value (ntf_daoId n))"

fun vote_action :: "notification_status \<Rightarrow> string" where
  "vote_action NS_VoteApprove = ''approve''"
| "vote_action NS_VoteReject = ''reject''"
| "vote_action NS_VoteRemove = ''remove''"
| "vote_action st = to_lower (notification_status_str st)"

text \<open>The template and the last variable a status is sent with.\<close>

fun status_template :: "notification_status \<Rightarrow> notifi_template \<times> (string \<times> jsval) list" where
  "status_template NS_Created = (TP_ProposalSubmitted, [])"
| "status_template NS_Rejected = (TP_ProposalAction, [(''action'', JStr (vote_action NS_Rejected))])"
| "status_template NS_Approved = (TP_ProposalAction, [(''action'', JStr (vote_action NS_Approved))])"
| "status_template NS_Removed = (TP_ProposalAction, [(''action'', JStr (vote_action NS_Removed))])"
| "status_template NS_VoteApprove = (TP_Voted, [(''action'', JStr (vote_action NS_VoteApprove))])"
| "status_template NS_VoteReject = (TP_Voted, [(''action'', JStr (vote_action NS_VoteReject))])"
| "status_template NS_VoteRemove = (TP_Voted, [(''action'', JStr (vote_action NS_VoteRemove))])"

definition getNotificationTemplate :: "string \<Rightarrow> notification \<Rightarrow> exn + template_message" where
  "getNotificationTemplate frontendUrl n =
     (let daoUrl = (''daoUrl'', JStr (frontendUrl @ ''/dao/'' @ column_str (ntf_daoId n)));
          daoName = (''dao'', dao_name n);
          signer = (''signerId'', column_value (ntf_signerId n));
          message = (\<lambda>template variables. Inr \<lparr> tp_emailTemplate = Some template,
             tp_smsTemplate = Some template, tp_variables = variables \<rparr>)
      in if is_dao_notification (ntf_type n) then message TP_DaoCreated [daoUrl, daoName, signer]
         else (case ntf_status n of
           None \<Rightarrow> message TP_ProposalUpdated [daoUrl, daoName]
         | Some status \<Rightarrow>
             (case notified n of
                None \<Rightarrow> Inl (TypeError ''id'')
              | Some p \<Rightarrow>
                  message (fst (status_template status))
                    ([daoUrl,
                      (''proposalUrl'', JStr (frontendUrl @ ''/dao/'' @ column_str (ntf_daoId n)
                         @ ''/proposals/'' @ np_id p)),
                      daoName, signer, (''proposerId'', JStr (proposer_id n)),
                      (''description'', JStr (filterProposalDesc (Some (np_description p)))),
                      (''type'', JStr (notification_type_str (ntf_type n)))]
                     @ snd (status_template status)))))"

end
