(* ===== verification/Store_Loops.thy ===== *)
theory Store_Loops
  imports Store_Logic Utils
begin

text \<open>
  Loops of the effectful code over stores: \<open>op_each\<close> is a \<open>for\<close> loop that awaits its body, \<open>op_all\<close>
  is \<open>Promise.all\<close> over requests that do not depend on each other, run one after the other, and
  \<open>in_chunks\<close> a batch operation of \<open>DynamodbService\<close>, which sends its items in requests of 25.
\<close>

section \<open>Definitions\<close>

fun op_each :: "('a \<Rightarrow> ('s, unit) op) \<Rightarrow> 'a list \<Rightarrow> ('s, unit) op" where
  "op_each f [] = op_ret ()"
| "op_each f (x # xs) = op_then (f x) (op_each f xs)"

text \<open>Every computation runs, also after a rejection; the first rejection is the result.\<close>

fun op_all :: "('a \<Rightarrow> ('s, 'b) op) \<Rightarrow> 'a list \<Rightarrow> ('s, 'b list) op" where
  "op_all f [] = op_ret []"
| "op_all f (x # xs) = (\<lambda>s. case f x s of (r, s') \<Rightarrow> (case op_all f xs s' of (rs, s'') \<Rightarrow>
     (res_bind r (\<lambda>y. res_bind rs (\<lambda>ys. Inr (y # ys))), s'')))"

definition in_chunks :: "('a list \<Rightarrow> ('s, unit) op) \<Rightarrow> 'a list \<Rightarrow> ('s, unit) op" where
  "in_chunks f xs = op_then (op_all f (chunks_of 25 xs)) (op_ret ())"

text \<open>
  \<open>saveItem\<close>: the item is inserted; if there is one already, its attributes are updated by a second
  request, which is refused when the item has gone in between.
\<close>

definition save_item ::
    "('b store_scheme \<Rightarrow> 'x option) \<Rightarrow> ('b store_scheme \<Rightarrow> 'b store_scheme) \<Rightarrow>
     ('x \<Rightarrow> 'b store_scheme \<Rightarrow> 'b store_scheme) \<Rightarrow> ('b store_scheme, unit) op" where
  "save_item look insert_it update_it =
     op_bind (access (\<lambda>s. if look s = None then (Inr True, insert_it s) else (Inr False, s))) (\<lambda>created.
     op_when (\<not> created) (access (\<lambda>s. case look s of
         None \<Rightarrow> (Inl (Rejection ''ConditionalCheckFailedException''), s)
       | Some y \<Rightarrow> (Inr (), update_it y s))))"

text \<open>\<open>updateItem\<close>, which is refused when there is no item.\<close>

definition update_item ::
    "('b store_scheme \<Rightarrow> 'x option) \<Rightarrow> ('x \<Rightarrow> 'b store_scheme \<Rightarrow> 'b store_scheme) \<Rightarrow>
     ('b store_scheme, unit) op" where
  "update_item look update_it = access (\<lambda>s. case look s of
       None \<Rightarrow> (Inl (Rejection ''ConditionalCheckFailedException''), s)
     | Some y \<Rightarrow> (Inr (), update_it y s))"

text \<open>\<open>getItemByType\<close>: a failed request counts as a missing item.\<close>

definition get_item :: "('b store_scheme \<Rightarrow> 'x option) \<Rightarrow> ('b store_scheme, 'x option) op" where
  "get_item look = op_try (access (op_get look)) (\<lambda>e. op_ret None)"

section \<open>Rules\<close>

lemma op_get_iff: "op_get g s = (r, t) \<longleftrightarrow> r = Inr (g s) \<and> t = s"
  by (auto simp: run_op)

lemma op_now_iff: "op_now s = (r, t) \<longleftrightarrow> r = Inr (st_now s (st_tick s)) \<and> t = s"
  by (auto simp: run_op)

lemma op_put_iff: "op_put f s = (r, t) \<longleftrightarrow> r = Inr () \<and> t = f s"
  by (auto simp: run_op)

lemmas all_iffs = op_iffs op_get_iff op_now_iff op_put_iff

lemma calm_saveItem:
  assumes "calm s" and "look (tick s) = look s" and "look (tick (tick s)) = look s"
  shows "save_item look ins upd s =
     (case look s of None \<Rightarrow> (Inr (), ins (tick s)) | Some y \<Rightarrow> (Inr (), upd y (tick (tick s))))"
  using assms by (cases "look s") (simp_all add: save_item_def run_op run_access)

lemma calm_updateItem:
  assumes "calm s" and "look (tick s) = look s"
  shows "update_item look upd s =
     (case look s of None \<Rightarrow> (Inl (Rejection ''ConditionalCheckFailedException''), tick s)
      | Some y \<Rightarrow> (Inr (), upd y (tick s)))"
  using assms by (cases "look s") (simp_all add: update_item_def run_access)

lemma calm_getItem: "calm s \<Longrightarrow> look (tick s) = look s \<Longrightarrow> get_item look s = (Inr (look s), tick s)"
  by (simp add: get_item_def run_op run_access)

lemma triple_each:
  assumes "\<And>x. x \<in> set xs \<Longrightarrow> triple P (f x) (\<lambda>_. P) E" and "\<And>s. P s \<Longrightarrow> Q s"
  shows "triple P (op_each f xs) (\<lambda>_. Q) E"
  using assms
proof (induction xs)
  case Nil
  then show ?case by (auto intro: triple_ret)
next
  case (Cons x xs)
  then show ?case by (auto intro!: triple_then [where Q = P])
qed

text \<open>A condition that every computation keeps, however it ends, holds at the end.\<close>

lemma triple_all:
  assumes "\<And>x. x \<in> set xs \<Longrightarrow> triple P (f x) (\<lambda>_. P) P"
  shows "triple P (op_all f xs) (\<lambda>_. P) P"
  using assms
proof (induction xs)
  case Nil
  then show ?case by (auto intro: triple_ret)
next
  case (Cons x xs)
  have "P (snd (op_all f (x # xs) s))" if P: "P s" for s
  proof -
    obtain r t where fx: "f x s = (r, t)" by fastforce
    have "P t" using triple_end [OF Cons.prems [of x] P] fx by simp
    then have "P (snd (op_all f xs t))" using triple_end [OF Cons.IH] Cons.prems by simp
    then show ?thesis using fx by (cases "op_all f xs t") simp
  qed
  then show ?case by (intro tripleI) (metis snd_conv)+
qed

lemma triple_chunks:
  assumes "\<And>ys. triple P (f ys) (\<lambda>_. P) P"
  shows "triple P (in_chunks f xs) (\<lambda>_. P) P"
  unfolding in_chunks_def by (intro triple_then [where Q = P] triple_all assms triple_ret) assumption

context state_relation
begin

lemma stays_each: "(\<And>x. x \<in> set xs \<Longrightarrow> stays (f x)) \<Longrightarrow> stays (op_each f xs)"
  by (induction xs) (auto intro: stays_ret stays_then)

lemma stays_all:
  assumes "\<And>x. x \<in> set xs \<Longrightarrow> stays (f x)"
  shows "stays (op_all f xs)"
  using assms
proof (induction xs)
  case (Cons x xs)
  have "R s (snd (op_all f (x # xs) s))" for s
  proof -
    obtain r t where fx: "f x s = (r, t)" by fastforce
    obtain rs u where fxs: "op_all f xs t = (rs, u)" by fastforce
    have "R s u"
      using R_trans [OF staysD [OF Cons.prems fx] staysD [OF Cons.IH fxs]] Cons.prems by simp
    then show ?thesis using fx fxs by simp
  qed
  then show ?case by (simp add: stays_def)
qed (simp add: stays_ret)

lemma stays_chunks: "(\<And>ys. stays (f ys)) \<Longrightarrow> stays (in_chunks f xs)"
  unfolding in_chunks_def by (intro stays_then stays_all stays_ret)

lemma stays_items:
  "stays (get_item look)"
  "(\<And>s. look s = None \<Longrightarrow> R s (ins s)) \<Longrightarrow> (\<And>y s. look s = Some y \<Longrightarrow> R s (upd y s)) \<Longrightarrow>
     stays (save_item look ins upd)"
  "(\<And>y s. look s = Some y \<Longrightarrow> R s (upd y s)) \<Longrightarrow> stays (update_item look upd)"
  unfolding get_item_def save_item_def update_item_def
  by (intro stays_intros; simp add: stays_def R_refl split: option.split)+

end

lemma op_each_append: "op_each f (xs @ ys) = op_then (op_each f xs) (op_each f ys)"
  by (induction xs)
    (auto simp: fun_eq_iff run_op op_then_def op_bind_def split: prod.splits sum.splits)

lemma op_each_snoc_Inr:
  "op_each f (xs @ [x]) s = (Inr u, t) \<longleftrightarrow> (\<exists>s'. op_each f xs s = (Inr (), s') \<and> f x s' = (Inr u, t))"
  unfolding op_each_append by (auto simp: op_iffs)

end
