(* ===== verification/Accounts.thy ===== *)
theory Accounts
  imports Notification_Data Store_Loops
begin

text \<open>
  \<open>libs/account\<close>, \<open>libs/otp\<close> and \<open>libs/notifi-client\<close>: the e-mail and phone of an account, their
  verification with one-time codes, and the client of the Notifi service that delivers messages.

  An account and a code are stored twice, in DynamoDB first and then in the relational database; a
  feature flag says which of the two is read. The state holds both stores, the client's token and
  the requests Notifi has received; the answers of Notifi, \<open>Math.random\<close> and bcrypt are functions
  the state carries.
\<close>

section \<open>Data\<close>

text \<open>A column of a partial entity: missing, \<open>null\<close>, or a value.\<close>

datatype 'a field = Undefined | Null | Val 'a

definition overlay :: "'a field \<Rightarrow> 'a field \<Rightarrow> 'a field" where
  "overlay new old = (if new = Undefined then old else new)"

text \<open>The columns of \<open>Account\<close>, of \<open>AccountDto\<close> and of the attributes of \<open>AccountModel\<close>.\<close>

record account =
  ac_accountId :: "string field"
  ac_email :: "string field"
  ac_isEmailVerified :: "bool field"
  ac_phoneNumber :: "string field"
  ac_isPhoneVerified :: "bool field"
  ac_notifiUserId :: "string field"
  ac_notifiAlertId :: "string field"

record account_item = account +
  ai_isArchived :: bool
  ai_createdAt :: int
  ai_updatedAt :: int

definition no_columns :: account where
  "no_columns = \<lparr> ac_accountId = Undefined, ac_email = Undefined, ac_isEmailVerified = Undefined,
     ac_phoneNumber = Undefined, ac_isPhoneVerified = Undefined, ac_notifiUserId = Undefined,
     ac_notifiAlertId = Undefined \<rparr>"

definition mapAccountToAccountDto :: "'b account_scheme \<Rightarrow> account" where
  "mapAccountToAccountDto a =
     \<lparr> ac_accountId = ac_accountId a, ac_email = ac_email a, ac_isEmailVerified = ac_isEmailVerified a,
       ac_phoneNumber = ac_phoneNumber a, ac_isPhoneVerified = ac_isPhoneVerified a,
       ac_notifiUserId = ac_notifiUserId a, ac_notifiAlertId = ac_notifiAlertId a \<rparr>"

definition mapAccountDtoToAccountModel :: "int \<Rightarrow> account \<Rightarrow> account_item" where
  "mapAccountDtoToAccountModel now a =
     account.extend a \<lparr> ai_isArchived = False, ai_createdAt = now, ai_updatedAt = now \<rparr>"

definition overlay_columns :: "'b account_scheme \<Rightarrow> 'b account_scheme \<Rightarrow> 'b account_scheme" where
  "overlay_columns new old =
     new\<lparr> ac_accountId := overlay (ac_accountId new) (ac_accountId old),
          ac_email := overlay (ac_email new) (ac_email old),
          ac_isEmailVerified := overlay (ac_isEmailVerified new) (ac_isEmailVerified old),
          ac_phoneNumber := overlay (ac_phoneNumber new) (ac_phoneNumber old),
          ac_isPhoneVerified := overlay (ac_isPhoneVerified new) (ac_isPhoneVerified old),
          ac_notifiUserId := overlay (ac_notifiUserId new) (ac_notifiUserId old),
          ac_notifiAlertId := overlay (ac_notifiAlertId new) (ac_notifiAlertId old) \<rparr>"

text \<open>A new row has \<open>NULL\<close> in the columns that were not given.\<close>

definition empty_row :: account where
  "empty_row = \<lparr> ac_accountId = Null, ac_email = Null, ac_isEmailVerified = Null, ac_phoneNumber = Null,
     ac_isPhoneVerified = Null, ac_notifiUserId = Null, ac_notifiAlertId = Null \<rparr>"

fun filled :: "string field \<Rightarrow> bool" where
  "filled (Val s) \<longleftrightarrow> s \<noteq> []"
| "filled _ \<longleftrightarrow> False"

fun text_of :: "string field \<Rightarrow> string" where
  "text_of (Val s) = s"
| "text_of _ = []"

text \<open>Whether a flag counts as true.\<close>

definition holds :: "bool field \<Rightarrow> bool" where
  "holds v \<longleftrightarrow> v = Val True"

record otp =
  ot_key :: string
  ot_hash :: string
  ot_createdAt :: int
  ot_ttl :: int

record otp_item = otp +
  oi_isArchived :: bool
  oi_updatedAt :: int

record account_response =
  ar_accountId :: "string field"
  ar_email :: "string field"
  ar_isEmailVerified :: "bool field"
  ar_phoneNumber :: "string field"
  ar_isPhoneVerified :: "bool field"

definition castAccountResponse :: "string \<Rightarrow> account option \<Rightarrow> account_response" where
  "castAccountResponse accountId account =
     (case account of
        None \<Rightarrow> \<lparr> ar_accountId = Val accountId, ar_email = Null, ar_isEmailVerified = Null,
                  ar_phoneNumber = Null, ar_isPhoneVerified = Null \<rparr>
      | Some a \<Rightarrow> \<lparr> ar_accountId = ac_accountId a, ar_email = ac_email a,
                    ar_isEmailVerified = ac_isEmailVerified a, ar_phoneNumber = ac_phoneNumber a,
                    ar_isPhoneVerified = ac_isPhoneVerified a \<rparr>)"

record verification_status =
  vs_isVerified :: bool
  vs_isSend :: "bool option"
  vs_createdAt :: "int option"
  vs_ttl :: "int option"

section \<open>The state\<close>

text \<open>The requests to Notifi, with the token they carry.\<close>

datatype notifi_call =
    NC_LogIn
  | NC_CreateUser string string
  | NC_CreateAlert string "string field" "string list option" "string list option"
  | NC_DeleteAlert string string
  | NC_Push string string string template_message

text \<open>
  \<open>as_flags\<close> are the feature flags at a moment, \<open>as_page\<close> says which of the items a query reaches
  with its one page. \<open>as_tokenExpiry\<close> is \<open>None\<close> for a date that cannot be read.
\<close>

record account_store = store +
  as_accounts :: "string \<Rightarrow> account option"
  as_items :: "string \<Rightarrow> account_item option"
  as_otps :: "string \<Rightarrow> otp option"
  as_otpItems :: "(string \<times> otp_item) list"
  as_flags :: "nat \<Rightarrow> string \<Rightarrow> bool"
  as_page :: "nat \<Rightarrow> string \<Rightarrow> bool"
  as_notifi :: "notifi_call list"
  as_token :: string
  as_tokenExpiry :: "int option"
  as_login :: "nat \<Rightarrow> string \<times> int option"
  as_userId :: "nat \<Rightarrow> string"
  as_alertId :: "nat \<Rightarrow> string"
  as_random :: "nat \<Rightarrow> nat \<Rightarrow> rat"
  as_hash :: "nat \<Rightarrow> string \<Rightarrow> string"
  as_compare :: "string \<Rightarrow> string \<Rightarrow> bool"
  as_prefix :: string

definition OTP_TTL :: int where
  "OTP_TTL = 900"

definition flag_on :: "string \<Rightarrow> ('b account_store_scheme, bool) op" where
  "flag_on flag = access (op_get (\<lambda>s. as_flags s (st_tick s) flag))"

definition notifications_useDynamo :: "('b account_store_scheme, bool) op" where
  "notifications_useDynamo = flag_on ''notification-dynamo''"

section \<open>NotifiClientService\<close>

definition notifi_request :: "(nat \<Rightarrow> 'b account_store_scheme \<Rightarrow> 'a) \<Rightarrow> notifi_call \<Rightarrow> ('b account_store_scheme, 'a) op"
  where
  "notifi_request answer c =
     access (\<lambda>s. (Inr (answer (st_tick s) s), s\<lparr>as_notifi := as_notifi s @ [c]\<rparr>))"

definition logIn :: "('b account_store_scheme, string \<times> int option) op" where
  "logIn = notifi_request (\<lambda>n s. as_login s n) NC_LogIn"

definition getToken :: "('b account_store_scheme, string) op" where
  "getToken =
     op_bind op_now (\<lambda>now.
     op_bind (op_get as_tokenExpiry) (\<lambda>tokenExpiry.
     if (case tokenExpiry of None \<Rightarrow> False | Some e \<Rightarrow> e < now) then
       op_bind logIn (\<lambda>(token, expiry).
       op_then (op_put (\<lambda>s. s\<lparr>as_token := token, as_tokenExpiry := expiry\<rparr>))
               (op_ret token))
     else op_get as_token))"

definition buildNotifiAccountId :: "'b account_store_scheme \<Rightarrow> string \<Rightarrow> string" where
  "buildNotifiAccountId s accountId = as_prefix s @ ''-'' @ accountId"

definition createUser :: "string \<Rightarrow> ('b account_store_scheme, string) op" where
  "createUser accountId =
     op_bind getToken (\<lambda>jwt.
     op_bind (op_get (\<lambda>s. buildNotifiAccountId s accountId)) (\<lambda>walletPublicKey.
     notifi_request (\<lambda>n s. as_userId s n) (NC_CreateUser jwt walletPublicKey)))"

definition createAlert ::
    "string field \<Rightarrow> string field \<Rightarrow> string field \<Rightarrow> ('b account_store_scheme, string) op" where
  "createAlert accountNotifiId email phone =
     op_bind getToken (\<lambda>jwt.
     notifi_request (\<lambda>n s. as_alertId s n) (NC_CreateAlert jwt accountNotifiId
       (if filled email then Some [to_lower (text_of email)] else None)
       (if filled phone then Some [text_of phone] else None)))"

definition deleteAlert :: "string \<Rightarrow> ('b account_store_scheme, unit) op" where
  "deleteAlert alertId =
     op_bind getToken (\<lambda>jwt. notifi_request (\<lambda>n s. ()) (NC_DeleteAlert jwt alertId))"

definition sendTemplateMessage ::
    "string \<Rightarrow> string \<Rightarrow> template_message \<Rightarrow> ('b account_store_scheme, unit) op" where
  "sendTemplateMessage accountId key template =
     op_bind getToken (\<lambda>jwt.
     op_bind (op_get (\<lambda>s. buildNotifiAccountId s accountId)) (\<lambda>walletPublicKey.
     notifi_request (\<lambda>n s. ()) (NC_Push jwt (accountId @ '':'' @ key) walletPublicKey template)))"

section \<open>OtpService\<close>

definition buildKey :: "string \<Rightarrow> string" where
  "buildKey key = ''otp:'' @ key"

text \<open>\<open>digits[Math.floor(Math.random() * digits.length)]\<close>, and \<open>undefined\<close> past the end.\<close>

definition random_digit :: "rat \<Rightarrow> string" where
  "random_digit r =
     (let index = floor (r * 10) in
      if 0 \<le> index \<and> index < 10 then [digit_char (nat index)] else ''undefined'')"

definition generateOtp :: "(nat \<Rightarrow> rat) \<Rightarrow> nat \<Rightarrow> string" where
  "generateOtp random otpLength = concat (map (\<lambda>i. random_digit (random i)) [1..<Suc otpLength])"

text \<open>\<open>Math.round(ms / 1000)\<close>.\<close>

definition round_seconds :: "int \<Rightarrow> int" where
  "round_seconds ms = (ms + 500) div 1000"

definition mapOtpToOtpModel :: "int \<Rightarrow> otp \<Rightarrow> otp_item" where
  "mapOtpToOtpModel now o1 = otp.extend o1 \<lparr> oi_isArchived = False, oi_updatedAt = now \<rparr>"

definition put_otp_item :: "otp_item \<Rightarrow> 'b account_store_scheme \<Rightarrow> 'b account_store_scheme" where
  "put_otp_item x s =
     s\<lparr>as_otpItems := (ot_key x, x) # filter (\<lambda>(k, y). k \<noteq> ot_key x) (as_otpItems s)\<rparr>"

text \<open>
  \<open>saveItem\<close>: an insertion that is refused when the item exists is followed by an update of its
  attributes. A code's item gives every attribute.
\<close>

definition save_otp_item :: "otp_item \<Rightarrow> ('b account_store_scheme, unit) op" where
  "save_otp_item x =
     op_bind (access (\<lambda>s. if map_of (as_otpItems s) (ot_key x) = None then (Inr True, put_otp_item x s)
                          else (Inr False, s))) (\<lambda>created.
     op_when (\<not> created) (access (op_put (put_otp_item x))))"

definition save_otp :: "otp \<Rightarrow> ('b account_store_scheme, unit) op" where
  "save_otp o1 = access (op_put (\<lambda>s. s\<lparr>as_otps := (as_otps s)(ot_key o1 \<mapsto> o1)\<rparr>))"

definition hash_otp :: "string \<Rightarrow> ('b account_store_scheme, string) op" where
  "hash_otp code = access (op_get (\<lambda>s. as_hash s (st_tick s) code))"

definition createOtp :: "string \<Rightarrow> ('b account_store_scheme, string) op" where
  "createOtp key =
     op_bind (op_get (\<lambda>s. generateOtp (as_random s (st_tick s)) 6)) (\<lambda>code.
     op_bind (hash_otp code) (\<lambda>hash.
     op_bind op_now (\<lambda>createdAt.
     let entity = \<lparr> ot_key = buildKey key, ot_hash = hash, ot_createdAt = createdAt,
                    ot_ttl = round_seconds createdAt + OTP_TTL \<rparr>
     in op_then (save_otp_item (mapOtpToOtpModel createdAt entity))
       (op_then (save_otp entity)
                (op_ret code)))))"

text \<open>A code is found while it is less than \<open>OTP_TTL\<close> seconds old.\<close>

definition fresh :: "int \<Rightarrow> 'b otp_scheme \<Rightarrow> bool" where
  "fresh expireTime o1 \<longleftrightarrow> ot_createdAt o1 > expireTime"

definition getOtp :: "string \<Rightarrow> ('b account_store_scheme, otp option) op" where
  "getOtp key =
     op_bind op_now (\<lambda>now.
     let i = buildKey key; expireTime = now - OTP_TTL * 1000
     in op_bind notifications_useDynamo (\<lambda>dynamo.
        if dynamo then
          op_bind (op_try (access (op_get (\<lambda>s. map_of (as_otpItems s) i))) (\<lambda>e. op_ret None)) (\<lambda>found.
          op_ret (case found of None \<Rightarrow> None
                  | Some x \<Rightarrow> if fresh expireTime x then Some (otp.truncate x) else None))
        else access (op_get (\<lambda>s. case as_otps s i of None \<Rightarrow> None
                  | Some o1 \<Rightarrow> if fresh expireTime o1 then Some o1 else None))))"

definition verifyOtp :: "string \<Rightarrow> string \<Rightarrow> ('b account_store_scheme, bool) op" where
  "verifyOtp key otpToVerify =
     op_bind (getOtp key) (\<lambda>found.
     case found of None \<Rightarrow> op_ret False
     | Some o1 \<Rightarrow> access (op_get (\<lambda>s. as_compare s otpToVerify (ot_hash o1))))"

definition deleteExpired :: "('b account_store_scheme, unit) op" where
  "deleteExpired =
     op_bind op_now (\<lambda>now.
     let expireTime = now - OTP_TTL * 1000
     in op_bind (access (op_get (\<lambda>s. filter (\<lambda>(k, x). as_page s (st_tick s) k \<and> ot_createdAt x < expireTime)
            (as_otpItems s)))) (\<lambda>expiredOtps.
        op_then (in_chunks (\<lambda>keys. access (op_put (\<lambda>s. s\<lparr>as_otpItems :=
              filter (\<lambda>(k, x). k \<notin> set keys) (as_otpItems s)\<rparr>))) (map fst expiredOtps))
          (access (op_put (\<lambda>s. s\<lparr>as_otps := (\<lambda>k. case as_otps s k of None \<Rightarrow> None
              | Some o1 \<Rightarrow> if ot_createdAt o1 < expireTime then None else Some o1)\<rparr>)))))"


section \<open>AccountService: the stores\<close>

definition put_account_item :: "string \<Rightarrow> account_item \<Rightarrow> 'b account_store_scheme \<Rightarrow> 'b account_store_scheme" where
  "put_account_item i x s = s\<lparr>as_items := (as_items s)(i \<mapsto> x)\<rparr>"

definition put_account :: "string \<Rightarrow> account \<Rightarrow> 'b account_store_scheme \<Rightarrow> 'b account_store_scheme" where
  "put_account i a s = s\<lparr>as_accounts := (as_accounts s)(i \<mapsto> a)\<rparr>"

text \<open>
  An item is inserted, or its attributes that are given are updated; a model without an id has no
  key, and the table refuses it.
\<close>

definition no_key :: exn where
  "no_key = Rejection ''accountId''"

definition save_account_item :: "account_item \<Rightarrow> ('b account_store_scheme, unit) op" where
  "save_account_item x =
     (case ac_accountId x of
        Val i \<Rightarrow>
          op_bind (access (\<lambda>s. if as_items s i = None then (Inr True, put_account_item i x s)
                               else (Inr False, s))) (\<lambda>created.
          op_when (\<not> created) (access (\<lambda>s. case as_items s i of
              None \<Rightarrow> (Inl (Rejection ''ConditionalCheckFailedException''), s)
            | Some y \<Rightarrow> (Inr (), put_account_item i (overlay_columns x y) s))))
      | _ \<Rightarrow> access (op_fail no_key))"

definition save_account_row :: "account \<Rightarrow> ('b account_store_scheme, account) op" where
  "save_account_row a =
     (case ac_accountId a of
        Val i \<Rightarrow> access (\<lambda>s. (Inr a, put_account i
          (overlay_columns a (case as_accounts s i of None \<Rightarrow> empty_row | Some b \<Rightarrow> b)) s))
      | _ \<Rightarrow> access (op_fail no_key))"

definition find_account :: "string \<Rightarrow> ('b account_store_scheme, account option) op" where
  "find_account i = access (op_get (\<lambda>s. as_accounts s i))"

definition get_account_item :: "string \<Rightarrow> ('b account_store_scheme, account_item option) op" where
  "get_account_item i = op_try (access (op_get (\<lambda>s. as_items s i))) (\<lambda>e. op_ret None)"

text \<open>\<open>AccountService.create\<close>.\<close>

definition account_create :: "account \<Rightarrow> ('b account_store_scheme, account) op" where
  "account_create addAccountDto =
     op_bind op_now (\<lambda>now.
     op_then (save_account_item (mapAccountDtoToAccountModel now addAccountDto))
             (save_account_row addAccountDto))"

definition account_remove :: "string \<Rightarrow> ('b account_store_scheme, unit) op" where
  "account_remove accountId =
     op_bind (access (\<lambda>s. (Inr (as_accounts s accountId \<noteq> None),
        s\<lparr>as_accounts := (as_accounts s)(accountId := None)\<rparr>))) (\<lambda>affected.
     if affected then op_ret ()
     else op_fail (HttpError 404 (''Account with accountId '' @ accountId @ '' not found'')))"

definition account_findById :: "string \<Rightarrow> ('b account_store_scheme, account option) op" where
  "account_findById accountId =
     op_bind notifications_useDynamo (\<lambda>dynamo.
     if dynamo then op_bind (get_account_item accountId) (\<lambda>x. op_ret (map_option account.truncate x))
     else find_account accountId)"

definition getAccount :: "string \<Rightarrow> ('b account_store_scheme, account_response) op" where
  "getAccount accountId =
     op_bind (account_findById accountId) (\<lambda>account.
     op_ret (castAccountResponse accountId account))"

section \<open>AccountService: alerts\<close>

definition createNotifiAlert :: "string \<Rightarrow> ('b account_store_scheme, account) op" where
  "createNotifiAlert accountId =
     op_bind (find_account accountId) (\<lambda>found.
     op_bind (case found of
         Some account \<Rightarrow>
           if filled (ac_notifiUserId account) then op_ret account
           else op_bind (createUser accountId) (\<lambda>notifiUserId.
             account_create (mapAccountToAccountDto (account\<lparr>ac_notifiUserId := Val notifiUserId\<rparr>)))
       | None \<Rightarrow> op_bind (createUser accountId) (\<lambda>notifiUserId.
             account_create (mapAccountToAccountDto (no_columns\<lparr>ac_notifiUserId := Val notifiUserId\<rparr>))))
       (\<lambda>account.
     op_then (if filled (ac_notifiAlertId account) then
         op_then (deleteAlert (text_of (ac_notifiAlertId account)))
           (op_bind (account_create (mapAccountToAccountDto (account\<lparr>ac_notifiAlertId := Val []\<rparr>)))
             (\<lambda>_. op_ret ()))
       else op_ret ())
    (op_bind (createAlert (ac_notifiUserId account) (ac_email account) (ac_phoneNumber account))
       (\<lambda>notifiAlertId.
     account_create (mapAccountToAccountDto (account\<lparr>ac_notifiAlertId := Val notifiAlertId\<rparr>))))))"

text \<open>
  The body of the request is spread into what is saved, and the \<open>ValidationPipe\<close> of the API has no
  \<open>whitelist\<close>, so that it may hold any column of the account and not only those of \<open>AccountEmailDto\<close> and
  \<open>AccountPhoneDto\<close>: a partial \<open>account\<close> (each column of its own type, here), of which the id and the one
  flag are overwritten.
\<close>

definition createAccountEmail :: "string \<Rightarrow> account \<Rightarrow> ('b account_store_scheme, account_response) op" where
  "createAccountEmail accountId accountEmailDto =
     op_bind (account_create (accountEmailDto\<lparr>ac_accountId := Val accountId,
        ac_isEmailVerified := Val False\<rparr>)) (\<lambda>_.
     op_bind (createNotifiAlert accountId) (\<lambda>_.
     getAccount accountId))"

definition createAccountPhone :: "string \<Rightarrow> account \<Rightarrow> ('b account_store_scheme, account_response) op" where
  "createAccountPhone accountId accountPhoneDto =
     op_bind (account_create (accountPhoneDto\<lparr>ac_accountId := Val accountId,
        ac_isPhoneVerified := Val False\<rparr>)) (\<lambda>_.
     op_bind (createNotifiAlert accountId) (\<lambda>_.
     getAccount accountId))"

text \<open>The templates of a message: the e-mail's, the SMS's, those of the confirmed addresses.\<close>

definition sendNotification ::
    "account_notification \<Rightarrow> template_message \<Rightarrow> ('b account_store_scheme, unit) op" where
  "sendNotification n template =
     op_bind (account_findById (an_accountId n)) (\<lambda>account.
     let isEmail = an_isEmail n \<and> (case account of None \<Rightarrow> False | Some a \<Rightarrow> holds (ac_isEmailVerified a));
         isPhone = an_isPhone n \<and> (case account of None \<Rightarrow> False | Some a \<Rightarrow> holds (ac_isPhoneVerified a))
     in op_when (isEmail \<or> isPhone)
          (sendTemplateMessage (an_accountId n) (an_notificationId n)
             \<lparr> tp_emailTemplate = (if isEmail then tp_emailTemplate template else None),
               tp_smsTemplate = (if isPhone then tp_smsTemplate template else None),
               tp_variables = tp_variables template \<rparr>))"

section \<open>AccountService: verification\<close>

definition no_email :: "string \<Rightarrow> exn" where
  "no_email accountId = HttpError 400 (''No email found for account: '' @ accountId)"

definition no_phone :: "string \<Rightarrow> exn" where
  "no_phone accountId = HttpError 400 (''No phone number found for account: '' @ accountId)"

definition wrong_code :: "string \<Rightarrow> exn" where
  "wrong_code code = HttpError 400 (''Invalid verification code: '' @ code)"

text \<open>\<open>account?.email\<close>, which must be there and not be empty.\<close>

definition given_account ::
    "(account \<Rightarrow> string field) \<Rightarrow> exn \<Rightarrow> account option \<Rightarrow> ('b account_store_scheme, account) op" where
  "given_account column e found =
     (case found of None \<Rightarrow> op_fail e
      | Some account \<Rightarrow> if filled (column account) then op_ret account else op_fail e)"

definition otp_status :: "otp option \<Rightarrow> verification_status" where
  "otp_status found = \<lparr> vs_isVerified = False, vs_isSend = Some (found \<noteq> None),
     vs_createdAt = map_option ot_createdAt found, vs_ttl = map_option ot_ttl found \<rparr>"

definition verified_status :: verification_status where
  "verified_status = \<lparr> vs_isVerified = True, vs_isSend = None, vs_createdAt = None, vs_ttl = None \<rparr>"

definition getEmailVerificationStatus :: "string \<Rightarrow> ('b account_store_scheme, verification_status) op" where
  "getEmailVerificationStatus accountId =
     op_bind (account_findById accountId) (\<lambda>found.
     op_bind (given_account ac_email (no_email accountId) found) (\<lambda>account.
     if holds (ac_isEmailVerified account) then op_ret verified_status
     else op_bind (getOtp (text_of (ac_email account))) (\<lambda>otp. op_ret (otp_status otp))))"

definition getPhoneVerificationStatus :: "string \<Rightarrow> ('b account_store_scheme, verification_status) op" where
  "getPhoneVerificationStatus accountId =
     op_bind (account_findById accountId) (\<lambda>found.
     op_bind (given_account ac_phoneNumber (no_phone accountId) found) (\<lambda>account.
     if holds (ac_isPhoneVerified account) then op_ret verified_status
     else op_bind (getOtp (text_of (ac_phoneNumber account))) (\<lambda>otp. op_ret (otp_status otp))))"

text \<open>\<open>otp && Date.now() - otp.createdAt < 60000\<close>.\<close>

definition sent_lately :: "int \<Rightarrow> otp option \<Rightarrow> bool" where
  "sent_lately now found = (case found of None \<Rightarrow> False | Some o1 \<Rightarrow> now - ot_createdAt o1 < 60000)"

definition sendEmailVerification :: "string \<Rightarrow> ('b account_store_scheme, verification_status) op" where
  "sendEmailVerification accountId =
     op_bind (account_findById accountId) (\<lambda>found.
     op_bind (given_account ac_email (no_email accountId) found) (\<lambda>account.
     if holds (ac_isEmailVerified account) then op_fail (HttpError 400 ''Email is already verified'')
     else
       op_bind (getOtp (text_of (ac_email account))) (\<lambda>otp.
       op_bind op_now (\<lambda>now.
       if sent_lately now otp
       then op_fail (HttpError 400
              ''Email verification already sent. Could be resend after 60 seconds'')
       else
         op_bind (createOtp (text_of (ac_email account))) (\<lambda>code.
         op_then (sendTemplateMessage accountId code
            \<lparr> tp_emailTemplate = Some TP_Verification, tp_smsTemplate = None,
              tp_variables = [(''code'', JStr code)] \<rparr>)
           (getEmailVerificationStatus accountId))))))"

text \<open>The key of the message is the hash of the code that was found before.\<close>

definition sendPhoneVerification :: "string \<Rightarrow> ('b account_store_scheme, verification_status) op" where
  "sendPhoneVerification accountId =
     op_bind (account_findById accountId) (\<lambda>found.
     op_bind (given_account ac_phoneNumber (no_phone accountId) found) (\<lambda>account.
     if holds (ac_isPhoneVerified account) then op_fail (HttpError 400 ''Phone is already verified'')
     else
       op_bind (getOtp (text_of (ac_phoneNumber account))) (\<lambda>otp.
       op_bind op_now (\<lambda>now.
       if sent_lately now otp
       then op_fail (HttpError 400
              ''Phone verification already sent. Could be resend after 60 seconds'')
       else
         op_bind (createOtp (text_of (ac_phoneNumber account))) (\<lambda>code.
         op_bind (op_need (TypeError ''hash'') otp) (\<lambda>o1.
         op_then (sendTemplateMessage accountId (ot_hash o1)
            \<lparr> tp_emailTemplate = None, tp_smsTemplate = Some TP_Verification,
              tp_variables = [(''code'', JStr code)] \<rparr>)
           (getPhoneVerificationStatus accountId)))))))"

definition verifyEmail :: "string \<Rightarrow> string \<Rightarrow> ('b account_store_scheme, unit) op" where
  "verifyEmail accountId code =
     op_bind (account_findById accountId) (\<lambda>found.
     op_bind (given_account ac_email (no_email accountId) found) (\<lambda>account.
     op_bind (verifyOtp (text_of (ac_email account)) code) (\<lambda>isVerified.
     if \<not> isVerified then op_fail (wrong_code code)
     else op_bind (account_create (mapAccountToAccountDto
            (account\<lparr>ac_isEmailVerified := Val isVerified\<rparr>))) (\<lambda>_. op_ret ()))))"

definition verifyPhone :: "string \<Rightarrow> string \<Rightarrow> ('b account_store_scheme, unit) op" where
  "verifyPhone accountId code =
     op_bind (account_findById accountId) (\<lambda>found.
     op_bind (given_account ac_phoneNumber (no_phone accountId) found) (\<lambda>account.
     op_bind (verifyOtp (text_of (ac_phoneNumber account)) code) (\<lambda>isVerified.
     if \<not> isVerified then op_fail (wrong_code code)
     else op_bind (account_create (mapAccountToAccountDto
            (account\<lparr>ac_isPhoneVerified := Val isVerified\<rparr>))) (\<lambda>_. op_ret ()))))"

end
