(* ===== verification/Notifications.thy ===== *)
theory Notifications
  imports Accounts
begin

text \<open>
  \<open>libs/notification\<close>, \<open>libs/subscription\<close> and \<open>apps/notifier\<close>: who is told about an update of a DAO or a
  proposal, what is stored for each account, and the settings and lists of an account's notifications.

  A notification of an account is a row of the relational database and an item of DynamoDB; DynamoDB
  also keeps, per account, the ids of those not read and those not archived. An item that
  \<open>updateAccountNotification\<close> had to insert has no more than its three flags: \<open>ni_body\<close> is \<open>None\<close>.

  \<open>PromisePool\<close> is a parameter: \<open>p_units\<close> runs computations whose results are not used and returns the
  errors it has collected, \<open>p_settings\<close> runs the reads of the settings.
\<close>

section \<open>Data\<close>

record notification_model =
  nmo_id :: string
  nmo_targetId :: string
  nmo_signerId :: "string option"
  nmo_type :: notification_type
  nmo_status :: "notification_status option"
  nmo_metadata :: "notification_metadata option"
  nmo_timestamp :: "string option"

record notification_body =
  bo_id :: string
  bo_accountId :: string
  bo_daoId :: "string option"
  bo_notification :: notification_model
  bo_isPhone :: bool
  bo_isEmail :: bool
  bo_ttl :: int

record notification_item =
  ni_body :: "notification_body option"
  ni_isMuted :: bool
  ni_isRead :: bool
  ni_isArchived :: bool
  ni_createdAt :: int
  ni_updatedAt :: int

record notification_row =
  rw_id :: string
  rw_notificationId :: string
  rw_accountId :: string
  rw_isPhone :: bool
  rw_isEmail :: bool
  rw_isMuted :: bool
  rw_isRead :: bool
  rw_isArchived :: bool

record notification_ids =
  in_accountId :: string
  in_notReadIds :: "string list"
  in_notArchivedIds :: "string list"
  in_isArchived :: bool
  in_createdAt :: int
  in_updatedAt :: int

record update_notification =
  un_isMuted :: bool
  un_isRead :: bool
  un_isArchived :: bool

record notification_setting =
  se_id :: string
  se_accountId :: string
  se_daoId :: "string option"
  se_types :: "notification_type list"
  se_mutedUntilTimestamp :: "string option"
  se_isAllMuted :: bool
  se_enableSms :: bool
  se_enableEmail :: bool
  se_actionRequiredOnly :: bool
  se_createdAt :: int

record create_setting =
  cs_daoId :: "string option"
  cs_types :: "notification_type list"
  cs_mutedUntilTimestamp :: string
  cs_enableSms :: "bool option"
  cs_enableEmail :: "bool option"
  cs_isAllMuted :: bool
  cs_actionRequiredOnly :: "bool option"

record settings_item =
  si_accountId :: string
  si_settings :: "notification_setting list"

record subscription =
  su_id :: string
  su_daoId :: string
  su_accountId :: string

text \<open>The attributes of a DAO's item that are used here.\<close>

record dao_item =
  di_accountIds :: "string list option"
  di_followers :: "string list option"
  di_council :: "string list option"
  di_settings :: jsval

datatype new_notification = New_Notification notification "(string \<times> account_notification) list"

section \<open>The state\<close>

text \<open>
  \<open>nt_items\<close> is indexed with the account and the id, \<open>nt_settings\<close> lists the rows in the order of their
  creation.
\<close>

record notification_store = account_store +
  nt_notifications :: "string \<Rightarrow> notification_dto option"
  nt_daos :: "string \<Rightarrow> dao option"
  nt_daoItems :: "string \<Rightarrow> dao_item option"
  nt_subscriptions :: "subscription list"
  nt_items :: "string \<Rightarrow> string \<Rightarrow> notification_item option"
  nt_ids :: "string \<Rightarrow> notification_ids option"
  nt_rows :: "notification_row list"
  nt_settingsItems :: "string \<Rightarrow> settings_item option"
  nt_settings :: "notification_setting list"
  nt_events :: "new_notification list"

record 's pools =
  p_units :: "('s, unit) op list \<Rightarrow> ('s, exn list) op"
  p_settings :: "('s, settings_item option) op list \<Rightarrow> ('s, settings_item option list) op"

definition NOTIFICATION_TTL :: int where
  "NOTIFICATION_TTL = 900000"

text \<open>An entity under its key; an existing one keeps its place.\<close>

definition put_keyed :: "('r \<Rightarrow> string) \<Rightarrow> 'r \<Rightarrow> 'r list \<Rightarrow> 'r list" where
  "put_keyed key r rs =
     (if list_ex (\<lambda>x. key x = key r) rs then map (\<lambda>x. if key x = key r then r else x) rs else rs @ [r])"

section \<open>AccountNotificationIdsDynamoService\<close>

definition mapAccountNotificationIdsModel ::
    "int \<Rightarrow> string \<Rightarrow> string list \<Rightarrow> string list \<Rightarrow> notification_ids" where
  "mapAccountNotificationIdsModel now accountId notReadIds notArchivedIds =
     \<lparr> in_accountId = accountId, in_notReadIds = notReadIds, in_notArchivedIds = notArchivedIds,
       in_isArchived = False, in_createdAt = now, in_updatedAt = now \<rparr>"

definition put_ids :: "string \<Rightarrow> notification_ids \<Rightarrow> 'b notification_store_scheme \<Rightarrow> 'b notification_store_scheme" where
  "put_ids accountId x s = s\<lparr>nt_ids := (nt_ids s)(accountId \<mapsto> x)\<rparr>"

definition getAccountsNotificationIds ::
    "string \<Rightarrow> ('b notification_store_scheme, notification_ids option) op" where
  "getAccountsNotificationIds accountId = get_item (\<lambda>s. nt_ids s accountId)"

definition readAll :: "string \<Rightarrow> ('b notification_store_scheme, unit) op" where
  "readAll accountId =
     op_bind op_now (\<lambda>now. update_item (\<lambda>s. nt_ids s accountId)
       (\<lambda>x. put_ids accountId (x\<lparr>in_notReadIds := [], in_updatedAt := now\<rparr>)))"

definition archiveAll :: "string \<Rightarrow> ('b notification_store_scheme, unit) op" where
  "archiveAll accountId =
     op_bind op_now (\<lambda>now. update_item (\<lambda>s. nt_ids s accountId)
       (\<lambda>x. put_ids accountId (x\<lparr>in_notArchivedIds := [], in_updatedAt := now\<rparr>)))"

text \<open>\<open>filter\<close> when the flag is set, else \<open>push\<close> unless the id is there.\<close>

definition set_id :: "string \<Rightarrow> bool \<Rightarrow> string list \<Rightarrow> string list" where
  "set_id i flag ids = (if flag then filter (\<lambda>j. i \<noteq> j) ids else if i \<in> set ids then ids else ids @ [i])"

definition setAccountNotificationId :: "notification_ids \<Rightarrow> string \<times> bool \<times> bool \<Rightarrow> notification_ids" where
  "setAccountNotificationId item n =
     (case n of (i, is_read, is_archived) \<Rightarrow>
       item\<lparr>in_notReadIds := set_id i is_read (in_notReadIds item),
            in_notArchivedIds := set_id i is_archived (in_notArchivedIds item)\<rparr>)"

definition setAccountNotificationIds ::
    "string \<Rightarrow> (string \<times> bool \<times> bool) list \<Rightarrow> ('b notification_store_scheme, unit) op" where
  "setAccountNotificationIds accountId accountNotifications =
     op_bind (getAccountsNotificationIds accountId) (\<lambda>found.
     op_bind op_now (\<lambda>now.
     let model = foldl setAccountNotificationId
           (case found of Some x \<Rightarrow> x | None \<Rightarrow> mapAccountNotificationIdsModel now accountId [] [])
           accountNotifications
     in save_item (\<lambda>s. nt_ids s accountId) (put_ids accountId model) (\<lambda>_. put_ids accountId model)))"

text \<open>\<open>accountsMap\<close>: the notifications of each account, the accounts in the order of their first one.\<close>

definition add_to_account :: "(string \<times> 'x list) list \<Rightarrow> string \<times> 'x \<Rightarrow> (string \<times> 'x list) list" where
  "add_to_account accountsMap n =
     (if list_ex (\<lambda>e. fst e = fst n) accountsMap
      then map (\<lambda>e. if fst e = fst n then (fst e, snd e @ [snd n]) else e) accountsMap
      else accountsMap @ [(fst n, [snd n])])"

definition group_by_account :: "(string \<times> 'x) list \<Rightarrow> (string \<times> 'x list) list" where
  "group_by_account ns = foldl add_to_account [] ns"

definition setAccountsNotificationIds ::
    "'b notification_store_scheme pools \<Rightarrow> (string \<times> string \<times> bool \<times> bool) list \<Rightarrow>
     ('b notification_store_scheme, unit) op" where
  "setAccountsNotificationIds pools accountNotifications =
     op_bind (p_units pools (map (\<lambda>(accountId, ns). setAccountNotificationIds accountId ns)
        (group_by_account accountNotifications))) (\<lambda>errors.
     if errors \<noteq> [] then op_fail (ThrownError ''Failed to set account notification ids'')
     else op_ret ())"

section \<open>AccountNotificationService\<close>

definition mapNotificationToNotificationModel :: "notification \<Rightarrow> notification_model" where
  "mapNotificationToNotificationModel n =
     \<lparr> nmo_id = ntf_id n, nmo_targetId = ntf_targetId n, nmo_signerId = ntf_signerId n,
       nmo_type = ntf_type n, nmo_status = ntf_status n, nmo_metadata = ntf_metadata n,
       nmo_timestamp = ntf_timestamp n \<rparr>"

definition mapAccountNotificationDtoToAccountNotificationModel ::
    "int \<Rightarrow> account_notification \<Rightarrow> notification_item" where
  "mapAccountNotificationDtoToAccountNotificationModel now n =
     \<lparr> ni_body = Some \<lparr> bo_id = an_id n, bo_accountId = an_accountId n,
         bo_daoId = ntf_daoId (an_notification n),
         bo_notification = mapNotificationToNotificationModel (an_notification n),
         bo_isPhone = an_isPhone n, bo_isEmail = an_isEmail n,
         bo_ttl = round_seconds now + NOTIFICATION_TTL \<rparr>,
       ni_isMuted = an_isMuted n, ni_isRead = an_isRead n, ni_isArchived = False,
       ni_createdAt = now, ni_updatedAt = now \<rparr>"

definition put_item_at ::
    "string \<Rightarrow> string \<Rightarrow> notification_item \<Rightarrow> 'b notification_store_scheme \<Rightarrow> 'b notification_store_scheme" where
  "put_item_at accountId i x s =
     s\<lparr>nt_items := (nt_items s)(accountId := (nt_items s accountId)(i \<mapsto> x))\<rparr>"

text \<open>A new row is not archived; an existing one keeps what it has.\<close>

definition row_of :: "notification_row list \<Rightarrow> account_notification \<Rightarrow> notification_row" where
  "row_of rows n =
     \<lparr> rw_id = an_id n, rw_notificationId = an_notificationId n, rw_accountId = an_accountId n,
       rw_isPhone = an_isPhone n, rw_isEmail = an_isEmail n, rw_isMuted = an_isMuted n,
       rw_isRead = an_isRead n,
       rw_isArchived = (case find (\<lambda>r. rw_id r = an_id n) rows of Some r \<Rightarrow> rw_isArchived r | None \<Rightarrow> False) \<rparr>"

definition save_rows :: "account_notification list \<Rightarrow> ('b notification_store_scheme, unit) op" where
  "save_rows ns = op_when (ns \<noteq> []) (access (op_put (\<lambda>s. s\<lparr>nt_rows :=
     fold (\<lambda>n rows. put_keyed rw_id (row_of rows n) rows) ns (nt_rows s)\<rparr>)))"

definition createMultiple ::
    "'b notification_store_scheme pools \<Rightarrow> account_notification list \<Rightarrow>
     ('b notification_store_scheme, account_notification list) op" where
  "createMultiple pools accountNotificationsDto =
     op_bind op_now (\<lambda>now.
     op_then (in_chunks (\<lambda>ns. access (op_put (fold (\<lambda>n. put_item_at (an_accountId n) (an_id n)
            (mapAccountNotificationDtoToAccountNotificationModel now n)) ns))) accountNotificationsDto)
    (op_then (setAccountsNotificationIds pools
            (map (\<lambda>n. (an_accountId n, an_id n, an_isRead n, False)) accountNotificationsDto))
    (op_then (save_rows accountNotificationsDto)
       (op_ret accountNotificationsDto))))"

text \<open>The id of the entity that \<open>findById\<close> finds; a bare item has none.\<close>

definition notification_findById :: "string \<Rightarrow> string \<Rightarrow> ('b notification_store_scheme, string option option) op" where
  "notification_findById accountId i =
     op_bind notifications_useDynamo (\<lambda>dynamo.
     if dynamo then op_bind (get_item (\<lambda>s. nt_items s accountId i)) (\<lambda>found.
       op_ret (map_option (\<lambda>x. map_option bo_id (ni_body x)) found))
     else access (op_get (\<lambda>s. map_option (\<lambda>r. Some (rw_id r)) (find (\<lambda>r. rw_id r = i) (nt_rows s)))))"

definition updateAccountNotification ::
    "string \<Rightarrow> string \<Rightarrow> update_notification \<Rightarrow> ('b notification_store_scheme, unit) op" where
  "updateAccountNotification accountId i updateDto =
     op_bind (notification_findById accountId i) (\<lambda>found.
     case found of
       None \<Rightarrow> op_fail (HttpError 400 (''Invalid Account Notification ID '' @ i))
     | Some foundId \<Rightarrow>
         let key = (case foundId of Some j \<Rightarrow> j | None \<Rightarrow> ''undefined'') in
         op_bind op_now (\<lambda>now.
         let bare = \<lparr> ni_body = None, ni_isMuted = un_isMuted updateDto, ni_isRead = un_isRead updateDto,
               ni_isArchived = un_isArchived updateDto, ni_createdAt = now, ni_updatedAt = now \<rparr>;
             updated = (\<lambda>x. x\<lparr>ni_isMuted := un_isMuted updateDto, ni_isRead := un_isRead updateDto,
               ni_isArchived := un_isArchived updateDto, ni_updatedAt := now\<rparr>)
         in op_then (save_item (\<lambda>s. nt_items s accountId key) (put_item_at accountId key bare)
               (\<lambda>x. put_item_at accountId key (updated x)))
           (op_bind (op_get (\<lambda>s. Option.bind (nt_items s accountId key) ni_body)) (\<lambda>body.
            op_then (case body of
                None \<Rightarrow> op_then (op_try (access (op_fail no_key)) (\<lambda>e. op_ret ())) (access (op_fail no_key))
              | Some b \<Rightarrow> setAccountNotificationIds (bo_accountId b)
                  [(bo_id b, un_isRead updateDto, un_isArchived updateDto)])
              (access (\<lambda>s. if list_ex (\<lambda>r. rw_id r = i) (nt_rows s) then
                 (Inr (), s\<lparr>nt_rows := map (\<lambda>r. if rw_id r = i then r\<lparr>rw_isMuted := un_isMuted updateDto,
                     rw_isRead := un_isRead updateDto, rw_isArchived := un_isArchived updateDto\<rparr> else r)
                   (nt_rows s)\<rparr>)
               else (Inl (Rejection ''not null''), s)))))))"

definition set_flag :: "(notification_item \<Rightarrow> notification_item) \<Rightarrow> string \<Rightarrow> string \<Rightarrow> ('b notification_store_scheme, unit) op" where
  "set_flag f accountId i =
     op_bind op_now (\<lambda>now. update_item (\<lambda>s. nt_items s accountId i)
       (\<lambda>x. put_item_at accountId i ((f x)\<lparr>ni_updatedAt := now\<rparr>)))"

definition readAccountNotifications :: "string \<Rightarrow> ('b notification_store_scheme, unit) op" where
  "readAccountNotifications accountId =
     op_bind (getAccountsNotificationIds accountId) (\<lambda>found.
     op_then (case found of None \<Rightarrow> op_ret ()
         | Some ids \<Rightarrow> op_each (\<lambda>i. op_then (set_flag (\<lambda>x. x\<lparr>ni_isRead := True\<rparr>) accountId i)
                                         (readAll accountId)) (in_notReadIds ids))
       (access (op_put (\<lambda>s. s\<lparr>nt_rows := map (\<lambda>r.
          if rw_accountId r = accountId \<and> \<not> rw_isRead r then r\<lparr>rw_isRead := True\<rparr> else r) (nt_rows s)\<rparr>))))"

text \<open>As written: the loop is over the ids that are not read.\<close>

definition archiveAccountNotifications :: "string \<Rightarrow> ('b notification_store_scheme, unit) op" where
  "archiveAccountNotifications accountId =
     op_bind (getAccountsNotificationIds accountId) (\<lambda>found.
     op_then (case found of None \<Rightarrow> op_ret ()
         | Some ids \<Rightarrow> op_each (\<lambda>i. op_then (set_flag (\<lambda>x. x\<lparr>ni_isArchived := True\<rparr>) accountId i)
                                         (archiveAll accountId)) (in_notReadIds ids))
       (access (op_put (\<lambda>s. s\<lparr>nt_rows := map (\<lambda>r.
          if rw_accountId r = accountId \<and> \<not> rw_isArchived r then r\<lparr>rw_isArchived := True\<rparr> else r) (nt_rows s)\<rparr>))))"

definition getAccountNotificationStatus :: "string \<Rightarrow> ('b notification_store_scheme, string \<times> nat) op" where
  "getAccountNotificationStatus accountId = access (op_get (\<lambda>s.
     (accountId, length (filter (\<lambda>r. rw_accountId r = accountId \<and> \<not> rw_isRead r) (nt_rows s)))))"


section \<open>DaoService, as far as it is used here\<close>

definition useDaoDynamo :: "('b notification_store_scheme, bool) op" where
  "useDaoDynamo = flag_on ''dao-dynamo''"

text \<open>\<open>status: Not('Disabled')\<close> does not match a missing status.\<close>

definition enabled_dao :: "dao option \<Rightarrow> bool" where
  "enabled_dao found = (case found of None \<Rightarrow> False
     | Some d \<Rightarrow> (case dao_status d of None \<Rightarrow> False | Some st \<Rightarrow> st \<noteq> DS_Disabled))"

definition dao_found :: "string option \<Rightarrow> ('b notification_store_scheme, bool) op" where
  "dao_found daoId =
     op_bind useDaoDynamo (\<lambda>dynamo.
     if dynamo then
       op_bind (get_item (\<lambda>s. Option.bind daoId (nt_daoItems s))) (\<lambda>found. op_ret (found \<noteq> None))
     else access (op_get (\<lambda>s. enabled_dao (Option.bind daoId (nt_daos s)))))"

definition dao_getDaoMembers :: "string \<Rightarrow> ('b notification_store_scheme, string list option) op" where
  "dao_getDaoMembers daoId =
     op_bind (access (op_get (\<lambda>s. nt_daos s daoId))) (\<lambda>found.
     case found of
       None \<Rightarrow> op_fail (HttpError 400 (''Invalid DAO ID '' @ daoId))
     | Some d \<Rightarrow> op_ret (dao_accountIds d))"

section \<open>AccountNotificationSettingsService\<close>

text \<open>A column of type \<open>bigint\<close> takes decimal digits or nothing.\<close>

definition bigint_column :: "string option \<Rightarrow> bool" where
  "bigint_column v = (case v of None \<Rightarrow> True | Some t \<Rightarrow> t \<noteq> [] \<and> list_all is_digit t)"

definition put_settings :: "string \<Rightarrow> settings_item \<Rightarrow> 'b notification_store_scheme \<Rightarrow> 'b notification_store_scheme" where
  "put_settings accountId x s = s\<lparr>nt_settingsItems := (nt_settingsItems s)(accountId \<mapsto> x)\<rparr>"

text \<open>\<open>settings[findIndex] = updated\<close>, or \<open>push\<close>.\<close>

fun replace_setting :: "notification_setting \<Rightarrow> notification_setting list \<Rightarrow> notification_setting list" where
  "replace_setting new [] = [new]"
| "replace_setting new (x # xs) = (if se_daoId x = se_daoId new then new # xs else x # replace_setting new xs)"

definition saveAccountNotificationSettings :: "notification_setting \<Rightarrow> ('b notification_store_scheme, unit) op" where
  "saveAccountNotificationSettings setting =
     op_bind (get_item (\<lambda>s. nt_settingsItems s (se_accountId setting))) (\<lambda>item.
     let model = (case item of Some x \<Rightarrow> x
           | None \<Rightarrow> \<lparr> si_accountId = se_accountId setting, si_settings = [] \<rparr>);
         updated = model\<lparr>si_settings := replace_setting setting (si_settings model)\<rparr>
     in save_item (\<lambda>s. nt_settingsItems s (se_accountId setting)) (put_settings (se_accountId setting) updated)
          (\<lambda>_. put_settings (se_accountId setting) updated))"

definition settings_create :: "string \<Rightarrow> create_setting \<Rightarrow> ('b notification_store_scheme, notification_setting) op" where
  "settings_create accountId dto =
     op_bind (dao_found (cs_daoId dto)) (\<lambda>dao.
     if (case cs_daoId dto of None \<Rightarrow> False | Some d \<Rightarrow> d \<noteq> []) \<and> \<not> dao
     then op_fail (HttpError 400 (''Invalid DAO id '' @ (case cs_daoId dto of Some d \<Rightarrow> d | None \<Rightarrow> [])))
     else
       op_bind op_now (\<lambda>now.
       let entity = \<lparr> se_id = buildAccountNotificationSettingsId accountId (cs_daoId dto),
             se_accountId = accountId, se_daoId = cs_daoId dto, se_types = cs_types dto,
             se_mutedUntilTimestamp = Some (cs_mutedUntilTimestamp dto), se_isAllMuted = cs_isAllMuted dto,
             se_enableSms = (cs_enableSms dto = Some True), se_enableEmail = (cs_enableEmail dto = Some True),
             se_actionRequiredOnly = (cs_actionRequiredOnly dto = Some True), se_createdAt = now \<rparr>
       in op_then (saveAccountNotificationSettings entity)
         (op_then (access (\<lambda>s. if bigint_column (se_mutedUntilTimestamp entity)
              then (Inr (), s\<lparr>nt_settings := put_keyed se_id entity (nt_settings s)\<rparr>)
              else (Inl (Rejection ''bigint''), s)))
            (op_ret entity))))"

definition getAccountsNotificationSettings ::
    "'b notification_store_scheme pools \<Rightarrow> string list \<Rightarrow>
     ('b notification_store_scheme, notification_setting list) op" where
  "getAccountsNotificationSettings pools accountIds =
     op_bind notifications_useDynamo (\<lambda>dynamo.
     if dynamo then
       op_bind (p_settings pools (map (\<lambda>accountId. get_item (\<lambda>s. nt_settingsItems s accountId)) accountIds)) (\<lambda>results.
       op_ret (concat (map (\<lambda>item. case item of None \<Rightarrow> [] | Some x \<Rightarrow> si_settings x) results)))
     else access (op_get (\<lambda>s. filter (\<lambda>r. se_accountId r \<in> set accountIds) (nt_settings s))))"

section \<open>SubscriptionService\<close>

definition put_dao_item :: "string \<Rightarrow> dao_item \<Rightarrow> 'b notification_store_scheme \<Rightarrow> 'b notification_store_scheme" where
  "put_dao_item daoId x s = s\<lparr>nt_daoItems := (nt_daoItems s)(daoId \<mapsto> x)\<rparr>"

definition save_followers ::
    "string \<Rightarrow> (string list \<Rightarrow> string list) \<Rightarrow> ('b notification_store_scheme, unit) op" where
  "save_followers daoId f =
     op_bind (get_item (\<lambda>s. nt_daoItems s daoId)) (\<lambda>found.
     op_bind (op_need (TypeError ''followers'') found) (\<lambda>daoModel.
     let updated = daoModel\<lparr>di_followers := Some (f (case di_followers daoModel of None \<Rightarrow> [] | Some fs \<Rightarrow> fs))\<rparr>
     in save_item (\<lambda>s. nt_daoItems s daoId) (put_dao_item daoId updated) (\<lambda>_. put_dao_item daoId updated)))"

text \<open>The row refers to the DAO's row.\<close>

definition subscription_create :: "string \<Rightarrow> string \<Rightarrow> ('b notification_store_scheme, subscription) op" where
  "subscription_create accountId daoId =
     op_then (save_followers daoId (\<lambda>followers. followers @ [accountId]))
       (access (\<lambda>s. let subscription = \<lparr> su_id = buildSubscriptionId daoId accountId, su_daoId = daoId,
                            su_accountId = accountId \<rparr>
          in if nt_daos s daoId = None then (Inl (Rejection ''foreign key''), s)
             else (Inr subscription, s\<lparr>nt_subscriptions := put_keyed su_id subscription (nt_subscriptions s)\<rparr>)))"

definition subscription_remove :: "string \<Rightarrow> string \<Rightarrow> ('b notification_store_scheme, unit) op" where
  "subscription_remove daoId accountId =
     op_then (save_followers daoId (filter (\<lambda>item. item \<noteq> accountId)))
    (op_bind (access (\<lambda>s. (Inr (list_ex (\<lambda>r. su_daoId r = daoId \<and> su_accountId r = accountId) (nt_subscriptions s)),
        s\<lparr>nt_subscriptions := filter (\<lambda>r. \<not> (su_daoId r = daoId \<and> su_accountId r = accountId))
            (nt_subscriptions s)\<rparr>))) (\<lambda>affected.
     if affected then op_ret ()
     else op_fail (HttpError 404 (''Subscription with daoId '' @ daoId @ '' and accountId '' @ accountId
            @ '' not found''))))"

definition subscription_getDaoSubscribers :: "string \<Rightarrow> ('b notification_store_scheme, string list) op" where
  "subscription_getDaoSubscribers daoId = access (op_get (\<lambda>s.
     map su_accountId (filter (\<lambda>r. su_daoId r = daoId) (nt_subscriptions s))))"

definition getAccountSubscriptions :: "string \<Rightarrow> ('b notification_store_scheme, subscription list) op" where
  "getAccountSubscriptions accountId = access (op_get (\<lambda>s.
     filter (\<lambda>r. su_accountId r = accountId) (nt_subscriptions s)))"

section \<open>NotificationHandlerService\<close>

text \<open>\<open>NotificationService.create\<close>: the saved notification is loaded with its DAO.\<close>

definition load_notification :: "'b notification_store_scheme \<Rightarrow> string \<Rightarrow> notification option" where
  "load_notification s i = map_option (\<lambda>n. notification_dto.extend n
     \<lparr> ntf_dao = Option.bind (ntf_daoId n) (nt_daos s) \<rparr>) (nt_notifications s i)"

text \<open>A notification without a DAO cannot be stored, unless it is there already.\<close>

definition notification_create :: "notification_dto \<Rightarrow> ('b notification_store_scheme, notification option) op" where
  "notification_create dto =
     op_then (access (\<lambda>s.
         let daoId = (case ntf_daoId dto of Some d \<Rightarrow> Some d
               | None \<Rightarrow> Option.bind (nt_notifications s (ntf_id dto)) ntf_daoId)
         in if daoId = None then (Inl (Rejection ''not null''), s)
            else (Inr (), s\<lparr>nt_notifications := (nt_notifications s)
                    (ntf_id dto \<mapsto> dto\<lparr>ntf_daoId := daoId\<rparr>)\<rparr>)))
       (access (op_get (\<lambda>s. load_notification s (ntf_id dto))))"

definition handleDaoUpdateNotification ::
    "dao \<Rightarrow> transaction_action \<Rightarrow> ('b notification_store_scheme, notification option) op" where
  "handleDaoUpdateNotification d txAction =
     op_bind (op_lift (getDaoUpdateNotificationAction d txAction)) (\<lambda>notificationAction.
     case notificationAction of
       None \<Rightarrow> op_ret None
     | Some action \<Rightarrow> notification_create (castDaoUpdateNotification d txAction action))"

definition handleProposalUpdateNotification ::
    "proposal_update \<Rightarrow> transaction_action \<Rightarrow> ('b notification_store_scheme, notification option) op" where
  "handleProposalUpdateNotification p txAction =
     op_bind (op_lift (getProposalUpdateNotificationAction p txAction)) (\<lambda>notificationAction.
     case notificationAction of
       None \<Rightarrow> op_ret None
     | Some action \<Rightarrow>
         op_bind (op_lift (castProposalUpdateNotification p txAction action)) notification_create)"

section \<open>AccountNotifierService\<close>

text \<open>\<open>[...new Set(ids)].filter((member) => !!member)\<close>.\<close>

definition member_set :: "string list \<Rightarrow> string list" where
  "member_set ids = filter (\<lambda>member. member \<noteq> []) (unique_from (\<lambda>x. x) {} ids)"

definition getDaoSubscribers :: "string \<Rightarrow> ('b notification_store_scheme, string list) op" where
  "getDaoSubscribers daoId =
     op_bind useDaoDynamo (\<lambda>dynamo.
     if dynamo then
       op_bind (get_item (\<lambda>s. nt_daoItems s daoId)) (\<lambda>found.
       op_bind (op_need (TypeError ''accountIds'') found) (\<lambda>daoModel.
       op_bind (op_need (TypeError ''concat'') (di_accountIds daoModel)) (\<lambda>accountIds.
       op_ret (member_set (accountIds @ (case di_followers daoModel of None \<Rightarrow> [] | Some fs \<Rightarrow> fs))))))
     else
       op_bind (subscription_getDaoSubscribers daoId) (\<lambda>daoSubscribers.
       op_bind (dao_getDaoMembers daoId) (\<lambda>daoMembers.
       op_ret (member_set (daoSubscribers @ (case daoMembers of None \<Rightarrow> [] | Some ms \<Rightarrow> ms))))))"

definition notified_roles :: "notification \<Rightarrow> role list option" where
  "notified_roles n = Option.bind (Option.bind (ntf_dao n) dao_policy) pol_roles"

text \<open>\<open>getAccountPermissions(dao?.policy?.roles, kind?.type, accountId)\<close>.\<close>

definition checkActionRequired :: "string \<Rightarrow> notification \<Rightarrow> exn + bool" where
  "checkActionRequired accountId n =
     (case ntf_metadata n of
        None \<Rightarrow> Inl (TypeError ''proposal'')
      | Some metadata \<Rightarrow>
          (case nm_proposal metadata of
             None \<Rightarrow> Inr False
           | Some p \<Rightarrow>
               if ntf_status n \<noteq> Some NS_Created then Inr False
               else res_bind
                 (case notified_roles n of
                    None \<Rightarrow> if accountId = [] then Inr no_permissions else Inl (TypeError ''find'')
                  | Some roles \<Rightarrow>
                      getAccountPermissions roles (Some (kind_type (np_kind p))) (Some accountId) None)
                 (\<lambda>accountPermissions.
                    Inr (canApprove accountPermissions \<or> canReject accountPermissions))))"

record notify_status =
  ny_isDisabled :: bool
  ny_shouldNotify :: bool
  ny_isPhone :: bool
  ny_isEmail :: bool

text \<open>\<open>some\<close> with a condition that may throw.\<close>

fun some_res :: "('a \<Rightarrow> exn + bool) \<Rightarrow> 'a list \<Rightarrow> exn + bool" where
  "some_res p [] = Inr False"
| "some_res p (x # xs) = res_bind (p x) (\<lambda>b. if b then Inr True else some_res p xs)"

definition applies_to :: "string \<Rightarrow> string option \<Rightarrow> notification_setting \<Rightarrow> bool" where
  "applies_to accountId daoId ns \<longleftrightarrow> se_accountId ns = accountId
     \<and> (case se_daoId ns of None \<Rightarrow> True | Some d \<Rightarrow> d = [] \<or> daoId = Some d)"

definition muted :: "int \<Rightarrow> notification_setting \<Rightarrow> exn + bool" where
  "muted currentTimestamp ans =
     (case se_mutedUntilTimestamp ans of
        None \<Rightarrow> Inr (se_isAllMuted ans)
      | Some t \<Rightarrow> if t = [] then Inr (se_isAllMuted ans)
                  else res_bind (parse_bigint t) (\<lambda>u. Inr (u > currentTimestamp \<or> se_isAllMuted ans)))"

definition getNotifyAccountStatus ::
    "int \<Rightarrow> string \<Rightarrow> notification \<Rightarrow> notification_setting list \<Rightarrow> exn + notify_status" where
  "getNotifyAccountStatus now accountId n notificationSettings =
     res_bind (checkActionRequired accountId n) (\<lambda>isActionRequired.
     let settings = filter (applies_to accountId (ntf_daoId n)) notificationSettings in
     if settings = [] then
       Inr \<lparr> ny_isDisabled = False, ny_shouldNotify = isActionRequired, ny_isPhone = False,
             ny_isEmail = False \<rparr>
     else
       res_bind (parse_bigint (getBlockTimestamp now)) (\<lambda>currentTimestamp.
       res_bind (some_res (muted currentTimestamp) settings) (\<lambda>isDisabled.
       let isActionRequiredOnly = list_ex se_actionRequiredOnly settings in
       Inr \<lparr> ny_isDisabled = isDisabled,
             ny_shouldNotify = ((\<not> isActionRequiredOnly \<or> isActionRequired)
               \<and> list_ex (\<lambda>ans. ntf_type n \<in> set (se_types ans)) settings),
             ny_isPhone = list_ex se_enableSms settings,
             ny_isEmail = list_ex se_enableEmail settings \<rparr>)))"

text \<open>The reduction over the subscribers.\<close>

definition notified_accounts ::
    "int \<Rightarrow> notification \<Rightarrow> notification_setting list \<Rightarrow> string list \<Rightarrow> exn + account_notification list" where
  "notified_accounts now n notificationSettings daoSubscribers =
     fold_res (\<lambda>accountsNotifications accountId.
       res_bind (getNotifyAccountStatus now accountId n notificationSettings) (\<lambda>status.
       Inr (if ny_shouldNotify status
            then accountsNotifications @ [castAccountNotification accountId n (ny_isDisabled status)
                   (ny_isPhone status) (ny_isEmail status)]
            else accountsNotifications))) [] daoSubscribers"

definition createAccountNotifications ::
    "'b notification_store_scheme pools \<Rightarrow> notification \<Rightarrow>
     ('b notification_store_scheme, account_notification list) op" where
  "createAccountNotifications pools n =
     op_bind (getDaoSubscribers (column_str (ntf_daoId n))) (\<lambda>daoSubscribers.
     op_bind (getAccountsNotificationSettings pools daoSubscribers) (\<lambda>notificationSettings.
     op_bind op_now (\<lambda>now.
     op_bind (op_lift (notified_accounts now n notificationSettings daoSubscribers)) (\<lambda>accountsNotifications.
     createMultiple pools accountsNotifications))))"

definition sendNewNotificationEvent ::
    "notification \<Rightarrow> account_notification list \<Rightarrow> ('b notification_store_scheme, unit) op" where
  "sendNewNotificationEvent n accountNotifications =
     access (op_put (\<lambda>s. s\<lparr>nt_events := nt_events s @ [New_Notification n
        (map (\<lambda>a. (an_accountId a, a)) (filter (\<lambda>a. \<not> an_isMuted a) accountNotifications))]\<rparr>))"

definition notifyAccounts ::
    "'b notification_store_scheme pools \<Rightarrow> string \<Rightarrow> notification option \<Rightarrow>
     ('b notification_store_scheme, unit) op" where
  "notifyAccounts pools frontendUrl found =
     (case found of
        None \<Rightarrow> op_ret ()
      | Some n \<Rightarrow>
          op_bind (createAccountNotifications pools n) (\<lambda>accountNotifications.
          op_bind (op_lift (getNotificationTemplate frontendUrl n)) (\<lambda>template.
          op_then (sendNewNotificationEvent n accountNotifications)
         (op_bind (p_units pools (map (\<lambda>a. sendNotification a template)
             (filter (\<lambda>a. \<not> an_isMuted a) accountNotifications))) (\<lambda>errors.
          op_ret ())))))"

section \<open>NotifierController\<close>

definition onDaoUpdate ::
    "'b notification_store_scheme pools \<Rightarrow> string \<Rightarrow> dao \<Rightarrow> transaction_action \<Rightarrow>
     ('b notification_store_scheme, unit) op" where
  "onDaoUpdate pools frontendUrl d txAction =
     op_bind (handleDaoUpdateNotification d txAction) (notifyAccounts pools frontendUrl)"

definition onProposalUpdate ::
    "'b notification_store_scheme pools \<Rightarrow> string \<Rightarrow> proposal_update \<Rightarrow> transaction_action \<Rightarrow>
     ('b notification_store_scheme, unit) op" where
  "onProposalUpdate pools frontendUrl p txAction =
     op_bind (handleProposalUpdateNotification p txAction) (notifyAccounts pools frontendUrl)"

end
