(* ===== verification/Account_Facts.thy ===== *)
theory Account_Facts
  imports Accounts
begin

text \<open>
  What holds of accounts and codes: an address is confirmed only by a code that was created for it, or
  by a request to set the other address whose body carries it along (\<open>confirmed_by_code\<close>), whatever
  requests fail; a code is accepted for 15 minutes, from both stores
  (\<open>code_accepted_15_minutes\<close>); the first SMS verification of a phone fails after its code has been stored
  (\<open>first_phone_verification\<close>).
\<close>

section \<open>Confirmed addresses\<close>

datatype contact = Email string | Phone string

definition confirmed :: "'b account_scheme \<Rightarrow> contact set" where
  "confirmed r =
     {k. (\<exists>e. k = Email e \<and> ac_email r = Val e \<and> ac_isEmailVerified r = Val True)
       \<or> (\<exists>p. k = Phone p \<and> ac_phoneNumber r = Val p \<and> ac_isPhoneVerified r = Val True)}"

text \<open>
  An address and its flag go together: an address is not given without its flag, and the flag is not
  true without the address. Of the kinds of addresses that are all in the set \<open>X\<close> this is not asked.
\<close>

definition together :: "string field \<Rightarrow> bool field \<Rightarrow> bool" where
  "together addr flag \<longleftrightarrow> (flag = Undefined \<longrightarrow> addr = Undefined) \<and> (addr = Undefined \<longrightarrow> flag \<noteq> Val True)"

definition paired :: "contact set \<Rightarrow> 'b account_scheme \<Rightarrow> bool" where
  "paired X r \<longleftrightarrow> (together (ac_email r) (ac_isEmailVerified r) \<or> range Email \<subseteq> X)
     \<and> (together (ac_phoneNumber r) (ac_isPhoneVerified r) \<or> range Phone \<subseteq> X)"

lemma together_overlay:
  assumes "together new flag"
  shows "overlay new old = Val x \<and> overlay flag flag' = Val True \<Longrightarrow>
      new = Val x \<and> flag = Val True \<or> old = Val x \<and> flag' = Val True"
    and "together old flag' \<Longrightarrow> together (overlay new old) (overlay flag flag')"
  using assms by (auto simp: together_def overlay_def split: if_splits)

lemma confirmed_overlay:
  assumes "paired X new"
  shows "confirmed (overlay_columns new old) \<subseteq> confirmed new \<union> confirmed old \<union> X"
proof
  fix k assume k: "k \<in> confirmed (overlay_columns new old)"
  show "k \<in> confirmed new \<union> confirmed old \<union> X"
  proof (cases k)
    case (Email e)
    then have val: "overlay (ac_email new) (ac_email old) = Val e
        \<and> overlay (ac_isEmailVerified new) (ac_isEmailVerified old) = Val True"
      using k by (simp add: confirmed_def overlay_columns_def)
    show ?thesis
    proof (cases "range Email \<subseteq> X")
      case False
      then have "together (ac_email new) (ac_isEmailVerified new)" using assms by (simp add: paired_def)
      from together_overlay(1) [OF this val] show ?thesis using Email by (auto simp: confirmed_def)
    qed (use Email in blast)
  next
    case (Phone p)
    then have val: "overlay (ac_phoneNumber new) (ac_phoneNumber old) = Val p
        \<and> overlay (ac_isPhoneVerified new) (ac_isPhoneVerified old) = Val True"
      using k by (simp add: confirmed_def overlay_columns_def)
    show ?thesis
    proof (cases "range Phone \<subseteq> X")
      case False
      then have "together (ac_phoneNumber new) (ac_isPhoneVerified new)" using assms by (simp add: paired_def)
      from together_overlay(1) [OF this val] show ?thesis using Phone by (auto simp: confirmed_def)
    qed (use Phone in blast)
  qed
qed

lemma paired_overlay: "paired X new \<Longrightarrow> paired X old \<Longrightarrow> paired X (overlay_columns new old)"
  by (auto simp: paired_def overlay_columns_def together_overlay(2))

lemma paired_mono: "paired X r \<Longrightarrow> X \<subseteq> Y \<Longrightarrow> paired Y r"
  unfolding paired_def by blast

lemma overlay_id: "ac_accountId new = Val i \<Longrightarrow> ac_accountId (overlay_columns new old) = Val i"
  by (simp add: overlay_columns_def overlay_def)

text \<open>The addresses of an account that one of the stores has as confirmed.\<close>

definition confirmed_in :: "'b account_store_scheme \<Rightarrow> string \<Rightarrow> contact set" where
  "confirmed_in s a =
     (case as_accounts s a of None \<Rightarrow> {} | Some r \<Rightarrow> confirmed r)
     \<union> (case as_items s a of None \<Rightarrow> {} | Some x \<Rightarrow> confirmed x)"

text \<open>The records are found under their own id; with the addresses of the set \<open>X a\<close> aside, they are paired.\<close>

definition accounts_ok :: "'b account_store_scheme \<Rightarrow> bool" where
  "accounts_ok s \<longleftrightarrow>
     (\<forall>a r. as_accounts s a = Some r \<longrightarrow> ac_accountId r = Val a)
   \<and> (\<forall>a x. as_items s a = Some x \<longrightarrow> ac_accountId x = Val a)"

definition contacts_paired :: "(string \<Rightarrow> contact set) \<Rightarrow> 'b account_store_scheme \<Rightarrow> bool" where
  "contacts_paired X s \<longleftrightarrow>
     (\<forall>a r. as_accounts s a = Some r \<longrightarrow> paired (X a) r)
   \<and> (\<forall>a x. as_items s a = Some x \<longrightarrow> paired (X a) x)"

text \<open>
  The bound \<open>G\<close> on what may be confirmed, \<open>X\<close> aside, and the records that may be written under it.
\<close>

definition bounded ::
    "(string \<Rightarrow> contact set) \<Rightarrow> (string \<Rightarrow> contact set) \<Rightarrow> 'b account_store_scheme \<Rightarrow> bool" where
  "bounded X G s \<longleftrightarrow> accounts_ok s \<and> contacts_paired X s \<and> (\<forall>a. confirmed_in s a \<subseteq> G a \<union> X a)"

definition may_write ::
    "(string \<Rightarrow> contact set) \<Rightarrow> (string \<Rightarrow> contact set) \<Rightarrow> 'b account_scheme \<Rightarrow> bool" where
  "may_write X G r \<longleftrightarrow> (\<forall>i. ac_accountId r = Val i \<longrightarrow> paired (X i) r \<and> confirmed r \<subseteq> G i \<union> X i)"

lemma confirmed_more: "confirmed (account.extend a m) = confirmed a" for a :: account
  by (simp add: confirmed_def account.defs)

lemma paired_more: "paired X (account.extend a m) = paired X a" for a :: account
  by (simp add: paired_def account.defs)

lemma confirmed_truncate: "confirmed (account.truncate x) = confirmed x"
  by (simp add: confirmed_def account.defs)

lemma paired_truncate: "paired X (account.truncate x) = paired X x"
  by (simp add: paired_def account.defs)

lemma id_more: "ac_accountId (account.extend a m) = ac_accountId a"
  "ac_accountId (account.truncate x) = ac_accountId x" for a :: account
  by (simp_all add: account.defs)

lemmas more_simps = confirmed_more paired_more confirmed_truncate paired_truncate id_more

lemma dto_id: "mapAccountToAccountDto a = a" for a :: account
  by (simp add: mapAccountToAccountDto_def)

lemma case_subset: "(case v of None \<Rightarrow> {} | Some r \<Rightarrow> f r) \<subseteq> A \<longleftrightarrow> (\<forall>r. v = Some r \<longrightarrow> f r \<subseteq> A)"
  by (cases v) auto

lemma bounded_iff:
  "bounded X G s \<longleftrightarrow>
     (\<forall>a r. as_accounts s a = Some r \<longrightarrow>
        paired (X a) r \<and> ac_accountId r = Val a \<and> confirmed r \<subseteq> G a \<union> X a)
   \<and> (\<forall>a x. as_items s a = Some x \<longrightarrow>
        paired (X a) x \<and> ac_accountId x = Val a \<and> confirmed x \<subseteq> G a \<union> X a)"
proof -
  have "(\<forall>a. confirmed_in s a \<subseteq> G a \<union> X a) \<longleftrightarrow>
      (\<forall>a r. as_accounts s a = Some r \<longrightarrow> confirmed r \<subseteq> G a \<union> X a)
    \<and> (\<forall>a x. as_items s a = Some x \<longrightarrow> confirmed x \<subseteq> G a \<union> X a)"
    unfolding confirmed_in_def Un_subset_iff case_subset by blast
  then show ?thesis unfolding bounded_def accounts_ok_def contacts_paired_def by blast
qed

lemma bounded_put_account:
  assumes bd: "bounded X G s" and w: "may_write X G d" and i: "ac_accountId d = Val i"
  shows "bounded X G (put_account i (overlay_columns d
           (case as_accounts s i of None \<Rightarrow> empty_row | Some b \<Rightarrow> b)) s)"
proof -
  let ?old = "case as_accounts s i of None \<Rightarrow> empty_row | Some b \<Rightarrow> b"
  have "paired (X i) empty_row" "confirmed empty_row = {}"
    by (auto simp: empty_row_def paired_def together_def confirmed_def)
  then have old: "paired (X i) ?old \<and> confirmed ?old \<subseteq> G i \<union> X i"
    using bd unfolding bounded_iff by (cases "as_accounts s i") simp_all
  have new: "paired (X i) d" "confirmed d \<subseteq> G i \<union> X i" using w i by (simp_all add: may_write_def)
  have "paired (X i) (overlay_columns d ?old)" using paired_overlay [OF new(1)] old by blast
  moreover have "confirmed (overlay_columns d ?old) \<subseteq> G i \<union> X i"
    using confirmed_overlay [OF new(1), of ?old] new(2) old by blast
  ultimately show ?thesis
    using bd overlay_id [OF i, of ?old] by (simp add: bounded_iff put_account_def)
qed

lemma bounded_put_item:
  assumes "bounded X G s" and "paired (X i) x" and "confirmed x \<subseteq> G i \<union> X i" and "ac_accountId x = Val i"
  shows "bounded X G (put_account_item i x s)"
  using assms by (simp add: bounded_iff put_account_item_def)

lemma bounded_update_item:
  assumes bd: "bounded X G s" and w: "may_write X G x" and i: "ac_accountId x = Val i"
    and y: "as_items s i = Some y"
  shows "bounded X G (put_account_item i (overlay_columns x y) s)"
proof -
  have old: "paired (X i) y" "confirmed y \<subseteq> G i \<union> X i" using bd y unfolding bounded_iff by blast+
  have new: "paired (X i) x" "confirmed x \<subseteq> G i \<union> X i" using w i by (simp_all add: may_write_def)
  show ?thesis
    by (rule bounded_put_item [OF bd paired_overlay [OF new(1) old(1)] _ overlay_id [OF i]])
      (use confirmed_overlay [OF new(1), of y] new(2) old(2) in blast)
qed

section \<open>What leaves the accounts alone\<close>

definition same_accounts :: "'b account_store_scheme \<Rightarrow> 'b account_store_scheme \<Rightarrow> bool" where
  "same_accounts s t \<longleftrightarrow> as_accounts t = as_accounts s \<and> as_items t = as_items s
     \<and> account_store.more t = account_store.more s"

interpretation accts: state_relation same_accounts
  by unfold_locales (auto simp: same_accounts_def tick_def)

lemma stays_request [simp]: "accts.stays (notifi_request answer c)"
  unfolding notifi_request_def
  by (intro accts.stays_access) (simp add: accts.stays_def same_accounts_def)

lemma stays_flag [simp]: "accts.stays notifications_useDynamo"
  unfolding notifications_useDynamo_def flag_on_def by (intro accts.stays_intros)

lemma stays_token [simp]: "accts.stays getToken"
  unfolding getToken_def logIn_def case_prod_unfold
  by (intro accts.stays_intros accts.stays_put stays_request) (simp_all add: same_accounts_def)

lemma stays_notifi [simp]:
  "accts.stays (createUser a)" "accts.stays (createAlert u e p)" "accts.stays (deleteAlert i)"
  "accts.stays (sendTemplateMessage a k tp)"
  unfolding createUser_def createAlert_def deleteAlert_def sendTemplateMessage_def
  by (intro accts.stays_intros stays_token stays_request)+

lemma stays_otp [simp]:
  "accts.stays (createOtp k)" "accts.stays (getOtp k)" "accts.stays (verifyOtp k c)" "accts.stays deleteExpired"
proof -
  have item: "accts.stays (save_otp_item x)" for x :: otp_item
    unfolding save_otp_item_def
    by (intro accts.stays_intros accts.stays_put)
      (simp_all add: accts.stays_def same_accounts_def put_otp_item_def)
  have row: "accts.stays (save_otp x)" for x
    unfolding save_otp_def by (intro accts.stays_intros accts.stays_put) (simp add: same_accounts_def)
  show "accts.stays (createOtp k)"
    unfolding createOtp_def hash_otp_def Let_def by (intro accts.stays_intros item row)
  show get: "accts.stays (getOtp k)"
    unfolding getOtp_def Let_def by (intro accts.stays_intros stays_flag)
  show "accts.stays (verifyOtp k c)"
    unfolding verifyOtp_def by (intro accts.stays_intros get)
  show "accts.stays deleteExpired"
    unfolding deleteExpired_def Let_def
    by (intro accts.stays_intros accts.stays_chunks accts.stays_put; simp add: same_accounts_def)
qed

lemma stays_find [simp]: "accts.stays (account_findById a)" "accts.stays (find_account a)"
  unfolding account_findById_def find_account_def get_account_item_def
  by (intro accts.stays_intros stays_flag)+

lemma bounded_same: "same_accounts s t \<Longrightarrow> bounded X G s \<Longrightarrow> bounded X G t"
  by (simp add: same_accounts_def bounded_def accounts_ok_def contacts_paired_def confirmed_in_def)


section \<open>Writes of accounts\<close>

text \<open>
  The contract of a condition \<open>B\<close> that the methods of account \<open>a\<close> keep: what leaves the accounts alone
  keeps it, and so does writing a record that \<open>W\<close> allows; what is read of account \<open>a\<close> satisfies \<open>Rd\<close> and may
  be written back.
\<close>

definition was_read :: "(account \<Rightarrow> bool) \<Rightarrow> account option \<Rightarrow> bool" where
  "was_read p found \<longleftrightarrow> (\<forall>r. found = Some r \<longrightarrow> p r)"

lemma truncate_extend: "account.truncate (account.extend r m) = r" for r :: account
  by (cases r) (simp add: account.defs)

locale account_writes =
  fixes B :: "'b account_store_scheme \<Rightarrow> bool" and W :: "account \<Rightarrow> bool" and a :: string
    and Rd :: "account \<Rightarrow> bool"
  assumes same: "same_accounts s t \<Longrightarrow> B s \<Longrightarrow> B t"
    and put: "B s \<Longrightarrow> W d \<Longrightarrow> ac_accountId d = Val i \<Longrightarrow> B (put_account i (overlay_columns d
           (case as_accounts s i of None \<Rightarrow> empty_row | Some b \<Rightarrow> b)) s)"
    and put_item: "B s \<Longrightarrow> W (account.truncate x) \<Longrightarrow> ac_accountId x = Val i \<Longrightarrow> B (put_account_item i x s)"
    and update_item: "B s \<Longrightarrow> W (account.truncate x) \<Longrightarrow> ac_accountId x = Val i \<Longrightarrow> as_items s i = Some y \<Longrightarrow>
           B (put_account_item i (overlay_columns x y) s)"
    and row_read: "B s \<Longrightarrow> as_accounts s a = Some r \<Longrightarrow> Rd r"
    and item_read: "B s \<Longrightarrow> as_items s a = Some x \<Longrightarrow> Rd (account.truncate x)"
    and write_read: "Rd r \<Longrightarrow> W r"
    and write_user: "W r \<Longrightarrow> W (r\<lparr>ac_notifiUserId := u\<rparr>)"
    and write_alert: "W r \<Longrightarrow> W (r\<lparr>ac_notifiAlertId := u\<rparr>)"
    and write_new: "W (no_columns\<lparr>ac_notifiUserId := u\<rparr>)"

context account_writes
begin

lemma keeps_stays: "accts.stays m \<Longrightarrow> triple B m (\<lambda>_. B) B"
  by (rule triple_stays [where R = same_accounts]) (auto dest: accts.staysD intro: same)

lemma keeps_tick: "B s \<Longrightarrow> B (tick s)"
  by (rule same) (simp_all add: same_accounts_def tick_def)

lemmas keeps_access = triple_access [where P = B and E = B, OF _ keeps_tick]

lemma keeps_save_item:
  assumes "W (account.truncate x)"
  shows "triple B (save_account_item x) (\<lambda>_. B) B"
proof (cases "ac_accountId x")
  case (Val i)
  have "triple B (\<lambda>s. if as_items s i = None then (Inr True, put_account_item i x s)
      else (Inr False, s)) (\<lambda>_. B) B"
    using put_item [OF _ assms Val] by (intro tripleI) (auto split: if_splits)
  moreover have "triple B (\<lambda>s. case as_items s i of
      None \<Rightarrow> (Inl (Rejection ''ConditionalCheckFailedException''), s)
    | Some y \<Rightarrow> (Inr (), put_account_item i (overlay_columns x y) s)) (\<lambda>_. B) B"
    using update_item [OF _ assms Val] by (intro tripleI) (auto split: option.splits)
  ultimately show ?thesis
    unfolding save_account_item_def Val field.case
    by (intro triple_bind [where Q = "\<lambda>_. B"] triple_when keeps_access)
qed (simp_all add: save_account_item_def keeps_stays accts.stays_intros)

lemma keeps_save_row:
  assumes "W d"
  shows "triple B (save_account_row d) (\<lambda>d' s. B s \<and> d' = d) B"
proof (cases "ac_accountId d")
  case (Val i)
  show ?thesis
    unfolding save_account_row_def Val field.case
    by (intro triple_access [where P = B] tripleI keeps_tick) (auto intro: put [OF _ assms Val])
qed (auto simp: save_account_row_def intro!: triple_access triple_fail keeps_tick)

lemma keeps_create:
  assumes "W d"
  shows "triple B (account_create d) (\<lambda>d' s. B s \<and> d' = d) B"
proof -
  have item: "W (account.truncate (mapAccountDtoToAccountModel now d))" for now
    using assms by (simp add: mapAccountDtoToAccountModel_def truncate_extend)
  show ?thesis
    unfolding account_create_def
    by (intro triple_bind [where Q = "\<lambda>_. B"] triple_then [where Q = B]
        keeps_stays accts.stays_intros keeps_save_item keeps_save_row item assms)
qed

lemma keeps_create_unit:
  "W d \<Longrightarrow> triple B (op_bind (account_create d) (\<lambda>_. op_ret ())) (\<lambda>_. B) B"
  by (rule triple_bind [OF keeps_create]) (auto intro: triple_ret)

lemma keeps_find: "triple B (find_account a) (\<lambda>found s. B s \<and> was_read Rd found) B"
  unfolding find_account_def
  by (intro triple_access [where P = B] tripleI keeps_tick) (auto simp: run_op was_read_def row_read)

lemma keeps_findById: "triple B (account_findById a) (\<lambda>found s. B s \<and> was_read Rd found) B"
proof -
  have get: "triple B (get_account_item a)
      (\<lambda>found s. B s \<and> was_read Rd (map_option account.truncate found)) B"
  proof (rule tripleI)
    fix s x t
    assume B: "B s" and run: "get_account_item a s = (Inr x, t)"
    have st: "accts.stays (get_account_item a)"
      unfolding get_account_item_def by (intro accts.stays_intros)
    have "B t" by (rule same [OF accts.staysD [OF st run] B])
    moreover have "as_items s a = Some z" if "x = Some z" for z
      using run that by (auto simp: get_account_item_def access_def run_op tick_def split: option.splits fault.splits)
    ultimately show "B t \<and> was_read Rd (map_option account.truncate x)"
      using item_read [OF B] by (cases x) (auto simp: was_read_def)
  qed (auto simp: get_account_item_def run_op split: prod.splits sum.splits)
  show ?thesis
    unfolding account_findById_def
    by (intro triple_bind [where Q = "\<lambda>_. B"] triple_if keeps_find keeps_stays stays_flag
        triple_bind [OF get] triple_ret)
qed

lemma keeps_given:
  "triple (\<lambda>s. B s \<and> was_read Rd found) (given_account column e found)
     (\<lambda>r s. B s \<and> Rd r \<and> filled (column r)) B"
  unfolding given_account_def was_read_def
  by (intro tripleI) (auto simp: run_op split: option.splits if_splits)

lemma keeps_user:
  "triple (\<lambda>s. B s \<and> was_read Rd found)
     (case found of
         Some account \<Rightarrow>
           if filled (ac_notifiUserId account) then op_ret account
           else op_bind (createUser a) (\<lambda>notifiUserId.
             account_create (mapAccountToAccountDto (account\<lparr>ac_notifiUserId := Val notifiUserId\<rparr>)))
       | None \<Rightarrow> op_bind (createUser a) (\<lambda>notifiUserId.
             account_create (mapAccountToAccountDto (no_columns\<lparr>ac_notifiUserId := Val notifiUserId\<rparr>))))
     (\<lambda>r s. B s \<and> W r) B"
proof -
  have new: "triple B (op_bind (createUser a) (\<lambda>u.
        account_create (mapAccountToAccountDto (r\<lparr>ac_notifiUserId := Val u\<rparr>)))) (\<lambda>r s. B s \<and> W r) B"
    if w: "\<And>u. W (r\<lparr>ac_notifiUserId := Val u\<rparr>)" for r :: account
    unfolding dto_id
    by (intro triple_bind [where Q = "\<lambda>_. B"] keeps_stays stays_notifi
        triple_weaken [OF keeps_create [OF w]]) (auto simp: w)
  show ?thesis
  proof (cases found)
    case None
    then show ?thesis using new [OF write_new] by (auto intro: triple_weaken)
  next
    case (Some r)
    show ?thesis
    proof (cases "Rd r")
      case False
      then show ?thesis using Some by (simp add: triple_def was_read_def)
    next
      case True
      then have w: "W r" by (rule write_read)
      then show ?thesis
        using Some new [OF write_user [OF w]] by (auto intro: triple_weaken triple_ret)
    qed
  qed
qed

lemma keeps_alert: "triple B (createNotifiAlert a) (\<lambda>_. B) B"
proof -
  have rest: "triple (\<lambda>s. B s \<and> W r)
     (op_then (if filled (ac_notifiAlertId r) then
         op_then (deleteAlert (text_of (ac_notifiAlertId r)))
           (op_bind (account_create (mapAccountToAccountDto (r\<lparr>ac_notifiAlertId := Val []\<rparr>)))
             (\<lambda>_. op_ret ()))
       else op_ret ())
      (op_bind (createAlert (ac_notifiUserId r) (ac_email r) (ac_phoneNumber r)) (\<lambda>i.
        account_create (mapAccountToAccountDto (r\<lparr>ac_notifiAlertId := Val i\<rparr>)))))
     (\<lambda>_. B) B" for r :: account
  proof (cases "W r")
    case False
    then show ?thesis by (simp add: triple_def)
  next
    case True
    note w = write_alert [OF True]
    show ?thesis
      unfolding dto_id
      by (rule triple_weaken [where P = B and Q = "\<lambda>_. B" and E = B])
        (intro triple_then [where Q = B] triple_if triple_bind [where Q = "\<lambda>_. B"]
          keeps_stays stays_notifi keeps_create_unit w triple_ret
          triple_weaken [OF keeps_create [OF w]], simp_all add: accts.stays_ret)
  qed
  show ?thesis
    unfolding createNotifiAlert_def by (intro triple_bind [OF keeps_find] triple_bind [OF keeps_user] rest)
qed

lemma keeps_getAccount: "triple B (getAccount c) (\<lambda>_. B) B"
  unfolding getAccount_def by (intro keeps_stays accts.stays_intros stays_find)

lemma keeps_contact:
  assumes "W d"
  shows "triple B (op_bind (account_create d) (\<lambda>_.
     op_bind (createNotifiAlert a) (\<lambda>_. getAccount a))) (\<lambda>_. B) B"
  by (rule triple_bind [OF keeps_create [OF assms]], rule triple_bind [where Q = "\<lambda>_. B"])
    (auto intro: triple_weaken [OF keeps_alert] keeps_getAccount)

end

section \<open>The requests\<close>

text \<open>What a read of account \<open>a\<close> may yield.\<close>

definition read_ok ::
    "(string \<Rightarrow> contact set) \<Rightarrow> (string \<Rightarrow> contact set) \<Rightarrow> string \<Rightarrow> account option \<Rightarrow> bool" where
  "read_ok X G a found \<longleftrightarrow>
     (\<forall>r. found = Some r \<longrightarrow> paired (X a) r \<and> ac_accountId r = Val a \<and> confirmed r \<subseteq> G a \<union> X a)"

lemma may_write_truncate: "may_write X G (account.truncate x) = may_write X G x" for x :: account_item
  by (simp add: may_write_def more_simps)

lemma may_write_columns:
  "may_write X G r \<Longrightarrow> may_write X G (r\<lparr>ac_notifiUserId := u\<rparr>)"
  "may_write X G r \<Longrightarrow> may_write X G (r\<lparr>ac_notifiAlertId := u\<rparr>)"
  "may_write X G (no_columns\<lparr>ac_notifiUserId := u\<rparr>)" for r :: account
  by (simp_all add: may_write_def paired_def together_def confirmed_def no_columns_def)

interpretation bw: account_writes "bounded X G" "may_write X G" a "\<lambda>r. read_ok X G a (Some r)" for X G a
proof unfold_locales
  show "bounded X G (put_account_item i x s)"
    if "bounded X G s" "may_write X G (account.truncate x)" "ac_accountId x = Val i" for s x i
    using that by (intro bounded_put_item) (auto simp: may_write_def more_simps)
  show "bounded X G (put_account_item i (overlay_columns x y) s)"
    if "bounded X G s" "may_write X G (account.truncate x)" "ac_accountId x = Val i" "as_items s i = Some y" for s x i y
    using that by (intro bounded_update_item) (simp_all add: may_write_truncate)
  show "read_ok X G a (Some r)" if "bounded X G s" "as_accounts s a = Some r" for s r
    using that by (simp add: read_ok_def bounded_iff)
  show "read_ok X G a (Some (account.truncate x))" if "bounded X G s" "as_items s a = Some x" for s x
    using that by (simp add: read_ok_def bounded_iff more_simps)
  show "may_write X G r" if "read_ok X G a (Some r)" for r
    using that by (auto simp: may_write_def read_ok_def)
qed (fact bounded_same bounded_put_account may_write_columns)+

lemma was_read_bw: "was_read (\<lambda>r. read_ok X G a (Some r)) = read_ok X G a"
  by (auto simp: fun_eq_iff was_read_def read_ok_def)

lemmas bounded_findById = bw.keeps_findById [unfolded was_read_bw]

text \<open>
  The body of a request to set one address may touch the other: it gives it, or its flag. The body of
  a request gives the address it sets.
\<close>

definition touches_phone :: "account \<Rightarrow> bool" where
  "touches_phone dto \<longleftrightarrow> ac_phoneNumber dto \<noteq> Undefined \<or> ac_isPhoneVerified dto \<noteq> Undefined"

definition touches_email :: "account \<Rightarrow> bool" where
  "touches_email dto \<longleftrightarrow> ac_email dto \<noteq> Undefined \<or> ac_isEmailVerified dto \<noteq> Undefined"

lemma may_write_bodies:
  "(touches_phone e \<Longrightarrow> range Phone \<subseteq> X a) \<Longrightarrow>
     may_write X G (e\<lparr>ac_accountId := Val a, ac_isEmailVerified := Val False\<rparr>)"
  "(touches_email e \<Longrightarrow> range Email \<subseteq> X a) \<Longrightarrow>
     may_write X G (e\<lparr>ac_accountId := Val a, ac_isPhoneVerified := Val False\<rparr>)"
proof -
  have all: "Phone x \<in> X a" if "range Phone \<subseteq> X a" for x using that by blast
  show "may_write X G (e\<lparr>ac_accountId := Val a, ac_isEmailVerified := Val False\<rparr>)"
    if "touches_phone e \<Longrightarrow> range Phone \<subseteq> X a"
    using that all
    by (cases "touches_phone e")
      (auto simp: may_write_def paired_def together_def confirmed_def touches_phone_def)
  have all: "Email x \<in> X a" if "range Email \<subseteq> X a" for x using that by blast
  show "may_write X G (e\<lparr>ac_accountId := Val a, ac_isPhoneVerified := Val False\<rparr>)"
    if "touches_email e \<Longrightarrow> range Email \<subseteq> X a"
    using that all
    by (cases "touches_email e")
      (auto simp: may_write_def paired_def together_def confirmed_def touches_email_def)
qed

lemma bounded_createAccount:
  "(touches_phone e \<Longrightarrow> range Phone \<subseteq> X a) \<Longrightarrow>
     triple (bounded X G) (createAccountEmail a e) (\<lambda>_. bounded X G) (bounded X G)"
  "(touches_email e \<Longrightarrow> range Email \<subseteq> X a) \<Longrightarrow>
     triple (bounded X G) (createAccountPhone a e) (\<lambda>_. bounded X G) (bounded X G)"
  unfolding createAccountEmail_def createAccountPhone_def
  by (rule bw.keeps_contact, rule may_write_bodies, assumption)+

lemma stays_given: "accts.stays (given_account column e found)"
  unfolding given_account_def by (intro accts.stays_intros)

lemma stays_sends:
  "accts.stays (sendEmailVerification a)" "accts.stays (sendPhoneVerification a)"
  "accts.stays (getEmailVerificationStatus a)" "accts.stays (getPhoneVerificationStatus a)"
  "accts.stays (sendNotification n tp)"
  unfolding sendEmailVerification_def sendPhoneVerification_def getEmailVerificationStatus_def
    getPhoneVerificationStatus_def sendNotification_def Let_def
  by (intro accts.stays_intros stays_find stays_given stays_otp stays_notifi)+

lemma bounded_remove: "triple (bounded X G) (account_remove a) (\<lambda>_. bounded X G) (bounded X G)"
proof -
  have "triple (bounded X G) (\<lambda>s. (Inr (as_accounts s a \<noteq> None), s\<lparr>as_accounts := (as_accounts s)(a := None)\<rparr>))
      (\<lambda>_. bounded X G) (bounded X G)"
    by (intro tripleI) (auto simp: bounded_iff)
  then show ?thesis
    unfolding account_remove_def
    by (intro triple_bind [where Q = "\<lambda>_. bounded X G"] triple_if triple_ret triple_fail bw.keeps_access)
qed

section \<open>Codes\<close>

definition codes_of :: "'b account_store_scheme \<Rightarrow> string \<Rightarrow> (string \<times> int) set" where
  "codes_of s address =
     (case as_otps s (buildKey address) of None \<Rightarrow> {} | Some o1 \<Rightarrow> {(ot_hash o1, ot_createdAt o1)})
     \<union> (case map_of (as_otpItems s) (buildKey address) of None \<Rightarrow> {} | Some x \<Rightarrow> {(ot_hash x, ot_createdAt x)})"

text \<open>The code matches one that was created for the address at most 15 minutes before some later moment.\<close>

definition code_accepted :: "'b account_store_scheme \<Rightarrow> string \<Rightarrow> string \<Rightarrow> bool" where
  "code_accepted s address code \<longleftrightarrow> (\<exists>(hash, createdAt) \<in> codes_of s address.
     as_compare s code hash \<and> (\<exists>n \<ge> st_tick s. st_now s n - createdAt < 900000))"

definition same_codes :: "'b account_store_scheme \<Rightarrow> 'b account_store_scheme \<Rightarrow> bool" where
  "same_codes s t \<longleftrightarrow> as_otps t = as_otps s \<and> as_otpItems t = as_otpItems s
     \<and> as_compare t = as_compare s \<and> st_now t = st_now s \<and> st_tick s \<le> st_tick t"

interpretation codes: state_relation same_codes
  by unfold_locales (auto simp: same_codes_def tick_def)

lemma codes_reads:
  "codes.stays notifications_useDynamo" "codes.stays (account_findById a)" "codes.stays (getOtp k)"
  "codes.stays (given_account column e found)"
  unfolding notifications_useDynamo_def flag_on_def account_findById_def find_account_def get_account_item_def
    getOtp_def given_account_def Let_def
  by (intro codes.stays_intros)+

lemma getOtp_found:
  assumes run: "getOtp address s = (Inr (Some o1), t)"
  shows "(ot_hash o1, ot_createdAt o1) \<in> codes_of s address"
    and "st_now s (st_tick s) - ot_createdAt o1 < 900000"
proof -
  have codes: "codes.stays (op_try (access (op_get (\<lambda>s. map_of (as_otpItems s) i))) (\<lambda>e. op_ret None))" for i
    by (intro codes.stays_intros)
  obtain d u where flag: "notifications_useDynamo s = (Inr d, u)"
    using run by (auto simp: getOtp_def Let_def run_op split: prod.splits sum.splits)
  have same: "same_codes s u" by (rule codes.staysD [OF codes_reads(1) flag])
  show "(ot_hash o1, ot_createdAt o1) \<in> codes_of s address"
    and "st_now s (st_tick s) - ot_createdAt o1 < 900000"
    using run flag same
    by (auto simp: getOtp_def Let_def run_op access_def tick_def fresh_def OTP_TTL_def same_codes_def
        codes_of_def otp.defs split: prod.splits sum.splits if_splits option.splits fault.splits)
qed


section \<open>Verification\<close>

text \<open>While an account is read and a code is compared: the bound, and the codes of the start.\<close>

definition verifying ::
    "(string \<Rightarrow> contact set) \<Rightarrow> (string \<Rightarrow> contact set) \<Rightarrow> 'b account_store_scheme \<Rightarrow> 'b account_store_scheme \<Rightarrow> bool" where
  "verifying X G s0 s \<longleftrightarrow> bounded X G s \<and> same_codes s0 s"

lemma verifying_stays:
  assumes "triple (bounded X G) m Q (bounded X G)" and "codes.stays m"
    and "\<And>x s. Q x s \<longleftrightarrow> bounded X G s \<and> q x"
  shows "triple (verifying X G s0) m (\<lambda>x s. verifying X G s0 s \<and> q x) (bounded X G)"
proof (rule tripleI)
  fix s e t assume "verifying X G s0 s" and "m s = (Inl e, t)"
  then show "bounded X G t" using triple_Inl [OF assms(1)] unfolding verifying_def by blast
next
  fix s x t assume v: "verifying X G s0 s" and run: "m s = (Inr x, t)"
  then have "Q x t" using triple_Inr [OF assms(1)] unfolding verifying_def by blast
  moreover have "same_codes s0 t"
    using v codes.staysD [OF assms(2) run] codes.R_trans by (auto simp: verifying_def)
  ultimately show "verifying X G s0 t \<and> q x" using assms(3) by (simp add: verifying_def)
qed

lemma verifying_otp:
  "triple (verifying X G s0) (verifyOtp address code)
     (\<lambda>b s. bounded X G s \<and> (b \<longrightarrow> code_accepted s0 address code)) (bounded X G)"
proof (rule tripleI)
  fix s e t assume v: "verifying X G s0 s" and run: "verifyOtp address code s = (Inl e, t)"
  show "bounded X G t"
    by (rule bounded_same [OF accts.staysD [OF stays_otp(3) run]]) (use v in \<open>simp add: verifying_def\<close>)
next
  fix s b t assume v: "verifying X G s0 s" and run: "verifyOtp address code s = (Inr b, t)"
  have "bounded X G t"
    by (rule bounded_same [OF accts.staysD [OF stays_otp(3) run]]) (use v in \<open>simp add: verifying_def\<close>)
  moreover have "code_accepted s0 address code" if b: b
  proof -
    obtain o1 u where get: "getOtp address s = (Inr (Some o1), u)" and cmp: "as_compare u code (ot_hash o1)"
    proof -
      obtain found u where get: "getOtp address s = (Inr found, u)"
        and rest: "(case found of None \<Rightarrow> op_ret False
          | Some o1 \<Rightarrow> access (op_get (\<lambda>s. as_compare s code (ot_hash o1)))) u = (Inr b, t)"
        using run unfolding verifyOtp_def op_bind_Inr_iff by blast
      then show thesis
        using b that by (cases found) (auto simp: run_op access_def tick_def split: option.splits fault.splits)
    qed
    have "same_codes s0 u"
      using v codes.staysD [OF codes_reads(3) get] codes.R_trans by (auto simp: verifying_def)
    then show ?thesis
      using getOtp_found [OF get] cmp v
      by (auto simp: code_accepted_def verifying_def same_codes_def codes_of_def)
  qed
  ultimately show "bounded X G t \<and> (b \<longrightarrow> code_accepted s0 address code)" by blast
qed

text \<open>The bound after a verification: the start and the accepted addresses.\<close>

definition verified_bound ::
    "'b account_store_scheme \<Rightarrow> string \<Rightarrow> (string \<Rightarrow> contact) \<Rightarrow> string \<Rightarrow> string \<Rightarrow> contact set" where
  "verified_bound s0 a mk code b =
     confirmed_in s0 b \<union> {k. b = a \<and> (\<exists>address. k = mk address \<and> code_accepted s0 address code)}"

lemma verified_start:
  "accounts_ok s0 \<Longrightarrow> contacts_paired X s0 \<Longrightarrow> verifying X (verified_bound s0 a mk code) s0 s0"
  by (auto simp: verifying_def bounded_def verified_bound_def codes.R_refl)

lemma read_filled: "filled v \<Longrightarrow> v = Val (text_of v)"
  by (cases v rule: filled.cases) auto

lemma bounded_verify:
  fixes column :: "account \<Rightarrow> string field"
  assumes marked: "\<And>r. read_ok X (verified_bound s0 a mk code) a (Some r) \<Longrightarrow> filled (column r) \<Longrightarrow>
      code_accepted s0 (text_of (column r)) code \<Longrightarrow>
      may_write X (verified_bound s0 a mk code) (mark r True)"
  shows "triple (verifying X (verified_bound s0 a mk code) s0)
    (op_bind (account_findById a) (\<lambda>found.
     op_bind (given_account column e found) (\<lambda>account.
     op_bind (verifyOtp (text_of (column account)) code) (\<lambda>isVerified.
     if \<not> isVerified then op_fail (wrong_code code)
     else op_bind (account_create (mark account isVerified)) (\<lambda>_. op_ret ())))))
    (\<lambda>_. bounded X (verified_bound s0 a mk code)) (bounded X (verified_bound s0 a mk code))"
    (is "triple _ _ (\<lambda>_. ?B) ?B")
proof -
  let ?V = "verifying X (verified_bound s0 a mk code) s0"
  have finish: "triple (\<lambda>s. ?V s \<and> read_ok X (verified_bound s0 a mk code) a (Some r) \<and> filled (column r))
      (op_bind (verifyOtp (text_of (column r)) code) (\<lambda>isVerified.
        if \<not> isVerified then op_fail (wrong_code code)
        else op_bind (account_create (mark r isVerified)) (\<lambda>_. op_ret ()))) (\<lambda>_. ?B) ?B" for r
  proof (cases "read_ok X (verified_bound s0 a mk code) a (Some r) \<and> filled (column r)")
    case False
    then show ?thesis by (auto simp: triple_def)
  next
    case True
    have last: "triple (\<lambda>s. ?B s \<and> (b \<longrightarrow> code_accepted s0 (text_of (column r)) code))
        (if \<not> b then op_fail (wrong_code code)
         else op_bind (account_create (mark r b)) (\<lambda>_. op_ret ())) (\<lambda>_. ?B) ?B" for b
    proof (cases "b \<and> code_accepted s0 (text_of (column r)) code")
      case False
      then show ?thesis by (cases b) (auto simp: triple_def run_op)
    next
      case ok: True
      have "may_write X (verified_bound s0 a mk code) (mark r True)" using marked [of r] ok True by blast
      then show ?thesis
        using ok triple_weaken [OF bw.keeps_create_unit] by simp
    qed
    show ?thesis
      by (rule triple_weaken [OF triple_bind [OF verifying_otp last]]) simp_all
  qed
  have given: "triple (\<lambda>s. ?V s \<and> read_ok X (verified_bound s0 a mk code) a found) (given_account column e found)
      (\<lambda>r s. ?V s \<and> read_ok X (verified_bound s0 a mk code) a (Some r) \<and> filled (column r)) ?B" for found
    unfolding given_account_def verifying_def
    by (intro tripleI) (auto simp: run_op split: option.splits if_splits)
  show ?thesis
    by (rule triple_bind [OF verifying_stays [OF bounded_findById codes_reads(2)]])
      (auto intro!: triple_bind [OF given] finish)
qed

lemma bounded_verifyEmail:
  "triple (verifying X (verified_bound s0 a Email code) s0) (verifyEmail a code)
     (\<lambda>_. bounded X (verified_bound s0 a Email code)) (bounded X (verified_bound s0 a Email code))"
  unfolding verifyEmail_def
  by (rule bounded_verify [where mark = "\<lambda>r b. mapAccountToAccountDto (r\<lparr>ac_isEmailVerified := Val b\<rparr>)"])
    (auto simp: read_ok_def may_write_def dto_id paired_def together_def confirmed_def verified_bound_def
      dest!: read_filled)

lemma bounded_verifyPhone:
  "triple (verifying X (verified_bound s0 a Phone code) s0) (verifyPhone a code)
     (\<lambda>_. bounded X (verified_bound s0 a Phone code)) (bounded X (verified_bound s0 a Phone code))"
  unfolding verifyPhone_def
  by (rule bounded_verify [where mark = "\<lambda>r b. mapAccountToAccountDto (r\<lparr>ac_isPhoneVerified := Val b\<rparr>)"])
    (auto simp: read_ok_def may_write_def dto_id paired_def together_def confirmed_def verified_bound_def
      dest!: read_filled)


section \<open>Any sequence of requests\<close>

datatype account_request =
    Set_Email string account
  | Set_Phone string account
  | Send_Email string
  | Send_Phone string
  | Email_Status string
  | Phone_Status string
  | Verify_Email string string
  | Verify_Phone string string
  | Read_Account string
  | Remove_Account string
  | Deliver account_notification template_message
  | Expire_Codes

definition op_unit :: "('s, 'a) op \<Rightarrow> ('s, unit) op" where
  "op_unit m = op_bind m (\<lambda>_. op_ret ())"

fun serve :: "account_request \<Rightarrow> ('b account_store_scheme, unit) op" where
  "serve (Set_Email a e) = op_unit (createAccountEmail a e)"
| "serve (Set_Phone a p) = op_unit (createAccountPhone a p)"
| "serve (Send_Email a) = op_unit (sendEmailVerification a)"
| "serve (Send_Phone a) = op_unit (sendPhoneVerification a)"
| "serve (Email_Status a) = op_unit (getEmailVerificationStatus a)"
| "serve (Phone_Status a) = op_unit (getPhoneVerificationStatus a)"
| "serve (Verify_Email a code) = verifyEmail a code"
| "serve (Verify_Phone a code) = verifyPhone a code"
| "serve (Read_Account a) = op_unit (getAccount a)"
| "serve (Remove_Account a) = account_remove a"
| "serve (Deliver n template) = sendNotification n template"
| "serve Expire_Codes = deleteExpired"

text \<open>The state after requests one after the other, whether they succeed or not.\<close>

definition serve_all :: "account_request list \<Rightarrow> 'b account_store_scheme \<Rightarrow> 'b account_store_scheme" where
  "serve_all qs s = fold (\<lambda>q s. snd (serve q s)) qs s"

lemma serve_all_simps [simp]:
  "serve_all [] s = s"
  "serve_all (qs @ [q]) s = snd (serve q (serve_all qs s))"
  by (simp_all add: serve_all_def)

fun confirms :: "account_request \<Rightarrow> string \<Rightarrow> contact \<Rightarrow> string option" where
  "confirms (Verify_Email a code) b (Email e) = (if a = b then Some code else None)"
| "confirms (Verify_Phone a code) b (Phone p) = (if a = b then Some code else None)"
| "confirms _ _ _ = None"

fun address :: "contact \<Rightarrow> string" where
  "address (Email e) = e"
| "address (Phone p) = p"

text \<open>The requests that carry the other address, or its flag, in the body.\<close>

fun tampers :: "account_request \<Rightarrow> string \<Rightarrow> contact \<Rightarrow> bool" where
  "tampers (Set_Email a body) b (Phone p) \<longleftrightarrow> a = b
     \<and> (ac_phoneNumber body \<noteq> Undefined \<or> ac_isPhoneVerified body \<noteq> Undefined)"
| "tampers (Set_Phone a body) b (Email e) \<longleftrightarrow> a = b
     \<and> (ac_email body \<noteq> Undefined \<or> ac_isEmailVerified body \<noteq> Undefined)"
| "tampers _ _ _ \<longleftrightarrow> False"

definition tampered :: "account_request set \<Rightarrow> string \<Rightarrow> contact set" where
  "tampered Q a = {k. \<exists>q \<in> Q. tampers q a k}"

lemma tampered_all:
  "Set_Email a body \<in> Q \<Longrightarrow> touches_phone body \<Longrightarrow> range Phone \<subseteq> tampered Q a"
  "Set_Phone a body \<in> Q \<Longrightarrow> touches_email body \<Longrightarrow> range Email \<subseteq> tampered Q a"
  by (force simp: tampered_def touches_phone_def touches_email_def)+

lemma contacts_paired_mono:
  assumes "contacts_paired X s" and "\<And>a. X a \<subseteq> Y a"
  shows "contacts_paired Y s"
  unfolding contacts_paired_def
proof (intro conjI allI impI)
  show "paired (Y a) r" if "as_accounts s a = Some r" for a r
    by (rule paired_mono [OF assms(1) [unfolded contacts_paired_def, THEN conjunct1, rule_format, OF that] assms(2)])
  show "paired (Y a) x" if "as_items s a = Some x" for a x
    by (rule paired_mono [OF assms(1) [unfolded contacts_paired_def, THEN conjunct2, rule_format, OF that] assms(2)])
qed

lemma bounded_unit:
  "triple (bounded X G) m (\<lambda>_. bounded X G) (bounded X G) \<Longrightarrow>
     triple (bounded X G) (op_unit m) (\<lambda>_. bounded X G) (bounded X G)"
  unfolding op_unit_def by (rule triple_bind) (auto intro: triple_ret)

lemma bounded_serve:
  assumes "\<forall>a c. q \<noteq> Verify_Email a c \<and> q \<noteq> Verify_Phone a c" and "q \<in> Q"
  shows "triple (bounded (tampered Q) G) (serve q) (\<lambda>_. bounded (tampered Q) G) (bounded (tampered Q) G)"
  using assms
  by (cases q)
    (simp_all add: bounded_unit bounded_createAccount tampered_all bw.keeps_stays stays_sends bounded_remove
      bw.keeps_getAccount)

lemma bounded_own: "accounts_ok s \<Longrightarrow> contacts_paired X s \<Longrightarrow> bounded X (confirmed_in s) s"
  by (simp add: bounded_def)

lemma serve_confirms:
  assumes ok: "accounts_ok s" "contacts_paired (tampered Q) s" and q: "q \<in> Q"
  shows "accounts_ok (snd (serve q s)) \<and> contacts_paired (tampered Q) (snd (serve q s))
    \<and> (\<forall>a k. k \<in> confirmed_in (snd (serve q s)) a \<longrightarrow> k \<in> tampered Q a
        \<or> k \<in> confirmed_in s a \<or> (\<exists>code. confirms q a k = Some code \<and> code_accepted s (address k) code))"
proof -
  consider (email) a c where "q = Verify_Email a c" | (phone) a c where "q = Verify_Phone a c"
    | (other) "\<forall>a c. q \<noteq> Verify_Email a c \<and> q \<noteq> Verify_Phone a c" by blast
  then show ?thesis
  proof cases
    case email
    then have "bounded (tampered Q) (verified_bound s a Email c) (snd (serve q s))"
      using triple_end [OF bounded_verifyEmail verified_start [OF ok]] by simp
    then show ?thesis using email by (fastforce simp: bounded_def verified_bound_def)
  next
    case phone
    then have "bounded (tampered Q) (verified_bound s a Phone c) (snd (serve q s))"
      using triple_end [OF bounded_verifyPhone verified_start [OF ok]] by simp
    then show ?thesis using phone by (fastforce simp: bounded_def verified_bound_def)
  next
    case other
    have "bounded (tampered Q) (confirmed_in s) (snd (serve q s))"
      by (rule triple_end [OF bounded_serve [OF other q] bounded_own [OF ok]])
    then show ?thesis by (auto simp: bounded_def)
  qed
qed

lemma serve_all_confirms:
  assumes "accounts_ok s" and "contacts_paired (tampered Q) s" and "set qs \<subseteq> Q"
  shows "accounts_ok (serve_all qs s) \<and> contacts_paired (tampered Q) (serve_all qs s)
    \<and> (\<forall>a k. k \<in> confirmed_in (serve_all qs s) a \<longrightarrow> k \<in> tampered Q a
        \<or> k \<in> confirmed_in s a \<or> (\<exists>qs1 q qs2 code. qs = qs1 @ q # qs2 \<and> confirms q a k = Some code
        \<and> code_accepted (serve_all qs1 s) (address k) code))"
  using assms(3)
proof (induction qs rule: rev_induct)
  case Nil
  then show ?case using assms(1,2) by simp
next
  case (snoc q qs)
  then have IH: "accounts_ok (serve_all qs s)" "contacts_paired (tampered Q) (serve_all qs s)"
    "\<And>a k. k \<in> confirmed_in (serve_all qs s) a \<Longrightarrow> k \<in> tampered Q a
        \<or> k \<in> confirmed_in s a \<or> (\<exists>qs1 q qs2 code. qs = qs1 @ q # qs2 \<and> confirms q a k = Some code
        \<and> code_accepted (serve_all qs1 s) (address k) code)" by auto
  have "q \<in> Q" using snoc.prems by simp
  note step = serve_confirms [OF IH(1,2) this]
  have "k \<in> tampered Q a \<or> k \<in> confirmed_in s a
      \<or> (\<exists>qs1 q' qs2 code. qs @ [q] = qs1 @ q' # qs2 \<and> confirms q' a k = Some code
        \<and> code_accepted (serve_all qs1 s) (address k) code)"
    if k: "k \<in> confirmed_in (serve_all (qs @ [q]) s) a" for a k
  proof -
    consider (now) code where "confirms q a k = Some code" "code_accepted (serve_all qs s) (address k) code"
      | (before) "k \<in> confirmed_in (serve_all qs s) a" | (body) "k \<in> tampered Q a"
      using step k by auto
    then show ?thesis
    proof cases
      case now
      then show ?thesis by blast
    next
      case before
      then consider "k \<in> tampered Q a \<or> k \<in> confirmed_in s a"
        | qs1 q' qs2 code where "qs = qs1 @ q' # qs2" "confirms q' a k = Some code"
          "code_accepted (serve_all qs1 s) (address k) code"
        using IH(3) by blast
      then show ?thesis
      proof cases
        case 2
        then have "qs @ [q] = qs1 @ q' # (qs2 @ [q])" by simp
        then show ?thesis using 2 by blast
      qed blast
    qed blast
  qed
  then show ?case using step by simp
qed


section \<open>Codes in calm states\<close>

lemma calm_flag: "calm s \<Longrightarrow> \<exists>d. notifications_useDynamo s = (Inr d, tick s)"
  by (simp add: notifications_useDynamo_def flag_on_def run_access run_op)

lemma calm_getOtp:
  assumes "calm s"
  obtains t where "getOtp k s = (Inr (case as_otps s (buildKey k) of None \<Rightarrow> None
        | Some o1 \<Rightarrow> if st_now s (st_tick s) - ot_createdAt o1 < 900000 then Some o1 else None), t)"
    and "same_accounts s t" and "same_codes s t" and "calm t" and "as_notifi t = as_notifi s"
  | t where "getOtp k s = (Inr (case map_of (as_otpItems s) (buildKey k) of None \<Rightarrow> None
        | Some x \<Rightarrow> if st_now s (st_tick s) - ot_createdAt x < 900000 then Some (otp.truncate x) else None), t)"
    and "same_accounts s t" and "same_codes s t" and "calm t" and "as_notifi t = as_notifi s"
proof -
  obtain d where d: "notifications_useDynamo s = (Inr d, tick s)" using calm_flag [OF assms] by blast
  have same: "same_accounts s (tick (tick s))" "same_codes s (tick (tick s))" "calm (tick (tick s))"
      "as_notifi (tick (tick s)) = as_notifi s"
    using assms by (simp_all add: same_accounts_def same_codes_def tick_def calm_def)
  have tables: "as_otps (tick s) = as_otps s" "as_otpItems (tick s) = as_otpItems s"
    "as_otps (tick (tick s)) = as_otps s" "as_otpItems (tick (tick s)) = as_otpItems s"
    by (simp_all add: tick_def)
  have now: "fresh (st_now s (st_tick s) - OTP_TTL * 1000) x \<longleftrightarrow> st_now s (st_tick s) - ot_createdAt x < 900000"
    for x :: "'x otp_scheme" by (auto simp: fresh_def OTP_TTL_def)
  show thesis
  proof (cases d)
    case True
    then show thesis
      by (intro that(2) [OF _ same])
        (simp add: getOtp_def Let_def run_op d run_access assms now tables cong: option.case_cong)
  next
    case False
    then show thesis
      by (intro that(1) [OF _ same])
        (simp add: getOtp_def Let_def run_op d run_access assms now tables cong: option.case_cong)
  qed
qed

text \<open>The code \<open>createOtp\<close> makes and what it stores.\<close>

definition new_code :: "'b account_store_scheme \<Rightarrow> string" where
  "new_code s = generateOtp (as_random s (st_tick s)) 6"

definition new_otp :: "'b account_store_scheme \<Rightarrow> string \<Rightarrow> otp" where
  "new_otp s k = (let now = st_now s (Suc (st_tick s)) in
     \<lparr> ot_key = buildKey k, ot_hash = as_hash s (Suc (st_tick s)) (new_code s), ot_createdAt = now,
       ot_ttl = round_seconds now + OTP_TTL \<rparr>)"

definition code_stored :: "string \<Rightarrow> otp \<Rightarrow> 'b account_store_scheme \<Rightarrow> bool" where
  "code_stored k o1 t \<longleftrightarrow> as_otps t (buildKey k) = Some o1
     \<and> map_of (as_otpItems t) (buildKey k) = Some (mapOtpToOtpModel (ot_createdAt o1) o1)"

lemma calm_createOtp:
  assumes "calm s"
  obtains t where "createOtp k s = (Inr (new_code s), t)" and "code_stored k (new_otp s k) t"
    and "same_accounts s t" and "calm t" and "as_notifi t = as_notifi s" and "as_compare t = as_compare s"
proof -
  have key: "ot_key (mapOtpToOtpModel n (new_otp s k)) = buildKey k" for n
    by (simp add: mapOtpToOtpModel_def new_otp_def otp.defs Let_def)
  obtain r t where run: "createOtp k s = (r, t)" by fastforce
  then have "r = Inr (new_code s)" and "as_otps t = (as_otps s)(buildKey k \<mapsto> new_otp s k)"
    and "as_otpItems t = as_otpItems (put_otp_item (mapOtpToOtpModel (ot_createdAt (new_otp s k)) (new_otp s k)) s)"
    and same: "same_accounts s t" "calm t" "as_notifi t = as_notifi s" "as_compare t = as_compare s"
    using assms
    by (auto simp: createOtp_def hash_otp_def Let_def run_op run_access save_otp_item_def save_otp_def
        tick_def put_otp_item_def same_accounts_def calm_def new_code_def new_otp_def otp.defs
        mapOtpToOtpModel_def split: if_splits)
  then have "code_stored k (new_otp s k) t" by (simp add: code_stored_def put_otp_item_def key)
  then show thesis using that run \<open>r = Inr (new_code s)\<close> same by simp
qed

text \<open>
  C33. While no request fails, a code created for an address is accepted, by the flag's choice of
  either store, as long as it is the last one created for the address and younger than 15
  minutes, and only then; a code is compared with the stored hash. Accepting it does not use it up.
\<close>

theorem code_accepted_15_minutes:
  assumes calm: "calm s" "calm u" and created: "createOtp k s = (r, t)"
    and kept: "as_otps u = as_otps t" "as_otpItems u = as_otpItems t" "as_compare u = as_compare t"
  shows "r = Inr (new_code s)
     \<and> fst (verifyOtp k c u) = Inr (st_now u (st_tick u) - st_now s (Suc (st_tick s)) < 900000
          \<and> as_compare s c (as_hash s (Suc (st_tick s)) (new_code s)))"
proof -
  obtain t' where c: "createOtp k s = (Inr (new_code s), t')" "code_stored k (new_otp s k) t'"
    "as_compare t' = as_compare s" using calm_createOtp [OF calm(1)] by metis
  then have t': "t' = t" "r = Inr (new_code s)" using created by auto
  let ?young = "st_now u (st_tick u) - st_now s (Suc (st_tick s)) < 900000"
  have o1: "ot_createdAt (new_otp s k) = st_now s (Suc (st_tick s))"
    "ot_hash (new_otp s k) = as_hash s (Suc (st_tick s)) (new_code s)" by (simp_all add: new_otp_def Let_def)
  obtain u' where get: "getOtp k u = (Inr (if ?young then Some (new_otp s k) else None), u')"
    and u': "calm u'" "same_codes u u'"
    by (rule calm_getOtp [OF calm(2), of k])
      (use c(2) t'(1) kept o1 in \<open>simp_all add: code_stored_def mapOtpToOtpModel_def otp.defs\<close>)
  have "as_compare (tick u') = as_compare s"
    using u'(2) kept c(3) t' by (simp add: same_codes_def tick_def)
  then have "fst (verifyOtp k c u) = Inr (?young \<and> as_compare s c (as_hash s (Suc (st_tick s)) (new_code s)))"
    using o1 by (simp add: verifyOtp_def run_op get run_access u'(1))
  then show ?thesis using t'(2) by simp
qed


text \<open>
  C9. In any sequence of requests, whichever of their accesses fail, an address of an account that
  either store has as confirmed was confirmed at the start, or by a request to verify it whose code
  matched one stored for that address, created at most 15 minutes before, or the account has sent a
  request to set its other address whose body carries an address or a flag of this kind.
\<close>

theorem confirmed_by_code:
  assumes "accounts_ok s" and "contacts_paired (\<lambda>a. {}) s"
  shows "accounts_ok (serve_all qs s) \<and> (\<forall>a k. k \<in> confirmed_in (serve_all qs s) a \<longrightarrow>
     k \<in> confirmed_in s a
     \<or> (\<exists>qs1 q qs2 code. qs = qs1 @ q # qs2 \<and> confirms q a k = Some code
          \<and> code_accepted (serve_all qs1 s) (address k) code)
     \<or> (\<exists>q \<in> set qs. tampers q a k))"
proof -
  have "contacts_paired (tampered (set qs)) s"
    by (rule contacts_paired_mono [OF assms(2)]) simp
  from serve_all_confirms [OF assms(1) this order_refl] show ?thesis
    unfolding tampered_def by blast
qed

section \<open>The first verification of a phone\<close>

lemma calm_findById:
  assumes "calm s"
  obtains t where "account_findById a s = (Inr (as_accounts s a), t)" "same_accounts s t" "same_codes s t"
      "calm t" "as_notifi t = as_notifi s"
  | t where "account_findById a s = (Inr (map_option account.truncate (as_items s a)), t)" "same_accounts s t"
      "same_codes s t" "calm t" "as_notifi t = as_notifi s"
proof -
  obtain d where d: "notifications_useDynamo s = (Inr d, tick s)" using calm_flag [OF assms] by blast
  have same: "same_accounts s (tick (tick s))" "same_codes s (tick (tick s))" "calm (tick (tick s))"
      "as_notifi (tick (tick s)) = as_notifi s"
    using assms by (simp_all add: same_accounts_def same_codes_def tick_def calm_def)
  have tables: "as_items (tick (tick s)) = as_items s" "as_accounts (tick (tick s)) = as_accounts s"
    by (simp_all add: tick_def)
  show thesis
    by (cases d; rule that [OF _ same];
        simp add: account_findById_def find_account_def get_account_item_def run_op d run_access assms tables)
qed

definition has_phone :: "'b account_scheme option \<Rightarrow> string \<Rightarrow> bool" where
  "has_phone found p \<longleftrightarrow> (\<exists>r. found = Some r \<and> ac_phoneNumber r = Val p \<and> \<not> holds (ac_isPhoneVerified r))"

lemma has_phone_truncate: "has_phone (map_option account.truncate found) p = has_phone found p"
  by (auto simp: has_phone_def account.defs)

lemma calm_find_phone:
  assumes "calm s" and "has_phone (as_accounts s a) p" and "has_phone (as_items s a) p"
  obtains r t where "account_findById a s = (Inr (Some r), t)" "ac_phoneNumber r = Val p"
    "\<not> holds (ac_isPhoneVerified r)" "same_accounts s t" "same_codes s t" "calm t" "as_notifi t = as_notifi s"
proof -
  have h: "has_phone (map_option account.truncate (as_items s a)) p"
    using assms(3) by (simp add: has_phone_truncate)
  show thesis
    by (rule calm_findById [OF assms(1), of a]; use assms(2) h that in \<open>force simp: has_phone_def\<close>)
qed

lemma phone_resend_refused:
  assumes calm: "calm u" and account: "has_phone (as_accounts u a) p" "has_phone (as_items u a) p"
    and p: "p \<noteq> []" and code: "code_stored p o1 u" and young: "\<forall>n. st_now u n - ot_createdAt o1 < 60000"
  shows "fst (sendPhoneVerification a u) = Inl (HttpError 400
      ''Phone verification already sent. Could be resend after 60 seconds'')"
proof -
  obtain r u1 where find: "account_findById a u = (Inr (Some r), u1)" "ac_phoneNumber r = Val p"
    "\<not> holds (ac_isPhoneVerified r)" and u1: "same_codes u u1" "calm u1"
    by (rule calm_find_phone [OF calm account])
  have now: "st_now u1 n - ot_createdAt o1 < 60000" for n using young u1(1) by (simp add: same_codes_def)
  have "st_now u1 (st_tick u1) - ot_createdAt o1 < 900000" using now [of "st_tick u1"] by simp
  moreover have "code_stored p o1 u1" using code u1(1) by (simp add: code_stored_def same_codes_def)
  ultimately obtain o2 u2 where get: "getOtp p u1 = (Inr (Some o2), u2)" "ot_createdAt o2 = ot_createdAt o1"
    and u2: "same_codes u1 u2"
    by (rule_tac calm_getOtp [OF u1(2), of p]) (simp_all add: code_stored_def mapOtpToOtpModel_def otp.defs)
  have "st_now u2 (st_tick u2) - ot_createdAt o2 < 60000" using now get(2) u2 by (simp add: same_codes_def)
  then show ?thesis
    by (simp add: sendPhoneVerification_def run_op find given_account_def p get sent_lately_def)
qed

text \<open>
  C31. While no request fails: for a phone without a code in either store, the request to verify it
  stores a new code and then fails with a TypeError, without a message to the phone; and as long as
  that code is younger than a minute, the next request is refused.
\<close>

theorem first_phone_verification:
  assumes calm: "calm s" and p: "p \<noteq> []"
    and account: "has_phone (as_accounts s a) p" "has_phone (as_items s a) p"
    and no_code: "as_otps s (buildKey p) = None" "map_of (as_otpItems s) (buildKey p) = None"
  shows "\<exists>t o1. sendPhoneVerification a s = (Inl (TypeError ''hash''), t) \<and> code_stored p o1 t
     \<and> as_notifi t = as_notifi s
     \<and> (\<forall>u. calm u \<and> same_accounts t u \<and> code_stored p o1 u \<and> (\<forall>n. st_now u n - ot_createdAt o1 < 60000)
          \<longrightarrow> fst (sendPhoneVerification a u) = Inl (HttpError 400
                ''Phone verification already sent. Could be resend after 60 seconds''))"
proof -
  obtain r s1 where find: "account_findById a s = (Inr (Some r), s1)" "ac_phoneNumber r = Val p"
    "\<not> holds (ac_isPhoneVerified r)" and s1: "same_accounts s s1" "same_codes s s1" "calm s1"
    "as_notifi s1 = as_notifi s"
    by (rule calm_find_phone [OF calm account])
  obtain s2 where get: "getOtp p s1 = (Inr None, s2)" and s2: "same_accounts s1 s2" "calm s2"
    "as_notifi s2 = as_notifi s1"
    by (rule calm_getOtp [OF s1(3), of p]) (use no_code s1(2) in \<open>simp_all add: same_codes_def\<close>)
  obtain t where made: "createOtp p s2 = (Inr (new_code s2), t)" "code_stored p (new_otp s2 p) t"
    and t: "same_accounts s2 t" "as_notifi t = as_notifi s2"
    by (rule calm_createOtp [OF s2(2)])
  have run: "sendPhoneVerification a s = (Inl (TypeError ''hash''), t)"
    by (simp add: sendPhoneVerification_def run_op find given_account_def p get sent_lately_def made(1))
  have acc: "as_accounts t = as_accounts s" "as_items t = as_items s" and silent: "as_notifi t = as_notifi s"
    using t s2 s1 by (simp_all add: same_accounts_def)
  have "fst (sendPhoneVerification a u) = Inl (HttpError 400
      ''Phone verification already sent. Could be resend after 60 seconds'')"
    if "calm u" "same_accounts t u" "code_stored p (new_otp s2 p) u"
      "\<forall>n. st_now u n - ot_createdAt (new_otp s2 p) < 60000" for u
    by (rule phone_resend_refused [OF that(1) _ _ p that(3,4)])
      (use that(2) account acc in \<open>simp_all add: same_accounts_def\<close>)
  then show ?thesis using run made(2) silent by blast
qed


section \<open>Witnesses\<close>

text \<open>An empty store: no request fails, the clock stands still, hashing is the identity.\<close>

definition sample_accounts :: account_store where
  "sample_accounts = \<lparr> st_tick = 0, st_faults = (\<lambda>n. None), st_now = (\<lambda>n. 1000), st_newId = (\<lambda>n. []),
     as_accounts = (\<lambda>a. None), as_items = (\<lambda>a. None), as_otps = (\<lambda>k. None), as_otpItems = [],
     as_flags = (\<lambda>n f. False), as_page = (\<lambda>n k. True), as_notifi = [], as_token = [],
     as_tokenExpiry = Some 0, as_login = (\<lambda>n. (''jwt'', Some 5000)), as_userId = (\<lambda>n. ''user''),
     as_alertId = (\<lambda>n. ''alert''), as_random = (\<lambda>n i. 0), as_hash = (\<lambda>n c. c),
     as_compare = (\<lambda>c h. c = h), as_prefix = ''astro'' \<rparr>"

lemma accounts_calm: "calm sample_accounts"
  by (simp add: calm_def sample_accounts_def)

lemma sample_code: "new_code sample_accounts = ''000000''"
  by code_simp

text \<open>The code is accepted right after it was created; a different one is not.\<close>

lemma code_accepted_15_minutes_witness:
  "fst (verifyOtp ''a@b.c'' ''000000'' (snd (createOtp ''a@b.c'' sample_accounts))) = Inr True
   \<and> fst (verifyOtp ''a@b.c'' ''000001'' (snd (createOtp ''a@b.c'' sample_accounts))) = Inr False"
proof -
  let ?t = "snd (createOtp ''a@b.c'' sample_accounts)"
  obtain t where t: "createOtp ''a@b.c'' sample_accounts = (Inr (new_code sample_accounts), t)" "calm t"
    by (rule calm_createOtp [OF accounts_calm])
  then have calm: "calm ?t" by simp
  have run: "createOtp ''a@b.c'' sample_accounts = (fst (createOtp ''a@b.c'' sample_accounts), ?t)" by simp
  have now: "st_now ?t n = 1000" for n
    by (simp add: createOtp_def hash_otp_def Let_def run_op run_access accounts_calm save_otp_item_def
        save_otp_def access_def tick_def put_otp_item_def sample_accounts_def)
  show ?thesis
    using code_accepted_15_minutes [OF accounts_calm calm run refl refl refl, of "''000000''"]
      code_accepted_15_minutes [OF accounts_calm calm run refl refl refl, of "''000001''"] now
    by (simp add: sample_code) (simp add: sample_accounts_def)
qed


text \<open>
  An account sets its e-mail, asks for a code and confirms it: the request is the one that did. And it
  sets its phone, and its e-mail with the flag of the phone in the body: the phone counts as confirmed,
  without any code.
\<close>

definition email_body :: account where
  "email_body = no_columns\<lparr>ac_email := Val ''a@b.c''\<rparr>"

definition phone_body :: account where
  "phone_body = no_columns\<lparr>ac_phoneNumber := Val ''+15550001111''\<rparr>"

lemma sample_confirmed:
  "Email ''a@b.c'' \<in> confirmed_in (serve_all [Set_Email ''ann'' email_body, Send_Email ''ann'',
      Verify_Email ''ann'' ''000000''] sample_accounts) ''ann''"
proof -
  have "(case as_accounts (serve_all [Set_Email ''ann'' email_body, Send_Email ''ann'',
      Verify_Email ''ann'' ''000000''] sample_accounts) ''ann'' of
        Some r \<Rightarrow> ac_email r = Val ''a@b.c'' \<and> ac_isEmailVerified r = Val True | None \<Rightarrow> False)"
    by code_simp
  then show ?thesis by (auto simp: confirmed_in_def confirmed_def split: option.splits)
qed

lemma flag_in_body_confirms:
  "Phone ''+15550001111'' \<in> confirmed_in (serve_all [Set_Phone ''ann'' phone_body,
      Set_Email ''ann'' (email_body\<lparr>ac_isPhoneVerified := Val True\<rparr>)] sample_accounts) ''ann''"
proof -
  have "(case as_accounts (serve_all [Set_Phone ''ann'' phone_body,
      Set_Email ''ann'' (email_body\<lparr>ac_isPhoneVerified := Val True\<rparr>)] sample_accounts) ''ann'' of
        Some r \<Rightarrow> ac_phoneNumber r = Val ''+15550001111'' \<and> ac_isPhoneVerified r = Val True | None \<Rightarrow> False)"
    by code_simp
  then show ?thesis by (auto simp: confirmed_in_def confirmed_def split: option.splits)
qed

lemma confirmed_by_code_witness:
  "(\<exists>qs1 q qs2 code. [Set_Email ''ann'' email_body, Send_Email ''ann'', Verify_Email ''ann'' ''000000'']
        = qs1 @ q # qs2 \<and> confirms q ''ann'' (Email ''a@b.c'') = Some code
      \<and> code_accepted (serve_all qs1 sample_accounts) ''a@b.c'' code)
   \<and> Phone ''+15550001111'' \<in> confirmed_in (serve_all [Set_Phone ''ann'' phone_body,
        Set_Email ''ann'' (email_body\<lparr>ac_isPhoneVerified := Val True\<rparr>)] sample_accounts) ''ann''"
proof -
  have start: "accounts_ok sample_accounts" "contacts_paired (\<lambda>a. {}) sample_accounts"
    and none: "confirmed_in sample_accounts ''ann'' = {}"
    by (simp_all add: accounts_ok_def contacts_paired_def confirmed_in_def sample_accounts_def)
  let ?qs = "[Set_Email ''ann'' email_body, Send_Email ''ann'', Verify_Email ''ann'' ''000000'']"
  have "\<not> (\<exists>q \<in> set ?qs. tampers q ''ann'' (Email ''a@b.c''))" by simp
  then show ?thesis
    using conjunct2 [OF confirmed_by_code [OF start]] sample_confirmed none flag_in_body_confirms by fastforce
qed

text \<open>An account with a phone: the request to verify it fails and sends nothing.\<close>

definition phone_row :: account where
  "phone_row = empty_row\<lparr>ac_accountId := Val ''ann'', ac_phoneNumber := Val ''+15550001111'',
     ac_isPhoneVerified := Val False\<rparr>"

definition phone_accounts :: account_store where
  "phone_accounts = sample_accounts\<lparr>as_accounts := [''ann'' \<mapsto> phone_row],
     as_items := [''ann'' \<mapsto> mapAccountDtoToAccountModel 0 phone_row]\<rparr>"

lemma first_phone_verification_witness:
  "\<exists>t. sendPhoneVerification ''ann'' phone_accounts = (Inl (TypeError ''hash''), t)
      \<and> as_notifi t = []"
proof -
  have "calm phone_accounts" by (simp add: calm_def phone_accounts_def sample_accounts_def)
  moreover have "has_phone (as_accounts phone_accounts ''ann'') ''+15550001111''"
    "has_phone (as_items phone_accounts ''ann'') ''+15550001111''"
    by (simp_all add: has_phone_def phone_accounts_def phone_row_def holds_def
        mapAccountDtoToAccountModel_def account.defs)
  moreover have "as_otps phone_accounts k = None" "map_of (as_otpItems phone_accounts) k = None"
    "as_notifi phone_accounts = []" for k
    by (simp_all add: phone_accounts_def sample_accounts_def)
  ultimately show ?thesis
    using first_phone_verification [of phone_accounts "''+15550001111''" "''ann''"] by auto
qed

end
