(* ===== verification/Notifier_Facts.thy ===== *)
theory Notifier_Facts
  imports Notifications Account_Facts
begin

text \<open>
  Who is told about an update and how (\<open>who_is_notified\<close>, \<open>messages_as_allowed\<close>), and what the lists of
  an account's notifications say: they agree with the stored flags after reading all of them, but not
  after archiving (\<open>read_all_reads\<close>, \<open>archive_all_archives_unread\<close>).
\<close>

section \<open>Who is notified\<close>

text \<open>An account must act on a new proposal if it may vote on it.\<close>

definition must_act :: "string \<Rightarrow> notification \<Rightarrow> bool" where
  "must_act a n \<longleftrightarrow> (\<exists>p. notified n = Some p \<and> ntf_status n = Some NS_Created
     \<and> (\<exists>roles. notified_roles n = Some roles
        \<and> (holds_permission roles a None (Some (kind_type (np_kind p))) ''VoteApprove''
           \<or> holds_permission roles a None (Some (kind_type (np_kind p))) ''VoteReject'')))"

text \<open>The settings of an account for the notification's DAO or for all DAOs, and what they allow.\<close>

definition own_settings :: "string \<Rightarrow> notification \<Rightarrow> notification_setting list \<Rightarrow> notification_setting list" where
  "own_settings a n settings = filter (applies_to a (ntf_daoId n)) settings"

definition told :: "notification_setting list \<Rightarrow> notification \<Rightarrow> string \<Rightarrow> bool" where
  "told settings n a \<longleftrightarrow>
     (if own_settings a n settings = [] then must_act a n
      else (must_act a n \<or> (\<forall>x \<in> set (own_settings a n settings). \<not> se_actionRequiredOnly x))
        \<and> (\<exists>x \<in> set (own_settings a n settings). ntf_type n \<in> set (se_types x)))"

text \<open>Some setting mutes everything, or until a later time.\<close>

definition silenced :: "int \<Rightarrow> notification_setting list \<Rightarrow> notification \<Rightarrow> string \<Rightarrow> bool" where
  "silenced now settings n a \<longleftrightarrow> (\<exists>x \<in> set (own_settings a n settings). se_isAllMuted x
     \<or> (\<exists>t u. se_mutedUntilTimestamp x = Some t \<and> t \<noteq> [] \<and> parse_bigint t = Inr u \<and> u > now * 1000000))"

lemma permissions_hold:
  assumes "getAccountPermissions roles type (Some a) bal = Inr p" and "a \<noteq> []"
  shows "canApprove p = holds_permission roles a bal type ''VoteApprove''"
    and "canReject p = holds_permission roles a bal type ''VoteReject''"
  using assms
  by (auto simp: getAccountPermissions_def Let_def res_bind_Inr_iff checkPermissions_collect)

lemma checkActionRequired_must_act:
  "checkActionRequired a n = Inr b \<Longrightarrow> a \<noteq> [] \<Longrightarrow> b = must_act a n"
  by (auto simp: checkActionRequired_def must_act_def notified_def res_bind_Inr_iff permissions_hold
      split: option.splits if_splits)

lemma some_res_True: "some_res p xs = Inr True \<Longrightarrow> \<exists>x \<in> set xs. p x = Inr True"
  by (induction xs) (auto simp: res_bind_Inr_iff split: if_splits)

lemma some_res_False: "some_res p xs = Inr False \<Longrightarrow> x \<in> set xs \<Longrightarrow> p x = Inr False"
  by (induction xs) (auto simp: res_bind_Inr_iff split: if_splits)

lemma muted_True: "muted now x = Inr True \<Longrightarrow> se_isAllMuted x
     \<or> (\<exists>t u. se_mutedUntilTimestamp x = Some t \<and> t \<noteq> [] \<and> parse_bigint t = Inr u \<and> u > now)"
  by (auto simp: muted_def res_bind_Inr_iff split: option.splits if_splits)

lemma muted_False: "muted now x = Inr False \<Longrightarrow> \<not> (se_isAllMuted x
     \<or> (\<exists>t u. se_mutedUntilTimestamp x = Some t \<and> t \<noteq> [] \<and> parse_bigint t = Inr u \<and> u > now))"
  by (auto simp: muted_def res_bind_Inr_iff split: option.splits if_splits)

lemma some_muted:
  assumes "some_res (muted (now * 1000000)) (own_settings a n settings) = Inr b"
  shows "b = silenced now settings n a"
proof (cases b)
  case True
  then obtain x where "x \<in> set (own_settings a n settings)" "muted (now * 1000000) x = Inr True"
    using some_res_True [of "muted (now * 1000000)" "own_settings a n settings"] assms by auto
  then show ?thesis using True muted_True unfolding silenced_def by blast
next
  case False
  then have "muted (now * 1000000) x = Inr False" if "x \<in> set (own_settings a n settings)" for x
    using some_res_False [of "muted (now * 1000000)" "own_settings a n settings"] that assms by simp
  then have "\<not> silenced now settings n a" using muted_False unfolding silenced_def by blast
  then show ?thesis using False by simp
qed

lemma getNotifyAccountStatus_spec:
  assumes st: "getNotifyAccountStatus now a n settings = Inr st" and a: "a \<noteq> []"
  shows "ny_shouldNotify st = told settings n a"
    and "ny_isPhone st = (\<exists>x \<in> set (own_settings a n settings). se_enableSms x)"
    and "ny_isEmail st = (\<exists>x \<in> set (own_settings a n settings). se_enableEmail x)"
    and "ny_isDisabled st = silenced now settings n a"
proof -
  have now: "parse_bigint (getBlockTimestamp now) = Inr (now * 1000000)"
    by (simp add: getBlockTimestamp_def)
  obtain b where act: "checkActionRequired a n = Inr b"
    using st by (auto simp: getNotifyAccountStatus_def res_bind_Inr_iff)
  then have b: "b = must_act a n" using checkActionRequired_must_act a by blast
  have "ny_shouldNotify st = told settings n a
      \<and> ny_isPhone st = (\<exists>x \<in> set (own_settings a n settings). se_enableSms x)
      \<and> ny_isEmail st = (\<exists>x \<in> set (own_settings a n settings). se_enableEmail x)
      \<and> ny_isDisabled st = silenced now settings n a"
    proof (cases "own_settings a n settings = []")
      case True
      then show ?thesis
        using st act b by (auto simp: getNotifyAccountStatus_def own_settings_def [symmetric] told_def silenced_def)
    next
      case False
      then obtain d where d: "some_res (muted (now * 1000000)) (own_settings a n settings) = Inr d"
        and "st = \<lparr> ny_isDisabled = d, ny_shouldNotify =
            ((\<not> list_ex se_actionRequiredOnly (own_settings a n settings) \<or> b)
              \<and> list_ex (\<lambda>ans. ntf_type n \<in> set (se_types ans)) (own_settings a n settings)),
          ny_isPhone = list_ex se_enableSms (own_settings a n settings),
          ny_isEmail = list_ex se_enableEmail (own_settings a n settings) \<rparr>"
        using st act now
        by (auto simp: getNotifyAccountStatus_def own_settings_def [symmetric] res_bind_Inr_iff Let_def)
      then show ?thesis
        using some_muted [OF d] False b by (auto simp: told_def list_ex_iff)
    qed
  then show "ny_shouldNotify st = told settings n a"
    and "ny_isPhone st = (\<exists>x \<in> set (own_settings a n settings). se_enableSms x)"
    and "ny_isEmail st = (\<exists>x \<in> set (own_settings a n settings). se_enableEmail x)"
    and "ny_isDisabled st = silenced now settings n a" by blast+
qed

lemma fold_res_filter_map:
  assumes "fold_res (\<lambda>acc x. res_bind (f x) (\<lambda>st. Inr (if P st then acc @ [g x st] else acc))) acc xs = Inr ys"
  shows "\<exists>sts. length sts = length xs \<and> (\<forall>i < length xs. f (xs ! i) = Inr (sts ! i))
     \<and> ys = acc @ map (\<lambda>(x, st). g x st) (filter (\<lambda>(x, st). P st) (zip xs sts))"
  using assms
proof (induction xs arbitrary: acc)
  case Nil
  then show ?case by simp
next
  case (Cons x xs)
  then obtain st where st: "f x = Inr st" by (auto simp: res_bind_Inr_iff)
  let ?acc = "if P st then acc @ [g x st] else acc"
  obtain sts where "length sts = length xs" "\<forall>i < length xs. f (xs ! i) = Inr (sts ! i)"
    "ys = ?acc @ map (\<lambda>(x, st). g x st) (filter (\<lambda>(x, st). P st) (zip xs sts))"
    using Cons.IH [of ?acc] Cons.prems st by auto
  then show ?case using st by (intro exI [of _ "st # sts"]) (auto simp: nth_Cons split: nat.splits)
qed

text \<open>The people of a DAO: its members and followers, by the item or by the rows.\<close>

definition item_people :: "'b notification_store_scheme \<Rightarrow> string \<Rightarrow> string set" where
  "item_people s daoId = (case nt_daoItems s daoId of None \<Rightarrow> {}
     | Some x \<Rightarrow> (set (case di_accountIds x of None \<Rightarrow> [] | Some ids \<Rightarrow> ids)
         \<union> set (case di_followers x of None \<Rightarrow> [] | Some fs \<Rightarrow> fs)) - {[]})"

definition row_people :: "'b notification_store_scheme \<Rightarrow> string \<Rightarrow> string set" where
  "row_people s daoId = (set (map su_accountId (filter (\<lambda>r. su_daoId r = daoId) (nt_subscriptions s)))
     \<union> (case nt_daos s daoId of None \<Rightarrow> {}
        | Some d \<Rightarrow> set (case dao_accountIds d of None \<Rightarrow> [] | Some ids \<Rightarrow> ids))) - {[]}"

lemma member_set_distinct: "distinct (member_set ids)"
  using unique_from_distinct [of "\<lambda>x. x" "{}" ids] by (simp add: member_set_def)

lemma member_set_set: "set (member_set ids) = set ids - {[]}"
  using unique_from_keys [of "\<lambda>x. x" "{}" ids] by (auto simp: member_set_def)

definition same_daos :: "'b notification_store_scheme \<Rightarrow> 'b notification_store_scheme \<Rightarrow> bool" where
  "same_daos s t \<longleftrightarrow> nt_daoItems t = nt_daoItems s \<and> nt_daos t = nt_daos s \<and> nt_subscriptions t = nt_subscriptions s"

interpretation daos: state_relation same_daos
  by unfold_locales (auto simp: same_daos_def tick_def)

lemma access_get_Inr: "access (op_get g) s = (Inr x, t) \<Longrightarrow> g (tick s) = x \<and> t = tick s"
  by (auto dest!: access_Inr simp: run_op)

lemma get_item_Some: "get_item look s = (Inr (Some x), t) \<Longrightarrow> look (tick s) = Some x"
  by (auto simp: get_item_def run_op split: prod.splits sum.splits dest!: access_get_Inr)

lemma getDaoSubscribers_people:
  assumes run: "getDaoSubscribers daoId s = (Inr subs, t)"
  shows "distinct subs \<and> [] \<notin> set subs \<and> set subs \<in> {item_people s daoId, row_people s daoId}"
proof -
  obtain d s1 where flag: "useDaoDynamo s = (Inr d, s1)"
    using run unfolding getDaoSubscribers_def by (auto simp: op_iffs)
  have s1: "same_daos s (tick s1)" "same_daos s (tick (tick s1))"
    using flag by (auto simp: useDaoDynamo_def flag_on_def same_daos_def tick_def dest!: access_get_Inr)
  show ?thesis
  proof (cases d)
    case True
    then obtain x ids where "get_item (\<lambda>s. nt_daoItems s daoId) s1 = (Inr (Some x), t)"
      and "di_accountIds x = Some ids"
      and "subs = member_set (ids @ (case di_followers x of None \<Rightarrow> [] | Some fs \<Rightarrow> fs))"
      using run flag by (auto simp: getDaoSubscribers_def op_iffs)
    then show ?thesis
      using s1 get_item_Some [of "\<lambda>s. nt_daoItems s daoId" s1 x t]
      by (simp add: member_set_distinct member_set_set item_people_def same_daos_def)
  next
    case False
    then obtain ms s2 where "subs = member_set (map su_accountId (filter (\<lambda>r. su_daoId r = daoId)
        (nt_subscriptions (tick s1))) @ (case ms of None \<Rightarrow> [] | Some ms \<Rightarrow> ms))"
      and "dao_getDaoMembers daoId (tick s1) = (Inr ms, s2)"
      using run flag
      by (auto simp: getDaoSubscribers_def subscription_getDaoSubscribers_def op_iffs dest!: access_get_Inr)
    moreover from this obtain dao where "nt_daos (tick (tick s1)) daoId = Some dao" "ms = dao_accountIds dao"
      by (auto simp: dao_getDaoMembers_def op_iffs dest!: access_get_Inr split: option.splits)
    ultimately show ?thesis
      using s1 by (simp add: member_set_distinct member_set_set row_people_def same_daos_def)
  qed
qed

lemma notified_accounts_spec:
  assumes run: "notified_accounts now n settings subs = Inr ns" and subs: "[] \<notin> set subs"
  shows "map an_accountId ns = filter (told settings n) subs
     \<and> (\<forall>x \<in> set ns. x = castAccountNotification (an_accountId x) n
          (silenced now settings n (an_accountId x))
          (\<exists>y \<in> set (own_settings (an_accountId x) n settings). se_enableSms y)
          (\<exists>y \<in> set (own_settings (an_accountId x) n settings). se_enableEmail y))"
proof -
  obtain sts where len: "length sts = length subs"
    and sts: "\<forall>i < length subs. getNotifyAccountStatus now (subs ! i) n settings = Inr (sts ! i)"
    and ns: "ns = map (\<lambda>(a, st). castAccountNotification a n (ny_isDisabled st) (ny_isPhone st) (ny_isEmail st))
        (filter (\<lambda>(a, st). ny_shouldNotify st) (zip subs sts))"
    using fold_res_filter_map [OF run [unfolded notified_accounts_def]] by auto
  have st: "getNotifyAccountStatus now a n settings = Inr st \<and> a \<noteq> []" if "(a, st) \<in> set (zip subs sts)" for a st
    using that sts subs len by (auto simp: in_set_zip) (metis nth_mem)
  have told_st: "ny_shouldNotify st = told settings n a" if "(a, st) \<in> set (zip subs sts)" for a st
    using st [OF that] getNotifyAccountStatus_spec(1) by blast
  have "map an_accountId ns = map fst (filter (\<lambda>(a, st). ny_shouldNotify st) (zip subs sts))"
    by (simp add: ns castAccountNotification_def case_prod_unfold comp_def)
  also have "filter (\<lambda>(a, st). ny_shouldNotify st) (zip subs sts) = filter (\<lambda>x. told settings n (fst x)) (zip subs sts)"
    using told_st by (intro filter_cong) auto
  also have "map fst (filter (\<lambda>x. told settings n (fst x)) (zip subs sts)) = filter (told settings n) subs"
    using filter_map [of "told settings n" fst "zip subs sts"] len by (simp add: comp_def)
  finally have accounts: "map an_accountId ns = filter (told settings n) subs" .
  have "x = castAccountNotification (an_accountId x) n (silenced now settings n (an_accountId x))
          (\<exists>y \<in> set (own_settings (an_accountId x) n settings). se_enableSms y)
          (\<exists>y \<in> set (own_settings (an_accountId x) n settings). se_enableEmail y)" if x: "x \<in> set ns" for x
  proof -
    obtain a st where "(a, st) \<in> set (zip subs sts)"
      and cast: "x = castAccountNotification a n (ny_isDisabled st) (ny_isPhone st) (ny_isEmail st)"
      using x ns by auto
    then have "getNotifyAccountStatus now a n settings = Inr st" "a \<noteq> []" using st by blast+
    note spec = getNotifyAccountStatus_spec(2-4) [OF this]
    have acc: "an_accountId x = a" using cast by (simp add: castAccountNotification_def)
    show ?thesis unfolding acc spec [symmetric] by (rule cast)
  qed
  with accounts show ?thesis by blast
qed

lemma createMultiple_returns:
  "createMultiple pools ns s = (Inr ms, t) \<Longrightarrow> ms = ns"
  by (auto simp: createMultiple_def all_iffs)

text \<open>
  C10. When the notifications of the accounts have been created: the accounts are people of the DAO,
  each once, and exactly those that are told, by the rule of their own settings; every notification is
  muted and read when the account is silenced, and marked for SMS and e-mail as a setting asks.
\<close>

theorem who_is_notified:
  assumes run: "createAccountNotifications pools n s = (Inr ns, t)"
  shows "\<exists>subs settings now s1 s2. getDaoSubscribers (column_str (ntf_daoId n)) s = (Inr subs, s1)
     \<and> distinct subs
     \<and> set subs \<in> {item_people s (column_str (ntf_daoId n)), row_people s (column_str (ntf_daoId n))}
     \<and> getAccountsNotificationSettings pools subs s1 = (Inr settings, s2) \<and> now = st_now s2 (st_tick s2)
     \<and> map an_accountId ns = filter (told settings n) subs
     \<and> (\<forall>x \<in> set ns. x = castAccountNotification (an_accountId x) n
          (silenced now settings n (an_accountId x))
          (\<exists>y \<in> set (own_settings (an_accountId x) n settings). se_enableSms y)
          (\<exists>y \<in> set (own_settings (an_accountId x) n settings). se_enableEmail y))"
proof -
  obtain subs s1 settings s2 where subs: "getDaoSubscribers (column_str (ntf_daoId n)) s = (Inr subs, s1)"
    and settings: "getAccountsNotificationSettings pools subs s1 = (Inr settings, s2)"
    and ns: "notified_accounts (st_now s2 (st_tick s2)) n settings subs = Inr ns"
    using run by (auto simp: createAccountNotifications_def all_iffs dest!: createMultiple_returns)
  note people = getDaoSubscribers_people [OF subs]
  show ?thesis
    using subs settings people notified_accounts_spec [OF ns conjunct1 [OF conjunct2 [OF people]]] by blast
qed

section \<open>Messages\<close>

text \<open>
  The contract of a pool: it runs the computations it is given and nothing else, so it keeps what each
  of them keeps.
\<close>

definition pool_keeps :: "(('s, 'a) op list \<Rightarrow> ('s, 'b) op) \<Rightarrow> bool" where
  "pool_keeps pool \<longleftrightarrow> (\<forall>I ms. (\<forall>m \<in> set ms. \<forall>s. I s \<longrightarrow> I (snd (m s))) \<longrightarrow> (\<forall>s. I s \<longrightarrow> I (snd (pool ms s))))"

lemma pool_keepsD:
  "pool_keeps pool \<Longrightarrow> (\<And>m s. m \<in> set ms \<Longrightarrow> I s \<Longrightarrow> I (snd (m s))) \<Longrightarrow> I s \<Longrightarrow> I (snd (pool ms s))"
  unfolding pool_keeps_def by blast

lemma triple_pool:
  assumes "pool_keeps pool" and "\<And>m. m \<in> set ms \<Longrightarrow> triple P m (\<lambda>_. P) P"
  shows "triple P (pool ms) (\<lambda>_. P) P"
proof -
  have "P (snd (pool ms s))" if "P s" for s
    using pool_keepsD [OF assms(1), of ms P s] triple_end [OF assms(2)] that by blast
  then show ?thesis by (intro tripleI) (metis snd_conv)+
qed

definition pools_keep :: "'b notification_store_scheme pools \<Rightarrow> bool" where
  "pools_keep pools \<longleftrightarrow> pool_keeps (p_units pools) \<and> pool_keeps (p_settings pools)"

text \<open>The accounts that either store has with a confirmed e-mail or phone.\<close>

definition flagged :: "(account \<Rightarrow> bool field) \<Rightarrow> 'b account_store_scheme \<Rightarrow> string \<Rightarrow> bool" where
  "flagged column s a \<longleftrightarrow> (\<exists>r. (as_accounts s a = Some r \<or> map_option account.truncate (as_items s a) = Some r)
     \<and> holds (column r))"

text \<open>A request to Notifi that a notification of the list allows.\<close>

definition allowed ::
    "'b account_store_scheme \<Rightarrow> template_message \<Rightarrow> account_notification list \<Rightarrow> notifi_call \<Rightarrow> bool" where
  "allowed s template ns c \<longleftrightarrow> c = NC_LogIn \<or> (\<exists>x \<in> set ns. \<exists>jwt wallet tp.
     c = NC_Push jwt (an_accountId x @ '':'' @ an_notificationId x) wallet tp \<and> \<not> an_isMuted x
     \<and> tp_variables tp = tp_variables template
     \<and> tp_emailTemplate tp \<in> {None, tp_emailTemplate template}
     \<and> tp_smsTemplate tp \<in> {None, tp_smsTemplate template}
     \<and> (tp_emailTemplate tp \<noteq> None \<longrightarrow> an_isEmail x \<and> flagged ac_isEmailVerified s (an_accountId x))
     \<and> (tp_smsTemplate tp \<noteq> None \<longrightarrow> an_isPhone x \<and> flagged ac_isPhoneVerified s (an_accountId x)))"

text \<open>Since the state \<open>s0\<close> only requests with the property \<open>A\<close> were sent, and the accounts are the same.\<close>

definition sent_since :: "(notifi_call \<Rightarrow> bool) \<Rightarrow> 'c account_store_scheme \<Rightarrow> 'b account_store_scheme \<Rightarrow> bool" where
  "sent_since A s0 s \<longleftrightarrow> as_accounts s = as_accounts s0 \<and> as_items s = as_items s0
     \<and> (\<exists>cs. as_notifi s = as_notifi s0 @ cs \<and> list_all A cs)"


text \<open>What sends nothing.\<close>

definition same_messages :: "'b account_store_scheme \<Rightarrow> 'b account_store_scheme \<Rightarrow> bool" where
  "same_messages s t \<longleftrightarrow> as_accounts t = as_accounts s \<and> as_items t = as_items s \<and> as_notifi t = as_notifi s"

interpretation silent: state_relation same_messages
  by unfold_locales (auto simp: same_messages_def tick_def)

lemma silent_pool:
  assumes "pool_keeps pool" and "\<And>m. m \<in> set ms \<Longrightarrow> silent.stays m"
  shows "silent.stays (pool ms)"
  unfolding silent.stays_def
proof
  fix s
  show "same_messages s (snd (pool ms s))"
  proof (rule pool_keepsD [OF assms(1)])
    fix m t assume m: "m \<in> set ms" and st: "same_messages s t"
    have "same_messages t (snd (m t))" using assms(2) [OF m] by (simp add: silent.stays_def)
    then show "same_messages s (snd (m t))" by (rule silent.R_trans [OF st])
  qed (rule silent.R_refl)
qed

lemma silent_pool_map:
  "pool_keeps pool \<Longrightarrow> (\<And>x. silent.stays (f x)) \<Longrightarrow> silent.stays (pool (map f xs))"
  by (rule silent_pool) auto

lemma silent_flags: "silent.stays notifications_useDynamo" "silent.stays useDaoDynamo"
  unfolding notifications_useDynamo_def useDaoDynamo_def flag_on_def by (intro silent.stays_intros)+

lemma silent_create_multiple:
  assumes "pools_keep pools"
  shows "silent.stays (createMultiple pools ns)"
proof -
  have put: "same_messages s (fold (\<lambda>n. put_item_at (an_accountId n) (an_id n) (f n)) xs s)" for f xs s
    by (induction xs arbitrary: s)
      (auto simp: silent.R_refl put_item_at_def same_messages_def)
  have ids: "silent.stays (setAccountNotificationIds a xs)" for a xs
    unfolding setAccountNotificationIds_def getAccountsNotificationIds_def Let_def
    by (intro silent.stays_intros silent.stays_items) (simp_all add: put_ids_def same_messages_def)
  have units: "pool_keeps (p_units pools)" using assms by (simp add: pools_keep_def)
  have all_ids: "silent.stays (setAccountsNotificationIds pools xs)" for xs
    unfolding setAccountsNotificationIds_def case_prod_unfold
    by (intro silent.stays_intros silent_pool_map units ids)
  have rows: "silent.stays (save_rows xs)" for xs
    unfolding save_rows_def
    by (intro silent.stays_intros silent.stays_put) (simp add: same_messages_def)
  show ?thesis
    unfolding createMultiple_def
    by (intro silent.stays_intros silent.stays_chunks silent.stays_put put all_ids rows)
qed

lemma silent_creates:
  assumes "pools_keep pools"
  shows "silent.stays (createAccountNotifications pools n)"
proof -
  have settings: "pool_keeps (p_settings pools)" using assms by (simp add: pools_keep_def)
  have "silent.stays (getDaoSubscribers d)" for d
    unfolding getDaoSubscribers_def subscription_getDaoSubscribers_def dao_getDaoMembers_def
    by (intro silent.stays_intros silent.stays_items silent_flags)
  moreover have "silent.stays (getAccountsNotificationSettings pools ids)" for ids
    unfolding getAccountsNotificationSettings_def
    by (intro silent.stays_intros silent_flags silent_pool_map settings silent.stays_items)
  ultimately show ?thesis
    unfolding createAccountNotifications_def
    by (intro silent.stays_intros silent_create_multiple assms)
qed

lemma sent_since_silent: "same_messages s t \<Longrightarrow> sent_since A s0 s \<Longrightarrow> sent_since A s0 t"
  by (simp add: sent_since_def same_messages_def)

lemma triple_silent: "silent.stays m \<Longrightarrow> triple (sent_since A s0) m (\<lambda>_. sent_since A s0) (sent_since A s0)"
  by (rule triple_stays [where R = same_messages]) (auto dest: silent.staysD intro: sent_since_silent)

lemma sent_request:
  assumes "A c"
  shows "triple (sent_since A s0) (notifi_request answer c) (\<lambda>_. sent_since A s0) (sent_since A s0)"
proof -
  have "triple (sent_since A s0) (\<lambda>s. (Inr (answer (st_tick s) s), s\<lparr>as_notifi := as_notifi s @ [c]\<rparr>))
      (\<lambda>_. sent_since A s0) (sent_since A s0)"
    using assms by (intro tripleI) (auto simp: sent_since_def)
  then show ?thesis
    unfolding notifi_request_def
    by (rule triple_access) (auto simp: sent_since_def tick_def)
qed

lemma sent_token:
  assumes "A NC_LogIn"
  shows "triple (sent_since A s0) getToken (\<lambda>_. sent_since A s0) (sent_since A s0)"
  unfolding getToken_def logIn_def case_prod_unfold
  by (intro triple_bind [where Q = "\<lambda>_. sent_since A s0"] triple_then [where Q = "sent_since A s0"] triple_if
      sent_request [of A] triple_silent silent.stays_intros silent.stays_put assms)
    (simp_all add: same_messages_def)

lemma sent_message:
  assumes "A NC_LogIn" and "\<And>jwt wallet. A (NC_Push jwt (a @ '':'' @ key) wallet tp)"
  shows "triple (sent_since A s0) (sendTemplateMessage a key tp) (\<lambda>_. sent_since A s0) (sent_since A s0)"
  unfolding sendTemplateMessage_def
  by (intro triple_bind [where Q = "\<lambda>_. sent_since A s0"] sent_token sent_request triple_silent
      silent.stays_intros assms)


text \<open>Only a mention of a stored account lets a notification reach its addresses.\<close>

definition stored_account :: "'b account_store_scheme \<Rightarrow> string \<Rightarrow> account option \<Rightarrow> bool" where
  "stored_account s a found \<longleftrightarrow> (\<forall>r. found = Some r \<longrightarrow>
     as_accounts s a = Some r \<or> map_option account.truncate (as_items s a) = Some r)"

lemma sent_findById:
  "triple (sent_since A s0) (account_findById a) (\<lambda>found s. sent_since A s0 s \<and> stored_account s0 a found)
     (sent_since A s0)"
proof (rule tripleI)
  have st: "silent.stays (account_findById a)"
    unfolding account_findById_def find_account_def get_account_item_def
    by (intro silent.stays_intros silent_flags)
  fix s :: "'a account_store_scheme" and r assume P: "sent_since A s0 s"
  show "sent_since A s0 t" if "account_findById a s = (Inl e, t)" for e t
    by (rule sent_since_silent [OF silent.staysD [OF st that] P])
  fix found t assume run: "account_findById a s = (Inr found, t)"
  obtain d s1 where flag: "notifications_useDynamo s = (Inr d, s1)"
    using run unfolding account_findById_def by (auto simp: op_iffs)
  then have s1: "s1 = tick s"
    by (auto simp: notifications_useDynamo_def flag_on_def dest!: access_get_Inr)
  have "stored_account s0 a found"
  proof (cases d)
    case True
    then obtain x where "get_account_item a s1 = (Inr x, t)" "found = map_option account.truncate x"
      using run flag by (auto simp: account_findById_def op_iffs)
    moreover have "as_items s0 a = Some z" if "x = Some z" for z
    proof -
      have "as_items (tick s1) a = Some z"
        using \<open>get_account_item a s1 = (Inr x, t)\<close> that
        by (auto simp: get_account_item_def run_op split: prod.splits sum.splits dest!: access_get_Inr)
      then show ?thesis using P s1 by (simp add: sent_since_def tick_def)
    qed
    ultimately show ?thesis by (cases x) (simp_all add: stored_account_def)
  next
    case False
    then have "find_account a s1 = (Inr found, t)" using run flag by (auto simp: account_findById_def op_iffs)
    then show ?thesis
      using P s1 by (auto simp: find_account_def stored_account_def sent_since_def tick_def dest!: access_get_Inr)
  qed
  then show "sent_since A s0 t \<and> stored_account s0 a found"
    using sent_since_silent [OF silent.staysD [OF st run] P] by blast
qed

lemma flaggedI:
  "stored_account s a (Some r) \<Longrightarrow> holds (column r) \<Longrightarrow> flagged column s a"
  by (auto simp: stored_account_def flagged_def)

lemma sent_notification:
  assumes x: "x \<in> set ns" "\<not> an_isMuted x"
  shows "triple (sent_since (allowed s0 template ns) s0) (sendNotification x template)
     (\<lambda>_. sent_since (allowed s0 template ns) s0) (sent_since (allowed s0 template ns) s0)"
    (is "triple ?S _ (\<lambda>_. ?S) ?S")
proof -
  have push: "triple (\<lambda>s. ?S s \<and> stored_account s0 (an_accountId x) found)
     (let isEmail = an_isEmail x \<and> (case found of None \<Rightarrow> False | Some a \<Rightarrow> holds (ac_isEmailVerified a));
         isPhone = an_isPhone x \<and> (case found of None \<Rightarrow> False | Some a \<Rightarrow> holds (ac_isPhoneVerified a))
     in op_when (isEmail \<or> isPhone)
          (sendTemplateMessage (an_accountId x) (an_notificationId x)
             \<lparr> tp_emailTemplate = (if isEmail then tp_emailTemplate template else None),
               tp_smsTemplate = (if isPhone then tp_smsTemplate template else None),
               tp_variables = tp_variables template \<rparr>)) (\<lambda>_. ?S) ?S" for found
  proof (cases "stored_account s0 (an_accountId x) found")
    case False
    then show ?thesis by (simp add: triple_def)
  next
    case True
    define e where "e = (an_isEmail x \<and> (case found of None \<Rightarrow> False | Some a \<Rightarrow> holds (ac_isEmailVerified a)))"
    define p where "p = (an_isPhone x \<and> (case found of None \<Rightarrow> False | Some a \<Rightarrow> holds (ac_isPhoneVerified a)))"
    have ep: "e \<Longrightarrow> an_isEmail x \<and> flagged ac_isEmailVerified s0 (an_accountId x)"
      "p \<Longrightarrow> an_isPhone x \<and> flagged ac_isPhoneVerified s0 (an_accountId x)"
      using True by (cases found; auto simp: e_def p_def intro: flaggedI)+
    have "triple ?S (sendTemplateMessage (an_accountId x) (an_notificationId x)
             \<lparr> tp_emailTemplate = (if e then tp_emailTemplate template else None),
               tp_smsTemplate = (if p then tp_smsTemplate template else None),
               tp_variables = tp_variables template \<rparr>) (\<lambda>_. ?S) ?S"
      by (rule sent_message) (use x ep in \<open>auto simp: allowed_def\<close>)
    then have "triple ?S (op_when (e \<or> p) (sendTemplateMessage (an_accountId x) (an_notificationId x)
             \<lparr> tp_emailTemplate = (if e then tp_emailTemplate template else None),
               tp_smsTemplate = (if p then tp_smsTemplate template else None),
               tp_variables = tp_variables template \<rparr>)) (\<lambda>_. ?S) ?S"
      by (intro triple_when)
    then show ?thesis
      unfolding Let_def e_def p_def by (rule triple_weaken) auto
  qed
  show ?thesis
    unfolding sendNotification_def by (rule triple_bind [OF sent_findById push])
qed

lemma sent_all:
  assumes units: "pool_keeps (p_units pools)"
  shows "triple (sent_since (allowed s template ns) s) (op_then (sendNewNotificationEvent n ns)
     (op_bind (p_units pools (map (\<lambda>a. sendNotification a template)
        (filter (\<lambda>a. \<not> an_isMuted a) ns))) (\<lambda>errors. op_ret ())))
     (\<lambda>_. sent_since (allowed s template ns) s) (sent_since (allowed s template ns) s)"
    (is "triple ?S _ (\<lambda>_. ?S) ?S")
proof -
  have event: "silent.stays (sendNewNotificationEvent n ns)"
    unfolding sendNewNotificationEvent_def
    by (intro silent.stays_intros silent.stays_put) (simp add: same_messages_def)
  have "triple ?S (p_units pools (map (\<lambda>a. sendNotification a template) (filter (\<lambda>a. \<not> an_isMuted a) ns)))
      (\<lambda>_. ?S) ?S"
  proof (rule triple_pool [OF units])
    fix m :: "('a notification_store_scheme, unit) op"
    assume "m \<in> set (map (\<lambda>a. sendNotification a template) (filter (\<lambda>a. \<not> an_isMuted a) ns))"
    then obtain x where "x \<in> set ns" "\<not> an_isMuted x" "m = sendNotification x template" by auto
    then show "triple ?S m (\<lambda>_. ?S) ?S" using sent_notification by blast
  qed
  then have pool: "triple ?S (op_bind (p_units pools (map (\<lambda>a. sendNotification a template)
      (filter (\<lambda>a. \<not> an_isMuted a) ns))) (\<lambda>errors. op_ret ())) (\<lambda>_. ?S) ?S"
    by (rule triple_bind) (rule triple_ret)
  show ?thesis by (rule triple_then [OF triple_silent [OF event] pool])
qed

text \<open>
  C11. Whatever requests fail, announcing a notification sends Notifi nothing but log-ins and, to
  accounts of the created notifications that are not muted, the notification's message: by e-mail only if
  a setting of the account asks for e-mails and a store has its e-mail as confirmed, by SMS likewise.
\<close>

theorem messages_as_allowed:
  assumes pools: "pools_keep pools"
  shows "sent_since (\<lambda>c. \<exists>ns u template. createAccountNotifications pools n s = (Inr ns, u)
       \<and> getNotificationTemplate frontendUrl n = Inr template \<and> allowed s template ns c)
     s (snd (notifyAccounts pools frontendUrl (Some n) s))"
proof -
  obtain r u where made: "createAccountNotifications pools n s = (r, u)" by fastforce
  have none: "sent_since A s s" for A by (simp add: sent_since_def)
  have u: "sent_since A s u" for A
    by (rule sent_since_silent [OF silent.staysD [OF silent_creates [OF pools] made] none])
  consider (failed) e where "r = Inl e" | (no_text) ns e where "r = Inr ns"
      "getNotificationTemplate frontendUrl n = Inl e"
    | (sent) ns template where "r = Inr ns" "getNotificationTemplate frontendUrl n = Inr template"
    by (cases r; cases "getNotificationTemplate frontendUrl n") auto
  then show ?thesis
  proof cases
    case sent
    let ?S = "sent_since (allowed s template ns) s"
    have units: "pool_keeps (p_units pools)" using pools by (simp add: pools_keep_def)
    have "?S (snd (op_then (sendNewNotificationEvent n ns)
         (op_bind (p_units pools (map (\<lambda>a. sendNotification a template)
             (filter (\<lambda>a. \<not> an_isMuted a) ns))) (\<lambda>errors. op_ret ())) u))"
      by (rule triple_end [OF sent_all [OF units] u])
    then show ?thesis
      using made sent by (simp add: notifyAccounts_def op_bind_def op_lift_def)
  qed (use u made in \<open>simp_all add: notifyAccounts_def op_bind_def op_lift_def\<close>)
qed


section \<open>The lists of an account\<close>

definition not_read :: "'b notification_store_scheme \<Rightarrow> string \<Rightarrow> string list" where
  "not_read s a = (case nt_ids s a of None \<Rightarrow> [] | Some d \<Rightarrow> in_notReadIds d)"

definition not_archived :: "'b notification_store_scheme \<Rightarrow> string \<Rightarrow> string list" where
  "not_archived s a = (case nt_ids s a of None \<Rightarrow> [] | Some d \<Rightarrow> in_notArchivedIds d)"

text \<open>The lists hold the ids of the items without the flag.\<close>

definition read_listed :: "'b notification_store_scheme \<Rightarrow> string \<Rightarrow> bool" where
  "read_listed s a \<longleftrightarrow> (\<forall>i. i \<in> set (not_read s a) \<longleftrightarrow> (\<exists>x. nt_items s a i = Some x \<and> \<not> ni_isRead x))"

definition archived_listed :: "'b notification_store_scheme \<Rightarrow> string \<Rightarrow> bool" where
  "archived_listed s a \<longleftrightarrow>
     (\<forall>i. i \<in> set (not_archived s a) \<longleftrightarrow> (\<exists>x. nt_items s a i = Some x \<and> \<not> ni_isArchived x))"

text \<open>The items of one account with a flag set for some ids, at some time.\<close>

definition flags_set ::
    "(notification_item \<Rightarrow> notification_item) \<Rightarrow> string \<Rightarrow> string list \<Rightarrow> 'b notification_store_scheme \<Rightarrow>
     'b notification_store_scheme \<Rightarrow> bool" where
  "flags_set f a ids s t \<longleftrightarrow> calm t \<and> nt_rows t = nt_rows s
     \<and> (\<forall>b. b \<noteq> a \<longrightarrow> nt_items t b = nt_items s b \<and> nt_ids t b = nt_ids s b)
     \<and> (\<forall>i \<in> set ids. \<exists>x n. nt_items s a i = Some x \<and> nt_items t a i = Some ((f x)\<lparr>ni_updatedAt := n\<rparr>))
     \<and> (\<forall>i. i \<notin> set ids \<longrightarrow> nt_items t a i = nt_items s a i)"

lemma calm_set_flag:
  assumes "calm s" and "nt_items s a i = Some x"
  shows "set_flag f a i s = (Inr (), put_item_at a i ((f x)\<lparr>ni_updatedAt := st_now s (st_tick s)\<rparr>) (tick s))"
  using assms by (simp add: set_flag_def run_op calm_updateItem tick_def [of s])

lemma flags_set_cong:
  "nt_rows s' = nt_rows s \<Longrightarrow> nt_items s' = nt_items s \<Longrightarrow> nt_ids s' = nt_ids s \<Longrightarrow>
     flags_set f a ids s' t = flags_set f a ids s t"
  by (simp add: flags_set_def)

lemma flags_set_step:
  assumes f: "\<And>x n. f (f x\<lparr>ni_updatedAt := n\<rparr>) = f x\<lparr>ni_updatedAt := n\<rparr>"
    and calm: "calm s" and i: "nt_items s a i = Some x"
    and rest: "flags_set f a ids (put_item_at a i ((f x)\<lparr>ni_updatedAt := n\<rparr>) s') t"
    and same: "nt_rows s' = nt_rows s" "nt_items s' = nt_items s" "\<And>b. b \<noteq> a \<Longrightarrow> nt_ids s' b = nt_ids s b"
  shows "flags_set f a (i # ids) s t"
proof -
  let ?u = "put_item_at a i ((f x)\<lparr>ni_updatedAt := n\<rparr>) s'"
  have u: "nt_items ?u a j = (if j = i then Some ((f x)\<lparr>ni_updatedAt := n\<rparr>) else nt_items s a j)" for j
    using same(2) by (simp add: put_item_at_def)
  have f2: "f ((f x)\<lparr>ni_updatedAt := n\<rparr>)\<lparr>ni_updatedAt := m\<rparr> = (f x)\<lparr>ni_updatedAt := m\<rparr>" for m
    by (simp add: f)
  have set_in: "\<exists>x n. nt_items s a j = Some x \<and> nt_items t a j = Some ((f x)\<lparr>ni_updatedAt := n\<rparr>)"
    if j: "j \<in> set (i # ids)" for j
  proof (cases "j \<in> set ids")
    case True
    then obtain y m where "nt_items ?u a j = Some y" "nt_items t a j = Some ((f y)\<lparr>ni_updatedAt := m\<rparr>)"
      using rest unfolding flags_set_def by blast
    then show ?thesis using i f2 by (cases "j = i") (auto simp: u)
  next
    case False
    then have "nt_items t a j = nt_items ?u a j" using rest unfolding flags_set_def by blast
    then show ?thesis using False j i by (auto simp: u)
  qed
  have set_out: "nt_items t a j = nt_items s a j" if "j \<notin> set (i # ids)" for j
  proof -
    have "nt_items t a j = nt_items ?u a j" using rest that unfolding flags_set_def by simp
    then show ?thesis using that by (simp add: u)
  qed
  have "calm t" "nt_rows t = nt_rows s" "\<forall>b. b \<noteq> a \<longrightarrow> nt_items t b = nt_items s b \<and> nt_ids t b = nt_ids s b"
    using rest same by (simp_all add: flags_set_def put_item_at_def)
  then show ?thesis unfolding flags_set_def using set_in set_out by blast
qed

text \<open>The loop of \<open>readAccountNotifications\<close> and \<open>archiveAccountNotifications\<close>.\<close>

lemma calm_flag_loop:
  assumes f: "\<And>x n. f (f x\<lparr>ni_updatedAt := n\<rparr>) = f x\<lparr>ni_updatedAt := n\<rparr>"
    and g: "\<And>d n. g (g d\<lparr>in_updatedAt := n\<rparr>) = g d\<lparr>in_updatedAt := n\<rparr>"
    and all: "\<And>s d. calm s \<Longrightarrow> nt_ids s a = Some d \<Longrightarrow>
        \<exists>n. all_op s = (Inr (), put_ids a ((g d)\<lparr>in_updatedAt := n\<rparr>) (tick s))"
    and "calm s" and "nt_ids s a = Some d" and "\<forall>i \<in> set ids. nt_items s a i \<noteq> None"
  shows "\<exists>t. op_each (\<lambda>i. op_then (set_flag f a i) all_op) ids s = (Inr (), t) \<and> flags_set f a ids s t
     \<and> (\<exists>n. nt_ids t a = Some (if ids = [] then d else (g d)\<lparr>in_updatedAt := n\<rparr>))"
  using assms(4-)
proof (induction ids arbitrary: s d)
  case Nil
  then show ?case by (auto simp: run_op flags_set_def)
next
  case (Cons i ids)
  then obtain x where x: "nt_items s a i = Some x" by auto
  let ?u = "put_item_at a i ((f x)\<lparr>ni_updatedAt := st_now s (st_tick s)\<rparr>) (tick s)"
  have u: "calm ?u" "nt_ids ?u a = Some d"
    using Cons.prems(1,2) by (simp_all add: put_item_at_def tick_def calm_def)
  then obtain n where n: "all_op ?u = (Inr (), put_ids a ((g d)\<lparr>in_updatedAt := n\<rparr>) (tick ?u))"
    using all by blast
  let ?v = "put_ids a ((g d)\<lparr>in_updatedAt := n\<rparr>) (tick ?u)"
  have v: "calm ?v" "nt_ids ?v a = Some ((g d)\<lparr>in_updatedAt := n\<rparr>)" "\<forall>i \<in> set ids. nt_items ?v a i \<noteq> None"
    using Cons.prems by (auto simp: put_ids_def put_item_at_def tick_def calm_def)
  obtain t where t: "op_each (\<lambda>i. op_then (set_flag f a i) all_op) ids ?v = (Inr (), t)"
    "flags_set f a ids ?v t"
    "\<exists>m. nt_ids t a = Some (if ids = [] then (g d)\<lparr>in_updatedAt := n\<rparr>
        else (g ((g d)\<lparr>in_updatedAt := n\<rparr>))\<lparr>in_updatedAt := m\<rparr>)"
    using Cons.IH [OF v] by blast
  have "flags_set f a ids (put_item_at a i ((f x)\<lparr>ni_updatedAt := st_now s (st_tick s)\<rparr>)
      (put_ids a ((g d)\<lparr>in_updatedAt := n\<rparr>) (tick (tick s)))) t"
    by (rule iffD1 [OF flags_set_cong t(2)]) (simp_all add: put_ids_def put_item_at_def tick_def)
  then have "flags_set f a (i # ids) s t"
    by (rule flags_set_step [OF f Cons.prems(1) x]) (simp_all add: put_ids_def tick_def)
  moreover have "op_each (\<lambda>i. op_then (set_flag f a i) all_op) (i # ids) s = (Inr (), t)"
    by (simp add: run_op calm_set_flag [OF Cons.prems(1) x] n t(1))
  moreover have "\<exists>m. nt_ids t a = Some ((g d)\<lparr>in_updatedAt := m\<rparr>)"
    using t(3) by (auto simp: g split: if_splits)
  ultimately show ?case by auto
qed


lemma calm_readAll:
  "calm s \<Longrightarrow> nt_ids s a = Some d \<Longrightarrow>
     \<exists>n. readAll a s = (Inr (), put_ids a ((d\<lparr>in_notReadIds := []\<rparr>)\<lparr>in_updatedAt := n\<rparr>) (tick s))"
  by (auto simp: readAll_def run_op calm_updateItem tick_def [of s])

lemma calm_archiveAll:
  "calm s \<Longrightarrow> nt_ids s a = Some d \<Longrightarrow>
     \<exists>n. archiveAll a s = (Inr (), put_ids a ((d\<lparr>in_notArchivedIds := []\<rparr>)\<lparr>in_updatedAt := n\<rparr>) (tick s))"
  by (auto simp: archiveAll_def run_op calm_updateItem tick_def [of s])

text \<open>The rest of both methods: the rows of the account.\<close>

definition set_rows ::
    "(notification_row \<Rightarrow> bool) \<Rightarrow> (notification_row \<Rightarrow> notification_row) \<Rightarrow> string \<Rightarrow>
     notification_row list \<Rightarrow> notification_row list" where
  "set_rows flag f a rs = map (\<lambda>r. if rw_accountId r = a \<and> \<not> flag r then f r else r) rs"

text \<open>Both methods: the loop over the ids that are not read, then the rows.\<close>

definition all_flagged ::
    "(notification_item \<Rightarrow> notification_item) \<Rightarrow> (notification_ids \<Rightarrow> notification_ids) \<Rightarrow>
     (notification_row list \<Rightarrow> notification_row list) \<Rightarrow> string \<Rightarrow>
     'b notification_store_scheme \<Rightarrow> 'b notification_store_scheme \<Rightarrow> bool" where
  "all_flagged f g rows a s t \<longleftrightarrow> nt_rows t = rows (nt_rows s)
     \<and> (\<forall>b. b \<noteq> a \<longrightarrow> nt_items t b = nt_items s b \<and> nt_ids t b = nt_ids s b)
     \<and> (\<forall>i \<in> set (not_read s a).
          \<exists>x n. nt_items s a i = Some x \<and> nt_items t a i = Some ((f x)\<lparr>ni_updatedAt := n\<rparr>))
     \<and> (\<forall>i. i \<notin> set (not_read s a) \<longrightarrow> nt_items t a i = nt_items s a i)
     \<and> (not_read s a = [] \<longrightarrow> nt_ids t a = nt_ids s a)
     \<and> (not_read s a \<noteq> [] \<longrightarrow>
          (\<exists>d n. nt_ids s a = Some d \<and> nt_ids t a = Some ((g d)\<lparr>in_updatedAt := n\<rparr>)))"

lemma calm_flag_all:
  assumes f: "\<And>x n. f (f x\<lparr>ni_updatedAt := n\<rparr>) = f x\<lparr>ni_updatedAt := n\<rparr>"
    and g: "\<And>d n. g (g d\<lparr>in_updatedAt := n\<rparr>) = g d\<lparr>in_updatedAt := n\<rparr>"
    and all: "\<And>s d. calm s \<Longrightarrow> nt_ids s a = Some d \<Longrightarrow>
        \<exists>n. all_op s = (Inr (), put_ids a ((g d)\<lparr>in_updatedAt := n\<rparr>) (tick s))"
    and calm: "calm s" and listed: "read_listed s a"
  shows "\<exists>t. op_bind (getAccountsNotificationIds a) (\<lambda>found.
       op_then (case found of None \<Rightarrow> op_ret ()
           | Some ids \<Rightarrow> op_each (\<lambda>i. op_then (set_flag f a i) all_op) (in_notReadIds ids))
         (access (op_put (\<lambda>s. s\<lparr>nt_rows := rows (nt_rows s)\<rparr>)))) s = (Inr (), t)
     \<and> all_flagged f g rows a s t"
proof -
  have get: "getAccountsNotificationIds a s = (Inr (nt_ids s a), tick s)"
    using calm by (simp add: getAccountsNotificationIds_def calm_getItem tick_def)
  have c: "calm (tick s)" using calm by simp
  show ?thesis
  proof (cases "nt_ids s a")
    case None
    then show ?thesis
      using c by (simp add: run_op get run_access not_read_def tick_def all_flagged_def)
  next
    case (Some d)
    have ids: "in_notReadIds d = not_read s a" using Some by (simp add: not_read_def)
    have "nt_ids (tick s) a = Some d" "\<forall>i \<in> set (not_read s a). nt_items (tick s) a i \<noteq> None"
      using Some listed by (auto simp: read_listed_def tick_def)
    then obtain t n where t: "op_each (\<lambda>i. op_then (set_flag f a i) all_op) (not_read s a) (tick s) = (Inr (), t)"
      "flags_set f a (not_read s a) (tick s) t"
      "nt_ids t a = Some (if not_read s a = [] then d else (g d)\<lparr>in_updatedAt := n\<rparr>)"
      using calm_flag_loop [OF f g all c] by blast
    have fs: "flags_set f a (not_read s a) s t" by (rule iffD1 [OF flags_set_cong t(2)]) (simp_all add: tick_def)
    let ?t = "(tick t)\<lparr>nt_rows := rows (nt_rows (tick t))\<rparr>"
    have tk: "nt_rows (tick t) = nt_rows s" "nt_items (tick t) = nt_items t" "nt_ids (tick t) = nt_ids t"
      using fs by (simp_all add: flags_set_def tick_def)
    have "op_bind (getAccountsNotificationIds a) (\<lambda>found.
       op_then (case found of None \<Rightarrow> op_ret ()
           | Some ids \<Rightarrow> op_each (\<lambda>i. op_then (set_flag f a i) all_op) (in_notReadIds ids))
         (access (op_put (\<lambda>s. s\<lparr>nt_rows := rows (nt_rows s)\<rparr>)))) s = (Inr (), ?t)"
      using fs by (simp add: run_op get Some ids t(1) run_access flags_set_def)
    moreover have "all_flagged f g rows a s ?t"
      using fs t(3) Some unfolding all_flagged_def flags_set_def by (auto simp: tk)
    ultimately show ?thesis by blast
  qed
qed

text \<open>
  C32. While no request fails and the list of an account is right, reading all its notifications marks
  every item and row of the account as read, empties the list and changes nothing else.
\<close>

theorem read_all_reads:
  assumes "calm s" and "read_listed s a"
  shows "\<exists>t. readAccountNotifications a s = (Inr (), t)
     \<and> nt_rows t = map (\<lambda>r. if rw_accountId r = a then r\<lparr>rw_isRead := True\<rparr> else r) (nt_rows s)
     \<and> (\<forall>i. map_option (ni_updatedAt_update (\<lambda>_. 0)) (nt_items t a i)
          = map_option (\<lambda>x. x\<lparr>ni_isRead := True, ni_updatedAt := 0\<rparr>) (nt_items s a i))
     \<and> not_read t a = [] \<and> not_archived t a = not_archived s a
     \<and> (\<forall>b. b \<noteq> a \<longrightarrow> nt_items t b = nt_items s b \<and> nt_ids t b = nt_ids s b)"
proof -
  let ?rows = "map (\<lambda>r. if rw_accountId r = a \<and> \<not> rw_isRead r then r\<lparr>rw_isRead := True\<rparr> else r)"
  have "\<exists>t. readAccountNotifications a s = (Inr (), t)
      \<and> all_flagged (\<lambda>x. x\<lparr>ni_isRead := True\<rparr>) (\<lambda>d. d\<lparr>in_notReadIds := []\<rparr>) ?rows a s t"
    unfolding readAccountNotifications_def
    by (rule calm_flag_all [where f = "\<lambda>x. x\<lparr>ni_isRead := True\<rparr>" and g = "\<lambda>d. d\<lparr>in_notReadIds := []\<rparr>"
        and all_op = "readAll a" and rows = ?rows, OF _ _ calm_readAll assms]) simp_all
  then obtain t where run: "readAccountNotifications a s = (Inr (), t)"
    and fl: "all_flagged (\<lambda>x. x\<lparr>ni_isRead := True\<rparr>) (\<lambda>d. d\<lparr>in_notReadIds := []\<rparr>) ?rows a s t" by blast
  have rows: "nt_rows t = ?rows (nt_rows s)"
    and others: "\<forall>b. b \<noteq> a \<longrightarrow> nt_items t b = nt_items s b \<and> nt_ids t b = nt_ids s b"
    and read: "\<forall>i \<in> set (not_read s a). \<exists>x n. nt_items s a i = Some x
        \<and> nt_items t a i = Some (x\<lparr>ni_isRead := True, ni_updatedAt := n\<rparr>)"
    and kept: "\<forall>i. i \<notin> set (not_read s a) \<longrightarrow> nt_items t a i = nt_items s a i"
    and ids: "not_read s a = [] \<longrightarrow> nt_ids t a = nt_ids s a" "not_read s a \<noteq> [] \<longrightarrow>
        (\<exists>d n. nt_ids s a = Some d \<and> nt_ids t a = Some (d\<lparr>in_notReadIds := [], in_updatedAt := n\<rparr>))"
    using fl by (simp_all add: all_flagged_def)
  have "nt_rows t = map (\<lambda>r. if rw_accountId r = a then r\<lparr>rw_isRead := True\<rparr> else r) (nt_rows s)"
    unfolding rows by (rule map_cong) auto
  moreover have "map_option (ni_updatedAt_update (\<lambda>_. 0)) (nt_items t a i)
      = map_option (\<lambda>x. x\<lparr>ni_isRead := True, ni_updatedAt := 0\<rparr>) (nt_items s a i)" for i
  proof (cases "i \<in> set (not_read s a)")
    case True
    then show ?thesis using bspec [OF read, of i] by auto
  next
    case False
    then have "ni_isRead x" if "nt_items s a i = Some x" for x
      using assms(2) that by (auto simp: read_listed_def)
    then show ?thesis using kept False by (cases "nt_items s a i") auto
  qed
  moreover have "not_read t a = []" "not_archived t a = not_archived s a"
    using ids by (cases "not_read s a = []"; auto simp: not_read_def not_archived_def)+
  ultimately show ?thesis using run others by blast
qed


text \<open>
  C30. While no request fails and the list of those not read is right, archiving all notifications of
  an account archives its rows, but of its items only those that were not read; if there was one, the
  list of those not archived is emptied although the items that were read stay unarchived, and if
  there was none the items and the list stay as they were.
\<close>

theorem archive_all_archives_unread:
  assumes "calm s" and listed: "read_listed s a"
  shows "\<exists>t. archiveAccountNotifications a s = (Inr (), t)
     \<and> nt_rows t = map (\<lambda>r. if rw_accountId r = a then r\<lparr>rw_isArchived := True\<rparr> else r) (nt_rows s)
     \<and> (\<forall>i. map_option (ni_updatedAt_update (\<lambda>_. 0)) (nt_items t a i)
          = map_option (\<lambda>x. x\<lparr>ni_isArchived := ni_isArchived x \<or> \<not> ni_isRead x, ni_updatedAt := 0\<rparr>)
              (nt_items s a i))
     \<and> not_archived t a = (if not_read s a = [] then not_archived s a else [])
     \<and> not_read t a = not_read s a"
proof -
  let ?rows = "map (\<lambda>r. if rw_accountId r = a \<and> \<not> rw_isArchived r then r\<lparr>rw_isArchived := True\<rparr> else r)"
  have "\<exists>t. archiveAccountNotifications a s = (Inr (), t)
      \<and> all_flagged (\<lambda>x. x\<lparr>ni_isArchived := True\<rparr>) (\<lambda>d. d\<lparr>in_notArchivedIds := []\<rparr>) ?rows a s t"
    unfolding archiveAccountNotifications_def
    by (rule calm_flag_all [where f = "\<lambda>x. x\<lparr>ni_isArchived := True\<rparr>" and g = "\<lambda>d. d\<lparr>in_notArchivedIds := []\<rparr>"
        and all_op = "archiveAll a" and rows = ?rows, OF _ _ calm_archiveAll assms]) simp_all
  then obtain t where run: "archiveAccountNotifications a s = (Inr (), t)"
    and fl: "all_flagged (\<lambda>x. x\<lparr>ni_isArchived := True\<rparr>) (\<lambda>d. d\<lparr>in_notArchivedIds := []\<rparr>) ?rows a s t" by blast
  have rows: "nt_rows t = ?rows (nt_rows s)"
    and arch: "\<forall>i \<in> set (not_read s a). \<exists>x n. nt_items s a i = Some x
        \<and> nt_items t a i = Some (x\<lparr>ni_isArchived := True, ni_updatedAt := n\<rparr>)"
    and kept: "\<forall>i. i \<notin> set (not_read s a) \<longrightarrow> nt_items t a i = nt_items s a i"
    and ids: "not_read s a = [] \<longrightarrow> nt_ids t a = nt_ids s a" "not_read s a \<noteq> [] \<longrightarrow>
        (\<exists>d n. nt_ids s a = Some d \<and> nt_ids t a = Some (d\<lparr>in_notArchivedIds := [], in_updatedAt := n\<rparr>))"
    using fl by (simp_all add: all_flagged_def)
  have "nt_rows t = map (\<lambda>r. if rw_accountId r = a then r\<lparr>rw_isArchived := True\<rparr> else r) (nt_rows s)"
    unfolding rows by (rule map_cong) auto
  moreover have "map_option (ni_updatedAt_update (\<lambda>_. 0)) (nt_items t a i)
      = map_option (\<lambda>x. x\<lparr>ni_isArchived := ni_isArchived x \<or> \<not> ni_isRead x, ni_updatedAt := 0\<rparr>)
          (nt_items s a i)" for i
  proof (cases "i \<in> set (not_read s a)")
    case True
    then have "\<not> ni_isRead x" if "nt_items s a i = Some x" for x
      using listed that by (auto simp: read_listed_def)
    then show ?thesis using bspec [OF arch True] by auto
  next
    case False
    then have "ni_isRead x" if "nt_items s a i = Some x" for x
      using listed that by (auto simp: read_listed_def)
    then show ?thesis using kept False by (cases "nt_items s a i") auto
  qed
  moreover have "not_archived t a = (if not_read s a = [] then not_archived s a else [])"
    "not_read t a = not_read s a"
    using ids by (cases "not_read s a = []"; auto simp: not_read_def not_archived_def)+
  ultimately show ?thesis using run by blast
qed

section \<open>Examples\<close>

text \<open>Pools that run the computations in order.\<close>

definition in_order :: "('s, 'a) op list \<Rightarrow> ('s, 'a list) op" where
  "in_order ms = op_all (\<lambda>m. m) ms"

definition serial_pools :: "'b notification_store_scheme pools" where
  "serial_pools = \<lparr> p_units = (\<lambda>ms. op_then (in_order ms) (op_ret [])), p_settings = in_order \<rparr>"

lemma in_order_keeps: "(\<And>m s. m \<in> set ms \<Longrightarrow> I s \<Longrightarrow> I (snd (m s))) \<Longrightarrow> I s \<Longrightarrow> I (snd (in_order ms s))"
  unfolding in_order_def
proof (induction ms arbitrary: s)
  case (Cons m ms)
  obtain r t where "m s = (r, t)" by fastforce
  moreover obtain rs u where "op_all (\<lambda>m. m) ms t = (rs, u)" by fastforce
  moreover have "I (snd (op_all (\<lambda>m. m) ms (snd (m s))))"
    using Cons.IH Cons.prems by (meson list.set_intros)
  ultimately show ?case by simp
qed (simp add: run_op)

lemma pool_keepsI:
  "(\<And>I ms s. (\<And>m s. m \<in> set ms \<Longrightarrow> I s \<Longrightarrow> I (snd (m s))) \<Longrightarrow> I s \<Longrightarrow> I (snd (pool ms s))) \<Longrightarrow> pool_keeps pool"
  unfolding pool_keeps_def by metis

lemma serial_pools_keep: "pools_keep serial_pools"
proof -
  have units: "snd (p_units serial_pools ms s) = snd (in_order ms s)" for ms s
    by (simp add: serial_pools_def op_then_def op_bind_def op_ret_def split: prod.split sum.split)
  have "pool_keeps (p_units serial_pools)"
  proof (rule pool_keepsI)
    fix I s and ms :: "('c notification_store_scheme, unit) op list"
    assume "\<And>m s. m \<in> set ms \<Longrightarrow> I s \<Longrightarrow> I (snd (m s))" and "I s"
    then show "I (snd (p_units serial_pools ms s))" unfolding units by (rule in_order_keeps [where I = I])
  qed
  moreover have "pool_keeps (p_settings serial_pools)"
  proof (rule pool_keepsI)
    fix I s and ms :: "('c notification_store_scheme, settings_item option) op list"
    assume "\<And>m s. m \<in> set ms \<Longrightarrow> I s \<Longrightarrow> I (snd (m s))" and "I s"
    then show "I (snd (p_settings serial_pools ms s))"
      unfolding serial_pools_def pools.simps by (rule in_order_keeps [where I = I])
  qed
  ultimately show ?thesis by (simp add: pools_keep_def)
qed

definition sample_setting :: notification_setting where
  "sample_setting = \<lparr> se_id = ''s'', se_accountId = ''ann'', se_daoId = Some ''d'', se_types = [NT_ClubDao],
     se_mutedUntilTimestamp = None, se_isAllMuted = False, se_enableSms = False, se_enableEmail = True,
     se_actionRequiredOnly = False, se_createdAt = 0 \<rparr>"

definition sample_row :: account where
  "sample_row = empty_row\<lparr>ac_accountId := Val ''ann'', ac_email := Val ''a@b.c'', ac_isEmailVerified := Val True\<rparr>"

definition read_item :: "bool \<Rightarrow> notification_item" where
  "read_item r = \<lparr> ni_body = None, ni_isMuted = False, ni_isRead = r, ni_isArchived = False,
     ni_createdAt = 0, ni_updatedAt = 0 \<rparr>"

text \<open>Ann follows the DAO and wants e-mails, Bob is a member; Ann has a read and an unread item.\<close>

definition sample_notifications :: notification_store where
  "sample_notifications = account_store.extend (sample_accounts\<lparr>st_now := (\<lambda>n. 0), as_tokenExpiry := Some (- 1),
       as_accounts := [''ann'' \<mapsto> sample_row]\<rparr>)
     \<lparr> nt_notifications = (\<lambda>i. None), nt_daos = [''d'' \<mapsto> (empty_dao ''d'')\<lparr>dao_accountIds := Some [''bob'']\<rparr>],
       nt_daoItems = (\<lambda>i. None),
       nt_subscriptions = [\<lparr> su_id = ''x'', su_daoId = ''d'', su_accountId = ''ann'' \<rparr>],
       nt_items = (\<lambda>a. if a = ''ann'' then [''i'' \<mapsto> read_item True, ''j'' \<mapsto> read_item False] else (\<lambda>i. None)),
       nt_ids = [''ann'' \<mapsto> \<lparr> in_accountId = ''ann'', in_notReadIds = [''j''], in_notArchivedIds = [''i'', ''j''],
          in_isArchived = False, in_createdAt = 0, in_updatedAt = 0 \<rparr>],
       nt_rows = [], nt_settingsItems = (\<lambda>a. None), nt_settings = [sample_setting], nt_events = [] \<rparr>"

definition sample_notification :: notification where
  "sample_notification = \<lparr> ntf_id = ''n'', ntf_daoId = Some ''d'', ntf_targetId = ''d'', ntf_signerId = Some ''bob'',
     ntf_type = NT_ClubDao, ntf_status = Some NS_Created,
     ntf_metadata = Some \<lparr> nm_methodName = None, nm_args = JNull, nm_proposal = None \<rparr>,
     ntf_timestamp = None, ntf_dao = None \<rparr>"

lemma sample_created:
  "case fst (createAccountNotifications serial_pools sample_notification sample_notifications) of
     Inl e \<Rightarrow> False | Inr ns \<Rightarrow> map an_accountId ns = [''ann''] \<and> map an_isEmail ns = [True]"
  by code_simp

lemma who_is_notified_witness:
  "\<exists>ns t subs settings. createAccountNotifications serial_pools sample_notification sample_notifications = (Inr ns, t)
     \<and> map an_accountId ns = [''ann''] \<and> distinct subs
     \<and> map an_accountId ns = filter (told settings sample_notification) subs"
proof -
  obtain r t where run: "createAccountNotifications serial_pools sample_notification sample_notifications = (r, t)"
    by fastforce
  then obtain ns where ns: "createAccountNotifications serial_pools sample_notification sample_notifications = (Inr ns, t)"
      "map an_accountId ns = [''ann'']"
    using sample_created by (cases r) auto
  from who_is_notified [OF ns(1)] obtain subs settings where
    subs: "distinct subs" "map an_accountId ns = filter (told settings sample_notification) subs" by blast
  show ?thesis by (intro exI conjI) (rule ns subs)+
qed

text \<open>Two requests are sent: a log-in and the message to Ann.\<close>

lemma sample_sent:
  "length (as_notifi (snd (notifyAccounts serial_pools ''u'' (Some sample_notification) sample_notifications))) = 2"
  by code_simp

lemma messages_as_allowed_witness:
  "\<exists>c c'. as_notifi (snd (notifyAccounts serial_pools ''u'' (Some sample_notification) sample_notifications)) = [c, c']
     \<and> (\<forall>d \<in> {c, c'}. \<exists>ns t template.
          createAccountNotifications serial_pools sample_notification sample_notifications = (Inr ns, t)
        \<and> allowed sample_notifications template ns d)"
proof -
  have "as_notifi sample_notifications = []"
    by (simp add: sample_notifications_def sample_accounts_def account_store.defs)
  moreover obtain c c' where
    "as_notifi (snd (notifyAccounts serial_pools ''u'' (Some sample_notification) sample_notifications)) = [c, c']"
    using sample_sent by (auto simp: numeral_2_eq_2 length_Suc_conv)
  ultimately show ?thesis
    using messages_as_allowed [OF serial_pools_keep, of sample_notification sample_notifications "''u''"]
    by (auto simp: sent_since_def)
qed

lemma sample_listed: "calm sample_notifications" "read_listed sample_notifications ''ann''"
  "not_archived sample_notifications ''ann'' = [''i'', ''j'']" "not_read sample_notifications ''ann'' = [''j'']"
  "nt_items sample_notifications ''ann'' ''i'' = Some (read_item True)"
  "nt_items sample_notifications ''ann'' ''j'' = Some (read_item False)"
  by (simp_all add: sample_notifications_def sample_accounts_def account_store.defs calm_def read_listed_def
      not_read_def not_archived_def read_item_def)

lemma read_all_reads_witness:
  "\<exists>t x. readAccountNotifications ''ann'' sample_notifications = (Inr (), t) \<and> not_read t ''ann'' = []
     \<and> not_archived t ''ann'' = [''i'', ''j''] \<and> nt_items t ''ann'' ''j'' = Some x \<and> ni_isRead x"
proof -
  obtain t where t: "readAccountNotifications ''ann'' sample_notifications = (Inr (), t)" "not_read t ''ann'' = []"
    "not_archived t ''ann'' = not_archived sample_notifications ''ann''"
    "\<forall>i. map_option (ni_updatedAt_update (\<lambda>_. 0)) (nt_items t ''ann'' i)
      = map_option (\<lambda>x. x\<lparr>ni_isRead := True, ni_updatedAt := 0\<rparr>) (nt_items sample_notifications ''ann'' i)"
    using read_all_reads [OF sample_listed(1,2)] by blast
  obtain x where x: "nt_items t ''ann'' ''j'' = Some x"
      "x\<lparr>ni_updatedAt := 0\<rparr> = (read_item False)\<lparr>ni_isRead := True, ni_updatedAt := 0\<rparr>"
    using spec [OF t(4), of "''j''"] sample_listed(6) by auto
  then have "ni_isRead x" by (cases x) (simp add: read_item_def)
  then show ?thesis using t x(1) sample_listed(3) by auto
qed

lemma archive_all_archives_unread_witness:
  "\<exists>t x. archiveAccountNotifications ''ann'' sample_notifications = (Inr (), t) \<and> not_archived t ''ann'' = []
     \<and> nt_items t ''ann'' ''i'' = Some x \<and> \<not> ni_isArchived x"
proof -
  obtain t where t: "archiveAccountNotifications ''ann'' sample_notifications = (Inr (), t)"
    "not_archived t ''ann'' = []"
    "\<forall>i. map_option (ni_updatedAt_update (\<lambda>_. 0)) (nt_items t ''ann'' i)
      = map_option (\<lambda>x. x\<lparr>ni_isArchived := ni_isArchived x \<or> \<not> ni_isRead x, ni_updatedAt := 0\<rparr>)
          (nt_items sample_notifications ''ann'' i)"
    using archive_all_archives_unread [OF sample_listed(1,2)] sample_listed(4) by auto
  obtain x where x: "nt_items t ''ann'' ''i'' = Some x"
      "x\<lparr>ni_updatedAt := 0\<rparr> = (read_item True)\<lparr>ni_isArchived := False, ni_updatedAt := 0\<rparr>"
    using spec [OF t(3), of "''i''"] sample_listed(5) by (auto simp: read_item_def)
  then have "\<not> ni_isArchived x" by (cases x) (simp add: read_item_def)
  then show ?thesis using t x(1) by auto
qed

end
