(* ===== verification/Api_Guards.thy ===== *)
theory Api_Guards
  imports Notifications Account_Facts
begin

text \<open>
  The guards of the API (\<open>libs/common/src/guards\<close>, \<open>apps/api/src/guards\<close>): which account a request is made
  for, and whether it may act for a DAO. A request carries a bearer token: the Base64 text of an
  account, one of its public keys and the key's signature of its own text. The keys that NEAR
  reports for an account and the verification of signatures are functions of the state.
  \<open>access_by_key\<close> says which requests are let through.
\<close>

section \<open>AccountAccessGuard\<close>

text \<open>The two headers that may carry the token.\<close>

record request_headers =
  rh_authorization :: "string option"
  rh_xAuthorization :: "string option"

record access_store = notification_store +
  gd_keys :: "nat \<Rightarrow> string \<Rightarrow> exn + string list"
  gd_verify :: "string \<Rightarrow> string \<Rightarrow> exn + bool"
  gd_admins :: "string list"

definition forbidden :: "string \<Rightarrow> exn" where
  "forbidden message = HttpError 403 message"

text \<open>\<open>a || b\<close> for texts that may be missing.\<close>

definition or_text :: "string option \<Rightarrow> string option \<Rightarrow> string option" where
  "or_text a b = (case a of None \<Rightarrow> b | Some t \<Rightarrow> if t = [] then b else Some t)"

text \<open>An element of an array, \<open>undefined\<close> counting as the empty text.\<close>

definition piece :: "nat \<Rightarrow> string list \<Rightarrow> string" where
  "piece i ws = (if i < length ws then ws ! i else [])"

definition read_token :: "request_headers \<Rightarrow> exn + string \<times> string \<times> string" where
  "read_token h =
     (case or_text (rh_authorization h) (rh_xAuthorization h) of
        None \<Rightarrow> Inl (forbidden ''Authorization header is missing'')
      | Some authHeader \<Rightarrow>
          if authHeader = [] then Inl (forbidden ''Authorization header is missing'')
          else
            let type = piece 0 (split_on CHR '' '' authHeader); token = piece 1 (split_on CHR '' '' authHeader)
            in if type \<noteq> ''Bearer'' \<or> token = []
               then Inl (forbidden ''Authorization header format is invalid'')
               else
                 let ws = split_on CHR ''|'' (decodeBase64 token);
                     accountId = piece 0 ws; publicKey = piece 1 ws; signature = piece 2 ws
                 in if accountId = [] \<or> publicKey = [] \<or> signature = []
                    then Inl (forbidden ''Authorization header payload is invalid'')
                    else Inr (accountId, publicKey, signature))"

definition verifyAccount :: "string \<Rightarrow> string \<Rightarrow> string \<Rightarrow> ('b access_store_scheme, bool) op" where
  "verifyAccount accountId publicKey signature =
     op_bind (op_try (access (\<lambda>s. (gd_keys s (st_tick s) accountId, s)))
        (\<lambda>e. op_fail (forbidden ''Authorization header is invalid''))) (\<lambda>accessKeys.
     if publicKey \<notin> set accessKeys
     then op_fail (forbidden (''Account '' @ accountId @ '' identity is invalid - public key''))
     else
       op_bind (op_get (\<lambda>s. gd_verify s publicKey signature)) (\<lambda>verified.
       op_bind (op_try (op_lift verified) (\<lambda>e. op_fail (forbidden ''Invalid signature''))) (\<lambda>isValid.
       if \<not> isValid then op_fail (forbidden ''Invalid signature'') else op_ret isValid)))"

text \<open>The account that the handler of the request sees; without it the request is refused.\<close>

definition accountAccess :: "request_headers \<Rightarrow> ('b access_store_scheme, string) op" where
  "accountAccess h =
     op_bind (op_lift (read_token h)) (\<lambda>(accountId, publicKey, signature).
     op_bind (verifyAccount accountId publicKey signature) (\<lambda>isAuthenticated.
     if isAuthenticated then op_ret accountId else op_fail (forbidden ''Forbidden resource'')))"

section \<open>The other guards\<close>

definition adminAccess :: "string \<Rightarrow> ('b access_store_scheme, unit) op" where
  "adminAccess accountId =
     op_bind (op_get gd_admins) (\<lambda>admins.
     if accountId \<in> set admins then op_ret () else op_fail (forbidden ''Forbidden resource''))"

definition validAccount :: "string \<Rightarrow> ('b access_store_scheme, unit) op" where
  "validAccount accountId =
     (if accountId = [] then op_fail (HttpError 400 ''Account ID is missing'') else op_ret ())"

text \<open>The council and the members of a DAO, as the two stores have them.\<close>

definition dao_people :: "string \<Rightarrow> ('b access_store_scheme, (string list option \<times> string list option) option) op" where
  "dao_people daoId =
     op_bind useDaoDynamo (\<lambda>dynamo.
     if dynamo then
       op_bind (get_item (\<lambda>s. nt_daoItems s daoId)) (\<lambda>found.
       op_ret (map_option (\<lambda>d. (di_council d, di_accountIds d)) found))
     else access (op_get (\<lambda>s. if enabled_dao (nt_daos s daoId)
       then map_option (\<lambda>d. (dao_council d, dao_accountIds d)) (nt_daos s daoId) else None)))"

definition councilAccess :: "string \<Rightarrow> string \<Rightarrow> ('b access_store_scheme, unit) op" where
  "councilAccess accountId daoId =
     op_bind (dao_people daoId) (\<lambda>found.
     case found of
       None \<Rightarrow> op_fail (HttpError 404 (''DAO does not exist: '' @ daoId))
     | Some (daoCouncil, daoMembers) \<Rightarrow>
         op_bind (op_need (TypeError ''length'') daoCouncil) (\<lambda>council.
         op_bind (if council = [] then op_need (TypeError ''includes'') daoMembers else op_ret council) (\<lambda>allowed.
         if accountId \<in> set allowed then op_ret () else op_fail (forbidden ''Forbidden resource''))))"

section \<open>Tokens\<close>

lemma b64_char_not_space: "b64_char v \<noteq> CHR '' ''"
proof
  assume "b64_char v = CHR '' ''"
  then have "(of_char (b64_char v) :: nat) = 32" by simp
  then show False by (auto simp: b64_char_def split: if_splits)
qed

lemma encodeBase64_no_space: "CHR '' '' \<notin> set (encodeBase64 s)"
proof -
  have "CHR '' '' \<notin> set (b64_bytes bs)" for bs
    by (induction bs rule: b64_bytes.induct) (auto simp: b64_char_not_space [symmetric])
  then show ?thesis by (simp add: encodeBase64_def)
qed

lemma encodeBase64_Nil: "encodeBase64 s = [] \<longleftrightarrow> s = []"
  using decode_encode_Base64 [of s] by (cases s) (auto simp: encodeBase64_def decodeBase64_def)

text \<open>The token of an account for one of its keys and the key's signature.\<close>

definition bearer :: "string \<Rightarrow> string \<Rightarrow> string \<Rightarrow> request_headers" where
  "bearer accountId publicKey signature =
     \<lparr> rh_authorization = Some (''Bearer '' @ encodeBase64 (accountId @ ''|'' @ publicKey @ ''|'' @ signature)),
       rh_xAuthorization = None \<rparr>"

lemma read_token_bearer:
  assumes "CHR ''|'' \<notin> set a" "CHR ''|'' \<notin> set k" "CHR ''|'' \<notin> set g" and "a \<noteq> []" "k \<noteq> []" "g \<noteq> []"
  shows "read_token (bearer a k g) = Inr (a, k, g)"
proof -
  let ?t = "encodeBase64 (a @ ''|'' @ k @ ''|'' @ g)"
  have "split_on CHR ''|'' (a @ ''|'' @ k @ ''|'' @ g) = [a, k, g]"
    using assms(1-3) by (simp add: split_on_append split_on_no_sep)
  moreover have "split_on CHR '' '' (''Bearer '' @ ?t) = [''Bearer'', ?t]"
    using split_on_append [of "CHR '' ''" "''Bearer''" ?t] encodeBase64_no_space
    by (simp add: split_on_no_sep)
  moreover have "?t \<noteq> []" by (simp add: encodeBase64_Nil)
  ultimately show ?thesis
    using assms(4-6) by (simp add: read_token_def bearer_def or_text_def piece_def decode_encode_Base64 Let_def)
qed

lemma try_fail_Inr: "op_try m (\<lambda>e. op_fail (f e)) s = (Inr x, t) \<longleftrightarrow> m s = (Inr x, t)"
  by (auto simp: run_op split: prod.splits sum.splits)

lemma accountAccess_Inr:
  assumes "accountAccess h s = (Inr a, t)"
  shows "\<exists>k g ks. read_token h = Inr (a, k, g) \<and> t = tick s \<and> gd_keys s (Suc (st_tick s)) a = Inr ks
     \<and> k \<in> set ks \<and> gd_verify s k g = Inr True"
  using assms
  by (auto simp: accountAccess_def verifyAccount_def all_iffs try_fail_Inr tick_def split: if_splits dest!: access_Inr) metis

lemma bearer_access:
  assumes "calm s" and "CHR ''|'' \<notin> set a" "CHR ''|'' \<notin> set k" "CHR ''|'' \<notin> set g" and "a \<noteq> []" "k \<noteq> []" "g \<noteq> []"
  shows "fst (accountAccess (bearer a k g) s) =
      (case gd_keys s (Suc (st_tick s)) a of Inl e \<Rightarrow> Inl (forbidden ''Authorization header is invalid'')
       | Inr ks \<Rightarrow> if k \<notin> set ks
           then Inl (forbidden (''Account '' @ a @ '' identity is invalid - public key''))
           else (case gd_verify s k g of Inr True \<Rightarrow> Inr a | _ \<Rightarrow> Inl (forbidden ''Invalid signature'')))"
  using assms(1)
  by (auto simp: accountAccess_def read_token_bearer [OF assms(2-7)] verifyAccount_def run_op run_access
      tick_def split: sum.splits bool.splits)

text \<open>
  C16. A request is let through for an account exactly when its token names it with a key that NEAR reports
  for the account and a signature of that key over the key's own text; nothing of the request but the
  token counts, and a token stays good while the key does.
\<close>

theorem access_by_key:
  assumes "calm s" and "CHR ''|'' \<notin> set a" "CHR ''|'' \<notin> set k" "CHR ''|'' \<notin> set g" and "a \<noteq> []" "k \<noteq> []" "g \<noteq> []"
  shows "fst (accountAccess (bearer a k g) s) = Inr b \<longleftrightarrow>
     b = a \<and> (\<exists>ks. gd_keys s (Suc (st_tick s)) a = Inr ks \<and> k \<in> set ks) \<and> gd_verify s k g = Inr True"
  by (auto simp: bearer_access [OF assms] split: sum.splits bool.splits)

end
