(* ===== verification/Templates.thy ===== *)
theory Templates
  imports Api_Guards Dynamo_Data
begin

text \<open>
  \<open>libs/proposal-template\<close> and \<open>libs/dao-settings\<close>: templates of proposals, of a DAO and shared between
  DAOs, and the settings of a DAO, each in the relational database and in DynamoDB. The hash of a shared
  template's contract and method is a parameter (\<open>tm_hash\<close>, the package \<open>object-hash\<close>). Bodies of
  requests are taken as their DTOs declare them. Rows carry no times; the clock matters for the ids.
\<close>

section \<open>Data\<close>

record template_config =
  tc_smartContractAddress :: string
  tc_methodName :: string
  tc_deposit :: string
  tc_actionsGas :: string
  tc_json :: string

record template_body =
  tb_name :: string
  tb_description :: "string option"
  tb_isEnabled :: bool
  tb_config :: template_config

record proposal_template =
  pt_id :: string
  pt_daoId :: string
  pt_name :: string
  pt_isEnabled :: bool
  pt_config :: template_config

record shared_template =
  sh_id :: string
  sh_createdBy :: string
  sh_name :: string
  sh_description :: "string option"
  sh_config :: template_config
  sh_daoCount :: int

record shared_item = shared_template +
  shi_isArchived :: bool
  shi_createdAt :: int
  shi_updatedAt :: int

text \<open>The attributes of a template's item; an item may have been inserted with some of them only.\<close>

record template_item =
  ti_id :: "string option"
  ti_daoId :: "string option"
  ti_name :: "string option"
  ti_isEnabled :: "bool option"
  ti_config :: "template_config option"
  ti_createdBy :: "string option"
  ti_description :: "string option"
  ti_daoCount :: "int option"
  ti_isArchived :: "bool option"
  ti_createdAt :: int
  ti_updatedAt :: int

record template_store = access_store +
  tm_rows :: "string \<Rightarrow> proposal_template option"
  tm_items :: "string \<Rightarrow> string \<Rightarrow> template_item option"
  tm_shared :: "string \<Rightarrow> shared_template option"
  tm_sharedItems :: "string \<Rightarrow> shared_item option"
  tm_sharedDaos :: "(string \<times> string) list"
  tm_settings :: "string \<Rightarrow> jsval option"
  tm_hash :: "string option \<Rightarrow> string \<Rightarrow> string"
  tm_contractName :: string

section \<open>DynamoProposalTemplateService\<close>

definition put_template_item ::
    "string \<Rightarrow> string \<Rightarrow> template_item \<Rightarrow> 'b template_store_scheme \<Rightarrow> 'b template_store_scheme" where
  "put_template_item daoId i x s = s\<lparr>tm_items := (tm_items s)(daoId := (tm_items s daoId)(i \<mapsto> x))\<rparr>"

text \<open>\<open>old\<close> where the new attribute was not given.\<close>

definition given_attribute :: "'a option \<Rightarrow> 'a option \<Rightarrow> 'a option" where
  "given_attribute new old = (if new = None then old else new)"

definition overlay_item :: "template_item \<Rightarrow> template_item \<Rightarrow> template_item" where
  "overlay_item new old =
     \<lparr> ti_id = given_attribute (ti_id new) (ti_id old), ti_daoId = given_attribute (ti_daoId new) (ti_daoId old),
       ti_name = given_attribute (ti_name new) (ti_name old), ti_isEnabled = given_attribute (ti_isEnabled new) (ti_isEnabled old),
       ti_config = given_attribute (ti_config new) (ti_config old),
       ti_createdBy = given_attribute (ti_createdBy new) (ti_createdBy old),
       ti_description = given_attribute (ti_description new) (ti_description old),
       ti_daoCount = given_attribute (ti_daoCount new) (ti_daoCount old),
       ti_isArchived = given_attribute (ti_isArchived new) (ti_isArchived old),
       ti_createdAt = ti_createdAt old, ti_updatedAt = ti_updatedAt new \<rparr>"

definition save_template_item :: "string \<Rightarrow> string \<Rightarrow> template_item \<Rightarrow> ('b template_store_scheme, unit) op" where
  "save_template_item daoId i x =
     save_item (\<lambda>s. tm_items s daoId i) (put_template_item daoId i x)
       (\<lambda>old. put_template_item daoId i (overlay_item x old))"

text \<open>All attributes are given, the time of creation too.\<close>

definition save_whole_item :: "string \<Rightarrow> string \<Rightarrow> template_item \<Rightarrow> ('b template_store_scheme, unit) op" where
  "save_whole_item daoId i x =
     save_item (\<lambda>s. tm_items s daoId i) (put_template_item daoId i x)
       (\<lambda>old. put_template_item daoId i ((overlay_item x old)\<lparr>ti_createdAt := ti_createdAt x\<rparr>))"

definition no_attributes :: "int \<Rightarrow> template_item" where
  "no_attributes now = \<lparr> ti_id = None, ti_daoId = None, ti_name = None, ti_isEnabled = None, ti_config = None,
     ti_createdBy = None, ti_description = None, ti_daoCount = None, ti_isArchived = None,
     ti_createdAt = now, ti_updatedAt = now \<rparr>"

text \<open>The model has no \<open>daoId\<close>: it is the partition.\<close>

definition mapProposalTemplateToProposalTemplateModel :: "int \<Rightarrow> proposal_template \<Rightarrow> template_item" where
  "mapProposalTemplateToProposalTemplateModel now x = (no_attributes now)\<lparr>ti_id := Some (pt_id x),
     ti_name := Some (pt_name x), ti_isEnabled := Some (pt_isEnabled x), ti_config := Some (pt_config x),
     ti_isArchived := Some False\<rparr>"

definition dynamoTemplate_create :: "string \<Rightarrow> template_body \<Rightarrow> ('b template_store_scheme, proposal_template) op" where
  "dynamoTemplate_create daoId body =
     op_bind op_now (\<lambda>now.
     let newProposalTemplate = \<lparr> pt_id = buildTemplateId now daoId, pt_daoId = daoId, pt_name = tb_name body,
           pt_isEnabled = tb_isEnabled body, pt_config = tb_config body \<rparr>
     in op_then (save_whole_item daoId (pt_id newProposalTemplate)
            (mapProposalTemplateToProposalTemplateModel now newProposalTemplate))
          (op_ret newProposalTemplate))"

definition dynamoTemplate_update :: "string \<Rightarrow> string \<Rightarrow> template_body \<Rightarrow> ('b template_store_scheme, unit) op" where
  "dynamoTemplate_update i daoId body =
     op_bind op_now (\<lambda>now.
     save_template_item daoId i ((no_attributes now)\<lparr>ti_config := Some (tb_config body),
       ti_isEnabled := Some (tb_isEnabled body), ti_name := Some (tb_name body), ti_daoId := Some daoId\<rparr>))"

text \<open>\<open>archiveItemByType\<close> saves, so it inserts an item when there is none.\<close>

definition dynamoTemplate_delete :: "string \<Rightarrow> string \<Rightarrow> ('b template_store_scheme, unit) op" where
  "dynamoTemplate_delete daoId i =
     op_bind op_now (\<lambda>now. save_template_item daoId i ((no_attributes now)\<lparr>ti_isArchived := Some True\<rparr>))"

section \<open>ProposalTemplateService\<close>

definition no_dao :: exn where
  "no_dao = Rejection ''foreign key''"

text \<open>
  \<open>save\<close> with an id and the columns that are given; a row's DAO must exist, and a new row needs its name
  and configuration.
\<close>

definition save_template_row ::
    "string \<Rightarrow> string \<Rightarrow> bool \<Rightarrow> (string \<times> template_config) option \<Rightarrow>
     ('b template_store_scheme, proposal_template) op" where
  "save_template_row i daoId isEnabled content = access (\<lambda>s.
     if nt_daos s daoId = None then (Inl no_dao, s)
     else (case (content, tm_rows s i) of
         (None, None) \<Rightarrow> (Inl (Rejection ''not null''), s)
       | (None, Some old) \<Rightarrow>
           let x = old\<lparr>pt_daoId := daoId, pt_isEnabled := isEnabled\<rparr> in (Inr x, s\<lparr>tm_rows := (tm_rows s)(i \<mapsto> x)\<rparr>)
       | (Some (name, config), _) \<Rightarrow>
           let x = \<lparr> pt_id = i, pt_daoId = daoId, pt_name = name, pt_isEnabled = isEnabled, pt_config = config \<rparr>
           in (Inr x, s\<lparr>tm_rows := (tm_rows s)(i \<mapsto> x)\<rparr>)))"

definition template_create ::
    "string \<Rightarrow> bool \<Rightarrow> (string \<times> template_config) option \<Rightarrow> ('b template_store_scheme, proposal_template) op" where
  "template_create daoId isEnabled content =
     op_bind op_now (\<lambda>now. save_template_row (buildTemplateId now daoId) daoId isEnabled content)"

definition template_update ::
    "string \<Rightarrow> string \<Rightarrow> template_body \<Rightarrow> ('b template_store_scheme, proposal_template) op" where
  "template_update i daoId body =
     save_template_row i daoId (tb_isEnabled body) (Some (tb_name body, tb_config body))"

definition template_delete :: "string \<Rightarrow> ('b template_store_scheme, unit) op" where
  "template_delete i = access (op_put (\<lambda>s. s\<lparr>tm_rows := (tm_rows s)(i := None)\<rparr>))"

text \<open>The rows of a DAO, as a set.\<close>

definition findDaoProposalTemplates :: "string \<Rightarrow> ('b template_store_scheme, string \<Rightarrow> proposal_template option) op" where
  "findDaoProposalTemplates daoId =
     op_bind (dao_found (Some daoId)) (\<lambda>dao.
     if \<not> dao then op_fail (HttpError 404 (''DAO does not exist: '' @ daoId))
     else access (op_get (\<lambda>s i. case tm_rows s i of None \<Rightarrow> None
            | Some x \<Rightarrow> if pt_daoId x = daoId then Some x else None)))"

section \<open>Shared templates\<close>

text \<open>A contract below the network's own account is left out of the hash.\<close>

definition shared_id :: "'b template_store_scheme \<Rightarrow> template_config \<Rightarrow> string" where
  "shared_id s config =
     tm_hash s (if ends_with (tc_smartContractAddress config) (tm_contractName s) then None
                else Some (tc_smartContractAddress config)) (tc_methodName config)"

definition put_shared_item :: "string \<Rightarrow> shared_item \<Rightarrow> 'b template_store_scheme \<Rightarrow> 'b template_store_scheme" where
  "put_shared_item i x s = s\<lparr>tm_sharedItems := (tm_sharedItems s)(i \<mapsto> x)\<rparr>"

text \<open>\<open>saveItem\<close> of a whole shared template; a missing description keeps the old one.\<close>

definition overlay_shared :: "shared_item \<Rightarrow> shared_item \<Rightarrow> shared_item" where
  "overlay_shared new old = new\<lparr>sh_description := given_attribute (sh_description new) (sh_description old)\<rparr>"

definition dynamoShared_create :: "string \<Rightarrow> template_body \<Rightarrow> ('b template_store_scheme, shared_item) op" where
  "dynamoShared_create createdBy body =
     op_bind (op_get (\<lambda>s. shared_id s (tb_config body))) (\<lambda>i.
     op_bind (get_item (\<lambda>s. tm_sharedItems s i)) (\<lambda>existingTemplate.
     case existingTemplate of
       Some x \<Rightarrow> op_ret x
     | None \<Rightarrow>
         op_bind op_now (\<lambda>now.
         let x = shared_template.extend \<lparr> sh_id = i, sh_createdBy = createdBy, sh_name = tb_name body,
               sh_description = None, sh_config = tb_config body, sh_daoCount = 1 \<rparr>
               \<lparr> shi_isArchived = False, shi_createdAt = now, shi_updatedAt = now \<rparr>
         in op_then (save_item (\<lambda>s. tm_sharedItems s i) (put_shared_item i x)
                (\<lambda>old. put_shared_item i (overlay_shared x old)))
              (op_ret x))))"

text \<open>The copy keeps the attributes of the shared template, its id included, and raises its own count.\<close>

definition clone_item :: "shared_item \<Rightarrow> template_item" where
  "clone_item x =
     \<lparr> ti_id = Some (sh_id x), ti_daoId = None, ti_name = Some (sh_name x), ti_isEnabled = None,
       ti_config = Some (sh_config x), ti_createdBy = Some (sh_createdBy x), ti_description = sh_description x,
       ti_daoCount = Some (sh_daoCount x + 1), ti_isArchived = Some (shi_isArchived x),
       ti_createdAt = shi_createdAt x, ti_updatedAt = shi_updatedAt x \<rparr>"

definition dynamoShared_cloneToDao :: "string \<Rightarrow> string \<Rightarrow> ('b template_store_scheme, unit) op" where
  "dynamoShared_cloneToDao proposalTemplateId toDao =
     op_bind (get_item (\<lambda>s. tm_sharedItems s proposalTemplateId)) (\<lambda>existingTemplate.
     case existingTemplate of
       None \<Rightarrow> op_ret ()
     | Some x \<Rightarrow>
         op_bind op_now (\<lambda>now.
         save_whole_item toDao (buildTemplateId now toDao) (clone_item x)))"

text \<open>The join table refers to the shared template and to the DAO.\<close>

definition save_shared_dao :: "string \<Rightarrow> string \<Rightarrow> ('b template_store_scheme, unit) op" where
  "save_shared_dao proposalTemplateId daoId = access (\<lambda>s.
     if tm_shared s proposalTemplateId = None \<or> nt_daos s daoId = None then (Inl no_dao, s)
     else (Inr (), s\<lparr>tm_sharedDaos := List.insert (proposalTemplateId, daoId) (tm_sharedDaos s)\<rparr>))"

definition shared_create :: "string \<Rightarrow> string \<Rightarrow> template_body \<Rightarrow> ('b template_store_scheme, string) op" where
  "shared_create createdBy daoId body =
     op_bind (op_get (\<lambda>s. shared_id s (tb_config body))) (\<lambda>i.
     op_bind (access (op_get (\<lambda>s. tm_shared s i))) (\<lambda>existingTemplate.
     if existingTemplate \<noteq> None then op_ret i
     else
       op_then (access (op_put (\<lambda>s. s\<lparr>tm_shared := (tm_shared s)(i \<mapsto>
           \<lparr> sh_id = i, sh_createdBy = createdBy, sh_name = tb_name body, sh_description = tb_description body,
             sh_config = tb_config body, sh_daoCount = 1 \<rparr>)\<rparr>)))
      (op_then (save_shared_dao i daoId) (op_ret i))))"

definition shared_cloneToDao :: "string \<Rightarrow> string \<Rightarrow> ('b template_store_scheme, proposal_template) op" where
  "shared_cloneToDao proposalTemplateId daoId =
     op_then (save_shared_dao proposalTemplateId daoId)
    (op_bind (access (op_get (\<lambda>s. int (length (filter (\<lambda>(i, d). i = proposalTemplateId) (tm_sharedDaos s))))))
       (\<lambda>daoCount.
     op_then (access (op_put (\<lambda>s. s\<lparr>tm_shared := (tm_shared s)(proposalTemplateId :=
           map_option (sh_daoCount_update (\<lambda>_. daoCount)) (tm_shared s proposalTemplateId))\<rparr>)))
    (op_bind (access (op_get (\<lambda>s. tm_shared s proposalTemplateId))) (\<lambda>sharedProposalTemplate.
     template_create daoId True (map_option (\<lambda>x. (sh_name x, sh_config x)) sharedProposalTemplate)))))"

section \<open>DaoSettingsService\<close>

definition settings_useDynamo :: "('b template_store_scheme, bool) op" where
  "settings_useDynamo = flag_on ''dao-settings-dynamo''"

text \<open>\<open>settings || {}\<close>.\<close>

definition or_empty :: "jsval \<Rightarrow> jsval" where
  "or_empty v = (if truthy v then v else JObj [])"

definition getSettings :: "string \<Rightarrow> ('b template_store_scheme, jsval) op" where
  "getSettings daoId =
     op_bind settings_useDynamo (\<lambda>dynamo.
     if dynamo then
       op_bind (get_item (\<lambda>s. nt_daoItems s daoId)) (\<lambda>dao.
       op_ret (or_empty (case dao of None \<Rightarrow> JUndef | Some d \<Rightarrow> di_settings d)))
     else
       op_bind (access (op_get (\<lambda>s. tm_settings s daoId))) (\<lambda>entity.
       op_ret (or_empty (case entity of None \<Rightarrow> JUndef | Some v \<Rightarrow> v))))"

text \<open>What DynamoDB gives back for the attribute.\<close>

definition stored_settings :: "jsval \<Rightarrow> jsval" where
  "stored_settings v = js_get_opt (denormalizeData (normalizeData (JObj [(''settings'', v)]))) ''settings''"

text \<open>The column takes any value but \<open>null\<close>; a value that was not given leaves the row as it is.\<close>

definition save_settings_row :: "string \<Rightarrow> jsval \<Rightarrow> ('b template_store_scheme, unit) op" where
  "save_settings_row daoId settings = access (\<lambda>s.
     if settings = JNull \<or> (settings = JUndef \<and> tm_settings s daoId = None)
     then (Inl (Rejection ''not null''), s)
     else (Inr (), if settings = JUndef then s else s\<lparr>tm_settings := (tm_settings s)(daoId \<mapsto> settings)\<rparr>))"

definition saveDaoSettings :: "string \<Rightarrow> jsval \<Rightarrow> ('b template_store_scheme, unit) op" where
  "saveDaoSettings daoId settings =
     (let v = stored_settings settings
      in save_item (\<lambda>s. nt_daoItems s daoId)
           (put_dao_item daoId \<lparr> di_accountIds = None, di_followers = None, di_council = None, di_settings = v \<rparr>)
           (\<lambda>d. put_dao_item daoId (if v = JUndef then d else d\<lparr>di_settings := v\<rparr>)))"

definition saveSettings :: "string \<Rightarrow> jsval \<Rightarrow> ('b template_store_scheme, unit) op" where
  "saveSettings daoId settings =
     op_then (save_settings_row daoId settings) (saveDaoSettings daoId settings)"

definition saveSettingsParam :: "string \<Rightarrow> string \<Rightarrow> jsval \<Rightarrow> ('b template_store_scheme, unit) op" where
  "saveSettingsParam daoId key v =
     op_bind (getSettings daoId) (\<lambda>settings.
     saveSettings daoId (JObj (obj_set (spread_fields settings) key v)))"

end
