(* ===== verification/Comments.thy ===== *)
theory Comments
  imports Templates
begin

text \<open>
  \<open>libs/comment\<close>: comments on proposals and bounties, their reports, and the counters of comments that
  proposals and bounties carry. A comment is archived by its author, by the council of its DAO or
  when it has three reports. The search index keeps a document per comment.
\<close>

section \<open>Data\<close>

datatype context_type = CC_Proposal | CC_BountyContext

record comment_row =
  co_id :: int
  co_daoId :: string
  co_contextId :: "string option"
  co_contextType :: "context_type option"
  co_accountId :: string
  co_message :: string
  co_isArchived :: bool

record comment_report =
  rp_id :: string
  rp_commentId :: int
  rp_accountId :: string
  rp_reason :: string

text \<open>
  The body of a new comment. The API checks its context and its message and passes its other properties
  on: an id, the flag of archived comments and reports are saved with the comment. The columns that no
  operation reads (\<open>proposalId\<close> and the times) and values that do not have the type of their column are
  not modelled.
\<close>

record comment_dto =
  cd_contextId :: string
  cd_contextType :: context_type
  cd_message :: string
  cd_id :: "int option"
  cd_isArchived :: "bool option"
  cd_reports :: "comment_report list"

datatype comment_message = New_Comment comment_row | Comment_Deleted comment_row

text \<open>
  \<open>ct_ids\<close> are the ids of the rows and \<open>ct_sequence\<close> is the last id given out; proposals and contexts of bounties appear with their DAO and
  their counter; \<open>ct_index\<close> are the documents of the search index by their id.
\<close>

record comments_store = template_store +
  ct_comments :: "int \<Rightarrow> comment_row option"
  ct_ids :: "int list"
  ct_sequence :: int
  ct_reports :: "comment_report list"
  ct_proposals :: "string \<Rightarrow> (string \<times> int) option"
  ct_bounties :: "string \<Rightarrow> (string \<times> int) option"
  ct_index :: "string \<Rightarrow> comment_row option"
  ct_events :: "comment_message list"

definition COMMENT_DELETE_VOTES_REQUIRED :: nat where
  "COMMENT_DELETE_VOTES_REQUIRED = 3"

definition put_comment :: "int \<Rightarrow> comment_row \<Rightarrow> 'b comments_store_scheme \<Rightarrow> 'b comments_store_scheme" where
  "put_comment i c s = s\<lparr>ct_comments := (ct_comments s)(i \<mapsto> c), ct_ids := List.insert i (ct_ids s)\<rparr>"

section \<open>CommentService\<close>

text \<open>
  \<open>OpensearchService.index\<close>: a request that fails to find the document counts as no document; the
  failure of an update rejects, that of an insertion does not. A comment without a row is looked for
  in an index that does not exist.
\<close>

definition put_document :: "string \<Rightarrow> comment_row \<Rightarrow> 'b comments_store_scheme \<Rightarrow> 'b comments_store_scheme" where
  "put_document i c s = s\<lparr>ct_index := (ct_index s)(i \<mapsto> c)\<rparr>"

text \<open>An update of a document keeps the flag when the comment does not have it (\<open>whole\<close> is false).\<close>

definition comment_document :: "bool \<Rightarrow> comment_row \<Rightarrow> comment_row option \<Rightarrow> comment_row" where
  "comment_document whole c document =
     (case document of
        None \<Rightarrow> c
      | Some d \<Rightarrow> if whole then c else c\<lparr>co_isArchived := co_isArchived d\<rparr>)"

definition indexComment :: "bool \<Rightarrow> string \<Rightarrow> comment_row option \<Rightarrow> ('b comments_store_scheme, unit) op" where
  "indexComment whole i found =
     (case found of
        None \<Rightarrow> access (op_ret ())
      | Some c \<Rightarrow>
          let k = int_str (co_id c) in
          op_bind (get_item (\<lambda>s. ct_index s k)) (\<lambda>document.
          if document \<noteq> None then access (op_put (put_document k (comment_document whole c document)))
          else op_try (access (op_put (put_document k c))) (\<lambda>e. op_ret ())))"

definition counted_with :: "comment_row \<Rightarrow> comment_row \<Rightarrow> bool" where
  "counted_with c d \<longleftrightarrow> co_contextId d = co_contextId c \<and> co_contextType d = co_contextType c \<and> \<not> co_isArchived d"

definition comments_count :: "'b comments_store_scheme \<Rightarrow> comment_row \<Rightarrow> int" where
  "comments_count s c = int (length (filter
     (\<lambda>i. case ct_comments s i of None \<Rightarrow> False | Some d \<Rightarrow> counted_with c d) (ct_ids s)))"

text \<open>An update of the row with the id, if there is one.\<close>

definition set_count :: "int \<Rightarrow> string option \<Rightarrow> (string \<Rightarrow> (string \<times> int) option) \<Rightarrow> string \<Rightarrow> (string \<times> int) option" where
  "set_count n i rows = (case i of None \<Rightarrow> rows
     | Some k \<Rightarrow> rows(k := map_option (\<lambda>(dao, _). (dao, n)) (rows k)))"

definition updateCommentsCount :: "comment_row \<Rightarrow> ('b comments_store_scheme, unit) op" where
  "updateCommentsCount c =
     op_bind (access (op_get (\<lambda>s. comments_count s c))) (\<lambda>commentsCount.
     case co_contextType c of
       None \<Rightarrow> op_ret ()
     | Some CC_Proposal \<Rightarrow> access (op_put (\<lambda>s. s\<lparr>ct_proposals := set_count commentsCount (co_contextId c) (ct_proposals s)\<rparr>))
     | Some CC_BountyContext \<Rightarrow> access (op_put (\<lambda>s. s\<lparr>ct_bounties := set_count commentsCount (co_contextId c) (ct_bounties s)\<rparr>)))"

definition send_comment_event :: "comment_message \<Rightarrow> ('b comments_store_scheme, unit) op" where
  "send_comment_event e = access (op_put (\<lambda>s. s\<lparr>ct_events := ct_events s @ [e]\<rparr>))"

text \<open>
  \<open>commentRepository.save\<close> of the body with the account and the DAO. Without an id it inserts a row under
  the next id of the sequence, which refuses one that is taken; with an id it overwrites the row that has
  it, or inserts one. The reports of the body are saved with it, of two with one id the first; a report
  on no comment rolls the save back. The result tells the flag when the row is new or the body has it.
\<close>

definition save_comment ::
    "string \<Rightarrow> string \<Rightarrow> comment_dto \<Rightarrow> ('b comments_store_scheme, comment_row \<times> bool) op" where
  "save_comment accountId daoId commentDto = access (\<lambda>s.
     let next = ct_sequence s + 1;
         i = (case cd_id commentDto of None \<Rightarrow> next | Some n \<Rightarrow> n);
         old = ct_comments s i;
         c = \<lparr> co_id = i, co_daoId = daoId, co_contextId = Some (cd_contextId commentDto),
               co_contextType = Some (cd_contextType commentDto), co_accountId = accountId,
               co_message = cd_message commentDto, co_isArchived = (cd_isArchived commentDto = Some True) \<rparr>;
         row = (case old of
                  None \<Rightarrow> c
                | Some d \<Rightarrow> if cd_isArchived commentDto = None then c\<lparr>co_isArchived := co_isArchived d\<rparr> else c);
         t = (if cd_id commentDto = None then s\<lparr>ct_sequence := next\<rparr> else s);
         u = put_comment i row t
     in if cd_id commentDto = None \<and> old \<noteq> None then (Inl (Rejection ''duplicate key''), t)
        else if list_ex (\<lambda>r. ct_comments u (rp_commentId r) = None) (cd_reports commentDto)
        then (Inl (Rejection ''foreign key''), t)
        else (Inr (c, old = None \<or> cd_isArchived commentDto \<noteq> None),
              u\<lparr>ct_reports := foldr (put_keyed rp_id) (cd_reports commentDto) (ct_reports u)\<rparr>))"

definition createDaoComment :: "string \<Rightarrow> string \<Rightarrow> comment_dto \<Rightarrow> ('b comments_store_scheme, comment_row) op" where
  "createDaoComment accountId daoId commentDto =
     op_bind (save_comment accountId daoId commentDto) (\<lambda>(c, whole).
     op_then (indexComment whole (int_str (co_id c)) (Some c))
    (op_then (updateCommentsCount c)
    (op_then (send_comment_event (New_Comment c))
             (op_ret c))))"

definition apiComment_create :: "string \<Rightarrow> comment_dto \<Rightarrow> ('b comments_store_scheme, comment_row) op" where
  "apiComment_create accountId commentDto =
     (case cd_contextType commentDto of
        CC_Proposal \<Rightarrow>
          op_bind (access (op_get (\<lambda>s. ct_proposals s (cd_contextId commentDto)))) (\<lambda>proposal.
          case proposal of
            None \<Rightarrow> op_fail (HttpError 404 (''Proposal with id '' @ cd_contextId commentDto @ '' not found''))
          | Some (daoId, _) \<Rightarrow> createDaoComment accountId daoId commentDto)
      | CC_BountyContext \<Rightarrow>
          op_bind (access (op_get (\<lambda>s. ct_bounties s (cd_contextId commentDto)))) (\<lambda>bountyContext.
          case bountyContext of
            None \<Rightarrow> op_fail (HttpError 404 (''Bounty Context with id '' @ cd_contextId commentDto @ '' not found''))
          | Some (daoId, _) \<Rightarrow> createDaoComment accountId daoId commentDto))"

definition apiComment_updateMultiple :: "comment_row list \<Rightarrow> ('b comments_store_scheme, unit) op" where
  "apiComment_updateMultiple comments =
     op_then (op_when (comments \<noteq> []) (access (op_put (fold (\<lambda>c. put_comment (co_id c) c) comments))))
       (op_each (\<lambda>c. indexComment True (int_str (co_id c)) (Some c)) comments)"

definition apiComment_delete :: "comment_row \<Rightarrow> ('b comments_store_scheme, comment_row) op" where
  "apiComment_delete c =
     (if co_isArchived c then op_ret c
      else
        let deletedComment = c\<lparr>co_isArchived := True\<rparr> in
        op_then (access (op_put (put_comment (co_id c) deletedComment)))
       (op_bind (access (op_get (\<lambda>s. ct_comments s (co_id c)))) (\<lambda>found.
        op_then (indexComment True (int_str (co_id c)) found)
       (op_then (updateCommentsCount deletedComment)
       (op_then (send_comment_event (Comment_Deleted deletedComment))
                (op_ret deletedComment))))))"

definition comment_not_found :: "string \<Rightarrow> exn" where
  "comment_not_found commentId = HttpError 404 (''Comment with commentId '' @ commentId @ '' not found'')"

definition deleteById :: "int \<Rightarrow> ('b comments_store_scheme, comment_row) op" where
  "deleteById commentId =
     op_bind (access (op_get (\<lambda>s. ct_comments s commentId))) (\<lambda>found.
     case found of
       None \<Rightarrow> op_fail (comment_not_found (int_str commentId))
     | Some c \<Rightarrow> apiComment_delete c)"

text \<open>\<open>DaoService.getCouncil\<close>.\<close>

definition dao_getCouncil :: "string \<Rightarrow> ('b comments_store_scheme, string list) op" where
  "dao_getCouncil daoId =
     op_bind (access (op_get (\<lambda>s. nt_daos s daoId))) (\<lambda>found.
     case found of
       None \<Rightarrow> op_ret []
     | Some d \<Rightarrow>
         op_bind (op_need (TypeError ''roles'') (dao_policy d)) (\<lambda>p.
         op_bind (op_need (TypeError ''find'') (pol_roles p)) (\<lambda>rs.
         op_ret (case find is_council_role rs of None \<Rightarrow> []
                 | Some r \<Rightarrow> (case role_accountIds r of None \<Rightarrow> [] | Some ids \<Rightarrow> ids)))))"

text \<open>\<open>findOne(Number(commentId))\<close>: no comment has the id \<open>NaN\<close>, which the database refuses.\<close>

definition find_by_comment_id :: "string \<Rightarrow> ('b comments_store_scheme, comment_row option) op" where
  "find_by_comment_id commentId =
     (case js_Number (JStr commentId) of
        JNum n \<Rightarrow> access (op_get (\<lambda>s. ct_comments s n))
      | _ \<Rightarrow> access (op_fail (Rejection ''NaN'')))"

definition deleteAsOwner :: "string \<Rightarrow> string \<Rightarrow> ('b comments_store_scheme, comment_row) op" where
  "deleteAsOwner commentId accountId =
     op_bind (find_by_comment_id commentId) (\<lambda>found.
     case found of
       None \<Rightarrow> op_fail (comment_not_found commentId)
     | Some c \<Rightarrow>
         op_bind (dao_getCouncil (co_daoId c)) (\<lambda>council.
         if co_accountId c \<noteq> accountId \<and> accountId \<notin> set council
         then op_fail (HttpError 403 (''Account '' @ accountId
                @ '' is not a comment creator not and not a part of council''))
         else apiComment_delete c))"

section \<open>CommentReportService\<close>

text \<open>The report refers to the comment's row; a second report of an account replaces its first.\<close>

definition save_report :: "comment_report \<Rightarrow> ('b comments_store_scheme, unit) op" where
  "save_report r = access (\<lambda>s.
     if ct_comments s (rp_commentId r) = None then (Inl (Rejection ''foreign key''), s)
     else (Inr (), s\<lparr>ct_reports := put_keyed rp_id r (ct_reports s)\<rparr>))"

definition report_create :: "string \<Rightarrow> int \<Rightarrow> string \<Rightarrow> ('b comments_store_scheme, comment_report) op" where
  "report_create accountId commentId reason =
     (let commentReport = \<lparr> rp_id = buildCommentReportId commentId accountId, rp_commentId = commentId,
            rp_accountId = accountId, rp_reason = reason \<rparr>
      in op_then (save_report commentReport)
        (op_bind (access (op_get (\<lambda>s. filter (\<lambda>r. rp_commentId r = commentId) (ct_reports s)))) (\<lambda>commentReports.
         if length commentReports = COMMENT_DELETE_VOTES_REQUIRED
         then op_bind (deleteById commentId) (\<lambda>_. op_ret commentReport)
         else op_ret commentReport)))"

end
