(* ===== verification/Api_Requests.thy ===== *)
theory Api_Requests
  imports Comments
begin

text \<open>
  The controllers of \<open>apps/api\<close> for accounts, notifications, subscriptions, comments, templates and settings
  of DAOs: each handler with its guards, in their order. \<open>api_request\<close> lists the requests and \<open>serve_api\<close>
  serves one; responses are the results of the handlers, which \<open>serve_api\<close> drops. Responses that the
  HTTP cache gives to repeated reads are not modelled.
\<close>

section \<open>AccountController\<close>

definition api_accountById :: "string \<Rightarrow> ('b comments_store_scheme, account_response) op" where
  "api_accountById accountId = op_then (validAccount accountId) (getAccount accountId)"

definition api_setAccountEmail :: "request_headers \<Rightarrow> account \<Rightarrow> ('b comments_store_scheme, account_response) op" where
  "api_setAccountEmail h body = op_bind (accountAccess h) (\<lambda>accountId. createAccountEmail accountId body)"

definition api_accountEmailSendVerification :: "request_headers \<Rightarrow> ('b comments_store_scheme, verification_status) op" where
  "api_accountEmailSendVerification h = op_bind (accountAccess h) sendEmailVerification"

definition api_verifyEmail :: "request_headers \<Rightarrow> string \<Rightarrow> ('b comments_store_scheme, unit) op" where
  "api_verifyEmail h code = op_bind (accountAccess h) (\<lambda>accountId. verifyEmail accountId code)"

definition api_accountEmailStatus :: "string \<Rightarrow> ('b comments_store_scheme, verification_status) op" where
  "api_accountEmailStatus accountId =
     op_then (validAccount accountId) (getEmailVerificationStatus accountId)"

definition api_setAccountPhone :: "request_headers \<Rightarrow> account \<Rightarrow> ('b comments_store_scheme, account_response) op" where
  "api_setAccountPhone h body = op_bind (accountAccess h) (\<lambda>accountId. createAccountPhone accountId body)"

definition api_accountPhoneSendVerification :: "request_headers \<Rightarrow> ('b comments_store_scheme, verification_status) op" where
  "api_accountPhoneSendVerification h = op_bind (accountAccess h) sendPhoneVerification"

definition api_verifyPhone :: "request_headers \<Rightarrow> string \<Rightarrow> ('b comments_store_scheme, unit) op" where
  "api_verifyPhone h code = op_bind (accountAccess h) (\<lambda>accountId. verifyPhone accountId code)"

definition api_accountPhoneStatus :: "string \<Rightarrow> ('b comments_store_scheme, verification_status) op" where
  "api_accountPhoneStatus accountId =
     op_then (validAccount accountId) (getPhoneVerificationStatus accountId)"

section \<open>NotificationController\<close>

definition api_getNotificationById :: "string \<Rightarrow> ('b comments_store_scheme, notification) op" where
  "api_getNotificationById i =
     op_bind (access (op_get (\<lambda>s. load_notification s i))) (\<lambda>found.
     op_need (HttpError 400 ''Invalid Notification ID'') found)"

definition api_readAccountNotifications :: "request_headers \<Rightarrow> ('b comments_store_scheme, unit) op" where
  "api_readAccountNotifications h = op_bind (accountAccess h) readAccountNotifications"

definition api_archiveAccountNotifications :: "request_headers \<Rightarrow> ('b comments_store_scheme, unit) op" where
  "api_archiveAccountNotifications h = op_bind (accountAccess h) archiveAccountNotifications"

text \<open>The account is the one of the path.\<close>

definition api_updateAccountNotification ::
    "request_headers \<Rightarrow> string \<Rightarrow> string \<Rightarrow> update_notification \<Rightarrow> ('b comments_store_scheme, unit) op" where
  "api_updateAccountNotification h accountId i body =
     op_bind (accountAccess h) (\<lambda>_. updateAccountNotification accountId i body)"

definition api_setNotificationSettings ::
    "request_headers \<Rightarrow> create_setting \<Rightarrow> ('b comments_store_scheme, notification_setting) op" where
  "api_setNotificationSettings h body = op_bind (accountAccess h) (\<lambda>accountId. settings_create accountId body)"

definition api_getAccountNotificationStatus :: "string \<Rightarrow> ('b comments_store_scheme, string \<times> nat) op" where
  "api_getAccountNotificationStatus accountId = getAccountNotificationStatus accountId"

section \<open>SubscriptionsController\<close>

text \<open>The violation of a foreign key is reported to the client.\<close>

definition api_subscribe :: "request_headers \<Rightarrow> string \<Rightarrow> ('b comments_store_scheme, subscription) op" where
  "api_subscribe h daoId =
     op_bind (accountAccess h) (\<lambda>accountId.
     op_try (subscription_create accountId daoId) (\<lambda>e.
       op_fail (if e = no_dao then HttpError 400 (''No DAO '' @ [CHR 0x27] @ daoId @ [CHR 0x27] @ '' and/or Account ''
           @ [CHR 0x27] @ accountId @ [CHR 0x27] @ '' found.'') else e)))"

definition api_getAccountSubscriptions :: "string \<Rightarrow> ('b comments_store_scheme, subscription list) op" where
  "api_getAccountSubscriptions accountId = op_then (validAccount accountId) (getAccountSubscriptions accountId)"

text \<open>The account is the one of the path.\<close>

definition api_unsubscribe :: "request_headers \<Rightarrow> string \<Rightarrow> string \<Rightarrow> ('b comments_store_scheme, unit) op" where
  "api_unsubscribe h daoId accountId = op_bind (accountAccess h) (\<lambda>_. subscription_remove daoId accountId)"

section \<open>CommentsController\<close>

definition api_createComment :: "request_headers \<Rightarrow> comment_dto \<Rightarrow> ('b comments_store_scheme, comment_row) op" where
  "api_createComment h commentDto = op_bind (accountAccess h) (\<lambda>accountId. apiComment_create accountId commentDto)"

definition api_createCommentReport ::
    "request_headers \<Rightarrow> int \<Rightarrow> string \<Rightarrow> ('b comments_store_scheme, comment_report) op" where
  "api_createCommentReport h commentId reason =
     op_bind (accountAccess h) (\<lambda>accountId. report_create accountId commentId reason)"

text \<open>A comment that was deleted has an id that is a number.\<close>

definition api_deleteComment :: "request_headers \<Rightarrow> string \<Rightarrow> string \<Rightarrow> ('b comments_store_scheme, comment_row) op" where
  "api_deleteComment h i reason =
     op_bind (accountAccess h) (\<lambda>accountId.
     op_bind (deleteAsOwner i accountId) (\<lambda>c.
     op_bind (case js_Number (JStr i) of JNum n \<Rightarrow> report_create accountId n reason
              | _ \<Rightarrow> op_fail (Rejection ''NaN'')) (\<lambda>_.
     op_ret c)))"

section \<open>Templates and settings of DAOs\<close>

text \<open>The guards \<open>AccountAccessGuard\<close> and \<open>CouncilMemberGuard\<close>.\<close>

definition as_council :: "request_headers \<Rightarrow> string \<Rightarrow> ('b comments_store_scheme, string) op" where
  "as_council h daoId =
     op_bind (accountAccess h) (\<lambda>accountId. op_then (councilAccess accountId daoId) (op_ret accountId))"

definition api_getDaoProposalTemplates ::
    "string \<Rightarrow> ('b comments_store_scheme, string \<Rightarrow> proposal_template option) op" where
  "api_getDaoProposalTemplates daoId = findDaoProposalTemplates daoId"

definition api_createProposalTemplate ::
    "request_headers \<Rightarrow> string \<Rightarrow> template_body \<Rightarrow> ('b comments_store_scheme, proposal_template) op" where
  "api_createProposalTemplate h daoId body =
     op_bind (as_council h daoId) (\<lambda>accountId.
     op_bind (dynamoShared_create accountId body) (\<lambda>_.
     op_bind (dynamoTemplate_create daoId body) (\<lambda>_.
     op_bind (shared_create accountId daoId body) (\<lambda>_.
     template_create daoId (tb_isEnabled body) (Some (tb_name body, tb_config body))))))"

definition api_updateProposalTemplate ::
    "request_headers \<Rightarrow> string \<Rightarrow> string \<Rightarrow> template_body \<Rightarrow> ('b comments_store_scheme, proposal_template) op" where
  "api_updateProposalTemplate h daoId i body =
     op_bind (as_council h daoId) (\<lambda>_.
     op_then (dynamoTemplate_update i daoId body) (template_update i daoId body))"

definition api_deleteProposalTemplate ::
    "request_headers \<Rightarrow> string \<Rightarrow> string \<Rightarrow> ('b comments_store_scheme, unit) op" where
  "api_deleteProposalTemplate h daoId i =
     op_bind (as_council h daoId) (\<lambda>_. op_then (dynamoTemplate_delete daoId i) (template_delete i))"

definition api_cloneTemplate ::
    "request_headers \<Rightarrow> string \<Rightarrow> string \<Rightarrow> ('b comments_store_scheme, proposal_template) op" where
  "api_cloneTemplate h i daoId =
     op_bind (as_council h daoId) (\<lambda>_.
     op_then (dynamoShared_cloneToDao i daoId) (shared_cloneToDao i daoId))"

definition api_getSettings :: "string \<Rightarrow> ('b comments_store_scheme, jsval) op" where
  "api_getSettings daoId = getSettings daoId"

definition api_patchSettings :: "request_headers \<Rightarrow> string \<Rightarrow> jsval \<Rightarrow> ('b comments_store_scheme, unit) op" where
  "api_patchSettings h daoId settings = op_bind (as_council h daoId) (\<lambda>_. saveSettings daoId settings)"

definition api_patchSettingsParam ::
    "request_headers \<Rightarrow> string \<Rightarrow> string \<Rightarrow> jsval \<Rightarrow> ('b comments_store_scheme, unit) op" where
  "api_patchSettingsParam h daoId key v = op_bind (as_council h daoId) (\<lambda>_. saveSettingsParam daoId key v)"

section \<open>AggregatorController\<close>

text \<open>\<open>ap_triggers\<close> are the aggregations of DAOs asked for, with the account that asked.\<close>

record api_store = comments_store +
  ap_triggers :: "(string \<times> string) list"

definition api_triggerDaoAggregation :: "request_headers \<Rightarrow> string \<Rightarrow> ('b api_store_scheme, unit) op" where
  "api_triggerDaoAggregation h daoId =
     op_bind (accountAccess h) (\<lambda>accountId.
     op_then (adminAccess accountId)
       (access (op_put (\<lambda>s. s\<lparr>ap_triggers := ap_triggers s @ [(daoId, accountId)]\<rparr>))))"

section \<open>Requests\<close>

datatype api_request =
    Api_Account string | Api_Email account | Api_SendEmail | Api_VerifyEmail string | Api_EmailStatus string
  | Api_Phone account | Api_SendPhone | Api_VerifyPhone string | Api_PhoneStatus string
  | Api_Notification string | Api_ReadAll | Api_ArchiveAll | Api_Update string string update_notification
  | Api_NotificationSettings create_setting | Api_NotificationStatus string
  | Api_Subscribe string | Api_Subscriptions string | Api_Unsubscribe string string
  | Api_Comment comment_dto | Api_Report int string | Api_DeleteComment string string
  | Api_Templates string | Api_CreateTemplate string template_body
  | Api_UpdateTemplate string string template_body | Api_DeleteTemplate string string
  | Api_CloneTemplate string string
  | Api_Settings string | Api_PatchSettings string jsval | Api_PatchSetting string string jsval
  | Api_Aggregate string

definition op_void :: "('s, 'a) op \<Rightarrow> ('s, unit) op" where
  "op_void m = op_bind m (\<lambda>_. op_ret ())"

fun serve_api :: "request_headers \<Rightarrow> api_request \<Rightarrow> ('b api_store_scheme, unit) op" where
  "serve_api h (Api_Account a) = op_void (api_accountById a)"
| "serve_api h (Api_Email e) = op_void (api_setAccountEmail h e)"
| "serve_api h Api_SendEmail = op_void (api_accountEmailSendVerification h)"
| "serve_api h (Api_VerifyEmail c) = api_verifyEmail h c"
| "serve_api h (Api_EmailStatus a) = op_void (api_accountEmailStatus a)"
| "serve_api h (Api_Phone p) = op_void (api_setAccountPhone h p)"
| "serve_api h Api_SendPhone = op_void (api_accountPhoneSendVerification h)"
| "serve_api h (Api_VerifyPhone c) = api_verifyPhone h c"
| "serve_api h (Api_PhoneStatus a) = op_void (api_accountPhoneStatus a)"
| "serve_api h (Api_Notification i) = op_void (api_getNotificationById i)"
| "serve_api h Api_ReadAll = api_readAccountNotifications h"
| "serve_api h Api_ArchiveAll = api_archiveAccountNotifications h"
| "serve_api h (Api_Update a i b) = api_updateAccountNotification h a i b"
| "serve_api h (Api_NotificationSettings b) = op_void (api_setNotificationSettings h b)"
| "serve_api h (Api_NotificationStatus a) = op_void (api_getAccountNotificationStatus a)"
| "serve_api h (Api_Subscribe d) = op_void (api_subscribe h d)"
| "serve_api h (Api_Subscriptions a) = op_void (api_getAccountSubscriptions a)"
| "serve_api h (Api_Unsubscribe d a) = api_unsubscribe h d a"
| "serve_api h (Api_Comment c) = op_void (api_createComment h c)"
| "serve_api h (Api_Report i r) = op_void (api_createCommentReport h i r)"
| "serve_api h (Api_DeleteComment i r) = op_void (api_deleteComment h i r)"
| "serve_api h (Api_Templates d) = op_void (api_getDaoProposalTemplates d)"
| "serve_api h (Api_CreateTemplate d b) = op_void (api_createProposalTemplate h d b)"
| "serve_api h (Api_UpdateTemplate d i b) = op_void (api_updateProposalTemplate h d i b)"
| "serve_api h (Api_DeleteTemplate d i) = api_deleteProposalTemplate h d i"
| "serve_api h (Api_CloneTemplate i d) = op_void (api_cloneTemplate h i d)"
| "serve_api h (Api_Settings d) = op_void (api_getSettings d)"
| "serve_api h (Api_PatchSettings d v) = api_patchSettings h d v"
| "serve_api h (Api_PatchSetting d k v) = api_patchSettingsParam h d k v"
| "serve_api h (Api_Aggregate d) = api_triggerDaoAggregation h d"

end
