(* ===== verification/Api_Frames.thy ===== *)
theory Api_Frames
  imports Api_Requests
begin

text \<open>
  What the handlers of the API leave alone. Each locale takes a relation between states that some writes
  keep and proves that the operations built from these writes keep it: the guards and the flags, which
  write nothing; the operations on templates and on the settings of DAOs; those on comments. The
  relations are those of the theories that follow.
\<close>

section \<open>Flags and guards\<close>

locale access_frame = state_relation R
  for R :: "'c comments_store_scheme \<Rightarrow> 'c comments_store_scheme \<Rightarrow> bool"
begin

lemma flags: "stays notifications_useDynamo" "stays useDaoDynamo"
  unfolding notifications_useDynamo_def useDaoDynamo_def flag_on_def by (intro stays_intros)+

lemma access_of: "stays (accountAccess h)"
  unfolding accountAccess_def verifyAccount_def case_prod_unfold
  by (intro stays_intros) (simp add: stays_def R_refl)

lemma people_of: "stays (dao_people d)"
  unfolding dao_people_def by (intro stays_intros flags stays_items)

lemma guards: "stays (validAccount a)" "stays (adminAccess a)" "stays (councilAccess a d)"
  unfolding validAccount_def adminAccess_def councilAccess_def case_prod_unfold by (intro stays_intros people_of)+

lemma council_of: "stays (as_council h d)" for h :: request_headers
  unfolding as_council_def by (intro stays_intros access_of guards)

lemma account_reads:
  "stays (account_findById a)" "stays (getAccount a)" "stays (getOtp k)" "stays (given_account column e found)"
  "stays (getEmailVerificationStatus a)" "stays (getPhoneVerificationStatus a)"
  unfolding getAccount_def getEmailVerificationStatus_def getPhoneVerificationStatus_def account_findById_def
    find_account_def get_account_item_def getOtp_def given_account_def Let_def
  by (intro stays_intros flags)+

lemma notification_reads:
  "stays (dao_found d)" "stays (getAccountNotificationStatus a)" "stays (getAccountSubscriptions a)"
  "stays (api_getNotificationById i)"
  unfolding dao_found_def getAccountNotificationStatus_def getAccountSubscriptions_def api_getNotificationById_def Let_def
  by (intro stays_intros stays_items flags)+

lemma read_requests:
  "stays (api_accountById a)" "stays (api_accountEmailStatus a)" "stays (api_accountPhoneStatus a)"
  "stays (api_getAccountNotificationStatus a)" "stays (api_getAccountSubscriptions a)"
  unfolding api_accountById_def api_accountEmailStatus_def api_accountPhoneStatus_def
    api_getAccountNotificationStatus_def api_getAccountSubscriptions_def
  by (intro stays_intros account_reads notification_reads guards)+

lemma void: "stays m \<Longrightarrow> stays (op_void m)"
  unfolding op_void_def by (intro stays_intros)

lemma guarded: "(\<And>a. stays (f a)) \<Longrightarrow> stays (op_bind (accountAccess h) f)"
  by (intro stays_intros access_of)

end

section \<open>Templates and settings of DAOs\<close>

locale templates_frame = access_frame R
  for R :: "'c comments_store_scheme \<Rightarrow> 'c comments_store_scheme \<Rightarrow> bool" +
  fixes P :: "string \<Rightarrow> bool"
  assumes puts: "R s (put_shared_item i y s)" "R s (s\<lparr>tm_shared := f\<rparr>)" "R s (s\<lparr>tm_rows := g\<rparr>)"
      "R s (s\<lparr>tm_sharedDaos := ds\<rparr>)"
    and put_template: "P d \<Longrightarrow> R s (put_template_item d i x s)"
    and put_setting: "P d \<Longrightarrow> R s (s\<lparr>tm_settings := (tm_settings s)(d \<mapsto> v)\<rparr>)"
    and put_new_dao: "P d \<Longrightarrow> nt_daoItems s d = None \<Longrightarrow> R s (put_dao_item d
          \<lparr> di_accountIds = None, di_followers = None, di_council = None, di_settings = v \<rparr> s)"
    and put_settings_of: "P d \<Longrightarrow> nt_daoItems s d = Some z \<Longrightarrow> R s (put_dao_item d (z\<lparr>di_settings := v\<rparr>) s)"
    and put_same_dao: "nt_daoItems s d = Some z \<Longrightarrow> R s (put_dao_item d z s)"
begin

lemma settings_flag: "stays settings_useDynamo"
  unfolding settings_useDynamo_def flag_on_def by (intro stays_intros)

lemma template_items:
  assumes P: "P d"
  shows "stays (dynamoTemplate_create d body)" "stays (dynamoTemplate_update i d body)"
    "stays (dynamoTemplate_delete d i)" "stays (dynamoShared_cloneToDao i d)"
proof -
  have "stays (save_template_item d i x)" "stays (save_whole_item d i x)" for i x
    unfolding save_template_item_def save_whole_item_def by (intro stays_items put_template P)+
  note items = this
  show "stays (dynamoTemplate_create d body)" "stays (dynamoTemplate_update i d body)"
    "stays (dynamoTemplate_delete d i)" "stays (dynamoShared_cloneToDao i d)"
    unfolding dynamoTemplate_create_def dynamoTemplate_update_def dynamoTemplate_delete_def
      dynamoShared_cloneToDao_def Let_def
    by (intro stays_intros stays_items items)+
qed

lemma template_rows:
  "stays (template_create d e c)" "stays (template_update i d body)" "stays (template_delete i)"
  "stays (findDaoProposalTemplates d)"
proof -
  have row: "stays (save_template_row i d e c)" for i e c
    unfolding save_template_row_def
    by (intro stays_access) (auto simp: stays_def R_refl puts Let_def split: option.splits)
  show "stays (template_create d e c)" "stays (template_update i d body)"
    unfolding template_create_def template_update_def by (intro stays_intros row)+
  show "stays (template_delete i)"
    unfolding template_delete_def by (intro stays_intros stays_put) (rule puts)
  show "stays (findDaoProposalTemplates d)"
    unfolding findDaoProposalTemplates_def by (intro stays_intros notification_reads)
qed

lemma shared:
  "stays (dynamoShared_create a body)" "stays (shared_create a d body)" "stays (shared_cloneToDao i d)"
proof -
  have dao: "stays (save_shared_dao i d)" for i
    unfolding save_shared_dao_def by (intro stays_access) (auto simp: stays_def R_refl puts)
  show "stays (dynamoShared_create a body)"
    unfolding dynamoShared_create_def Let_def by (intro stays_intros stays_items puts)
  show "stays (shared_create a d body)" "stays (shared_cloneToDao i d)"
    unfolding shared_create_def shared_cloneToDao_def
    by (intro stays_intros stays_put puts dao template_rows)+
qed

lemma settings_read: "stays (getSettings d)"
  unfolding getSettings_def by (intro stays_intros settings_flag stays_items)

lemma settings:
  assumes P: "P d"
  shows "stays (saveSettings d v)" "stays (saveSettingsParam d k v)"
proof -
  have row: "stays (save_settings_row d v)" for v
    unfolding save_settings_row_def
    by (intro stays_access) (auto simp: stays_def R_refl put_setting [OF P])
  have item: "stays (saveDaoSettings d v)" for v
    unfolding saveDaoSettings_def Let_def
    by (intro stays_items) (auto intro: put_new_dao [OF P] put_settings_of [OF P] put_same_dao)
  show save: "stays (saveSettings d v)" for v
    unfolding saveSettings_def by (intro stays_intros row item)
  show "stays (saveSettingsParam d k v)"
    unfolding saveSettingsParam_def by (intro stays_intros settings_read save)
qed

lemma template_requests:
  "stays (api_getDaoProposalTemplates d)" "stays (api_getSettings d)"
  "P d \<Longrightarrow> stays (api_createProposalTemplate h d t)" "P d \<Longrightarrow> stays (api_updateProposalTemplate h d i t)"
  "P d \<Longrightarrow> stays (api_deleteProposalTemplate h d i)" "P d \<Longrightarrow> stays (api_cloneTemplate h i d)"
  "P d \<Longrightarrow> stays (api_patchSettings h d v)" "P d \<Longrightarrow> stays (api_patchSettingsParam h d k v)"
  unfolding api_getDaoProposalTemplates_def api_createProposalTemplate_def api_updateProposalTemplate_def
    api_deleteProposalTemplate_def api_cloneTemplate_def api_getSettings_def api_patchSettings_def
    api_patchSettingsParam_def
  by (intro stays_intros council_of settings_read settings shared template_items template_rows; assumption)+

end

section \<open>Comments\<close>

locale comments_frame = access_frame R
  for R :: "'c comments_store_scheme \<Rightarrow> 'c comments_store_scheme \<Rightarrow> bool" +
  assumes puts: "R s (put_comment j c s)" "R s (put_document k c s)" "R s (s\<lparr>ct_proposals := ps\<rparr>)"
    "R s (s\<lparr>ct_bounties := ps\<rparr>)" "R s (s\<lparr>ct_events := es\<rparr>)"
begin

lemma comment_parts:
  "stays (indexComment whole i found)" "stays (updateCommentsCount c)"
  "stays (send_comment_event e)" "stays (dao_getCouncil d)" "stays (find_by_comment_id k)"
proof -
  show "stays (indexComment whole i found)"
    unfolding indexComment_def Let_def
    by (intro stays_intros stays_put stays_items puts)
  show "stays (updateCommentsCount c)"
    unfolding updateCommentsCount_def
    by (intro stays_intros stays_put puts; simp split: context_type.split)
      (intro conjI impI stays_intros stays_put puts)
  show "stays (send_comment_event e)"
    unfolding send_comment_event_def by (intro stays_intros stays_put puts)
  show "stays (dao_getCouncil d)"
    unfolding dao_getCouncil_def by (intro stays_intros)
  show "stays (find_by_comment_id k)"
    unfolding find_by_comment_id_def by (auto split: jsval.split intro!: stays_intros)
qed

lemma comments:
  "stays (apiComment_delete c)" "stays (deleteById i)" "stays (deleteAsOwner k a)"
proof -
  show delete: "stays (apiComment_delete c)" for c
    unfolding apiComment_delete_def Let_def
    by (intro stays_intros stays_put puts comment_parts)
  show byId: "stays (deleteById i)"
    unfolding deleteById_def by (intro stays_intros delete)
  show "stays (deleteAsOwner k a)"
    unfolding deleteAsOwner_def by (intro stays_intros delete comment_parts)
qed

end

locale reports_frame = comments_frame R
  for R :: "'c comments_store_scheme \<Rightarrow> 'c comments_store_scheme \<Rightarrow> bool" +
  assumes put_reports: "R s (s\<lparr>ct_reports := rs\<rparr>)" "R s (s\<lparr>ct_sequence := n\<rparr>)"
begin

lemma save_comment: "stays (save_comment a d dto)"
proof -
  have "R s ((put_comment i c (s\<lparr>ct_sequence := n\<rparr>))\<lparr>ct_reports := rs\<rparr>)" "R s ((put_comment i c s)\<lparr>ct_reports := rs\<rparr>)"
    for s i c n rs
    by (rule R_trans [OF R_trans [OF put_reports(2) puts(1)] put_reports(1)], rule R_trans [OF puts(1) put_reports(1)])
  then show ?thesis
    unfolding save_comment_def by (intro stays_access) (simp add: stays_def Let_def R_refl put_reports)
qed

lemma create: "stays (createDaoComment a d dto)" "stays (apiComment_create a dto)"
proof -
  show create: "stays (createDaoComment a d dto)" for d
    unfolding createDaoComment_def case_prod_unfold by (intro stays_intros comment_parts save_comment)
  show "stays (apiComment_create a dto)"
    unfolding apiComment_create_def case_prod_unfold
    by (auto split: context_type.split intro!: stays_intros create)
qed

lemma reports: "stays (report_create a i reason)"
proof -
  have "stays (save_report r)" for r
    unfolding save_report_def
    by (intro stays_access) (auto simp: stays_def R_refl put_reports)
  then show ?thesis
    unfolding report_create_def Let_def by (intro stays_intros comments)
qed

lemma comment_requests:
  "stays (api_createComment h d)" "stays (api_createCommentReport h i x)" "stays (api_deleteComment h k x)"
proof -
  have report: "stays (case v of JNum n \<Rightarrow> report_create a n x | _ \<Rightarrow> op_fail e)" for v a e
    by (cases v) (auto intro!: stays_intros reports)
  show "stays (api_createComment h d)" "stays (api_createCommentReport h i x)" "stays (api_deleteComment h k x)"
    unfolding api_createComment_def api_createCommentReport_def api_deleteComment_def
    by (intro stays_intros access_of create comments reports report)+
qed

end

section \<open>Accounts\<close>

context account_writes
begin

lemma keeps_contacts:
  assumes "\<And>dto. W (dto\<lparr>ac_accountId := Val a, ac_isEmailVerified := Val False\<rparr>)"
    and "\<And>dto. W (dto\<lparr>ac_accountId := Val a, ac_isPhoneVerified := Val False\<rparr>)"
  shows "triple B (createAccountEmail a e) (\<lambda>_. B) B" "triple B (createAccountPhone a e) (\<lambda>_. B) B"
  unfolding createAccountEmail_def createAccountPhone_def by (rule keeps_contact, rule assms)+

lemma keeps_verify:
  assumes w: "\<And>r v. Rd r \<Longrightarrow> W (mark r v)"
  shows "triple B
     (op_bind (account_findById a) (\<lambda>found.
      op_bind (given_account column e found) (\<lambda>account.
      op_bind (verifyOtp (text_of (column account)) code) (\<lambda>isVerified.
      if \<not> isVerified then op_fail (wrong_code code)
      else op_bind (account_create (mark account isVerified)) (\<lambda>_. op_ret ())))))
     (\<lambda>_. B) B"
proof (rule triple_bind [OF keeps_findById], rule triple_bind [OF keeps_given])
  fix r
  have mark: "triple B
     (op_bind (verifyOtp (text_of (column r)) code) (\<lambda>isVerified.
      if \<not> isVerified then op_fail (wrong_code code)
      else op_bind (account_create (mark r isVerified)) (\<lambda>_. op_ret ())))
     (\<lambda>_. B) B" if "Rd r"
    by (intro triple_bind [where Q = "\<lambda>_. B"] keeps_stays stays_otp triple_if triple_fail keeps_create_unit w that)
  show "triple (\<lambda>s. B s \<and> Rd r \<and> filled (column r))
     (op_bind (verifyOtp (text_of (column r)) code) (\<lambda>isVerified.
      if \<not> isVerified then op_fail (wrong_code code)
      else op_bind (account_create (mark r isVerified)) (\<lambda>_. op_ret ())))
     (\<lambda>_. B) B"
    by (cases "Rd r") (auto simp: triple_def [where P = "\<lambda>_. False"] intro: triple_weaken [OF mark])
qed

lemma keeps_verifies:
  assumes "\<And>r v. Rd r \<Longrightarrow> W (mapAccountToAccountDto (r\<lparr>ac_isEmailVerified := Val v\<rparr>))"
    and "\<And>r v. Rd r \<Longrightarrow> W (mapAccountToAccountDto (r\<lparr>ac_isPhoneVerified := Val v\<rparr>))"
  shows "triple B (verifyEmail a c) (\<lambda>_. B) B" "triple B (verifyPhone a c) (\<lambda>_. B) B"
  unfolding verifyEmail_def verifyPhone_def by (rule keeps_verify, erule assms)+

lemma keeps_sends: "triple B (sendEmailVerification c) (\<lambda>_. B) B" "triple B (sendPhoneVerification c) (\<lambda>_. B) B"
  by (rule keeps_stays [OF stays_sends(1)], rule keeps_stays [OF stays_sends(2)])

end

text \<open>A relation that only looks beyond the stores of accounts.\<close>

interpretation aside: account_writes "\<lambda>t. account_store.more t = m" "\<lambda>_. True" a "\<lambda>_. True" for m a
  by unfold_locales (auto simp: same_accounts_def put_account_def put_account_item_def)

lemmas aside_handlers =
  aside.keeps_contacts [OF TrueI TrueI] aside.keeps_verifies [OF TrueI TrueI] aside.keeps_sends

lemma more_kept:
  assumes "\<And>m. triple (\<lambda>t. account_store.more t = m) k (\<lambda>_ t. account_store.more t = m) (\<lambda>t. account_store.more t = m)"
  shows "account_store.more (snd (k s)) = account_store.more s"
  by (rule triple_end [OF assms]) (rule refl)

locale accounts_frame = state_relation R
  for R :: "'c account_store_scheme \<Rightarrow> 'c account_store_scheme \<Rightarrow> bool" +
  assumes beyond: "account_store.more t = account_store.more s \<Longrightarrow> R s t"
begin

lemma account_handlers:
  "stays (createAccountEmail a e)" "stays (createAccountPhone a e)" "stays (sendEmailVerification a)"
  "stays (sendPhoneVerification a)" "stays (verifyEmail a code)" "stays (verifyPhone a code)"
  unfolding stays_def by (intro allI beyond more_kept aside_handlers)+

end

section \<open>Notifications\<close>

lemma get_item_end: "get_item look s = (Inr found, t) \<Longrightarrow> t = tick s \<and> (\<forall>x. found = Some x \<longrightarrow> look (tick s) = Some x)"
  by (auto simp: get_item_def run_op access_def split: option.splits fault.splits)

locale followers_frame = state_relation R
  for R :: "'c notification_store_scheme \<Rightarrow> 'c notification_store_scheme \<Rightarrow> bool"
begin

text \<open>The item that is saved is the one that was read.\<close>

lemma followers_stay:
  assumes put: "\<And>t x. nt_daoItems t d = Some x \<Longrightarrow>
     R t (put_dao_item d (x\<lparr>di_followers := Some (g (case di_followers x of None \<Rightarrow> [] | Some fs \<Rightarrow> fs))\<rparr>) t)"
  shows "stays (save_followers d g)"
  unfolding stays_def
proof
  fix s
  let ?K = "R s"
  let ?item = "\<lambda>x. x\<lparr>di_followers := Some (g (case di_followers x of None \<Rightarrow> [] | Some fs \<Rightarrow> fs))\<rparr>"
  have tick: "?K (tick t)" if "?K t" for t using R_trans [OF that R_tick] .
  have get: "triple ?K (get_item (\<lambda>s. nt_daoItems s d)) (\<lambda>found t. ?K t \<and> (\<forall>x. found = Some x \<longrightarrow> nt_daoItems t d = Some x)) ?K"
  proof (rule tripleI)
    fix t u :: "'c notification_store_scheme" and e assume "get_item (\<lambda>s. nt_daoItems s d) t = (Inl e, u)"
    then show "?K u" by (simp add: get_item_def run_op split: prod.splits sum.splits)
  next
    fix t u :: "'c notification_store_scheme" and found assume "?K t" and "get_item (\<lambda>s. nt_daoItems s d) t = (Inr found, u)"
    then show "?K u \<and> (\<forall>x. found = Some x \<longrightarrow> nt_daoItems u d = Some x)"
      using get_item_end tick by blast
  qed
  have save: "triple (\<lambda>t. ?K t \<and> nt_daoItems t d = Some x) (save_item (\<lambda>s. nt_daoItems s d)
      (put_dao_item d (?item x)) (\<lambda>_. put_dao_item d (?item x))) (\<lambda>_. ?K) ?K" (is "triple ?P _ _ _") for x
  proof -
    have saved: "?K (put_dao_item d (?item x) t)" if "?K t" "nt_daoItems t d = Some x" for t
      using R_trans put that by blast
    have P: "?P (tick t)" if "?P t" for t using that tick by (simp add: tick_def)
    have new: "triple ?P (access (\<lambda>s. if nt_daoItems s d = None then (Inr True, put_dao_item d (?item x) s) else (Inr False, s)))
        (\<lambda>_. ?P) ?K"
      by (rule triple_access [where P = ?P]) (auto intro!: tripleI P)
    have "triple ?P (\<lambda>s. case nt_daoItems s d of
         None \<Rightarrow> (Inl (Rejection ''ConditionalCheckFailedException''), s)
       | Some y \<Rightarrow> (Inr (), put_dao_item d (?item x) s)) (\<lambda>_. ?K) ?K"
      by (rule tripleI) (auto dest: saved)
    then have old: "triple ?P (access (\<lambda>s. case nt_daoItems s d of
         None \<Rightarrow> (Inl (Rejection ''ConditionalCheckFailedException''), s)
       | Some y \<Rightarrow> (Inr (), put_dao_item d (?item x) s))) (\<lambda>_. ?K) ?K"
      by (rule triple_access [where P = ?P]) (simp_all add: P)
    show ?thesis
      unfolding save_item_def by (rule triple_bind [OF new triple_when [OF old]]) simp
  qed
  have "triple ?K (save_followers d g) (\<lambda>_. ?K) ?K"
    unfolding save_followers_def Let_def
  proof (rule triple_bind [OF get])
    fix found
    show "triple (\<lambda>t. ?K t \<and> (\<forall>x. found = Some x \<longrightarrow> nt_daoItems t d = Some x))
        (op_bind (op_need (TypeError ''followers'') found) (\<lambda>x. save_item (\<lambda>s. nt_daoItems s d)
          (put_dao_item d (?item x)) (\<lambda>_. put_dao_item d (?item x)))) (\<lambda>_. ?K) ?K"
      by (rule triple_bind [where Q = "\<lambda>x t. ?K t \<and> nt_daoItems t d = Some x", OF triple_need save]) auto
  qed
  then show "R s (snd (save_followers d g s))" by (rule triple_end) (rule R_refl)
qed

end

locale notifications_frame = followers_frame R
  for R :: "'c notification_store_scheme \<Rightarrow> 'c notification_store_scheme \<Rightarrow> bool" +
  assumes note_puts: "R s (put_item_at a i x s)" "R s (put_ids a y s)" "R s (put_settings a z s)"
      "R s (s\<lparr>nt_rows := rs\<rparr>)" "R s (s\<lparr>nt_settings := ss\<rparr>)" "R s (s\<lparr>nt_subscriptions := us\<rparr>)"
    and put_followers: "nt_daoItems s d = Some w \<Longrightarrow> R s (put_dao_item d (w\<lparr>di_followers := fs\<rparr>) s)"
begin

lemma note_reads:
  "stays (getAccountsNotificationIds a)" "stays (notification_findById a i)" "stays (dao_found dao)"
  unfolding getAccountsNotificationIds_def notification_findById_def dao_found_def notifications_useDynamo_def
    useDaoDynamo_def flag_on_def
  by (intro stays_intros stays_items)+

lemma note_ids: "stays (readAll a)" "stays (archiveAll a)" "stays (setAccountNotificationIds a ns)"
  unfolding readAll_def archiveAll_def setAccountNotificationIds_def Let_def
  by (intro stays_intros stays_items note_puts note_reads)+

lemma note_handlers:
  "stays (readAccountNotifications a)" "stays (archiveAccountNotifications a)"
  "stays (updateAccountNotification a i u)" "stays (settings_create a dto)"
  "stays (subscription_create a d)" "stays (subscription_remove d a)"
proof -
  show "stays (readAccountNotifications a)" "stays (archiveAccountNotifications a)"
    unfolding readAccountNotifications_def archiveAccountNotifications_def set_flag_def
    by (intro stays_intros stays_each stays_put stays_items note_puts note_ids note_reads; auto intro: stays_intros)+
  have row: "stays (access (\<lambda>s. if c s then (Inr (x s), f s) else (Inl e, s)))" if "\<And>s. R s (f s)"
    for c f e and x :: "_ \<Rightarrow> 'x"
    by (intro stays_access) (simp add: stays_def R_refl that)
  show "stays (updateAccountNotification a i u)"
    unfolding updateAccountNotification_def Let_def
    by (intro stays_intros stays_items note_puts note_ids note_reads row)
  have item: "stays (saveAccountNotificationSettings x)" for x
    unfolding saveAccountNotificationSettings_def Let_def by (intro stays_intros stays_items note_puts)
  show "stays (settings_create a dto)"
    unfolding settings_create_def Let_def by (intro stays_intros item note_reads note_puts row)
  show "stays (subscription_create a d)"
    unfolding subscription_create_def Let_def
    by (intro stays_intros followers_stay put_followers stays_access) (simp_all add: stays_def R_refl note_puts)
  show "stays (subscription_remove d a)"
    unfolding subscription_remove_def
    by (intro stays_intros followers_stay put_followers stays_access) (simp_all add: stays_def R_refl note_puts)
qed

end

section \<open>Requests of an account about itself\<close>

locale own_frame = access_frame R + accounts_frame R + notifications_frame R
  for R :: "'c comments_store_scheme \<Rightarrow> 'c comments_store_scheme \<Rightarrow> bool"
begin

lemma own_requests:
  "stays (api_setAccountEmail h e)" "stays (api_setAccountPhone h e)"
  "stays (api_accountEmailSendVerification h)" "stays (api_accountPhoneSendVerification h)"
  "stays (api_verifyEmail h code)" "stays (api_verifyPhone h code)"
  "stays (api_readAccountNotifications h)" "stays (api_archiveAccountNotifications h)"
  "stays (api_updateAccountNotification h a i u)" "stays (api_setNotificationSettings h dto)"
  "stays (api_subscribe h c)" "stays (api_unsubscribe h c a)"
  unfolding api_setAccountEmail_def api_setAccountPhone_def api_accountEmailSendVerification_def
    api_accountPhoneSendVerification_def api_verifyEmail_def api_verifyPhone_def api_readAccountNotifications_def
    api_archiveAccountNotifications_def api_updateAccountNotification_def api_setNotificationSettings_def
    api_subscribe_def api_unsubscribe_def
  by (intro guarded stays_intros account_handlers note_handlers)+

end

end
