(* ===== verification/Api_Facts.thy ===== *)
theory Api_Facts
  imports Api_Frames Notifier_Facts
begin

text \<open>
  Whose data a request to the API may change. The data of an account change only by a request with a
  valid token, of the account itself but for the requests that name another account or hit a row of
  another one by its id (\<open>api_changes_own\<close>).
\<close>

section \<open>The data of an account\<close>

definition followers_of :: "'b notification_store_scheme \<Rightarrow> string \<Rightarrow> string list" where
  "followers_of s d = (case nt_daoItems s d of None \<Rightarrow> []
     | Some x \<Rightarrow> (case di_followers x of None \<Rightarrow> [] | Some fs \<Rightarrow> fs))"

definition same_for :: "string \<Rightarrow> 'b notification_store_scheme \<Rightarrow> 'b notification_store_scheme \<Rightarrow> bool" where
  "same_for b s t \<longleftrightarrow> as_accounts t b = as_accounts s b \<and> as_items t b = as_items s b
     \<and> nt_items t b = nt_items s b \<and> nt_ids t b = nt_ids s b
     \<and> filter (\<lambda>r. rw_accountId r = b) (nt_rows t) = filter (\<lambda>r. rw_accountId r = b) (nt_rows s)
     \<and> nt_settingsItems t b = nt_settingsItems s b
     \<and> filter (\<lambda>x. se_accountId x = b) (nt_settings t) = filter (\<lambda>x. se_accountId x = b) (nt_settings s)
     \<and> filter (\<lambda>r. su_accountId r = b) (nt_subscriptions t) = filter (\<lambda>r. su_accountId r = b) (nt_subscriptions s)
     \<and> (\<forall>d. filter (\<lambda>f. f = b) (followers_of t d) = filter (\<lambda>f. f = b) (followers_of s d))"

lemma same_for_followed:
  "same_for b s t \<Longrightarrow> filter (\<lambda>f. f = b) (followers_of t d) = filter (\<lambda>f. f = b) (followers_of s d)"
  by (simp add: same_for_def)

text \<open>What changes nothing of any account.\<close>

definition same_people :: "'b notification_store_scheme \<Rightarrow> 'b notification_store_scheme \<Rightarrow> bool" where
  "same_people s t \<longleftrightarrow> as_accounts t = as_accounts s \<and> as_items t = as_items s \<and> nt_items t = nt_items s
     \<and> nt_ids t = nt_ids s \<and> nt_rows t = nt_rows s \<and> nt_settingsItems t = nt_settingsItems s
     \<and> nt_settings t = nt_settings s \<and> nt_subscriptions t = nt_subscriptions s
     \<and> followers_of t = followers_of s"

interpretation people: state_relation same_people
  by unfold_locales (auto simp: same_people_def tick_def followers_of_def fun_eq_iff)

text \<open>
  No row of account \<open>b\<close> has one of the given ids: settings, subscriptions, notifications; and no item
  of the given accounts carries the name of \<open>b\<close>.
\<close>

definition spares ::
    "string \<Rightarrow> string set \<Rightarrow> string set \<Rightarrow> string set \<Rightarrow> string set \<Rightarrow> 'b notification_store_scheme \<Rightarrow> bool" where
  "spares b I J K C s \<longleftrightarrow> (\<forall>x \<in> set (nt_settings s). se_accountId x = b \<longrightarrow> se_id x \<notin> I)
     \<and> (\<forall>x \<in> set (nt_subscriptions s). su_accountId x = b \<longrightarrow> su_id x \<notin> J)
     \<and> (\<forall>x \<in> set (nt_rows s). rw_accountId x = b \<longrightarrow> rw_id x \<notin> K)
     \<and> (\<forall>c \<in> C. \<forall>i x y. nt_items s c i = Some x \<and> ni_body x = Some y \<longrightarrow> bo_accountId y \<noteq> b)"

definition spared ::
    "string \<Rightarrow> string set \<Rightarrow> string set \<Rightarrow> string set \<Rightarrow> string set \<Rightarrow>
     'b notification_store_scheme \<Rightarrow> 'b notification_store_scheme \<Rightarrow> bool" where
  "spared b I J K C s t \<longleftrightarrow> (spares b I J K C s \<longrightarrow> spares b I J K C t \<and> same_for b s t)"

lemma same_for_refl: "same_for b s s"
  by (simp add: same_for_def)

lemma same_for_trans: "same_for b s t \<Longrightarrow> same_for b t u \<Longrightarrow> same_for b s u"
  by (simp add: same_for_def)

lemma people_same_for: "same_people s t \<Longrightarrow> same_for b s t"
  by (simp add: same_people_def same_for_def)

lemma people_spared: "same_people s t \<Longrightarrow> spared b I J K C s t"
  by (simp add: spared_def spares_def people_same_for) (simp add: same_people_def)

interpretation spared: state_relation "spared b I J K C" for b I J K C
proof unfold_locales
  show "spared b I J K C s s" for s by (simp add: spared_def same_for_refl)
  show "spared b I J K C s u" if "spared b I J K C s t" "spared b I J K C t u" for s t u
    using that same_for_trans unfolding spared_def by blast
  show "spared b I J K C s (tick s)" for s by (rule people_spared [OF people.R_tick])
qed

lemma spared_people: "people.stays m \<Longrightarrow> spared.stays b I J K C m"
  unfolding people.stays_def spared.stays_def using people_spared by blast

section \<open>What changes nothing of any account\<close>

lemma people_flags: "people.stays notifications_useDynamo" "people.stays useDaoDynamo"
  unfolding notifications_useDynamo_def useDaoDynamo_def flag_on_def
  by (intro people.stays_intros)+

interpretation people_t: templates_frame same_people "\<lambda>_. True"
  by unfold_locales
    (simp_all add: same_people_def followers_of_def fun_eq_iff put_template_item_def put_shared_item_def
      put_dao_item_def)

interpretation people_c: reports_frame same_people
  by unfold_locales
    (simp_all add: put_comment_def put_document_def same_people_def followers_of_def fun_eq_iff)

section \<open>Notifications, settings and subscriptions\<close>

lemma spared_reads:
  "spared.stays b I J K C (getAccountsNotificationIds a)" "spared.stays b I J K C (notification_findById a i)"
  "spared.stays b I J K C (dao_found d)"
  unfolding getAccountsNotificationIds_def notification_findById_def dao_found_def
  by (intro spared_people people.stays_intros people.stays_items people_flags)+

text \<open>Items and lists of an account other than \<open>b\<close>.\<close>

lemma spared_puts:
  assumes "a \<noteq> b"
  shows "spared b I J K C s (put_ids a x s)" "spared b I J K C s (put_settings a y s)"
  using assms by (simp_all add: spared_def spares_def same_for_def put_ids_def put_settings_def followers_of_def)

lemma spared_ids:
  assumes "a \<noteq> b"
  shows "spared.stays b I J K C (readAll a)" "spared.stays b I J K C (archiveAll a)"
    "spared.stays b I J K C (setAccountNotificationIds a ns)"
  unfolding readAll_def archiveAll_def setAccountNotificationIds_def Let_def
  by (intro spared.stays_intros spared.stays_items spared_puts [OF assms] spared_reads)+

lemma filter_map_other:
  "(\<And>r. key (f r) = key r) \<Longrightarrow> (\<And>r. r \<in> set rs \<Longrightarrow> key r = b \<Longrightarrow> f r = r) \<Longrightarrow>
     filter (\<lambda>r. key r = b) (map f rs) = filter (\<lambda>r. key r = b) rs"
  by (induction rs) auto

lemma spared_rows:
  assumes "\<And>r. rw_accountId (f r) = rw_accountId r" "\<And>r. rw_id (f r) = rw_id r"
    and "\<And>r. rw_accountId r = b \<Longrightarrow> rw_id r \<notin> K \<Longrightarrow> f r = r"
  shows "spared b I J K C s (s\<lparr>nt_rows := map f (nt_rows s)\<rparr>)"
  using assms
  by (auto simp: spared_def spares_def same_for_def followers_of_def filter_map_other)

lemma spared_put_item: "a \<noteq> b \<Longrightarrow> spared b I J K {} s (put_item_at a i x s)"
  by (simp add: spared_def spares_def same_for_def put_item_at_def followers_of_def)

lemma spared_flag_all:
  assumes ab: "a \<noteq> b"
  shows "spared.stays b I J K {} (readAccountNotifications a)" "spared.stays b I J K {} (archiveAccountNotifications a)"
  unfolding readAccountNotifications_def archiveAccountNotifications_def set_flag_def
  by (intro spared.stays_intros spared.stays_each spared.stays_put spared.stays_items spared_put_item spared_ids
      spared_reads spared_rows; use ab in auto)+

lemma put_keyed_other:
  assumes "owner x \<noteq> b" and "\<And>y. y \<in> set xs \<Longrightarrow> owner y = b \<Longrightarrow> key y \<noteq> key x"
  shows "filter (\<lambda>y. owner y = b) (put_keyed key x xs) = filter (\<lambda>y. owner y = b) xs"
proof -
  have "filter (\<lambda>y. owner y = b) (map (\<lambda>y. if key y = key x then x else y) xs) = filter (\<lambda>y. owner y = b) xs"
    using assms by (induction xs) auto
  then show ?thesis using assms(1) by (simp add: put_keyed_def)
qed

lemma put_keyed_elem: "y \<in> set (put_keyed key x xs) \<Longrightarrow> y = x \<or> y \<in> set xs"
  by (auto simp: put_keyed_def split: if_splits)

lemma spared_setting_row:
  assumes "a \<noteq> b" and "se_accountId x = a" "se_id x = i"
  shows "spared b {i} J K C s (s\<lparr>nt_settings := put_keyed se_id x (nt_settings s)\<rparr>)"
proof -
  have "filter (\<lambda>y. se_accountId y = b) (put_keyed se_id x (nt_settings s))
      = filter (\<lambda>y. se_accountId y = b) (nt_settings s)" if "spares b {i} J K C s"
    using assms that by (intro put_keyed_other [where owner = se_accountId and key = se_id]) (auto simp: spares_def)
  then show ?thesis
    using assms by (auto simp: spared_def spares_def same_for_def followers_of_def dest!: put_keyed_elem)
qed

lemma spared_save_setting:
  assumes "a \<noteq> b" "se_accountId x = a" "se_id x = i"
  shows "spared.stays b {i} J K C (\<lambda>s. if c then (Inr (), s\<lparr>nt_settings := put_keyed se_id x (nt_settings s)\<rparr>)
     else (Inl e, s))"
  by (simp add: spared.stays_def spared.R_refl spared_setting_row [OF assms])

lemma spared_settings:
  assumes ab: "a \<noteq> b"
  shows "spared.stays b {buildAccountNotificationSettingsId a (cs_daoId dto)} {} {} {} (settings_create a dto)"
proof -
  have item: "spared.stays b I J K C (saveAccountNotificationSettings x)" if "se_accountId x = a" for x I J K C
    using ab that unfolding saveAccountNotificationSettings_def Let_def
    by (intro spared.stays_intros spared.stays_items spared_puts) simp_all
  show ?thesis
    unfolding settings_create_def Let_def
    by (intro spared.stays_intros item spared_save_setting [OF ab] spared_reads) simp_all
qed

text \<open>The item of a DAO as it was read, with other followers.\<close>

lemma same_for_followers:
  assumes "nt_daoItems s d = Some x" and "\<And>fs. filter (\<lambda>f. f = b) (g fs) = filter (\<lambda>f. f = b) fs"
  shows "same_for b s (put_dao_item d (x\<lparr>di_followers := Some (g (case di_followers x of None \<Rightarrow> [] | Some fs \<Rightarrow> fs))\<rparr>) s)"
  using assms by (simp add: same_for_def put_dao_item_def followers_of_def split: option.split)

interpretation held: followers_frame "same_for b" for b
proof unfold_locales
  show "same_for b s (tick s)" for s by (simp add: same_for_def tick_def followers_of_def)
qed (rule same_for_refl, erule (1) same_for_trans)

interpretation kept: state_relation "\<lambda>s t. spares b I J K C s \<longrightarrow> spares b I J K C t" for b I J K C
  by unfold_locales (blast | simp add: spares_def tick_def)+

lemma kept_followers: "kept.stays b I J K C (save_followers d g)"
  unfolding save_followers_def Let_def
  by (intro kept.stays_intros kept.stays_items) (simp_all add: spares_def put_dao_item_def)

lemma followers_held:
  assumes "\<And>fs. filter (\<lambda>f. f = b) (g fs) = filter (\<lambda>f. f = b) fs"
  shows "held.stays b (save_followers d g)"
  by (intro held.followers_stay same_for_followers assms)

lemma spared_followers:
  assumes "\<And>fs. filter (\<lambda>f. f = b) (g fs) = filter (\<lambda>f. f = b) fs"
  shows "spared.stays b I J K C (save_followers d g)"
  by (simp add: spared.stays_def spared_def followers_held [OF assms, unfolded held.stays_def, rule_format]
      kept_followers [unfolded kept.stays_def, rule_format])

lemma spared_subscription_row:
  assumes "a \<noteq> b" and "su_accountId x = a" "su_id x = i"
  shows "spared b I {i} K C s (s\<lparr>nt_subscriptions := put_keyed su_id x (nt_subscriptions s)\<rparr>)"
proof -
  have "filter (\<lambda>y. su_accountId y = b) (put_keyed su_id x (nt_subscriptions s))
      = filter (\<lambda>y. su_accountId y = b) (nt_subscriptions s)" if "spares b I {i} K C s"
    using assms that by (intro put_keyed_other [where owner = su_accountId and key = su_id]) (auto simp: spares_def)
  then show ?thesis
    using assms by (auto simp: spared_def spares_def same_for_def followers_of_def dest!: put_keyed_elem)
qed

lemma spared_unsubscribed:
  assumes "a \<noteq> b"
  shows "spared b I J K C s (s\<lparr>nt_subscriptions := filter (\<lambda>r. su_daoId r = d \<longrightarrow> su_accountId r \<noteq> a)
      (nt_subscriptions s)\<rparr>)"
  using assms by (auto simp: spared_def spares_def same_for_def followers_of_def intro!: filter_cong)

lemma spared_subscriptions:
  assumes ab: "a \<noteq> b"
  shows "spared.stays b {} {buildSubscriptionId d a} {} {} (subscription_create a d)"
    "spared.stays b {} {} {} {} (subscription_remove d a)"
proof -
  have fs: "filter (\<lambda>f. f = b) (filter (\<lambda>f. f \<noteq> a) fs) = filter (\<lambda>f. f = b) fs" for fs
    using ab by (induction fs) auto
  show "spared.stays b {} {buildSubscriptionId d a} {} {} (subscription_create a d)"
    unfolding subscription_create_def Let_def
    by (intro spared.stays_intros spared_followers spared.stays_access)
      (use ab in \<open>auto simp: spared.stays_def spared.R_refl intro!: spared_subscription_row\<close>)
  show "spared.stays b {} {} {} {} (subscription_remove d a)"
    unfolding subscription_remove_def
    by (intro spared.stays_intros spared_followers spared.stays_access fs)
      (simp add: spared.stays_def spared_unsubscribed [OF ab])
qed


definition safe_for ::
    "string \<Rightarrow> string set \<Rightarrow> string set \<Rightarrow> string set \<Rightarrow> string set \<Rightarrow>
     'b notification_store_scheme \<Rightarrow> 'b notification_store_scheme \<Rightarrow> bool" where
  "safe_for b I J K C s t \<longleftrightarrow> spares b I J K C t \<and> same_for b s t"

lemma safe_stays:
  "spared.stays b I J K C m \<Longrightarrow> triple (safe_for b I J K C s) m (\<lambda>_. safe_for b I J K C s) (safe_for b I J K C s)"
  by (rule triple_stays [where R = "spared b I J K C"], erule (1) spared.staysD)
    (simp_all only: safe_for_def spared_def, blast intro: same_for_trans)

lemma spared_item_kept:
  assumes "c \<noteq> b" and "nt_items s c i = None \<Longrightarrow> ni_body x = None"
    and "\<And>y. nt_items s c i = Some y \<Longrightarrow> ni_body x = ni_body y"
  shows "spared b I J K C s (put_item_at c i x s)"
proof -
  have "spares b I J K C (put_item_at c i x s)" if sp: "spares b I J K C s"
  proof -
    have "bo_accountId y \<noteq> b" if "c \<in> C" "ni_body x = Some y" for y
    proof (cases "nt_items s c i")
      case (Some z)
      then have "nt_items s c i = Some z \<and> ni_body z = Some y" using assms(3) that(2) by simp
      then show ?thesis using sp that(1) unfolding spares_def by blast
    qed (use assms(2) that in simp)
    then have "\<forall>c' \<in> C. \<forall>j v y. nt_items (put_item_at c i x s) c' j = Some v \<and> ni_body v = Some y
        \<longrightarrow> bo_accountId y \<noteq> b"
      using sp by (simp add: spares_def put_item_at_def)
    then show ?thesis using sp by (simp add: spares_def) (simp add: put_item_at_def)
  qed
  moreover have "same_for b s (put_item_at c i x s)"
    using assms(1) by (simp add: same_for_def put_item_at_def followers_of_def)
  ultimately show ?thesis by (simp add: spared_def)
qed

text \<open>The body of an item of an account that is spared names another account.\<close>

lemma safe_body:
  assumes "c \<in> C"
  shows "triple (safe_for b I J K C s) (op_get (\<lambda>s. Option.bind (nt_items s c i) ni_body))
     (\<lambda>body t. safe_for b I J K C s t \<and> (\<forall>y. body = Some y \<longrightarrow> bo_accountId y \<noteq> b)) (safe_for b I J K C s)"
proof (rule tripleI)
  fix t u x assume "safe_for b I J K C s t" and "op_get (\<lambda>s. Option.bind (nt_items s c i) ni_body) t = (Inr x, u)"
  then show "safe_for b I J K C s u \<and> (\<forall>y. x = Some y \<longrightarrow> bo_accountId y \<noteq> b)"
    using assms by (clarsimp simp: run_op bind_eq_Some_conv) (use assms in \<open>fastforce simp: safe_for_def spares_def\<close>)
qed (simp add: run_op)

lemma safe_update_ids:
  "triple (\<lambda>t. safe_for b I J K C s t \<and> (\<forall>y. body = Some y \<longrightarrow> bo_accountId y \<noteq> b))
     (case body of
        None \<Rightarrow> op_then (op_try (access (op_fail e)) (\<lambda>e. op_ret ())) (access (op_fail e))
      | Some y \<Rightarrow> setAccountNotificationIds (bo_accountId y) (ns y))
     (\<lambda>_. safe_for b I J K C s) (safe_for b I J K C s)"
proof (cases body)
  case None
  show ?thesis unfolding None option.case
    by (rule triple_weaken [OF safe_stays]) (intro spared.stays_intros, auto)
next
  case (Some y)
  show ?thesis
  proof (cases "bo_accountId y = b")
    case False
    then show ?thesis using Some by (simp add: safe_stays spared_ids)
  qed (simp add: Some triple_def)
qed

lemma spared_flags_row:
  "spared.stays b I J {i} C (access (\<lambda>s. if list_ex (\<lambda>r. rw_id r = i) (nt_rows s) then
       (Inr (), s\<lparr>nt_rows := map (\<lambda>r. if rw_id r = i then r\<lparr>rw_isMuted := m,
           rw_isRead := d, rw_isArchived := x\<rparr> else r) (nt_rows s)\<rparr>)
     else (Inl e, s)))"
proof -
  have row: "spared b I J {i} C s (s\<lparr>nt_rows := map (\<lambda>r. if rw_id r = i then r\<lparr>rw_isMuted := m,
       rw_isRead := d, rw_isArchived := x\<rparr> else r) (nt_rows s)\<rparr>)" for s
    by (rule spared_rows) auto
  show ?thesis
    by (intro spared.stays_access) (simp add: spared.stays_def spared.R_refl row)
qed

lemma safe_update:
  assumes "c \<noteq> b"
  shows "triple (safe_for b I J {i} {c} s) (updateAccountNotification c i u)
     (\<lambda>_. safe_for b I J {i} {c} s) (safe_for b I J {i} {c} s)"
proof -
  let ?S = "safe_for b I J {i} {c} s"
  show ?thesis
    unfolding updateAccountNotification_def Let_def
    apply (rule triple_bind [where Q = "\<lambda>_. ?S"])
     apply (rule safe_stays [OF spared_reads(2)])
    subgoal for found
      apply (cases found)
       apply (simp only: option.case)
       apply (intro safe_stays spared.stays_intros)
      apply (simp only: option.case)
      apply (rule triple_bind [where Q = "\<lambda>_. ?S"])
       apply (intro safe_stays spared.stays_intros)
      apply (rule triple_then [where Q = "?S"])
       apply (rule safe_stays [OF spared.stays_items(2)])
        apply (rule spared_item_kept [OF assms], simp, simp)
       apply (rule spared_item_kept [OF assms], simp, simp)
      apply (rule triple_bind [OF safe_body])
       apply simp
      apply (rule triple_then [where Q = "?S"])
       apply (rule safe_update_ids)
      apply (rule safe_stays [OF spared_flags_row])
      done
    done
qed


section \<open>The account itself\<close>

text \<open>The records of account \<open>a\<close> carry its id, and nothing but them, codes and messages differs from \<open>s\<close>.\<close>

definition own_records :: "string \<Rightarrow> 'b account_store_scheme \<Rightarrow> 'b account_store_scheme \<Rightarrow> bool" where
  "own_records a s t \<longleftrightarrow> account_store.more t = account_store.more s
     \<and> (\<forall>r. as_accounts t a = Some r \<longrightarrow> ac_accountId r = Val a)
     \<and> (\<forall>x. as_items t a = Some x \<longrightarrow> ac_accountId x = Val a)
     \<and> (\<forall>b. b \<noteq> a \<longrightarrow> as_accounts t b = as_accounts s b \<and> as_items t b = as_items s b)"

definition writes_own :: "string \<Rightarrow> account \<Rightarrow> bool" where
  "writes_own a r \<longleftrightarrow> (\<forall>i. ac_accountId r = Val i \<longrightarrow> i = a)"

interpretation own: account_writes "own_records a s" "writes_own a" a "\<lambda>r. ac_accountId r = Val a" for a s
  by unfold_locales
    (auto simp: own_records_def same_accounts_def writes_own_def put_account_def put_account_item_def
      overlay_columns_def overlay_def no_columns_def more_simps)

lemma own_handlers:
  "triple (own_records a s) (createAccountEmail a e) (\<lambda>_. own_records a s) (own_records a s)"
  "triple (own_records a s) (createAccountPhone a e) (\<lambda>_. own_records a s) (own_records a s)"
  "triple (own_records a s) (verifyEmail a k) (\<lambda>_. own_records a s) (own_records a s)"
  "triple (own_records a s) (verifyPhone a k) (\<lambda>_. own_records a s) (own_records a s)"
  by (rule own.keeps_contacts own.keeps_verifies; simp add: writes_own_def dto_id)+

lemma same_more:
  assumes "account_store.more t = account_store.more u"
  shows "nt_items t = nt_items u" "nt_ids t = nt_ids u" "nt_rows t = nt_rows u"
    "nt_settingsItems t = nt_settingsItems u" "nt_settings t = nt_settings u"
    "nt_subscriptions t = nt_subscriptions u" "nt_daoItems t = nt_daoItems u"
  using assms by (cases t; cases u; simp)+

lemma own_same_for:
  assumes "triple (own_records a s) m (\<lambda>_. own_records a s) (own_records a s)" and "accounts_ok s" and "a \<noteq> b"
  shows "same_for b s (snd (m s))"
proof -
  have "own_records a s s" using assms(2) by (simp add: own_records_def accounts_ok_def)
  then have own: "own_records a s (snd (m s))" by (rule triple_end [OF assms(1)])
  then have more: "account_store.more (snd (m s)) = account_store.more s" by (simp add: own_records_def)
  show ?thesis
    using own assms(3) by (simp add: same_for_def own_records_def followers_of_def same_more [OF more])
qed


section \<open>Requests\<close>

text \<open>The requests of account \<open>a\<close> that reach the data of another account \<open>b\<close>.\<close>

fun reaches :: "'b notification_store_scheme \<Rightarrow> api_request \<Rightarrow> string \<Rightarrow> string \<Rightarrow> bool" where
  "reaches s (Api_Update c i u) a b \<longleftrightarrow> c = b
     \<or> (\<exists>x \<in> set (nt_rows s). rw_id x = i \<and> rw_accountId x = b)
     \<or> (\<exists>j x y. nt_items s c j = Some x \<and> ni_body x = Some y \<and> bo_accountId y = b)"
| "reaches s (Api_Unsubscribe d c) a b \<longleftrightarrow> c = b"
| "reaches s (Api_Subscribe d) a b \<longleftrightarrow>
     (\<exists>x \<in> set (nt_subscriptions s). su_id x = buildSubscriptionId d a \<and> su_accountId x = b)"
| "reaches s (Api_NotificationSettings dto) a b \<longleftrightarrow>
     (\<exists>x \<in> set (nt_settings s). se_id x = buildAccountNotificationSettingsId a (cs_daoId dto) \<and> se_accountId x = b)"
| "reaches s r a b \<longleftrightarrow> False"

lemma snd_void: "snd (op_void m s) = snd (m s)"
  by (simp add: op_void_def run_op split: prod.split sum.split)

text \<open>What a handler does after the guard.\<close>

lemma after_access:
  fixes s :: "'b comments_store_scheme"
  assumes "\<not> same_for b s (snd (op_bind (accountAccess h) f s))"
  shows "\<exists>a k g ks. read_token h = Inr (a, k, g) \<and> gd_keys s (Suc (st_tick s)) a = Inr ks \<and> k \<in> set ks
     \<and> gd_verify s k g = Inr True \<and> \<not> same_for b (tick s) (snd (f a (tick s)))"
proof (cases "accountAccess h s")
  case (Pair r t)
  show ?thesis
  proof (cases r)
    case (Inl e)
    have "same_people s t" using people.staysD [OF people_t.access_of Pair] .
    then show ?thesis using assms Pair Inl by (simp add: run_op people_same_for)
  next
    case (Inr a)
    have "same_for b s (tick s)" by (rule people_same_for [OF people.R_tick])
    then show ?thesis
      using accountAccess_Inr [of h s a t] Pair Inr assms same_for_trans [of b s "tick s"]
      by (auto simp: run_op)
  qed
qed

text \<open>The requests that change no account's data.\<close>

fun quiet_request :: "api_request \<Rightarrow> bool" where
  "quiet_request (Api_Email e) \<longleftrightarrow> False"
| "quiet_request Api_SendEmail \<longleftrightarrow> False"
| "quiet_request (Api_VerifyEmail c) \<longleftrightarrow> False"
| "quiet_request (Api_Phone p) \<longleftrightarrow> False"
| "quiet_request Api_SendPhone \<longleftrightarrow> False"
| "quiet_request (Api_VerifyPhone c) \<longleftrightarrow> False"
| "quiet_request Api_ReadAll \<longleftrightarrow> False"
| "quiet_request Api_ArchiveAll \<longleftrightarrow> False"
| "quiet_request (Api_Update a i b) \<longleftrightarrow> False"
| "quiet_request (Api_NotificationSettings b) \<longleftrightarrow> False"
| "quiet_request (Api_Subscribe d) \<longleftrightarrow> False"
| "quiet_request (Api_Unsubscribe d a) \<longleftrightarrow> False"
| "quiet_request r \<longleftrightarrow> True"

lemma quiet_aggregate: "people.stays (api_triggerDaoAggregation h d)"
  unfolding api_triggerDaoAggregation_def
  by (intro people.stays_intros people_t.access_of people_t.guards people.stays_put)
    (simp add: same_people_def followers_of_def fun_eq_iff)

lemma quiet_serve: "quiet_request r \<Longrightarrow> people.stays (serve_api h r)"
  by (cases r) (auto intro!: people_t.void people_t.read_requests people_t.notification_reads people_c.comment_requests people_t.template_requests quiet_aggregate)


lemma stays_for: "spared.stays b I J K C m \<Longrightarrow> spares b I J K C s \<Longrightarrow> same_for b s (snd (m s))"
  by (simp add: spared.stays_def spared_def)

text \<open>What a handler of account \<open>a\<close> leaves of account \<open>b\<close>.\<close>

lemma handlers_spare:
  assumes ok: "accounts_ok s" and ab: "a \<noteq> b"
  shows "same_for b s (snd (createAccountEmail a e s))" "same_for b s (snd (createAccountPhone a e s))"
    "same_for b s (snd (sendEmailVerification a s))" "same_for b s (snd (sendPhoneVerification a s))"
    "same_for b s (snd (verifyEmail a k s))" "same_for b s (snd (verifyPhone a k s))"
    "same_for b s (snd (readAccountNotifications a s))" "same_for b s (snd (archiveAccountNotifications a s))"
    "\<not> reaches s (Api_Update c i u) a b \<Longrightarrow> same_for b s (snd (updateAccountNotification c i u s))"
    "\<not> reaches s (Api_NotificationSettings dto) a b \<Longrightarrow> same_for b s (snd (settings_create a dto s))"
    "\<not> reaches s (Api_Subscribe d) a b \<Longrightarrow> same_for b s (snd (subscription_create a d s))"
    "\<not> reaches s (Api_Unsubscribe d c) a b \<Longrightarrow> same_for b s (snd (subscription_remove d c s))"
proof -
  show "same_for b s (snd (createAccountEmail a e s))" "same_for b s (snd (createAccountPhone a e s))"
    "same_for b s (snd (sendEmailVerification a s))" "same_for b s (snd (sendPhoneVerification a s))"
    "same_for b s (snd (verifyEmail a k s))" "same_for b s (snd (verifyPhone a k s))"
    by (rule own_same_for [OF _ ok ab], rule own_handlers own.keeps_sends)+
  have all: "spares b {} {} {} {} s" by (simp add: spares_def)
  show "same_for b s (snd (readAccountNotifications a s))" "same_for b s (snd (archiveAccountNotifications a s))"
    by (rule stays_for [OF _ all], rule spared_flag_all [OF ab])+
  show "same_for b s (snd (updateAccountNotification c i u s))" if "\<not> reaches s (Api_Update c i u) a b"
  proof -
    have "c \<noteq> b" and "spares b {} {} {i} {c} s" using that by (auto simp: spares_def)
    then show ?thesis
      using triple_end [OF safe_update, of c b "{}" "{}" i s s u] by (simp add: safe_for_def same_for_refl)
  qed
  show "same_for b s (snd (settings_create a dto s))" if "\<not> reaches s (Api_NotificationSettings dto) a b"
    using that by (intro stays_for [OF spared_settings [OF ab]]) (auto simp: spares_def)
  show "same_for b s (snd (subscription_create a d s))" if "\<not> reaches s (Api_Subscribe d) a b"
    using that by (intro stays_for [OF spared_subscriptions(1) [OF ab]]) (auto simp: spares_def)
  show "same_for b s (snd (subscription_remove d c s))" if "\<not> reaches s (Api_Unsubscribe d c) a b"
    using that by (intro stays_for [OF spared_subscriptions(2) all]) simp
qed


lemma snd_try_fail: "snd (op_try m (\<lambda>e. op_fail (f e)) s) = snd (m s)"
  by (simp add: run_op split: prod.split sum.split)

definition allowed_change :: "request_headers \<Rightarrow> api_request \<Rightarrow> string \<Rightarrow> 'b access_store_scheme \<Rightarrow> bool" where
  "allowed_change h r b s \<longleftrightarrow> (\<exists>a k g ks. read_token h = Inr (a, k, g) \<and> gd_keys s (Suc (st_tick s)) a = Inr ks
     \<and> k \<in> set ks \<and> gd_verify s k g = Inr True \<and> (a = b \<or> reaches s r a b))"

lemma reaches_tick: "reaches (tick s) q a b = reaches s q a b"
  by (cases q) (simp_all add: tick_def)

text \<open>A handler that spares the accounts it does not reach makes allowed changes only.\<close>

lemma guarded_change:
  fixes s :: "'b comments_store_scheme"
  assumes "\<And>a t. accounts_ok t \<Longrightarrow> a \<noteq> b \<Longrightarrow> \<not> reaches t r a b \<Longrightarrow> same_for b t (snd (f a t))"
    and ok: "accounts_ok s" and change: "\<not> same_for b s (snd (op_bind (accountAccess h) f s))"
  shows "allowed_change h r b s"
proof -
  have "accounts_ok (tick s)" using ok by (simp add: accounts_ok_def tick_def)
  then have "a = b \<or> reaches s r a b" if "\<not> same_for b (tick s) (snd (f a (tick s)))" for a
    using that assms(1) [of "tick s" a] by (auto simp: reaches_tick)
  then show ?thesis using after_access [OF change] unfolding allowed_change_def by blast
qed

lemma allowed_changes:
  assumes "accounts_ok s" and "\<not> same_for b s (snd (serve_api h r s))"
  shows "allowed_change h r b s"
proof (cases "quiet_request r")
  case True
  have "same_people s (snd (serve_api h r s))"
    by (rule quiet_serve [OF True, unfolded people.stays_def, rule_format])
  then show ?thesis using assms(2) people_same_for by blast
next
  case False
  note guarded = guarded_change [OF _ assms(1)]
  note defs = serve_api.simps snd_void api_setAccountEmail_def
        api_accountEmailSendVerification_def api_verifyEmail_def api_setAccountPhone_def
        api_accountPhoneSendVerification_def api_verifyPhone_def api_readAccountNotifications_def
        api_archiveAccountNotifications_def api_updateAccountNotification_def
        api_setNotificationSettings_def api_subscribe_def api_unsubscribe_def
  show ?thesis
    using False assms(2)
    apply (cases r; simp only: quiet_request.simps simp_thms defs)
    apply (erule guarded [rotated], (simp only: snd_try_fail)?, (erule (2) handlers_spare | erule (1) handlers_spare))+
    done
qed

text \<open>
  C12. The data of an account (its record, notifications, settings, subscriptions and the DAOs it follows)
  change only by a request whose token NEAR's keys and the signature confirm, and the token is the
  account's own but for four requests: an update of a notification or an unsubscription that names the
  account in its path, and a subscription or settings whose id is the one of a row of the account.
\<close>

theorem api_changes_own:
  assumes "accounts_ok s" and "\<not> same_for b s (snd (serve_api h r s))"
  shows "\<exists>a k g ks. read_token h = Inr (a, k, g) \<and> gd_keys s (Suc (st_tick s)) a = Inr ks \<and> k \<in> set ks
     \<and> gd_verify s k g = Inr True \<and> (a = b \<or> reaches s r a b)"
  using allowed_changes [OF assms] by (simp only: allowed_change_def)


section \<open>Other accounts\<close>

lemma access_calm:
  assumes "calm s" and "fst (accountAccess h s) = Inr a"
  shows "accountAccess h s = (Inr a, tick s)"
  using assms accountAccess_Inr [of h s a "snd (accountAccess h s)"] by (metis prod.collapse)

lemma unsubscribed:
  assumes calm: "calm s" and token: "fst (accountAccess h s) = Inr a" and item: "nt_daoItems s d = Some x"
  shows "followers_of (snd (serve_api h (Api_Unsubscribe d c) s)) d = filter (\<lambda>f. f \<noteq> c) (followers_of s d)"
    "nt_subscriptions (snd (serve_api h (Api_Unsubscribe d c) s))
       = filter (\<lambda>r. \<not> (su_daoId r = d \<and> su_accountId r = c)) (nt_subscriptions s)"
proof -
  have calm': "calm (tick s)" "calm (tick (tick s))" using calm by (simp_all add: calm_def tick_def)
  show "followers_of (snd (serve_api h (Api_Unsubscribe d c) s)) d = filter (\<lambda>f. f \<noteq> c) (followers_of s d)"
    "nt_subscriptions (snd (serve_api h (Api_Unsubscribe d c) s))
       = filter (\<lambda>r. \<not> (su_daoId r = d \<and> su_accountId r = c)) (nt_subscriptions s)"
    using item calm calm'
    by (simp_all add: api_unsubscribe_def access_calm [OF calm token] run_op subscription_remove_def op_then_def
        save_followers_def calm_getItem calm_saveItem Let_def run_access put_dao_item_def followers_of_def
        tick_def calm_def split: option.split)
qed

text \<open>
  C40. Any account with a valid token ends any account's subscription to a DAO: the account that is
  unsubscribed is the one of the path, and nothing compares it with the token's. The followers that the
  DAO's item lists and the rows of the subscriptions lose it.
\<close>

theorem anyone_unsubscribes:
  assumes calm: "calm s" and token: "fst (accountAccess h s) = Inr a" and item: "nt_daoItems s d = Some x"
  shows "c \<notin> set (followers_of (snd (serve_api h (Api_Unsubscribe d c) s)) d)
     \<and> (\<forall>r \<in> set (nt_subscriptions (snd (serve_api h (Api_Unsubscribe d c) s))).
          \<not> (su_daoId r = d \<and> su_accountId r = c))"
  by (simp only: unsubscribed [OF assms]) auto

definition sample_api :: api_store where
  "sample_api = notification_store.extend (sample_notifications\<lparr>as_accounts := (\<lambda>a. None),
       nt_daoItems := [''d'' \<mapsto> \<lparr> di_accountIds = None, di_followers = Some [''ann'', ''eve''], di_council = None,
         di_settings = JNull \<rparr>]\<rparr>)
     \<lparr> gd_keys = (\<lambda>n a. Inr [''key'']), gd_verify = (\<lambda>k g. Inr (g = ''sig'')), gd_admins = [],
       tm_rows = (\<lambda>i. None), tm_items = (\<lambda>d i. None), tm_shared = (\<lambda>i. None), tm_sharedItems = (\<lambda>i. None),
       tm_sharedDaos = [], tm_settings = (\<lambda>d. None), tm_hash = (\<lambda>n t. t), tm_contractName = ''sputnik'',
       ct_comments = (\<lambda>i. None), ct_ids = [], ct_sequence = 0, ct_reports = [], ct_proposals = (\<lambda>i. None),
       ct_bounties = (\<lambda>i. None), ct_index = (\<lambda>i. None), ct_events = [], ap_triggers = [] \<rparr>"

lemma sample_values:
  "calm sample_api" "gd_keys sample_api n a = Inr [''key'']" "gd_verify sample_api k g = Inr (g = ''sig'')"
  "nt_daoItems sample_api ''d'' = Some \<lparr> di_accountIds = None, di_followers = Some [''ann'', ''eve''],
     di_council = None, di_settings = JNull \<rparr>"
  "nt_items sample_api = nt_items sample_notifications"
  by (simp_all add: calm_def sample_api_def sample_notifications_def sample_accounts_def notification_store.defs
      account_store.defs)

lemma followed: "followers_of sample_api ''d'' = [''ann'', ''eve'']"
  by (simp add: followers_of_def sample_values)

lemma sample_token: "fst (accountAccess (bearer ''bob'' ''key'' ''sig'') sample_api) = Inr ''bob''"
  by (simp add: bearer_access sample_values)

lemma anyone_unsubscribes_witness:
  "''ann'' \<in> set (followers_of sample_api ''d'')
     \<and> ''ann'' \<notin> set (followers_of (snd (serve_api (bearer ''bob'' ''key'' ''sig'') (Api_Unsubscribe ''d'' ''ann'') sample_api)) ''d'')"
  using anyone_unsubscribes [OF sample_values(1) sample_token sample_values(4), of "''ann''"]
  by (simp add: followers_of_def sample_values)


lemma api_changes_own_witness:
  "\<exists>a k g ks. read_token (bearer ''bob'' ''key'' ''sig'') = Inr (a, k, g)
     \<and> gd_keys sample_api (Suc (st_tick sample_api)) a = Inr ks \<and> k \<in> set ks \<and> gd_verify sample_api k g = Inr True
     \<and> (a = ''ann'' \<or> reaches sample_api (Api_Unsubscribe ''d'' ''ann'') a ''ann'')"
proof (rule api_changes_own)
  show "accounts_ok sample_api"
    by (simp add: accounts_ok_def sample_api_def sample_notifications_def sample_accounts_def
        notification_store.defs account_store.defs)
  have "followers_of (snd (serve_api (bearer ''bob'' ''key'' ''sig'') (Api_Unsubscribe ''d'' ''ann'') sample_api)) ''d''
      = [''eve'']"
    by (simp only: unsubscribed [OF sample_values(1) sample_token sample_values(4)])
      (simp add: followed)
  then show "\<not> same_for ''ann'' sample_api
      (snd (serve_api (bearer ''bob'' ''key'' ''sig'') (Api_Unsubscribe ''d'' ''ann'') sample_api))"
    by (auto dest: same_for_followed [where d = "''d''"] simp del: serve_api.simps simp: followed)
qed

lemma access_by_key_witness:
  "\<exists>ks. gd_keys sample_api (Suc (st_tick sample_api)) ''bob'' = Inr ks \<and> ''key'' \<in> set ks"
  using access_by_key [of sample_api "''bob''" "''key''" "''sig''" "''bob''"] sample_token
  by (simp add: sample_values)

end
