(* ===== verification/Api_Daos.thy ===== *)
theory Api_Daos
  imports Api_Facts
begin

text \<open>
  Who may change the data of a DAO through the API: its settings and its items of templates change
  only by requests of its council (\<open>dao_data_by_council\<close>). The rows of templates are found by their id
  alone, so the council of any DAO deletes those of another one (\<open>foreign_template_deleted\<close>).
\<close>

section \<open>The data of a DAO\<close>

definition dao_data :: "string \<Rightarrow> 'b template_store_scheme \<Rightarrow>
    jsval option \<times> jsval option \<times> (string \<Rightarrow> template_item option)" where
  "dao_data d s = (tm_settings s d, map_option di_settings (nt_daoItems s d), tm_items s d)"

definition same_dao :: "string \<Rightarrow> 'b template_store_scheme \<Rightarrow> 'b template_store_scheme \<Rightarrow> bool" where
  "same_dao d s t \<longleftrightarrow> dao_data d t = dao_data d s"

lemma same_dao_more: "account_store.more t = account_store.more s \<Longrightarrow> same_dao d s t"
  by (cases s; cases t) (simp add: same_dao_def dao_data_def)

interpretation dao_t: templates_frame "same_dao d" "\<lambda>d'. d' \<noteq> d" for d
  by unfold_locales
    (auto simp: same_dao_def dao_data_def tick_def put_template_item_def put_shared_item_def put_dao_item_def)

interpretation dao_c: reports_frame "same_dao d" for d
  by unfold_locales (auto simp: same_dao_def dao_data_def put_comment_def put_document_def)

interpretation dao_o: own_frame "same_dao d" for d
proof unfold_locales
  show "same_dao d s t" if "account_store.more t = account_store.more s" for s t
    using that by (rule same_dao_more)
qed (auto simp: same_dao_def dao_data_def put_item_at_def put_ids_def put_settings_def put_dao_item_def)

section \<open>Requests\<close>

text \<open>The DAO whose council a request needs.\<close>

fun council_request :: "api_request \<Rightarrow> string option" where
  "council_request (Api_CreateTemplate d b) = Some d"
| "council_request (Api_UpdateTemplate d i b) = Some d"
| "council_request (Api_DeleteTemplate d i) = Some d"
| "council_request (Api_CloneTemplate i d) = Some d"
| "council_request (Api_PatchSettings d v) = Some d"
| "council_request (Api_PatchSetting d k v) = Some d"
| "council_request _ = None"

lemma dao_aggregate: "dao_t.stays d (api_triggerDaoAggregation h c)"
  unfolding api_triggerDaoAggregation_def
  by (intro dao_t.guarded dao_t.stays_intros dao_t.guards dao_t.stays_put) (simp add: same_dao_def dao_data_def)

lemma dao_serve: "council_request r \<noteq> Some d \<Longrightarrow> dao_t.stays d (serve_api h r)"
  by (cases r)
    (auto intro!: dao_t.void dao_t.read_requests dao_t.notification_reads dao_o.own_requests dao_aggregate dao_c.comment_requests dao_t.template_requests)


definition council_token :: "request_headers \<Rightarrow> string \<Rightarrow> 'b access_store_scheme \<Rightarrow> bool" where
  "council_token h d s \<longleftrightarrow> (\<exists>a k g ks. read_token h = Inr (a, k, g) \<and> gd_keys s (Suc (st_tick s)) a = Inr ks
     \<and> k \<in> set ks \<and> gd_verify s k g = Inr True \<and> fst (councilAccess a d (tick s)) = Inr ())"

lemma after_council:
  fixes s :: "'b comments_store_scheme"
  assumes "dao_data d (snd (op_bind (as_council h d) f s)) \<noteq> dao_data d s"
  shows "council_token h d s"
proof -
  obtain r t where run: "as_council h d s = (r, t)" by fastforce
  have same: "same_dao d s t" by (rule dao_t.staysD [OF dao_t.council_of run])
  obtain a where "r = Inr a"
    using assms run same by (cases r) (auto simp: run_op same_dao_def)
  then obtain b u where guard: "accountAccess h s = (Inr b, u)" and council: "fst (councilAccess b d u) = Inr ()"
    using run by (auto simp: as_council_def run_op split: prod.splits sum.splits)
  then show ?thesis using accountAccess_Inr [OF guard] unfolding council_token_def by auto
qed

text \<open>
  Who manages a DAO, read off what is stored of it: the accounts of its council, or, when that is empty, its
  members. What counts is its item when the DAOs are read from DynamoDB, and otherwise its row, unless
  the DAO is disabled.
\<close>

definition manages_dao :: "string \<Rightarrow> string \<Rightarrow> bool \<Rightarrow> 'b notification_store_scheme \<Rightarrow> bool" where
  "manages_dao a d dynamo s \<longleftrightarrow> (\<exists>council members.
     (a \<in> set council \<or> council = [] \<and> (\<exists>ms. members = Some ms \<and> a \<in> set ms))
     \<and> (if dynamo
        then \<exists>x. nt_daoItems s d = Some x \<and> di_council x = Some council \<and> di_accountIds x = members
        else \<exists>x st. nt_daos s d = Some x \<and> dao_status x = Some st \<and> st \<noteq> DS_Disabled
          \<and> dao_council x = Some council \<and> dao_accountIds x = members))"

lemma manages_dao_tick: "manages_dao a d b (tick s) = manages_dao a d b s"
  by (simp add: manages_dao_def tick_def)

lemma councilAccess_found:
  assumes "councilAccess a d s = (Inr (), t)"
  shows "\<exists>council members u. dao_people d s = (Inr (Some (Some council, members)), u)
     \<and> (a \<in> set council \<or> council = [] \<and> (\<exists>ms. members = Some ms \<and> a \<in> set ms))"
proof -
  obtain found u where people: "dao_people d s = (Inr found, u)"
    and rest: "(case found of
       None \<Rightarrow> op_fail (HttpError 404 (''DAO does not exist: '' @ d))
     | Some (daoCouncil, daoMembers) \<Rightarrow>
         op_bind (op_need (TypeError ''length'') daoCouncil) (\<lambda>council.
         op_bind (if council = [] then op_need (TypeError ''includes'') daoMembers else op_ret council) (\<lambda>allowed.
         if a \<in> set allowed then op_ret () else op_fail (forbidden ''Forbidden resource'')))) u = (Inr (), t)"
    using assms unfolding councilAccess_def op_iffs by blast
  obtain council members where "found = Some (Some council, members)"
    "a \<in> set council \<or> council = [] \<and> (\<exists>ms. members = Some ms \<and> a \<in> set ms)"
    using rest by (auto simp: run_op op_need_def split: option.splits if_splits)
  with people show ?thesis by blast
qed

lemma dao_people_found:
  fixes s :: "'b access_store_scheme"
  assumes "dao_people d s = (Inr (Some people), t)"
  shows "if as_flags s (Suc (st_tick s)) ''dao-dynamo''
     then \<exists>x. nt_daoItems s d = Some x \<and> di_council x = fst people \<and> di_accountIds x = snd people
     else \<exists>x st. nt_daos s d = Some x \<and> dao_status x = Some st \<and> st \<noteq> DS_Disabled
       \<and> dao_council x = fst people \<and> dao_accountIds x = snd people"
proof -
  obtain dynamo u where flag: "flag_on ''dao-dynamo'' s = (Inr dynamo, u)"
    and rest: "(if dynamo then op_bind (get_item (\<lambda>s. nt_daoItems s d))
          (\<lambda>found. op_ret (map_option (\<lambda>d. (di_council d, di_accountIds d)) found))
        else access (op_get (\<lambda>s. if enabled_dao (nt_daos s d)
          then map_option (\<lambda>d. (dao_council d, dao_accountIds d)) (nt_daos s d) else None))) u
        = (Inr (Some people), t)"
    using assms unfolding dao_people_def useDaoDynamo_def op_iffs by blast
  have u: "u = tick s" "dynamo = as_flags s (Suc (st_tick s)) ''dao-dynamo''"
    using flag by (auto simp: flag_on_def all_iffs tick_def dest!: access_Inr)
  have same: "nt_daoItems (tick (tick s)) d = nt_daoItems s d" "nt_daos (tick (tick s)) d = nt_daos s d"
    by (simp_all add: tick_def)
  show ?thesis
  proof (cases dynamo)
    case True
    obtain found v where found: "get_item (\<lambda>s. nt_daoItems s d) u = (Inr found, v)"
      and ret: "op_ret (map_option (\<lambda>d. (di_council d, di_accountIds d)) found) v = (Inr (Some people), t)"
      using rest unfolding if_P [OF True] op_iffs by blast
    from ret obtain x where x: "found = Some x" "people = (di_council x, di_accountIds x)"
      by (auto simp: run_op)
    have "nt_daoItems s d = Some x" using get_item_end [OF found] x(1) u(1) same(1) by simp
    with True u(2) x(2) show ?thesis by simp
  next
    case False
    with rest have "access (op_get (\<lambda>s. if enabled_dao (nt_daos s d)
          then map_option (\<lambda>d. (dao_council d, dao_accountIds d)) (nt_daos s d) else None)) (tick s)
        = (Inr (Some people), t)" unfolding u(1) by simp
    from access_Inr [OF this] have "(if enabled_dao (nt_daos s d)
          then map_option (\<lambda>d. (dao_council d, dao_accountIds d)) (nt_daos s d) else None) = Some people"
      unfolding op_get_iff same by simp
    with False u show ?thesis by (auto simp: enabled_dao_def split: if_splits option.splits)
  qed
qed

lemma councilAccess_manages:
  fixes s :: "'b access_store_scheme"
  assumes "fst (councilAccess a d s) = Inr ()"
  shows "manages_dao a d (as_flags s (Suc (st_tick s)) ''dao-dynamo'') s"
proof -
  obtain t where run: "councilAccess a d s = (Inr (), t)" using assms by (cases "councilAccess a d s") simp
  obtain council members u where people: "dao_people d s = (Inr (Some (Some council, members)), u)"
    and in_list: "a \<in> set council \<or> council = [] \<and> (\<exists>ms. members = Some ms \<and> a \<in> set ms)"
    using councilAccess_found [OF run] by (elim exE conjE)
  have "if as_flags s (Suc (st_tick s)) ''dao-dynamo''
     then \<exists>x. nt_daoItems s d = Some x \<and> di_council x = Some council \<and> di_accountIds x = members
     else \<exists>x st. nt_daos s d = Some x \<and> dao_status x = Some st \<and> st \<noteq> DS_Disabled
       \<and> dao_council x = Some council \<and> dao_accountIds x = members"
    using dao_people_found [OF people] by (simp only: fst_conv snd_conv)
  with in_list show ?thesis
    unfolding manages_dao_def by (intro exI [of _ council] exI [of _ members] conjI)
qed

text \<open>
  C15. The settings of a DAO, in both stores, and its items of templates change only by one of the requests
  that name it, with a token of an account that NEAR reports the key of, and whose signature is that
  key's, and that account is in the stored council of the DAO, or among its stored members when the
  council is empty.
\<close>

theorem dao_data_by_council:
  assumes "dao_data d (snd (serve_api h r s)) \<noteq> dao_data d s"
  shows "\<exists>a k g ks. read_token h = Inr (a, k, g) \<and> gd_keys s (Suc (st_tick s)) a = Inr ks \<and> k \<in> set ks
     \<and> gd_verify s k g = Inr True
     \<and> manages_dao a d (as_flags s (Suc (Suc (st_tick s))) ''dao-dynamo'') s \<and> council_request r = Some d"
proof -
  have r: "council_request r = Some d"
    using assms dao_serve [unfolded dao_t.stays_def same_dao_def, rule_format] by blast
  then have "council_token h d s"
    using assms
    by (cases r)
      (simp_all add: snd_void api_createProposalTemplate_def api_updateProposalTemplate_def
        api_deleteProposalTemplate_def api_cloneTemplate_def api_patchSettings_def api_patchSettingsParam_def
        after_council)
  then obtain a k g ks where "read_token h = Inr (a, k, g)" "gd_keys s (Suc (st_tick s)) a = Inr ks"
    "k \<in> set ks" "gd_verify s k g = Inr True" and council: "fst (councilAccess a d (tick s)) = Inr ()"
    unfolding council_token_def by blast
  moreover have "manages_dao a d (as_flags s (Suc (Suc (st_tick s))) ''dao-dynamo'') s"
    using councilAccess_manages [OF council] by (simp add: manages_dao_tick) (simp add: tick_def)
  ultimately show ?thesis using r by blast
qed

section \<open>Templates of another DAO\<close>

text \<open>What only reads moves the clock of the store and nothing else.\<close>

interpretation reads: access_frame "\<lambda>s t. \<exists>n. t = s\<lparr>st_tick := n\<rparr>"
proof unfold_locales
  show "\<exists>n. s = s\<lparr>st_tick := n\<rparr>" for s by (rule exI [of _ "st_tick s"]) simp
qed (auto simp: tick_def)

lemma council_reads:
  assumes "fst (as_council h d s) = Inr a"
  shows "\<exists>n. as_council h d s = (Inr a, s\<lparr>st_tick := n\<rparr>)"
  using assms reads.staysD [OF reads.council_of, of h d s] by (cases "as_council h d s") auto

lemma template_item_saved:
  assumes "calm s"
  shows "save_template_item d i x s = (Inr (), (if tm_items s d i = None then put_template_item d i x (tick s)
     else put_template_item d i (overlay_item x (the (tm_items s d i))) (tick (tick s))))"
  using assms
  by (auto simp: save_template_item_def calm_saveItem tick_def split: option.split)

lemma template_deleted:
  assumes calm: "calm s" and council: "fst (as_council h d s) = Inr a"
    and run: "serve_api h (Api_DeleteTemplate d i) s = (r, t)"
  shows "tm_rows t = (tm_rows s)(i := None)" and "e \<noteq> d \<Longrightarrow> dao_data e t = dao_data e s"
    and "tm_items s d i = None \<Longrightarrow> \<exists>now. tm_items t d i = Some ((no_attributes now)\<lparr>ti_isArchived := Some True\<rparr>)"
proof -
  obtain n where "as_council h d s = (Inr a, s\<lparr>st_tick := n\<rparr>)" using council_reads [OF council] by blast
  moreover have "calm (s\<lparr>st_tick := m\<rparr>)" for m using calm by (simp add: calm_def)
  ultimately show "tm_rows t = (tm_rows s)(i := None)" and "e \<noteq> d \<Longrightarrow> dao_data e t = dao_data e s"
    and "tm_items s d i = None \<Longrightarrow> \<exists>now. tm_items t d i = Some ((no_attributes now)\<lparr>ti_isArchived := Some True\<rparr>)"
    using run
    by (auto simp: api_deleteProposalTemplate_def run_op op_then_def dynamoTemplate_delete_def
        template_item_saved template_delete_def run_access put_template_item_def tick_def dao_data_def calm_def
        split: if_splits)
qed


text \<open>
  C39. The council of one DAO deletes the templates of another: the row is deleted by its id, whatever its
  DAO, while the item of the other DAO stays and an archived item without a name may appear among
  those of the first one.
\<close>

theorem foreign_template_deleted:
  assumes "calm s" and "fst (as_council h d s) = Inr a"
    and "serve_api h (Api_DeleteTemplate d i) s = (r, t)"
    and "tm_rows s i = Some x" "pt_daoId x = e" "e \<noteq> d" "tm_items s d i = None"
  shows "tm_rows t i = None \<and> dao_data e t = dao_data e s
     \<and> (\<exists>now. tm_items t d i = Some ((no_attributes now)\<lparr>ti_isArchived := Some True\<rparr>))"
  using template_deleted [OF assms(1-3)] assms(6,7) by simp

definition sample_template :: proposal_template where
  "sample_template = \<lparr> pt_id = ''i'', pt_daoId = ''e'', pt_name = ''pay'', pt_isEnabled = True,
     pt_config = \<lparr> tc_smartContractAddress = ''c'', tc_methodName = ''m'', tc_deposit = ''0'', tc_actionsGas = ''0'',
       tc_json = ''{}'' \<rparr> \<rparr>"

definition sample_daos :: api_store where
  "sample_daos = sample_api\<lparr>nt_daos := [''d'' \<mapsto> (empty_dao ''d'')\<lparr>dao_council := Some [''bob''], dao_status := Some DS_Active\<rparr>],
     tm_rows := [''i'' \<mapsto> sample_template]\<rparr>"

lemma daos_values:
  "calm sample_daos" "gd_keys sample_daos n a = Inr [''key'']" "gd_verify sample_daos k g = Inr (g = ''sig'')"
  "as_flags sample_daos n f = False" "nt_daos sample_daos ''d'' = Some ((empty_dao ''d'')\<lparr>dao_council := Some [''bob''],
     dao_status := Some DS_Active\<rparr>)"
  "tm_rows sample_daos ''i'' = Some sample_template" "tm_items sample_daos = (\<lambda>d i. None)"
  "tm_settings sample_daos = (\<lambda>d. None)"
  by (simp_all add: calm_def sample_daos_def sample_api_def sample_notifications_def sample_accounts_def
      notification_store.defs account_store.defs)

lemma daos_guards:
  "accountAccess (bearer ''bob'' ''key'' ''sig'') sample_daos = (Inr ''bob'', tick sample_daos)"
  "fst (councilAccess ''bob'' ''d'' (tick sample_daos)) = Inr ()"
proof -
  show "accountAccess (bearer ''bob'' ''key'' ''sig'') sample_daos = (Inr ''bob'', tick sample_daos)"
    by (rule access_calm) (simp_all add: daos_values bearer_access)
  show "fst (councilAccess ''bob'' ''d'' (tick sample_daos)) = Inr ()"
    by (simp add: councilAccess_def dao_people_def useDaoDynamo_def flag_on_def run_op run_access daos_values
        enabled_dao_def) (simp add: tick_def daos_values enabled_dao_def run_op)
qed

lemma daos_council: "fst (as_council (bearer ''bob'' ''key'' ''sig'') ''d'' sample_daos) = Inr ''bob''"
  using daos_guards by (auto simp: as_council_def run_op op_then_def split: prod.split sum.split)

lemma foreign_template_deleted_witness:
  "tm_rows (snd (serve_api (bearer ''bob'' ''key'' ''sig'') (Api_DeleteTemplate ''d'' ''i'') sample_daos)) ''i'' = None
     \<and> tm_rows sample_daos ''i'' = Some sample_template \<and> pt_daoId sample_template = ''e''"
proof -
  show ?thesis
    using foreign_template_deleted [OF daos_values(1) daos_council prod.collapse [symmetric] daos_values(6), where e = "''e''"
]
    by (simp only: daos_values) (simp add: sample_template_def)
qed

lemma dao_data_by_council_witness:
  "\<exists>a k g. read_token (bearer ''bob'' ''key'' ''sig'') = Inr (a, k, g)
     \<and> manages_dao a ''d'' False sample_daos"
proof -
  obtain now where "tm_items (snd (serve_api (bearer ''bob'' ''key'' ''sig'') (Api_DeleteTemplate ''d'' ''j'')
      sample_daos)) ''d'' ''j'' = Some ((no_attributes now)\<lparr>ti_isArchived := Some True\<rparr>)"
    using template_deleted(3) [OF daos_values(1) daos_council prod.collapse [symmetric]] by (metis daos_values(7))
  then have "dao_data ''d'' (snd (serve_api (bearer ''bob'' ''key'' ''sig'') (Api_DeleteTemplate ''d'' ''j'') sample_daos))
      \<noteq> dao_data ''d'' sample_daos"
    by (auto simp: dao_data_def daos_values fun_eq_iff simp del: serve_api.simps)
  from dao_data_by_council [OF this] show ?thesis by (auto simp only: daos_values)
qed

end
