(* ===== verification/Api_Comments.thy ===== *)
theory Api_Comments
  imports Api_Daos
begin

text \<open>
  The comments of the API: who gets a comment archived (\<open>comment_archived_by\<close>) and what the counters of
  comments mean (\<open>comments_counted\<close>).
\<close>

section \<open>The tables of comments\<close>

definition ids_ok :: "'b comments_store_scheme \<Rightarrow> bool" where
  "ids_ok s \<longleftrightarrow> (\<forall>i c. ct_comments s i = Some c \<longrightarrow> co_id c = i)"

text \<open>Comment \<open>i\<close> is \<open>c\<close>, the DAOs are \<open>D\<close>, and no comment moves.\<close>

definition has_comment :: "int \<Rightarrow> comment_row \<Rightarrow> (string \<Rightarrow> dao option) \<Rightarrow> 'b comments_store_scheme \<Rightarrow> bool" where
  "has_comment i c D s \<longleftrightarrow> ids_ok s \<and> ct_comments s i = Some c \<and> nt_daos s = D"

definition keeps_comment :: "int \<Rightarrow> comment_row \<Rightarrow> (string \<Rightarrow> dao option) \<Rightarrow>
    'b comments_store_scheme \<Rightarrow> 'b comments_store_scheme \<Rightarrow> bool" where
  "keeps_comment i c D s t \<longleftrightarrow> (has_comment i c D s \<longrightarrow> has_comment i c D t)"

text \<open>What leaves the comments alone.\<close>

definition same_comments :: "'b comments_store_scheme \<Rightarrow> 'b comments_store_scheme \<Rightarrow> bool" where
  "same_comments s t \<longleftrightarrow> ct_comments t = ct_comments s \<and> ct_ids t = ct_ids s
     \<and> ct_proposals t = ct_proposals s \<and> ct_bounties t = ct_bounties s"

lemma same_comments_more: "account_store.more t = account_store.more s \<Longrightarrow> same_comments s t"
  by (cases s; cases t) (simp add: same_comments_def)

interpretation com_t: templates_frame same_comments "\<lambda>_. True"
  by unfold_locales
    (simp_all add: same_comments_def tick_def put_template_item_def put_shared_item_def put_dao_item_def)

interpretation com_o: own_frame same_comments
proof unfold_locales
  show "same_comments s t" if "account_store.more t = account_store.more s" for s t
    using that by (rule same_comments_more)
qed (simp_all add: same_comments_def put_item_at_def put_ids_def put_settings_def put_dao_item_def)

fun comment_request :: "api_request \<Rightarrow> bool" where
  "comment_request (Api_Comment c) \<longleftrightarrow> True"
| "comment_request (Api_Report i x) \<longleftrightarrow> True"
| "comment_request (Api_DeleteComment k x) \<longleftrightarrow> True"
| "comment_request r \<longleftrightarrow> False"

lemma com_aggregate: "com_t.stays (api_triggerDaoAggregation h c)"
  unfolding api_triggerDaoAggregation_def
  by (intro com_t.guarded com_t.stays_intros com_t.guards com_t.stays_put) (simp add: same_comments_def)

lemma com_serve: "\<not> comment_request r \<Longrightarrow> com_t.stays (serve_api h r)"
  by (cases r)
    (auto intro!: com_t.void com_t.read_requests com_t.notification_reads com_o.own_requests com_aggregate
      com_t.template_requests)

interpretation held_comment: state_relation "keeps_comment i c D" for i c D
  by unfold_locales (simp_all add: keeps_comment_def, simp add: has_comment_def ids_ok_def tick_def)

section \<open>Who archives a comment\<close>

text \<open>The accounts of the council's role of a DAO.\<close>

definition council_accounts :: "(string \<Rightarrow> dao option) \<Rightarrow> string \<Rightarrow> string list" where
  "council_accounts D d = (case Option.bind (Option.bind (D d) dao_policy) pol_roles of None \<Rightarrow> []
     | Some rs \<Rightarrow> (case find is_council_role rs of None \<Rightarrow> []
         | Some r \<Rightarrow> (case role_accountIds r of None \<Rightarrow> [] | Some ids \<Rightarrow> ids)))"

lemma getCouncil_Inr: "dao_getCouncil d s = (Inr council, t) \<Longrightarrow> council = council_accounts (nt_daos s) d \<and> t = tick s"
proof -
  assume "dao_getCouncil d s = (Inr council, t)"
  then obtain found u where read: "access (op_get (\<lambda>s. nt_daos s d)) s = (Inr found, u)"
    and rest: "(case found of None \<Rightarrow> op_ret []
       | Some d \<Rightarrow> op_bind (op_need (TypeError ''roles'') (dao_policy d)) (\<lambda>p.
         op_bind (op_need (TypeError ''find'') (pol_roles p)) (\<lambda>rs.
         op_ret (case find is_council_role rs of None \<Rightarrow> []
                 | Some r \<Rightarrow> (case role_accountIds r of None \<Rightarrow> [] | Some ids \<Rightarrow> ids))))) u = (Inr council, t)"
    unfolding dao_getCouncil_def op_bind_Inr_iff by blast
  have found: "found = nt_daos s d" "u = tick s"
    using access_Inr [OF read] by (simp_all add: run_op tick_def)
  show ?thesis
    using rest unfolding found
    by (cases "nt_daos s d") (auto simp: council_accounts_def op_bind_Inr_iff run_op split: option.splits)
qed

lemma held_puts:
  "j \<noteq> i \<Longrightarrow> co_id x = j \<Longrightarrow> keeps_comment i c D s (put_comment j x s)"
  "keeps_comment i c D s (put_document k x s)" "keeps_comment i c D s (s\<lparr>ct_proposals := ps\<rparr>)"
  "keeps_comment i c D s (s\<lparr>ct_bounties := ps\<rparr>)" "keeps_comment i c D s (s\<lparr>ct_events := es\<rparr>)"
  "keeps_comment i c D s (s\<lparr>ct_reports := rs\<rparr>)"
  by (simp_all add: keeps_comment_def has_comment_def ids_ok_def put_comment_def put_document_def)

text \<open>A comment that is found has the id it was looked for.\<close>

lemma find_by_id:
  "triple (has_comment i c D) (access (op_get (\<lambda>s. ct_comments s n)))
     (\<lambda>found t. has_comment i c D t \<and> (\<forall>x. found = Some x \<longrightarrow> co_id x = n \<and> (n = i \<longrightarrow> x = c))) (has_comment i c D)"
  by (rule triple_access [where P = "has_comment i c D"], rule tripleI)
    (auto simp: run_op has_comment_def ids_ok_def tick_def)

lemma held_index: "held_comment.stays i c D (indexComment w k found)" "held_comment.stays i c D (updateCommentsCount x)"
  "held_comment.stays i c D (send_comment_event e)" "held_comment.stays i c D (dao_getCouncil d)"
proof -
  show "held_comment.stays i c D (indexComment w k found)"
    unfolding indexComment_def Let_def
    by (intro held_comment.stays_intros held_comment.stays_put held_comment.stays_items held_puts)
  show "held_comment.stays i c D (updateCommentsCount x)"
    unfolding updateCommentsCount_def
    by (intro held_comment.stays_intros held_comment.stays_put held_puts; simp split: context_type.split)
      (intro conjI impI held_comment.stays_intros held_comment.stays_put held_puts)
  show "held_comment.stays i c D (send_comment_event e)"
    unfolding send_comment_event_def by (intro held_comment.stays_intros held_comment.stays_put held_puts)
  show "held_comment.stays i c D (dao_getCouncil d)"
    unfolding dao_getCouncil_def by (intro held_comment.stays_intros)
qed

lemma counts_end: "(\<And>s. P s \<Longrightarrow> E (snd (m s))) \<Longrightarrow> triple P m (\<lambda>_. E) E"
  by (rule tripleI) (metis snd_conv)+

text \<open>
  Comment \<open>x\<close> is what a body makes of comment \<open>c\<close>: a comment of the account with the body's message and
  context, archived as the body says or else as before.
\<close>

definition replaced_by :: "string \<Rightarrow> comment_dto \<Rightarrow> comment_row \<Rightarrow> comment_row \<Rightarrow> bool" where
  "replaced_by a dto c x \<longleftrightarrow> co_accountId x = a \<and> co_message x = cd_message dto
     \<and> co_contextId x = Some (cd_contextId dto) \<and> co_contextType x = Some (cd_contextType dto)
     \<and> co_isArchived x = (case cd_isArchived dto of None \<Rightarrow> co_isArchived c | Some b \<Rightarrow> b)"

definition held_or_replaced :: "int \<Rightarrow> comment_row \<Rightarrow> (string \<Rightarrow> dao option) \<Rightarrow> string \<Rightarrow> comment_dto \<Rightarrow>
    'b comments_store_scheme \<Rightarrow> bool" where
  "held_or_replaced i c D a dto t \<longleftrightarrow> has_comment i c D t
     \<or> cd_id dto = Some i \<and> (\<exists>x. has_comment i x D t \<and> replaced_by a dto c x)"

lemma held_triple: "held_comment.stays i c D m \<Longrightarrow> triple (has_comment i c D) m (\<lambda>_. has_comment i c D) (has_comment i c D)"
  by (rule triple_stays [where R = "keeps_comment i c D"], erule (1) held_comment.staysD) (simp_all add: keeps_comment_def)

lemma replaced_triple:
  assumes "\<And>x. held_comment.stays i x D m"
  shows "triple (held_or_replaced i c D a dto) m (\<lambda>_. held_or_replaced i c D a dto) (held_or_replaced i c D a dto)"
  by (rule triple_stays [where R = "\<lambda>s t. \<forall>x. keeps_comment i x D s t"])
    (auto simp: keeps_comment_def held_or_replaced_def dest: held_comment.staysD [OF assms])

lemma held_save:
  "triple (has_comment i c D) (save_comment a d dto) (\<lambda>_. held_or_replaced i c D a dto) (held_or_replaced i c D a dto)"
proof -
  let ?P = "has_comment i c D" and ?E = "held_or_replaced i c D a dto"
  let ?x = "\<lambda>n b. \<lparr> co_id = n, co_daoId = d, co_contextId = Some (cd_contextId dto),
     co_contextType = Some (cd_contextType dto), co_accountId = a, co_message = cd_message dto, co_isArchived = b \<rparr>"
  have other: "?E ((put_comment n x (s\<lparr>ct_sequence := q\<rparr>))\<lparr>ct_reports := rs\<rparr>)" "?E ((put_comment n x s)\<lparr>ct_reports := rs\<rparr>)"
    if "?P s" "n \<noteq> i" "co_id x = n" for n x q rs and s :: "'b comments_store_scheme"
    using that by (auto simp: held_or_replaced_def has_comment_def ids_ok_def put_comment_def)
  have own: "?E ((put_comment i (?x i b) s)\<lparr>ct_reports := rs\<rparr>)"
    if "?P s" "cd_id dto = Some i" "b = (case cd_isArchived dto of None \<Rightarrow> co_isArchived c | Some b \<Rightarrow> b)"
    for b rs and s :: "'b comments_store_scheme"
    using that by (auto simp: held_or_replaced_def has_comment_def ids_ok_def put_comment_def replaced_by_def)
  have fail: "?E s" "?E (s\<lparr>ct_sequence := q\<rparr>)" if "?P s" for q and s :: "'b comments_store_scheme"
    using that by (simp_all add: held_or_replaced_def has_comment_def ids_ok_def)
  have tick: "?P (tick s)" if "?P s" for s :: "'b comments_store_scheme"
    using that by (simp add: has_comment_def ids_ok_def tick_def)
  have seq: "?P (s\<lparr>ct_sequence := q\<rparr>) = ?P s" for q and s :: "'b comments_store_scheme"
    by (simp add: has_comment_def ids_ok_def)
  have found: "ct_comments s i = Some c" if "?P s" for s :: "'b comments_store_scheme"
    using that by (simp add: has_comment_def)
  show ?thesis
    unfolding save_comment_def
  proof (rule triple_access [where P = ?P])
    show "triple ?P (\<lambda>s. let next = ct_sequence s + 1;
         n = (case cd_id dto of None \<Rightarrow> next | Some n \<Rightarrow> n);
         old = ct_comments s n;
         c = ?x n (cd_isArchived dto = Some True);
         row = (case old of None \<Rightarrow> c
                | Some d \<Rightarrow> if cd_isArchived dto = None then c\<lparr>co_isArchived := co_isArchived d\<rparr> else c);
         t = (if cd_id dto = None then s\<lparr>ct_sequence := next\<rparr> else s);
         u = put_comment n row t
     in if cd_id dto = None \<and> old \<noteq> None then (Inl (Rejection ''duplicate key''), t)
        else if list_ex (\<lambda>r. ct_comments u (rp_commentId r) = None) (cd_reports dto)
        then (Inl (Rejection ''foreign key''), t)
        else (Inr (c, old = None \<or> cd_isArchived dto \<noteq> None),
              u\<lparr>ct_reports := foldr (put_keyed rp_id) (cd_reports dto) (ct_reports u)\<rparr>)) (\<lambda>_. ?E) ?E"
      (is "triple _ ?m _ _")
    proof (rule counts_end)
      fix s :: "'b comments_store_scheme" assume P: "?P s"
      show "?E (snd (?m s))"
      proof (cases "(case cd_id dto of None \<Rightarrow> ct_sequence s + 1 | Some n \<Rightarrow> n) = i")
        case True
        then show ?thesis
          using P found [OF P] by (cases "cd_id dto") (auto simp: Let_def fail seq intro!: own split: option.splits)
      next
        case False
        then show ?thesis
          using P by (cases "cd_id dto") (auto simp: Let_def fail seq intro!: other split: option.splits)
      qed
    qed
  qed (auto simp: tick fail)
qed

lemma held_create:
  "triple (has_comment i c D) (createDaoComment a d dto) (\<lambda>_. held_or_replaced i c D a dto) (held_or_replaced i c D a dto)"
  "triple (has_comment i c D) (apiComment_create a dto) (\<lambda>_. held_or_replaced i c D a dto) (held_or_replaced i c D a dto)"
proof -
  show create: "triple (has_comment i c D) (createDaoComment a d dto) (\<lambda>_. held_or_replaced i c D a dto)
     (held_or_replaced i c D a dto)" for d
    unfolding createDaoComment_def case_prod_unfold
    by (rule triple_bind [OF held_save replaced_triple]) (intro held_comment.stays_intros held_index)
  have get: "held_comment.stays i c D (access (op_get g))" for g
    by (intro held_comment.stays_intros)
  have read: "triple (has_comment i c D) (access (op_get g)) (\<lambda>_. has_comment i c D) (held_or_replaced i c D a dto)" for g
    by (rule triple_weaken [OF held_triple [OF get]]) (simp_all add: held_or_replaced_def)
  have fail: "triple (has_comment i c D) (op_fail e) Q (held_or_replaced i c D a dto)" for e Q
    by (rule triple_fail) (simp add: held_or_replaced_def)
  show "triple (has_comment i c D) (apiComment_create a dto) (\<lambda>_. held_or_replaced i c D a dto)
     (held_or_replaced i c D a dto)"
    unfolding apiComment_create_def case_prod_unfold
    by (auto split: context_type.split option.split intro!: triple_bind [OF read] fail create)
qed

lemma held_delete: "co_id x \<noteq> i \<Longrightarrow> held_comment.stays i c D (apiComment_delete x)"
  unfolding apiComment_delete_def Let_def
  by (intro held_comment.stays_intros held_comment.stays_put held_index held_puts) simp_all

lemma held_deleteById:
  assumes "n \<noteq> i"
  shows "triple (has_comment i c D) (deleteById n) (\<lambda>_. has_comment i c D) (has_comment i c D)"
  unfolding deleteById_def
proof (rule triple_bind [OF find_by_id])
  fix found
  show "triple (\<lambda>t. has_comment i c D t \<and> (\<forall>x. found = Some x \<longrightarrow> co_id x = n \<and> (n = i \<longrightarrow> x = c)))
     (case found of None \<Rightarrow> op_fail (comment_not_found (int_str n)) | Some x \<Rightarrow> apiComment_delete x)
     (\<lambda>_. has_comment i c D) (has_comment i c D)"
  proof (cases found)
    case (Some x)
    show ?thesis
    proof (cases "co_id x = n")
      case True
      then have "co_id x \<noteq> i" using assms by simp
      then show ?thesis
        unfolding Some option.case by (rule triple_weaken [OF held_triple [OF held_delete]]) auto
    qed (simp add: Some triple_def)
  qed (auto intro: triple_fail)
qed

text \<open>The third report.\<close>

definition three_reports :: "int \<Rightarrow> 'b comments_store_scheme \<Rightarrow> bool" where
  "three_reports i s \<longleftrightarrow> length (filter (\<lambda>r. rp_commentId r = i) (ct_reports s)) = COMMENT_DELETE_VOTES_REQUIRED"

interpretation rep: comments_frame "\<lambda>s t. three_reports i s \<longrightarrow> three_reports i t" for i
  by unfold_locales (auto simp: three_reports_def tick_def put_comment_def put_document_def)

lemma held_report:
  "triple (has_comment i c D) (report_create a n x)
     (\<lambda>_ t. has_comment i c D t \<or> (n = i \<and> three_reports i t)) (\<lambda>t. has_comment i c D t \<or> (n = i \<and> three_reports i t))"
  (is "triple ?P _ (\<lambda>_. ?E) ?E")
proof -
  let ?Q = "\<lambda>rs t. ?P t \<and> (n = i \<and> length rs = COMMENT_DELETE_VOTES_REQUIRED \<longrightarrow> three_reports i t)"
  have save: "held_comment.stays i c D (save_report r)" for r
    unfolding save_report_def
    by (intro held_comment.stays_access) (simp add: held_comment.stays_def held_comment.R_refl held_puts)
  have read: "triple ?P (access (op_get (\<lambda>s. filter (\<lambda>r. rp_commentId r = n) (ct_reports s)))) ?Q ?P"
    by (rule triple_access [where P = ?P], rule tripleI)
      (auto simp: run_op has_comment_def three_reports_def tick_def ids_ok_def)
  have three: "triple (three_reports i) (deleteById n) (\<lambda>_. three_reports i) (three_reports i)"
    by (rule triple_stays [where R = "\<lambda>s t. three_reports i s \<longrightarrow> three_reports i t"],
        erule rep.staysD [OF rep.comments(2)]) auto
  have last: "triple (?Q rs)
     (if length rs = COMMENT_DELETE_VOTES_REQUIRED then op_bind (deleteById n) (\<lambda>_. op_ret r) else op_ret r)
     (\<lambda>_. ?E) ?E" for rs r
  proof (cases "length rs = COMMENT_DELETE_VOTES_REQUIRED")
    case len: True
    have "triple (?Q rs) (deleteById n) (\<lambda>_. ?E) ?E"
    proof (cases "n = i")
      case True
      show ?thesis by (rule triple_weaken [OF three]) (use len True in auto)
    next
      case False
      then show ?thesis by (auto intro: triple_weaken [OF held_deleteById])
    qed
    then have "triple (?Q rs) (op_bind (deleteById n) (\<lambda>_. op_ret r)) (\<lambda>_. ?E) ?E"
      by (rule triple_bind) (rule triple_ret)
    then show ?thesis using len by simp
  qed (auto intro: triple_ret)
  show ?thesis
    unfolding report_create_def Let_def
    by (rule triple_then [OF triple_weaken [OF held_triple [OF save]]],
        simp, assumption, simp, rule triple_bind [OF triple_weaken [OF read] last]) simp_all
qed


text \<open>The author and the council of the DAO.\<close>

definition may_archive :: "(string \<Rightarrow> dao option) \<Rightarrow> comment_row \<Rightarrow> string \<Rightarrow> bool" where
  "may_archive D c a \<longleftrightarrow> a = co_accountId c \<or> a \<in> set (council_accounts D (co_daoId c))"

lemma held_refused:
  assumes "\<not> (js_Number (JStr k) = JNum i \<and> may_archive D c a)"
  shows "triple (has_comment i c D) (deleteAsOwner k a)
     (\<lambda>_ t. has_comment i c D t \<and> js_Number (JStr k) \<noteq> JNum i) (has_comment i c D)" (is "triple ?P _ ?R _")
proof (cases "\<exists>n. js_Number (JStr k) = JNum n")
  case True
  then obtain n where JNum: "js_Number (JStr k) = JNum n" by blast
  have council: "triple ?P (dao_getCouncil d) (\<lambda>council t. ?P t \<and> council = council_accounts D d) ?P" for d
  proof (rule tripleI)
    fix s e t assume "?P s" "dao_getCouncil d s = (Inl e, t)"
    then show "?P t" using triple_Inl [OF held_triple [OF held_index(4)]] by blast
  next
    fix s council t assume P: "?P s" and run: "dao_getCouncil d s = (Inr council, t)"
    then have "?P t" using triple_Inr [OF held_triple [OF held_index(4)]] by blast
    then show "?P t \<and> council = council_accounts D d"
      using getCouncil_Inr [OF run] P by (simp add: has_comment_def)
  qed
  have refused: "triple (\<lambda>t. ?P t \<and> council = council_accounts D (co_daoId x))
     (if co_accountId x \<noteq> a \<and> a \<notin> set council then op_fail e else apiComment_delete x) ?R ?P"
    if x: "co_id x = n" "n = i \<longrightarrow> x = c" for x council e
  proof (cases "n = i")
    case True
    then have "\<not> may_archive D x a" using assms JNum x(2) by simp
    then show ?thesis by (auto simp: may_archive_def triple_def run_op)
  next
    case False
    then have "triple ?P (apiComment_delete x) (\<lambda>_. ?P) ?P" using x(1) by (intro held_triple held_delete) simp
    then show ?thesis
      using False JNum by (auto intro: triple_fail triple_weaken)
  qed
  show ?thesis
    unfolding deleteAsOwner_def find_by_comment_id_def JNum jsval.case
  proof (rule triple_bind [OF find_by_id])
    fix found
    let ?F = "\<lambda>x. co_id x = n \<and> (n = i \<longrightarrow> x = c)"
    show "triple (\<lambda>t. ?P t \<and> (\<forall>x. found = Some x \<longrightarrow> ?F x))
       (case found of None \<Rightarrow> op_fail (comment_not_found k) | Some x \<Rightarrow>
          op_bind (dao_getCouncil (co_daoId x)) (\<lambda>council.
          if co_accountId x \<noteq> a \<and> a \<notin> set council
          then op_fail (HttpError 403 (''Account '' @ a @ '' is not a comment creator not and not a part of council''))
          else apiComment_delete x)) (\<lambda>_ t. ?P t \<and> JNum n \<noteq> JNum i) ?P"
    proof (cases found)
      case (Some x)
      show ?thesis
      proof (cases "?F x")
        case True
        then show ?thesis
          unfolding Some option.case
          by (intro triple_weaken [OF triple_bind [OF council refused]]) (use JNum in auto)
      qed (auto simp: Some triple_def)
    qed (auto intro: triple_fail)
  qed
next
  case False
  then have find: "find_by_comment_id k = access (op_fail (Rejection ''NaN''))"
    unfolding find_by_comment_id_def by (cases "js_Number (JStr k)") (simp_all del: js_Number.simps)
  have "triple ?P (access (op_fail e)) (\<lambda>_ _. False) ?P" for e
    by (rule triple_access [where P = ?P]) (auto intro: triple_fail simp: has_comment_def ids_ok_def tick_def)
  then show ?thesis
    unfolding deleteAsOwner_def find by (rule triple_bind) (simp add: triple_def)
qed

interpretation held_c: access_frame "keeps_comment i c D" for i c D ..

text \<open>What account \<open>a\<close> may do to comment \<open>i\<close> with a request after which the state is \<open>t\<close>.\<close>

definition comment_reason :: "(string \<Rightarrow> dao option) \<Rightarrow> int \<Rightarrow> comment_row \<Rightarrow> api_request \<Rightarrow> string \<Rightarrow> 'b comments_store_scheme \<Rightarrow> bool" where
  "comment_reason D i c r a t \<longleftrightarrow>
     (\<exists>key x. r = Api_DeleteComment key x \<and> js_Number (JStr key) = JNum i \<and> may_archive D c a)
   \<or> (\<exists>x. r = Api_Report i x \<and> three_reports i t)
   \<or> (\<exists>dto x. r = Api_Comment dto \<and> cd_id dto = Some i \<and> ct_comments t i = Some x \<and> replaced_by a dto c x)"

lemma handler_reasons:
  assumes has: "has_comment i c D u"
  shows "\<not> has_comment i c D (snd (apiComment_create a dto u)) \<Longrightarrow>
      comment_reason D i c (Api_Comment dto) a (snd (apiComment_create a dto u))"
    and "\<not> has_comment i c D (snd (report_create a n x u)) \<Longrightarrow>
      comment_reason D i c (Api_Report n x) a (snd (report_create a n x u))"
    and "\<not> has_comment i c D (snd (op_bind (deleteAsOwner k a) (\<lambda>d.
        op_bind (case js_Number (JStr k) of JNum n \<Rightarrow> report_create a n y | _ \<Rightarrow> op_fail (Rejection ''NaN'')) (\<lambda>_. op_ret d)) u)) \<Longrightarrow>
      comment_reason D i c (Api_DeleteComment k y) a t"
proof -
  show "comment_reason D i c (Api_Comment dto) a (snd (apiComment_create a dto u))"
    if "\<not> has_comment i c D (snd (apiComment_create a dto u))"
    using triple_end [OF held_create(2) [where a = a and dto = dto] has] that
    by (auto simp: comment_reason_def held_or_replaced_def has_comment_def)
  show "comment_reason D i c (Api_Report n x) a (snd (report_create a n x u))"
    if "\<not> has_comment i c D (snd (report_create a n x u))"
    using triple_end [OF held_report has] that by (auto simp: comment_reason_def)
  show "comment_reason D i c (Api_DeleteComment k y) a t"
    if "\<not> has_comment i c D (snd (op_bind (deleteAsOwner k a) (\<lambda>d.
        op_bind (case js_Number (JStr k) of JNum n \<Rightarrow> report_create a n y | _ \<Rightarrow> op_fail (Rejection ''NaN'')) (\<lambda>_. op_ret d)) u))"
  proof (rule ccontr)
    let ?P = "has_comment i c D"
    assume "\<not> comment_reason D i c (Api_DeleteComment k y) a t"
    then have "\<not> (js_Number (JStr k) = JNum i \<and> may_archive D c a)" by (auto simp: comment_reason_def)
    note refused = held_refused [OF this]
    have report: "triple (\<lambda>t. ?P t \<and> js_Number (JStr k) \<noteq> JNum i)
       (case js_Number (JStr k) of JNum n \<Rightarrow> report_create a n y | _ \<Rightarrow> op_fail (Rejection ''NaN'')) (\<lambda>_. ?P) ?P"
    proof (cases "js_Number (JStr k) = JNum i")
      case False
      have "triple ?P (case v of JNum n \<Rightarrow> report_create a n y | _ \<Rightarrow> op_fail (Rejection ''NaN'')) (\<lambda>_. ?P) ?P"
        if "v \<noteq> JNum i" for v
        using that by (cases v) (auto intro: triple_fail triple_weaken [OF held_report])
      from this [OF False] show ?thesis by (rule triple_weaken) auto
    qed (simp add: triple_def)
    have "triple ?P (op_bind (deleteAsOwner k a) (\<lambda>d.
        op_bind (case js_Number (JStr k) of JNum n \<Rightarrow> report_create a n y | _ \<Rightarrow> op_fail (Rejection ''NaN'')) (\<lambda>_. op_ret d)))
      (\<lambda>_. ?P) ?P"
      by (rule triple_bind [OF refused], rule triple_bind [OF report], rule triple_ret)
    from triple_end [OF this has] that show False by contradiction
  qed
qed

lemma comment_guarded:
  fixes s :: "'b comments_store_scheme"
  assumes has: "has_comment i c D s" and change: "\<not> has_comment i c D (snd (op_bind (accountAccess h) f s))"
    and "\<And>a u. has_comment i c D u \<Longrightarrow> \<not> has_comment i c D (snd (f a u)) \<Longrightarrow> Q a (snd (f a u))"
  shows "\<exists>a k g ks. read_token h = Inr (a, k, g) \<and> gd_keys s (Suc (st_tick s)) a = Inr ks \<and> k \<in> set ks
     \<and> gd_verify s k g = Inr True \<and> Q a (snd (op_bind (accountAccess h) f s))"
proof (cases "accountAccess h s")
  case (Pair r u)
  have u: "has_comment i c D u"
    using held_comment.staysD [OF held_c.access_of Pair] has by (simp add: keeps_comment_def)
  show ?thesis
  proof (cases r)
    case (Inl e)
    then show ?thesis using change Pair u by (simp add: run_op)
  next
    case (Inr a)
    then have "snd (op_bind (accountAccess h) f s) = snd (f a u)" using Pair by (simp add: run_op)
    then show ?thesis
      using accountAccess_Inr [of h s a u] Pair Inr change assms(3) [OF u, of a] by auto
  qed
qed

text \<open>
  C13. A request changes a comment only with a valid token and only in three ways: its author or an account
  of the council's role of its DAO deletes it; a report is its third one; or the body of a new comment has
  its id, and then, whoever sends it, the comment is theirs, with the body's message and context.
\<close>

theorem comment_archived_by:
  assumes "ids_ok s" "ct_comments s i = Some c"
    and "ct_comments (snd (serve_api h r s)) i \<noteq> Some c"
  shows "\<exists>a k g ks. read_token h = Inr (a, k, g) \<and> gd_keys s (Suc (st_tick s)) a = Inr ks \<and> k \<in> set ks
     \<and> gd_verify s k g = Inr True \<and> comment_reason (nt_daos s) i c r a (snd (serve_api h r s))"
proof -
  have has: "has_comment i c (nt_daos s) s" using assms by (simp add: has_comment_def)
  have change: "\<not> has_comment i c (nt_daos s) (snd (serve_api h r s))"
    using assms(3) by (simp add: has_comment_def)
  have "ct_comments (snd (serve_api h r s)) = ct_comments s" if "\<not> comment_request r"
    by (rule com_serve [OF that, unfolded com_t.stays_def same_comments_def, rule_format, THEN conjunct1])
  then have "comment_request r" using assms(2,3) by metis
  note guarded = comment_guarded [OF has, where Q = "comment_reason (nt_daos s) i c r"]
  show ?thesis
  proof (cases r)
    case (Api_Comment dto)
    have served: "snd (serve_api h r s) = snd (op_bind (accountAccess h) (\<lambda>a. apiComment_create a dto) s)"
      by (simp add: Api_Comment snd_void api_createComment_def)
    show ?thesis
      unfolding served by (rule guarded [OF change [unfolded served]], unfold Api_Comment, erule (1) handler_reasons(1))
  next
    case (Api_Report n x)
    have served: "snd (serve_api h r s) = snd (op_bind (accountAccess h) (\<lambda>a. report_create a n x) s)"
      by (simp add: Api_Report snd_void api_createCommentReport_def)
    show ?thesis
      unfolding served by (rule guarded [OF change [unfolded served]], unfold Api_Report, erule (1) handler_reasons(2))
  next
    case (Api_DeleteComment k x)
    have served: "snd (serve_api h r s) = snd (op_bind (accountAccess h) (\<lambda>a. op_bind (deleteAsOwner k a) (\<lambda>d.
        op_bind (case js_Number (JStr k) of JNum n \<Rightarrow> report_create a n x | _ \<Rightarrow> op_fail (Rejection ''NaN''))
          (\<lambda>_. op_ret d))) s)"
      by (simp add: Api_DeleteComment snd_void api_deleteComment_def)
    show ?thesis
      unfolding served by (rule guarded [OF change [unfolded served]], unfold Api_DeleteComment, erule (1) handler_reasons(3))
  qed (use \<open>comment_request r\<close> in simp_all)
qed


section \<open>The counters\<close>

definition in_context :: "context_type \<Rightarrow> string \<Rightarrow> comment_row \<Rightarrow> bool" where
  "in_context ty k c \<longleftrightarrow> co_contextType c = Some ty \<and> co_contextId c = Some k"

text \<open>The comments on a proposal or bounty that are not archived.\<close>

definition context_count :: "'b comments_store_scheme \<Rightarrow> context_type \<Rightarrow> string \<Rightarrow> int" where
  "context_count s ty k = int (card {i. \<exists>c. ct_comments s i = Some c \<and> in_context ty k c \<and> \<not> co_isArchived c})"

fun stored_count :: "'b comments_store_scheme \<Rightarrow> context_type \<Rightarrow> string \<Rightarrow> int option" where
  "stored_count s CC_Proposal k = map_option snd (ct_proposals s k)"
| "stored_count s CC_BountyContext k = map_option snd (ct_bounties s k)"

definition right_count :: "'b comments_store_scheme \<Rightarrow> context_type \<Rightarrow> string \<Rightarrow> bool" where
  "right_count s ty k \<longleftrightarrow> (\<forall>n. stored_count s ty k = Some n \<longrightarrow> n = context_count s ty k)"

text \<open>The ids are those of the rows, each once.\<close>

definition ids_given :: "'b comments_store_scheme \<Rightarrow> bool" where
  "ids_given s \<longleftrightarrow> ids_ok s \<and> distinct (ct_ids s) \<and> (\<forall>i. ct_comments s i \<noteq> None \<longleftrightarrow> i \<in> set (ct_ids s))"

lemma ids_givenD: "ids_given s \<Longrightarrow> ct_comments s i = Some c \<Longrightarrow> co_id c = i"
  unfolding ids_given_def ids_ok_def by blast

definition counts_right :: "'b comments_store_scheme \<Rightarrow> bool" where
  "counts_right s \<longleftrightarrow> ids_given s \<and> (\<forall>ty k. right_count s ty k)"

text \<open>The counters are right, but in the contexts \<open>Q\<close> they may be one too high.\<close>

definition count_fits :: "(context_type \<Rightarrow> string \<Rightarrow> bool) \<Rightarrow> 'b comments_store_scheme \<Rightarrow> context_type \<Rightarrow> string \<Rightarrow> bool" where
  "count_fits Q s ty k \<longleftrightarrow> (\<forall>n. stored_count s ty k = Some n \<longrightarrow>
     n = context_count s ty k \<or> Q ty k \<and> n = context_count s ty k + 1)"

definition counts_fit :: "(context_type \<Rightarrow> string \<Rightarrow> bool) \<Rightarrow> 'b comments_store_scheme \<Rightarrow> bool" where
  "counts_fit Q s \<longleftrightarrow> ids_given s \<and> (\<forall>ty k. count_fits Q s ty k)"

lemma counts_right_fit:
  "(\<forall>ty k. \<not> Q ty k) \<Longrightarrow> counts_fit Q s \<Longrightarrow> counts_right s" "counts_right s \<Longrightarrow> counts_fit Q s"
  by (auto simp: counts_right_def counts_fit_def right_count_def count_fits_def)

text \<open>Not counting the context of \<open>c\<close>.\<close>

definition counts_but :: "(context_type \<Rightarrow> string \<Rightarrow> bool) \<Rightarrow> comment_row \<Rightarrow> 'b comments_store_scheme \<Rightarrow> bool" where
  "counts_but Q c s \<longleftrightarrow> ids_given s \<and> (\<forall>ty k. \<not> in_context ty k c \<longrightarrow> count_fits Q s ty k)"

definition same_counts :: "'b comments_store_scheme \<Rightarrow> 'b comments_store_scheme \<Rightarrow> bool" where
  "same_counts s t \<longleftrightarrow> same_comments s t \<and> st_faults t = st_faults s"

interpretation counts: access_frame same_counts
  by unfold_locales (auto simp: same_counts_def same_comments_def tick_def)

lemma same_counts_keep:
  assumes "same_comments s t"
  shows "counts_right t = counts_right s" "counts_fit Q t = counts_fit Q s" "counts_but Q c t = counts_but Q c s"
proof -
  have stored: "stored_count t ty k = stored_count s ty k" for ty k
    using assms by (cases ty) (simp_all add: same_comments_def)
  show "counts_right t = counts_right s" "counts_fit Q t = counts_fit Q s" "counts_but Q c t = counts_but Q c s"
    using assms
    by (simp_all add: counts_right_def counts_fit_def counts_but_def right_count_def count_fits_def ids_given_def
        ids_ok_def same_comments_def context_count_def stored)
qed

text \<open>The query counts the comments of the context.\<close>

lemma comments_count_card:
  assumes "ids_given s" and "in_context ty k c"
  shows "comments_count s c = context_count s ty k"
proof -
  let ?p = "\<lambda>i. case ct_comments s i of None \<Rightarrow> False | Some d \<Rightarrow> counted_with c d"
  have "{i. \<exists>d. ct_comments s i = Some d \<and> in_context ty k d \<and> \<not> co_isArchived d} = set (filter ?p (ct_ids s))"
    using assms by (force simp: ids_given_def in_context_def counted_with_def split: option.splits)
  moreover have "distinct (filter ?p (ct_ids s))" using assms(1) by (simp add: ids_given_def)
  ultimately show ?thesis
    by (simp add: comments_count_def context_count_def distinct_card del: set_filter)
qed

lemma put_given: "ids_given s \<Longrightarrow> co_id x = i \<Longrightarrow> ids_given (put_comment i x s)"
  by (auto simp: ids_given_def ids_ok_def put_comment_def)

lemma card_without: "finite A \<Longrightarrow> card A = card (A - {i}) + (if i \<in> A then 1 else 0)"
  using card_Suc_Diff1 [of A i] by (cases "i \<in> A") auto

text \<open>A row that is put takes its old version out of the context of that version.\<close>

lemma put_counts:
  assumes right: "counts_right s" and x: "co_id x = i" "\<And>ty k. in_context ty k x = in_context ty k c"
    and old: "\<And>d ty k. ct_comments s i = Some d \<Longrightarrow> in_context ty k d \<Longrightarrow> \<not> co_isArchived d \<Longrightarrow>
      in_context ty k c \<or> Q ty k"
  shows "counts_but Q c (put_comment i x s)" (is "counts_but Q c ?t")
proof -
  have given: "ids_given s" using right by (simp add: counts_right_def)
  have "count_fits Q ?t ty k" if ctx: "\<not> in_context ty k c" for ty k
  proof -
    define A where "A = {j. \<exists>d. ct_comments s j = Some d \<and> in_context ty k d \<and> \<not> co_isArchived d}"
    have stored: "stored_count ?t ty k = stored_count s ty k" by (cases ty) (simp_all add: put_comment_def)
    have "{j. \<exists>d. ct_comments ?t j = Some d \<and> in_context ty k d \<and> \<not> co_isArchived d} = A - {i}"
      using ctx x(2) by (auto simp: put_comment_def A_def)
    then have now: "context_count ?t ty k = int (card (A - {i}))" by (simp add: context_count_def)
    have "A \<subseteq> set (ct_ids s)" using given by (auto simp: ids_given_def A_def)
    then have "finite A" by (rule finite_subset) simp
    from card_without [OF this, of i]
    have count: "context_count s ty k = context_count ?t ty k + (if i \<in> A then 1 else 0)"
      unfolding now by (simp add: context_count_def A_def [symmetric])
    have "Q ty k" if "i \<in> A" using that old ctx by (auto simp: A_def)
    moreover have "n = context_count s ty k" if "stored_count s ty k = Some n" for n
      using right that by (simp add: counts_right_def right_count_def)
    ultimately show ?thesis
      using count stored by (cases "i \<in> A") (auto simp: count_fits_def)
  qed
  then show ?thesis using put_given [OF given x(1)] by (simp add: counts_but_def)
qed

text \<open>Counting again after a change of the context.\<close>

lemma recounted:
  assumes "calm s" and but: "counts_but Q c s"
  shows "\<exists>t. updateCommentsCount c s = (Inr (), t) \<and> counts_fit Q t \<and> calm t"
proof (cases "\<exists>ty k. in_context ty k c")
  case False
  then have right: "counts_fit Q s" using but by (simp add: counts_but_def counts_fit_def)
  have "co_contextType c = None \<or> co_contextId c = None"
    using False by (auto simp: in_context_def)
  then have "\<exists>t. updateCommentsCount c s = (Inr (), t) \<and> same_comments s t \<and> calm t"
    using assms(1)
    by (cases "co_contextType c")
      (simp_all add: updateCommentsCount_def run_op run_access set_count_def same_comments_def tick_def calm_def
        split: context_type.split)
  then show ?thesis using right same_counts_keep by blast
next
  case True
  then obtain ty k where c: "co_contextType c = Some ty" "co_contextId c = Some k" by (auto simp: in_context_def)
  then have ctx: "in_context ty k c" by (simp add: in_context_def)
  let ?n = "context_count s ty k"
  let ?t = "case ty of CC_Proposal \<Rightarrow> (tick (tick s))\<lparr>ct_proposals := set_count ?n (Some k) (ct_proposals s)\<rparr>
    | CC_BountyContext \<Rightarrow> (tick (tick s))\<lparr>ct_bounties := set_count ?n (Some k) (ct_bounties s)\<rparr>"
  have given: "ids_given s" using but by (simp add: counts_but_def)
  have "comments_count (tick s) c = ?n"
    using comments_count_card [OF given ctx] by (simp add: comments_count_def tick_def)
  then have "updateCommentsCount c s = (Inr (), ?t)"
    using assms(1)
    by (simp add: updateCommentsCount_def run_op run_access c split: context_type.split) (simp add: tick_def)
  moreover have "counts_fit Q ?t"
  proof -
    have same: "ct_comments ?t = ct_comments s" "ct_ids ?t = ct_ids s"
      by (simp_all add: tick_def split: context_type.split)
    have "count_fits Q ?t ty' k'" for ty' k'
    proof (cases "in_context ty' k' c")
      case True
      then have "ty' = ty" "k' = k" using c by (simp_all add: in_context_def)
      then show ?thesis
        by (cases ty) (auto simp: count_fits_def context_count_def set_count_def tick_def split: option.splits)
    next
      case False
      then have "stored_count ?t ty' k' = stored_count s ty' k'"
        using c by (cases ty; cases ty') (auto simp: in_context_def set_count_def tick_def)
      then show ?thesis
        using but False same by (simp add: counts_but_def count_fits_def context_count_def)
    qed
    moreover have "ids_given ?t" using given same by (simp add: ids_given_def ids_ok_def)
    ultimately show ?thesis by (simp add: counts_fit_def)
  qed
  moreover have "calm ?t" using assms(1) by (simp add: calm_def tick_def split: context_type.split)
  ultimately show ?thesis by blast
qed


definition counts_ok :: "'b comments_store_scheme \<Rightarrow> bool" where
  "counts_ok s \<longleftrightarrow> calm s \<and> counts_right s"

definition fits_ok :: "(context_type \<Rightarrow> string \<Rightarrow> bool) \<Rightarrow> 'b comments_store_scheme \<Rightarrow> bool" where
  "fits_ok Q s \<longleftrightarrow> calm s \<and> counts_fit Q s"

lemma same_counts_ok: "same_counts s t \<Longrightarrow> counts_ok t = counts_ok s" "same_counts s t \<Longrightarrow> fits_ok Q t = fits_ok Q s"
  by (auto simp: same_counts_def counts_ok_def fits_ok_def same_counts_keep calm_def)

lemma ok_fits: "counts_ok s \<Longrightarrow> fits_ok Q s" "fits_ok (\<lambda>_ _. False) s \<Longrightarrow> counts_ok s"
  by (auto simp: counts_ok_def fits_ok_def intro: counts_right_fit)

lemma calm_steps:
  assumes "calm s"
  shows "\<exists>t. indexComment w i found s = (Inr (), t) \<and> same_counts s t"
    "\<exists>t. send_comment_event e s = (Inr (), t) \<and> same_counts s t"
  using assms
  by (auto simp: indexComment_def send_comment_event_def calm_getItem run_op run_access same_counts_def
      same_comments_def tick_def put_document_def calm_def Let_def split: option.split)

text \<open>A comment is put, indexed, counted and announced.\<close>

lemma counted_steps:
  assumes "calm s" "counts_but Q c s"
  shows "fits_ok Q (snd (op_then (indexComment w i found) (op_then (updateCommentsCount c)
     (op_then (send_comment_event e) (op_ret x))) s))"
proof -
  obtain t1 where t1: "indexComment w i found s = (Inr (), t1)" "same_counts s t1"
    using calm_steps(1) [OF assms(1)] by blast
  then have "calm t1" "counts_but Q c t1"
    using assms same_counts_keep(3) [of s t1 Q c] by (simp_all add: same_counts_def calm_def)
  then obtain t2 where t2: "updateCommentsCount c t1 = (Inr (), t2)" "fits_ok Q t2"
    using recounted unfolding fits_ok_def by blast
  then obtain t3 where t3: "send_comment_event e t2 = (Inr (), t3)" "same_counts t2 t3"
    using calm_steps(2) unfolding fits_ok_def by blast
  have "fits_ok Q t3" using t2(2) same_counts_ok(2) [OF t3(2)] by simp
  then show ?thesis using t1 t2 t3 by (simp add: op_then_def run_op)
qed

text \<open>The contexts of a comment that a body takes away: it has the id of the comment and another context.\<close>

definition context_left :: "(int \<Rightarrow> comment_row option) \<Rightarrow> comment_dto \<Rightarrow> context_type \<Rightarrow> string \<Rightarrow> bool" where
  "context_left rows dto ty k \<longleftrightarrow> (\<exists>i c. cd_id dto = Some i \<and> rows i = Some c \<and> in_context ty k c
     \<and> \<not> co_isArchived c \<and> \<not> (ty = cd_contextType dto \<and> k = cd_contextId dto))"

lemma saved_counts:
  fixes s :: "'b comments_store_scheme"
  assumes ok: "counts_ok s" and run: "save_comment a d dto s = (r, u)"
  shows "case r of Inl e \<Rightarrow> counts_ok u | Inr (c, w) \<Rightarrow> calm u \<and> counts_but (context_left (ct_comments s) dto) c u"
proof -
  let ?Q = "context_left (ct_comments s) dto"
  let ?i = "case cd_id dto of None \<Rightarrow> ct_sequence s + 1 | Some n \<Rightarrow> n"
  let ?x = "\<lambda>b. \<lparr> co_id = ?i, co_daoId = d, co_contextId = Some (cd_contextId dto),
     co_contextType = Some (cd_contextType dto), co_accountId = a, co_message = cd_message dto, co_isArchived = b \<rparr>"
  have calm: "calm s" and right: "counts_right s" using ok by (simp_all add: counts_ok_def)
  have same: "same_comments s v \<Longrightarrow> st_faults v = st_faults s \<Longrightarrow> counts_ok v" for v
    using ok by (auto simp: counts_ok_def same_counts_keep calm_def)
  have failed: "counts_ok ((tick s)\<lparr>ct_sequence := q\<rparr>)" "counts_ok (tick s)" for q
    by (rule same; simp add: same_comments_def tick_def)+
  have saved: "calm u \<and> counts_but ?Q (?x e) u"
    if u: "same_comments (put_comment ?i (?x b) s) u" "st_faults u = st_faults s"
      and new: "cd_id dto = None \<Longrightarrow> ct_comments s ?i = None" for b e u
  proof -
    have "counts_but ?Q (?x e) (put_comment ?i (?x b) s)"
    proof (rule put_counts [OF right])
      fix c ty k
      assume c: "ct_comments s ?i = Some c" "in_context ty k c" "\<not> co_isArchived c"
      then obtain n where n: "cd_id dto = Some n" using new by (cases "cd_id dto") auto
      then have "ct_comments s n = Some c" using c(1) by simp
      then show "in_context ty k (?x e) \<or> ?Q ty k"
        using n c(2,3) unfolding context_left_def in_context_def by auto
    qed (simp_all add: in_context_def)
    then show ?thesis using u calm by (simp add: same_counts_keep calm_def)
  qed
  have ticked: "ct_comments (tick s) = ct_comments s" "ct_sequence (tick s) = ct_sequence s"
    "ct_ids (tick s) = ct_ids s" "ct_proposals (tick s) = ct_proposals s" "ct_bounties (tick s) = ct_bounties s"
    "st_faults (tick s) = st_faults s"
    by (simp_all add: tick_def)
  let ?put = "\<lambda>b t. (put_comment ?i (?x b) t)\<lparr>ct_reports := foldr (put_keyed rp_id) (cd_reports dto)
     (ct_reports (put_comment ?i (?x b) t))\<rparr>"
  have put: "calm (?put b v) \<and> counts_but ?Q (?x e) (?put b v)"
    if "cd_id dto = None \<Longrightarrow> ct_comments s ?i = None" "ct_comments v = ct_comments s" "ct_ids v = ct_ids s"
      "ct_proposals v = ct_proposals s" "ct_bounties v = ct_bounties s" "st_faults v = st_faults s"
    for b e and v :: "'b comments_store_scheme"
  proof (rule saved)
    show "same_comments (put_comment ?i (?x b) s) (?put b v)"
      using that(2-5) by (simp add: same_comments_def put_comment_def)
    show "st_faults (?put b v) = st_faults s" using that(6) by (simp add: put_comment_def)
  qed (rule that(1))
  show ?thesis
  proof (cases "cd_id dto")
    case None
    then show ?thesis
      using run calm
      by (cases "ct_comments s (ct_sequence s + 1)")
        (auto simp: save_comment_def run_access Let_def ticked failed split: if_splits
          intro!: put [simplified None option.case, THEN conjunct1] put [simplified None option.case, THEN conjunct2])
  next
    case (Some n)
    then show ?thesis
      using run calm
      by (cases "ct_comments s n"; cases "cd_isArchived dto")
        (auto simp: save_comment_def run_access Let_def ticked failed split: if_splits
          intro!: put [simplified Some option.case, THEN conjunct1] put [simplified Some option.case, THEN conjunct2])
  qed
qed

lemma counted_create:
  assumes "counts_ok s"
  shows "fits_ok (context_left (ct_comments s) dto) (snd (createDaoComment a d dto s))"
proof (cases "save_comment a d dto s")
  case (Pair r u)
  note saved = saved_counts [OF assms Pair]
  show ?thesis
  proof (cases r)
    case (Inl e)
    then show ?thesis using saved Pair by (simp add: createDaoComment_def run_op ok_fits)
  next
    case (Inr p)
    obtain c w where p: "p = (c, w)" by fastforce
    then have "calm u" "counts_but (context_left (ct_comments s) dto) c u" using saved Inr by simp_all
    note steps = counted_steps [OF this, of w "int_str (co_id c)" "Some c" "New_Comment c" c]
    have "createDaoComment a d dto s = op_then (indexComment w (int_str (co_id c)) (Some c))
       (op_then (updateCommentsCount c) (op_then (send_comment_event (New_Comment c)) (op_ret c))) u"
      unfolding createDaoComment_def op_bind_def Pair Inr p by simp
    with steps show ?thesis by simp
  qed
qed

lemma run_then_put: "calm s \<Longrightarrow> op_then (access (op_put f)) m s = m (f (tick s))"
  by (simp add: op_then_def run_op run_access)

lemma run_then_get: "calm s \<Longrightarrow> op_bind (access (op_get g)) m s = m (g (tick s)) (tick s)"
  by (simp add: run_op run_access)

lemma counted_delete:
  assumes "counts_ok s" and c: "ct_comments s (co_id c) = Some c"
  shows "counts_ok (snd (apiComment_delete c s))"
proof (cases "co_isArchived c")
  case False
  let ?d = "c\<lparr>co_isArchived := True\<rparr>"
  let ?t = "tick (put_comment (co_id c) ?d (tick s))"
  have calm: "calm ?t" using assms by (simp add: counts_ok_def calm_def put_comment_def tick_def)
  have tick: "counts_right (tick s)" "ct_comments (tick s) = ct_comments s"
    using assms same_counts_ok(1) [of s "tick s"] by (simp_all add: counts_ok_def counts.R_tick) (simp add: tick_def)
  then have "counts_but (\<lambda>_ _. False) ?d (put_comment (co_id c) ?d (tick s))"
    using c by (intro put_counts) (simp_all add: in_context_def)
  then have but: "counts_but (\<lambda>_ _. False) ?d ?t" by (simp only: same_counts_keep(3) [OF com_t.R_tick])
  have put: "calm (put_comment i x s) = calm s" for i x and s :: "'b comments_store_scheme"
    by (simp add: calm_def put_comment_def)
  from ok_fits(2) [OF counted_steps [OF calm but]] show ?thesis
    using assms False
    by (simp add: apiComment_delete_def run_then_put run_then_get counts_ok_def Let_def put)
qed (use assms in \<open>simp add: apiComment_delete_def run_op\<close>)


section \<open>Requests keep the counters\<close>

definition current :: "comment_row \<Rightarrow> 'b comments_store_scheme \<Rightarrow> bool" where
  "current c s \<longleftrightarrow> counts_ok s \<and> ct_comments s (co_id c) = Some c"

lemma counts_stay:
  assumes "counts.stays m"
  shows "triple counts_ok m (\<lambda>_. counts_ok) counts_ok" "triple (current c) m (\<lambda>_. current c) counts_ok"
  by (rule triple_stays [where R = same_counts], erule counts.staysD [OF assms], simp_all add: same_counts_ok(1))
    (rule triple_stays [where R = same_counts], erule counts.staysD [OF assms],
      auto simp: current_def same_counts_ok(1), simp add: same_counts_def same_comments_def)

lemma found_current:
  "triple counts_ok (access (op_get (\<lambda>s. ct_comments s n))) (\<lambda>found t. counts_ok t \<and> (\<forall>c. found = Some c \<longrightarrow> current c t)) counts_ok"
proof (rule tripleI)
  fix s e t
  assume "counts_ok s" "access (op_get (\<lambda>s. ct_comments s n)) s = (Inl e, t)"
  then show "counts_ok t" by (simp add: counts_ok_def run_access run_op)
next
  fix s found t
  assume ok: "counts_ok s" and run: "access (op_get (\<lambda>s. ct_comments s n)) s = (Inr found, t)"
  then have t: "t = tick s" "found = ct_comments t n"
    by (auto simp: counts_ok_def run_access run_op)
  then have ok': "counts_ok t" using ok by (simp add: same_counts_ok(1) [OF counts.R_tick])
  then have "ids_given t" by (simp add: counts_ok_def counts_right_def)
  then show "counts_ok t \<and> (\<forall>c. found = Some c \<longrightarrow> current c t)"
    using ok' t ids_givenD [of t n] by (auto simp: current_def)
qed

lemma counts_delete: "triple (current c) (apiComment_delete c) (\<lambda>_. counts_ok) counts_ok"
  by (rule counts_end) (simp add: current_def counted_delete)

lemma counts_deleteById: "triple counts_ok (deleteById n) (\<lambda>_. counts_ok) counts_ok"
  unfolding deleteById_def
proof (rule triple_bind [OF found_current])
  fix found
  show "triple (\<lambda>t. counts_ok t \<and> (\<forall>c. found = Some c \<longrightarrow> current c t))
     (case found of None \<Rightarrow> op_fail (comment_not_found (int_str n)) | Some c \<Rightarrow> apiComment_delete c)
     (\<lambda>_. counts_ok) counts_ok"
    by (cases found) (auto intro: triple_fail triple_weaken [OF counts_delete])
qed

lemma counts_reads: "counts.stays (dao_getCouncil d)" "counts.stays (save_report r)"
proof -
  show "counts.stays (dao_getCouncil d)" unfolding dao_getCouncil_def by (intro counts.stays_intros)
  show "counts.stays (save_report r)"
    unfolding save_report_def
    by (intro counts.stays_access) (simp add: counts.stays_def same_counts_def same_comments_def)
qed

lemma counts_deleteAsOwner: "triple counts_ok (deleteAsOwner k a) (\<lambda>_. counts_ok) counts_ok"
proof -
  have fail: "triple counts_ok (access (op_fail e)) Q counts_ok" for e Q
    by (rule tripleI) (auto simp: access_def run_op same_counts_ok(1) [OF counts.R_tick] split: option.splits fault.splits)
  have find: "triple counts_ok (find_by_comment_id k) (\<lambda>found t. counts_ok t \<and> (\<forall>c. found = Some c \<longrightarrow> current c t)) counts_ok"
    unfolding find_by_comment_id_def by (cases "js_Number (JStr k)") (simp_all only: jsval.case fail found_current)
  have owner: "triple (current c) (op_bind (dao_getCouncil d) (\<lambda>council. if p council then op_fail e
      else apiComment_delete c)) (\<lambda>_. counts_ok) counts_ok" for c d p e
    by (rule triple_bind [OF counts_stay(2) [OF counts_reads(1)]])
      (auto intro: triple_fail counts_delete simp: current_def)
  show ?thesis
    unfolding deleteAsOwner_def
  proof (rule triple_bind [OF find])
    fix found
    show "triple (\<lambda>t. counts_ok t \<and> (\<forall>c. found = Some c \<longrightarrow> current c t))
       (case found of None \<Rightarrow> op_fail (comment_not_found k) | Some c \<Rightarrow>
         op_bind (dao_getCouncil (co_daoId c)) (\<lambda>council. if co_accountId c \<noteq> a \<and> a \<notin> set council
           then op_fail (HttpError 403 (''Account '' @ a @ '' is not a comment creator not and not a part of council''))
           else apiComment_delete c)) (\<lambda>_. counts_ok) counts_ok"
      by (cases found) (auto intro: triple_fail triple_weaken [OF owner])
  qed
qed


text \<open>The rows are those before the request when the comment is saved.\<close>

definition rows_counted :: "(int \<Rightarrow> comment_row option) \<Rightarrow> 'b comments_store_scheme \<Rightarrow> bool" where
  "rows_counted rows s \<longleftrightarrow> counts_ok s \<and> ct_comments s = rows"

lemma rows_stay:
  assumes "counts.stays m"
  shows "triple (rows_counted rows) m (\<lambda>_. rows_counted rows) (fits_ok Q)"
  by (rule triple_stays [where R = same_counts], erule counts.staysD [OF assms])
    (auto simp: rows_counted_def same_counts_ok(1) ok_fits(1), simp add: same_counts_def same_comments_def)

lemma counts_create:
  "triple (rows_counted rows) (apiComment_create a dto) (\<lambda>_. fits_ok (context_left rows dto))
     (fits_ok (context_left rows dto))"
proof -
  let ?P = "rows_counted rows" and ?E = "fits_ok (context_left rows dto)"
  have create: "triple ?P (createDaoComment a d dto) (\<lambda>_. ?E) ?E" for d
    by (rule counts_end) (use counted_create in \<open>auto simp: rows_counted_def\<close>)
  have get: "counts.stays (access (op_get g))" for g
    by (intro counts.stays_intros)
  have fail: "triple ?P (op_fail e) Q ?E" for e Q
    by (rule triple_fail) (simp add: rows_counted_def ok_fits(1))
  show ?thesis
    unfolding apiComment_create_def case_prod_unfold
    by (auto split: context_type.split option.split intro!: triple_bind [OF rows_stay [OF get]] fail create)
qed

lemma counts_report: "triple counts_ok (report_create a n x) (\<lambda>_. counts_ok) counts_ok"
  unfolding report_create_def Let_def
  by (intro triple_then [where Q = counts_ok] triple_bind [where Q = "\<lambda>_. counts_ok"] triple_if counts_stay(1)
      counts_reads counts_deleteById counts.stays_intros triple_ret) assumption+

lemma counts_handlers:
  "triple (rows_counted rows) (api_createComment h dto) (\<lambda>_. fits_ok (context_left rows dto)) (fits_ok (context_left rows dto))"
  "triple counts_ok (api_createCommentReport h n x) (\<lambda>_. counts_ok) counts_ok"
  "triple counts_ok (api_deleteComment h k x) (\<lambda>_. counts_ok) counts_ok"
proof -
  have report: "triple counts_ok (case v of JNum n \<Rightarrow> report_create a n x | _ \<Rightarrow> op_fail e) (\<lambda>_. counts_ok) counts_ok"
    for v a e
    by (cases v) (auto intro: triple_fail counts_report)
  show "triple (rows_counted rows) (api_createComment h dto) (\<lambda>_. fits_ok (context_left rows dto))
     (fits_ok (context_left rows dto))"
    unfolding api_createComment_def by (rule triple_bind [OF rows_stay [OF counts.access_of] counts_create])
  note guard = counts_stay(1) [OF counts.access_of]
  show "triple counts_ok (api_createCommentReport h n x) (\<lambda>_. counts_ok) counts_ok"
    "triple counts_ok (api_deleteComment h k x) (\<lambda>_. counts_ok) counts_ok"
    unfolding api_createCommentReport_def api_deleteComment_def
    by (rule triple_bind [OF guard] counts_report
        triple_bind [OF counts_deleteAsOwner] triple_bind [OF report] triple_ret | assumption)+
qed

text \<open>
  C14. Where no request to a store fails, the counter that a proposal or a bounty carries is the number of
  its comments that are not archived, after any request to the API; but a request for a new comment whose
  body has the id of a comment leaves the counter of the context it takes the comment from, where it may
  then be one too high.
\<close>

theorem comments_counted:
  assumes "calm s" "counts_right s"
  shows "counts_fit (\<lambda>ty k. \<exists>dto. r = Api_Comment dto \<and> context_left (ct_comments s) dto ty k) (snd (serve_api h r s))
    \<and> ((\<forall>dto. r = Api_Comment dto \<longrightarrow> cd_id dto = None) \<longrightarrow> counts_right (snd (serve_api h r s)))"
    (is "counts_fit ?Q ?t \<and> _")
proof -
  have ok: "counts_ok s" using assms by (simp add: counts_ok_def)
  have right: "counts_right ?t" if "\<And>dto. r \<noteq> Api_Comment dto"
  proof (cases "comment_request r")
    case False
    show ?thesis
      by (simp only: same_counts_keep(1) [OF com_serve [OF False, unfolded com_t.stays_def, rule_format]] assms(2))
  next
    case True
    have "counts_ok (snd (api_createCommentReport h n x s))" "counts_ok (snd (api_deleteComment h k x s))" for n x k
      by (rule triple_end [OF counts_handlers(2) ok] triple_end [OF counts_handlers(3) ok])+
    moreover have "\<nexists>dto. r = Api_Comment dto" using that by blast
    ultimately show ?thesis using True by (cases r) (simp_all add: snd_void counts_ok_def)
  qed
  have fit: "counts_fit ?Q ?t"
  proof (cases "\<exists>dto. r = Api_Comment dto")
    case True
    then obtain dto where r: "r = Api_Comment dto" by blast
    have "fits_ok (context_left (ct_comments s) dto) (snd (api_createComment h dto s))"
      by (rule triple_end [OF counts_handlers(1)]) (simp add: rows_counted_def ok)
    then show ?thesis by (simp add: r snd_void fits_ok_def)
  qed (blast intro: counts_right_fit(2) [OF right])
  have none: "\<forall>ty k. \<not> ?Q ty k" if "\<forall>dto. r = Api_Comment dto \<longrightarrow> cd_id dto = None"
    using that by (auto simp: context_left_def)
  show ?thesis by (intro conjI impI fit counts_right_fit(1) [OF none fit])
qed


section \<open>Examples\<close>

text \<open>Bob has written the one comment on proposal \<open>p\<close>; there is none on proposal \<open>q\<close>.\<close>

definition sample_comment :: comment_row where
  "sample_comment = \<lparr> co_id = 1, co_daoId = ''none'', co_contextId = Some ''p'', co_contextType = Some CC_Proposal,
     co_accountId = ''bob'', co_message = ''hello'', co_isArchived = False \<rparr>"

definition sample_comments :: api_store where
  "sample_comments = sample_api\<lparr>ct_comments := [1 \<mapsto> sample_comment], ct_ids := [1], ct_sequence := 1,
     ct_proposals := [''p'' \<mapsto> (''d'', 1), ''q'' \<mapsto> (''d'', 0)]\<rparr>"

lemma comments_values:
  "calm sample_comments" "gd_keys sample_comments n a = Inr [''key'']" "gd_verify sample_comments k g = Inr (g = ''sig'')"
  "nt_daos sample_comments ''none'' = None" "ct_comments sample_comments = [1 \<mapsto> sample_comment]"
  "ct_ids sample_comments = [1]" "ct_sequence sample_comments = 1"
  "ct_proposals sample_comments = [''p'' \<mapsto> (''d'', 1), ''q'' \<mapsto> (''d'', 0)]"
  "ct_bounties sample_comments = (\<lambda>i. None)" "ct_index sample_comments = (\<lambda>i. None)"
  by (simp_all add: calm_def sample_comments_def sample_api_def sample_notifications_def sample_accounts_def
      notification_store.defs account_store.defs)

lemma sample_given: "ids_given sample_comments"
  by (auto simp: ids_given_def ids_ok_def comments_values sample_comment_def split: if_splits)

lemma sample_right: "counts_right sample_comments"
proof -
  have "{i. \<exists>c. ct_comments sample_comments i = Some c \<and> in_context CC_Proposal ''p'' c \<and> \<not> co_isArchived c} = {1}"
    "{i. \<exists>c. ct_comments sample_comments i = Some c \<and> in_context CC_Proposal ''q'' c \<and> \<not> co_isArchived c} = {}"
    by (auto simp: comments_values in_context_def sample_comment_def split: if_splits)
  then have "right_count sample_comments ty k" for ty k
    by (cases ty) (auto simp: right_count_def context_count_def comments_values split: if_splits)
  then show ?thesis using sample_given by (simp add: counts_right_def)
qed

lemma comments_token: "accountAccess (bearer ''bob'' ''key'' ''sig'') sample_comments = (Inr ''bob'', tick sample_comments)"
  by (rule access_calm) (simp_all add: comments_values bearer_access)

lemma sample_deleted:
  "ct_comments (snd (serve_api (bearer ''bob'' ''key'' ''sig'') (Api_DeleteComment ''1'' ''spam'') sample_comments)) 1
     = Some (sample_comment\<lparr>co_isArchived := True\<rparr>)"
proof -
  let ?f = "op_bind (deleteAsOwner ''1'' ''bob'') (\<lambda>c. op_bind (case js_Number (JStr ''1'') of
      JNum n \<Rightarrow> report_create ''bob'' n ''spam'' | _ \<Rightarrow> op_fail (Rejection ''NaN'')) (\<lambda>_. op_ret c))"
  have "ct_comments (snd (?f (tick sample_comments))) 1 = Some (sample_comment\<lparr>co_isArchived := True\<rparr>)"
    by code_simp
  then show ?thesis
    by (simp only: serve_api.simps snd_void api_deleteComment_def)
      (simp add: op_bind_def [of "accountAccess h" for h] comments_token)
qed

lemma comment_archived_by_witness:
  "\<exists>a k g ks. read_token (bearer ''bob'' ''key'' ''sig'') = Inr (a, k, g)
     \<and> gd_keys sample_comments (Suc (st_tick sample_comments)) a = Inr ks \<and> k \<in> set ks
     \<and> gd_verify sample_comments k g = Inr True
     \<and> comment_reason (nt_daos sample_comments) 1 sample_comment (Api_DeleteComment ''1'' ''spam'') a
         (snd (serve_api (bearer ''bob'' ''key'' ''sig'') (Api_DeleteComment ''1'' ''spam'') sample_comments))"
proof (rule comment_archived_by)
  show "ids_ok sample_comments" using sample_given by (simp add: ids_given_def)
qed (use sample_deleted in \<open>simp_all add: comments_values sample_comment_def del: serve_api.simps\<close>)

text \<open>
  Any account takes the comment of Bob, moves it to proposal \<open>q\<close> and changes its text, and the counter of
  \<open>p\<close> still counts it.
\<close>

definition taking_body :: comment_dto where
  "taking_body = \<lparr> cd_contextId = ''q'', cd_contextType = CC_Proposal, cd_message = ''bye'', cd_id = Some 1,
     cd_isArchived = None, cd_reports = [] \<rparr>"

lemma sample_taken:
  assumes "h = bearer ''al'' ''key'' ''sig''"
  shows "map_option (\<lambda>c. (co_accountId c, co_contextId c, co_message c))
       (ct_comments (snd (serve_api h (Api_Comment taking_body) sample_comments)) 1)
     = Some (''al'', Some ''q'', ''bye'')
   \<and> ct_proposals (snd (serve_api h (Api_Comment taking_body) sample_comments)) ''p'' = Some (''d'', 1)
   \<and> ct_proposals (snd (serve_api h (Api_Comment taking_body) sample_comments)) ''q'' = Some (''d'', 1)"
proof -
  have "accountAccess h sample_comments = (Inr ''al'', tick sample_comments)"
    unfolding assms by (rule access_calm) (simp_all add: comments_values bearer_access)
  then have run: "snd (serve_api h (Api_Comment taking_body) sample_comments)
      = snd (apiComment_create ''al'' taking_body (tick sample_comments))"
    by (simp add: snd_void api_createComment_def op_bind_def)
  show ?thesis unfolding run by code_simp
qed

lemma comments_counted_witness:
  "counts_fit (\<lambda>ty k. \<exists>dto. Api_Comment taking_body = Api_Comment dto \<and> context_left (ct_comments sample_comments) dto ty k)
     (snd (serve_api (bearer ''al'' ''key'' ''sig'') (Api_Comment taking_body) sample_comments))
   \<and> counts_right (snd (serve_api (bearer ''bob'' ''key'' ''sig'') (Api_DeleteComment ''1'' ''spam'') sample_comments))"
  using comments_counted [OF comments_values(1) sample_right, of "Api_Comment taking_body" "bearer ''al'' ''key'' ''sig''"]
    comments_counted [OF comments_values(1) sample_right, of "Api_DeleteComment ''1'' ''spam''" "bearer ''bob'' ''key'' ''sig''"]
  by (simp del: serve_api.simps)

end
