(* ===== verification/Spec2Isabelle.thy ===== *)
theory Spec2Isabelle
  imports Dynamo_Service World Sputnik_Service Bounty_Service Proposal_Service Permissions Casts_Dao
    Casts_Proposal Casts_Bounty Token_Service Dao_Service Search_Service Support_Services Tx_Handlers
    Tx_Assets Tx_Dispatch Row_Invariant Indexer_Processor
    Draft_Stores Comment_Life Dao_Funds Aggregator_Steps Aggregator_Facts Notifier_Facts Api_Comments
begin

text \<open>
  Astro API Gateway: the services that mirror the Sputnik DAO contracts of the NEAR blockchain in
  databases and serve and notify the users of the DAOs. This development models the core of the
  gateway, definition by definition from the TypeScript sources under \<open>apps\<close> and \<open>libs\<close>, and proves
  what makes it correct, or what it does where it errs.

  How the parts of the program interact. The indexer processor reads receipts from a Redis stream,
  turns each action into a transaction action and hands it to the transaction handler, which reads
  the contract through the RPC, casts the contract's data to the gateway's entities, stores them in
  PostgreSQL and DynamoDB, indexes them in OpenSearch, sends events and clears the cache. The API
  reaches the same handler through the wallet callback. The draft service keeps drafts of proposals
  and their comments in MongoDB and DynamoDB.

  Two styles of model. Code that works on databases of others' making (PostgreSQL through TypeORM,
  DynamoDB through the AWS client, the RPC, OpenSearch, Redis) is a computation over a world of
  oracles with a trace of the calls made (\<open>Effects\<close>, \<open>World\<close>): every awaited request is one call, the
  answer may depend on all calls before it, so that every theorem holds for every behaviour of the
  outside, failures included. Code that owns its tables (drafts, comments, accounts, notifications) is a function on an
  explicit state (\<open>Store_Effects\<close>) in which every request may be lost or go unacknowledged;
  \<open>Store_Logic\<close> holds triples for it. What the model cannot read (hashes, JSON, clocks, big decimal
  powers, camelcase-keys) are the fields of the environment \<open>env\<close>, arguments of the definitions that use them;
  so are the operations of decimal.js in the statistics (\<open>decimal_lib\<close>). The API's validation checks the
  declared properties of a body and passes on the others: the bodies that a service saves as they are
  (addresses of accounts, comments) are whole accounts and comments here.

  Theories and the code they model, from the bottom:
  \<^item> \<open>Prelude\<close>: exceptions, dynamic JavaScript values, texts and numbers of JavaScript, generic
    lemmas; \<open>Keyed_Lists\<close>: the interface of lists updated by key.
  \<^item> \<open>Domain\<close>: entities, DTOs and enumerations of \<open>libs/*/src/{types,entities,dto}\<close>; \<open>Utils\<close>:
    \<open>libs/utils\<close>; \<open>Permissions\<close>: who may do what with a proposal.
  \<^item> \<open>Casts_Dao\<close>, \<open>Casts_Proposal\<close>, \<open>Casts_Bounty\<close>: from the contract's data to entities
    (\<open>libs/transaction-handler/src/types\<close>, \<open>libs/proposal/src/dto\<close>).
  \<^item> \<open>Dynamo_Data\<close>, \<open>Dynamo_Service\<close>: \<open>libs/dynamodb\<close>, every operation of \<open>DynamodbService\<close>.
  \<^item> \<open>Effects\<close>, \<open>World\<close>, \<open>Call_Invariants\<close>: computations, calls and oracles, and invariants of the calls.
  \<^item> \<open>Sputnik_Service\<close>, \<open>Bounty_Service\<close>, \<open>Proposal_Service\<close>, \<open>Token_Service\<close>, \<open>Dao_Service\<close>,
    \<open>Search_Service\<close>, \<open>Support_Services\<close>, \<open>Error_Tracker\<close>: the services of \<open>libs\<close> with these names,
    with the interface of services that write to both stores (locale \<open>dual_write\<close>).
  \<^item> \<open>Tx_Handlers\<close>, \<open>Tx_Assets\<close>, \<open>Tx_Dispatch\<close>: \<open>transaction-action-handler.service.ts\<close>, every handler, the
    table of handlers and the lists of actions; \<open>Row_Invariant\<close>: the invariant of what they store.
  \<^item> \<open>Tx_Mapper\<close>, \<open>Tx_Service\<close>: from transactions and receipts to actions, the handler's state, the
    wallet callback; \<open>Indexer_Processor\<close>: \<open>apps/indexer-processor\<close>, with the Redis stream and the
    recording and resolving of errors.
  \<^item> \<open>Draft_Proposals\<close>, \<open>Draft_Life\<close>, \<open>Draft_Stores\<close>: \<open>libs/draft-proposal\<close>; \<open>Draft_Comments\<close>,
    \<open>Comment_Life\<close>: \<open>libs/draft-comment\<close>.
  \<^item> \<open>Dao_Funds\<close>: \<open>libs/dao-funds\<close>, the balances per day; \<open>Dao_Stats\<close>: \<open>libs/stats\<close>.
  \<^item> \<open>Aggregators\<close>, \<open>Aggregator_Service\<close>: \<open>apps/aggregator\<close>, the aggregators and the timers and events that
    start them; \<open>Aggregator_Steps\<close>: their interleaving as a step relation; \<open>Aggregator_Facts\<close>: what they write.
  \<^item> \<open>Store_Loops\<close>: loops and \<open>Promise.all\<close> over stores; \<open>Notification_Data\<close>, \<open>Accounts\<close>, \<open>Account_Facts\<close>:
    \<open>libs/account\<close>, \<open>libs/otp\<close>, \<open>libs/notifi-client\<close>; \<open>Notifications\<close>, \<open>Notifier_Facts\<close>: \<open>libs/notification\<close>,
    \<open>libs/subscription\<close>, \<open>apps/notifier\<close>.
  \<^item> \<open>Api_Guards\<close>: the guards of the API; \<open>Templates\<close>: \<open>libs/proposal-template\<close>, \<open>libs/dao-settings\<close>;
    \<open>Comments\<close>: \<open>libs/comment\<close>; \<open>Api_Requests\<close>: the controllers of \<open>apps/api\<close> for accounts, notifications,
    subscriptions, comments, templates and settings, each handler behind its guards, and \<open>serve_api\<close>, which
    serves a request. \<open>Api_Frames\<close>: locales for what each group of handlers leaves alone; \<open>Api_Facts\<close>,
    \<open>Api_Daos\<close>, \<open>Api_Comments\<close>: whose data a request may change, for accounts, DAOs and comments.

  What the lemmas show. Invariants: rows stored by any list of actions are well formed, the member
  counters of a DAO are those of its lists, a closed draft stays closed, likes exclude dislikes.
  Handling: an action is handled once, a list in order up to its first failure, a receipt wholly or
  with its error recorded. Functional descriptions with an equivalence: casts, permissions, claims,
  funds, caches. Refinement: saving reaches both stores, the two stores of drafts stay in step
  but for events that name another DAO.
  Round trips: stored values, ids of proposals. Termination: batches return. Aggregations:
  which exclude each other, that each ends and can start again, and what they write. Accounts: an
  address is confirmed only by an accepted code, or by a body that carries it along with the other address, and
  for how long a code is accepted. Notifications:
  who is told, what may be sent to whom, and what reading and archiving all of them leaves. The API:
  which tokens are let through, whose accounts, DAOs and comments a request may change, and that the
  counters of comments count them, unless a body takes a comment away from its context.

  Bounds and fuel. Loops that may not end are partial functions: the batch loops of \<open>DynamodbService\<close>
  (when DynamoDB never accepts an item), its generators of pages and the splitting into chunks;
  their theorems suppose that every call makes progress, or that the table's pages end, and then
  show a result. The chunks of NFTs are read with the fuel \<open>e_fuel\<close>, enough as soon as it exceeds the
  number of chunks the contract serves, as their theorem supposes. Retries are bounded in the code and unrolled. All other
  recursion is structural. Numbers are mathematical integers where the code has \<open>BigInt\<close> or
  counters far below 2 to the 53, rationals where it has \<open>Decimal\<close>, whose
  rounding is that of the parameter.

  Interfaces. What rests on another component goes through locales, each interpreted on the model:
  lists updated by key, services that write to both stores, relations that operations keep
  (\<open>state_relation\<close> and the frames over it), the writes of an account (\<open>account_writes\<close>).

  Not modelled, and why: the modules and the DTO validation of the apps, the HTTP cache and the rate
  limits (NestJS wiring and decorators), and the controllers that only list or forward: those of the
  drafts and of the listings; queries that only build SQL or Mongo filters (searches, feeds, listings of
  the API); the migrations (one-off scripts over production data); the clients of third parties
  (Notifi, LaunchDarkly, AWS, near-api-js), whose calls are oracles or functions of the state, like
  bcrypt and \<open>Math.random\<close>; \<open>PromisePool\<close>, a parameter that runs the computations it is given; sockets;
  the configuration; logging. Requests are executed one after the other: the interleaving of two
  requests is not modelled, except for the aggregations (\<open>Aggregator_Steps\<close>) and in that an oracle
  may answer as if others had written meanwhile.
\<close>

end
